(* ===== verification/Go_Strings.thy ===== *)
theory Go_Strings
  imports Main
begin

text \<open>
  The prelude of the development: Go's byte strings and the functions of the packages
  \<open>strings\<close>, \<open>strconv\<close> and \<open>path\<close> that the adapter calls, with the generic lemmas
  about them that the component theories share. A Go \<open>string\<close> or \<open>[]byte\<close> is a
  \<^typ>\<open>string\<close>, a list of bytes. Functions that can fail return an option
  (\<^term>\<open>None\<close> is Go's non-nil error).

  The collection \<open>go_defs\<close> holds the equations that unfold the small library functions,
  \<open>go_clean\<close> the facts that say which strings the trimming and splitting functions
  leave alone.
\<close>

named_theorems go_defs
named_theorems go_clean

subsection \<open>Prefixes and searching\<close>

definition HasPrefix :: "string \<Rightarrow> string \<Rightarrow> bool" where
  "HasPrefix s p \<longleftrightarrow> take (length p) s = p"

definition TrimPrefix :: "string \<Rightarrow> string \<Rightarrow> string" where
  "TrimPrefix s p = (if HasPrefix s p then drop (length p) s else s)"

text \<open>\<open>strings.Index\<close>: the first position of a substring, \<^term>\<open>None\<close> for Go's -1.\<close>

fun Index :: "string \<Rightarrow> string \<Rightarrow> nat option" where
  "Index [] p = (if p = [] then Some 0 else None)"
| "Index (c # s) p =
     (if HasPrefix (c # s) p then Some 0 else map_option Suc (Index s p))"

definition Contains :: "string \<Rightarrow> string \<Rightarrow> bool" where
  "Contains s p \<longleftrightarrow> Index s p \<noteq> None"

subsection \<open>Splitting and joining\<close>

text \<open>\<open>strings.Split\<close> with a one-byte separator; never empty.\<close>

fun Split :: "char \<Rightarrow> string \<Rightarrow> string list" where
  "Split c [] = [[]]"
| "Split c (x # s) =
     (if x = c then [] # Split c s
      else (case Split c s of [] \<Rightarrow> [[x]] | w # ws \<Rightarrow> (x # w) # ws))"

text \<open>\<open>strings.SplitN(s, c, 2)\<close>: at the first separator only.\<close>

definition SplitN2 :: "char \<Rightarrow> string \<Rightarrow> string list" where
  "SplitN2 c s =
     (if c \<in> set s then [takeWhile (\<lambda>x. x \<noteq> c) s, tl (dropWhile (\<lambda>x. x \<noteq> c) s)] else [s])"

fun Join :: "string list \<Rightarrow> string \<Rightarrow> string" where
  "Join [] sep = []"
| "Join [w] sep = w"
| "Join (w # ws) sep = w @ sep @ Join ws sep"

subsection \<open>Trimming\<close>

text \<open>
  \<open>strings.TrimSpace\<close> removes Unicode white space. On bytes, a white-space character is
  one of the UTF-8 sequences below; a sequence is removed at either end as long as one
  stands there.
\<close>

definition space_seqs :: "string list" where
  "space_seqs =
     [[CHR 0x09], [CHR 0x0A], [CHR 0x0B], [CHR 0x0C], [CHR 0x0D], [CHR 0x20],
      [CHR 0xC2, CHR 0x85], [CHR 0xC2, CHR 0xA0], [CHR 0xE1, CHR 0x9A, CHR 0x80],
      [CHR 0xE2, CHR 0x80, CHR 0x80], [CHR 0xE2, CHR 0x80, CHR 0x81],
      [CHR 0xE2, CHR 0x80, CHR 0x82], [CHR 0xE2, CHR 0x80, CHR 0x83],
      [CHR 0xE2, CHR 0x80, CHR 0x84], [CHR 0xE2, CHR 0x80, CHR 0x85],
      [CHR 0xE2, CHR 0x80, CHR 0x86], [CHR 0xE2, CHR 0x80, CHR 0x87],
      [CHR 0xE2, CHR 0x80, CHR 0x88], [CHR 0xE2, CHR 0x80, CHR 0x89],
      [CHR 0xE2, CHR 0x80, CHR 0x8A], [CHR 0xE2, CHR 0x80, CHR 0xA8],
      [CHR 0xE2, CHR 0x80, CHR 0xA9], [CHR 0xE2, CHR 0x80, CHR 0xAF],
      [CHR 0xE2, CHR 0x81, CHR 0x9F], [CHR 0xE3, CHR 0x80, CHR 0x80]]"

function strip_seqs :: "string list \<Rightarrow> string \<Rightarrow> string" where
  "strip_seqs ws s =
     (case find (\<lambda>w. w \<noteq> [] \<and> HasPrefix s w) ws of
        None \<Rightarrow> s
      | Some w \<Rightarrow> strip_seqs ws (drop (length w) s))"
  by pat_completeness auto
termination
proof (relation "measure (\<lambda>(ws, s). length s)", goal_cases)
  case (2 ws s w)
  then have "w \<noteq> [] \<and> HasPrefix s w" by (auto simp: find_Some_iff)
  then have "s \<noteq> []" by (auto simp: HasPrefix_def)
  with \<open>w \<noteq> [] \<and> HasPrefix s w\<close> show ?case by (cases s; cases w) auto
qed simp

declare strip_seqs.simps [simp del]

definition TrimSpace :: "string \<Rightarrow> string" where
  "TrimSpace s = rev (strip_seqs (map rev space_seqs) (rev (strip_seqs space_seqs s)))"

text \<open>\<open>strings.Trim\<close> with a one-byte cutset.\<close>

definition TrimByte :: "char \<Rightarrow> string \<Rightarrow> string" where
  "TrimByte c s = rev (dropWhile (\<lambda>x. x = c) (rev (dropWhile (\<lambda>x. x = c) s)))"

subsection \<open>Decimal numbers\<close>

definition digit_char :: "nat \<Rightarrow> char" where
  "digit_char d = char_of (48 + d)"

fun nat_dec :: "nat \<Rightarrow> string" where
  "nat_dec n = (if n < 10 then [digit_char n] else nat_dec (n div 10) @ [digit_char (n mod 10)])"

declare nat_dec.simps [simp del]

text \<open>The verb \<open>%d\<close> on an \<open>int64\<close>.\<close>

definition int_dec :: "int \<Rightarrow> string" where
  "int_dec i = (if i < 0 then CHR ''-'' # nat_dec (nat (- i)) else nat_dec (nat i))"

definition is_digit :: "char \<Rightarrow> bool" where
  "is_digit c \<longleftrightarrow> 48 \<le> (of_char c :: nat) \<and> (of_char c :: nat) \<le> 57"

definition digit_val :: "char \<Rightarrow> nat" where
  "digit_val c = of_char c - 48"

definition dec_val :: "string \<Rightarrow> nat" where
  "dec_val s = foldl (\<lambda>a c. 10 * a + digit_val c) 0 s"

text \<open>
  \<open>strconv.ParseInt(s, 10, 64)\<close> and \<open>strconv.Atoi\<close> (whose \<open>int\<close> has 64 bits on the
  supported platforms): an optional sign, at least one digit, nothing else, and a value
  in the range of a signed 64-bit integer.
\<close>

definition ParseInt64 :: "string \<Rightarrow> int option" where
  "ParseInt64 s =
     (let (neg, ds) = (case s of
            [] \<Rightarrow> (False, [])
          | c # cs \<Rightarrow> if c = CHR ''-'' then (True, cs)
                      else if c = CHR ''+'' then (False, cs) else (False, s));
          v = (if neg then - int (dec_val ds) else int (dec_val ds))
      in if ds \<noteq> [] \<and> list_all is_digit ds \<and> - (2 ^ 63) \<le> v \<and> v < 2 ^ 63
         then Some v else None)"

definition Atoi :: "string \<Rightarrow> int option" where
  "Atoi s = ParseInt64 s"

text \<open>\<open>strconv.ParseBool\<close>.\<close>

definition ParseBool :: "string \<Rightarrow> bool option" where
  "ParseBool s =
     (if s \<in> set [''1'', ''t'', ''T'', ''true'', ''TRUE'', ''True''] then Some True
      else if s \<in> set [''0'', ''f'', ''F'', ''false'', ''FALSE'', ''False''] then Some False
      else None)"

subsection \<open>Quoting\<close>

text \<open>
  The verb \<open>%q\<close> (\<open>strconv.Quote\<close>) on ASCII text; bytes above 127 stand for printable
  characters, which it keeps.
\<close>

definition hex_digit :: "nat \<Rightarrow> char" where
  "hex_digit d = (if d < 10 then char_of (48 + d) else char_of (87 + d))"

definition quote_byte :: "char \<Rightarrow> string" where
  "quote_byte c =
     (let n = (of_char c :: nat); bs = CHR 0x5C
      in if n = 0x22 \<or> n = 0x5C then [bs, c]
         else if n = 7 then [bs, CHR ''a''] else if n = 8 then [bs, CHR ''b'']
         else if n = 12 then [bs, CHR ''f''] else if n = 10 then [bs, CHR ''n'']
         else if n = 13 then [bs, CHR ''r''] else if n = 9 then [bs, CHR ''t'']
         else if n = 11 then [bs, CHR ''v'']
         else if n < 32 \<or> n = 127 then [bs, CHR ''x'', hex_digit (n div 16), hex_digit (n mod 16)]
         else [c])"

definition go_quote :: "string \<Rightarrow> string" where
  "go_quote s = [CHR 0x22] @ concat (map quote_byte s) @ [CHR 0x22]"

subsection \<open>Upper case\<close>

text \<open>
  \<open>strings.ToUpper\<close> on a one-byte slice: ASCII letters are raised, and a lone byte above
  127 is not valid UTF-8 and becomes U+FFFD.
\<close>

definition upper_byte :: "char \<Rightarrow> string" where
  "upper_byte c =
     (let n = (of_char c :: nat)
      in if 97 \<le> n \<and> n \<le> 122 then [char_of (n - 32)]
         else if 128 \<le> n then [CHR 0xEF, CHR 0xBF, CHR 0xBD] else [c])"

subsection \<open>Slash-separated paths\<close>

text \<open>
  \<open>path.Clean\<close>: empty and \<open>.\<close> elements vanish, \<open>..\<close> removes the element before it
  (and is dropped at the root of a rooted path), and the empty result is \<open>.\<close>.
\<close>

fun clean_elems :: "bool \<Rightarrow> string list \<Rightarrow> string list \<Rightarrow> string list" where
  "clean_elems rooted acc [] = rev acc"
| "clean_elems rooted acc (e # es) =
     (if e = [] \<or> e = ''.'' then clean_elems rooted acc es
      else if e = ''..'' then
        (case acc of
           [] \<Rightarrow> if rooted then clean_elems rooted [] es else clean_elems rooted [e] es
         | a # as \<Rightarrow> if a = ''..'' then clean_elems rooted (e # acc) es
                      else clean_elems rooted as es)
      else clean_elems rooted (e # acc) es)"

definition path_Clean :: "string \<Rightarrow> string" where
  "path_Clean p =
     (let rooted = HasPrefix p ''/'';
          body = Join (clean_elems rooted [] (Split (CHR ''/'') p)) ''/''
      in if rooted then CHR ''/'' # body else if body = [] then ''.'' else body)"

text \<open>\<open>path.Join\<close> of two elements: empty elements are ignored.\<close>

definition path_Join :: "string \<Rightarrow> string \<Rightarrow> string" where
  "path_Join a b =
     (if a = [] \<and> b = [] then []
      else if a = [] then path_Clean b
      else if b = [] then path_Clean a
      else path_Clean (a @ ''/'' @ b))"

subsection \<open>Lemmas\<close>

lemma HasPrefix_append [simp]: "HasPrefix (p @ s) p"
  by (simp add: HasPrefix_def)

lemma HasPrefix_Cons [simp]: "HasPrefix (c # s) (d # p) \<longleftrightarrow> c = d \<and> HasPrefix s p"
  by (auto simp: HasPrefix_def)

lemma HasPrefix_Nil [simp]: "HasPrefix s []" and HasPrefix_Nil_Cons [simp]: "\<not> HasPrefix [] (d # p)"
  by (auto simp: HasPrefix_def)

lemma TrimPrefix_append [simp]: "TrimPrefix (p @ s) p = s"
  by (simp add: TrimPrefix_def)

lemma Index_append [simp]: "p \<noteq> [] \<Longrightarrow> Index (p @ s) p = Some 0"
  by (cases p) auto

text \<open>
  The marker searches of the adapter skip a part of a header that cannot hold the marker's
  first byte.
\<close>

lemma Index_skip:
  assumes "c \<notin> set u"
  shows "Index (u @ c # p @ s) (c # p) = Some (length u)"
  using assms by (induction u) auto

lemma Index_byte: "c \<notin> set u \<Longrightarrow> Index (u @ c # s) [c] = Some (length u)"
  using Index_skip [of c u "[]" s] by simp

lemma Index_byte_None: "Index s [c] = None \<longleftrightarrow> c \<notin> set s"
  by (induction s) auto

lemma Split_nonempty [simp]: "Split c s \<noteq> []"
  by (induction s) (auto split: list.splits)

lemma Split_single: "c \<notin> set s \<Longrightarrow> Split c s = [s]"
  by (induction s) auto

lemma Split_append:
  "c \<notin> set u \<Longrightarrow> Split c (u @ c # s) = u # Split c s"
  by (induction u) auto

lemma Split_pieces: "w \<in> set (Split c s) \<Longrightarrow> c \<notin> set w"
  by (induction s arbitrary: w) (auto split: list.splits if_splits)

lemma Join_Split: "Join (Split c s) [c] = s"
proof (induction s)
  case (Cons x s)
  then show ?case
    by (cases "Split c s"; cases "tl (Split c s)") (auto split: list.splits)
qed simp

lemma SplitN2_append: "c \<notin> set u \<Longrightarrow> SplitN2 c (u @ c # s) = [u, s]"
  by (induction u) (auto simp: SplitN2_def)

lemma SplitN2_single: "c \<notin> set u \<Longrightarrow> SplitN2 c u = [u]"
  by (simp add: SplitN2_def)

lemma TrimByte_quoted: "c \<notin> set u \<Longrightarrow> TrimByte c (c # u @ [c]) = u"
proof (cases u rule: rev_cases)
  case (snoc v x)
  moreover assume "c \<notin> set u"
  ultimately have "dropWhile (\<lambda>y. y = c) (v @ [x, c]) = v @ [x, c]"
    by (cases v) auto
  with snoc \<open>c \<notin> set u\<close> show ?thesis by (auto simp: TrimByte_def)
qed (simp add: TrimByte_def)

text \<open>Printable ASCII without the space: what the trimming functions never touch.\<close>

definition graphic :: "char \<Rightarrow> bool" where
  "graphic c \<longleftrightarrow> 33 \<le> (of_char c :: nat) \<and> (of_char c :: nat) \<le> 126"

lemma space_seqs_ends: "list_all (\<lambda>w. w \<noteq> [] \<and> \<not> graphic (hd w) \<and> \<not> graphic (last w)) space_seqs"
  by (simp add: space_seqs_def graphic_def)

lemma strip_seqs_graphic:
  assumes "list_all (\<lambda>w. w \<noteq> [] \<and> \<not> graphic (hd w)) ws" and "s = [] \<or> graphic (hd s)"
  shows "strip_seqs ws s = s"
proof -
  have "find (\<lambda>w. w \<noteq> [] \<and> HasPrefix s w) ws = None"
  proof -
    have "\<not> HasPrefix s w" if "w \<in> set ws" for w
    proof -
      from that assms(1) have "w \<noteq> []" and "\<not> graphic (hd w)"
        unfolding list_all_iff by blast+
      then obtain a v where "w = a # v" and "\<not> graphic a"
        by (cases w) auto
      with assms(2) show ?thesis by (cases s) auto
    qed
    then show ?thesis by (auto simp: find_None_iff)
  qed
  then show ?thesis by (subst strip_seqs.simps) simp
qed

lemma TrimSpace_graphic_ends:
  assumes "s = [] \<or> graphic (hd s) \<and> graphic (last s)"
  shows "TrimSpace s = s"
proof -
  have left: "list_all (\<lambda>w. w \<noteq> [] \<and> \<not> graphic (hd w)) space_seqs"
    and right: "list_all (\<lambda>w. w \<noteq> [] \<and> \<not> graphic (hd w)) (map rev space_seqs)"
    using space_seqs_ends by (auto simp: list_all_iff hd_rev)
  have "strip_seqs space_seqs s = s"
    by (rule strip_seqs_graphic [OF left]) (use assms in auto)
  moreover have "strip_seqs (map rev space_seqs) (rev s) = rev s"
    by (rule strip_seqs_graphic [OF right]) (use assms in \<open>auto simp: hd_rev\<close>)
  ultimately show ?thesis by (simp add: TrimSpace_def)
qed

lemma TrimSpace_graphic [go_clean]:
  "list_all graphic s \<Longrightarrow> TrimSpace s = s"
  by (rule TrimSpace_graphic_ends) (auto simp: list_all_iff)

lemma TrimSpace_Nil [simp]: "TrimSpace [] = []"
  by (rule TrimSpace_graphic_ends) simp

subsection \<open>Printing and parsing decimals\<close>

lemma of_char_digit [simp]: "d < 10 \<Longrightarrow> of_char (digit_char d) = (48 + d :: nat)"
  by (simp add: digit_char_def)

lemma digit_char_digit [simp]: "d < 10 \<Longrightarrow> is_digit (digit_char d)"
  by (simp add: is_digit_def)

lemma digit_val_char [simp]: "d < 10 \<Longrightarrow> digit_val (digit_char d) = d"
  by (simp add: digit_val_def)

lemma nat_dec_digits: "list_all is_digit (nat_dec n)"
proof (induction n rule: nat_dec.induct)
  case (1 n)
  then show ?case by (cases "n < 10") (simp_all add: nat_dec.simps [of n])
qed

lemma nat_dec_nonempty [simp]: "nat_dec n \<noteq> []"
  by (subst nat_dec.simps) simp

lemma dec_val_snoc: "dec_val (s @ [c]) = 10 * dec_val s + digit_val c"
  by (simp add: dec_val_def)

lemma dec_val_nat_dec [simp]: "dec_val (nat_dec n) = n"
proof (induction n rule: nat_dec.induct)
  case (1 n)
  then show ?case
    by (cases "n < 10") (simp_all add: nat_dec.simps [of n] dec_val_snoc dec_val_def [of "[_]"])
qed

lemma digit_not_sign: "is_digit c \<Longrightarrow> c \<noteq> CHR ''-'' \<and> c \<noteq> CHR ''+''"
  by (auto simp: is_digit_def)

lemma hd_nat_dec_digit: "is_digit (hd (nat_dec n))"
  using nat_dec_digits [of n] nat_dec_nonempty [of n] by (cases "nat_dec n") auto

lemma ParseInt64_int_dec:
  assumes "- (2 ^ 63) \<le> i" and "i < 2 ^ 63"
  shows "ParseInt64 (int_dec i) = Some i"
proof (cases "i < 0")
  case True
  with assms show ?thesis
    by (simp add: int_dec_def ParseInt64_def nat_dec_digits)
next
  case False
  obtain c cs where cs: "nat_dec (nat i) = c # cs"
    using nat_dec_nonempty [of "nat i"] by (cases "nat_dec (nat i)") auto
  then have "is_digit c" using hd_nat_dec_digit [of "nat i"] by simp
  with cs False assms nat_dec_digits [of "nat i"] dec_val_nat_dec [of "nat i"] show ?thesis
    by (auto simp: int_dec_def ParseInt64_def Let_def dest: digit_not_sign)
qed

text \<open>The bytes of a printed number: digits and the sign.\<close>

lemma int_dec_bytes: "c \<in> set (int_dec i) \<Longrightarrow> is_digit c \<or> c = CHR ''-''"
  using nat_dec_digits [of "nat i"] nat_dec_digits [of "nat (- i)"]
  by (auto simp: int_dec_def list_all_iff split: if_splits)

lemma int_dec_nonempty [simp]: "int_dec i \<noteq> []"
  by (simp add: int_dec_def)

lemma int_dec_graphic: "list_all graphic (int_dec i)"
  by (auto simp: list_all_iff graphic_def is_digit_def dest!: int_dec_bytes)

lemma int_dec_avoids:
  "\<not> is_digit c \<Longrightarrow> c \<noteq> CHR ''-'' \<Longrightarrow> c \<notin> set (int_dec i)"
  using int_dec_bytes by blast

end
