(* ===== verification/Go_Json.thy ===== *)
theory Go_Json
  imports Go_Strings
begin

text \<open>
  The part of Go's \<open>encoding/json\<close> that the adapter uses. The decoder is the byte-driven
  state machine of the package's scanner: a mode and a stack of open containers, one
  transition per byte, and a final blank fed at the end of the input as \<open>scanner.eof\<close>
  does. It therefore terminates by construction and needs no fuel. Numbers keep their
  literal text: the adapter never does arithmetic on a decoded number.
\<close>

datatype json =
    JNull
  | JBool bool
  | JNum string
  | JStr string
  | JArr "json list"
  | JObj "(string \<times> json) list"

subsection \<open>UTF-8\<close>

definition replacement_char :: string where
  "replacement_char = [CHR 0xEF, CHR 0xBF, CHR 0xBD]"

definition utf8_encode :: "nat \<Rightarrow> string" where
  "utf8_encode r =
     (if r < 0x80 then [char_of r]
      else if r < 0x800 then [char_of (0xC0 + r div 64), char_of (0x80 + r mod 64)]
      else if r < 0x10000 then
        [char_of (0xE0 + r div 4096), char_of (0x80 + r div 64 mod 64), char_of (0x80 + r mod 64)]
      else
        [char_of (0xF0 + r div 262144), char_of (0x80 + r div 4096 mod 64),
         char_of (0x80 + r div 64 mod 64), char_of (0x80 + r mod 64)])"

definition in_range :: "nat \<Rightarrow> nat \<Rightarrow> char \<Rightarrow> bool" where
  "in_range lo hi c \<longleftrightarrow> lo \<le> (of_char c :: nat) \<and> (of_char c :: nat) \<le> hi"

text \<open>The length of the valid UTF-8 sequence at the head of a byte string, 0 if there is none.\<close>

definition utf8_len :: "string \<Rightarrow> nat" where
  "utf8_len s = (case s of
      [] \<Rightarrow> 0
    | a # t \<Rightarrow>
       if in_range 0 0x7F a then 1
       else (case t of
          [] \<Rightarrow> 0
        | b # t2 \<Rightarrow>
           if in_range 0xC2 0xDF a then (if in_range 0x80 0xBF b then 2 else 0)
           else (case t2 of
              [] \<Rightarrow> 0
            | c # t3 \<Rightarrow>
               if in_range 0xE0 0xEF a then
                 (if in_range (if a = CHR 0xE0 then 0xA0 else 0x80)
                              (if a = CHR 0xED then 0x9F else 0xBF) b
                     \<and> in_range 0x80 0xBF c then 3 else 0)
               else (case t3 of
                  [] \<Rightarrow> 0
                | d # _ \<Rightarrow>
                   if in_range 0xF0 0xF4 a
                      \<and> in_range (if a = CHR 0xF0 then 0x90 else 0x80)
                                  (if a = CHR 0xF4 then 0x8F else 0xBF) b
                      \<and> in_range 0x80 0xBF c \<and> in_range 0x80 0xBF d
                   then 4 else 0))))"

text \<open>Decoded strings are valid UTF-8: each byte that starts no valid sequence becomes U+FFFD.\<close>

function utf8_coerce :: "string \<Rightarrow> string" where
  "utf8_coerce [] = []"
| "utf8_coerce (c # s) =
     (let n = utf8_len (c # s)
      in if n = 0 then replacement_char @ utf8_coerce s
         else take n (c # s) @ utf8_coerce (drop (n - 1) s))"
  by pat_completeness auto
termination by (relation "measure length") auto

subsection \<open>String literals\<close>

definition hex_val :: "char \<Rightarrow> nat" where
  "hex_val c =
     (let n = of_char c
      in if is_digit c then n - 48 else if 97 \<le> n then n - 87 else n - 55)"

definition is_hex :: "char \<Rightarrow> bool" where
  "is_hex c \<longleftrightarrow> is_digit c \<or> in_range 97 102 c \<or> in_range 65 70 c"

definition hex4 :: "char \<Rightarrow> char \<Rightarrow> char \<Rightarrow> char \<Rightarrow> nat" where
  "hex4 a b c d = ((hex_val a * 16 + hex_val b) * 16 + hex_val c) * 16 + hex_val d"

definition unescape :: "char \<Rightarrow> char" where
  "unescape e =
     (if e = CHR ''b'' then CHR 0x08 else if e = CHR ''f'' then CHR 0x0C
      else if e = CHR ''n'' then CHR 0x0A else if e = CHR ''r'' then CHR 0x0D
      else if e = CHR ''t'' then CHR 0x09 else e)"

text \<open>
  \<open>unquote\<close>: the body of a string literal whose escapes the scanner has checked. A
  surrogate that is not the first half of a pair becomes U+FFFD.
\<close>

fun unquote :: "string \<Rightarrow> string" where
  "unquote [] = []"
| "unquote (x # s) =
     (if x \<noteq> CHR 0x5C then x # unquote s
      else (case s of
          [] \<Rightarrow> []
        | e # t \<Rightarrow>
           if e \<noteq> CHR ''u'' then unescape e # unquote t
           else (case t of
               a # b # c # d # t1 \<Rightarrow>
                 (let r = hex4 a b c d
                  in if r < 0xD800 \<or> 0xE000 \<le> r then utf8_encode r @ unquote t1
                     else (case t1 of
                         k # u # a' # b' # c' # d' # t2 \<Rightarrow>
                           (let r' = hex4 a' b' c' d'
                            in if k = CHR 0x5C \<and> u = CHR ''u'' \<and> r < 0xDC00
                                  \<and> 0xDC00 \<le> r' \<and> r' < 0xE000
                               then utf8_encode (0x10000 + (r - 0xD800) * 1024 + (r' - 0xDC00))
                                    @ unquote t2
                               else replacement_char @ unquote t1)
                       | _ \<Rightarrow> replacement_char @ unquote t1))
             | _ \<Rightarrow> [])))"

subsection \<open>The scanner\<close>

datatype numst = NNeg | NZero | NInt | NDot | NFrac | NExp | NExpSign | NExpInt

definition num_next :: "numst \<Rightarrow> char \<Rightarrow> numst option" where
  "num_next st c =
     (let expo = (c = CHR ''e'' \<or> c = CHR ''E'') in case st of
        NNeg \<Rightarrow> if c = CHR ''0'' then Some NZero else if is_digit c then Some NInt else None
      | NZero \<Rightarrow> if c = CHR ''.'' then Some NDot else if expo then Some NExp else None
      | NInt \<Rightarrow> if is_digit c then Some NInt else if c = CHR ''.'' then Some NDot
                 else if expo then Some NExp else None
      | NDot \<Rightarrow> if is_digit c then Some NFrac else None
      | NFrac \<Rightarrow> if is_digit c then Some NFrac else if expo then Some NExp else None
      | NExp \<Rightarrow> if c = CHR ''+'' \<or> c = CHR ''-'' then Some NExpSign
                 else if is_digit c then Some NExpInt else None
      | NExpSign \<Rightarrow> if is_digit c then Some NExpInt else None
      | NExpInt \<Rightarrow> if is_digit c then Some NExpInt else None)"

definition num_accept :: "numst \<Rightarrow> bool" where
  "num_accept st \<longleftrightarrow> st \<in> {NZero, NInt, NFrac, NExpInt}"

definition num_begin :: "char \<Rightarrow> numst option" where
  "num_begin c =
     (if c = CHR ''-'' then Some NNeg else if c = CHR ''0'' then Some NZero
      else if is_digit c then Some NInt else None)"

datatype frame =
    FArr "json list"
  | FObj "(string \<times> json) list"
  | FMem "(string \<times> json) list" string

datatype mode =
    MValue
  | MElem0
  | MKey0
  | MKey
  | MColon string
  | MAfter json
  | MStr bool string
  | MEsc bool string
  | MHex bool string nat
  | MNum numst string
  | MLit string json

type_synonym scan_state = "mode \<times> frame list"

definition max_depth :: nat where
  "max_depth = 10000"

definition is_ws :: "char \<Rightarrow> bool" where
  "is_ws c \<longleftrightarrow> c = CHR '' '' \<or> c = CHR 0x09 \<or> c = CHR 0x0A \<or> c = CHR 0x0D"

definition push_frame :: "mode \<Rightarrow> frame \<Rightarrow> frame list \<Rightarrow> scan_state option" where
  "push_frame m f stk = (if length stk < max_depth then Some (m, f # stk) else None)"

definition begin_value :: "char \<Rightarrow> frame list \<Rightarrow> scan_state option" where
  "begin_value c stk =
     (if c = CHR ''{'' then push_frame MKey0 (FObj []) stk
      else if c = CHR ''['' then push_frame MElem0 (FArr []) stk
      else if c = CHR 0x22 then Some (MStr False [], stk)
      else if c = CHR ''t'' then Some (MLit ''rue'' (JBool True), stk)
      else if c = CHR ''f'' then Some (MLit ''alse'' (JBool False), stk)
      else if c = CHR ''n'' then Some (MLit ''ull'' JNull, stk)
      else map_option (\<lambda>st. (MNum st [c], stk)) (num_begin c))"

definition after_value :: "json \<Rightarrow> char \<Rightarrow> frame list \<Rightarrow> scan_state option" where
  "after_value v c stk =
     (if is_ws c then Some (MAfter v, stk)
      else (case stk of
          [] \<Rightarrow> None
        | FArr vs # rest \<Rightarrow>
            if c = CHR '','' then Some (MValue, FArr (v # vs) # rest)
            else if c = CHR '']'' then Some (MAfter (JArr (rev (v # vs))), rest)
            else None
        | FMem kvs k # rest \<Rightarrow>
            if c = CHR '','' then Some (MKey, FObj ((k, v) # kvs) # rest)
            else if c = CHR ''}'' then Some (MAfter (JObj (rev ((k, v) # kvs))), rest)
            else None
        | FObj kvs # rest \<Rightarrow> None))"

text \<open>A finished string literal is a key or a value.\<close>

definition end_string :: "bool \<Rightarrow> string \<Rightarrow> mode" where
  "end_string key raw =
     (let s = utf8_coerce (unquote (rev raw)) in if key then MColon s else MAfter (JStr s))"

fun scan :: "scan_state \<Rightarrow> char \<Rightarrow> scan_state option" where
  "scan (MValue, stk) c = (if is_ws c then Some (MValue, stk) else begin_value c stk)"
| "scan (MElem0, stk) c =
     (if is_ws c then Some (MElem0, stk)
      else if c = CHR '']'' then
        (case stk of FArr vs # rest \<Rightarrow> Some (MAfter (JArr (rev vs)), rest) | _ \<Rightarrow> None)
      else begin_value c stk)"
| "scan (MKey0, stk) c =
     (if is_ws c then Some (MKey0, stk)
      else if c = CHR ''}'' then
        (case stk of FObj kvs # rest \<Rightarrow> Some (MAfter (JObj (rev kvs)), rest) | _ \<Rightarrow> None)
      else if c = CHR 0x22 then Some (MStr True [], stk) else None)"
| "scan (MKey, stk) c =
     (if is_ws c then Some (MKey, stk)
      else if c = CHR 0x22 then Some (MStr True [], stk) else None)"
| "scan (MColon k, stk) c =
     (if is_ws c then Some (MColon k, stk)
      else if c = CHR '':'' then
        (case stk of FObj kvs # rest \<Rightarrow> Some (MValue, FMem kvs k # rest) | _ \<Rightarrow> None)
      else None)"
| "scan (MAfter v, stk) c = after_value v c stk"
| "scan (MStr key raw, stk) c =
     (if c = CHR 0x22 then Some (end_string key raw, stk)
      else if c = CHR 0x5C then Some (MEsc key (c # raw), stk)
      else if (of_char c :: nat) < 0x20 then None
      else Some (MStr key (c # raw), stk))"
| "scan (MEsc key raw, stk) c =
     (if c = CHR ''u'' then Some (MHex key (c # raw) 4, stk)
      else if c \<in> {CHR ''b'', CHR ''f'', CHR ''n'', CHR ''r'', CHR ''t'', CHR 0x5C, CHR ''/'', CHR 0x22}
      then Some (MStr key (c # raw), stk) else None)"
| "scan (MHex key raw n, stk) c =
     (if is_hex c then
        Some (if n = 1 then MStr key (c # raw) else MHex key (c # raw) (n - 1), stk)
      else None)"
| "scan (MNum st raw, stk) c =
     (case num_next st c of
        Some st' \<Rightarrow> Some (MNum st' (c # raw), stk)
      | None \<Rightarrow> if num_accept st then after_value (JNum (rev raw)) c stk else None)"
| "scan (MLit rest v, stk) c =
     (case rest of
        [] \<Rightarrow> None
      | x # xs \<Rightarrow> if c = x then Some (if xs = [] then MAfter v else MLit xs v, stk) else None)"

fun run :: "scan_state \<Rightarrow> string \<Rightarrow> scan_state option" where
  "run st [] = Some st"
| "run st (c # s) = (case scan st c of None \<Rightarrow> None | Some st' \<Rightarrow> run st' s)"

text \<open>\<open>json.Unmarshal\<close> into an untyped value; \<^term>\<open>None\<close> is a syntax error.\<close>

definition json_decode :: "string \<Rightarrow> json option" where
  "json_decode s =
     (case run (MValue, []) (s @ '' '') of
        Some (m, stk) \<Rightarrow> (case (m, stk) of (MAfter v, []) \<Rightarrow> Some v | _ \<Rightarrow> None)
      | None \<Rightarrow> None)"

subsection \<open>Decoded objects\<close>

text \<open>A Go map keeps the last value of a repeated key.\<close>

definition jget :: "(string \<times> json) list \<Rightarrow> string \<Rightarrow> json option" where
  "jget kvs k = map_of (rev kvs) k"

text \<open>The type assertion \<open>m[k].(string)\<close>, with \<^term>\<open>[]\<close> for the zero value.\<close>

definition jstring :: "(string \<times> json) list \<Rightarrow> string \<Rightarrow> string" where
  "jstring kvs k = (case jget kvs k of Some (JStr s) \<Rightarrow> s | _ \<Rightarrow> [])"

text \<open>
  Struct fields match a key exactly or after Unicode case folding. The field names of the
  adapter are ASCII, for which the folding maps ASCII letters to upper case and the two
  non-ASCII characters that fold to an ASCII letter (the long s and the Kelvin sign).
\<close>

fun fold_name :: "string \<Rightarrow> string" where
  "fold_name [] = []"
| "fold_name (c # s) =
     (if HasPrefix (c # s) [CHR 0xC5, CHR 0xBF] then CHR ''S'' # fold_name (drop 1 s)
      else if HasPrefix (c # s) [CHR 0xE2, CHR 0x84, CHR 0xAA] then CHR ''K'' # fold_name (drop 2 s)
      else (if in_range 97 122 c then char_of ((of_char c :: nat) - 32) else c) # fold_name s)"

definition field_match :: "string \<Rightarrow> string \<Rightarrow> bool" where
  "field_match field key \<longleftrightarrow> key = field \<or> fold_name key = fold_name field"

text \<open>
  Decoding into \<open>struct { Context struct { F string } }\<close>: members are applied in order,
  \<open>null\<close> leaves a field alone, and any type mismatch makes \<open>Unmarshal\<close> return an error
  although it goes on decoding. The pair is (error, value).
\<close>

definition decode_field :: "string \<Rightarrow> bool \<times> string \<Rightarrow> string \<times> json \<Rightarrow> bool \<times> string" where
  "decode_field field acc kv =
     (if field_match field (fst kv) then
        (case snd kv of JNull \<Rightarrow> acc | JStr s \<Rightarrow> (fst acc, s) | _ \<Rightarrow> (True, snd acc))
      else acc)"

definition decode_context_member ::
  "string \<Rightarrow> bool \<times> string \<Rightarrow> string \<times> json \<Rightarrow> bool \<times> string" where
  "decode_context_member field acc kv =
     (if field_match ''context'' (fst kv) then
        (case snd kv of
           JNull \<Rightarrow> acc
         | JObj inner \<Rightarrow> foldl (decode_field field) acc inner
         | _ \<Rightarrow> (True, snd acc))
      else acc)"

text \<open>The value of the field, or the empty string when \<open>Unmarshal\<close> fails.\<close>

definition context_string_field :: "string \<Rightarrow> string \<Rightarrow> string" where
  "context_string_field field body =
     (case json_decode body of
        Some (JObj kvs) \<Rightarrow>
          (let (err, v) = foldl (decode_context_member field) (False, []) kvs
           in if err then [] else v)
      | _ \<Rightarrow> [])"

text \<open>
  Decoding into \<open>struct { Context map[string]T }\<close>: \<^term>\<open>None\<close> is an error, the inner option
  is \<open>nil\<close>; a second context object is merged into the map of the first.
\<close>

definition decode_context_map ::
  "(string \<times> json) list option option \<Rightarrow> string \<times> json \<Rightarrow> (string \<times> json) list option option" where
  "decode_context_map acc kv =
     (if field_match ''context'' (fst kv) then
        (case snd kv of
           JNull \<Rightarrow> map_option (\<lambda>_. None) acc
         | JObj inner \<Rightarrow>
             map_option (\<lambda>m. Some ((case m of None \<Rightarrow> [] | Some old \<Rightarrow> old) @ inner)) acc
         | _ \<Rightarrow> None)
      else acc)"

definition context_map_field :: "string \<Rightarrow> (string \<times> json) list option option" where
  "context_map_field body =
     (case json_decode body of
        Some (JObj kvs) \<Rightarrow> foldl decode_context_map (Some None) kvs
      | Some JNull \<Rightarrow> Some None
      | _ \<Rightarrow> None)"

subsection \<open>Encoding\<close>

definition hex_digit :: "nat \<Rightarrow> char" where
  "hex_digit n = (if n < 10 then char_of (48 + n) else char_of (87 + n))"

text \<open>\<open>json.Marshal\<close> escapes HTML characters and the two line separators as well.\<close>

definition escape_ascii :: "char \<Rightarrow> string" where
  "escape_ascii c =
     (let n = (of_char c :: nat) in
      if c = CHR 0x22 \<or> c = CHR 0x5C then [CHR 0x5C, c]
      else if n = 8 then [CHR 0x5C, CHR ''b''] else if n = 12 then [CHR 0x5C, CHR ''f'']
      else if n = 10 then [CHR 0x5C, CHR ''n''] else if n = 13 then [CHR 0x5C, CHR ''r'']
      else if n = 9 then [CHR 0x5C, CHR ''t'']
      else if n < 32 \<or> c = CHR ''<'' \<or> c = CHR ''>'' \<or> c = CHR ''&''
      then [CHR 0x5C, CHR ''u'', CHR ''0'', CHR ''0'', hex_digit (n div 16), hex_digit (n mod 16)]
      else [c])"

function json_escape :: "string \<Rightarrow> string" where
  "json_escape [] = []"
| "json_escape (c # s) =
     (let n = utf8_len (c # s) in
      if n = 0 then CHR 0x5C # ''ufffd'' @ json_escape s
      else if n = 1 then escape_ascii c @ json_escape s
      else if take n (c # s) = [CHR 0xE2, CHR 0x80, CHR 0xA8] then CHR 0x5C # ''u2028'' @ json_escape (drop (n - 1) s)
      else if take n (c # s) = [CHR 0xE2, CHR 0x80, CHR 0xA9] then CHR 0x5C # ''u2029'' @ json_escape (drop (n - 1) s)
      else take n (c # s) @ json_escape (drop (n - 1) s))"
  by pat_completeness auto
termination by (relation "measure length") auto

definition json_quote :: "string \<Rightarrow> string" where
  "json_quote s = CHR 0x22 # json_escape s @ [CHR 0x22]"

fun json_encode :: "json \<Rightarrow> string" where
  "json_encode JNull = ''null''"
| "json_encode (JBool b) = (if b then ''true'' else ''false'')"
| "json_encode (JNum s) = s"
| "json_encode (JStr s) = json_quote s"
| "json_encode (JArr vs) = CHR ''['' # Join (map json_encode vs) '','' @ '']''"
| "json_encode (JObj kvs) =
     CHR ''{'' # Join (map (\<lambda>p. json_quote (fst p) @ CHR '':'' # json_encode (snd p)) kvs) '','' @ ''}''"

end
