(* ===== verification/Json_Roundtrip.thy ===== *)
theory Json_Roundtrip
  imports Go_Json
begin

text \<open>
  The round trip of \<open>encoding/json\<close>. \<open>json.Marshal\<close> writes any byte string as a JSON string, and
  \<open>json.Unmarshal\<close> reads back that string with each byte that is not part of valid UTF-8 replaced by
  U+FFFD; valid UTF-8 comes back unchanged. So every value whose numbers are well formed and
  whose nesting the decoder admits is read back with its strings coerced in this way.
\<close>

subsection \<open>ASCII text\<close>

text \<open>The round trip is proved for values whose strings are ASCII and whose numbers are well formed.\<close>

definition ascii :: "string \<Rightarrow> bool" where
  "ascii s \<longleftrightarrow> list_all (\<lambda>c. (of_char c :: nat) < 128) s"

lemma ascii_simps [simp]:
  "ascii []" "ascii (c # s) \<longleftrightarrow> (of_char c :: nat) < 128 \<and> ascii s"
  "ascii (s @ t) \<longleftrightarrow> ascii s \<and> ascii t"
  by (simp_all add: ascii_def)

lemma utf8_len_ascii [simp]: "(of_char c :: nat) < 128 \<Longrightarrow> utf8_len (c # s) = 1"
  by (simp add: utf8_len_def in_range_def)

lemma utf8_coerce_ascii [simp]: "ascii s \<Longrightarrow> utf8_coerce s = s"
  by (induction s) auto

lemma json_escape_ascii [simp]:
  "(of_char c :: nat) < 128 \<Longrightarrow> json_escape (c # s) = escape_ascii c @ json_escape s"
  by simp

subsection \<open>Sequences\<close>

lemma utf8_len_bounds:
  assumes "utf8_len s = n" "n \<noteq> 0"
  shows "n \<le> length s \<and> n \<le> 4"
  using assms by (auto simp: utf8_len_def split: list.splits if_splits)

lemma utf8_len_prefix:
  assumes "utf8_len s = n" "n \<noteq> 0"
  shows "utf8_len (take n s @ t) = n"
proof -
  consider a s1 where "s = a # s1" "in_range 0 0x7F a"
    | a b s2 where "s = a # b # s2" "\<not> in_range 0 0x7F a" "in_range 0xC2 0xDF a"
    | a b c s3 where "s = a # b # c # s3" "\<not> in_range 0 0x7F a" "\<not> in_range 0xC2 0xDF a" "in_range 0xE0 0xEF a"
    | a b c d s4 where "s = a # b # c # d # s4" "\<not> in_range 0 0x7F a" "\<not> in_range 0xC2 0xDF a" "\<not> in_range 0xE0 0xEF a"
    using assms by (auto simp: utf8_len_def split: list.splits if_splits)
  then show ?thesis
  proof cases
    case 1
    with assms have "n = 1" by (simp add: utf8_len_def)
    with 1 show ?thesis by (simp add: utf8_len_def)
  next
    case 2
    with assms have "n = 2" "in_range 0x80 0xBF b" by (simp_all add: utf8_len_def split: if_splits)
    with 2 show ?thesis by (simp add: utf8_len_def)
  next
    case 3
    with assms have n: "n = 3" and ok: "in_range (if a = CHR 0xE0 then 0xA0 else 0x80) (if a = CHR 0xED then 0x9F else 0xBF) b
        \<and> in_range 0x80 0xBF c" by (simp_all add: utf8_len_def split: if_splits)
    from 3 n have "take n s @ t = a # b # c # t" by simp
    with 3 ok n show ?thesis by (simp only: utf8_len_def list.case if_True if_False simp_thms)
  next
    case 4
    with assms have n: "n = 4" and ok: "in_range 0xF0 0xF4 a \<and>
        in_range (if a = CHR 0xF0 then 0x90 else 0x80) (if a = CHR 0xF4 then 0x8F else 0xBF) b
        \<and> in_range 0x80 0xBF c \<and> in_range 0x80 0xBF d" by (simp_all add: utf8_len_def split: if_splits)
    from 4 n have "take n s @ t = a # b # c # d # t" by simp
    with 4 ok n show ?thesis by (simp only: utf8_len_def list.case if_True if_False simp_thms)
  qed
qed

lemma utf8_len_high:
  assumes "utf8_len s = n" "1 < n"
  shows "list_all (\<lambda>c. 128 \<le> (of_char c :: nat)) (take n s)"
  using assms
  by (auto simp: utf8_len_def in_range_def split: list.splits if_splits)

lemma utf8_coerce_prefix:
  assumes "utf8_len s = n" "n \<noteq> 0"
  shows "utf8_coerce (take n s @ t) = take n s @ utf8_coerce t"
proof -
  obtain c cs where s: "s = c # cs" using utf8_len_bounds [OF assms] assms(2) by (cases s) auto
  obtain m where n: "n = Suc m" using assms(2) by (cases n) auto
  have "utf8_len (c # take m cs @ t) = n" using utf8_len_prefix [OF assms] s n by simp
  moreover have "length (take m cs) = m" using utf8_len_bounds [OF assms] s n by simp
  ultimately show ?thesis using s n by (simp add: Let_def)
qed

lemma utf8_coerce_replacement: "utf8_coerce (replacement_char @ t) = replacement_char @ utf8_coerce t"
  using utf8_coerce_prefix [of "replacement_char" 3 t] by (simp add: replacement_char_def utf8_len_def in_range_def)

text \<open>A coerced string is valid.\<close>

lemma utf8_coerce_idem [simp]: "utf8_coerce (utf8_coerce s) = utf8_coerce s"
proof (induction s rule: utf8_coerce.induct)
  case (2 c s)
  show ?case
  proof (cases "utf8_len (c # s) = 0")
    case True
    with 2 show ?thesis by (simp add: utf8_coerce_replacement)
  next
    case False
    then have "utf8_coerce (c # s) = take (utf8_len (c # s)) (c # s) @ utf8_coerce (drop (utf8_len (c # s) - 1) s)"
      by (simp add: Let_def)
    with False 2(2) [OF refl False] utf8_coerce_prefix [OF refl False] show ?thesis by metis
  qed
qed simp

subsection \<open>String literals\<close>

lemma unquote_plain: "CHR 0x5C \<notin> set bs \<Longrightarrow> unquote (bs @ t) = bs @ unquote t"
  by (induction bs) auto

lemma unquote_u4:
  "hex4 a b c d < 0xD800 \<or> 0xE000 \<le> hex4 a b c d \<Longrightarrow>
     unquote (CHR 0x5C # CHR ''u'' # a # b # c # d # t) = utf8_encode (hex4 a b c d) @ unquote t"
  by (simp add: Let_def)

lemma hex4_specials:
  "hex4 (CHR ''f'') (CHR ''f'') (CHR ''f'') (CHR ''d'') = 0xFFFD"
  "hex4 (CHR ''2'') (CHR ''0'') (CHR ''2'') (CHR ''8'') = 0x2028"
  "hex4 (CHR ''2'') (CHR ''0'') (CHR ''2'') (CHR ''9'') = 0x2029"
  by (simp_all add: hex4_def hex_val_def is_digit_def)

lemma utf8_encode_specials:
  "utf8_encode 0xFFFD = replacement_char" "utf8_encode 0x2028 = [CHR 0xE2, CHR 0x80, CHR 0xA8]"
  "utf8_encode 0x2029 = [CHR 0xE2, CHR 0x80, CHR 0xA9]"
  by (simp_all add: utf8_encode_def replacement_char_def flip: of_char_eq_iff [where ?'a = nat])

lemma unquote_specials:
  "unquote (CHR 0x5C # ''ufffd'' @ t) = replacement_char @ unquote t"
  "unquote (CHR 0x5C # ''u2028'' @ t) = [CHR 0xE2, CHR 0x80, CHR 0xA8] @ unquote t"
  "unquote (CHR 0x5C # ''u2029'' @ t) = [CHR 0xE2, CHR 0x80, CHR 0xA9] @ unquote t"
  unfolding append_Cons append_Nil
  by (subst unquote_u4, simp add: hex4_specials, simp only: hex4_specials utf8_encode_specials append_Cons append_Nil)+

lemma utf8_len_one: "utf8_len (c # s) = 1 \<longleftrightarrow> (of_char c :: nat) < 128"
proof (cases "in_range 0 0x7F c")
  case False
  then have "utf8_len (c # s) \<noteq> 1" by (cases s; cases "tl s"; cases "tl (tl s)") (simp_all add: utf8_len_def)
  with False show ?thesis by (simp add: in_range_def)
qed (simp add: utf8_len_def in_range_def)

lemma hex_digit_props:
  "n < 16 \<Longrightarrow> is_hex (hex_digit n)" "n < 16 \<Longrightarrow> hex_val (hex_digit n) = n"
  by (auto simp: hex_digit_def is_hex_def hex_val_def is_digit_def in_range_def)

lemma hex_digit_zero: "is_hex (CHR ''0'')" "hex_val (CHR ''0'') = 0"
  by (simp_all add: is_hex_def hex_val_def is_digit_def)

lemma hex4_escape: "n < 128 \<Longrightarrow> hex4 (CHR ''0'') (CHR ''0'') (hex_digit (n div 16)) (hex_digit (n mod 16)) = n"
  by (simp add: hex4_def hex_digit_zero hex_digit_props)

lemma of_char_controls:
  "of_char c = (8 :: nat) \<longleftrightarrow> c = CHR 0x08" "of_char c = (9 :: nat) \<longleftrightarrow> c = CHR 0x09"
  "of_char c = (10 :: nat) \<longleftrightarrow> c = CHR 0x0A" "of_char c = (12 :: nat) \<longleftrightarrow> c = CHR 0x0C"
  "of_char c = (13 :: nat) \<longleftrightarrow> c = CHR 0x0D"
  by (simp_all flip: of_char_eq_iff [where ?'a = nat])

lemma unquote_escape_ascii:
  assumes "(of_char c :: nat) < 128"
  shows "unquote (escape_ascii c @ s) = c # unquote s"
proof -
  have *: "utf8_encode (of_char c) = [c]" using assms by (simp add: utf8_encode_def)
  show ?thesis
    using assms
    by (auto simp: escape_ascii_def Let_def unescape_def hex4_escape * of_char_controls split: if_splits)
qed

lemma run_append: "run st (s @ t) = (case run st s of None \<Rightarrow> None | Some st' \<Rightarrow> run st' t)"
  by (induction s arbitrary: st) (auto split: option.splits)

lemma run_escape_char:
  assumes "(of_char c :: nat) < 128"
  shows "run (MStr key raw, stk) (escape_ascii c @ t) = run (MStr key (rev (escape_ascii c) @ raw), stk) t"
  using assms
  by (auto simp: escape_ascii_def Let_def hex_digit_zero hex_digit_props)

lemma run_plain:
  assumes "list_all (\<lambda>c. 128 \<le> (of_char c :: nat)) bs"
  shows "run (MStr key raw, stk) (bs @ t) = run (MStr key (rev bs @ raw), stk) t"
  using assms
proof (induction bs arbitrary: raw)
  case (Cons c bs)
  then have "c \<noteq> CHR 0x22" "c \<noteq> CHR 0x5C" "\<not> (of_char c :: nat) < 0x20" by auto
  with Cons show ?case by simp
qed simp

text \<open>The five ways in which \<open>json_escape\<close> treats the head of a string.\<close>

lemma json_escape_cases:
  fixes c :: char and s :: string
  defines "n \<equiv> utf8_len (c # s)"
  obtains (invalid) "n = 0" "json_escape (c # s) = CHR 0x5C # ''ufffd'' @ json_escape s"
      "utf8_coerce (c # s) = replacement_char @ utf8_coerce s"
  | (ascii) "n = 1" "(of_char c :: nat) < 128" "json_escape (c # s) = escape_ascii c @ json_escape s"
      "utf8_coerce (c # s) = c # utf8_coerce s"
  | (line) "1 < n" "json_escape (c # s) = CHR 0x5C # ''u2028'' @ json_escape (drop (n - 1) s)"
      "utf8_coerce (c # s) = [CHR 0xE2, CHR 0x80, CHR 0xA8] @ utf8_coerce (drop (n - 1) s)"
  | (para) "1 < n" "json_escape (c # s) = CHR 0x5C # ''u2029'' @ json_escape (drop (n - 1) s)"
      "utf8_coerce (c # s) = [CHR 0xE2, CHR 0x80, CHR 0xA9] @ utf8_coerce (drop (n - 1) s)"
  | (plain) "1 < n" "json_escape (c # s) = take n (c # s) @ json_escape (drop (n - 1) s)"
      "utf8_coerce (c # s) = take n (c # s) @ utf8_coerce (drop (n - 1) s)"
proof -
  consider "n = 0" | "n = 1" | "1 < n" by linarith
  then show ?thesis
  proof cases
    case 1
    then show ?thesis by (intro invalid) (simp_all add: n_def)
  next
    case 2
    then have "utf8_len (c # s) = 1" by (simp add: n_def)
    with 2 utf8_len_one [of c s] show ?thesis by (intro ascii) simp_all
  next
    case 3
    then have *: "utf8_coerce (c # s) = take n (c # s) @ utf8_coerce (drop (n - 1) s)"
      by (simp only: utf8_coerce.simps Let_def n_def) simp
    show ?thesis
    proof (cases "take n (c # s) = [CHR 0xE2, CHR 0x80, CHR 0xA8]")
      case True
      have "json_escape (c # s) = CHR 0x5C # ''u2028'' @ json_escape (drop (n - 1) s)"
        using 3 True by (simp only: json_escape.simps Let_def n_def [symmetric]) simp
      with 3 * True show ?thesis by (intro line) simp_all
    next
      case False
      note not_line = False
      show ?thesis
      proof (cases "take n (c # s) = [CHR 0xE2, CHR 0x80, CHR 0xA9]")
        case True
        have "json_escape (c # s) = CHR 0x5C # ''u2029'' @ json_escape (drop (n - 1) s)"
          using 3 True not_line by (simp only: json_escape.simps Let_def n_def [symmetric]) simp
        with 3 * True show ?thesis by (intro para) simp_all
      next
        case False
        have "json_escape (c # s) = take n (c # s) @ json_escape (drop (n - 1) s)"
          using 3 False not_line by (simp only: json_escape.simps Let_def n_def [symmetric]) simp
        with 3 * show ?thesis by (intro plain)
      qed
    qed
  qed
qed

declare json_escape.simps(2) [simp del] utf8_coerce.simps(2) [simp del] unquote.simps(2) [simp del]

lemma unquote_json_escape [simp]: "unquote (json_escape s) = utf8_coerce s"
proof (induction s rule: length_induct)
  case (1 s)
  show ?case
  proof (cases s)
    case (Cons c t)
    have ih: "unquote (json_escape (drop k t)) = utf8_coerce (drop k t)" for k using 1 Cons by simp
    show ?thesis
    proof (cases c t rule: json_escape_cases)
      case invalid
      with ih [of 0] Cons show ?thesis by (simp only: drop0 unquote_specials)
    next
      case ascii
      with ih [of 0] Cons show ?thesis by (simp add: unquote_escape_ascii)
    next
      case line
      with ih Cons show ?thesis by (simp only: unquote_specials)
    next
      case para
      with ih Cons show ?thesis by (simp only: unquote_specials)
    next
      case plain
      have "CHR 0x5C \<notin> set (take (utf8_len (c # t)) (c # t))"
        using utf8_len_high [OF refl plain(1)] by (fastforce simp: list_all_iff)
      from unquote_plain [OF this] plain ih Cons show ?thesis by simp
    qed
  qed simp
qed

lemma run_json_escape:
  "run (MStr key raw, stk) (json_escape s @ t) = run (MStr key (rev (json_escape s) @ raw), stk) t"
proof (induction s arbitrary: raw rule: length_induct)
  case (1 s)
  show ?case
  proof (cases s)
    case (Cons c u)
    have ih: "run (MStr key raw, stk) (json_escape (drop k u) @ t) =
        run (MStr key (rev (json_escape (drop k u)) @ raw), stk) t" for k raw using 1 Cons by simp
    show ?thesis
    proof (cases c u rule: json_escape_cases)
      case invalid
      with ih [of _ 0] Cons show ?thesis by (simp add: is_hex_def is_digit_def in_range_def)
    next
      case ascii
      with ih [of _ 0] Cons show ?thesis by (simp add: run_escape_char)
    next
      case line
      with ih Cons show ?thesis by (simp add: is_hex_def is_digit_def in_range_def)
    next
      case para
      with ih Cons show ?thesis by (simp add: is_hex_def is_digit_def in_range_def)
    next
      case plain
      with ih Cons run_plain [OF utf8_len_high [OF refl plain(1)]] show ?thesis by (simp add: append_assoc)
    qed
  qed simp
qed

lemma run_string:
  "run (MStr key [], stk) (json_escape s @ CHR 0x22 # t)
     = run (if key then MColon (utf8_coerce s) else MAfter (JStr (utf8_coerce s)), stk) t"
  by (simp add: run_json_escape end_string_def)

subsection \<open>Number literals\<close>

fun num_run :: "numst \<Rightarrow> string \<Rightarrow> bool" where
  "num_run st [] = num_accept st"
| "num_run st (c # s) = (case num_next st c of None \<Rightarrow> False | Some st' \<Rightarrow> num_run st' s)"

definition num_ok :: "string \<Rightarrow> bool" where
  "num_ok s = (case s of [] \<Rightarrow> False
     | c # cs \<Rightarrow> (case num_begin c of None \<Rightarrow> False | Some st \<Rightarrow> num_run st cs))"

definition delim :: "string \<Rightarrow> bool" where
  "delim s \<longleftrightarrow> s \<noteq> [] \<and> hd s \<in> {CHR '','', CHR '']'', CHR ''}'', CHR '' ''}"

lemma delim_simps [simp]: "delim (CHR '','' # s)" "delim (CHR '']'' # s)" "delim (CHR ''}'' # s)" "delim '' ''"
  by (simp_all add: delim_def)

lemma num_next_delim: "delim (c # s) \<Longrightarrow> num_next st c = None"
  by (cases st) (auto simp: delim_def num_next_def is_digit_def)

lemma run_num:
  "num_run st s \<Longrightarrow> delim t \<Longrightarrow>
     run (MNum st raw, stk) (s @ t) = run (MAfter (JNum (rev raw @ s)), stk) t"
proof (induction s arbitrary: st raw)
  case Nil
  then show ?case by (cases t) (simp_all add: num_next_delim, simp add: delim_def)
next
  case (Cons c s)
  then show ?case by (auto split: option.splits)
qed

text \<open>Well-formed numbers, and the value that the decoder returns for an encoded one.\<close>

fun json_nums :: "json \<Rightarrow> bool" where
  "json_nums (JNum s) = num_ok s"
| "json_nums (JArr vs) = list_all json_nums vs"
| "json_nums (JObj kvs) = list_all (\<lambda>p. json_nums (snd p)) kvs"
| "json_nums v = True"

fun json_coerce :: "json \<Rightarrow> json" where
  "json_coerce (JStr s) = JStr (utf8_coerce s)"
| "json_coerce (JArr vs) = JArr (map json_coerce vs)"
| "json_coerce (JObj kvs) = JObj (map (\<lambda>p. (utf8_coerce (fst p), json_coerce (snd p))) kvs)"
| "json_coerce v = v"

fun json_wf :: "json \<Rightarrow> bool" where
  "json_wf JNull = True"
| "json_wf (JBool b) = True"
| "json_wf (JNum s) = num_ok s"
| "json_wf (JStr s) = ascii s"
| "json_wf (JArr vs) = list_all json_wf vs"
| "json_wf (JObj kvs) = list_all (\<lambda>p. ascii (fst p) \<and> json_wf (snd p)) kvs"

fun json_depth :: "json \<Rightarrow> nat" where
  "json_depth (JArr vs) = Suc (fold max (map json_depth vs) 0)"
| "json_depth (JObj kvs) = Suc (fold max (map (\<lambda>p. json_depth (snd p)) kvs) 0)"
| "json_depth v = 0"

subsection \<open>The round trip\<close>

lemma fold_max_ge: "(a :: nat) \<le> fold max xs a"
proof (induction xs arbitrary: a)
  case (Cons x xs)
  from Cons.IH [of "max x a"] show ?case by simp
qed simp

lemma fold_max_upper: "x \<in> set xs \<Longrightarrow> (x :: nat) \<le> fold max xs a"
proof (induction xs arbitrary: a)
  case (Cons y ys)
  show ?case
  proof (cases "x = y")
    case True
    with fold_max_ge [of "max y a" ys] show ?thesis by simp
  next
    case False
    with Cons show ?thesis by simp
  qed
qed simp

lemma json_encode_head:
  "json_nums v \<Longrightarrow> json_encode v \<noteq> [] \<and> \<not> is_ws (hd (json_encode v)) \<and> hd (json_encode v) \<noteq> CHR '']''"
  by (cases v)
     (auto simp: json_quote_def is_ws_def num_ok_def num_begin_def is_digit_def
       split: list.splits option.splits if_splits)

lemma run_elem0:
  assumes "json_nums v"
  shows "run (MElem0, stk) (json_encode v @ t) = run (MValue, stk) (json_encode v @ t)"
  using json_encode_head [OF assms] by (cases "json_encode v") auto

lemma run_array:
  assumes "\<And>v stk t. v \<in> set vs \<Longrightarrow> json_depth v + length stk \<le> max_depth \<Longrightarrow> delim t \<Longrightarrow>
             run (MValue, stk) (json_encode v @ t) = run (MAfter (json_coerce v), stk) t"
    and "vs \<noteq> []" and "\<And>v. v \<in> set vs \<Longrightarrow> json_depth v + Suc (length stk) \<le> max_depth"
  shows "run (MValue, FArr acc # stk) (Join (map json_encode vs) '','' @ CHR '']'' # t)
           = run (MAfter (JArr (rev acc @ map json_coerce vs)), stk) t"
  using assms
proof (induction vs arbitrary: acc)
  case (Cons v vs)
  have v: "run (MValue, FArr acc # stk) (json_encode v @ u) = run (MAfter (json_coerce v), FArr acc # stk) u"
    if "delim u" for u using Cons.prems(1) [of v "FArr acc # stk" u] Cons.prems(3) [of v] that by simp
  show ?case
  proof (cases vs)
    case Nil
    then show ?thesis using v [of "CHR '']'' # t"] by (simp add: after_value_def is_ws_def)
  next
    case (Cons w ws)
    with Cons.IH [of "json_coerce v # acc"] Cons.prems
    have "run (MValue, FArr (json_coerce v # acc) # stk) (Join (map json_encode vs) '','' @ CHR '']'' # t)
          = run (MAfter (JArr (rev acc @ json_coerce v # map json_coerce vs)), stk) t" by simp
    with Cons v [of "CHR '','' # Join (map json_encode vs) '','' @ CHR '']'' # t"] show ?thesis
      by (simp add: after_value_def is_ws_def)
  qed
qed simp

lemma run_key:
  "run (MKey, FObj acc # stk) (json_quote k @ CHR '':'' # t) = run (MValue, FMem acc (utf8_coerce k) # stk) t"
  by (simp add: json_quote_def run_string is_ws_def)

lemma run_object:
  assumes "\<And>p stk t. p \<in> set kvs \<Longrightarrow> json_depth (snd p) + length stk \<le> max_depth \<Longrightarrow> delim t \<Longrightarrow>
             run (MValue, stk) (json_encode (snd p) @ t) = run (MAfter (json_coerce (snd p)), stk) t"
    and "kvs \<noteq> []" and "\<And>p. p \<in> set kvs \<Longrightarrow> json_depth (snd p) + Suc (length stk) \<le> max_depth"
  shows "run (MKey, FObj acc # stk)
           (Join (map (\<lambda>p. json_quote (fst p) @ CHR '':'' # json_encode (snd p)) kvs) '','' @ CHR ''}'' # t)
           = run (MAfter (JObj (rev acc @ map (\<lambda>p. (utf8_coerce (fst p), json_coerce (snd p))) kvs)), stk) t"
  using assms
proof (induction kvs arbitrary: acc)
  case (Cons p kvs)
  obtain k v where p: "p = (k, v)" by (cases p)
  let ?k = "utf8_coerce k"
  have v: "run (MValue, FMem acc ?k # stk) (json_encode v @ u) = run (MAfter (json_coerce v), FMem acc ?k # stk) u"
    if "delim u" for u
    using Cons.prems(1) [of p "FMem acc ?k # stk" u] Cons.prems(3) [of p] that p by simp
  let ?rest = "Join (map (\<lambda>p. json_quote (fst p) @ CHR '':'' # json_encode (snd p)) kvs) '','' @ CHR ''}'' # t"
  show ?case
  proof (cases "kvs = []")
    case True
    then show ?thesis using v [of "CHR ''}'' # t"] p by (simp add: run_key after_value_def is_ws_def)
  next
    case False
    then have "run (MKey, FObj ((?k, json_coerce v) # acc) # stk) ?rest
        = run (MAfter (JObj (rev ((?k, json_coerce v) # acc) @ map (\<lambda>p. (utf8_coerce (fst p), json_coerce (snd p))) kvs)), stk) t"
      by (intro Cons.IH) (use Cons.prems in auto)
    with False p v [of "CHR '','' # ?rest"] show ?thesis
      by (cases kvs) (simp_all add: run_key after_value_def is_ws_def)
  qed
qed simp

lemma num_begin_start:
  assumes "num_begin c = Some st"
  shows "\<not> is_ws c" and "begin_value c stk = Some (MNum st [c], stk)"
proof -
  from assms have "c \<notin> {CHR ''{'', CHR ''['', CHR 0x22, CHR ''t'', CHR ''f'', CHR ''n'',
      CHR '' '', CHR 0x09, CHR 0x0A, CHR 0x0D}"
    by (auto simp: num_begin_def is_digit_def)
  with assms show "\<not> is_ws c" and "begin_value c stk = Some (MNum st [c], stk)"
    by (simp_all add: is_ws_def begin_value_def)
qed

lemma run_json_encode:
  "json_nums v \<Longrightarrow> json_depth v + length stk \<le> max_depth \<Longrightarrow> delim t \<Longrightarrow>
     run (MValue, stk) (json_encode v @ t) = run (MAfter (json_coerce v), stk) t"
proof (induction v arbitrary: stk t)
  case (JNum s)
  then obtain c cs st where "s = c # cs" "num_begin c = Some st" "num_run st cs"
    by (auto simp: num_ok_def split: list.splits option.splits)
  with run_num [of st cs t "[c]" stk] JNum.prems(3) show ?case
    by (simp add: num_begin_start)
next
  case (JStr s)
  then show ?case by (simp add: json_quote_def begin_value_def is_ws_def run_string)
next
  case (JArr vs)
  have depth: "json_depth v + Suc (length stk) \<le> max_depth" if "v \<in> set vs" for v
    using that JArr.prems(2) fold_max_upper [of "json_depth v" "map json_depth vs" 0] by simp
  have start: "run (MValue, stk) (CHR ''['' # u) = run (MElem0, FArr [] # stk) u" for u
    using JArr.prems(2) by (simp add: is_ws_def begin_value_def push_frame_def)
  show ?case
  proof (cases vs)
    case Nil
    with start show ?thesis by (simp add: is_ws_def)
  next
    case (Cons w ws)
    then have elem0: "run (MElem0, FArr [] # stk) (Join (map json_encode vs) '','' @ CHR '']'' # t)
        = run (MValue, FArr [] # stk) (Join (map json_encode vs) '','' @ CHR '']'' # t)"
      using run_elem0 [of w] JArr.prems(1) by (cases ws) simp_all
    have "run (MValue, FArr [] # stk) (Join (map json_encode vs) '','' @ CHR '']'' # t)
        = run (MAfter (JArr (rev [] @ map json_coerce vs)), stk) t"
      by (rule run_array) (use JArr depth Cons in \<open>auto simp: list_all_iff\<close>)
    with elem0 start show ?thesis by simp
  qed
next
  case (JObj kvs)
  have depth: "json_depth (snd p) + Suc (length stk) \<le> max_depth" if "p \<in> set kvs" for p
    using that JObj.prems(2)
      fold_max_upper [of "json_depth (snd p)" "map (\<lambda>p. json_depth (snd p)) kvs" 0] by simp
  have ih: "run (MValue, stk) (json_encode (snd p) @ t) = run (MAfter (json_coerce (snd p)), stk) t"
    if "p \<in> set kvs" "json_depth (snd p) + length stk \<le> max_depth" "delim t" for p stk t
    using that JObj.IH [of p "snd p" stk t] JObj.prems(1)
      snds.intros [of p] by (auto simp: list_all_iff)
  have start: "run (MValue, stk) (CHR ''{'' # u) = run (MKey0, FObj [] # stk) u" for u
    using JObj.prems(2) by (simp add: is_ws_def begin_value_def push_frame_def)
  let ?body = "Join (map (\<lambda>p. json_quote (fst p) @ CHR '':'' # json_encode (snd p)) kvs) '',''"
  show ?case
  proof (cases kvs)
    case Nil
    with start show ?thesis by (simp add: is_ws_def)
  next
    case (Cons w ws)
    then have key0: "run (MKey0, FObj [] # stk) (?body @ CHR ''}'' # t) = run (MKey, FObj [] # stk) (?body @ CHR ''}'' # t)"
      by (cases ws) (simp_all add: json_quote_def is_ws_def)
    have "run (MKey, FObj [] # stk) (?body @ CHR ''}'' # t) =
        run (MAfter (JObj (rev [] @ map (\<lambda>p. (utf8_coerce (fst p), json_coerce (snd p))) kvs)), stk) t"
      by (rule run_object) (use JObj.prems(1) ih depth Cons in \<open>auto simp: list_all_iff\<close>)
    with key0 start show ?thesis by simp
  qed
qed (auto simp: begin_value_def is_ws_def)

lemma json_decode_encode_coerce:
  assumes "json_nums v" and "json_depth v \<le> max_depth"
  shows "json_decode (json_encode v) = Some (json_coerce v)"
  using run_json_encode [of v "[]" "'' ''"] assms
  by (simp add: json_decode_def after_value_def is_ws_def)

lemma json_wf_coerce: "json_wf v \<Longrightarrow> json_nums v \<and> json_coerce v = v"
proof (induction v)
  case (JArr vs)
  then show ?case by (simp add: list_all_iff map_idI)
next
  case (JObj kvs)
  have "json_nums (snd p) \<and> json_coerce (snd p) = snd p \<and> utf8_coerce (fst p) = fst p" if "p \<in> set kvs" for p
    using that JObj.IH [of p "snd p"] JObj.prems snds.intros [of p] by (auto simp: list_all_iff)
  then show ?case by (simp add: list_all_iff map_idI)
qed auto

lemma json_decode_encode:
  assumes "json_wf v" and "json_depth v \<le> max_depth"
  shows "json_decode (json_encode v) = Some v"
  using json_decode_encode_coerce [of v] json_wf_coerce [OF assms(1)] assms(2) by simp

end
