(* ===== verification/Beckn_Model.thy ===== *)
theory Beckn_Model
  imports Json_Roundtrip
begin

text \<open>
  The data model of \<open>pkg/model\<close>: the error taxonomy of \<open>error.go\<close> (the chain of wrapped
  errors, the \<open>CodedErr\<close> constructors and their Beckn payloads) and the values of \<open>model.go\<close>
  that every other component exchanges (roles, context keys, routes, key sets, the step
  context).

  A Go \<open>error\<close> value is a \<open>goerr\<close>. \<open>ErrText\<close> and \<open>ErrWrap\<close> are what \<open>errors.New\<close> and
  \<open>fmt.Errorf\<close> build, the latter with the text before its \<open>%w\<close> operand; the wording of errors
  raised inside the Go library is represented by the name of the failing call. \<open>ErrPublic\<close> is an error
  whose text hides its cause (\<open>publicErr\<close> of the DeDi registry). A panic is
  the value \<open>GoPanic\<close>: no code of the adapter recovers it, so it passes every caller
  unchanged (\<open>errorf_w\<close> does not wrap it) until the HTTP server drops the connection.
\<close>

subsection \<open>Errors (error.go)\<close>

type_synonym Status = string

definition StatusACK :: Status where "StatusACK = ''ACK''"
definition StatusNACK :: Status where "StatusNACK = ''NACK''"

datatype Error =
    Error (Code: string) (ErrMessage: string) (Details: "ErrorDetails option") (cause: "goerr option")
and ErrorDetails = ErrorDetails (DPath: string) (DCause: "Error option")
and goerr =
    ErrText string
  | ErrWrap string goerr
  | ErrBeckn Error
  | ErrSchema "Error list"
  | ErrCoded string int string string "goerr option"
  | ErrAckNoCallback Status Error
  | ErrOther string Error "goerr option"
  | ErrPublic string goerr
  | GoPanic string

definition NewCodedError :: "string \<Rightarrow> string \<Rightarrow> Error" where
  "NewCodedError code message = Error code message None None"

definition NewCodedErrorWithCause :: "string \<Rightarrow> string \<Rightarrow> string \<Rightarrow> goerr option \<Rightarrow> Error" where
  "NewCodedErrorWithCause code message path c =
     Error code message (if path \<noteq> [] then Some (ErrorDetails path None) else None) c"

definition error_path :: "Error \<Rightarrow> string" where
  "error_path e = (case Details e of None \<Rightarrow> [] | Some d \<Rightarrow> DPath d)"

definition Error_Error :: "Error \<Rightarrow> string" where
  "Error_Error e =
     ''Error: Code='' @ Code e @ '', Path='' @ error_path e @ '', Message='' @ ErrMessage e"

definition SchemaValidationErr_Error :: "Error list \<Rightarrow> string" where
  "SchemaValidationErr_Error es = Join (map (\<lambda>e. error_path e @ '': '' @ ErrMessage e) es) ''; ''"

text \<open>The method \<open>Error()\<close> of any error value.\<close>

fun error_text :: "goerr \<Rightarrow> string" where
  "error_text (ErrText s) = s"
| "error_text (ErrWrap p e) = p @ error_text e"
| "error_text (ErrBeckn b) = Error_Error b"
| "error_text (ErrSchema es) = SchemaValidationErr_Error es"
| "error_text (ErrCoded c h p d None) = []"
| "error_text (ErrCoded c h p d (Some e)) = error_text e"
| "error_text (ErrAckNoCallback st b) = ''AckNoCallback(status='' @ st @ ''): '' @ Error_Error b"
| "error_text (ErrOther s b k) = s"
| "error_text (ErrPublic s e) = s"
| "error_text (GoPanic s) = s"

definition is_panic :: "goerr \<Rightarrow> bool" where
  "is_panic e = (case e of GoPanic _ \<Rightarrow> True | _ \<Rightarrow> False)"

text \<open>\<open>fmt.Errorf("prefix: %w", err)\<close>; a panic is not a value that reaches the call.\<close>

definition errorf_w :: "string \<Rightarrow> goerr \<Rightarrow> goerr" where
  "errorf_w p e = (if is_panic e then e else ErrWrap p e)"

fun Unwrap :: "goerr \<Rightarrow> goerr option" where
  "Unwrap (ErrWrap p e) = Some e"
| "Unwrap (ErrBeckn b) = cause b"
| "Unwrap (ErrCoded c h p d e) = e"
| "Unwrap (ErrOther s b k) = k"
| "Unwrap (ErrPublic s e) = Some e"
| "Unwrap e = None"

text \<open>\<open>errors.As\<close>: the first error of the chain that the target type accepts.\<close>

fun errors_As :: "(goerr \<Rightarrow> 'a option) \<Rightarrow> goerr \<Rightarrow> 'a option" where
  "errors_As T (ErrWrap p e) = (case T (ErrWrap p e) of Some a \<Rightarrow> Some a | None \<Rightarrow> errors_As T e)"
| "errors_As T (ErrBeckn (Error c m d k)) =
     (case T (ErrBeckn (Error c m d k)) of Some a \<Rightarrow> Some a
      | None \<Rightarrow> (case k of None \<Rightarrow> None | Some e \<Rightarrow> errors_As T e))"
| "errors_As T (ErrCoded c h p d k) =
     (case T (ErrCoded c h p d k) of Some a \<Rightarrow> Some a
      | None \<Rightarrow> (case k of None \<Rightarrow> None | Some e \<Rightarrow> errors_As T e))"
| "errors_As T (ErrOther s b k) =
     (case T (ErrOther s b k) of Some a \<Rightarrow> Some a
      | None \<Rightarrow> (case k of None \<Rightarrow> None | Some e \<Rightarrow> errors_As T e))"
| "errors_As T (ErrPublic s e) = (case T (ErrPublic s e) of Some a \<Rightarrow> Some a | None \<Rightarrow> errors_As T e)"
| "errors_As T e = T e"

definition defaultSchemaValidationCode :: string where
  "defaultSchemaValidationCode = ''SCH_INVALID_FORMAT''"

fun FirstNonEmptyCode :: "Error list \<Rightarrow> string \<Rightarrow> string" where
  "FirstNonEmptyCode [] dflt = dflt"
| "FirstNonEmptyCode (e # es) dflt = (if Code e \<noteq> [] then Code e else FirstNonEmptyCode es dflt)"

definition SchemaValidationErr_BecknError :: "Error list \<Rightarrow> Error" where
  "SchemaValidationErr_BecknError es =
     (if es = [] then Error defaultSchemaValidationCode ''Schema validation error.'' None None
      else
        let paths = map error_path es;
            messages = map ErrMessage es;
            hasPath = list_ex (\<lambda>p. p \<noteq> []) paths;
            details = (if hasPath then Some (ErrorDetails (Join paths '';'') None) else None)
        in Error (FirstNonEmptyCode es defaultSchemaValidationCode) (Join messages ''; '') details None)"

definition defaultUnclassifiedCode :: string where
  "defaultUnclassifiedCode = ''NET_INTERNAL_ERROR''"

definition NewCodedErr :: "int \<Rightarrow> string \<Rightarrow> goerr \<Rightarrow> goerr" where
  "NewCodedErr httpStatus code err = ErrCoded code httpStatus [] defaultUnclassifiedCode (Some err)"

definition HTTPStatus :: "int \<Rightarrow> int" where
  "HTTPStatus httpStatus = (if httpStatus < 400 \<or> httpStatus > 599 then 400 else httpStatus)"

definition CodedErr_Error :: "goerr option \<Rightarrow> string" where
  "CodedErr_Error e = (case e of None \<Rightarrow> [] | Some e \<Rightarrow> error_text e)"

definition resolveCode :: "string \<Rightarrow> string \<Rightarrow> string" where
  "resolveCode code defaultCode =
     (if code \<noteq> [] then code else if defaultCode \<noteq> [] then defaultCode else defaultUnclassifiedCode)"

definition CodedErr_BecknError :: "string \<Rightarrow> string \<Rightarrow> string \<Rightarrow> goerr option \<Rightarrow> Error" where
  "CodedErr_BecknError code prefix defaultCode e =
     Error (resolveCode code defaultCode) (prefix @ CodedErr_Error e) None None"

definition defaultSignValidationCode :: string where
  "defaultSignValidationCode = ''AUT_SIGNATURE_INVALID''"

definition NewSignValidationErr :: "string \<Rightarrow> goerr \<Rightarrow> goerr" where
  "NewSignValidationErr code err =
     ErrCoded code 401 ''Signature Validation Error: '' defaultSignValidationCode (Some err)"

definition defaultBadReqCode :: string where
  "defaultBadReqCode = ''SCH_INVALID_FORMAT''"

definition NewBadReqErr :: "string \<Rightarrow> goerr \<Rightarrow> goerr" where
  "NewBadReqErr code err = ErrCoded code 400 ''BAD Request: '' defaultBadReqCode (Some err)"

definition defaultNotFoundCode :: string where
  "defaultNotFoundCode = ''NET_ENTITY_NOT_FOUND''"

definition NewNotFoundErr :: "string \<Rightarrow> goerr \<Rightarrow> goerr" where
  "NewNotFoundErr code err = ErrCoded code 404 ''Endpoint not found: '' defaultNotFoundCode (Some err)"

definition NewAckNoCallbackErr :: "Status \<Rightarrow> Error option \<Rightarrow> goerr" where
  "NewAckNoCallbackErr status err =
     (case err of None \<Rightarrow> GoPanic ''AckNoCallbackErr: Err is required''
      | Some e \<Rightarrow> ErrAckNoCallback status e)"

text \<open>
  The targets of \<open>errors.As\<close> in the adapter: the three concrete types and the interface
  \<open>BecknErrorer\<close>, which all four error types with a \<open>BecknError\<close> method implement.
\<close>

definition as_schema :: "goerr \<Rightarrow> Error list option" where
  "as_schema e = (case e of ErrSchema es \<Rightarrow> Some es | _ \<Rightarrow> None)"

definition as_coded :: "goerr \<Rightarrow> (Error \<times> int) option" where
  "as_coded e = (case e of
      ErrCoded c h p d k \<Rightarrow> Some (CodedErr_BecknError c p d k, HTTPStatus h) | _ \<Rightarrow> None)"

definition as_ack_no_callback :: "goerr \<Rightarrow> (Status \<times> Error) option" where
  "as_ack_no_callback e = (case e of ErrAckNoCallback s b \<Rightarrow> Some (s, b) | _ \<Rightarrow> None)"

definition as_beckn_errorer :: "goerr \<Rightarrow> Error option" where
  "as_beckn_errorer e = (case e of
      ErrSchema es \<Rightarrow> Some (SchemaValidationErr_BecknError es)
    | ErrCoded c h p d k \<Rightarrow> Some (CodedErr_BecknError c p d k)
    | ErrAckNoCallback s b \<Rightarrow> Some b
    | ErrOther t b k \<Rightarrow> Some b
    | _ \<Rightarrow> None)"

subsection \<open>Participants and keys (model.go)\<close>

record Subscription =
  SubscriberID :: string
  SubURL :: string
  SubType :: string
  Domain :: string
  KeyID :: string
  SigningPublicKey :: string
  EncrPublicKey :: string
  ValidFrom :: int
  ValidUntil :: int
  SubStatus :: string
  Created :: int
  Updated :: int
  Nonce :: string
  NetworkMemberships :: "string list"

text \<open>The zero \<open>time.Time\<close> is the start of the year 1, in nanoseconds from the Unix epoch.\<close>

definition zero_time :: int where "zero_time = - 62135596800 * 10 ^ 9"

record RegistryMetadata =
  NamespaceIdentifier :: string
  RegistryName :: string
  RawMeta :: "string \<rightharpoonup> string"

record SubscriberRecord =
  RecSubscription :: Subscription
  RecMeta :: "string \<rightharpoonup> string"
  RecMetaArrays :: "string \<rightharpoonup> string list"

definition nonUsableKeySubscriptionStatuses :: "string list" where
  "nonUsableKeySubscriptionStatuses = [''EXPIRED'', ''UNSUBSCRIBED'', ''INVALID_SSL'']"

definition IsKeyStatusUsable :: "string \<Rightarrow> bool" where
  "IsKeyStatusUsable status = (status \<notin> set nonUsableKeySubscriptionStatuses)"

record Keyset =
  KSubscriberID :: string
  UniqueKeyID :: string
  SigningPrivate :: string
  SigningPublic :: string
  EncrPrivate :: string
  EncrPublic :: string

definition AuthHeaderSubscriber :: string where "AuthHeaderSubscriber = ''Authorization''"
definition AuthHeaderGateway :: string where "AuthHeaderGateway = ''X-Gateway-Authorization''"
definition UnaAuthorizedHeaderSubscriber :: string where
  "UnaAuthorizedHeaderSubscriber = ''WWW-Authenticate''"
definition UnaAuthorizedHeaderGateway :: string where
  "UnaAuthorizedHeaderGateway = ''Proxy-Authenticate''"

text \<open>The values of a \<open>context.Context\<close>: a partial map from context keys to decoded values.\<close>

type_synonym ContextKey = string
type_synonym Context = "ContextKey \<rightharpoonup> json"

definition ContextKeyTxnID :: ContextKey where "ContextKeyTxnID = ''transaction_id''"
definition ContextKeyMsgID :: ContextKey where "ContextKeyMsgID = ''message_id''"
definition ContextKeySubscriberID :: ContextKey where "ContextKeySubscriberID = ''subscriber_id''"
definition ContextKeyModuleID :: ContextKey where "ContextKeyModuleID = ''module_id''"
definition ContextKeyParentID :: ContextKey where "ContextKeyParentID = ''parent_id''"
definition ContextKeyRemoteID :: ContextKey where "ContextKeyRemoteID = ''remote_id''"
definition ContextKeyProtocolVersion :: ContextKey where
  "ContextKeyProtocolVersion = ''protocol_version''"
definition ContextKeyNetworkID :: ContextKey where "ContextKeyNetworkID = ''network_id''"

lemmas context_key_defs = ContextKeyTxnID_def ContextKeyMsgID_def ContextKeySubscriberID_def
  ContextKeyModuleID_def ContextKeyParentID_def ContextKeyRemoteID_def
  ContextKeyProtocolVersion_def ContextKeyNetworkID_def

text \<open>\<open>ctx.Value(k).(string)\<close>: the two results of the type assertion as an option.\<close>

definition ctx_string :: "Context \<Rightarrow> ContextKey \<Rightarrow> string option" where
  "ctx_string c k = (case c k of Some (JStr s) \<Rightarrow> Some s | _ \<Rightarrow> None)"

definition ctx_string0 :: "Context \<Rightarrow> ContextKey \<Rightarrow> string" where
  "ctx_string0 c k = (case ctx_string c k of Some s \<Rightarrow> s | None \<Rightarrow> [])"

definition IsAtLeastV2 :: "string \<Rightarrow> bool" where
  "IsAtLeastV2 version =
     (if version = [] then False
      else (case Atoi (hd (SplitN2 (CHR ''.'') version)) of
          None \<Rightarrow> False
        | Some major \<Rightarrow> major \<ge> 2))"

definition contextKeys :: "(string \<times> ContextKey) list" where
  "contextKeys =
     [(''transaction_id'', ContextKeyTxnID), (''message_id'', ContextKeyMsgID),
      (''subscriber_id'', ContextKeySubscriberID), (''module_id'', ContextKeyModuleID),
      (''parent_id'', ContextKeyParentID), (''remote_id'', ContextKeyRemoteID),
      (''transactionId'', ContextKeyTxnID), (''messageId'', ContextKeyMsgID)]"

definition ParseContextKey :: "string \<Rightarrow> goerr + ContextKey" where
  "ParseContextKey v =
     (case map_of contextKeys v of
        None \<Rightarrow> Inl (ErrText (''invalid context key: '' @ v))
      | Some k \<Rightarrow> Inr k)"

type_synonym Role = string

definition RoleBAP :: Role where "RoleBAP = ''bap''"
definition RoleBPP :: Role where "RoleBPP = ''bpp''"
definition RoleGateway :: Role where "RoleGateway = ''gateway''"
definition RoleRegistery :: Role where "RoleRegistery = ''registery''"
definition RoleDiscovery :: Role where "RoleDiscovery = ''discovery''"

lemmas role_defs = RoleBAP_def RoleBPP_def RoleGateway_def RoleRegistery_def RoleDiscovery_def

definition validRoles :: "Role list" where
  "validRoles = [RoleBAP, RoleBPP, RoleGateway, RoleRegistery, RoleDiscovery]"

text \<open>\<open>Role.UnmarshalYAML\<close> once the scalar has been decoded.\<close>

definition Role_UnmarshalYAML :: "string \<Rightarrow> goerr + Role" where
  "Role_UnmarshalYAML roleName =
     (if roleName \<notin> set validRoles then Inl (ErrText (''invalid Role: '' @ roleName)) else Inr roleName)"

text \<open>
  \<open>ExtractContext\<close>: the decoded body and its context object. A body that is the literal
  \<open>null\<close> decodes to a nil map without an error, so it lacks the context field.
\<close>

definition ExtractContext ::
  "string \<Rightarrow> Error + (string \<times> json) list \<times> (string \<times> json) list" where
  "ExtractContext body =
     (let missing = NewCodedError ''SCH_REQUIRED_FIELD_MISSING'' ''context field not found or invalid'';
          bad = NewCodedErrorWithCause ''SCH_INVALID_JSON''
                  (''failed to decode request body: '' @ ''json.Unmarshal'') []
                  (Some (ErrText ''json.Unmarshal''))
      in case json_decode body of
           Some (JObj req) \<Rightarrow>
             (case jget req ''context'' of Some (JObj ctx) \<Rightarrow> Inr (req, ctx) | _ \<Rightarrow> Inl missing)
         | Some JNull \<Rightarrow> Inl missing
         | _ \<Rightarrow> Inl bad)"

definition WrapExtractContextErr :: "string \<Rightarrow> Error \<Rightarrow> goerr" where
  "WrapExtractContextErr prefix becknErr =
     NewBadReqErr (Code becknErr) (errorf_w (prefix @ '': '') (ErrBeckn becknErr))"

text \<open>The first key whose value is a non-empty string.\<close>

fun first_string :: "(string \<times> json) list \<Rightarrow> string list \<Rightarrow> string" where
  "first_string ctx [] = []"
| "first_string ctx (k # ks) = (if jstring ctx k \<noteq> [] then jstring ctx k else first_string ctx ks)"

definition ResolveNetworkID :: "(string \<times> json) list \<Rightarrow> string" where
  "ResolveNetworkID reqContext = first_string reqContext [''network_id'', ''networkId'']"

definition ResolveCallerID :: "(string \<times> json) list \<Rightarrow> Role \<Rightarrow> string" where
  "ResolveCallerID reqContext role =
     (if role = RoleBAP then first_string reqContext [''bpp_id'', ''bppId'', ''receiverId'']
      else if role = RoleBPP then first_string reqContext [''bap_id'', ''bapId'', ''senderId'']
      else [])"

definition ResolveSubscriberID :: "(string \<times> json) list \<Rightarrow> Role \<Rightarrow> string" where
  "ResolveSubscriberID reqContext role =
     (if role = RoleBAP then first_string reqContext [''bap_id'', ''bapId'', ''senderId'']
      else if role = RoleBPP then first_string reqContext [''bpp_id'', ''bppId'', ''receiverId'']
      else [])"

subsection \<open>Requests, routes and the step context (model.go)\<close>

text \<open>
  The fields of \<open>url.URL\<close> that the adapter reads or writes; \<open>URest\<close> carries all the others,
  which it copies unchanged.
\<close>

record URL =
  UScheme :: string
  UHost :: string
  UPath :: string
  URawQuery :: string
  URest :: string

text \<open>
  An \<open>http.Header\<close> under \<open>Get\<close>, \<open>Set\<close> and \<open>Del\<close>, with the keys written as in the source:
  the first value of each key.
\<close>

type_synonym Header = "string \<rightharpoonup> string"

definition header_Get :: "Header \<Rightarrow> string \<Rightarrow> string" where
  "header_Get h k = (case h k of None \<Rightarrow> [] | Some v \<Rightarrow> v)"

record Request =
  Method :: string
  ReqURL :: URL
  ReqHeader :: Header
  Host :: string
  ReqBody :: "goerr + string"
  ReqCtx :: Context

record Route =
  TargetType :: string
  PublisherID :: string
  RouteURL :: "URL option"

record StepContext =
  ScCtx :: Context
  ScRequest :: Request
  Body :: string
  ScRoute :: "Route option"
  SubID :: string
  ScRole :: Role
  RespHeader :: Header
  ProtocolVersion :: string
  MessageID :: string
  InboundAuthSignature :: string
  IsCallerHandler :: bool

definition WithContext :: "StepContext \<Rightarrow> Context \<Rightarrow> StepContext" where
  "WithContext ctx newCtx = ctx\<lparr>ScCtx := newCtx\<rparr>"

record ResponseStepContext =
  StatusCode :: int
  RHeader :: Header
  RBody :: string

record Message =
  MStatus :: Status
  MMessageID :: string
  MError :: "Error option"

text \<open>The JSON of \<open>Error\<close>, \<open>ErrorDetails\<close> and \<open>Response\<close>, with \<open>omitempty\<close> as the tags say.\<close>

definition opt_member :: "string \<Rightarrow> string \<Rightarrow> (string \<times> json) list" where
  "opt_member k s = (if s = [] then [] else [(k, JStr s)])"

fun error_json :: "Error \<Rightarrow> json" and details_json :: "ErrorDetails \<Rightarrow> json" where
  "error_json (Error c m d k) =
     JObj ([(''code'', JStr c), (''message'', JStr m)] @
       (case d of None \<Rightarrow> [] | Some x \<Rightarrow> [(''details'', details_json x)]))"
| "details_json (ErrorDetails p c) =
     JObj (opt_member ''path'' p @ (case c of None \<Rightarrow> [] | Some e \<Rightarrow> [(''cause'', error_json e)]))"

definition response_json :: "Message \<Rightarrow> json" where
  "response_json m =
     JObj [(''message'', JObj ([(''status'', JStr (MStatus m))] @ opt_member ''messageId'' (MMessageID m) @
       (case MError m of None \<Rightarrow> [] | Some e \<Rightarrow> [(''error'', error_json e)])))]"

subsection \<open>Lemmas on error chains\<close>

lemmas error_constructors = NewCodedErr_def NewSignValidationErr_def NewBadReqErr_def
  NewNotFoundErr_def NewAckNoCallbackErr_def

lemmas as_targets = as_schema_def as_coded_def as_ack_no_callback_def as_beckn_errorer_def

lemma not_panic_simps [simp]:
  "\<not> is_panic (ErrText s)" "\<not> is_panic (ErrWrap p e)" "\<not> is_panic (ErrBeckn b)"
  "\<not> is_panic (ErrSchema es)" "\<not> is_panic (ErrCoded c h p d k)" "is_panic (GoPanic s)"
  "\<not> is_panic (ErrAckNoCallback s b)" "\<not> is_panic (ErrOther t b k)"
  by (simp_all add: is_panic_def)

lemma not_panic_constructors [simp]:
  "\<not> is_panic (NewCodedErr h c e)" "\<not> is_panic (NewSignValidationErr c e)"
  "\<not> is_panic (NewBadReqErr c e)" "\<not> is_panic (NewNotFoundErr c e)"
  by (simp_all add: error_constructors)

lemma is_panic_errorf_w [simp]: "is_panic (errorf_w p e) = is_panic e"
  by (simp add: errorf_w_def)

text \<open>Wrapping with \<open>%w\<close> hides nothing from \<open>errors.As\<close>.\<close>

lemma errors_As_errorf_w [simp]:
  assumes "\<And>p e. T (ErrWrap p e) = None"
  shows "errors_As T (errorf_w p e) = errors_As T e"
  using assms by (simp add: errorf_w_def)

lemma as_targets_wrap [simp]:
  "as_schema (ErrWrap p e) = None" "as_coded (ErrWrap p e) = None"
  "as_ack_no_callback (ErrWrap p e) = None" "as_beckn_errorer (ErrWrap p e) = None"
  by (simp_all add: as_targets)

lemma HTTPStatus_range: "400 \<le> HTTPStatus h \<and> HTTPStatus h \<le> 599"
  by (simp add: HTTPStatus_def)

lemma resolveCode_nonempty [simp]: "resolveCode c d \<noteq> []"
  by (simp add: resolveCode_def defaultUnclassifiedCode_def)

lemma FirstNonEmptyCode_cases:
  "FirstNonEmptyCode es d = d \<or> (\<exists>e \<in> set es. FirstNonEmptyCode es d = Code e \<and> Code e \<noteq> [])"
  by (induction es) auto

lemma errors_As_Some:
  "errors_As T e = Some a \<Longrightarrow> \<exists>e'. T e' = Some a"
  by (induction T e rule: errors_As.induct) (auto split: option.splits)

subsection \<open>Lemmas on context look-ups\<close>

lemma first_string_cases:
  "first_string ctx ks = [] \<or> (\<exists>k \<in> set ks. first_string ctx ks = jstring ctx k)"
  by (induction ks) auto

lemma first_string_empty_iff: "first_string ctx ks = [] \<longleftrightarrow> (\<forall>k \<in> set ks. jstring ctx k = [])"
  by (induction ks) auto

lemma IsAtLeastV2_empty [simp]: "\<not> IsAtLeastV2 []"
  by (simp add: IsAtLeastV2_def)

lemma header_Get_upd [simp]:
  "header_Get (h(k \<mapsto> v)) k = v" "k \<noteq> k' \<Longrightarrow> header_Get (h(k \<mapsto> v)) k' = header_Get h k'"
  by (simp_all add: header_Get_def)

lemma ctx_string0_upd [simp]:
  "ctx_string0 (c(k \<mapsto> JStr s)) k = s" "k \<noteq> k' \<Longrightarrow> ctx_string0 (c(k \<mapsto> v)) k' = ctx_string0 c k'"
  by (simp_all add: ctx_string0_def ctx_string_def)

end
