(* ===== verification/Plugin_Interfaces.thy ===== *)
theory Plugin_Interfaces
  imports Beckn_Model
begin

text \<open>
  The plugin interfaces of \<open>pkg/plugin/definition\<close>. A Go interface value is a record of its
  methods; every method takes the state \<^typ>\<open>'w\<close> of the outside world (caches, queues, key
  stores, the clock) and returns it updated. A method that may fail returns a sum, the
  error on the left, or an optional error when it has no other result. A step receives the
  step context by pointer and returns it as it left it. A nil interface value is
  \<^term>\<open>None\<close> where the code compares it with nil.
\<close>

type_synonym 'w clock = "'w \<Rightarrow> int \<times> 'w"

type_synonym 'w Step = "'w \<Rightarrow> StepContext \<Rightarrow> goerr option \<times> StepContext \<times> 'w"

type_synonym 'w ResponseStep =
  "'w \<Rightarrow> StepContext \<Rightarrow> ResponseStepContext option \<Rightarrow>
     goerr option \<times> StepContext \<times> ResponseStepContext option \<times> 'w"

record 'w Signer =
  Sign :: "'w \<Rightarrow> string \<Rightarrow> string \<Rightarrow> int \<Rightarrow> int \<Rightarrow> (goerr + string) \<times> 'w"
  SignAck :: "'w \<Rightarrow> string \<Rightarrow> string \<Rightarrow> string \<Rightarrow> int \<Rightarrow> int \<Rightarrow> (goerr + string) \<times> 'w"

record 'w SignValidator =
  Validate :: "'w \<Rightarrow> StepContext \<Rightarrow> string \<Rightarrow> string \<Rightarrow> bool \<Rightarrow> goerr option \<times> 'w"
  ValidateAck ::
    "'w \<Rightarrow> StepContext \<Rightarrow> string \<Rightarrow> string \<Rightarrow> string \<Rightarrow> string \<Rightarrow> bool \<Rightarrow> goerr option \<times> 'w"

record 'w RegistryLookup =
  Lookup :: "'w \<Rightarrow> StepContext \<Rightarrow> Subscription \<Rightarrow> (goerr + Subscription list) \<times> 'w"

record 'w KeyManager =
  GenerateKeyset :: "'w \<Rightarrow> (goerr + Keyset) \<times> 'w"
  InsertKeyset :: "'w \<Rightarrow> string \<Rightarrow> Keyset option \<Rightarrow> goerr option \<times> 'w"
  KeysetOf :: "'w \<Rightarrow> string \<Rightarrow> (goerr + Keyset) \<times> 'w"
  LookupNPKeys :: "'w \<Rightarrow> StepContext \<Rightarrow> string \<Rightarrow> string \<Rightarrow> (goerr + string \<times> string) \<times> 'w"
  DeleteKeyset :: "'w \<Rightarrow> string \<Rightarrow> goerr option \<times> 'w"

record 'w Router =
  RouteOf :: "'w \<Rightarrow> URL option \<Rightarrow> string \<Rightarrow> (goerr + Route) \<times> 'w"

record 'w Publisher =
  Publish :: "'w \<Rightarrow> string \<Rightarrow> string \<Rightarrow> goerr option \<times> 'w"

record 'w SchemaValidator =
  SchemaValidate :: "'w \<Rightarrow> StepContext \<Rightarrow> URL option \<Rightarrow> string \<Rightarrow> goerr option \<times> 'w"

record 'w Cache =
  CacheGet :: "'w \<Rightarrow> string \<Rightarrow> (goerr + string) \<times> 'w"
  CacheSet :: "'w \<Rightarrow> string \<Rightarrow> string \<Rightarrow> int \<Rightarrow> goerr option \<times> 'w"
  CacheDelete :: "'w \<Rightarrow> string \<Rightarrow> goerr option \<times> 'w"
  CacheClear :: "'w \<Rightarrow> goerr option \<times> 'w"

record PayloadEntry =
  EMessageID :: string
  ETransactionID :: string
  ENetworkID :: string
  EAction :: string
  ESubscriberID :: string
  ERole :: Role
  ERequestBody :: "string option"
  ESignature :: string
  EStoredAt :: int
  EExpiresAt :: int

record 'w PayloadStore =
  PSStore :: "'w \<Rightarrow> StepContext \<Rightarrow> goerr option \<times> 'w"
  PSGetByTransactionID :: "'w \<Rightarrow> string \<Rightarrow> (goerr + PayloadEntry list) \<times> 'w"
  PSGetByMessageID :: "'w \<Rightarrow> string \<Rightarrow> string \<Rightarrow> (goerr + PayloadEntry option) \<times> 'w"
  PSExists :: "'w \<Rightarrow> string \<Rightarrow> (goerr + bool) \<times> 'w"

end
