(* ===== verification/Go_Base64.thy ===== *)
theory Go_Base64
  imports Go_Strings
begin

text \<open>
  \<open>base64.StdEncoding\<close> of Go's \<open>encoding/base64\<close>: the padded alphabet, an encoder, and the
  decoder, which skips line breaks, insists on padding at the end only and does not check
  the unused bits of the last group.
\<close>

definition b64_char :: "nat \<Rightarrow> char" where
  "b64_char n =
     (if n < 26 then char_of (65 + n) else if n < 52 then char_of (71 + n)
      else if n < 62 then char_of (n - 4) else if n = 62 then CHR ''+'' else CHR ''/'')"

definition b64_val :: "char \<Rightarrow> nat option" where
  "b64_val c =
     (let n = of_char c in
      if 65 \<le> n \<and> n \<le> 90 then Some (n - 65)
      else if 97 \<le> n \<and> n \<le> 122 then Some (n - 71)
      else if 48 \<le> n \<and> n \<le> 57 then Some (n + 4)
      else if n = 43 then Some 62 else if n = 47 then Some 63 else None)"

text \<open>Three bytes are four sextets and back.\<close>

definition sextet1 :: "nat \<Rightarrow> nat" where "sextet1 a = a div 4"
definition sextet2 :: "nat \<Rightarrow> nat \<Rightarrow> nat" where "sextet2 a b = a mod 4 * 16 + b div 16"
definition sextet3 :: "nat \<Rightarrow> nat \<Rightarrow> nat" where "sextet3 b c = b mod 16 * 4 + c div 64"
definition sextet4 :: "nat \<Rightarrow> nat" where "sextet4 c = c mod 64"
definition byte1 :: "nat \<Rightarrow> nat \<Rightarrow> nat" where "byte1 w x = w * 4 + x div 16"
definition byte2 :: "nat \<Rightarrow> nat \<Rightarrow> nat" where "byte2 x y = x mod 16 * 16 + y div 4"
definition byte3 :: "nat \<Rightarrow> nat \<Rightarrow> nat" where "byte3 y z = y mod 4 * 64 + z"

fun b64_encode :: "string \<Rightarrow> string" where
  "b64_encode [] = []"
| "b64_encode [x] =
     [b64_char (sextet1 (of_char x)), b64_char (sextet2 (of_char x) 0), CHR ''='', CHR ''='']"
| "b64_encode [x, y] =
     [b64_char (sextet1 (of_char x)), b64_char (sextet2 (of_char x) (of_char y)),
      b64_char (sextet3 (of_char y) 0), CHR ''='']"
| "b64_encode (x # y # z # s) =
     b64_char (sextet1 (of_char x)) # b64_char (sextet2 (of_char x) (of_char y)) #
     b64_char (sextet3 (of_char y) (of_char z)) # b64_char (sextet4 (of_char z)) # b64_encode s"

fun b64_groups :: "string \<Rightarrow> string option" where
  "b64_groups [] = Some []"
| "b64_groups (w # x # y # z # s) =
     (case (b64_val w, b64_val x) of
        (Some a, Some b) \<Rightarrow>
          if y = CHR ''='' then
            (if z = CHR ''='' \<and> s = [] then Some [char_of (byte1 a b)] else None)
          else (case b64_val y of
              None \<Rightarrow> None
            | Some c \<Rightarrow>
                if z = CHR ''='' then
                  (if s = [] then Some [char_of (byte1 a b), char_of (byte2 b c)] else None)
                else (case b64_val z of
                    None \<Rightarrow> None
                  | Some d \<Rightarrow>
                      map_option (\<lambda>t. char_of (byte1 a b) # char_of (byte2 b c) # char_of (byte3 c d) # t)
                        (b64_groups s)))
      | _ \<Rightarrow> None)"
| "b64_groups s = None"

definition b64_decode :: "string \<Rightarrow> string option" where
  "b64_decode s = b64_groups (filter (\<lambda>c. c \<noteq> CHR 0x0A \<and> c \<noteq> CHR 0x0D) s)"

subsection \<open>Round trip\<close>

lemma b64_val_char [simp]: "n < 64 \<Longrightarrow> b64_val (b64_char n) = Some n"
  by (auto simp: b64_char_def b64_val_def Let_def)

lemma b64_char_code:
  "n < 64 \<Longrightarrow> (of_char (b64_char n) :: nat) \<in> {65..90} \<union> {97..122} \<union> {48..57} \<union> {43, 47}"
  by (auto simp: b64_char_def)

lemma b64_char_neq_pad [simp]: "n < 64 \<Longrightarrow> b64_char n \<noteq> CHR ''=''"
  using b64_char_code [of n] by (auto simp flip: of_char_eq_iff [where ?'a = nat])

definition b64_byte :: "char \<Rightarrow> bool" where
  "b64_byte c \<longleftrightarrow> (of_char c :: nat) \<in> {65..90} \<union> {97..122} \<union> {48..57} \<union> {43, 47, 61}"

lemma b64_char_byte [simp]: "n < 64 \<Longrightarrow> b64_byte (b64_char n)"
  using b64_char_code [of n] by (auto simp: b64_byte_def)

lemma of_char_256 [simp]: "(of_char c :: nat) < 256"
  by simp

lemma sextet_bounds [simp]:
  "a < 256 \<Longrightarrow> sextet1 a < 64" "b < 256 \<Longrightarrow> sextet2 a b < 64" "c < 256 \<Longrightarrow> sextet3 b c < 64"
  "sextet4 c < 64"
proof -
  have "a mod 4 < 4" and "b mod 16 < 16" by simp_all
  moreover assume "b < 256"
  then have "b div 16 < 16" by simp
  ultimately show "sextet2 a b < 64" by (simp add: sextet2_def)
next
  have "b mod 16 < 16" by simp
  moreover assume "c < 256"
  then have "c div 64 < 4" by simp
  ultimately show "sextet3 b c < 64" by (simp add: sextet3_def)
qed (simp_all add: sextet1_def sextet4_def)

lemma bytes_of_sextets [simp]:
  "b < 256 \<Longrightarrow> byte1 (sextet1 a) (sextet2 a b) = a"
  "b < 256 \<Longrightarrow> c < 256 \<Longrightarrow> byte2 (sextet2 a b) (sextet3 b c) = b"
  "c < 256 \<Longrightarrow> byte3 (sextet3 b c) (sextet4 c) = c"
proof -
  assume "b < 256"
  then have b: "b div 16 < 16" by simp
  then have *: "(a mod 4 * 16 + b div 16) div 16 = a mod 4" "(a mod 4 * 16 + b div 16) mod 16 = b div 16"
    by (simp_all add: div_eq_0_iff)
  show "byte1 (sextet1 a) (sextet2 a b) = a"
    unfolding byte1_def sextet1_def sextet2_def * by simp
  {
    assume "c < 256"
    then have "c div 64 < 4" by simp
    then have "(b mod 16 * 4 + c div 64) div 4 = b mod 16" by (simp add: div_eq_0_iff)
    then show "byte2 (sextet2 a b) (sextet3 b c) = b"
      unfolding byte2_def sextet2_def sextet3_def * by simp
  }
next
  assume "c < 256"
  then have "c div 64 < 4" by simp
  then have "(b mod 16 * 4 + c div 64) mod 4 = c div 64" by simp
  then show "byte3 (sextet3 b c) (sextet4 c) = c"
    unfolding byte3_def sextet3_def sextet4_def by simp
qed

lemma b64_groups_encode: "b64_groups (b64_encode s) = Some s"
  by (induction s rule: b64_encode.induct) simp_all

lemma b64_byte_pad [simp]: "b64_byte (CHR ''='')"
  by (simp add: b64_byte_def)

lemma b64_encode_bytes: "list_all b64_byte (b64_encode s)"
  by (induction s rule: b64_encode.induct) simp_all

lemma b64_byte_no_break: "b64_byte c \<Longrightarrow> c \<noteq> CHR 0x0A \<and> c \<noteq> CHR 0x0D"
  by (auto simp: b64_byte_def)

lemma b64_decode_encode [simp]: "b64_decode (b64_encode s) = Some s"
proof -
  have "filter (\<lambda>c. c \<noteq> CHR 0x0A \<and> c \<noteq> CHR 0x0D) (b64_encode s) = b64_encode s"
    using b64_encode_bytes [of s] by (auto simp: list_all_iff filter_id_conv dest: b64_byte_no_break)
  then show ?thesis by (simp add: b64_decode_def b64_groups_encode)
qed

lemma b64_encode_graphic: "list_all graphic (b64_encode s)"
  using b64_encode_bytes [of s] by (auto simp: list_all_iff b64_byte_def graphic_def)

lemma b64_encode_avoids: "\<not> b64_byte c \<Longrightarrow> c \<notin> set (b64_encode s)"
  using b64_encode_bytes [of s] by (auto simp: list_all_iff)

lemma b64_encode_eq_Nil [simp]: "b64_encode s = [] \<longleftrightarrow> s = []"
  by (cases s rule: b64_encode.cases) (auto simp: Let_def)

end
