(* ===== verification/Signing.thy ===== *)
theory Signing
  imports Plugin_Interfaces Go_Base64
begin

text \<open>
  The signature plugins \<open>signer/signer.go\<close> and \<open>signvalidator/signvalidator.go\<close>: the three- and
  four-line signing strings, the Ed25519 signature over them, the parser of the
  \<open>Authorization\<close> header, the timestamp window and the identity check.

  The cryptographic primitives (\<open>crypto/ed25519\<close>, \<open>golang.org/x/crypto/blake2b\<close>) are the
  fields of a record that every definition takes as an argument; what the proofs rely on
  is the hypothesis \<open>ed25519_correct\<close>. Times are nanoseconds since the Unix epoch;
  \<open>time.Unix\<close> adds the offset between Go's internal epoch and the Unix epoch in 64-bit
  arithmetic, which wraps.
\<close>

record Crypto =
  blake2b_512 :: "string \<Rightarrow> string"
  ed25519_public :: "string \<Rightarrow> string"
  ed25519_sign :: "string \<Rightarrow> string \<Rightarrow> string"
  ed25519_verify :: "string \<Rightarrow> string \<Rightarrow> string \<Rightarrow> bool"

text \<open>
  The documented contract of Ed25519: the public key of a 32-byte seed has 32 bytes, and a
  signature made with the seed has 64 bytes and verifies under it.
\<close>

definition ed25519_correct :: "Crypto \<Rightarrow> bool" where
  "ed25519_correct C \<longleftrightarrow>
     (\<forall>seed. length seed = 32 \<longrightarrow> length (ed25519_public C seed) = 32 \<and>
        (\<forall>m. length (ed25519_sign C seed m) = 64 \<and>
              ed25519_verify C (ed25519_public C seed) m (ed25519_sign C seed m)))"

subsection \<open>Signing strings\<close>

text \<open>The two \<open>hash\<close> functions (of the signer and of the validator) build the same string.\<close>

definition signing_string :: "string \<Rightarrow> int \<Rightarrow> int \<Rightarrow> string" where
  "signing_string digestB64 created expires =
     ''(created): '' @ int_dec created @ [CHR 0x0A] @ ''(expires): '' @ int_dec expires @ [CHR 0x0A] @
     ''digest: BLAKE-512='' @ digestB64"

definition signer_hash :: "Crypto \<Rightarrow> string \<Rightarrow> int \<Rightarrow> int \<Rightarrow> string" where
  "signer_hash C payload createdAt expiresAt =
     (let hashSum = blake2b_512 C payload; digestB64 = b64_encode hashSum
      in signing_string digestB64 createdAt expiresAt)"

definition validator_hash :: "Crypto \<Rightarrow> string \<Rightarrow> int \<Rightarrow> int \<Rightarrow> string" where
  "validator_hash C payload created expired =
     (let hashSum = blake2b_512 C payload; digestB64 = b64_encode hashSum
      in signing_string digestB64 created expired)"

definition request_signature_line :: "string \<Rightarrow> string" where
  "request_signature_line sig = [CHR 0x0A] @ ''request-signature: '' @ sig"

definition hashAck :: "Crypto \<Rightarrow> string \<Rightarrow> int \<Rightarrow> int \<Rightarrow> string \<Rightarrow> string" where
  "hashAck C payload created expired requestSignature =
     (let s = validator_hash C payload created expired
      in if requestSignature \<noteq> [] then s @ request_signature_line requestSignature else s)"

subsection \<open>The signer\<close>

definition ed25519_seed_size :: nat where
  "ed25519_seed_size = 32"

definition generateSignature :: "Crypto \<Rightarrow> string \<Rightarrow> string \<Rightarrow> goerr + string" where
  "generateSignature C signingString privateKeyBase64 =
     (case b64_decode privateKeyBase64 of
        None \<Rightarrow> Inl (errorf_w ''error decoding private key: '' (ErrText ''base64.DecodeString''))
      | Some privateKeyBytes \<Rightarrow>
          if length privateKeyBytes \<noteq> ed25519_seed_size then Inl (ErrText ''invalid seed length'')
          else Inr (ed25519_sign C privateKeyBytes signingString))"

definition signer_Sign :: "Crypto \<Rightarrow> string \<Rightarrow> string \<Rightarrow> int \<Rightarrow> int \<Rightarrow> goerr + string" where
  "signer_Sign C body privateKeyBase64 createdAt expiresAt =
     (case generateSignature C (signer_hash C body createdAt expiresAt) privateKeyBase64 of
        Inl e \<Rightarrow> Inl e
      | Inr signature \<Rightarrow> Inr (b64_encode signature))"

definition signer_SignAck ::
  "Crypto \<Rightarrow> string \<Rightarrow> string \<Rightarrow> string \<Rightarrow> int \<Rightarrow> int \<Rightarrow> goerr + string" where
  "signer_SignAck C ackBody requestSignature privateKeyBase64 createdAt expiresAt =
     (let s = signer_hash C ackBody createdAt expiresAt;
          signingString = (if requestSignature \<noteq> [] then s @ request_signature_line requestSignature else s)
      in case generateSignature C signingString privateKeyBase64 of
           Inl e \<Rightarrow> Inl e
         | Inr signature \<Rightarrow> Inr (b64_encode signature))"

definition signer_plugin :: "Crypto \<Rightarrow> 'w Signer" where
  "signer_plugin C =
     \<lparr>Sign = (\<lambda>w body sk c e. (signer_Sign C body sk c e, w)),
      SignAck = (\<lambda>w body rs sk c e. (signer_SignAck C body rs sk c e, w))\<rparr>"

subsection \<open>The validator\<close>

definition codeSignatureMissing :: string where "codeSignatureMissing = ''AUT_SIGNATURE_MISSING''"
definition codeSignatureInvalid :: string where "codeSignatureInvalid = ''AUT_SIGNATURE_INVALID''"
definition codeUnauthorizedAction :: string where "codeUnauthorizedAction = ''AUT_UNAUTHORIZED_ACTION''"

definition second :: int where "second = 1000000000"
definition defaultClockSkewTolerance :: int where "defaultClockSkewTolerance = 5 * second"
definition maxClockSkewTolerance :: int where "maxClockSkewTolerance = 10 * second"

text \<open>\<open>New\<close>: the tolerance is resolved once; a large one is only warned about.\<close>

definition validator_New :: "int option \<Rightarrow> int" where
  "validator_New cfg = (case cfg of None \<Rightarrow> defaultClockSkewTolerance | Some t \<Rightarrow> t)"

definition auth_attr :: "(string \<rightharpoonup> string) \<Rightarrow> string \<Rightarrow> (string \<rightharpoonup> string)" where
  "auth_attr m part =
     (case SplitN2 (CHR ''='') (TrimSpace part) of
        [k, v] \<Rightarrow> m(TrimSpace k \<mapsto> TrimByte (CHR 0x22) v)
      | _ \<Rightarrow> m)"

definition signatureMap :: "string \<Rightarrow> (string \<rightharpoonup> string)" where
  "signatureMap header =
     foldl auth_attr Map.empty (Split (CHR '','') (TrimPrefix header ''Signature ''))"

definition parseAuthHeader :: "string \<Rightarrow> goerr + int \<times> int \<times> string \<times> string" where
  "parseAuthHeader header =
     (let m = signatureMap header; get = (\<lambda>k. case m k of None \<Rightarrow> [] | Some v \<Rightarrow> v) in
      if get ''algorithm'' \<noteq> ''ed25519'' then
        Inl (NewSignValidationErr codeSignatureInvalid
          (ErrText (''unsupported algorithm '' @ go_quote (get ''algorithm'') @ '': only ed25519 is permitted'')))
      else (case ParseInt64 (get ''created'') of
          None \<Rightarrow> Inl (NewSignValidationErr codeSignatureInvalid
                    (errorf_w ''invalid created timestamp: '' (ErrText ''strconv.ParseInt'')))
        | Some created \<Rightarrow>
           (case ParseInt64 (get ''expires'') of
              None \<Rightarrow> Inl (NewSignValidationErr codeSignatureInvalid
                        (errorf_w ''invalid expires timestamp: '' (ErrText ''strconv.ParseInt'')))
            | Some expired \<Rightarrow>
                if get ''signature'' = [] then
                  Inl (NewSignValidationErr codeSignatureMissing (ErrText ''signature missing in header''))
                else
                  (let keyID = get ''keyId'';
                       subscriberID =
                         (if keyID = [] then []
                          else (case SplitN2 (CHR ''|'') keyID of
                              p0 # p1 # _ \<Rightarrow> TrimSpace p0
                            | _ \<Rightarrow> []))
                   in Inr (created, expired, get ''signature'', subscriberID)))))"

definition wrap64 :: "int \<Rightarrow> int" where
  "wrap64 x = (x + 2 ^ 63) mod 2 ^ 64 - 2 ^ 63"

text \<open>Seconds since year 1 at the Unix epoch (\<open>unixToInternal\<close>).\<close>

definition unixToInternal :: int where
  "unixToInternal = 62135596800"

text \<open>\<open>time.Unix(s, 0)\<close> as the seconds of Go's internal representation.\<close>

definition unix_internal :: "int \<Rightarrow> int" where
  "unix_internal s = wrap64 (s + unixToInternal)"

text \<open>\<open>time.Unix(s, 0).After(t)\<close> for a time \<open>t\<close> in nanoseconds.\<close>

definition unix_after :: "int \<Rightarrow> int \<Rightarrow> bool" where
  "unix_after s t \<longleftrightarrow> unix_internal s > t div second + unixToInternal"

definition checkTimestampWindow :: "string \<Rightarrow> int \<Rightarrow> int \<Rightarrow> int \<Rightarrow> int \<Rightarrow> goerr option" where
  "checkTimestampWindow pfx createdTimestamp expiredTimestamp clockSkewTolerance now =
     (if unix_after createdTimestamp (now + clockSkewTolerance) then
        Some (NewSignValidationErr codeSignatureInvalid (ErrText (pfx @ '' not yet valid'')))
      else if now div second > expiredTimestamp then
        Some (NewSignValidationErr codeSignatureInvalid (ErrText (pfx @ '' expired'')))
      else None)"

definition checkSubscriberIdentity :: "StepContext \<Rightarrow> string \<Rightarrow> string \<Rightarrow> goerr option" where
  "checkSubscriberIdentity ctx body signerID =
     (let remote = ctx_string0 (ScCtx ctx) ContextKeyRemoteID;
          expected =
            (if remote = [] then
               (case context_map_field body of
                  Some (Some m) \<Rightarrow> ResolveCallerID m (ScRole ctx)
                | _ \<Rightarrow> [])
             else remote)
      in if expected = [] then None
         else if signerID \<noteq> expected then
           Some (NewSignValidationErr codeUnauthorizedAction
             (ErrText (''subscriber identity mismatch: signing subscriber '' @ go_quote signerID @
                '' does not match declared context identity '' @ go_quote expected)))
         else None)"

text \<open>\<open>ed25519.Verify\<close> panics on a public key that is not 32 bytes long.\<close>

definition ed25519_Verify :: "Crypto \<Rightarrow> string \<Rightarrow> string \<Rightarrow> string \<Rightarrow> goerr + bool" where
  "ed25519_Verify C pk m sig =
     (if length pk \<noteq> 32 then Inl (GoPanic ''ed25519: bad public key length'')
      else Inr (ed25519_verify C pk m sig))"

text \<open>The common tail of \<open>Validate\<close> and \<open>ValidateAck\<close>, which differ in their texts and signing string.\<close>

definition verify_and_identify ::
  "Crypto \<Rightarrow> string \<Rightarrow> StepContext \<Rightarrow> string \<Rightarrow> string \<Rightarrow> string \<Rightarrow> string \<Rightarrow> string \<Rightarrow> bool \<Rightarrow> goerr option" where
  "verify_and_identify C failure ctx body signingString signatureBytes publicKeyBase64 subscriberID checkIdentity =
     (case b64_decode publicKeyBase64 of
        None \<Rightarrow> Some (NewSignValidationErr codeSignatureInvalid
                  (errorf_w ''error decoding public key: '' (ErrText ''base64.DecodeString'')))
      | Some decodedPublicKey \<Rightarrow>
          (case ed25519_Verify C decodedPublicKey signingString signatureBytes of
             Inl p \<Rightarrow> Some p
           | Inr ok \<Rightarrow>
               if \<not> ok then Some (NewSignValidationErr codeSignatureInvalid (ErrText failure))
               else if checkIdentity then checkSubscriberIdentity ctx body subscriberID
               else None))"

definition validator_Validate ::
  "Crypto \<Rightarrow> int \<Rightarrow> int \<Rightarrow> StepContext \<Rightarrow> string \<Rightarrow> string \<Rightarrow> bool \<Rightarrow> goerr option" where
  "validator_Validate C tolerance now ctx header publicKeyBase64 checkIdentity =
     (case parseAuthHeader header of
        Inl e \<Rightarrow> Some (errorf_w ''error parsing header: '' e)
      | Inr (created, expired, signature, subscriberID) \<Rightarrow>
          (case b64_decode signature of
             None \<Rightarrow> Some (NewSignValidationErr codeSignatureInvalid
                       (errorf_w ''error decoding signature: '' (ErrText ''base64.DecodeString'')))
           | Some signatureBytes \<Rightarrow>
               (case checkTimestampWindow ''signature'' created expired tolerance now of
                  Some e \<Rightarrow> Some e
                | None \<Rightarrow>
                    verify_and_identify C ''signature verification failed'' ctx (Body ctx)
                      (validator_hash C (Body ctx) created expired) signatureBytes publicKeyBase64
                      subscriberID checkIdentity)))"

definition validator_ValidateAck ::
  "Crypto \<Rightarrow> int \<Rightarrow> int \<Rightarrow> StepContext \<Rightarrow> string \<Rightarrow> string \<Rightarrow> string \<Rightarrow> string \<Rightarrow> bool \<Rightarrow> goerr option" where
  "validator_ValidateAck C tolerance now ctx body signatureHeader outboundAuthSignature publicKeyBase64 checkIdentity =
     (case parseAuthHeader signatureHeader of
        Inl e \<Rightarrow> Some (errorf_w ''error parsing Signature header: '' e)
      | Inr (created, expired, signature, subscriberID) \<Rightarrow>
          (case b64_decode signature of
             None \<Rightarrow> Some (NewSignValidationErr codeSignatureInvalid
                       (errorf_w ''error decoding signature: '' (ErrText ''base64.DecodeString'')))
           | Some signatureBytes \<Rightarrow>
               (case checkTimestampWindow ''AckSignature'' created expired tolerance now of
                  Some e \<Rightarrow> Some e
                | None \<Rightarrow>
                    verify_and_identify C ''AckSignature verification failed'' ctx body
                      (hashAck C body created expired outboundAuthSignature) signatureBytes publicKeyBase64
                      subscriberID checkIdentity)))"

definition validator_plugin :: "Crypto \<Rightarrow> int \<Rightarrow> 'w clock \<Rightarrow> 'w SignValidator" where
  "validator_plugin C tolerance clock =
     \<lparr>Validate = (\<lambda>w ctx header pk chk.
        let (now, w1) = clock w in (validator_Validate C tolerance now ctx header pk chk, w1)),
      ValidateAck = (\<lambda>w ctx body header rs pk chk.
        let (now, w1) = clock w in (validator_ValidateAck C tolerance now ctx body header rs pk chk, w1))\<rparr>"

subsection \<open>What the signing string binds\<close>

lemma signer_validator_hash: "signer_hash = validator_hash"
  by (simp add: signer_hash_def validator_hash_def fun_eq_iff)

lemma int_dec_inj: "int_dec i = int_dec j \<longleftrightarrow> i = j"
proof
  have neg: "\<not> HasPrefix (nat_dec n) ''-''" for n
    using hd_nat_dec_digit [of n] nat_dec_nonempty [of n]
    by (cases "nat_dec n") (auto simp: is_digit_def)
  assume eq: "int_dec i = int_dec j"
  then have sign: "i < 0 \<longleftrightarrow> j < 0"
    using neg [of "nat i"] neg [of "nat j"] by (auto simp: int_dec_def split: if_splits) (metis HasPrefix_Cons HasPrefix_Nil)+
  with eq have "nat_dec (nat \<bar>i\<bar>) = nat_dec (nat \<bar>j\<bar>)"
    by (auto simp: int_dec_def split: if_splits)
  then have "nat \<bar>i\<bar> = nat \<bar>j\<bar>" by (metis dec_val_nat_dec)
  with sign show "i = j" by auto
qed simp

text \<open>A part of the string that cannot hold the byte after it is determined by the whole.\<close>

lemma append_sep_inj:
  "c \<notin> set u \<Longrightarrow> c \<notin> set v \<Longrightarrow> u @ c # s = v @ c # t \<longleftrightarrow> u = v \<and> s = t"
  by (induction u arbitrary: v; case_tac v) auto

lemma newline_avoids [simp]: "CHR 0x0A \<notin> set (int_dec i)" "CHR 0x0A \<notin> set (b64_encode s)"
  by (simp_all add: is_digit_def int_dec_avoids b64_encode_avoids b64_byte_def)

lemma signing_string_append_inj:
  "signing_string d c e @ s = signing_string d' c' e' @ s' \<longleftrightarrow> c = c' \<and> e = e' \<and> d @ s = d' @ s'"
  by (auto simp: signing_string_def append_sep_inj int_dec_inj)

lemma b64_encode_inj: "b64_encode s = b64_encode t \<longleftrightarrow> s = t"
  by (metis b64_decode_encode option.inject)

lemma hashAck_inj:
  "hashAck C p c e rs = hashAck C p' c' e' rs' \<longleftrightarrow>
     blake2b_512 C p = blake2b_512 C p' \<and> c = c' \<and> e = e' \<and> rs = rs'"
proof -
  have sep: "b64_encode a @ request_signature_line r = b64_encode b @ request_signature_line r' \<longleftrightarrow>
               a = b \<and> r = r'" for a b r r'
    by (simp add: request_signature_line_def append_sep_inj b64_encode_inj)
  have mixed: "b64_encode a \<noteq> b64_encode b @ request_signature_line r" for a b r
  proof
    assume "b64_encode a = b64_encode b @ request_signature_line r"
    then have "CHR 0x0A \<in> set (b64_encode a)" by (simp add: request_signature_line_def)
    then show False by simp
  qed
  show ?thesis
    using signing_string_append_inj [where s = "[]" and s' = "[]"]
      signing_string_append_inj [where s' = "[]"] signing_string_append_inj [where s = "[]"]
      signing_string_append_inj sep mixed mixed [symmetric]
    by (auto simp: hashAck_def validator_hash_def Let_def b64_encode_inj)
qed

lemma hashAck_Nil: "hashAck C p c e [] = validator_hash C p c e"
  by (simp add: hashAck_def)

subsection \<open>When the validator accepts\<close>

text \<open>
  \<open>Validate\<close> and \<open>ValidateAck\<close> accept under the same conditions, the former over the empty
  request signature.
\<close>

definition accepted ::
  "Crypto \<Rightarrow> int \<Rightarrow> int \<Rightarrow> StepContext \<Rightarrow> string \<Rightarrow> string \<Rightarrow> string \<Rightarrow> string \<Rightarrow> bool \<Rightarrow> bool" where
  "accepted C tolerance now ctx body header requestSig publicKeyBase64 checkIdentity =
     (case parseAuthHeader header of
        Inl _ \<Rightarrow> False
      | Inr (created, expired, signature, subscriberID) \<Rightarrow>
          (case (b64_decode signature, b64_decode publicKeyBase64) of
             (Some sig, Some pk) \<Rightarrow>
               \<not> unix_after created (now + tolerance) \<and> now div second \<le> expired \<and>
               length pk = 32 \<and> ed25519_verify C pk (hashAck C body created expired requestSig) sig \<and>
               (checkIdentity \<longrightarrow> checkSubscriberIdentity ctx body subscriberID = None)
           | _ \<Rightarrow> False))"

lemma checkTimestampWindow_None:
  "checkTimestampWindow p c e tol now = None \<longleftrightarrow> \<not> unix_after c (now + tol) \<and> now div second \<le> e"
  by (auto simp: checkTimestampWindow_def)

lemma seq_error_None:
  "(case x of None \<Rightarrow> y | Some e \<Rightarrow> Some e) = None \<longleftrightarrow> x = None \<and> y = None"
  by (cases x) auto

lemma verify_and_identify_None:
  "verify_and_identify C f ctx body str sig pk64 sub chk = None \<longleftrightarrow>
     (\<exists>pk. b64_decode pk64 = Some pk \<and> length pk = 32 \<and> ed25519_verify C pk str sig \<and>
       (chk \<longrightarrow> checkSubscriberIdentity ctx body sub = None))"
  by (auto simp: verify_and_identify_def ed25519_Verify_def split: option.splits)

lemma validator_Validate_None:
  "validator_Validate C tol now ctx header pk chk = None \<longleftrightarrow>
     accepted C tol now ctx (Body ctx) header [] pk chk"
  by (auto simp: validator_Validate_def accepted_def seq_error_None checkTimestampWindow_None
      verify_and_identify_None hashAck_Nil split: sum.split option.split_asm option.split prod.split)

lemma validator_ValidateAck_None:
  "validator_ValidateAck C tol now ctx body header rs pk chk = None \<longleftrightarrow>
     accepted C tol now ctx body header rs pk chk"
  by (auto simp: validator_ValidateAck_def accepted_def seq_error_None checkTimestampWindow_None
      verify_and_identify_None split: sum.split option.split_asm option.split prod.split)

subsection \<open>The timestamp window\<close>

text \<open>Timestamps whose conversion to Go's internal seconds does not wrap.\<close>

lemma wrap64_id: "- (2 ^ 63) \<le> x \<Longrightarrow> x < 2 ^ 63 \<Longrightarrow> wrap64 x = x"
  by (simp add: wrap64_def)

lemma unix_after_no_wrap:
  assumes "- (2 ^ 63) \<le> s" "s < 2 ^ 63 - unixToInternal"
  shows "unix_after s t \<longleftrightarrow> s > t div second"
proof -
  have "unix_internal s = s + unixToInternal"
    using assms by (simp add: unix_internal_def wrap64_id unixToInternal_def)
  then show ?thesis by (simp add: unix_after_def)
qed

lemma unix_internal_wraps:
  assumes "2 ^ 63 - unixToInternal \<le> s" "s < 2 ^ 63"
  shows "unix_internal s = s + unixToInternal - 2 ^ 64"
proof -
  have "(s + unixToInternal + 2 ^ 63) mod 2 ^ 64 = (s + unixToInternal + 2 ^ 63 - 2 ^ 64) mod 2 ^ 64"
    by (simp only: minus_mod_self2)
  also have "\<dots> = s + unixToInternal + 2 ^ 63 - 2 ^ 64"
    using assms by (intro mod_pos_pos_trivial) (simp_all add: unixToInternal_def)
  finally show ?thesis by (simp add: unix_internal_def wrap64_def)
qed

subsection \<open>Key pairs\<close>

text \<open>
  The two base64 texts of a key pair: what the signer holds and what the registry serves,
  such that what the former signs the latter verifies.
\<close>

definition key_pair :: "Crypto \<Rightarrow> string \<Rightarrow> string \<Rightarrow> bool" where
  "key_pair C sk64 pk64 \<longleftrightarrow>
     (\<exists>seed pk. b64_decode sk64 = Some seed \<and> length seed = 32 \<and>
        b64_decode pk64 = Some pk \<and> length pk = 32 \<and>
        (\<forall>m. ed25519_sign C seed m \<noteq> [] \<and> ed25519_verify C pk m (ed25519_sign C seed m)))"

lemma key_pair_seed:
  assumes "ed25519_correct C" "length seed = 32"
  shows "key_pair C (b64_encode seed) (b64_encode (ed25519_public C seed))"
  using assms by (auto simp: key_pair_def ed25519_correct_def) (metis list.size(3) zero_neq_numeral)

text \<open>A signer's success has one shape: the base64 text of the raw signature.\<close>

lemma signer_SignAck_hashAck:
  "signer_SignAck C body rs sk c e =
     (case generateSignature C (hashAck C body c e rs) sk of Inl x \<Rightarrow> Inl x | Inr sig \<Rightarrow> Inr (b64_encode sig))"
  by (simp add: signer_SignAck_def signer_validator_hash hashAck_def Let_def)

lemma signer_Sign_hashAck: "signer_Sign C body sk c e = signer_SignAck C body [] sk c e"
  by (simp add: signer_SignAck_hashAck signer_Sign_def signer_validator_hash hashAck_Nil)

lemma signer_SignAck_key_pair:
  assumes "key_pair C sk pk"
  obtains sig pkb where "signer_SignAck C body rs sk c e = Inr (b64_encode sig)" "sig \<noteq> []"
    "b64_decode pk = Some pkb" "length pkb = 32" "ed25519_verify C pkb (hashAck C body c e rs) sig"
  using assms by (auto simp: key_pair_def signer_SignAck_hashAck generateSignature_def ed25519_seed_size_def)

end
