(* ===== verification/Auth_Header.thy ===== *)
theory Auth_Header
  imports Signing
begin

text \<open>
  The \<open>Authorization\<close> header of a signed request: how \<open>step.go\<close> prints it
  (\<open>generateAuthHeader\<close>) and the four readers of it: \<open>parseHeader\<close>, \<open>extractAuthSignature\<close> and
  \<open>authHeaderIncludesRequestSig\<close> of \<open>step.go\<close>, and \<open>parseAuthHeader\<close> of the signature validator.
  The lemmas show that every reader recovers what was printed, for identifiers that have no
  byte with a meaning in the header.
\<close>

definition quote :: char where
  "quote = CHR 0x22"

definition generateAuthHeader :: "string \<Rightarrow> string \<Rightarrow> int \<Rightarrow> int \<Rightarrow> string \<Rightarrow> string \<Rightarrow> string" where
  "generateAuthHeader subID keyID createdAt validTill signature requestSig =
     (let base = ''Signature keyId='' @ [quote] @ subID @ ''|'' @ keyID @ ''|ed25519'' @ [quote] @
            '',algorithm='' @ [quote] @ ''ed25519'' @ [quote] @
            '',created='' @ [quote] @ int_dec createdAt @ [quote] @
            '',expires='' @ [quote] @ int_dec validTill @ [quote]
      in if requestSig \<noteq> [] then
           base @ '',headers='' @ [quote] @ ''(created) (expires) digest request-signature'' @ [quote] @
             '',signature='' @ [quote] @ signature @ [quote]
         else
           base @ '',headers='' @ [quote] @ ''(created) (expires) digest'' @ [quote] @
             '',signature='' @ [quote] @ signature @ [quote])"

text \<open>
  The search the readers of \<open>step.go\<close> share: the text between the first occurrence of a
  marker that ends in a quote and the next quote.
\<close>

definition quoted_after :: "string \<Rightarrow> string \<Rightarrow> string option" where
  "quoted_after header marker =
     (case Index header (marker @ [quote]) of
        None \<Rightarrow> None
      | Some idx \<Rightarrow>
          (let rest = drop (idx + length (marker @ [quote])) header
           in case Index rest [quote] of None \<Rightarrow> None | Some end \<Rightarrow> Some (take end rest)))"

definition authHeaderIncludesRequestSig :: "string \<Rightarrow> bool" where
  "authHeaderIncludesRequestSig header =
     (case quoted_after header ''headers='' of
        None \<Rightarrow> False
      | Some v \<Rightarrow> Contains v ''request-signature'')"

definition extractAuthSignature :: "string \<Rightarrow> string" where
  "extractAuthSignature authHeader =
     (case quoted_after authHeader '',signature='' of None \<Rightarrow> [] | Some v \<Rightarrow> v)"

record authHeader =
  HSubscriberID :: string
  HUniqueID :: string
  HAlgorithm :: string

definition parseHeader :: "string \<Rightarrow> goerr + authHeader" where
  "parseHeader header =
     (let keyIDPart = (case quoted_after header ''keyId='' of None \<Rightarrow> [] | Some v \<Rightarrow> TrimSpace v)
      in if keyIDPart = [] then
           Inl (ErrText ''keyId parameter not found in Authorization header'')
         else
           (case Split (CHR ''|'') keyIDPart of
              [a, b, c] \<Rightarrow> Inr \<lparr>HSubscriberID = TrimSpace a, HUniqueID = TrimSpace b, HAlgorithm = TrimSpace c\<rparr>
            | cs \<Rightarrow> Inl (ErrText (''keyId parameter has incorrect format, expected 3 components separated by '' @
                      [CHR 0x27] @ ''|'' @ [CHR 0x27] @ '', got '' @ int_dec (int (length cs)) @ '' for '' @
                      [CHR 0x27] @ keyIDPart @ [CHR 0x27]))))"

subsection \<open>Printing and searching\<close>

text \<open>An identifier that the header can carry: printable, without quote, comma or bar.\<close>

definition clean_id :: "string \<Rightarrow> bool" where
  "clean_id s \<longleftrightarrow> s \<noteq> [] \<and> list_all (\<lambda>c. graphic c \<and> c \<noteq> quote \<and> c \<noteq> CHR '','' \<and> c \<noteq> CHR ''|'') s"

lemma clean_id_avoids:
  assumes "clean_id s"
  shows "quote \<notin> set s" "CHR '','' \<notin> set s" "CHR ''|'' \<notin> set s"
  using assms by (auto simp: clean_id_def list_all_iff)

lemma clean_id_graphic: "clean_id s \<Longrightarrow> list_all graphic s"
  by (auto simp: clean_id_def list_all_iff)

lemma Index_quote: "quote \<notin> set u \<Longrightarrow> Index (u @ quote # s) [quote] = Some (length u)"
  by (rule Index_byte)

lemma HasPrefix_marker:
  assumes "quote \<notin> set u" "quote \<notin> set p" "HasPrefix (u @ quote # s) (p @ [quote])"
  shows "u = p"
  using assms
proof (induction u arbitrary: p)
  case Nil
  then show ?case by (cases p) auto
next
  case (Cons a u)
  then show ?case by (cases p) auto
qed

lemma HasPrefix_rev_avoids [simp]: "c \<notin> set u \<Longrightarrow> \<not> HasPrefix (rev u) (c # p)"
  by (cases "rev u") (auto dest: arg_cong [where f = set])

text \<open>A quote-free part of the header that does not end in the marker is skipped.\<close>

lemma Index_marker_skip:
  assumes "quote \<notin> set u" "quote \<notin> set p" "p \<noteq> []" "\<not> HasPrefix (rev u) (rev p)"
  shows "Index (u @ quote # s) (p @ [quote]) =
           map_option (\<lambda>n. Suc (length u) + n) (Index s (p @ [quote]))"
  using assms(1,4)
proof (induction u)
  case Nil
  with assms(2,3) show ?case by (cases p) (auto simp: fun_eq_iff)
next
  case (Cons a u)
  have "\<not> HasPrefix (a # u @ quote # s) (p @ [quote])"
  proof
    assume "HasPrefix (a # u @ quote # s) (p @ [quote])"
    then have "a # u = p"
      using HasPrefix_marker [of "a # u" p s] Cons.prems assms(2) by simp
    with Cons.prems(2) show False by (auto simp: HasPrefix_def)
  qed
  moreover have "\<not> HasPrefix (rev u) (rev p)"
    using Cons.prems(2) by (auto simp: HasPrefix_def)
  ultimately show ?case
    using Cons by (simp add: option.map_comp o_def)
qed

lemma Index_marker_hit:
  assumes "quote \<notin> set u" "quote \<notin> set p"
  shows "Index (u @ p @ quote # s) (p @ [quote]) = Some (length u)"
  using assms(1)
proof (induction u)
  case Nil
  show ?case using Index_append [of "p @ [quote]" s] by simp
next
  case (Cons a u)
  have "\<not> HasPrefix (a # u @ p @ quote # s) (p @ [quote])"
  proof
    assume "HasPrefix (a # u @ p @ quote # s) (p @ [quote])"
    then have "a # u @ p = p"
      using HasPrefix_marker [of "a # u @ p" p s] Cons.prems assms(2) by simp
    then have "length (a # u @ p) = length p" by (rule arg_cong)
    then show False by simp
  qed
  with Cons show ?case by simp
qed

lemma quoted_after_skip:
  assumes "quote \<notin> set u" "quote \<notin> set p" "p \<noteq> []" "\<not> HasPrefix (rev u) (rev p)"
  shows "quoted_after (u @ quote # s) p = quoted_after s p"
  unfolding quoted_after_def Index_marker_skip [OF assms]
  by (cases "Index s (p @ [quote])") (simp_all add: Let_def ac_simps)

lemma quoted_after_hit:
  assumes "quote \<notin> set u" "quote \<notin> set p" "quote \<notin> set v"
  shows "quoted_after (u @ p @ quote # v @ quote # s) p = Some v"
  unfolding quoted_after_def Index_marker_hit [OF assms(1,2)]
  by (simp add: Index_quote assms(3))

subsection \<open>The header as a list of attributes\<close>

definition attr :: "string \<Rightarrow> string \<Rightarrow> string" where
  "attr k v = k @ ''='' @ [quote] @ v @ [quote]"

definition covered_fields :: "string \<Rightarrow> string" where
  "covered_fields requestSig =
     (if requestSig \<noteq> [] then ''(created) (expires) digest request-signature''
      else ''(created) (expires) digest'')"

lemma generateAuthHeader_attrs:
  "generateAuthHeader sub key c e sig rs =
     ''Signature '' @
     Join [attr ''keyId'' (sub @ ''|'' @ key @ ''|ed25519''), attr ''algorithm'' ''ed25519'',
           attr ''created'' (int_dec c), attr ''expires'' (int_dec e),
           attr ''headers'' (covered_fields rs), attr ''signature'' sig] [CHR '','']"
  by (simp add: generateAuthHeader_def attr_def covered_fields_def)

lemma Split_Join:
  assumes "ws \<noteq> []" "\<And>w. w \<in> set ws \<Longrightarrow> c \<notin> set w"
  shows "Split c (Join ws [c]) = ws"
  using assms
proof (induction ws)
  case (Cons w ws)
  then show ?case
    by (cases ws) (auto simp: Split_single Split_append)
qed simp

lemma auth_attr_attr:
  assumes "list_all graphic k" "k \<noteq> []" "CHR ''='' \<notin> set k" "quote \<notin> set v"
  shows "auth_attr m (attr k v) = m(k \<mapsto> v)"
proof -
  have "TrimSpace (attr k v) = attr k v"
    using assms by (intro TrimSpace_graphic_ends) (cases k; simp add: attr_def quote_def graphic_def)
  moreover have "SplitN2 (CHR ''='') (attr k v) = [k, quote # v @ [quote]]"
    using SplitN2_append [OF assms(3), of "quote # v @ [quote]"] by (simp add: attr_def)
  moreover have "TrimByte quote (quote # v @ [quote]) = v"
    using assms(4) by (rule TrimByte_quoted)
  ultimately show ?thesis
    using assms(1) by (simp add: auth_attr_def TrimSpace_graphic quote_def)
qed

text \<open>What the signature of a header may be made of: printable, no quote and no comma.\<close>

definition clean_sig :: "string \<Rightarrow> bool" where
  "clean_sig s \<longleftrightarrow> quote \<notin> set s \<and> CHR '','' \<notin> set s"

lemma clean_sig_b64 [simp]: "clean_sig (b64_encode x)"
  by (simp add: clean_sig_def quote_def b64_encode_avoids b64_byte_def)

lemma quote_bytes [simp]:
  "quote \<notin> set (int_dec i)" "CHR '','' \<notin> set (int_dec i)" "CHR ''='' \<notin> set (int_dec i)"
  "quote \<noteq> CHR '',''"
  by (simp_all add: quote_def is_digit_def int_dec_avoids)

lemma quote_covered [simp]: "quote \<notin> set (covered_fields rs)" "CHR '','' \<notin> set (covered_fields rs)"
  by (simp_all add: covered_fields_def quote_def)

lemma attr_comma: "CHR '','' \<in> set (attr k v) \<longleftrightarrow> CHR '','' \<in> set k \<or> CHR '','' \<in> set v"
  by (auto simp: attr_def quote_def)

lemma quote_literal: "quote \<notin> set ''ed25519''" "quote \<noteq> CHR ''|''" "quote \<noteq> CHR ''e''" "quote \<noteq> CHR ''d''"
  "quote \<noteq> CHR ''2''" "quote \<noteq> CHR ''5''" "quote \<noteq> CHR ''1''" "quote \<noteq> CHR ''9''"
  by (simp_all add: quote_def)

lemma signatureMap_generated:
  assumes "clean_id sub" "clean_id key" "clean_sig sig"
  shows "signatureMap (generateAuthHeader sub key c e sig rs) =
     [''keyId'' \<mapsto> sub @ ''|'' @ key @ ''|ed25519'', ''algorithm'' \<mapsto> ''ed25519'',
      ''created'' \<mapsto> int_dec c, ''expires'' \<mapsto> int_dec e,
      ''headers'' \<mapsto> covered_fields rs, ''signature'' \<mapsto> sig]"
proof -
  note avoids = clean_id_avoids [OF assms(1)] clean_id_avoids [OF assms(2)]
  have sig: "quote \<notin> set sig" "CHR '','' \<notin> set sig" using assms(3) by (auto simp: clean_sig_def)
  let ?attrs = "[attr ''keyId'' (sub @ ''|'' @ key @ ''|ed25519''), attr ''algorithm'' ''ed25519'',
           attr ''created'' (int_dec c), attr ''expires'' (int_dec e),
           attr ''headers'' (covered_fields rs), attr ''signature'' sig]"
  have "Split (CHR '','') (Join ?attrs [CHR '','']) = ?attrs"
    by (rule Split_Join) (auto simp: attr_comma avoids sig)
  then have "signatureMap (generateAuthHeader sub key c e sig rs) = foldl auth_attr Map.empty ?attrs"
    by (simp only: signatureMap_def generateAuthHeader_attrs TrimPrefix_append)
  then show ?thesis
    by (simp add: auth_attr_attr graphic_def avoids sig quote_literal)
qed

subsection \<open>The readers recover what was printed\<close>

definition int64 :: "int \<Rightarrow> bool" where
  "int64 i \<longleftrightarrow> - (2 ^ 63) \<le> i \<and> i < 2 ^ 63"

lemma parseAuthHeader_generated:
  assumes "clean_id sub" "clean_id key" "clean_sig sig" "sig \<noteq> []" "int64 c" "int64 e"
  shows "parseAuthHeader (generateAuthHeader sub key c e sig rs) = Inr (c, e, sig, sub)"
proof -
  have "SplitN2 (CHR ''|'') (sub @ ''|'' @ key @ ''|ed25519'') = [sub, key @ ''|ed25519'']"
    using SplitN2_append [of "CHR ''|''" sub "key @ ''|ed25519''"] clean_id_avoids [OF assms(1)] by simp
  moreover have "TrimSpace sub = sub"
    using assms(1) by (intro TrimSpace_graphic clean_id_graphic)
  ultimately show ?thesis
    using assms(4-6)
    by (simp add: parseAuthHeader_def signatureMap_generated [OF assms(1-3)] Let_def
        ParseInt64_int_dec int64_def)
qed

lemma parseHeader_generated:
  assumes "clean_id sub" "clean_id key"
  shows "parseHeader (generateAuthHeader sub key c e sig rs) =
           Inr \<lparr>HSubscriberID = sub, HUniqueID = key, HAlgorithm = ''ed25519''\<rparr>"
proof -
  note avoids = clean_id_avoids [OF assms(1)] clean_id_avoids [OF assms(2)]
  let ?kid = "sub @ ''|'' @ key @ ''|ed25519''"
  have kid: "quote \<notin> set ?kid" using avoids by (auto simp: quote_def)
  obtain s where "generateAuthHeader sub key c e sig rs = ''Signature '' @ ''keyId='' @ quote # ?kid @ quote # s"
    by (simp add: generateAuthHeader_attrs attr_def)
  then have "quoted_after (generateAuthHeader sub key c e sig rs) ''keyId='' = Some ?kid"
    using quoted_after_hit [OF _ _ kid, of "''Signature ''" "''keyId=''" s] by (simp add: quote_def)
  moreover have "TrimSpace ?kid = ?kid"
    using assms by (intro TrimSpace_graphic) (simp add: clean_id_graphic graphic_def)
  moreover have "Split (CHR ''|'') ?kid = [sub, key, ''ed25519'']"
    using avoids Split_append [of "CHR ''|''" sub "key @ ''|ed25519''"]
      Split_append [of "CHR ''|''" key "''ed25519''"] by (simp add: Split_single)
  moreover have "TrimSpace sub = sub" "TrimSpace key = key" "TrimSpace ''ed25519'' = ''ed25519''"
    using assms clean_id_graphic by (auto intro!: TrimSpace_graphic simp: graphic_def)
  ultimately show ?thesis by (simp add: parseHeader_def)
qed

text \<open>Skipping the attributes before the one searched for.\<close>

lemma quoted_after_generated:
  assumes "clean_id sub" "clean_id key" "quote \<notin> set sig"
  shows "quoted_after (generateAuthHeader sub key c e sig rs) ''headers='' = Some (covered_fields rs)"
    and "quoted_after (generateAuthHeader sub key c e sig rs) '',signature='' = Some sig"
proof -
  note avoids = clean_id_avoids [OF assms(1)] clean_id_avoids [OF assms(2)]
  have kid: "quote \<notin> set (sub @ ''|'' @ key @ ''|ed25519'')" using avoids by (auto simp: quote_def)
  let ?segs = "\<lambda>s. ''Signature keyId='' @ quote # (sub @ ''|'' @ key @ ''|ed25519'') @ quote #
     '',algorithm='' @ quote # ''ed25519'' @ quote # '',created='' @ quote # int_dec c @ quote #
     '',expires='' @ quote # int_dec e @ quote # s"
  let ?tail = "'','' @ ''headers='' @ quote # covered_fields rs @ quote # '',signature='' @ quote # sig @ quote # []"
  have H: "generateAuthHeader sub key c e sig rs = ?segs ?tail"
    by (simp add: generateAuthHeader_def covered_fields_def)
  have q [simp]: "quote \<notin> set ''Signature keyId=''" "quote \<notin> set '',algorithm=''" "quote \<notin> set ''ed25519''"
    "quote \<notin> set '',created=''" "quote \<notin> set '',expires=''" "quote \<notin> set '',''" "quote \<notin> set '',headers=''"
    by (simp_all add: quote_def)
  have skip: "quoted_after (?segs s) p = quoted_after s p"
    if "p \<in> {''headers='', '',signature=''}" for s p
  proof -
    from that have p: "quote \<notin> set p" "p \<noteq> []"
      and ends: "\<not> HasPrefix (rev ''Signature keyId='') (rev p)"
        "\<not> HasPrefix (rev (sub @ ''|'' @ key @ ''|ed25519'')) (rev p)"
        "\<not> HasPrefix (rev '',algorithm='') (rev p)" "\<not> HasPrefix (rev ''ed25519'') (rev p)"
        "\<not> HasPrefix (rev '',created='') (rev p)" "\<not> HasPrefix (rev (int_dec c)) (rev p)"
        "\<not> HasPrefix (rev '',expires='') (rev p)" "\<not> HasPrefix (rev (int_dec e)) (rev p)"
      by (auto simp: quote_def)
    show ?thesis
      by (simp only: quoted_after_skip [OF _ p] ends q kid quote_bytes not_False_eq_True)
  qed
  show "quoted_after (generateAuthHeader sub key c e sig rs) ''headers='' = Some (covered_fields rs)"
    unfolding H by (subst skip) (simp, rule quoted_after_hit, simp_all add: quote_literal, simp add: quote_def)
  have "quoted_after ?tail '',signature='' =
          quoted_after ('',headers='' @ quote # covered_fields rs @ quote # '',signature='' @ quote # sig @ quote # []) '',signature=''"
    by simp
  also have "\<dots> = quoted_after (covered_fields rs @ quote # '',signature='' @ quote # sig @ quote # []) '',signature=''"
    by (rule quoted_after_skip) (simp_all add: quote_def)
  also have "\<dots> = quoted_after ('',signature='' @ quote # sig @ quote # []) '',signature=''"
    by (rule quoted_after_skip) (simp_all only: quote_covered not_False_eq_True, simp_all add: quote_def covered_fields_def)
  also have "\<dots> = Some sig"
    using quoted_after_hit [of "[]" "'',signature=''" sig "[]"] assms(3) by (simp add: quote_def)
  finally show "quoted_after (generateAuthHeader sub key c e sig rs) '',signature='' = Some sig"
    unfolding H by (subst skip) simp_all
qed

lemma extractAuthSignature_generated:
  "clean_id sub \<Longrightarrow> clean_id key \<Longrightarrow> quote \<notin> set sig \<Longrightarrow>
     extractAuthSignature (generateAuthHeader sub key c e sig rs) = sig"
  by (simp add: extractAuthSignature_def quoted_after_generated)

lemma authHeaderIncludesRequestSig_generated:
  "clean_id sub \<Longrightarrow> clean_id key \<Longrightarrow> quote \<notin> set sig \<Longrightarrow>
     authHeaderIncludesRequestSig (generateAuthHeader sub key c e sig rs) \<longleftrightarrow> rs \<noteq> []"
  by (simp add: authHeaderIncludesRequestSig_def quoted_after_generated covered_fields_def Contains_def)

end
