(* ===== verification/Steps.thy ===== *)
theory Steps
  imports Auth_Header
begin

text \<open>
  The processing steps of \<open>core/module/handler/step.go\<close>, each a value of type \<open>'w Step\<close> built by a
  constructor that refuses a missing plugin. Metrics and trace spans do not influence the
  result of a step and are left out. A Go step receives a pointer to the step context; the
  request, its header map and the response header map are shared with the caller, so a
  change of them survives an error return.
\<close>

subsection \<open>Fields of the body\<close>

definition extractProtocolVersion :: "string \<Rightarrow> string" where
  "extractProtocolVersion body = context_string_field ''version'' body"

definition extractMessageID :: "string \<Rightarrow> string" where
  "extractMessageID body = context_string_field ''messageId'' body"

definition extractBecknAction :: "string \<Rightarrow> string" where
  "extractBecknAction body = (if body = [] then [] else context_string_field ''action'' body)"

subsection \<open>The signing step\<close>

text \<open>
  \<open>lookupRequestSignature\<close>: a failing store is logged and counts as no entry; only a panic of
  the store leaves the function.
\<close>

definition lookupRequestSignature ::
  "'w PayloadStore option \<Rightarrow> 'w \<Rightarrow> StepContext \<Rightarrow> (goerr + string) \<times> 'w" where
  "lookupRequestSignature payloadStore w ctx =
     (case payloadStore of
        None \<Rightarrow> (Inr [], w)
      | Some ps \<Rightarrow>
          (let action = extractBecknAction (Body ctx) in
           if \<not> HasPrefix action ''on_'' then (Inr [], w)
           else
             (let bareAction = TrimPrefix action ''on_'' in
              case PSGetByMessageID ps w (MessageID ctx) bareAction of
                (Inl e, w1) \<Rightarrow> (if is_panic e then Inl e else Inr [], w1)
              | (Inr None, w1) \<Rightarrow> (Inr [], w1)
              | (Inr (Some entry), w1) \<Rightarrow> (Inr (ESignature entry), w1))))"

definition set_request_header :: "string \<Rightarrow> string \<Rightarrow> StepContext \<Rightarrow> StepContext" where
  "set_request_header k v ctx =
     ctx\<lparr>ScRequest := (ScRequest ctx)\<lparr>ReqHeader := (ReqHeader (ScRequest ctx))(k \<mapsto> v)\<rparr>\<rparr>"

definition five_minutes :: int where
  "five_minutes = 300 * second"

definition signStep_Run ::
  "'w clock \<Rightarrow> 'w Signer \<Rightarrow> 'w KeyManager \<Rightarrow> 'w PayloadStore option \<Rightarrow> 'w Step" where
  "signStep_Run clock signer km payloadStore w ctx =
     (if SubID ctx = [] then (Some (NewBadReqErr [] (ErrText ''subscriberID not set'')), ctx, w)
      else
        (case KeysetOf km w (SubID ctx) of
           (Inl e, w1) \<Rightarrow> (Some (errorf_w ''failed to get signing key: '' e), ctx, w1)
         | (Inr keySet, w1) \<Rightarrow>
             (case lookupRequestSignature payloadStore w1 ctx of
                (Inl p, w2) \<Rightarrow> (Some p, ctx, w2)
              | (Inr requestSig, w2) \<Rightarrow>
                  (let (now1, w3) = clock w2; createdAt = now1 div second;
                       (now2, w4) = clock w3; validTill = (now2 + five_minutes) div second;
                       (r, w5) =
                         (if requestSig \<noteq> []
                          then SignAck signer w4 (Body ctx) requestSig (SigningPrivate keySet) createdAt validTill
                          else Sign signer w4 (Body ctx) (SigningPrivate keySet) createdAt validTill)
                   in case r of
                        Inl e \<Rightarrow> (Some (errorf_w ''failed to sign request: '' e), ctx, w5)
                      | Inr sign \<Rightarrow>
                          (let authHeader =
                                 generateAuthHeader (SubID ctx) (UniqueKeyID keySet) createdAt validTill sign requestSig;
                               header = (if ScRole ctx = RoleGateway then AuthHeaderGateway else AuthHeaderSubscriber)
                           in (None, set_request_header header authHeader ctx, w5))))))"

definition newSignStep ::
  "'w clock \<Rightarrow> 'w Signer option \<Rightarrow> 'w KeyManager option \<Rightarrow> 'w PayloadStore option \<Rightarrow> goerr + 'w Step" where
  "newSignStep clock signer km payloadStore =
     (case signer of
        None \<Rightarrow> Inl (ErrText ''invalid config: Signer plugin not configured'')
      | Some s \<Rightarrow>
          (case km of
             None \<Rightarrow> Inl (ErrText ''invalid config: KeyManager plugin not configured'')
           | Some k \<Rightarrow> Inr (signStep_Run clock s k payloadStore)))"

subsection \<open>The signature validation step\<close>

definition lookupCallbackRequestSig ::
  "'w PayloadStore option \<Rightarrow> 'w \<Rightarrow> StepContext \<Rightarrow> string \<Rightarrow> (goerr + string) \<times> 'w" where
  "lookupCallbackRequestSig payloadStore w ctx authHeader =
     (case payloadStore of
        None \<Rightarrow> (Inr [], w)
      | Some ps \<Rightarrow>
          if \<not> IsAtLeastV2 (ProtocolVersion ctx) \<or> \<not> authHeaderIncludesRequestSig authHeader then (Inr [], w)
          else
            (let action = TrimPrefix (extractBecknAction (Body ctx)) ''on_'' in
             if action = [] then (Inr [], w)
             else (case PSGetByMessageID ps w (MessageID ctx) action of
                 (Inl e, w1) \<Rightarrow>
                   (Inl (errorf_w (''validateSign: outbound signature lookup failed for message_id='' @
                      MessageID ctx @ '' action='' @ action @ '': '') e), w1)
               | (Inr None, w1) \<Rightarrow>
                   (Inl (ErrText (''validateSign: no outbound signature on record for message_id='' @
                      MessageID ctx @ '' action='' @ action @ '' '' @ [CHR 0xE2, CHR 0x80, CHR 0x94] @
                      '' callback may be unsolicited or entry expired'')), w1)
               | (Inr (Some entry), w1) \<Rightarrow> (Inr (ESignature entry), w1))))"

definition validateSign_validate ::
  "'w SignValidator \<Rightarrow> 'w KeyManager \<Rightarrow> 'w \<Rightarrow> StepContext \<Rightarrow> string \<Rightarrow> string \<Rightarrow> bool \<Rightarrow> goerr option \<times> 'w" where
  "validateSign_validate validator km w ctx v requestSig checkIdentity =
     (case parseHeader v of
        Inl e \<Rightarrow> (Some (ErrText ''failed to parse header''), w)
      | Inr headerVals \<Rightarrow>
          if HAlgorithm headerVals \<noteq> ''ed25519'' then
            (Some (ErrText (''unsupported algorithm '' @ go_quote (HAlgorithm headerVals) @
               '': only ed25519 is permitted'')), w)
          else
            (case LookupNPKeys km w ctx (HSubscriberID headerVals) (HUniqueID headerVals) of
               (Inl e, w1) \<Rightarrow> (Some (errorf_w ''failed to get validation key: '' e), w1)
             | (Inr (signingPublicKey, _), w1) \<Rightarrow>
                 (let (validErr, w2) =
                        (if requestSig \<noteq> []
                         then ValidateAck validator w1 ctx (Body ctx) v requestSig signingPublicKey checkIdentity
                         else Validate validator w1 ctx v signingPublicKey checkIdentity)
                  in (map_option (errorf_w ''sign validation failed: '') validErr, w2))))"

definition unauthHeader :: "string \<Rightarrow> string" where
  "unauthHeader subID = ''Signature realm='' @ [quote] @ subID @ [quote] @ '',headers='' @ [quote] @
     ''(created) (expires) digest'' @ [quote]"

definition set_resp_header :: "string \<Rightarrow> string \<Rightarrow> StepContext \<Rightarrow> StepContext" where
  "set_resp_header k v ctx = ctx\<lparr>RespHeader := (RespHeader ctx)(k \<mapsto> v)\<rparr>"

text \<open>\<open>NewSignValidationErr\<close> around an error, where a panic has already left the function.\<close>

definition sign_validation_err :: "string \<Rightarrow> goerr \<Rightarrow> goerr" where
  "sign_validation_err code e = (if is_panic e then e else NewSignValidationErr code e)"

text \<open>The branch of \<open>validateHeaders\<close> on the subscriber's header.\<close>

definition validateSubscriberHeader ::
  "'w SignValidator \<Rightarrow> 'w KeyManager \<Rightarrow> 'w PayloadStore option \<Rightarrow> 'w Step" where
  "validateSubscriberHeader validator km payloadStore w ctx =
     (let headerValue = header_Get (ReqHeader (ScRequest ctx)) AuthHeaderSubscriber;
          refuse = set_resp_header UnaAuthorizedHeaderSubscriber (unauthHeader (SubID ctx)) ctx
      in if headerValue = [] then
           (Some (NewSignValidationErr ''AUT_SIGNATURE_MISSING''
              (ErrText (UnaAuthorizedHeaderSubscriber @ '' missing''))), refuse, w)
         else
           (case lookupCallbackRequestSig payloadStore w ctx headerValue of
              (Inl e, w1) \<Rightarrow> (Some (sign_validation_err [] e), refuse, w1)
            | (Inr reqSig, w1) \<Rightarrow>
                (case validateSign_validate validator km w1 ctx headerValue reqSig True of
                   (Some e, w2) \<Rightarrow>
                     (Some (errorf_w (''failed to validate '' @ AuthHeaderSubscriber @ '': '') e), refuse, w2)
                 | (None, w2) \<Rightarrow> (None, ctx, w2))))"

definition validateHeaders ::
  "'w SignValidator \<Rightarrow> 'w KeyManager \<Rightarrow> 'w PayloadStore option \<Rightarrow> 'w Step" where
  "validateHeaders validator km payloadStore w ctx =
     (let headerValue = header_Get (ReqHeader (ScRequest ctx)) AuthHeaderGateway
      in if headerValue \<noteq> [] then
           (case validateSign_validate validator km w ctx headerValue [] False of
              (Some e, w1) \<Rightarrow>
                (Some (errorf_w (''failed to validate '' @ AuthHeaderGateway @ '': '') e),
                 set_resp_header UnaAuthorizedHeaderGateway (unauthHeader (SubID ctx)) ctx, w1)
            | (None, w1) \<Rightarrow> validateSubscriberHeader validator km payloadStore w1 ctx)
         else validateSubscriberHeader validator km payloadStore w ctx)"

text \<open>
  \<open>Run\<close> validates on a fresh step context that lacks the inbound signature and the caller
  flag; only the shared response headers of that context reach the caller's.
\<close>

definition validateSignStep_Run ::
  "'w SignValidator \<Rightarrow> 'w KeyManager \<Rightarrow> 'w PayloadStore option \<Rightarrow> 'w Step" where
  "validateSignStep_Run validator km payloadStore w ctx =
     (let stepCtx = ctx\<lparr>InboundAuthSignature := [], IsCallerHandler := False\<rparr>;
          (err, stepCtx', w1) = validateHeaders validator km payloadStore w stepCtx
      in (err, ctx\<lparr>RespHeader := RespHeader stepCtx'\<rparr>, w1))"

definition newValidateSignStep ::
  "'w SignValidator option \<Rightarrow> 'w KeyManager option \<Rightarrow> 'w PayloadStore option \<Rightarrow> goerr + 'w Step" where
  "newValidateSignStep signValidator km payloadStore =
     (case signValidator of
        None \<Rightarrow> Inl (ErrText ''invalid config: SignValidator plugin not configured'')
      | Some v \<Rightarrow>
          (case km of
             None \<Rightarrow> Inl (ErrText ''invalid config: KeyManager plugin not configured'')
           | Some k \<Rightarrow> Inr (validateSignStep_Run v k payloadStore)))"

subsection \<open>Schema validation and routing\<close>

definition stripBasePath :: "URL option \<Rightarrow> string \<Rightarrow> URL option" where
  "stripBasePath u basePath =
     (case u of
        None \<Rightarrow> None
      | Some u \<Rightarrow> Some (u\<lparr>UPath := TrimPrefix (TrimPrefix (UPath u) basePath) ''/''\<rparr>))"

definition validateSchemaStep_Run :: "'w SchemaValidator \<Rightarrow> string \<Rightarrow> 'w Step" where
  "validateSchemaStep_Run validator basePath w ctx =
     (if Body ctx = [] \<and> Method (ScRequest ctx) = ''POST'' then
        (Some (errorf_w ''schema validation failed: ''
           (NewBadReqErr [] (ErrText ''POST request requires a body''))), ctx, w)
      else
        (let (err, w1) = SchemaValidate validator w ctx
               (stripBasePath (Some (ReqURL (ScRequest ctx))) basePath) (Body ctx)
         in (map_option (errorf_w ''schema validation failed: '') err, ctx, w1)))"

definition newValidateSchemaStep :: "'w SchemaValidator option \<Rightarrow> string \<Rightarrow> goerr + 'w Step" where
  "newValidateSchemaStep schemaValidator basePath =
     (case schemaValidator of
        None \<Rightarrow> Inl (ErrText ''invalid config: SchemaValidator plugin not configured'')
      | Some v \<Rightarrow> Inr (validateSchemaStep_Run v basePath))"

definition addRouteStep_Run :: "'w Router \<Rightarrow> string \<Rightarrow> 'w Step" where
  "addRouteStep_Run router basePath w ctx =
     (case RouteOf router w (stripBasePath (Some (ReqURL (ScRequest ctx))) basePath) (Body ctx) of
        (Inl e, w1) \<Rightarrow> (Some (errorf_w ''failed to determine route: '' e), ctx, w1)
      | (Inr route, w1) \<Rightarrow>
          (None, ctx\<lparr>ScRoute := Some \<lparr>TargetType = TargetType route, PublisherID = PublisherID route,
                      RouteURL = RouteURL route\<rparr>\<rparr>, w1))"

definition newAddRouteStep :: "'w Router option \<Rightarrow> string \<Rightarrow> goerr + 'w Step" where
  "newAddRouteStep router basePath =
     (case router of
        None \<Rightarrow> Inl (ErrText ''invalid config: Router plugin not configured'')
      | Some r \<Rightarrow> Inr (addRouteStep_Run r basePath))"

subsection \<open>Steps that adapt a plugin\<close>

text \<open>
  \<open>PolicyChecker.CheckPolicy\<close> and \<open>SchemaVersionMediator.Mediate\<close> have the type of a step: they
  get the step context by pointer.
\<close>

definition newCheckPolicyStep :: "'w Step option \<Rightarrow> goerr + 'w Step" where
  "newCheckPolicyStep policyChecker =
     (case policyChecker of
        None \<Rightarrow> Inl (ErrText ''invalid config: PolicyChecker plugin not configured'')
      | Some c \<Rightarrow> Inr c)"

definition newMediateSchemaStep :: "'w Step option \<Rightarrow> goerr + 'w Step" where
  "newMediateSchemaStep mediator =
     (case mediator of
        None \<Rightarrow> Inl (ErrText ''invalid config: SchemaVersionMediator plugin not configured'')
      | Some m \<Rightarrow> Inr m)"

definition storePayloadStep_Run :: "'w PayloadStore \<Rightarrow> 'w Step" where
  "storePayloadStep_Run store w ctx = (let (err, w1) = PSStore store w ctx in (err, ctx, w1))"

definition newStorePayloadStep :: "'w PayloadStore option \<Rightarrow> goerr + 'w Step" where
  "newStorePayloadStep ps =
     (case ps of
        None \<Rightarrow> Inl (ErrText ''storePayload: PayloadStore not configured'')
      | Some s \<Rightarrow> Inr (storePayloadStep_Run s))"

end
