(* ===== verification/Sign_Protocol.thy ===== *)
theory Sign_Protocol
  imports Steps
begin

text \<open>
  What the signature plugins promise the steps that use them. The locale
  \<open>signature_scheme\<close> states the contract of a signer and a validator that belong together; it is
  interpreted on the plugins of \<open>signer.go\<close> and \<open>signvalidator.go\<close> for every
  implementation of the primitives and every clock. Its client is the pair of steps
  \<open>signStep\<close> and \<open>validateSignStep\<close>: a request that the one signed is accepted by the other.
\<close>

lemma second_pos [simp]: "0 < second" "second \<noteq> 0"
  by (simp_all add: second_def)

lemma five_minutes_div [simp]: "(t + five_minutes) div second = t div second + 300"
  by (simp add: five_minutes_def)

lemma five_minutes_div0 [simp]: "five_minutes div second = 300"
  by (simp add: five_minutes_def)

locale signature_scheme =
  fixes signer :: "'v Signer"
    and validator :: "'w SignValidator"
    and paired :: "string \<Rightarrow> string \<Rightarrow> bool"
    and timely :: "'w \<Rightarrow> int \<Rightarrow> int \<Rightarrow> bool"
  assumes sign_three_lines: "Sign signer u body sk c e = SignAck signer u body [] sk c e"
    and validate_three_lines:
      "fst (Validate validator w ctx h pk chk) = None \<longleftrightarrow>
         fst (ValidateAck validator w ctx (Body ctx) h [] pk chk) = None"
    and sign_succeeds:
      "paired sk pk \<Longrightarrow> \<exists>s. SignAck signer u body rs sk c e = (Inr s, u) \<and> s \<noteq> [] \<and> clean_sig s"
    and accept_signed:
      "\<lbrakk>paired sk pk; SignAck signer u body rs sk c e = (Inr s, u);
        clean_id sub; clean_id key; int64 c; int64 e; timely w c e;
        chk \<longrightarrow> checkSubscriberIdentity ctx body sub = None\<rbrakk>
       \<Longrightarrow> fst (ValidateAck validator w ctx body (generateAuthHeader sub key c e s rs') rs pk chk) = None"
begin

text \<open>The signing step succeeds and prints the header of its signature.\<close>

lemma sign_step_header:
  assumes "SubID ctx \<noteq> []"
    and "KeysetOf km w (SubID ctx) = (Inr ks, w1)"
    and "lookupRequestSignature ps w1 ctx = (Inr rs, w2)"
    and "clock w2 = (t1, w3)" and "clock w3 = (t2, w4)"
    and "paired (SigningPrivate ks) pk"
  obtains s where
    "SignAck signer w4 (Body ctx) rs (SigningPrivate ks) (t1 div second) ((t2 + five_minutes) div second)
       = (Inr s, w4)" "s \<noteq> []" "clean_sig s"
    "signStep_Run clock signer km ps w ctx =
       (None, set_request_header (if ScRole ctx = RoleGateway then AuthHeaderGateway else AuthHeaderSubscriber)
          (generateAuthHeader (SubID ctx) (UniqueKeyID ks) (t1 div second) ((t2 + five_minutes) div second) s rs)
          ctx, w4)"
proof -
  obtain s where s: "SignAck signer w4 (Body ctx) rs (SigningPrivate ks) (t1 div second)
      ((t2 + five_minutes) div second) = (Inr s, w4)" "s \<noteq> []" "clean_sig s"
    using sign_succeeds [OF assms(6)] by blast
  moreover have "signStep_Run clock signer km ps w ctx =
       (None, set_request_header (if ScRole ctx = RoleGateway then AuthHeaderGateway else AuthHeaderSubscriber)
          (generateAuthHeader (SubID ctx) (UniqueKeyID ks) (t1 div second) ((t2 + five_minutes) div second) s rs)
          ctx, w4)"
    using assms s(1) by (cases "rs = []") (simp_all add: signStep_Run_def sign_three_lines Let_def)
  ultimately show ?thesis by (rule that)
qed

text \<open>The validation of one header that the scheme's signer produced.\<close>

lemma validate_signed_header:
  assumes "paired sk pk" and "SignAck signer w0 (Body ctx) rs sk c e = (Inr s, w0)"
    and "clean_id sub" "clean_id key" "int64 c" "int64 e"
    and "LookupNPKeys km w ctx sub key = (Inr (pk, enc), w1)"
    and "timely w1 c e" and "chk \<longrightarrow> checkSubscriberIdentity ctx (Body ctx) sub = None"
  shows "fst (validateSign_validate validator km w ctx (generateAuthHeader sub key c e s rs') rs chk) = None"
proof -
  have "fst (ValidateAck validator w1 ctx (Body ctx) (generateAuthHeader sub key c e s rs') rs pk chk) = None"
    by (rule accept_signed [OF assms(1-6,8,9)])
  then show ?thesis
    using assms(3,4,7) validate_three_lines
    by (auto simp: validateSign_validate_def parseHeader_generated split_beta)
qed

text \<open>
  The round trip: what the sender's step signed, the receiver's step accepts, when no gateway
  header is present, the receiver finds the sender's key pair, holds the same request
  signature, runs within the window and finds the sender named in the body.
\<close>

lemma sign_then_validate:
  assumes "SubID ctx \<noteq> []" "ScRole ctx \<noteq> RoleGateway"
    and "KeysetOf km w (SubID ctx) = (Inr ks, w1)"
    and "lookupRequestSignature ps w1 ctx = (Inr rs, w2)"
    and "clock w2 = (t1, w3)" and "clock w3 = (t2, w4)"
    and "paired (SigningPrivate ks) pk"
    and "clean_id (SubID ctx)" "clean_id (UniqueKeyID ks)"
    and "int64 (t1 div second)" "int64 ((t2 + five_minutes) div second)"
    and sent: "signStep_Run clock signer km ps w ctx = (None, ctx', w')"
    and "rctx = rctx0\<lparr>InboundAuthSignature := [], IsCallerHandler := False\<rparr>"
    and "Body rctx0 = Body ctx"
    and "header_Get (ReqHeader (ScRequest rctx0)) AuthHeaderGateway = []"
    and header: "H = header_Get (ReqHeader (ScRequest ctx')) AuthHeaderSubscriber"
    and "header_Get (ReqHeader (ScRequest rctx0)) AuthHeaderSubscriber = H"
    and "lookupCallbackRequestSig rps v rctx H = (Inr rs, v1)"
    and "LookupNPKeys rkm v1 rctx (SubID ctx) (UniqueKeyID ks) = (Inr (pk, enc), v2)"
    and "timely v2 (t1 div second) ((t2 + five_minutes) div second)"
    and "checkSubscriberIdentity rctx (Body ctx) (SubID ctx) = None"
  shows "fst (validateSignStep_Run validator rkm rps v rctx0) = None"
proof -
  let ?c = "t1 div second" and ?e = "(t2 + five_minutes) div second"
  obtain s where s: "SignAck signer w4 (Body ctx) rs (SigningPrivate ks) ?c ?e = (Inr s, w4)"
    and run: "signStep_Run clock signer km ps w ctx =
       (None, set_request_header (if ScRole ctx = RoleGateway then AuthHeaderGateway else AuthHeaderSubscriber)
          (generateAuthHeader (SubID ctx) (UniqueKeyID ks) ?c ?e s rs) ctx, w4)"
    using sign_step_header [OF assms(1,3-7)] by metis
  have H: "H = generateAuthHeader (SubID ctx) (UniqueKeyID ks) ?c ?e s rs"
    using run sent header assms(2) by (auto simp: set_request_header_def)
  then have "H \<noteq> []" by (simp add: generateAuthHeader_attrs)
  have body: "Body rctx = Body ctx" using assms(13,14) by simp
  have "fst (validateSign_validate validator rkm v1 rctx H rs True) = None"
    unfolding H
    by (rule validate_signed_header [where sk = "SigningPrivate ks" and ctx = rctx and pk = pk])
      (use assms(7-11,19-21) s body in auto)
  then have "fst (validateHeaders validator rkm rps v rctx) = None"
    using assms(13-18) \<open>H \<noteq> []\<close>
    by (auto simp: validateHeaders_def validateSubscriberHeader_def Let_def split: prod.splits option.splits)
  then show ?thesis
    using assms(13) by (simp add: validateSignStep_Run_def split_beta Let_def)
qed

end

text \<open>The contract holds of the adapter's own plugins.\<close>

lemma accepted_generated:
  assumes "key_pair C sk pk" "signer_SignAck C body rs sk c e = Inr s"
    and "clean_id sub" "clean_id key" "int64 c" "int64 e"
    and "checkTimestampWindow [] c e tol now = None"
    and "chk \<longrightarrow> checkSubscriberIdentity ctx body sub = None"
  shows "accepted C tol now ctx body (generateAuthHeader sub key c e s rs') rs pk chk"
proof -
  obtain sig pkb where sig: "signer_SignAck C body rs sk c e = Inr (b64_encode sig)" "sig \<noteq> []"
    "b64_decode pk = Some pkb" "length pkb = 32" "ed25519_verify C pkb (hashAck C body c e rs) sig"
    using signer_SignAck_key_pair [OF assms(1)] by metis
  with assms(2) have "s = b64_encode sig" by simp
  with sig assms show ?thesis
    by (simp add: accepted_def parseAuthHeader_generated checkTimestampWindow_None)
qed

interpretation ed25519: signature_scheme "signer_plugin C" "validator_plugin C tol clock" "key_pair C"
    "\<lambda>w c e. checkTimestampWindow [] c e tol (fst (clock w)) = None"
  for C tol clock
proof (unfold_locales, goal_cases)
  case (1 w body sk c e)
  show ?case by (simp add: signer_plugin_def signer_Sign_hashAck)
next
  case (2 w ctx h pk chk)
  show ?case
    by (simp add: validator_plugin_def split_beta Let_def validator_Validate_None validator_ValidateAck_None)
next
  case (3 sk pk w body rs c e)
  then show ?case
    by (rule signer_SignAck_key_pair [where body = body and rs = rs and c = c and e = e])
      (auto simp: signer_plugin_def)
next
  case (4 sk pk w0 body rs c e s sub key w chk ctx rs')
  then show ?case
    by (auto simp: validator_plugin_def signer_plugin_def split_beta Let_def validator_ValidateAck_None
        intro!: accepted_generated)
qed

subsection \<open>Soundness of the validation step\<close>

lemma validateSign_validate_sound:
  assumes "fst (validateSign_validate (validator_plugin C tol clock) km w ctx h rs chk) = None"
  obtains hv pk enc w1 where "parseHeader h = Inr hv" "HAlgorithm hv = ''ed25519''"
    "LookupNPKeys km w ctx (HSubscriberID hv) (HUniqueID hv) = (Inr (pk, enc), w1)"
    "accepted C tol (fst (clock w1)) ctx (Body ctx) h rs pk chk"
  using assms
  by (auto simp: validateSign_validate_def validator_plugin_def split_beta Let_def
      validator_Validate_None validator_ValidateAck_None
      split: sum.splits prod.splits if_splits)

text \<open>The step context the validation runs on.\<close>

definition validation_ctx :: "StepContext \<Rightarrow> StepContext" where
  "validation_ctx ctx = ctx\<lparr>InboundAuthSignature := [], IsCallerHandler := False\<rparr>"

lemma validateSubscriberHeader_sound:
  assumes "fst (validateSubscriberHeader v km ps w ctx) = None"
  obtains h rs w1 where "h = header_Get (ReqHeader (ScRequest ctx)) AuthHeaderSubscriber" "h \<noteq> []"
    "lookupCallbackRequestSig ps w ctx h = (Inr rs, w1)"
    "fst (validateSign_validate v km w1 ctx h rs True) = None"
  using assms
  by (auto simp: validateSubscriberHeader_def Let_def split: if_splits prod.splits sum.splits option.splits)

lemma validateHeaders_sound:
  assumes "fst (validateHeaders v km ps w ctx) = None"
  obtains w1 where "fst (validateSubscriberHeader v km ps w1 ctx) = None"
    "header_Get (ReqHeader (ScRequest ctx)) AuthHeaderGateway \<noteq> [] \<longrightarrow>
       fst (validateSign_validate v km w ctx (header_Get (ReqHeader (ScRequest ctx)) AuthHeaderGateway) [] False) = None"
  using assms by (auto simp: validateHeaders_def Let_def split: if_splits prod.splits option.splits)

subsection \<open>A concrete instance for the examples\<close>

text \<open>A signature scheme that meets the contract of Ed25519, and two participants with fixed clocks.\<close>

definition sample_crypto :: Crypto where
  "sample_crypto =
     \<lparr>blake2b_512 = (\<lambda>m. m), ed25519_public = (\<lambda>seed. seed),
      ed25519_sign = (\<lambda>seed m. take 64 (m @ replicate 64 (CHR 0x00))),
      ed25519_verify = (\<lambda>pk m sig. sig = take 64 (m @ replicate 64 (CHR 0x00)))\<rparr>"

definition sample_seed :: string where
  "sample_seed = replicate 32 (CHR ''k'')"

definition sample_keyset :: Keyset where
  "sample_keyset =
     \<lparr>KSubscriberID = ''bap.example.com'', UniqueKeyID = ''key-1'', SigningPrivate = b64_encode sample_seed,
      SigningPublic = b64_encode sample_seed, EncrPrivate = [], EncrPublic = []\<rparr>"

definition sample_km :: "unit KeyManager" where
  "sample_km =
     \<lparr>GenerateKeyset = (\<lambda>w. (Inr sample_keyset, w)), InsertKeyset = (\<lambda>w k ks. (None, w)),
      KeysetOf = (\<lambda>w k. (Inr sample_keyset, w)),
      LookupNPKeys = (\<lambda>w ctx s k. (Inr (b64_encode sample_seed, []), w)),
      DeleteKeyset = (\<lambda>w k. (None, w))\<rparr>"

definition sample_url :: URL where
  "sample_url = \<lparr>UScheme = ''https'', UHost = ''bpp.example.com'', UPath = ''/search'', URawQuery = [], URest = []\<rparr>"

definition sample_request :: Request where
  "sample_request = \<lparr>Method = ''POST'', ReqURL = sample_url, ReqHeader = Map.empty, Host = ''bpp.example.com'',
     ReqBody = Inr ''{}'', ReqCtx = Map.empty\<rparr>"

definition sample_ctx :: StepContext where
  "sample_ctx = \<lparr>ScCtx = [ContextKeyRemoteID \<mapsto> JStr ''bap.example.com''], ScRequest = sample_request,
     Body = ''{}'', ScRoute = None, SubID = ''bap.example.com'', ScRole = RoleBAP, RespHeader = Map.empty,
     ProtocolVersion = ''2.0.0'', MessageID = ''m1'', InboundAuthSignature = [], IsCallerHandler = True\<rparr>"

lemma sample_crypto_correct: "ed25519_correct sample_crypto"
  by (auto simp: ed25519_correct_def sample_crypto_def)

lemma sample_seed_length [simp]: "length sample_seed = 32"
  by (simp add: sample_seed_def)

lemma sample_keys_clean: "clean_id ''bap.example.com''" "clean_id ''key-1''"
  by (simp_all add: clean_id_def graphic_def quote_def)

lemma sample_fields [simp]:
  "SubID sample_ctx = ''bap.example.com''" "ScRole sample_ctx = RoleBAP" "Body sample_ctx = ''{}''"
  "UniqueKeyID sample_keyset = ''key-1''" "SigningPrivate sample_keyset = b64_encode sample_seed"
  "KeysetOf sample_km w k = (Inr sample_keyset, w)"
  "LookupNPKeys sample_km w ctx k s = (Inr (b64_encode sample_seed, []), w)"
  "ReqHeader (ScRequest sample_ctx) = Map.empty" "ed25519_public sample_crypto = (\<lambda>s. s)"
  "ScCtx sample_ctx = [ContextKeyRemoteID \<mapsto> JStr ''bap.example.com'']"
  by (simp_all add: sample_ctx_def sample_keyset_def sample_km_def sample_request_def sample_crypto_def)

lemmas sample_defs = sample_keyset_def sample_km_def sample_url_def sample_request_def sample_ctx_def

definition sample_signed :: StepContext where
  "sample_signed = fst (snd (signStep_Run (\<lambda>w. (0, w)) (signer_plugin sample_crypto) sample_km None () sample_ctx))"

lemma sample_run:
  obtains s where "sample_signed = set_request_header AuthHeaderSubscriber s sample_ctx"
    "signStep_Run (\<lambda>w. (0, w)) (signer_plugin sample_crypto) sample_km None () sample_ctx =
       (None, set_request_header AuthHeaderSubscriber s sample_ctx, ())"
  by (simp add: sample_signed_def signStep_Run_def lookupRequestSignature_def signer_plugin_def signer_Sign_def
      generateSignature_def ed25519_seed_size_def role_defs Let_def)

lemmas sample_checks = sample_keys_clean sample_crypto_correct set_request_header_def
  lookupRequestSignature_def lookupCallbackRequestSig_def checkTimestampWindow_def unix_after_no_wrap
  unixToInternal_def int64_def checkSubscriberIdentity_def validation_ctx_def role_defs
  AuthHeaderSubscriber_def AuthHeaderGateway_def header_Get_def

lemma sample_validated:
  "fst (validateSignStep_Run (validator_plugin sample_crypto 0 (\<lambda>w. (0, w))) sample_km None () sample_signed) = None"
proof -
  obtain s where signed: "sample_signed = set_request_header AuthHeaderSubscriber s sample_ctx"
    and run: "signStep_Run (\<lambda>w. (0, w)) (signer_plugin sample_crypto) sample_km None () sample_ctx =
       (None, set_request_header AuthHeaderSubscriber s sample_ctx, ())"
    by (rule sample_run)
  show ?thesis
    by (rule ed25519.sign_then_validate [where C = sample_crypto and ctx = sample_ctx and rctx = "validation_ctx sample_signed"
          and ks = sample_keyset and rs = "[]" and clock = "\<lambda>w. (0, w)" and km = sample_km and w = "()"
          and ctx' = sample_signed and ps = None and H = s and ?t1.0 = "0" and ?t2.0 = "0" and pk = "b64_encode sample_seed"])
      (use key_pair_seed [OF sample_crypto_correct sample_seed_length] in \<open>simp_all add: run signed sample_checks\<close>)
qed

subsection \<open>Properties\<close>

text \<open>The signing string binds the digest of the body, both timestamps and the request signature.
  Two signing strings (of the three-line or the four-line form) are equal only if all four
  agree; in particular no three-line signature can stand for a four-line one.\<close>

theorem signing_string_binds:
  "hashAck C p c e rs = hashAck C p' c' e' rs' \<longleftrightarrow>
     blake2b_512 C p = blake2b_512 C p' \<and> c = c' \<and> e = e' \<and> rs = rs'"
  by (rule hashAck_inj)





text \<open>The timestamp window. For a creation time that Go's time arithmetic can represent, the check
  passes exactly when the signature is not created later than the clock plus the
  tolerance and has not expired, both compared in whole seconds.\<close>

theorem timestamp_window_exact:
  assumes "int64 created" "created < 2 ^ 63 - unixToInternal"
  shows "checkTimestampWindow p created expires tolerance now = None \<longleftrightarrow>
           created \<le> (now + tolerance) div second \<and> now div second \<le> expires"
  using assms by (auto simp: checkTimestampWindow_None unix_after_no_wrap int64_def)

theorem timestamp_window_exact_witness:
  "checkTimestampWindow ''signature'' 100 400 defaultClockSkewTolerance (98 * second) = None"
  using timestamp_window_exact [of 100 "''signature''" 400 defaultClockSkewTolerance "98 * second"]
  by (simp add: int64_def unixToInternal_def defaultClockSkewTolerance_def second_def)

text \<open>The upper end of the range of timestamps. A creation time within \<open>unixToInternal\<close> seconds of
  the largest 64-bit integer overflows in \<open>time.Unix\<close> and is taken for a time in the past, so the check
  for a signature from the future passes at every time after the year 1.\<close>

theorem timestamp_window_wraps:
  assumes "int64 created" "2 ^ 63 - unixToInternal \<le> created"
    and "0 \<le> (now + tolerance) div second + unixToInternal" "now div second \<le> expires"
  shows "checkTimestampWindow p created expires tolerance now = None"
  using assms
  by (simp add: checkTimestampWindow_None unix_after_def unix_internal_wraps int64_def) (simp add: unixToInternal_def)

theorem timestamp_window_wraps_witness:
  "checkTimestampWindow ''signature'' (2 ^ 63 - 1) (2 ^ 63 - 1) defaultClockSkewTolerance 0 = None"
  using timestamp_window_wraps [of "2 ^ 63 - 1" 0 defaultClockSkewTolerance "2 ^ 63 - 1" "''signature''"]
  by (simp add: int64_def unixToInternal_def defaultClockSkewTolerance_def)

end
