(* ===== verification/Response.thy ===== *)
theory Response
  imports Sign_Protocol
begin

text \<open>
  \<open>core/module/handler/responsestep.go\<close>: the bodies of the synchronous ACK and NACK answers, the
  mapping of an error to its HTTP status and Beckn error, the writing of an answer, and the
  two response steps \<open>ackSignerStep\<close> and \<open>validateAckSignatureStep\<close>.

  The response writer is a record of what has gone out: the status line and header of the
  first \<open>WriteHeader\<close> and the bytes written since. The header map that \<open>w.Header()\<close> returns is
  the \<open>RespHeader\<close> of the step context, so the writing functions take it as an argument. A writer
  whose peer has gone away fails every \<open>Write\<close>.
\<close>

subsection \<open>The response writer\<close>

record ResponseWriter =
  SentStatus :: "int option"
  SentHeader :: Header
  SentBody :: string
  WriteFails :: bool
  RecStatus :: int
  RecWritten :: bool

text \<open>\<open>http.ResponseWriter.WriteHeader\<close>: only the first call has an effect.\<close>

definition http_WriteHeader :: "int \<Rightarrow> Header \<Rightarrow> ResponseWriter \<Rightarrow> ResponseWriter" where
  "http_WriteHeader status h rw =
     (if SentStatus rw = None then rw\<lparr>SentStatus := Some status, SentHeader := h\<rparr> else rw)"

text \<open>\<open>responseRecorder.WriteHeader\<close> of \<open>http_metric.go\<close>, around the server's writer.\<close>

definition recorder_WriteHeader :: "int \<Rightarrow> Header \<Rightarrow> ResponseWriter \<Rightarrow> ResponseWriter" where
  "recorder_WriteHeader status h rw =
     (let rw1 = (if \<not> RecWritten rw then rw\<lparr>RecWritten := True, RecStatus := status\<rparr> else rw)
      in http_WriteHeader status h rw1)"

text \<open>\<open>Write\<close>: implies status 200 when none was sent; the result says whether it succeeded.\<close>

definition http_Write :: "string \<Rightarrow> Header \<Rightarrow> ResponseWriter \<Rightarrow> bool \<times> ResponseWriter" where
  "http_Write data h rw =
     (let rw1 = http_WriteHeader 200 h rw
      in if WriteFails rw1 then (False, rw1) else (True, rw1\<lparr>SentBody := SentBody rw1 @ data\<rparr>))"

text \<open>\<open>http.Error\<close>: returns the header map it changed as well.\<close>

definition http_Error :: "string \<Rightarrow> int \<Rightarrow> Header \<Rightarrow> ResponseWriter \<Rightarrow> Header \<times> ResponseWriter" where
  "http_Error msg code h rw =
     (let h1 = (h(''Content-Length'' := None))
                 (''Content-Type'' \<mapsto> ''text/plain; charset=utf-8'', ''X-Content-Type-Options'' \<mapsto> ''nosniff'')
      in (h1, snd (http_Write (msg @ [CHR 0x0A]) h1 (recorder_WriteHeader code h1 rw))))"

subsection \<open>Bodies\<close>

definition isAtLeastV2 :: "Context \<Rightarrow> bool" where
  "isAtLeastV2 ctx = IsAtLeastV2 (ctx_string0 ctx ContextKeyProtocolVersion)"

definition msgID :: "Context \<Rightarrow> string" where
  "msgID ctx = ctx_string0 ctx ContextKeyMsgID"

text \<open>
  The verb \<open>%s\<close> on a context value: a string as it is, and Go's notation for a value of a wrong
  type otherwise (the members of an object in the order of the text). In the handler the value
  is always a string, because \<open>stepCtx\<close> stores the message id of the body.
\<close>

fun fmt_s_wrong :: "json \<Rightarrow> string" where
  "fmt_s_wrong (JStr s) = s"
| "fmt_s_wrong (JBool b) = ''%!s(bool='' @ (if b then ''true'' else ''false'') @ '')''"
| "fmt_s_wrong (JNum n) = ''%!s(float64='' @ n @ '')''"
| "fmt_s_wrong (JArr vs) = ''['' @ Join (map fmt_s_wrong vs) '' '' @ '']''"
| "fmt_s_wrong (JObj kvs) = ''map['' @ Join (map (\<lambda>(k, v). k @ '':'' @ fmt_s_wrong v) kvs) '' '' @ '']''"
| "fmt_s_wrong JNull = ''%!s(<nil>)''"

definition fmt_s_value :: "json option \<Rightarrow> string" where
  "fmt_s_value v = (case v of None \<Rightarrow> ''%!s(<nil>)'' | Some j \<Rightarrow> fmt_s_wrong j)"

definition internalServerError :: "Context \<Rightarrow> Error" where
  "internalServerError ctx =
     Error ''NET_INTERNAL_ERROR''
       (''Internal server error, MessageID: '' @ fmt_s_value (ctx ContextKeyMsgID)) None None"

text \<open>The JSON of \<open>preV2Response\<close>.\<close>

definition preV2Response_json :: "Status \<Rightarrow> Error option \<Rightarrow> json" where
  "preV2Response_json status err =
     JObj [(''message'', JObj ((''ack'', JObj [(''status'', JStr status)]) #
       (case err of None \<Rightarrow> [] | Some e \<Rightarrow> [(''error'', error_json e)])))]"

definition nackBodyBytes :: "Context \<Rightarrow> Error \<Rightarrow> Status \<Rightarrow> string" where
  "nackBodyBytes ctx becknErr bodyStatus =
     json_encode
       (if isAtLeastV2 ctx
        then response_json \<lparr>MStatus = bodyStatus, MMessageID = msgID ctx, MError = Some becknErr\<rparr>
        else preV2Response_json bodyStatus (Some becknErr))"

definition ackBodyBytes :: "Context \<Rightarrow> string" where
  "ackBodyBytes ctx =
     json_encode
       (if isAtLeastV2 ctx
        then response_json \<lparr>MStatus = StatusACK, MMessageID = msgID ctx, MError = None\<rparr>
        else preV2Response_json StatusACK None)"

definition buildAckBody :: "string \<Rightarrow> string \<Rightarrow> string" where
  "buildAckBody protocolVersion messageID =
     json_encode (response_json \<lparr>MStatus = StatusACK, MMessageID = messageID, MError = None\<rparr>)"

subsection \<open>From an error to an answer\<close>

definition nackBecknError :: "Context \<Rightarrow> goerr \<Rightarrow> Error \<times> int \<times> Status" where
  "nackBecknError ctx err =
     (case errors_As as_schema err of
        Some es \<Rightarrow> (SchemaValidationErr_BecknError es, 400, StatusNACK)
      | None \<Rightarrow>
         (case errors_As as_coded err of
            Some (be, h) \<Rightarrow> (be, h, StatusNACK)
          | None \<Rightarrow>
             (case errors_As as_ack_no_callback err of
                Some (st, be) \<Rightarrow>
                  if \<not> isAtLeastV2 ctx then (internalServerError ctx, 500, StatusNACK) else (be, 202, st)
              | None \<Rightarrow>
                 (case errors_As as_beckn_errorer err of
                    Some be \<Rightarrow> (be, 400, StatusNACK)
                  | None \<Rightarrow> (internalServerError ctx, 500, StatusNACK)))))"

definition nackBytes :: "Context \<Rightarrow> goerr \<Rightarrow> string" where
  "nackBytes ctx err =
     (let (becknErr, _, bodyStatus) = nackBecknError ctx err in nackBodyBytes ctx becknErr bodyStatus)"

definition json_content :: "Header \<Rightarrow> Header" where
  "json_content h = h(''Content-Type'' \<mapsto> ''application/json'')"

definition nack ::
  "Context \<Rightarrow> Error \<Rightarrow> int \<Rightarrow> Status \<Rightarrow> Header \<Rightarrow> ResponseWriter \<Rightarrow> string \<times> Header \<times> ResponseWriter" where
  "nack ctx becknErr httpStatus bodyStatus h rw =
     (let data = nackBodyBytes ctx becknErr bodyStatus;
          h1 = json_content h;
          (ok, rw1) = http_Write data h1 (recorder_WriteHeader httpStatus h1 rw)
      in if ok then (data, h1, rw1)
         else (data, http_Error (''Internal server error, MessageID: '' @ fmt_s_value (ctx ContextKeyMsgID)) 500 h1 rw1))"

definition sendNack :: "Context \<Rightarrow> goerr \<Rightarrow> Header \<Rightarrow> ResponseWriter \<Rightarrow> string \<times> Header \<times> ResponseWriter" where
  "sendNack ctx err h rw =
     (let (becknErr, httpStatus, bodyStatus) = nackBecknError ctx err
      in nack ctx becknErr httpStatus bodyStatus h rw)"

definition sendAck :: "Context \<Rightarrow> Header \<Rightarrow> ResponseWriter \<Rightarrow> string \<times> Header \<times> ResponseWriter" where
  "sendAck ctx h rw =
     (let data = ackBodyBytes ctx;
          h1 = json_content h;
          (ok, rw1) = http_Write data h1 (recorder_WriteHeader 200 h1 rw)
      in if ok then (data, h1, rw1)
         else (data, http_Error ''failed to write response'' 500 h1 rw1))"

subsection \<open>Signing synchronous answers\<close>

record 'w ackSignerStep =
  AsSigner :: "'w Signer"
  AsKm :: "'w KeyManager"

definition newAckSignerStep :: "'w Signer option \<Rightarrow> 'w KeyManager option \<Rightarrow> goerr + 'w ackSignerStep" where
  "newAckSignerStep signer km =
     (case signer of
        None \<Rightarrow> Inl (ErrText ''invalid config: Signer plugin not configured'')
      | Some s \<Rightarrow>
          (case km of
             None \<Rightarrow> Inl (ErrText ''invalid config: KeyManager plugin not configured'')
           | Some k \<Rightarrow> Inr \<lparr>AsSigner = s, AsKm = k\<rparr>))"

definition buildSignatureHeader :: "string \<Rightarrow> string \<Rightarrow> int \<Rightarrow> int \<Rightarrow> string \<Rightarrow> string" where
  "buildSignatureHeader subID keyID createdAt validTill signature =
     ''Signature keyId='' @ [quote] @ subID @ ''|'' @ keyID @ ''|ed25519'' @ [quote] @
     '',algorithm='' @ [quote] @ ''ed25519'' @ [quote] @
     '',created='' @ [quote] @ int_dec createdAt @ [quote] @
     '',expires='' @ [quote] @ int_dec validTill @ [quote] @
     '',headers='' @ [quote] @ ''(created) (expires) digest request-signature'' @ [quote] @
     '',signature='' @ [quote] @ signature @ [quote]"

definition computeSigHeader ::
  "'w clock \<Rightarrow> 'w ackSignerStep \<Rightarrow> 'w \<Rightarrow> StepContext \<Rightarrow> string \<Rightarrow> (goerr + string) \<times> 'w" where
  "computeSigHeader clock a w ctx body =
     (case KeysetOf (AsKm a) w (SubID ctx) of
        (Inl e, w1) \<Rightarrow> (Inl (errorf_w ''ackSigner: failed to get signing key: '' e), w1)
      | (Inr keySet, w1) \<Rightarrow>
          (let (now1, w2) = clock w1; createdAt = now1 div second;
               (now2, w3) = clock w2; validTill = (now2 + five_minutes) div second
           in case SignAck (AsSigner a) w3 body (InboundAuthSignature ctx) (SigningPrivate keySet) createdAt validTill of
                (Inl e, w4) \<Rightarrow> (Inl (errorf_w ''ackSigner: failed to sign: '' e), w4)
              | (Inr sig, w4) \<Rightarrow>
                  (Inr (buildSignatureHeader (SubID ctx) (UniqueKeyID keySet) createdAt validTill sig), w4)))"

definition signBodyAndSetHeader ::
  "'w clock \<Rightarrow> 'w ackSignerStep \<Rightarrow> 'w \<Rightarrow> StepContext \<Rightarrow> string \<Rightarrow> goerr option \<times> StepContext \<times> 'w" where
  "signBodyAndSetHeader clock a w ctx body =
     (case computeSigHeader clock a w ctx body of
        (Inl e, w1) \<Rightarrow> (Some e, ctx, w1)
      | (Inr sig, w1) \<Rightarrow> (None, set_resp_header ''Signature'' sig ctx, w1))"

definition ackSigner_RunOnResponse :: "'w clock \<Rightarrow> 'w ackSignerStep \<Rightarrow> 'w ResponseStep" where
  "ackSigner_RunOnResponse clock a w ctx rctx =
     (if \<not> IsAtLeastV2 (ProtocolVersion ctx) then (None, ctx, rctx, w)
      else if SubID ctx = [] then
        (Some (NewBadReqErr [] (ErrText ''subscriberID not set'')), ctx, rctx, w)
      else
        (case rctx of
           Some r \<Rightarrow>
             (case computeSigHeader clock a w ctx (RBody r) of
                (Inl e, w1) \<Rightarrow> (Some e, ctx, rctx, w1)
              | (Inr sigHeader, w1) \<Rightarrow>
                  (None, ctx, Some (r\<lparr>RHeader := (RHeader r)(''Signature'' \<mapsto> sigHeader)\<rparr>), w1))
         | None \<Rightarrow>
             (let ackBody = buildAckBody (ProtocolVersion ctx) (MessageID ctx);
                  (err, ctx1, w1) = signBodyAndSetHeader clock a w ctx ackBody
              in (err, ctx1, None, w1))))"

subsection \<open>Validating the signature of an answer\<close>

text \<open>
  Every failure degrades trust with a warning and returns nil; a panic of a plugin is the only
  error that leaves the step.
\<close>

definition soften :: "goerr \<Rightarrow> goerr option" where
  "soften e = (if is_panic e then Some e else None)"

definition validateAckSign_RunOnResponse :: "'w SignValidator \<Rightarrow> 'w KeyManager \<Rightarrow> 'w ResponseStep" where
  "validateAckSign_RunOnResponse sv km w ctx rctx =
     (case rctx of
        None \<Rightarrow> (None, ctx, rctx, w)
      | Some r \<Rightarrow>
          if \<not> IsAtLeastV2 (ProtocolVersion ctx) then (None, ctx, rctx, w)
          else
            (let sigHeader = header_Get (RHeader r) ''Signature'' in
             if sigHeader = [] then (None, ctx, rctx, w)
             else
               (let outboundAuth = extractAuthSignature (header_Get (ReqHeader (ScRequest ctx)) AuthHeaderSubscriber) in
                case parseHeader sigHeader of
                  Inl _ \<Rightarrow> (None, ctx, rctx, w)
                | Inr parsed \<Rightarrow>
                    (case LookupNPKeys km w ctx (HSubscriberID parsed) (HUniqueID parsed) of
                       (Inl e, w1) \<Rightarrow> (soften e, ctx, rctx, w1)
                     | (Inr (publicKey, _), w1) \<Rightarrow>
                         (case ValidateAck sv w1 ctx (RBody r) sigHeader outboundAuth publicKey False of
                            (Some e, w2) \<Rightarrow> (soften e, ctx, rctx, w2)
                          | (None, w2) \<Rightarrow> (None, ctx, rctx, w2))))))"

definition newValidateAckSignatureStep ::
  "'w SignValidator option \<Rightarrow> 'w KeyManager option \<Rightarrow> goerr + 'w ResponseStep" where
  "newValidateAckSignatureStep sv km =
     (case sv of
        None \<Rightarrow> Inl (ErrText ''invalid config: SignValidator plugin not configured'')
      | Some v \<Rightarrow>
          (case km of
             None \<Rightarrow> Inl (ErrText ''invalid config: KeyManager plugin not configured'')
           | Some k \<Rightarrow> Inr (validateAckSign_RunOnResponse v k)))"

subsection \<open>Lemmas\<close>

lemma buildSignatureHeader_generate:
  "rs \<noteq> [] \<Longrightarrow> buildSignatureHeader sub key c e sig = generateAuthHeader sub key c e sig rs"
  by (simp add: buildSignatureHeader_def generateAuthHeader_def)

text \<open>Classification sees through \<open>%w\<close> wrapping.\<close>

lemma errors_As_wrapped:
  "errors_As as_schema (errorf_w p e) = errors_As as_schema e"
  "errors_As as_coded (errorf_w p e) = errors_As as_coded e"
  "errors_As as_ack_no_callback (errorf_w p e) = errors_As as_ack_no_callback e"
  "errors_As as_beckn_errorer (errorf_w p e) = errors_As as_beckn_errorer e"
  by simp_all

lemma nackBecknError_errorf_w [simp]: "nackBecknError ctx (errorf_w p e) = nackBecknError ctx e"
  by (simp only: nackBecknError_def errors_As_wrapped)

lemma nackBecknError_map_errorf_w: "nackBytes ctx (errorf_w p e) = nackBytes ctx e"
  by (simp add: nackBytes_def)

lemma errors_As_coded_range:
  "errors_As as_coded e = Some (be, h) \<Longrightarrow> 400 \<le> h \<and> h \<le> 599"
  by (drule errors_As_Some, elim exE, rename_tac e', case_tac e') (auto simp: as_coded_def HTTPStatus_range)

lemma nackBecknError_status:
  "nackBecknError ctx err = (be, h, st) \<Longrightarrow> (400 \<le> h \<and> h \<le> 599 \<and> st = StatusNACK) \<or> (h = 202 \<and> isAtLeastV2 ctx)"
  by (auto simp: nackBecknError_def split: option.splits if_splits dest: errors_As_coded_range)

text \<open>A first write on a fresh, working writer sends what it was given.\<close>

lemma first_write [simp]:
  assumes "SentStatus rw = None" "\<not> WriteFails rw"
  shows "http_Write data h (recorder_WriteHeader status h rw) =
    (True, (recorder_WriteHeader status h rw)\<lparr>SentBody := SentBody rw @ data\<rparr>)"
  using assms by (auto simp: http_Write_def recorder_WriteHeader_def http_WriteHeader_def Let_def)

lemma recorder_WriteHeader_sent [simp]:
  assumes "SentStatus rw = None"
  shows "SentStatus (recorder_WriteHeader status h rw) = Some status"
    and "SentHeader (recorder_WriteHeader status h rw) = h"
    and "SentBody (recorder_WriteHeader status h rw) = SentBody rw"
    and "WriteFails (recorder_WriteHeader status h rw) = WriteFails rw"
  using assms by (simp_all add: recorder_WriteHeader_def http_WriteHeader_def Let_def)

lemma sendNack_sent:
  assumes "SentStatus rw = None" "\<not> WriteFails rw" "nackBecknError ctx err = (be, h, st)"
  shows "sendNack ctx err hdr rw =
    (nackBytes ctx err, json_content hdr, (recorder_WriteHeader h (json_content hdr) rw)\<lparr>SentBody := SentBody rw @ nackBytes ctx err\<rparr>)"
  using assms by (simp add: sendNack_def nack_def nackBytes_def Let_def)

lemma sendAck_sent:
  assumes "SentStatus rw = None" "\<not> WriteFails rw"
  shows "sendAck ctx hdr rw =
    (ackBodyBytes ctx, json_content hdr, (recorder_WriteHeader 200 (json_content hdr) rw)\<lparr>SentBody := SentBody rw @ ackBodyBytes ctx\<rparr>)"
  using assms by (simp add: sendAck_def Let_def)

end
