(* ===== verification/Handler.thy ===== *)
theory Handler
  imports Response
begin

text \<open>
  The standard handler of \<open>core/module/handler/stdHandler.go\<close>, with the instrumentation wrappers of
  \<open>step_instrumentor.go\<close>: the construction of the step context, the pipeline of steps, the
  routing of the outcome (reverse proxy, publisher, or an ACK written by the adapter) and the
  signing of negative answers.

  A request handler maps the world, a request and a response writer with its header map to a
  \<open>Served\<close> record: the writer afterwards, the header map, the response body kept for the audit
  log, and whether a panic aborted the connection. Traces, metrics and logs are left out.
\<close>

subsection \<open>Instrumented steps\<close>

text \<open>
  The wrapper runs the step on a shallow copy of the step context and copies five fields
  back. The request and the response headers are shared by the copy, so what the step
  does to them is seen as well; the other fields keep their old values.
\<close>

definition instrumented_Run :: "'w Step \<Rightarrow> 'w Step" where
  "instrumented_Run step w ctx =
     (let (err, stepCtx, w1) = step w ctx
      in (err, ctx\<lparr>ScRequest := ScRequest stepCtx, RespHeader := RespHeader stepCtx,
            Body := Body stepCtx, ScRoute := ScRoute stepCtx, SubID := SubID stepCtx,
            ScRole := ScRole stepCtx, ScCtx := ScCtx stepCtx\<rparr>, w1))"

definition instrumented_RunOnResponse :: "'w ResponseStep \<Rightarrow> 'w ResponseStep" where
  "instrumented_RunOnResponse step w ctx rctx =
     (let (err, stepCtx, rctx1, w1) = step w ctx rctx
      in (err, ctx\<lparr>ScRequest := ScRequest stepCtx, RespHeader := RespHeader stepCtx, ScCtx := ScCtx stepCtx\<rparr>,
          rctx1, w1))"

subsection \<open>The upstream side\<close>

record UpstreamResponse =
  UpStatus :: int
  UpHeader :: Header
  UpBody :: "goerr + string"

type_synonym 'w transport = "'w \<Rightarrow> Request \<Rightarrow> (goerr + UpstreamResponse) \<times> 'w"

type_synonym 'w TransportWrapper = "'w transport \<Rightarrow> 'w transport"

subsection \<open>The handler\<close>

record 'w stdHandler =
  HSigner :: "'w Signer option"
  HSteps :: "'w Step list"
  HResponseSteps :: "'w ResponseStep list"
  HSignValidator :: "'w SignValidator option"
  HKm :: "'w KeyManager option"
  HSchemaValidator :: "'w SchemaValidator option"
  HPolicyChecker :: "'w Step option"
  HMediator :: "'w Step option"
  HRouter :: "'w Router option"
  HPublisher :: "'w Publisher option"
  HPayloadTransformer :: "'w Step option"
  HPayloadStore :: "'w PayloadStore option"
  HAckSigner :: "'w ackSignerStep option"
  HSubID :: string
  HRole :: Role
  HBasePath :: string
  HTransport :: "'w transport"
  HModuleName :: string

record 'w Served =
  SvWriter :: ResponseWriter
  SvHeader :: Header
  SvAudit :: string
  SvAborted :: bool
  SvWorld :: 'w

datatype HandlerDirection = DirectionCaller | DirectionReceiver

definition deriveDirection :: "Role \<Rightarrow> string \<Rightarrow> HandlerDirection" where
  "deriveDirection role action =
     (let isOnAction = HasPrefix action ''on_''
      in if role = RoleBAP then (if isOnAction then DirectionReceiver else DirectionCaller)
         else if isOnAction then DirectionCaller else DirectionReceiver)"

definition resolveDirection :: "'w stdHandler \<Rightarrow> Context \<Rightarrow> string \<Rightarrow> string \<times> string" where
  "resolveDirection h ctx action =
     (let selfID = HSubID h; remoteID = ctx_string0 ctx ContextKeyRemoteID
      in if deriveDirection (HRole h) action = DirectionCaller then (selfID, remoteID) else (remoteID, selfID))"

definition handler_subID :: "'w stdHandler \<Rightarrow> Context \<Rightarrow> string" where
  "handler_subID h ctx =
     (case ctx_string ctx ContextKeySubscriberID of Some rSubID \<Rightarrow> rSubID | None \<Rightarrow> HSubID h)"

definition stepCtx :: "'w stdHandler \<Rightarrow> Request \<Rightarrow> Header \<Rightarrow> goerr + StepContext" where
  "stepCtx h r rh =
     (case ReqBody r of
        Inl e \<Rightarrow> Inl (NewBadReqErr [] e)
      | Inr body \<Rightarrow>
          (let subID = handler_subID h (ReqCtx r);
               protocolVersion = extractProtocolVersion body;
               messageID = extractMessageID body;
               action = extractBecknAction body;
               direction = deriveDirection (HRole h) action;
               inboundAuthSignature = extractAuthSignature (header_Get (ReqHeader r) AuthHeaderSubscriber);
               ctx = (ReqCtx r)(ContextKeyProtocolVersion \<mapsto> JStr protocolVersion, ContextKeyMsgID \<mapsto> JStr messageID)
           in Inr \<lparr>ScCtx = ctx, ScRequest = r, Body = body, ScRoute = None, SubID = subID, ScRole = HRole h,
                RespHeader = rh, ProtocolVersion = protocolVersion, MessageID = messageID,
                InboundAuthSignature = inboundAuthSignature, IsCallerHandler = (direction = DirectionCaller)\<rparr>))"

text \<open>The body and length of the request after the pipeline are those of the step context.\<close>

definition syncRequestBody :: "Request \<Rightarrow> string \<Rightarrow> Request" where
  "syncRequestBody r body = r\<lparr>ReqBody := Inr body\<rparr>"

text \<open>\<open>signNackResponse\<close>: best effort; a panic of the signer or the key manager leaves it.\<close>

definition signNackResponse ::
  "'w clock \<Rightarrow> 'w stdHandler \<Rightarrow> 'w \<Rightarrow> StepContext \<Rightarrow> goerr \<Rightarrow> goerr option \<times> StepContext \<times> 'w" where
  "signNackResponse clock h w ctx err =
     (case HAckSigner h of
        None \<Rightarrow> (None, ctx, w)
      | Some a \<Rightarrow>
          if \<not> IsAtLeastV2 (ProtocolVersion ctx) then (None, ctx, w)
          else if SubID ctx = [] then (None, ctx, w)
          else
            (let nackBody = nackBytes (ScCtx ctx) err;
                 (serr, ctx1, w1) = signBodyAndSetHeader clock a w ctx nackBody
             in (case serr of None \<Rightarrow> None | Some e \<Rightarrow> soften e, ctx1, w1)))"

definition aborted :: "StepContext \<Rightarrow> ResponseWriter \<Rightarrow> string \<Rightarrow> 'w \<Rightarrow> 'w Served" where
  "aborted ctx rw audit w =
     \<lparr>SvWriter = rw, SvHeader = RespHeader ctx, SvAudit = audit, SvAborted = True, SvWorld = w\<rparr>"

definition finished :: "string \<times> Header \<times> ResponseWriter \<Rightarrow> 'w \<Rightarrow> 'w Served" where
  "finished r w =
     (let (data, hdr, rw) = r
      in \<lparr>SvWriter = rw, SvHeader = hdr, SvAudit = data, SvAborted = False, SvWorld = w\<rparr>)"

text \<open>The recurring pair of calls \<open>signNack(ctx, err)\<close> and \<open>sendNack(ctx, w, err)\<close>.\<close>

definition sign_and_send_nack ::
  "'w clock \<Rightarrow> 'w stdHandler \<Rightarrow> 'w \<Rightarrow> StepContext \<Rightarrow> ResponseWriter \<Rightarrow> goerr \<Rightarrow> 'w Served" where
  "sign_and_send_nack clock h w ctx rw err =
     (if is_panic err then aborted ctx rw [] w
      else
        (case signNackResponse clock h w ctx err of
           (Some p, ctx1, w1) \<Rightarrow> aborted ctx1 rw [] w1
         | (None, ctx1, w1) \<Rightarrow> finished (sendNack (ScCtx ctx1) err (RespHeader ctx1) rw) w1))"

text \<open>The loops over the steps stop at the first error.\<close>

fun run_steps :: "'w Step list \<Rightarrow> 'w Step" where
  "run_steps [] w ctx = (None, ctx, w)"
| "run_steps (s # ss) w ctx =
     (case s w ctx of
        (Some e, ctx1, w1) \<Rightarrow> (Some e, ctx1, w1)
      | (None, ctx1, w1) \<Rightarrow> run_steps ss w1 ctx1)"

fun run_response_steps :: "'w ResponseStep list \<Rightarrow> 'w ResponseStep" where
  "run_response_steps [] w ctx rctx = (None, ctx, rctx, w)"
| "run_response_steps (s # ss) w ctx rctx =
     (case s w ctx rctx of
        (Some e, ctx1, rctx1, w1) \<Rightarrow> (Some e, ctx1, rctx1, w1)
      | (None, ctx1, rctx1, w1) \<Rightarrow> run_response_steps ss w1 ctx1 rctx1)"

text \<open>The answer the adapter writes itself, after the response steps ran without a response.\<close>

definition ack_after_response_steps ::
  "'w clock \<Rightarrow> 'w stdHandler \<Rightarrow> 'w \<Rightarrow> StepContext \<Rightarrow> ResponseWriter \<Rightarrow> 'w Served" where
  "ack_after_response_steps clock h w ctx rw =
     (case run_response_steps (HResponseSteps h) w ctx None of
        (Some e, ctx1, _, w1) \<Rightarrow> sign_and_send_nack clock h w1 ctx1 rw e
      | (None, ctx1, _, w1) \<Rightarrow> finished (sendAck (ScCtx ctx1) (RespHeader ctx1) rw) w1)"

subsection \<open>The reverse proxy\<close>

text \<open>
  \<open>httputil.ReverseProxy\<close> of the Go library as \<open>proxy\<close> configures it: hop-by-hop headers go, the
  director sets the target, \<open>ModifyResponse\<close> runs the response steps on the upstream answer, and
  any failure is answered with 502. Protocol upgrades and the \<open>X-Forwarded-For\<close> header
  (the peer's address) are not part of the model.
\<close>

definition hop_headers :: "string list" where
  "hop_headers = [''Connection'', ''Proxy-Connection'', ''Keep-Alive'', ''Proxy-Authenticate'',
     ''Proxy-Authorization'', ''Te'', ''Trailer'', ''Transfer-Encoding'', ''Upgrade'']"

definition header_Del :: "Header \<Rightarrow> string \<Rightarrow> Header" where
  "header_Del h k = h(k := None)"

definition removeHopByHopHeaders :: "Header \<Rightarrow> Header" where
  "removeHopByHopHeaders h =
     (let named = filter (\<lambda>f. f \<noteq> []) (map TrimSpace (Split (CHR '','') (header_Get h ''Connection'')))
      in foldl header_Del (foldl header_Del h named) hop_headers)"

definition modifyResponse ::
  "'w ResponseStep list \<Rightarrow> 'w \<Rightarrow> StepContext \<Rightarrow> UpstreamResponse \<Rightarrow>
     (goerr + UpstreamResponse \<times> string) \<times> StepContext \<times> 'w" where
  "modifyResponse responseSteps w ctx resp =
     (case UpBody resp of
        Inl e \<Rightarrow> (Inl (errorf_w ''modifyResponse: failed to read upstream response body: '' e), ctx, w)
      | Inr body \<Rightarrow>
          (let rctx = \<lparr>StatusCode = UpStatus resp, RHeader = UpHeader resp, RBody = body\<rparr>
           in case run_response_steps responseSteps w ctx (Some rctx) of
                (Some e, ctx1, _, w1) \<Rightarrow> (Inl e, ctx1, w1)
              | (None, ctx1, rctx1, w1) \<Rightarrow>
                  (let hdr = (case rctx1 of Some r \<Rightarrow> RHeader r | None \<Rightarrow> UpHeader resp)
                   in (Inr (resp\<lparr>UpHeader := hdr, UpBody := Inr body\<rparr>, body), ctx1, w1))))"

definition outgoing_request :: "StepContext \<Rightarrow> URL \<Rightarrow> Request \<Rightarrow> Request" where
  "outgoing_request ctx target r =
     r\<lparr>ReqURL := target, Host := UHost target, ReqHeader := removeHopByHopHeaders (ReqHeader r)\<rparr>"

definition proxy ::
  "'w stdHandler \<Rightarrow> 'w \<Rightarrow> StepContext \<Rightarrow> Request \<Rightarrow> ResponseWriter \<Rightarrow> 'w Served" where
  "proxy h w ctx r rw =
     (let r1 = r\<lparr>ReqHeader := (ReqHeader r)(''X-Forwarded-Host'' \<mapsto> Host r)\<rparr>;
          ctx0 = ctx\<lparr>ScRequest := r1\<rparr>;
          bad_gateway = (\<lambda>c w'. finished ([], RespHeader c, recorder_WriteHeader 502 (RespHeader c) rw) w')
      in case RouteURL (the (ScRoute ctx)) of
           None \<Rightarrow> aborted ctx0 rw [] w
         | Some target \<Rightarrow>
             (case HTransport h w (outgoing_request ctx0 target r1) of
                (Inl e, w1) \<Rightarrow> (if is_panic e then aborted ctx0 rw [] w1 else bad_gateway ctx0 w1)
              | (Inr resp, w1) \<Rightarrow>
                  (case modifyResponse (HResponseSteps h) w1 ctx0
                          (resp\<lparr>UpHeader := removeHopByHopHeaders (UpHeader resp)\<rparr>) of
                     (Inl e, ctx1, w2) \<Rightarrow> (if is_panic e then aborted ctx1 rw [] w2 else bad_gateway ctx1 w2)
                   | (Inr (resp1, body), ctx1, w2) \<Rightarrow>
                       (let hdr = UpHeader resp1 ++ RespHeader ctx1;
                            (ok, rw1) = http_Write body hdr (recorder_WriteHeader (UpStatus resp1) hdr rw)
                        in if ok then finished (body, hdr, rw1) w2 else aborted (ctx1\<lparr>RespHeader := hdr\<rparr>) rw1 body w2))))"

subsection \<open>Routing and serving\<close>

definition route ::
  "'w clock \<Rightarrow> 'w stdHandler \<Rightarrow> 'w \<Rightarrow> StepContext \<Rightarrow> Route \<Rightarrow> Request \<Rightarrow> ResponseWriter \<Rightarrow> 'w Served" where
  "route clock h w ctx rt r rw =
     (if TargetType rt = ''url'' then proxy h w ctx r rw
      else if TargetType rt = ''publisher'' then
        (case HPublisher h of
           None \<Rightarrow> sign_and_send_nack clock h w ctx rw (ErrText ''publisher plugin not configured'')
         | Some pb \<Rightarrow>
             (case Publish pb w (PublisherID rt) (Body ctx) of
                (Some e, w1) \<Rightarrow> sign_and_send_nack clock h w1 ctx rw e
              | (None, w1) \<Rightarrow> ack_after_response_steps clock h w1 ctx rw))
      else sign_and_send_nack clock h w ctx rw (ErrText (''unknown route type: '' @ TargetType rt)))"

text \<open>The pipeline on a prepared step context: \<open>ServeHTTP\<close> from the loop over the steps on.\<close>

definition serve_pipeline ::
  "'w clock \<Rightarrow> 'w stdHandler \<Rightarrow> 'w \<Rightarrow> StepContext \<Rightarrow> ResponseWriter \<Rightarrow> 'w Served" where
  "serve_pipeline clock h w ctx rw =
     (case run_steps (HSteps h) w ctx of
        (Some e, ctx1, w1) \<Rightarrow> sign_and_send_nack clock h w1 ctx1 rw e
      | (None, ctx1, w1) \<Rightarrow>
          (let r = syncRequestBody (ScRequest ctx1) (Body ctx1); ctx2 = ctx1\<lparr>ScRequest := r\<rparr>
           in case ScRoute ctx2 of
                None \<Rightarrow> ack_after_response_steps clock h w1 ctx2 rw
              | Some rt \<Rightarrow> route clock h w1 ctx2 rt r rw))"

definition instrument_request :: "'w stdHandler \<Rightarrow> Request \<Rightarrow> Request" where
  "instrument_request h r =
     r\<lparr>ReqHeader := (ReqHeader r)(''X-Module-Name'' \<mapsto> HModuleName h, ''X-Role'' \<mapsto> HRole h)\<rparr>"

definition ServeHTTP ::
  "'w clock \<Rightarrow> 'w stdHandler \<Rightarrow> 'w \<Rightarrow> Request \<Rightarrow> Header \<Rightarrow> ResponseWriter \<Rightarrow> 'w Served" where
  "ServeHTTP clock h w r0 rh rw0 =
     (let r = instrument_request h r0 in
      case ReqBody r of
        Inl e \<Rightarrow> (let (hdr, rw) = http_Error ''failed to read request body'' 500 rh rw0 in finished ([], hdr, rw) w)
      | Inr body \<Rightarrow>
          (let rw = rw0\<lparr>RecStatus := 200, RecWritten := False\<rparr>
           in case stepCtx h (r\<lparr>ReqBody := Inr body\<rparr>) rh of
                Inl e \<Rightarrow> finished (sendNack (ReqCtx r) e rh rw) w
              | Inr ctx \<Rightarrow> serve_pipeline clock h w ctx rw))"

subsection \<open>What a step leaves alone\<close>

text \<open>
  The frame of a step: the fields of the step context that identify the message and the
  values of its Go context. Every step of \<open>step.go\<close> keeps it; the locale collects what follows from
  that, and the interpretations below discharge it for each of them.
\<close>

definition frame :: "StepContext \<Rightarrow> StepContext \<Rightarrow> bool" where
  "frame ctx ctx' \<longleftrightarrow>
     ProtocolVersion ctx' = ProtocolVersion ctx \<and> MessageID ctx' = MessageID ctx \<and>
     InboundAuthSignature ctx' = InboundAuthSignature ctx \<and> IsCallerHandler ctx' = IsCallerHandler ctx \<and>
     ScCtx ctx' = ScCtx ctx"

text \<open>The values in the Go context agree with the fields of the step context.\<close>

definition coherent :: "StepContext \<Rightarrow> bool" where
  "coherent ctx \<longleftrightarrow>
     ctx_string0 (ScCtx ctx) ContextKeyProtocolVersion = ProtocolVersion ctx \<and>
     ctx_string0 (ScCtx ctx) ContextKeyMsgID = MessageID ctx"

lemma frame_refl [simp]: "frame ctx ctx"
  by (simp add: frame_def)

lemma frame_trans: "frame a b \<Longrightarrow> frame b c \<Longrightarrow> frame a c"
  by (simp add: frame_def)

lemma frame_updates [simp]:
  "frame a (b\<lparr>RespHeader := h\<rparr>) = frame a b" "frame a (b\<lparr>ScRoute := rt\<rparr>) = frame a b"
  "frame a (b\<lparr>ScRequest := r\<rparr>) = frame a b" "frame a (set_request_header k v b) = frame a b"
  "frame a (set_resp_header k v b) = frame a b"
  by (simp_all add: frame_def set_request_header_def set_resp_header_def)

lemma frame_coherent: "frame a b \<Longrightarrow> coherent a \<Longrightarrow> coherent b"
  by (simp add: frame_def coherent_def)

locale framed_step =
  fixes step :: "'w Step"
  assumes step_frame: "frame ctx (fst (snd (step w ctx)))"
begin

text \<open>Instrumentation does not change a framed step.\<close>

lemma instrumented_same: "instrumented_Run step = step"
proof (intro ext)
  fix w ctx
  obtain err ctx' w' where run: "step w ctx = (err, ctx', w')" by (cases "step w ctx")
  with step_frame [of ctx w] have "frame ctx ctx'" by simp
  then have "ctx\<lparr>ScRequest := ScRequest ctx', RespHeader := RespHeader ctx', Body := Body ctx',
      ScRoute := ScRoute ctx', SubID := SubID ctx', ScRole := ScRole ctx', ScCtx := ScCtx ctx'\<rparr> = ctx'"
    by (intro StepContext.equality) (simp_all add: frame_def)
  with run show "instrumented_Run step w ctx = step w ctx"
    by (simp add: instrumented_Run_def)
qed

lemma step_coherent: "coherent ctx \<Longrightarrow> coherent (fst (snd (step w ctx)))"
  using step_frame frame_coherent by blast

end

text \<open>A pipeline of framed steps is a framed step.\<close>

lemma run_steps_framed:
  assumes "\<And>s. s \<in> set ss \<Longrightarrow> framed_step s"
  shows "framed_step (run_steps ss)"
proof
  fix w :: 'a and ctx
  show "frame ctx (fst (snd (run_steps ss w ctx)))"
    using assms
  proof (induction ss arbitrary: w ctx)
    case (Cons s ss)
    have first: "frame ctx (fst (snd (s w ctx)))"
      using Cons.prems by (intro framed_step.step_frame) simp
    have rest: "frame c (fst (snd (run_steps ss v c)))" for v c
      using Cons by simp
    show ?case
      using first rest frame_trans by (fastforce split: prod.splits option.splits)
  qed simp
qed

interpretation sign_step: framed_step "signStep_Run clock signer km ps" for clock signer km ps
  by unfold_locales (auto simp: signStep_Run_def Let_def split: prod.splits sum.splits)

interpretation validate_sign_step: framed_step "validateSignStep_Run v km ps" for v km ps
  by unfold_locales (simp add: validateSignStep_Run_def Let_def split: prod.splits)

interpretation validate_schema_step: framed_step "validateSchemaStep_Run v base" for v base
  by unfold_locales (simp add: validateSchemaStep_Run_def Let_def split: prod.splits)

interpretation add_route_step: framed_step "addRouteStep_Run r base" for r base
  by unfold_locales (auto simp: addRouteStep_Run_def split: prod.splits sum.splits)

interpretation store_payload_step: framed_step "storePayloadStep_Run ps" for ps
  by unfold_locales (simp add: storePayloadStep_Run_def Let_def split: prod.splits)

subsection \<open>Signed answers\<close>

lemma stepCtx_coherent: "stepCtx h r rh = Inr ctx \<Longrightarrow> coherent ctx"
  by (auto simp: stepCtx_def coherent_def Let_def context_key_defs ctx_string0_def ctx_string_def split: sum.splits)

lemma ackBodyBytes_coherent:
  assumes "coherent ctx" "IsAtLeastV2 (ProtocolVersion ctx)"
  shows "ackBodyBytes (ScCtx ctx) = buildAckBody (ProtocolVersion ctx) (MessageID ctx)"
  using assms by (simp add: ackBodyBytes_def buildAckBody_def isAtLeastV2_def msgID_def coherent_def)

lemma signBodyAndSetHeader_ok:
  assumes "computeSigHeader clock a w ctx body = (Inr sig, w1)"
  shows "signBodyAndSetHeader clock a w ctx body = (None, set_resp_header ''Signature'' sig ctx, w1)"
  using assms by (simp add: signBodyAndSetHeader_def)

lemma set_resp_header_simps [simp]:
  "ScCtx (set_resp_header k v ctx) = ScCtx ctx"
  "RespHeader (set_resp_header k v ctx) = (RespHeader ctx)(k \<mapsto> v)"
  by (simp_all add: set_resp_header_def)

lemma json_content_signature [simp]: "json_content h ''Signature'' = h ''Signature''"
  by (simp add: json_content_def)

text \<open>A fresh writer: nothing sent yet and the peer is still there.\<close>

definition fresh_writer :: "ResponseWriter \<Rightarrow> bool" where
  "fresh_writer rw \<longleftrightarrow> SentStatus rw = None \<and> SentBody rw = [] \<and> \<not> WriteFails rw"

lemma finished_simps [simp]:
  "SvWriter (finished (d, h, rw) w) = rw" "SvHeader (finished (d, h, rw) w) = h"
  "SvAudit (finished (d, h, rw) w) = d" "\<not> SvAborted (finished (d, h, rw) w)"
  "SvWorld (finished (d, h, rw) w) = w" "SvAborted (aborted c rw d w)"
  by (simp_all add: finished_def aborted_def)

lemma instrumented_RunOnResponse_frame:
  assumes "frame ctx (fst (snd (step w ctx rctx)))"
    and "\<And>c. c = fst (snd (step w ctx rctx)) \<Longrightarrow>
           Body c = Body ctx \<and> ScRoute c = ScRoute ctx \<and> SubID c = SubID ctx \<and> ScRole c = ScRole ctx"
  shows "instrumented_RunOnResponse step w ctx rctx = step w ctx rctx"
proof -
  obtain err c r w1 where run: "step w ctx rctx = (err, c, r, w1)" by (cases "step w ctx rctx")
  with assms have "ctx\<lparr>ScRequest := ScRequest c, RespHeader := RespHeader c, ScCtx := ScCtx c\<rparr> = c"
    by (intro StepContext.equality) (simp_all add: frame_def)
  with run show ?thesis by (simp add: instrumented_RunOnResponse_def)
qed

lemma instrumented_ackSigner:
  "instrumented_RunOnResponse (ackSigner_RunOnResponse clock a) = ackSigner_RunOnResponse clock a"
  by (intro ext instrumented_RunOnResponse_frame)
    (auto simp: ackSigner_RunOnResponse_def signBodyAndSetHeader_def set_resp_header_def Let_def
      split: option.splits prod.splits sum.splits)

subsection \<open>Every request is answered\<close>

definition answered :: "'w Served \<Rightarrow> bool" where
  "answered s \<longleftrightarrow> SvAborted s \<or> SentStatus (SvWriter s) \<noteq> None"

lemma http_WriteHeader_sent [simp]: "SentStatus (http_WriteHeader st h rw) \<noteq> None"
  by (auto simp: http_WriteHeader_def)

lemma recorder_WriteHeader_some [simp]: "SentStatus (recorder_WriteHeader st h rw) \<noteq> None"
  by (simp add: recorder_WriteHeader_def)

lemma http_Write_sent: "SentStatus (snd (http_Write d h rw)) \<noteq> None"
  using http_WriteHeader_sent [of 200 h rw] by (simp add: http_Write_def Let_def del: not_None_eq)

lemma http_Error_sent: "SentStatus (snd (http_Error m c h rw)) \<noteq> None"
  by (simp only: http_Error_def Let_def snd_conv http_Write_sent not_False_eq_True)

lemma write_or_error_sent:
  "SentStatus (snd (snd (let (ok, rw1) = http_Write d h rw in
     if ok then (d, h1, rw1) else (d, http_Error m c h1 rw1)))) \<noteq> None"
  using http_Write_sent [of d h rw] http_Error_sent by (auto split: prod.splits)

lemma answered_finished: "SentStatus (snd (snd r)) \<noteq> None \<Longrightarrow> answered (finished r w)"
  by (cases r) (simp add: answered_def)

lemma sendNack_answers: "SentStatus (snd (snd (sendNack ctx e h rw))) \<noteq> None"
  using write_or_error_sent by (auto simp: sendNack_def nack_def Let_def split: prod.splits)

lemma sendAck_answers: "SentStatus (snd (snd (sendAck ctx h rw))) \<noteq> None"
  using write_or_error_sent by (auto simp: sendAck_def Let_def split: prod.splits)

lemma sign_and_send_nack_answers: "answered (sign_and_send_nack clock h w ctx rw e)"
  using sendNack_answers by (auto simp: sign_and_send_nack_def answered_def [of "aborted _ _ _ _"]
      split: prod.splits option.splits intro!: answered_finished)

lemma ack_after_answers: "answered (ack_after_response_steps clock h w ctx rw)"
  using sendAck_answers sign_and_send_nack_answers
  by (auto simp: ack_after_response_steps_def split: prod.splits option.splits intro!: answered_finished)

lemma proxy_answers: "answered (proxy h w ctx r rw)"
proof -
  have "answered (aborted c v d x)" for c v d and x :: 'a by (simp add: answered_def)
  moreover have "answered (finished ([], hh, recorder_WriteHeader st h1 v) x)" for hh st h1 v and x :: 'a
    by (rule answered_finished) simp
  moreover have "answered (let (ok, rw1) = http_Write b h1 v in
      if ok then finished (b, h1, rw1) x else aborted c rw1 b x)" for b h1 v c and x :: 'a
    using http_Write_sent [of b h1 v] by (auto simp: answered_def split: prod.splits)
  ultimately show ?thesis
    by (auto simp: proxy_def Let_def split: option.splits prod.splits sum.splits)
qed

lemma route_answers: "answered (route clock h w ctx rt r rw)"
  using proxy_answers sign_and_send_nack_answers ack_after_answers
  by (auto simp: route_def split: option.splits prod.splits)

lemma serve_pipeline_answers: "answered (serve_pipeline clock h w ctx rw)"
  using route_answers sign_and_send_nack_answers ack_after_answers
  by (auto simp: serve_pipeline_def Let_def split: option.splits prod.splits)

subsection \<open>What the handler relies on in a router\<close>

text \<open>
  A route the handler can act on: a URL, or a publisher. The locale \<open>sound_router\<close> states that a
  router returns nothing else; its client lemmas say what follows for the handler.
\<close>

definition deliverable :: "Route \<Rightarrow> bool" where
  "deliverable rt \<longleftrightarrow> TargetType rt = ''url'' \<and> RouteURL rt \<noteq> None \<or> TargetType rt = ''publisher''"

locale sound_router =
  fixes router :: "'w Router"
  assumes deliverable_route: "RouteOf router w u body = (Inr rt, w') \<Longrightarrow> deliverable rt"
begin

lemma add_route_deliverable:
  assumes "addRouteStep_Run router base w ctx = (None, ctx', w')"
  shows "\<exists>rt. ScRoute ctx' = Some rt \<and> deliverable rt"
  using assms deliverable_route
  by (auto simp: addRouteStep_Run_def deliverable_def split: prod.splits sum.splits)

text \<open>
  With such a router and an upstream and a response pipeline that do not panic, forwarding
  is never cut off by a missing target.
\<close>

lemma proxy_not_aborted:
  assumes "deliverable rt" "TargetType rt = ''url''" "ScRoute ctx = Some rt" "\<not> WriteFails rw"
    and "\<And>v out e v'. HTransport h v out = (Inl e, v') \<Longrightarrow> \<not> is_panic e"
    and "\<And>v out resp v' e. HTransport h v out = (Inr resp, v') \<Longrightarrow> UpBody resp = Inl e \<Longrightarrow> \<not> is_panic e"
    and "\<And>v c r e c' r' v'. run_response_steps (HResponseSteps h) v c r = (Some e, c', r', v') \<Longrightarrow> \<not> is_panic e"
  shows "\<not> SvAborted (proxy h w ctx r rw)"
proof -
  from assms(1,2) obtain target where target: "RouteURL rt = Some target"
    by (auto simp: deliverable_def)
  have ok: "fst (http_Write b hdr (recorder_WriteHeader st hdr rw))" for b hdr st
    using assms(4) by (auto simp: http_Write_def recorder_WriteHeader_def http_WriteHeader_def Let_def)
  have mod: "\<not> is_panic e" if "modifyResponse (HResponseSteps h) v c resp = (Inl e, c', v')"
    and "\<And>e'. UpBody resp = Inl e' \<Longrightarrow> \<not> is_panic e'" for v c resp e c' v'
    using that by (cases "UpBody resp")
      (auto simp: modifyResponse_def Let_def split: prod.splits option.splits dest: assms(7))
  let ?r = "r\<lparr>ReqHeader := (ReqHeader r)(''X-Forwarded-Host'' \<mapsto> Host r)\<rparr>"
  let ?ctx = "ctx\<lparr>ScRequest := ?r\<rparr>"
  obtain res w1 where up: "HTransport h w (outgoing_request ?ctx target ?r) = (res, w1)"
    by (cases "HTransport h w (outgoing_request ?ctx target ?r)")
  show ?thesis
  proof (cases res)
    case (Inl e)
    with up target assms(3) assms(5) show ?thesis by (simp add: proxy_def)
  next
    case (Inr resp)
    let ?resp = "resp\<lparr>UpHeader := removeHopByHopHeaders (UpHeader resp)\<rparr>"
    obtain m c2 w2 where mr: "modifyResponse (HResponseSteps h) w1 ?ctx ?resp = (m, c2, w2)"
      by (cases "modifyResponse (HResponseSteps h) w1 ?ctx ?resp")
    have "\<not> is_panic e" if "m = Inl e" for e
      using mod mr that assms(6) up Inr by fastforce
    with up Inr target assms(3) mr ok show ?thesis
      by (cases m) (simp_all add: proxy_def Let_def split_beta)
  qed
qed

end

subsection \<open>Properties\<close>


definition sample_writer :: ResponseWriter where
  "sample_writer = \<lparr>SentStatus = None, SentHeader = Map.empty, SentBody = [], WriteFails = False,
     RecStatus = 200, RecWritten = False\<rparr>"

definition sample_store :: "unit PayloadStore" where
  "sample_store = \<lparr>PSStore = (\<lambda>w c. (None, w)), PSGetByTransactionID = (\<lambda>w t. (Inr [], w)),
     PSGetByMessageID = (\<lambda>w m a. (Inr None, w)), PSExists = (\<lambda>w m. (Inr False, w))\<rparr>"

definition sample_handler :: "unit stdHandler" where
  "sample_handler =
     \<lparr>HSigner = None, HSteps = [storePayloadStep_Run sample_store,
        \<lambda>w c. (Some (NewBadReqErr [] (ErrText ''refused'')), c, w), \<lambda>w c. (None, c\<lparr>Body := []\<rparr>, w)],
      HResponseSteps = [], HSignValidator = None, HKm = None, HSchemaValidator = None, HPolicyChecker = None,
      HMediator = None, HRouter = None, HPublisher = None, HPayloadTransformer = None, HPayloadStore = None,
      HAckSigner = None, HSubID = ''bpp.example.com'', HRole = RoleBPP, HBasePath = ''/bpp/'',
      HTransport = (\<lambda>w r. (Inl (ErrText ''dial''), w)), HModuleName = ''bppReceiver''\<rparr>"


text \<open>C6: Every request gets an answer. Unless a panic aborts the connection, \<open>ServeHTTP\<close> has written a
  status line when it returns, on every path: unreadable body, failing step, failing
  response step, missing publisher, unknown route type, unreachable upstream, ACK.\<close>

theorem ServeHTTP_answers: "answered (ServeHTTP clock h w r rh rw)"
proof -
  have "answered (finished ([], http_Error m st rh rw) w)" for m st
    using http_Error_sent by (intro answered_finished) simp
  then show ?thesis
    using serve_pipeline_answers sendNack_answers
    by (auto simp: ServeHTTP_def Let_def split: sum.splits prod.splits intro!: answered_finished)
qed

text \<open>A negative answer written by the adapter carries an HTTP error status and a NACK body, or it
  is the 202 answer of an \<open>AckNoCallbackErr\<close> to a request of protocol version 2 or later; the
  body on the wire is the one computed for the error.\<close>

theorem nack_answer_status:
  assumes "fresh_writer rw" "\<not> SvAborted (sign_and_send_nack clock h w ctx rw e)"
  shows "\<exists>c be st body_status. nackBecknError (ScCtx c) e = (be, st, body_status) \<and> frame ctx c \<and>
     SentStatus (SvWriter (sign_and_send_nack clock h w ctx rw e)) = Some st \<and>
     SentBody (SvWriter (sign_and_send_nack clock h w ctx rw e)) = nackBodyBytes (ScCtx c) be body_status \<and>
     (400 \<le> st \<and> st \<le> 599 \<and> body_status = StatusNACK \<or> st = 202 \<and> isAtLeastV2 (ScCtx c))"
proof -
  obtain c w1 where sign: "signNackResponse clock h w ctx e = (None, c, w1)" and "\<not> is_panic e"
    using assms(2) by (auto simp: sign_and_send_nack_def split: if_splits prod.splits option.splits)
  have "frame ctx c"
    using sign by (auto simp: signNackResponse_def signBodyAndSetHeader_def Let_def
        split: option.splits if_splits prod.splits sum.splits)
  moreover obtain be st bs where n: "nackBecknError (ScCtx c) e = (be, st, bs)"
    by (cases "nackBecknError (ScCtx c) e")
  moreover have "sign_and_send_nack clock h w ctx rw e = finished (sendNack (ScCtx c) e (RespHeader c) rw) w1"
    using sign \<open>\<not> is_panic e\<close> by (simp add: sign_and_send_nack_def)
  ultimately show ?thesis
    using assms(1) nackBecknError_status [OF n]
    by (intro exI [of _ c] exI [of _ be] exI [of _ st] exI [of _ bs])
      (auto simp: fresh_writer_def sendNack_sent nackBytes_def)
qed

theorem nack_answer_status_witness:
  "SentStatus (SvWriter (sign_and_send_nack (\<lambda>w. (0, w)) sample_handler () sample_ctx sample_writer
     (NewNotFoundErr [] (ErrText ''gone'')))) = Some 404"
proof -
  let ?r = "sign_and_send_nack (\<lambda>w. (0, w)) sample_handler () sample_ctx sample_writer (NewNotFoundErr [] (ErrText ''gone''))"
  have "\<not> SvAborted ?r" "fresh_writer sample_writer"
    by (simp_all add: sign_and_send_nack_def signNackResponse_def sample_handler_def finished_def split_beta
        fresh_writer_def sample_writer_def)
  from nack_answer_status [OF this(2,1)] show ?thesis
    by (auto simp: nackBecknError_def NewNotFoundErr_def as_targets HTTPStatus_def)
qed

text \<open>A negative answer to a version-2 request is signed over the bytes that are sent. When the handler
  has an ACK signer and its key manager and signer work, the Signature header that goes out
  is the header computed for exactly the body that goes out.\<close>

theorem nack_signature_covers_body:
  assumes "fresh_writer rw" "HAckSigner h = Some a" "IsAtLeastV2 (ProtocolVersion ctx)" "SubID ctx \<noteq> []"
    and "\<not> is_panic e" "computeSigHeader clock a w ctx (nackBytes (ScCtx ctx) e) = (Inr sig, w1)"
  shows "SentHeader (SvWriter (sign_and_send_nack clock h w ctx rw e)) ''Signature'' = Some sig \<and>
     computeSigHeader clock a w ctx (SentBody (SvWriter (sign_and_send_nack clock h w ctx rw e))) = (Inr sig, w1)"
proof -
  let ?c = "set_resp_header ''Signature'' sig ctx"
  have "signNackResponse clock h w ctx e = (None, ?c, w1)"
    using assms(2-4) by (simp add: signNackResponse_def signBodyAndSetHeader_ok [OF assms(6)])
  then have "sign_and_send_nack clock h w ctx rw e = finished (sendNack (ScCtx ctx) e (RespHeader ?c) rw) w1"
    using assms(5) by (simp add: sign_and_send_nack_def)
  moreover obtain be st bs where "nackBecknError (ScCtx ctx) e = (be, st, bs)"
    by (cases "nackBecknError (ScCtx ctx) e")
  ultimately show ?thesis
    using assms(1,6) by (simp add: fresh_writer_def sendNack_sent)
qed

definition sample_ack_signer :: "unit ackSignerStep" where
  "sample_ack_signer = \<lparr>AsSigner = signer_plugin sample_crypto, AsKm = sample_km\<rparr>"

lemma sample_computeSigHeader:
  "\<exists>sig. computeSigHeader (\<lambda>w. (0, w)) sample_ack_signer () sample_ctx body = (Inr sig, ())"
  by (simp add: computeSigHeader_def sample_ack_signer_def signer_plugin_def signer_SignAck_def generateSignature_def
      ed25519_seed_size_def Let_def)

lemma sample_v2: "IsAtLeastV2 (ProtocolVersion sample_ctx)" "SubID sample_ctx \<noteq> []"
  by (simp_all add: sample_ctx_def) (simp add: IsAtLeastV2_def SplitN2_def Atoi_def ParseInt64_def Let_def
      is_digit_def dec_val_def digit_val_def)

theorem nack_signature_covers_body_witness:
  "\<exists>sig. SentHeader (SvWriter (sign_and_send_nack (\<lambda>w. (0, w)) (sample_handler\<lparr>HAckSigner := Some sample_ack_signer\<rparr>)
     () sample_ctx sample_writer (ErrText ''broken''))) ''Signature'' = Some sig"
proof -
  obtain sig where "computeSigHeader (\<lambda>w. (0, w)) sample_ack_signer () sample_ctx
      (nackBytes (ScCtx sample_ctx) (ErrText ''broken'')) = (Inr sig, ())"
    using sample_computeSigHeader by blast
  from nack_signature_covers_body [OF _ _ sample_v2 _ this, of sample_writer "sample_handler\<lparr>HAckSigner := Some sample_ack_signer\<rparr>"]
  show ?thesis by (auto simp: fresh_writer_def sample_writer_def)
qed

text \<open>C7: A positive answer to a version-2 request is signed over the bytes that are sent: the body that
  the ACK signer builds is the one that \<open>sendAck\<close> writes, provided the steps left the
  message id and protocol version of the Go context and of the step context in agreement,
  as all steps of \<open>step.go\<close> do.\<close>

theorem ack_signature_covers_body:
  assumes "fresh_writer rw" "HResponseSteps h = [instrumented_RunOnResponse (ackSigner_RunOnResponse clock a)]"
    and "coherent ctx" "IsAtLeastV2 (ProtocolVersion ctx)" "SubID ctx \<noteq> []"
    and "computeSigHeader clock a w ctx (buildAckBody (ProtocolVersion ctx) (MessageID ctx)) = (Inr sig, w1)"
  shows "SentStatus (SvWriter (ack_after_response_steps clock h w ctx rw)) = Some 200 \<and>
     SentHeader (SvWriter (ack_after_response_steps clock h w ctx rw)) ''Signature'' = Some sig \<and>
     computeSigHeader clock a w ctx (SentBody (SvWriter (ack_after_response_steps clock h w ctx rw))) = (Inr sig, w1)"
proof -
  let ?body = "buildAckBody (ProtocolVersion ctx) (MessageID ctx)"
  have "run_response_steps (HResponseSteps h) w ctx None = (None, set_resp_header ''Signature'' sig ctx, None, w1)"
    using assms(4,5) signBodyAndSetHeader_ok [OF assms(6)]
    by (simp add: assms(2) instrumented_ackSigner ackSigner_RunOnResponse_def)
  then have "ack_after_response_steps clock h w ctx rw =
      finished (sendAck (ScCtx ctx) ((RespHeader ctx)(''Signature'' \<mapsto> sig)) rw) w1"
    by (simp add: ack_after_response_steps_def)
  then show ?thesis
    using assms(1,6) ackBodyBytes_coherent [OF assms(3,4)]
    by (simp add: fresh_writer_def sendAck_sent)
qed

definition sample_coherent_ctx :: StepContext where
  "sample_coherent_ctx = sample_ctx\<lparr>ScCtx := [ContextKeyProtocolVersion \<mapsto> JStr (ProtocolVersion sample_ctx),
     ContextKeyMsgID \<mapsto> JStr (MessageID sample_ctx)]\<rparr>"

theorem ack_signature_covers_body_witness:
  "SentStatus (SvWriter (ack_after_response_steps (\<lambda>w. (0, w)) (sample_handler\<lparr>HResponseSteps :=
     [instrumented_RunOnResponse (ackSigner_RunOnResponse (\<lambda>w. (0, w)) sample_ack_signer)]\<rparr>)
     () sample_coherent_ctx sample_writer)) = Some 200"
proof -
  obtain sig where "computeSigHeader (\<lambda>w. (0, w)) sample_ack_signer () sample_coherent_ctx
      (buildAckBody (ProtocolVersion sample_coherent_ctx) (MessageID sample_coherent_ctx)) = (Inr sig, ())"
    by (simp add: computeSigHeader_def sample_ack_signer_def signer_plugin_def signer_SignAck_def generateSignature_def
        ed25519_seed_size_def Let_def)
  from ack_signature_covers_body [OF _ _ _ _ _ this, of sample_writer "sample_handler\<lparr>HResponseSteps :=
     [instrumented_RunOnResponse (ackSigner_RunOnResponse (\<lambda>w. (0, w)) sample_ack_signer)]\<rparr>"]
  show ?thesis
    using sample_v2 by (simp add: fresh_writer_def sample_writer_def sample_coherent_ctx_def coherent_def context_key_defs)
qed

text \<open>Instrumentation is transparent: the wrapper of \<open>step_instrumentor.go\<close>, which copies only five
  fields back, changes nothing about any of the steps of \<open>step.go\<close> or about the ACK signer.\<close>

theorem instrumentation_transparent:
  "instrumented_Run (signStep_Run clock signer km ps) = signStep_Run clock signer km ps \<and>
   instrumented_Run (validateSignStep_Run v km ps) = validateSignStep_Run v km ps \<and>
   instrumented_Run (validateSchemaStep_Run sv base) = validateSchemaStep_Run sv base \<and>
   instrumented_Run (addRouteStep_Run rt base) = addRouteStep_Run rt base \<and>
   instrumented_Run (storePayloadStep_Run st) = storePayloadStep_Run st \<and>
   instrumented_RunOnResponse (ackSigner_RunOnResponse clock a) = ackSigner_RunOnResponse clock a"
  by (intro conjI sign_step.instrumented_same validate_sign_step.instrumented_same
      validate_schema_step.instrumented_same add_route_step.instrumented_same
      store_payload_step.instrumented_same instrumented_ackSigner)

lemma foldl_header_Del: "foldl header_Del h ks k = (if k \<in> set ks then None else h k)"
  by (induction ks arbitrary: h) (auto simp: header_Del_def)

lemma removeHopByHopHeaders_other:
  assumes "header_Get h ''Connection'' = []" "k \<notin> set hop_headers"
  shows "removeHopByHopHeaders h k = h k"
  using assms by (simp add: removeHopByHopHeaders_def foldl_header_Del)

text \<open>The instrumentation headers reach the upstream. A request whose pipeline routes it to a URL is
  forwarded with the headers X-Module-Name and X-Role that \<open>ServeHTTP\<close> set on it; they are deleted only
  after the proxy has returned. (The transport of this handler records the requests it gets.)\<close>

theorem internal_headers_forwarded:
  assumes "HSteps h = [addRouteStep_Run router base]"
    and "HTransport h = (\<lambda>w out. (Inl (ErrText ''dial''), out # w))"
    and "ReqBody r = Inr body" "header_Get (ReqHeader r) ''Connection'' = []"
    and "RouteOf router w (stripBasePath (Some (ReqURL r)) base) body = (Inr rt, w1)"
    and "TargetType rt = ''url''" "RouteURL rt = Some target"
  shows "\<exists>out \<in> set (SvWorld (ServeHTTP clock h w r rh rw)).
     ReqURL out = target \<and> ReqHeader out ''X-Module-Name'' = Some (HModuleName h) \<and>
     ReqHeader out ''X-Role'' = Some (HRole h)"
proof -
  have hop: "''X-Module-Name'' \<notin> set hop_headers" "''X-Role'' \<notin> set hop_headers"
    by (simp_all add: hop_headers_def)
  have conn: "header_Get ((ReqHeader r)(''X-Module-Name'' \<mapsto> x, ''X-Role'' \<mapsto> y, ''X-Forwarded-Host'' \<mapsto> z)) ''Connection'' = []" for x y z
    using assms(4) by simp
  let ?out = "((instrument_request h r)\<lparr>ReqBody := Inr body, ReqURL := target, Host := UHost target,
    ReqHeader := removeHopByHopHeaders ((ReqHeader (instrument_request h r))(''X-Forwarded-Host'' \<mapsto> Host r))\<rparr>)"
  have "?out \<in> set (SvWorld (ServeHTTP clock h w r rh rw))"
    using assms
    by (simp add: ServeHTTP_def stepCtx_def serve_pipeline_def addRouteStep_Run_def route_def proxy_def
        syncRequestBody_def outgoing_request_def instrument_request_def Let_def)
  moreover have "ReqHeader ?out ''X-Module-Name'' = Some (HModuleName h)" "ReqHeader ?out ''X-Role'' = Some (HRole h)"
    by (simp_all add: instrument_request_def removeHopByHopHeaders_other conn hop)
  ultimately show ?thesis by (intro bexI [of _ ?out]) auto
qed

definition sample_router :: "'w Router" where
  "sample_router = \<lparr>RouteOf = (\<lambda>w u b. (Inr \<lparr>TargetType = ''url'', PublisherID = [], RouteURL = Some sample_url\<rparr>, w))\<rparr>"

definition sample_proxying :: "Request list stdHandler" where
  "sample_proxying =
     \<lparr>HSigner = None, HSteps = [addRouteStep_Run sample_router ''/bap/caller/''], HResponseSteps = [],
      HSignValidator = None, HKm = None, HSchemaValidator = None, HPolicyChecker = None,
      HMediator = None, HRouter = Some sample_router, HPublisher = None, HPayloadTransformer = None,
      HPayloadStore = None, HAckSigner = None, HSubID = ''bap.example.com'', HRole = RoleBAP,
      HBasePath = ''/bap/caller/'', HTransport = (\<lambda>w out. (Inl (ErrText ''dial''), out # w)),
      HModuleName = ''bapCaller''\<rparr>"

theorem internal_headers_forwarded_witness:
  "\<exists>out \<in> set (SvWorld (ServeHTTP (\<lambda>w. (0, w)) sample_proxying [] sample_request Map.empty sample_writer)).
     ReqHeader out ''X-Module-Name'' = Some ''bapCaller''"
proof -
  have "\<exists>out \<in> set (SvWorld (ServeHTTP (\<lambda>w. (0, w)) sample_proxying [] sample_request Map.empty sample_writer)).
     ReqURL out = sample_url \<and> ReqHeader out ''X-Module-Name'' = Some (HModuleName sample_proxying) \<and>
     ReqHeader out ''X-Role'' = Some (HRole sample_proxying)"
    by (rule internal_headers_forwarded [where router = sample_router and base = "''/bap/caller/''" and body = "''{}''"
        and rt = "\<lparr>TargetType = ''url'', PublisherID = [], RouteURL = Some sample_url\<rparr>"])
      (simp_all add: sample_proxying_def sample_request_def sample_router_def header_Get_def)
  then show ?thesis by (auto simp: sample_proxying_def)
qed

end
