(* ===== verification/Handler_Init.thy ===== *)
theory Handler_Init
  imports Handler
begin

text \<open>
  How a handler is put together: \<open>config.go\<close> (the plugin slots and the default translator), the
  plugin loaders and \<open>initPlugins\<close>, \<open>initSteps\<close> and \<open>NewStdHandler\<close> of \<open>stdHandler.go\<close>, and the module
  layer of \<open>core/module/module.go\<close> (\<open>Register\<close>, \<open>addMiddleware\<close>).

  The plugin manager loads shared objects and is a parameter: a record of its loading functions.
  Manifest loaders, translators and metadata look-ups are only passed around here, so their types
  are abstract.
\<close>

typedecl ManifestLoader
typedecl Translator
typedecl MetadataLookup

record PluginConfig =
  PcID :: string
  PcConfig :: "string \<rightharpoonup> string"

record PluginCfg =
  CSchemaValidator :: "PluginConfig option"
  CPolicyChecker :: "PluginConfig option"
  CPayloadTransformer :: "PluginConfig option"
  CTranslator :: "PluginConfig option"
  CSignValidator :: "PluginConfig option"
  CPublisher :: "PluginConfig option"
  CSigner :: "PluginConfig option"
  CRouter :: "PluginConfig option"
  CCache :: "PluginConfig option"
  CRegistry :: "PluginConfig option"
  CKeyManager :: "PluginConfig option"
  CManifestLoader :: "PluginConfig option"
  CMediator :: "PluginConfig option"
  CTransportWrapper :: "PluginConfig option"
  CPayloadStore :: "PluginConfig option"
  CCatalogPublisher :: "PluginConfig option"
  CCatalogBlobStore :: "PluginConfig option"
  CMiddleware :: "PluginConfig list"
  CSteps :: "PluginConfig list"

definition plugin_entry :: "string \<Rightarrow> PluginConfig option \<Rightarrow> (string \<times> string) list" where
  "plugin_entry t c = (case c of Some c \<Rightarrow> if PcID c \<noteq> [] then [(t, PcID c)] else [] | None \<Rightarrow> [])"

definition PluginEntries :: "PluginCfg \<Rightarrow> (string \<times> string) list" where
  "PluginEntries p =
     plugin_entry ''schema_validator'' (CSchemaValidator p) @
     plugin_entry ''sign_validator'' (CSignValidator p) @
     plugin_entry ''router'' (CRouter p) @
     plugin_entry ''registry'' (CRegistry p) @
     plugin_entry ''publisher'' (CPublisher p) @
     plugin_entry ''signer'' (CSigner p) @
     plugin_entry ''cache'' (CCache p) @
     plugin_entry ''transport_wrapper'' (CTransportWrapper p) @
     plugin_entry ''policy_checker'' (CPolicyChecker p) @
     plugin_entry ''schema_version_mediator'' (CMediator p) @
     plugin_entry ''payload_transformer'' (CPayloadTransformer p) @
     plugin_entry ''translator'' (CTranslator p) @
     plugin_entry ''key_manager'' (CKeyManager p) @
     plugin_entry ''payload_store'' (CPayloadStore p) @
     plugin_entry ''catalog_publisher'' (CCatalogPublisher p) @
     plugin_entry ''catalog_blob_store'' (CCatalogBlobStore p) @
     concat (map (\<lambda>c. plugin_entry ''step'' (Some c)) (CSteps p)) @
     concat (map (\<lambda>c. plugin_entry ''middleware'' (Some c)) (CMiddleware p))"

definition defaultTranslatorID :: string where
  "defaultTranslatorID = ''jsonatatranslator''"

definition applyTranslatorDefault :: "PluginCfg \<Rightarrow> PluginCfg" where
  "applyTranslatorDefault p =
     (if CTranslator p = None \<and> (CPayloadTransformer p \<noteq> None \<or> CMediator p \<noteq> None)
      then p\<lparr>CTranslator := Some \<lparr>PcID = defaultTranslatorID, PcConfig = Map.empty\<rparr>\<rparr> else p)"

record HttpClientConfig =
  MaxIdleConns :: int
  IdleConnTimeout :: int
  MaxIdleConnsPerHost :: int
  ResponseHeaderTimeout :: int

record HConfig =
  Plugins :: PluginCfg
  CfgSteps :: "string list"
  CfgType :: string
  RegistryURL :: string
  CfgRole :: Role
  CfgSubscriberID :: string
  CfgHttpClient :: HttpClientConfig
  CfgBasePath :: string
  OutputRoot :: string
  AuthDisabled :: bool

text \<open>The plugin manager. A registry may also serve metadata (the type assertion of \<open>loadManifestLoader\<close>).\<close>

type_synonym 'w Registry = "'w RegistryLookup \<times> MetadataLookup option"
type_synonym 'w HttpHandler = "'w \<Rightarrow> Request \<Rightarrow> Header \<Rightarrow> ResponseWriter \<Rightarrow> 'w Served"
type_synonym 'w Middleware = "'w HttpHandler \<Rightarrow> 'w HttpHandler"

record 'w PluginManager =
  MMiddleware :: "PluginConfig \<Rightarrow> goerr + 'w Middleware"
  MSignValidator :: "PluginConfig \<Rightarrow> goerr + 'w SignValidator"
  MSchemaValidator :: "PluginConfig \<Rightarrow> goerr + 'w SchemaValidator"
  MRouter :: "PluginConfig \<Rightarrow> goerr + 'w Router"
  MPublisher :: "PluginConfig \<Rightarrow> goerr + 'w Publisher"
  MSigner :: "PluginConfig \<Rightarrow> goerr + 'w Signer"
  MStep :: "PluginConfig \<Rightarrow> goerr + 'w Step"
  MTranslator :: "PluginConfig \<Rightarrow> goerr + Translator"
  MPayloadTransformer :: "Translator option \<Rightarrow> PluginConfig \<Rightarrow> goerr + 'w Step"
  MPolicyChecker :: "ManifestLoader option \<Rightarrow> PluginConfig \<Rightarrow> goerr + 'w Step"
  MMediator :: "ManifestLoader \<Rightarrow> Translator \<Rightarrow> PluginConfig \<Rightarrow> goerr + 'w Step"
  MCache :: "PluginConfig \<Rightarrow> goerr + 'w Cache"
  MRegistry :: "'w Cache option \<Rightarrow> PluginConfig \<Rightarrow> goerr + 'w Registry"
  MKeyManager :: "'w RegistryLookup \<Rightarrow> PluginConfig \<Rightarrow> goerr + 'w KeyManager"
  MManifestLoader :: "'w Cache \<Rightarrow> MetadataLookup \<Rightarrow> PluginConfig \<Rightarrow> goerr + ManifestLoader"
  MTransportWrapper :: "PluginConfig \<Rightarrow> goerr + 'w TransportWrapper"
  MPayloadStore :: "'w Cache \<Rightarrow> string \<Rightarrow> PluginConfig \<Rightarrow> goerr + 'w PayloadStore"

subsection \<open>Loading plugins\<close>

definition load_failure :: "string \<Rightarrow> PluginConfig \<Rightarrow> string" where
  "load_failure name cfg = ''failed to load '' @ name @ '' plugin ('' @ PcID cfg @ ''): ''"

definition LoadPlugin ::
  "string \<Rightarrow> PluginConfig option \<Rightarrow> (PluginConfig \<Rightarrow> goerr + 'p) \<Rightarrow> goerr + 'p option" where
  "LoadPlugin name cfg mgrFunc =
     (case cfg of
        None \<Rightarrow> Inr None
      | Some c \<Rightarrow>
          (case mgrFunc c of
             Inl e \<Rightarrow> Inl (errorf_w (load_failure name c) e)
           | Inr p \<Rightarrow> Inr (Some p)))"

definition LoadKeyManager ::
  "'w PluginManager \<Rightarrow> 'w Registry option \<Rightarrow> PluginConfig option \<Rightarrow> goerr + 'w KeyManager option" where
  "LoadKeyManager mgr registry cfg =
     (case cfg of
        None \<Rightarrow> Inr None
      | Some c \<Rightarrow>
          (case registry of
             None \<Rightarrow> Inl (ErrText (load_failure ''KeyManager'' c @ ''Registry plugin not configured''))
           | Some r \<Rightarrow>
               (case MKeyManager mgr (fst r) c of
                  Inl e \<Rightarrow> Inl (errorf_w (load_failure ''KeyManager'' c) e)
                | Inr km \<Rightarrow> Inr (Some km))))"

definition loadManifestLoader ::
  "'w PluginManager \<Rightarrow> 'w Cache option \<Rightarrow> 'w Registry option \<Rightarrow> PluginConfig option \<Rightarrow> goerr + ManifestLoader option" where
  "loadManifestLoader mgr cache registry cfg =
     (case cfg of
        None \<Rightarrow> Inr None
      | Some c \<Rightarrow>
          (let fail = load_failure ''ManifestLoader'' c in
           case cache of
             None \<Rightarrow> Inl (ErrText (fail @ ''Cache plugin not configured''))
           | Some ca \<Rightarrow>
               (case registry of
                  None \<Rightarrow> Inl (ErrText (fail @ ''Registry plugin not configured''))
                | Some r \<Rightarrow>
                    (case snd r of
                       None \<Rightarrow> Inl (ErrText (fail @ ''Registry plugin does not implement RegistryMetadataLookup''))
                     | Some metadataLookup \<Rightarrow>
                         (case MManifestLoader mgr ca metadataLookup c of
                            Inl e \<Rightarrow> Inl (errorf_w fail e)
                          | Inr l \<Rightarrow> Inr (Some l))))))"

definition loadPayloadStore ::
  "'w PluginManager \<Rightarrow> 'w Cache option \<Rightarrow> string \<Rightarrow> PluginConfig option \<Rightarrow> goerr + 'w PayloadStore option" where
  "loadPayloadStore mgr cache namespace cfg =
     (case cfg of
        None \<Rightarrow> Inr None
      | Some c \<Rightarrow>
          (case cache of
             None \<Rightarrow> Inl (ErrText (load_failure ''PayloadStore'' c @ ''Cache plugin not configured''))
           | Some ca \<Rightarrow>
               (case MPayloadStore mgr ca namespace c of
                  Inl e \<Rightarrow> Inl (errorf_w (load_failure ''PayloadStore'' c) e)
                | Inr ps \<Rightarrow> Inr (Some ps))))"

definition LoadPolicyChecker ::
  "'w PluginManager \<Rightarrow> ManifestLoader option \<Rightarrow> PluginConfig option \<Rightarrow> goerr + 'w Step option" where
  "LoadPolicyChecker mgr manifestLoader cfg =
     (case cfg of
        None \<Rightarrow> Inr None
      | Some c \<Rightarrow>
          (case MPolicyChecker mgr manifestLoader c of
             Inl e \<Rightarrow> Inl (errorf_w (load_failure ''PolicyChecker'' c) e)
           | Inr p \<Rightarrow> Inr (Some p)))"

definition loadSchemaVersionMediator ::
  "'w PluginManager \<Rightarrow> ManifestLoader option \<Rightarrow> Translator option \<Rightarrow> PluginConfig option \<Rightarrow> goerr + 'w Step option" where
  "loadSchemaVersionMediator mgr manifestLoader translator cfg =
     (case cfg of
        None \<Rightarrow> Inr None
      | Some c \<Rightarrow>
          (let fail = load_failure ''SchemaVersionMediator'' c in
           case manifestLoader of
             None \<Rightarrow> Inl (ErrText (fail @ ''ManifestLoader plugin not configured''))
           | Some l \<Rightarrow>
               (case translator of
                  None \<Rightarrow> Inl (ErrText (fail @ ''Translator plugin not configured''))
                | Some t \<Rightarrow>
                    (case MMediator mgr l t c of
                       Inl e \<Rightarrow> Inl (errorf_w fail e)
                     | Inr m \<Rightarrow> Inr (Some m)))))"

definition loadPayloadTransformerStep ::
  "'w PluginManager \<Rightarrow> Translator option \<Rightarrow> PluginConfig option \<Rightarrow> goerr + 'w Step option" where
  "loadPayloadTransformerStep mgr translator cfg =
     (case cfg of
        None \<Rightarrow> Inr None
      | Some c \<Rightarrow>
          (case MPayloadTransformer mgr translator c of
             Inl e \<Rightarrow> Inl (errorf_w (load_failure ''PayloadTransformer'' c) e)
           | Inr s \<Rightarrow> Inr (Some s)))"

text \<open>
  Sequencing of fallible calls, the \<open>if err != nil { return err }\<close> of Go, and \<open>initPlugins\<close>: the
  plugins are loaded in the order of the code and the first failure is returned. The
  transport wrapper is returned beside the handler.
\<close>

definition bind_err :: "(goerr + 'a) \<Rightarrow> ('a \<Rightarrow> goerr + 'b) \<Rightarrow> goerr + 'b" where
  "bind_err x f = (case x of Inl e \<Rightarrow> Inl e | Inr a \<Rightarrow> f a)"

definition initPlugins ::
  "'w PluginManager \<Rightarrow> PluginCfg \<Rightarrow> 'w stdHandler \<Rightarrow> goerr + 'w stdHandler \<times> 'w TransportWrapper option" where
  "initPlugins mgr cfg h =
     bind_err (LoadPlugin ''Cache'' (CCache cfg) (MCache mgr)) (\<lambda>cache.
     bind_err (LoadPlugin ''Registry'' (CRegistry cfg) (MRegistry mgr cache)) (\<lambda>registry.
     bind_err (LoadKeyManager mgr registry (CKeyManager cfg)) (\<lambda>km.
     bind_err (loadManifestLoader mgr cache registry (CManifestLoader cfg)) (\<lambda>manifestLoader.
     bind_err (loadPayloadStore mgr cache ''onix'' (CPayloadStore cfg)) (\<lambda>payloadStore.
     bind_err (LoadPlugin ''SignValidator'' (CSignValidator cfg) (MSignValidator mgr)) (\<lambda>signValidator.
     bind_err (LoadPlugin ''SchemaValidator'' (CSchemaValidator cfg) (MSchemaValidator mgr)) (\<lambda>schemaValidator.
     bind_err (LoadPlugin ''Router'' (CRouter cfg) (MRouter mgr)) (\<lambda>router.
     bind_err (LoadPlugin ''Publisher'' (CPublisher cfg) (MPublisher mgr)) (\<lambda>publisher.
     bind_err (LoadPlugin ''Signer'' (CSigner cfg) (MSigner mgr)) (\<lambda>signer.
     bind_err (LoadPlugin ''TransportWrapper'' (CTransportWrapper cfg) (MTransportWrapper mgr)) (\<lambda>transportWrapper.
     bind_err (LoadPolicyChecker mgr manifestLoader (CPolicyChecker cfg)) (\<lambda>policyChecker.
     bind_err (LoadPlugin ''Translator'' (CTranslator cfg) (MTranslator mgr)) (\<lambda>translator.
     bind_err (loadSchemaVersionMediator mgr manifestLoader translator (CMediator cfg)) (\<lambda>mediator.
     bind_err (loadPayloadTransformerStep mgr translator (CPayloadTransformer cfg)) (\<lambda>payloadTransformer.
       Inr (h\<lparr>HKm := km, HPayloadStore := payloadStore, HSignValidator := signValidator,
              HSchemaValidator := schemaValidator, HRouter := router, HPublisher := publisher,
              HSigner := signer, HPolicyChecker := policyChecker, HMediator := mediator,
              HPayloadTransformer := payloadTransformer\<rparr>, transportWrapper))))))))))))))))"

subsection \<open>Building the pipeline\<close>

fun load_custom_steps ::
  "'w PluginManager \<Rightarrow> PluginConfig list \<Rightarrow> (string \<rightharpoonup> 'w Step) \<Rightarrow> goerr + (string \<rightharpoonup> 'w Step)" where
  "load_custom_steps mgr [] steps = Inr steps"
| "load_custom_steps mgr (c # cs) steps =
     (case MStep mgr c of
        Inl e \<Rightarrow> Inl (errorf_w (''failed to initialize plugin step '' @ PcID c @ '': '') e)
      | Inr s \<Rightarrow> load_custom_steps mgr cs (steps(PcID c \<mapsto> s)))"

text \<open>
  One round of the registration loop. \<open>metrics_ok\<close> says whether the step metrics exist;
  without them a step is used as it is.
\<close>

definition instrument_step :: "bool \<Rightarrow> 'w Step \<Rightarrow> 'w Step" where
  "instrument_step metrics_ok s = (if metrics_ok then instrumented_Run s else s)"

definition instrument_response_step :: "bool \<Rightarrow> 'w ResponseStep \<Rightarrow> 'w ResponseStep" where
  "instrument_response_step metrics_ok s = (if metrics_ok then instrumented_RunOnResponse s else s)"

definition processing_step ::
  "'w clock \<Rightarrow> 'w stdHandler \<Rightarrow> (string \<rightharpoonup> 'w Step) \<Rightarrow> string \<Rightarrow> goerr + 'w Step" where
  "processing_step clock h steps step =
     (if step = ''sign'' then newSignStep clock (HSigner h) (HKm h) (HPayloadStore h)
      else if step = ''validateSign'' then newValidateSignStep (HSignValidator h) (HKm h) (HPayloadStore h)
      else if step = ''validateSchema'' then newValidateSchemaStep (HSchemaValidator h) (HBasePath h)
      else if step = ''addRoute'' then newAddRouteStep (HRouter h) (HBasePath h)
      else if step = ''checkPolicy'' then newCheckPolicyStep (HPolicyChecker h)
      else if step = ''mediateSchema'' then newMediateSchemaStep (HMediator h)
      else if step = ''transformPayload'' then
        (case HPayloadTransformer h of
           None \<Rightarrow> Inl (ErrText ''invalid config: PayloadTransformer plugin not configured'')
         | Some s \<Rightarrow> Inr s)
      else if step = ''storePayload'' then newStorePayloadStep (HPayloadStore h)
      else (case steps step of
          Some customStep \<Rightarrow> Inr customStep
        | None \<Rightarrow> Inl (ErrText (''unrecognized step: '' @ step))))"

definition register_step ::
  "'w clock \<Rightarrow> bool \<Rightarrow> (string \<rightharpoonup> 'w Step) \<Rightarrow> 'w stdHandler \<Rightarrow> string \<Rightarrow> goerr + 'w stdHandler" where
  "register_step clock metrics_ok steps h step =
     (if step = ''signAck'' then
        bind_err (newAckSignerStep (HSigner h) (HKm h)) (\<lambda>as.
          Inr (h\<lparr>HAckSigner := Some as,
                 HResponseSteps := HResponseSteps h @
                   [instrument_response_step metrics_ok (ackSigner_RunOnResponse clock as)]\<rparr>))
      else if step = ''validateAckSign'' then
        bind_err (newValidateAckSignatureStep (HSignValidator h) (HKm h)) (\<lambda>rs.
          Inr (h\<lparr>HResponseSteps := HResponseSteps h @ [instrument_response_step metrics_ok rs]\<rparr>))
      else
        bind_err (processing_step clock h steps step) (\<lambda>s.
          Inr (h\<lparr>HSteps := HSteps h @ [instrument_step metrics_ok s]\<rparr>)))"

fun register_steps ::
  "'w clock \<Rightarrow> bool \<Rightarrow> (string \<rightharpoonup> 'w Step) \<Rightarrow> string list \<Rightarrow> 'w stdHandler \<Rightarrow> goerr + 'w stdHandler" where
  "register_steps clock metrics_ok steps [] h = Inr h"
| "register_steps clock metrics_ok steps (s # ss) h =
     bind_err (register_step clock metrics_ok steps h s) (register_steps clock metrics_ok steps ss)"

definition initSteps ::
  "'w clock \<Rightarrow> bool \<Rightarrow> 'w PluginManager \<Rightarrow> HConfig \<Rightarrow> 'w stdHandler \<Rightarrow> goerr + 'w stdHandler" where
  "initSteps clock metrics_ok mgr cfg h =
     bind_err (load_custom_steps mgr (CSteps (Plugins cfg)) Map.empty) (\<lambda>steps.
       register_steps clock metrics_ok steps (CfgSteps cfg) h)"

text \<open>
  \<open>newHTTPClient\<close>: the idle and timeout settings of the configuration replace those of the
  default transport when positive; the wrapper, if any, is applied last. A transport is
  built from its settings by the Go library (the parameter \<open>dial\<close>).
\<close>

definition override :: "int \<Rightarrow> int \<Rightarrow> int" where
  "override configured dflt = (if configured > 0 then configured else dflt)"

definition newHTTPClient ::
  "(HttpClientConfig \<Rightarrow> 'w transport) \<Rightarrow> HttpClientConfig \<Rightarrow> HttpClientConfig \<Rightarrow> 'w TransportWrapper option \<Rightarrow> 'w transport" where
  "newHTTPClient dial dflt cfg wrapper =
     (let base = dial \<lparr>MaxIdleConns = override (MaxIdleConns cfg) (MaxIdleConns dflt),
                       IdleConnTimeout = override (IdleConnTimeout cfg) (IdleConnTimeout dflt),
                       MaxIdleConnsPerHost = override (MaxIdleConnsPerHost cfg) (MaxIdleConnsPerHost dflt),
                       ResponseHeaderTimeout = override (ResponseHeaderTimeout cfg) (ResponseHeaderTimeout dflt)\<rparr>
      in case wrapper of None \<Rightarrow> base | Some wrap \<Rightarrow> wrap base)"

definition empty_handler :: "HConfig \<Rightarrow> string \<Rightarrow> 'w transport \<Rightarrow> 'w stdHandler" where
  "empty_handler cfg moduleName t =
     \<lparr>HSigner = None, HSteps = [], HResponseSteps = [], HSignValidator = None, HKm = None,
      HSchemaValidator = None, HPolicyChecker = None, HMediator = None, HRouter = None,
      HPublisher = None, HPayloadTransformer = None, HPayloadStore = None, HAckSigner = None,
      HSubID = CfgSubscriberID cfg, HRole = CfgRole cfg, HBasePath = CfgBasePath cfg,
      HTransport = t, HModuleName = moduleName\<rparr>"

definition NewStdHandler ::
  "'w clock \<Rightarrow> bool \<Rightarrow> (HttpClientConfig \<Rightarrow> 'w transport) \<Rightarrow> HttpClientConfig \<Rightarrow> 'w PluginManager \<Rightarrow> HConfig \<Rightarrow>
     string \<Rightarrow> goerr + 'w stdHandler" where
  "NewStdHandler clock metrics_ok dial dflt mgr cfg moduleName =
     (let plugins = applyTranslatorDefault (Plugins cfg); cfg1 = cfg\<lparr>Plugins := plugins\<rparr> in
      case initPlugins mgr plugins (empty_handler cfg moduleName (dial dflt)) of
        Inl e \<Rightarrow> Inl (errorf_w ''failed to initialize plugins: '' e)
      | Inr (h, wrapper) \<Rightarrow>
          (case initSteps clock metrics_ok mgr cfg1
                  (h\<lparr>HTransport := newHTTPClient dial dflt (CfgHttpClient cfg) wrapper\<rparr>) of
             Inl e \<Rightarrow> Inl (errorf_w ''failed to initialize steps: '' e)
           | Inr h1 \<Rightarrow> Inr h1))"

subsection \<open>Modules\<close>

text \<open>\<open>addMiddleware\<close>: from the last to the first, so that the first middleware is outermost.\<close>

fun add_reversed :: "'w PluginManager \<Rightarrow> PluginConfig list \<Rightarrow> 'w HttpHandler \<Rightarrow> goerr + 'w HttpHandler" where
  "add_reversed mgr [] hdl = Inr hdl"
| "add_reversed mgr (c # cs) hdl =
     (case MMiddleware mgr c of
        Inl e \<Rightarrow> Inl (errorf_w (''failed to load middleware '' @ PcID c @ '': '') e)
      | Inr mw \<Rightarrow> add_reversed mgr cs (mw hdl))"

definition addMiddleware :: "'w PluginManager \<Rightarrow> 'w HttpHandler \<Rightarrow> HConfig \<Rightarrow> goerr + 'w HttpHandler" where
  "addMiddleware mgr hdl hCfg = add_reversed mgr (rev (CMiddleware (Plugins hCfg))) hdl"

definition moduleCtxMiddleware :: "string \<Rightarrow> 'w Middleware" where
  "moduleCtxMiddleware moduleName next w r rh rw =
     next w (r\<lparr>ReqCtx := (ReqCtx r)(ContextKeyModuleID \<mapsto> JStr moduleName)\<rparr>) rh rw"

record ModuleConfig =
  ModName :: string
  ModPath :: string
  ModHandler :: HConfig

type_synonym 'w Provider = "'w PluginManager \<Rightarrow> HConfig \<Rightarrow> string \<Rightarrow> goerr + 'w HttpHandler"

text \<open>
  \<open>Register\<close>: the routes the multiplexer gets, in order. \<open>ServeMux.Handle\<close> panics on a pattern that
  is registered twice.
\<close>

definition mux_Handle :: "(string \<times> 'w HttpHandler) list \<Rightarrow> string \<Rightarrow> 'w HttpHandler \<Rightarrow> goerr + (string \<times> 'w HttpHandler) list" where
  "mux_Handle mux path hdl =
     (if path = [] \<or> path \<in> set (map fst mux) then Inl (GoPanic ''http: multiple registrations'') else Inr (mux @ [(path, hdl)]))"

fun register_modules ::
  "(string \<rightharpoonup> 'w Provider) \<Rightarrow> 'w PluginManager \<Rightarrow> ModuleConfig list \<Rightarrow> (string \<times> 'w HttpHandler) list \<Rightarrow>
     goerr + (string \<times> 'w HttpHandler) list" where
  "register_modules providers mgr [] mux = Inr mux"
| "register_modules providers mgr (c # cs) mux =
     (case providers (CfgType (ModHandler c)) of
        None \<Rightarrow> Inl (ErrText (''invalid module : '' @ ModName c))
      | Some rmp \<Rightarrow>
          (let cfg = (ModHandler c)\<lparr>CfgBasePath := ModPath c\<rparr> in
           case rmp mgr cfg (ModName c) of
             Inl e \<Rightarrow> Inl (errorf_w (ModName c @ '' : '') e)
           | Inr hdl \<Rightarrow>
               (case addMiddleware mgr hdl cfg of
                  Inl e \<Rightarrow> Inl (errorf_w ''failed to add middleware: '' e)
                | Inr hdl1 \<Rightarrow>
                    (case mux_Handle mux (ModPath c) (moduleCtxMiddleware (ModName c) hdl1) of
                       Inl e \<Rightarrow> Inl e
                     | Inr mux1 \<Rightarrow> register_modules providers mgr cs mux1))))"

definition Register ::
  "(string \<rightharpoonup> 'w Provider) \<Rightarrow> 'w HttpHandler \<Rightarrow> 'w PluginManager \<Rightarrow> ModuleConfig list \<Rightarrow>
     goerr + (string \<times> 'w HttpHandler) list" where
  "Register providers health mgr mCfgs =
     bind_err (mux_Handle [] ''/health'' health) (register_modules providers mgr mCfgs)"

subsection \<open>Lemmas\<close>

lemma bind_err_Inr: "bind_err x f = Inr b \<longleftrightarrow> (\<exists>a. x = Inr a \<and> f a = Inr b)"
  by (cases x) (auto simp: bind_err_def)

text \<open>Loading yields a plugin only for a configured slot.\<close>

lemma LoadPlugin_Some: "LoadPlugin n cfg f = Inr (Some p) \<Longrightarrow> cfg \<noteq> None"
  by (auto simp: LoadPlugin_def split: option.splits)

lemma LoadKeyManager_Some: "LoadKeyManager mgr reg cfg = Inr (Some p) \<Longrightarrow> cfg \<noteq> None \<and> reg \<noteq> None"
  by (auto simp: LoadKeyManager_def split: option.splits)

lemma loadPayloadStore_Some: "loadPayloadStore mgr cache ns cfg = Inr (Some p) \<Longrightarrow> cfg \<noteq> None \<and> cache \<noteq> None"
  by (auto simp: loadPayloadStore_def split: option.splits)

lemma LoadPolicyChecker_Some: "LoadPolicyChecker mgr l cfg = Inr (Some p) \<Longrightarrow> cfg \<noteq> None"
  by (auto simp: LoadPolicyChecker_def split: option.splits)

lemma loadSchemaVersionMediator_Some:
  "loadSchemaVersionMediator mgr l t cfg = Inr (Some p) \<Longrightarrow> cfg \<noteq> None \<and> l \<noteq> None \<and> t \<noteq> None"
  by (auto simp: loadSchemaVersionMediator_def Let_def split: option.splits)

lemma loadPayloadTransformerStep_Some: "loadPayloadTransformerStep mgr t cfg = Inr (Some p) \<Longrightarrow> cfg \<noteq> None"
  by (auto simp: loadPayloadTransformerStep_def split: option.splits)

lemma loadManifestLoader_Some:
  "loadManifestLoader mgr cache reg cfg = Inr (Some l) \<Longrightarrow> cfg \<noteq> None \<and> cache \<noteq> None \<and> reg \<noteq> None"
  by (auto simp: loadManifestLoader_def Let_def split: option.splits)

lemmas load_Some = LoadPlugin_Some LoadKeyManager_Some loadPayloadStore_Some LoadPolicyChecker_Some
  loadSchemaVersionMediator_Some loadPayloadTransformerStep_Some loadManifestLoader_Some

text \<open>The plugin slots that a handler's plugins come from.\<close>

definition plugins_from :: "PluginCfg \<Rightarrow> 'w stdHandler \<Rightarrow> bool" where
  "plugins_from cfg h \<longleftrightarrow>
     (HSigner h \<noteq> None \<longrightarrow> CSigner cfg \<noteq> None) \<and>
     (HKm h \<noteq> None \<longrightarrow> CKeyManager cfg \<noteq> None \<and> CRegistry cfg \<noteq> None) \<and>
     (HSignValidator h \<noteq> None \<longrightarrow> CSignValidator cfg \<noteq> None) \<and>
     (HSchemaValidator h \<noteq> None \<longrightarrow> CSchemaValidator cfg \<noteq> None) \<and>
     (HRouter h \<noteq> None \<longrightarrow> CRouter cfg \<noteq> None) \<and>
     (HPolicyChecker h \<noteq> None \<longrightarrow> CPolicyChecker cfg \<noteq> None) \<and>
     (HMediator h \<noteq> None \<longrightarrow> CMediator cfg \<noteq> None \<and> CManifestLoader cfg \<noteq> None \<and> CCache cfg \<noteq> None \<and> CRegistry cfg \<noteq> None) \<and>
     (HPayloadTransformer h \<noteq> None \<longrightarrow> CPayloadTransformer cfg \<noteq> None) \<and>
     (HPayloadStore h \<noteq> None \<longrightarrow> CPayloadStore cfg \<noteq> None \<and> CCache cfg \<noteq> None)"

lemma initPlugins_from:
  assumes "initPlugins mgr cfg h = Inr (h', wrapper)"
  shows "plugins_from cfg h'"
    and "HSteps h' = HSteps h" "HResponseSteps h' = HResponseSteps h" "HAckSigner h' = HAckSigner h"
  using assms unfolding initPlugins_def bind_err_Inr
  by (auto simp: plugins_from_def dest!: load_Some)

text \<open>What a step of the configuration needs of the handler.\<close>

definition step_supported :: "'w stdHandler \<Rightarrow> string \<Rightarrow> bool" where
  "step_supported h n \<longleftrightarrow>
     (n \<in> {''sign'', ''signAck''} \<longrightarrow> HSigner h \<noteq> None \<and> HKm h \<noteq> None) \<and>
     (n \<in> {''validateSign'', ''validateAckSign''} \<longrightarrow> HSignValidator h \<noteq> None \<and> HKm h \<noteq> None) \<and>
     (n = ''validateSchema'' \<longrightarrow> HSchemaValidator h \<noteq> None) \<and>
     (n = ''addRoute'' \<longrightarrow> HRouter h \<noteq> None) \<and>
     (n = ''checkPolicy'' \<longrightarrow> HPolicyChecker h \<noteq> None) \<and>
     (n = ''mediateSchema'' \<longrightarrow> HMediator h \<noteq> None) \<and>
     (n = ''transformPayload'' \<longrightarrow> HPayloadTransformer h \<noteq> None) \<and>
     (n = ''storePayload'' \<longrightarrow> HPayloadStore h \<noteq> None)"

definition response_step_names :: "string list" where
  "response_step_names = [''signAck'', ''validateAckSign'']"

text \<open>The plugins of a handler, which the registration of steps never changes.\<close>

definition plugins_of :: "'w stdHandler \<Rightarrow> 'w stdHandler" where
  "plugins_of h = h\<lparr>HSteps := [], HResponseSteps := [], HAckSigner := None\<rparr>"

lemma step_supported_plugins: "step_supported (plugins_of h) n = step_supported h n"
  by (simp add: plugins_of_def step_supported_def)

lemma processing_step_plugins: "processing_step clock (plugins_of h) steps n = processing_step clock h steps n"
  by (simp add: plugins_of_def processing_step_def)

lemma register_step_plugins:
  "register_step clock m steps h n = Inr h' \<Longrightarrow> plugins_of h' = plugins_of h"
  by (auto simp: register_step_def bind_err_Inr plugins_of_def split: if_splits)

lemma register_step_supported:
  "register_step clock m steps h n = Inr h' \<Longrightarrow> step_supported h n"
  by (auto simp: register_step_def bind_err_Inr step_supported_def processing_step_def newAckSignerStep_def
      newValidateAckSignatureStep_def newSignStep_def newValidateSignStep_def newValidateSchemaStep_def
      newAddRouteStep_def newCheckPolicyStep_def newMediateSchemaStep_def newStorePayloadStep_def
      split: if_splits option.splits)

lemma register_steps_plugins:
  "register_steps clock m steps ns h = Inr h' \<Longrightarrow>
     plugins_of h' = plugins_of h \<and> (\<forall>n \<in> set ns. step_supported h n)"
proof (induction ns arbitrary: h)
  case (Cons n ns)
  then obtain h1 where h1: "register_step clock m steps h n = Inr h1"
    "register_steps clock m steps ns h1 = Inr h'"
    by (auto simp: bind_err_Inr)
  then show ?case
    using Cons.IH [OF h1(2)] register_step_plugins [OF h1(1)] register_step_supported [OF h1(1)]
      step_supported_plugins [of h] step_supported_plugins [of h1] by auto
qed simp

text \<open>The processing steps end up in the order of the configuration, the response steps apart.\<close>

lemma register_step_effect:
  assumes "register_step clock m steps h n = Inr h'"
  shows "n \<in> set response_step_names \<Longrightarrow> HSteps h' = HSteps h"
    and "n \<notin> set response_step_names \<Longrightarrow>
      \<exists>s. processing_step clock h steps n = Inr s \<and> HSteps h' = HSteps h @ [instrument_step m s]"
    and "HAckSigner h' \<noteq> None \<longleftrightarrow> n = ''signAck'' \<or> HAckSigner h \<noteq> None"
    and "length (HResponseSteps h') = length (HResponseSteps h) + (if n \<in> set response_step_names then 1 else 0)"
  using assms by (auto simp: register_step_def bind_err_Inr response_step_names_def split: if_splits)

lemma register_steps_order:
  assumes "register_steps clock m steps ns h = Inr h'"
  shows "\<exists>ss. list_all2 (\<lambda>n s. processing_step clock h steps n = Inr s)
                (filter (\<lambda>n. n \<notin> set response_step_names) ns) ss \<and>
              HSteps h' = HSteps h @ map (instrument_step m) ss"
  using assms
proof (induction ns arbitrary: h)
  case (Cons n ns)
  then obtain h1 where h1: "register_step clock m steps h n = Inr h1"
    "register_steps clock m steps ns h1 = Inr h'"
    by (auto simp: bind_err_Inr)
  have same: "processing_step clock h1 steps k = processing_step clock h steps k" for k
    using register_step_plugins [OF h1(1)] processing_step_plugins [of clock h steps k]
      processing_step_plugins [of clock h1 steps k] by simp
  obtain ss where ss: "list_all2 (\<lambda>n s. processing_step clock h steps n = Inr s)
                (filter (\<lambda>n. n \<notin> set response_step_names) ns) ss"
    "HSteps h' = HSteps h1 @ map (instrument_step m) ss"
    using Cons.IH [OF h1(2)] by (auto simp: same)
  show ?case
  proof (cases "n \<in> set response_step_names")
    case True
    with ss register_step_effect(1) [OF h1(1)] show ?thesis by auto
  next
    case False
    then obtain s where "processing_step clock h steps n = Inr s" "HSteps h1 = HSteps h @ [instrument_step m s]"
      using register_step_effect(2) [OF h1(1)] by blast
    with ss False show ?thesis by (intro exI [of _ "s # ss"]) simp
  qed
qed simp

lemma register_steps_ack_signer:
  "register_steps clock m steps ns h = Inr h' \<Longrightarrow>
     HAckSigner h' \<noteq> None \<longleftrightarrow> ''signAck'' \<in> set ns \<or> HAckSigner h \<noteq> None"
proof (induction ns arbitrary: h)
  case (Cons n ns)
  then obtain h1 where "register_step clock m steps h n = Inr h1" "register_steps clock m steps ns h1 = Inr h'"
    by (auto simp: bind_err_Inr)
  with Cons.IH register_step_effect(3) show ?case by fastforce
qed simp

lemma NewStdHandler_parts:
  assumes "NewStdHandler clock m dial dflt mgr cfg name = Inr h"
  obtains h0 steps t where "plugins_from (applyTranslatorDefault (Plugins cfg)) h0"
    "HSteps h0 = []" "HResponseSteps h0 = []" "HAckSigner h0 = None"
    "load_custom_steps mgr (CSteps (applyTranslatorDefault (Plugins cfg))) Map.empty = Inr steps"
    "register_steps clock m steps (CfgSteps cfg) (h0\<lparr>HTransport := t\<rparr>) = Inr h"
proof -
  let ?ps = "applyTranslatorDefault (Plugins cfg)" and ?e = "empty_handler cfg name (dial dflt)"
  obtain h0 wrap steps where init: "initPlugins mgr ?ps ?e = Inr (h0, wrap)"
    and "load_custom_steps mgr (CSteps ?ps) Map.empty = Inr steps"
    and "register_steps clock m steps (CfgSteps cfg)
           (h0\<lparr>HTransport := newHTTPClient dial dflt (CfgHttpClient cfg) wrap\<rparr>) = Inr h"
    using assms by (auto simp: NewStdHandler_def Let_def initSteps_def bind_err_Inr split: sum.splits)
  moreover have "HSteps h0 = []" "HResponseSteps h0 = []" "HAckSigner h0 = None"
    using initPlugins_from [OF init] by (simp_all add: empty_handler_def)
  ultimately show ?thesis using initPlugins_from(1) [OF init] that by blast
qed

lemma applyTranslatorDefault_slots [simp]:
  "CSigner (applyTranslatorDefault p) = CSigner p" "CKeyManager (applyTranslatorDefault p) = CKeyManager p"
  "CRegistry (applyTranslatorDefault p) = CRegistry p" "CSignValidator (applyTranslatorDefault p) = CSignValidator p"
  "CSchemaValidator (applyTranslatorDefault p) = CSchemaValidator p" "CRouter (applyTranslatorDefault p) = CRouter p"
  "CPolicyChecker (applyTranslatorDefault p) = CPolicyChecker p" "CMediator (applyTranslatorDefault p) = CMediator p"
  "CManifestLoader (applyTranslatorDefault p) = CManifestLoader p" "CCache (applyTranslatorDefault p) = CCache p"
  "CPayloadTransformer (applyTranslatorDefault p) = CPayloadTransformer p"
  "CPayloadStore (applyTranslatorDefault p) = CPayloadStore p"
  by (simp_all add: applyTranslatorDefault_def)

subsection \<open>Properties\<close>


definition sample_mgr :: "unit PluginManager" where
  "sample_mgr =
     \<lparr>MMiddleware = (\<lambda>c. Inr (\<lambda>h. h)), MSignValidator = (\<lambda>c. Inl (ErrText ''none'')),
      MSchemaValidator = (\<lambda>c. Inl (ErrText ''none'')), MRouter = (\<lambda>c. Inr sample_router),
      MPublisher = (\<lambda>c. Inl (ErrText ''none'')), MSigner = (\<lambda>c. Inr (signer_plugin sample_crypto)),
      MStep = (\<lambda>c. Inl (ErrText ''none'')), MTranslator = (\<lambda>c. Inl (ErrText ''none'')),
      MPayloadTransformer = (\<lambda>t c. Inl (ErrText ''none'')), MPolicyChecker = (\<lambda>l c. Inl (ErrText ''none'')),
      MMediator = (\<lambda>l t c. Inl (ErrText ''none'')), MCache = (\<lambda>c. Inl (ErrText ''none'')),
      MRegistry = (\<lambda>ca c. Inr (\<lparr>Lookup = (\<lambda>w x s. (Inr [], w))\<rparr>, None)), MKeyManager = (\<lambda>r c. Inr sample_km),
      MManifestLoader = (\<lambda>ca l c. Inl (ErrText ''none'')), MTransportWrapper = (\<lambda>c. Inr (\<lambda>t. t)),
      MPayloadStore = (\<lambda>ca n c. Inl (ErrText ''none''))\<rparr>"

definition sample_plugin :: "PluginConfig option" where
  "sample_plugin = Some \<lparr>PcID = ''p'', PcConfig = Map.empty\<rparr>"

definition sample_config :: HConfig where
  "sample_config =
     \<lparr>Plugins = \<lparr>CSchemaValidator = None, CPolicyChecker = None, CPayloadTransformer = None, CTranslator = None,
        CSignValidator = None, CPublisher = None, CSigner = sample_plugin, CRouter = sample_plugin,
        CCache = None, CRegistry = sample_plugin, CKeyManager = sample_plugin, CManifestLoader = None,
        CMediator = None, CTransportWrapper = None, CPayloadStore = None, CCatalogPublisher = None,
        CCatalogBlobStore = None, CMiddleware = [], CSteps = []\<rparr>,
      CfgSteps = [''addRoute'', ''sign'', ''signAck''], CfgType = ''std'', RegistryURL = [], CfgRole = RoleBAP,
      CfgSubscriberID = ''bap.example.com'',
      CfgHttpClient = \<lparr>MaxIdleConns = 0, IdleConnTimeout = 0, MaxIdleConnsPerHost = 0, ResponseHeaderTimeout = 0\<rparr>,
      CfgBasePath = ''/bap/caller/'', OutputRoot = [], AuthDisabled = False\<rparr>"

definition sample_new :: "goerr + unit stdHandler" where
  "sample_new = NewStdHandler (\<lambda>w. (0, w)) True (\<lambda>s w r. (Inl (ErrText ''dial''), w))
     (CfgHttpClient sample_config) sample_mgr sample_config ''bapCaller''"

lemma sample_new_succeeds: "\<exists>h. sample_new = Inr h"
  by (simp add: sample_new_def NewStdHandler_def sample_config_def applyTranslatorDefault_def initPlugins_def
      bind_err_def LoadPlugin_def LoadKeyManager_def loadManifestLoader_def loadPayloadStore_def
      LoadPolicyChecker_def loadSchemaVersionMediator_def loadPayloadTransformerStep_def sample_plugin_def
      sample_mgr_def empty_handler_def initSteps_def register_step_def newAckSignerStep_def
      processing_step_def newSignStep_def newAddRouteStep_def)


text \<open>The pipeline of a new handler is the configured list of steps in its order, each built from the
  handler's plugins and instrumented; the two response steps are kept apart, and the handler signs
  negative answers exactly when \<open>signAck\<close> is configured.\<close>

theorem NewStdHandler_pipeline:
  assumes "NewStdHandler clock m dial dflt mgr cfg name = Inr h"
  shows "(\<exists>h0 steps ss. list_all2 (\<lambda>n s. processing_step clock h0 steps n = Inr s)
            (filter (\<lambda>n. n \<notin> set response_step_names) (CfgSteps cfg)) ss \<and>
            plugins_of h = plugins_of h0 \<and> HSteps h = map (instrument_step m) ss) \<and>
         (HAckSigner h \<noteq> None \<longleftrightarrow> ''signAck'' \<in> set (CfgSteps cfg))"
proof -
  obtain h0 steps t where h0: "HSteps h0 = []" "HAckSigner h0 = None"
    and reg: "register_steps clock m steps (CfgSteps cfg) (h0\<lparr>HTransport := t\<rparr>) = Inr h"
    using NewStdHandler_parts [OF assms] by metis
  from register_steps_order [OF reg] register_steps_ack_signer [OF reg] register_steps_plugins [OF reg] h0
  show ?thesis by (auto intro!: exI [of _ "h0\<lparr>HTransport := t\<rparr>"])
qed

theorem NewStdHandler_pipeline_witness:
  "\<exists>h. sample_new = Inr h \<and> length (HSteps h) = 2 \<and> HAckSigner h \<noteq> None"
proof -
  obtain h where new: "sample_new = Inr h" using sample_new_succeeds by blast
  then have h: "NewStdHandler (\<lambda>w. (0, w)) True (\<lambda>s w r. (Inl (ErrText ''dial''), w))
     (CfgHttpClient sample_config) sample_mgr sample_config ''bapCaller'' = Inr h"
    by (simp add: sample_new_def)
  from NewStdHandler_pipeline [OF this] new show ?thesis
    by (intro exI [of _ h]) (auto simp: sample_config_def response_step_names_def dest: list_all2_lengthD)
qed

text \<open>Middlewares wrap the handler so that the first of the configuration is outermost: it sees the
  request first.\<close>

theorem addMiddleware_order:
  assumes "list_all2 (\<lambda>c mw. MMiddleware mgr c = Inr mw) (CMiddleware (Plugins cfg)) mws"
  shows "addMiddleware mgr hdl cfg = Inr (foldr (\<lambda>mw next. mw next) mws hdl)"
proof -
  have "add_reversed mgr cs hdl = Inr (foldl (\<lambda>next mw. mw next) hdl ms)"
    if "list_all2 (\<lambda>c mw. MMiddleware mgr c = Inr mw) cs ms" for cs ms
    using that by (induction arbitrary: hdl rule: list_all2_induct) simp_all
  from this [of "rev (CMiddleware (Plugins cfg))" "rev mws"] assms show ?thesis
    by (simp add: addMiddleware_def foldr_conv_foldl list_all2_rev)
qed

theorem addMiddleware_order_witness:
  "addMiddleware sample_mgr (moduleCtxMiddleware ''m'' (\<lambda>w r rh rw. aborted sample_ctx rw [] w))
     (sample_config\<lparr>Plugins := (Plugins sample_config)\<lparr>CMiddleware := [the sample_plugin]\<rparr>\<rparr>) =
   Inr (moduleCtxMiddleware ''m'' (\<lambda>w r rh rw. aborted sample_ctx rw [] w))"
  using addMiddleware_order [of sample_mgr "sample_config\<lparr>Plugins := (Plugins sample_config)\<lparr>CMiddleware := [the sample_plugin]\<rparr>\<rparr>"
      "[\<lambda>h. h]"]
  by (simp add: sample_mgr_def)

text \<open>The list of configured plugins that feeds the plugin-info gauge does not depend on the manifest
  loader: that slot is missing from it, although the comment asks for every slot.\<close>

theorem PluginEntries_omits_manifest_loader:
  "PluginEntries (p\<lparr>CManifestLoader := c\<rparr>) = PluginEntries p"
  by (simp add: PluginEntries_def)

end
