(* ===== verification/Router_Rules.thy ===== *)
theory Router_Rules
  imports Handler
begin

text \<open>
  The router plugin \<open>router/router.go\<close>: validation of the routing rules, the nested rule table
  (domain, version, endpoint), and the routing decision for requests with and without a
  body.

  \<open>url.Parse\<close> is the argument \<open>parse\<close> of the definitions and the reading and YAML decoding of
  the rule file the argument \<open>read\<close>; nothing is assumed about them. The order in which Go
  visits the keys of a map is unspecified: it is the argument \<open>order\<close>.
\<close>

record target =
  TURL :: string
  TPublisherID :: string
  ExcludeAction :: bool

record routingRule =
  RDomain :: string
  RVersion :: string
  RTargetType :: string
  RTarget :: target
  Endpoints :: "string list"

definition targetTypeURL :: string where "targetTypeURL = ''url''"
definition targetTypePublisher :: string where "targetTypePublisher = ''publisher''"
definition targetTypeBPP :: string where "targetTypeBPP = ''bpp''"
definition targetTypeBAP :: string where "targetTypeBAP = ''bap''"
definition targetTypeReceiver :: string where "targetTypeReceiver = ''receiver''"
definition targetTypeSender :: string where "targetTypeSender = ''sender''"

lemmas target_types = targetTypeURL_def targetTypePublisher_def targetTypeBPP_def targetTypeBAP_def
  targetTypeReceiver_def targetTypeSender_def

definition participant_types :: "string list" where
  "participant_types = [targetTypeBPP, targetTypeBAP, targetTypeReceiver, targetTypeSender]"

type_synonym rule_table = "string \<rightharpoonup> (string \<rightharpoonup> (string \<rightharpoonup> Route))"

definition isV2Version :: "string \<Rightarrow> bool" where
  "isV2Version version = HasPrefix version ''2.''"

definition joinPath :: "URL \<Rightarrow> string \<Rightarrow> string" where
  "joinPath u endpoint = path_Join (if UPath u = [] then ''/'' else UPath u) endpoint"

definition getContextString :: "(string \<times> json) list \<Rightarrow> string list \<Rightarrow> string" where
  "getContextString ctx ks = first_string ctx ks"

subsection \<open>Loading the rules\<close>

definition validateRule :: "(string \<Rightarrow> goerr + URL) \<Rightarrow> routingRule \<Rightarrow> goerr option" where
  "validateRule parse rule =
     (if RVersion rule = [] \<or> RTargetType rule = [] then
        Some (ErrText ''invalid rule: version and targetType are required'')
      else if \<not> isV2Version (RVersion rule) \<and> RDomain rule = [] then
        Some (ErrText (''invalid rule: domain is required for version '' @ RVersion rule))
      else if RTargetType rule = targetTypeURL then
        (if TURL (RTarget rule) = [] then
           Some (ErrText (''invalid rule: url is required for targetType '' @ [CHR 0x27] @ ''url'' @ [CHR 0x27]))
         else (case parse (TURL (RTarget rule)) of
             Inl e \<Rightarrow> Some (errorf_w (''invalid URL - '' @ TURL (RTarget rule) @ '': '') e)
           | Inr _ \<Rightarrow> None))
      else if RTargetType rule = targetTypePublisher then
        (if TPublisherID (RTarget rule) = [] then
           Some (ErrText (''invalid rule: publisherID is required for targetType '' @ [CHR 0x27] @ ''publisher'' @ [CHR 0x27]))
         else None)
      else if RTargetType rule \<in> set participant_types then
        (if TURL (RTarget rule) = [] then None
         else (case parse (TURL (RTarget rule)) of
             Inl e \<Rightarrow> Some (errorf_w (''invalid URL - '' @ TURL (RTarget rule) @
                        '' defined in routing config for target type '' @ RTargetType rule @ '': '') e)
           | Inr _ \<Rightarrow> None))
      else Some (ErrText (''invalid rule: unknown targetType '' @ [CHR 0x27] @ RTargetType rule @ [CHR 0x27])))"

fun validateRules :: "(string \<Rightarrow> goerr + URL) \<Rightarrow> routingRule list \<Rightarrow> goerr option" where
  "validateRules parse [] = None"
| "validateRules parse (rule # rules) =
     (case validateRule parse rule of Some e \<Rightarrow> Some e | None \<Rightarrow> validateRules parse rules)"

text \<open>The switch of \<open>loadRules\<close> on the target type: the route of one endpoint of a rule.\<close>

definition rule_route :: "(string \<Rightarrow> goerr + URL) \<Rightarrow> routingRule \<Rightarrow> string \<Rightarrow> goerr + Route" where
  "rule_route parse rule endpoint =
     (if RTargetType rule = targetTypePublisher then
        Inr \<lparr>TargetType = RTargetType rule, PublisherID = TPublisherID (RTarget rule), RouteURL = None\<rparr>
      else if RTargetType rule = targetTypeURL then
        (case parse (TURL (RTarget rule)) of
           Inl e \<Rightarrow> Inl (errorf_w ''invalid URL in rule: '' e)
         | Inr u \<Rightarrow>
             Inr \<lparr>TargetType = RTargetType rule, PublisherID = [],
                  RouteURL = Some (if ExcludeAction (RTarget rule) then u else u\<lparr>UPath := joinPath u endpoint\<rparr>)\<rparr>)
      else
        (if TURL (RTarget rule) = [] then
           Inr \<lparr>TargetType = RTargetType rule, PublisherID = [], RouteURL = None\<rparr>
         else
           (case parse (TURL (RTarget rule)) of
              Inl e \<Rightarrow> Inl (errorf_w ''invalid URL in rule: '' e)
            | Inr u \<Rightarrow>
                Inr \<lparr>TargetType = RTargetType rule, PublisherID = [],
                     RouteURL = Some (u\<lparr>UPath := joinPath u endpoint\<rparr>)\<rparr>)))"

definition rule_domain :: "routingRule \<Rightarrow> string" where
  "rule_domain rule = (if isV2Version (RVersion rule) then ''*'' else RDomain rule)"

text \<open>Reading and writing the nested table.\<close>

definition table_get :: "rule_table \<Rightarrow> string \<Rightarrow> string \<Rightarrow> string \<Rightarrow> Route option" where
  "table_get rules d v e =
     (case rules d of None \<Rightarrow> None | Some dm \<Rightarrow> (case dm v of None \<Rightarrow> None | Some vm \<Rightarrow> vm e))"

definition table_init :: "rule_table \<Rightarrow> string \<Rightarrow> string \<Rightarrow> rule_table" where
  "table_init rules d v =
     (let dm = (case rules d of None \<Rightarrow> Map.empty | Some dm \<Rightarrow> dm);
          dm1 = (case dm v of None \<Rightarrow> dm(v \<mapsto> Map.empty) | Some _ \<Rightarrow> dm)
      in rules(d \<mapsto> dm1))"

definition table_put :: "rule_table \<Rightarrow> string \<Rightarrow> string \<Rightarrow> string \<Rightarrow> Route \<Rightarrow> rule_table" where
  "table_put rules d v e rt =
     (let dm = (case rules d of None \<Rightarrow> Map.empty | Some dm \<Rightarrow> dm);
          vm = (case dm v of None \<Rightarrow> Map.empty | Some vm \<Rightarrow> vm)
      in rules(d \<mapsto> dm(v \<mapsto> vm(e \<mapsto> rt))))"

fun load_endpoints ::
  "(string \<Rightarrow> goerr + URL) \<Rightarrow> routingRule \<Rightarrow> string list \<Rightarrow> rule_table \<Rightarrow> goerr + rule_table" where
  "load_endpoints parse rule [] rules = Inr rules"
| "load_endpoints parse rule (e # es) rules =
     (case rule_route parse rule e of
        Inl err \<Rightarrow> Inl err
      | Inr rt \<Rightarrow>
          if isV2Version (RVersion rule) \<and> table_get rules (rule_domain rule) (RVersion rule) e \<noteq> None then
            Inl (ErrText (''duplicate endpoint '' @ [CHR 0x27] @ e @ [CHR 0x27] @ '' found for version '' @ RVersion rule @
              ''. For v2.x.x, domain is ignored, so you can only define each endpoint once per version. Please remove the duplicate rule''))
          else load_endpoints parse rule es (table_put rules (rule_domain rule) (RVersion rule) e rt))"

fun load_rules_from ::
  "(string \<Rightarrow> goerr + URL) \<Rightarrow> routingRule list \<Rightarrow> rule_table \<Rightarrow> goerr + rule_table" where
  "load_rules_from parse [] rules = Inr rules"
| "load_rules_from parse (rule # rs) rules =
     (case load_endpoints parse rule (Endpoints rule) (table_init rules (rule_domain rule) (RVersion rule)) of
        Inl e \<Rightarrow> Inl e
      | Inr rules1 \<Rightarrow> load_rules_from parse rs rules1)"

definition loadRules ::
  "(string \<Rightarrow> goerr + URL) \<Rightarrow> (string \<Rightarrow> goerr + routingRule list) \<Rightarrow> string \<Rightarrow> goerr + rule_table" where
  "loadRules parse read configPath =
     (if configPath = [] then Inl (ErrText ''routingConfig path is empty'')
      else (case read configPath of
          Inl e \<Rightarrow> Inl e
        | Inr config \<Rightarrow>
            (case validateRules parse config of
               Some e \<Rightarrow> Inl (errorf_w ''invalid routing rules: '' e)
             | None \<Rightarrow> load_rules_from parse config Map.empty)))"

definition router_New ::
  "(string \<Rightarrow> goerr + URL) \<Rightarrow> (string \<Rightarrow> goerr + routingRule list) \<Rightarrow> string option \<Rightarrow> goerr + rule_table" where
  "router_New parse read config =
     (case config of
        None \<Rightarrow> Inl (ErrText ''config cannot be nil'')
      | Some routingConfig \<Rightarrow>
          (case loadRules parse read routingConfig of
             Inl e \<Rightarrow> Inl (errorf_w ''failed to load routing rules: '' e)
           | Inr rules \<Rightarrow> Inr rules))"

subsection \<open>The routing decision\<close>

text \<open>The default branch, which no caller reaches, raises an ASCII name to upper case.\<close>

definition canonicalRoleName :: "string \<Rightarrow> string" where
  "canonicalRoleName targetType =
     (if targetType = targetTypeBPP \<or> targetType = targetTypeReceiver then ''BPP''
      else if targetType = targetTypeBAP \<or> targetType = targetTypeSender then ''BAP''
      else concat (map upper_byte targetType))"

definition url_route :: "URL \<Rightarrow> Route" where
  "url_route u = \<lparr>TargetType = targetTypeURL, PublisherID = [], RouteURL = Some u\<rparr>"

definition handleProtocolMapping ::
  "(string \<Rightarrow> goerr + URL) \<Rightarrow> Route \<Rightarrow> string \<Rightarrow> string \<Rightarrow> string \<Rightarrow> goerr + Route" where
  "handleProtocolMapping parse rt npURI endpoint rawQuery =
     (let target = TrimSpace npURI; role = canonicalRoleName (TargetType rt) in
      if target = [] then
        (case RouteURL rt of
           None \<Rightarrow> Inl (ErrText (''could not determine destination for endpoint '' @ [CHR 0x27] @ endpoint @ [CHR 0x27] @
                     '': neither request contained a '' @ role @ '' URI nor was a default URL configured in routing rules''))
         | Some u \<Rightarrow> if rawQuery \<noteq> [] then Inr (url_route (u\<lparr>URawQuery := rawQuery\<rparr>)) else Inr (url_route u))
      else
        (case parse target of
           Inl e \<Rightarrow> Inl (NewBadReqErr ''SCH_INVALID_FORMAT''
                     (errorf_w (''invalid '' @ role @ '' URI - '' @ target @ '' in request body for '' @ endpoint @ '': '') e))
         | Inr u \<Rightarrow>
             (let u1 = u\<lparr>UPath := joinPath u endpoint\<rparr>
              in Inr (url_route (if rawQuery \<noteq> [] then u1\<lparr>URawQuery := rawQuery\<rparr> else u1)))))"

text \<open>The clone of a URL route that carries the query of the request.\<close>

definition with_query :: "Route \<Rightarrow> string \<Rightarrow> Route" where
  "with_query rt rawQuery =
     (case RouteURL rt of
        Some u \<Rightarrow> if rawQuery \<noteq> [] \<and> TargetType rt = targetTypeURL
                   then url_route (u\<lparr>URawQuery := rawQuery\<rparr>) else rt
      | None \<Rightarrow> rt)"

fun bodyless_in :: "(string \<rightharpoonup> (string \<rightharpoonup> Route)) \<Rightarrow> string list \<Rightarrow> string \<Rightarrow> string \<Rightarrow> goerr + Route" where
  "bodyless_in v2Rules [] endpoint rawQuery =
     Inl (ErrText (''endpoint '' @ [CHR 0x27] @ endpoint @ [CHR 0x27] @ '' is not supported in v2 routing config''))"
| "bodyless_in v2Rules (version # versions) endpoint rawQuery =
     (case (case v2Rules version of None \<Rightarrow> None | Some vm \<Rightarrow> vm endpoint) of
        None \<Rightarrow> bodyless_in v2Rules versions endpoint rawQuery
      | Some rt \<Rightarrow>
          if TargetType rt \<in> set participant_types then
            Inl (ErrText (''bodyless endpoint '' @ [CHR 0x27] @ endpoint @ [CHR 0x27] @ '' (version '' @ version @
              '') is configured with target type '' @ [CHR 0x27] @ TargetType rt @ [CHR 0x27] @
              '': dynamic BAP/BPP URI routing is not supported for bodyless requests''))
          else Inr (with_query rt rawQuery))"

definition routeBodyless ::
  "((string \<rightharpoonup> (string \<rightharpoonup> Route)) \<Rightarrow> string list) \<Rightarrow> rule_table \<Rightarrow> string \<Rightarrow> string \<Rightarrow> goerr + Route" where
  "routeBodyless order rules endpoint rawQuery =
     (case rules ''*'' of
        None \<Rightarrow> Inl (ErrText ''no v2 routing rules found; bodyless requests require a v2 config'')
      | Some v2Rules \<Rightarrow> bodyless_in v2Rules (order v2Rules) endpoint rawQuery)"

definition lookup_route :: "rule_table \<Rightarrow> string \<Rightarrow> string \<Rightarrow> string \<Rightarrow> goerr + Route" where
  "lookup_route rules domain version endpoint =
     (case rules domain of
        None \<Rightarrow>
          Inl (ErrText (if domain = ''*'' then ''no routing rules found for version '' @ version
                        else ''no routing rules found for domain '' @ domain))
      | Some domainRules \<Rightarrow>
          (case domainRules version of
             None \<Rightarrow>
               Inl (ErrText (if domain = ''*'' then ''no routing rules found for version '' @ version
                             else ''no routing rules found for domain '' @ domain @ '' version '' @ version))
           | Some versionRules \<Rightarrow>
               (case versionRules endpoint of
                  None \<Rightarrow>
                    Inl (ErrText (''endpoint '' @ [CHR 0x27] @ endpoint @ [CHR 0x27] @ '' is not supported for '' @
                      (if domain = ''*'' then ''version '' @ version
                       else ''domain '' @ domain @ '' and version '' @ version) @ '' in routing config''))
                | Some rt \<Rightarrow> Inr rt)))"

definition Router_Route ::
  "(string \<Rightarrow> goerr + URL) \<Rightarrow> ((string \<rightharpoonup> (string \<rightharpoonup> Route)) \<Rightarrow> string list) \<Rightarrow> rule_table \<Rightarrow>
     URL option \<Rightarrow> string \<Rightarrow> goerr + Route" where
  "Router_Route parse order rules reqURL body =
     (case reqURL of
        None \<Rightarrow> Inl (ErrText ''reqURL must not be nil'')
      | Some u \<Rightarrow>
          (let endpoint = UPath u; rawQuery = URawQuery u in
           if body = [] then routeBodyless order rules endpoint rawQuery
           else
             (case ExtractContext body of
                Inl becknErr \<Rightarrow> Inl (WrapExtractContextErr ''error parsing request body'' becknErr)
              | Inr (_, reqContext) \<Rightarrow>
                  (let bppURI = getContextString reqContext [''bpp_uri'', ''bppUri'', ''receiverUri''];
                       bapURI = getContextString reqContext [''bap_uri'', ''bapUri'', ''senderUri''];
                       version = getContextString reqContext [''version''];
                       domain = (if isV2Version version then ''*'' else getContextString reqContext [''domain''])
                   in case lookup_route rules domain version endpoint of
                        Inl e \<Rightarrow> Inl e
                      | Inr rt \<Rightarrow>
                          if TargetType rt = targetTypeBPP \<or> TargetType rt = targetTypeReceiver then
                            handleProtocolMapping parse rt bppURI endpoint rawQuery
                          else if TargetType rt = targetTypeBAP \<or> TargetType rt = targetTypeSender then
                            handleProtocolMapping parse rt bapURI endpoint rawQuery
                          else Inr (with_query rt rawQuery)))))"

definition router_plugin ::
  "(string \<Rightarrow> goerr + URL) \<Rightarrow> ((string \<rightharpoonup> (string \<rightharpoonup> Route)) \<Rightarrow> string list) \<Rightarrow> rule_table \<Rightarrow> 'w Router" where
  "router_plugin parse order rules = \<lparr>RouteOf = (\<lambda>w u body. (Router_Route parse order rules u body, w))\<rparr>"

subsection \<open>The table against the list of rules\<close>

text \<open>
  The reference: the rules as a flat list of entries in the order of the file, one for each
  endpoint, with the key of the nested table.
\<close>

definition rule_entries ::
  "(string \<Rightarrow> goerr + URL) \<Rightarrow> routingRule \<Rightarrow> string list \<Rightarrow> ((string \<times> string \<times> string) \<times> Route) list" where
  "rule_entries parse rule es =
     concat (map (\<lambda>e. case rule_route parse rule e of
         Inr rt \<Rightarrow> [((rule_domain rule, RVersion rule, e), rt)] | Inl _ \<Rightarrow> []) es)"

definition all_entries :: "(string \<Rightarrow> goerr + URL) \<Rightarrow> routingRule list \<Rightarrow> ((string \<times> string \<times> string) \<times> Route) list" where
  "all_entries parse rules = concat (map (\<lambda>r. rule_entries parse r (Endpoints r)) rules)"

lemma table_get_put:
  "table_get (table_put m d v e rt) d' v' e' =
     (if d' = d \<and> v' = v \<and> e' = e then Some rt else table_get m d' v' e')"
  by (auto simp: table_get_def table_put_def Let_def split: option.splits)

lemma table_get_init [simp]: "table_get (table_init m d v) d' v' e' = table_get m d' v' e'"
  by (auto simp: table_get_def table_init_def Let_def split: option.splits)

definition table_fun :: "rule_table \<Rightarrow> (string \<times> string \<times> string) \<rightharpoonup> Route" where
  "table_fun m = (\<lambda>(d, v, e). table_get m d v e)"

lemma table_fun_put: "table_fun (table_put m d v e rt) = (table_fun m)((d, v, e) \<mapsto> rt)"
  by (auto simp: table_fun_def table_get_put fun_eq_iff)

lemma table_fun_init [simp]: "table_fun (table_init m d v) = table_fun m"
  by (auto simp: table_fun_def)

lemma load_endpoints_entries:
  "load_endpoints parse rule es m = Inr m' \<Longrightarrow>
     table_fun m' = table_fun m ++ map_of (rev (rule_entries parse rule es))"
proof (induction es arbitrary: m)
  case (Cons e es)
  then obtain rt where rt: "rule_route parse rule e = Inr rt"
    and rest: "load_endpoints parse rule es (table_put m (rule_domain rule) (RVersion rule) e rt) = Inr m'"
    by (auto split: sum.splits if_splits)
  have "rule_entries parse rule (e # es) =
      ((rule_domain rule, RVersion rule, e), rt) # rule_entries parse rule es"
    using rt by (simp add: rule_entries_def)
  with Cons.IH [OF rest] show ?case
    by (simp only: table_fun_put rev.simps map_of_append map_of.simps fst_conv snd_conv map_add_assoc
        map_add_upd map_add_empty)
qed (simp add: rule_entries_def)

lemma load_rules_entries:
  "load_rules_from parse rs m = Inr m' \<Longrightarrow> table_fun m' = table_fun m ++ map_of (rev (all_entries parse rs))"
proof (induction rs arbitrary: m)
  case (Cons rule rs)
  then obtain m1 where "load_endpoints parse rule (Endpoints rule) (table_init m (rule_domain rule) (RVersion rule)) = Inr m1"
    and rest: "load_rules_from parse rs m1 = Inr m'"
    by (auto split: sum.splits)
  with load_endpoints_entries [of parse rule "Endpoints rule"] Cons.IH [OF rest] show ?case
    by (simp add: all_entries_def map_add_assoc)
qed (simp add: all_entries_def)

subsection \<open>Deliverable routes\<close>

definition known_route :: "Route \<Rightarrow> bool" where
  "known_route rt \<longleftrightarrow> deliverable rt \<or> TargetType rt \<in> set participant_types"

lemma rule_route_known:
  assumes "validateRule parse rule = None" "rule_route parse rule e = Inr rt"
  shows "known_route rt"
  using assms
  by (auto simp: validateRule_def rule_route_def known_route_def deliverable_def participant_types_def target_types
      split: if_splits sum.splits)

lemma validateRules_None: "validateRules parse rules = None \<longleftrightarrow> (\<forall>r \<in> set rules. validateRule parse r = None)"
  by (induction rules) (auto split: option.splits)

lemma loaded_known:
  assumes "loadRules parse read path = Inr m" "table_get m d v e = Some rt"
  shows "known_route rt"
proof -
  obtain rs where valid: "validateRules parse rs = None" and load: "load_rules_from parse rs Map.empty = Inr m"
    using assms(1) by (auto simp: loadRules_def split: if_splits sum.splits option.splits)
  have empty: "table_fun Map.empty = Map.empty" by (auto simp: table_fun_def table_get_def)
  have "map_of (rev (all_entries parse rs)) (d, v, e) = Some rt"
    using fun_cong [OF load_rules_entries [OF load], of "(d, v, e)"] assms(2)
    by (simp add: empty) (simp add: table_fun_def)
  then have "((d, v, e), rt) \<in> set (all_entries parse rs)" by (auto dest: map_of_SomeD)
  then obtain rule where "rule \<in> set rs" "rule_route parse rule e = Inr rt"
    by (auto simp: all_entries_def rule_entries_def split: sum.splits)
  with valid show ?thesis by (auto simp: validateRules_None intro: rule_route_known)
qed

lemma url_route_deliverable [simp]: "deliverable (url_route u)"
  by (simp add: url_route_def deliverable_def target_types)

lemma with_query_deliverable: "deliverable rt \<Longrightarrow> deliverable (with_query rt q)"
  by (auto simp: with_query_def split: option.splits)

lemma handleProtocolMapping_deliverable:
  "handleProtocolMapping parse rt uri e q = Inr rt' \<Longrightarrow> deliverable rt'"
  by (auto simp: handleProtocolMapping_def Let_def split: if_splits option.splits sum.splits)

lemma lookup_route_table: "lookup_route m d v e = Inr rt \<longleftrightarrow> table_get m d v e = Some rt"
  by (auto simp: lookup_route_def table_get_def split: option.splits)

lemma bodyless_in_known:
  assumes "bodyless_in v2 vs e q = Inr rt" "\<And>v vm rt. v2 v = Some vm \<Longrightarrow> vm e = Some rt \<Longrightarrow> known_route rt"
  shows "deliverable rt"
  using assms
  by (induction vs) (auto simp: known_route_def intro!: with_query_deliverable split: option.splits if_splits)

definition loaded_rules ::
  "(string \<Rightarrow> goerr + URL) \<Rightarrow> (string \<Rightarrow> goerr + routingRule list) \<Rightarrow> string \<Rightarrow> rule_table" where
  "loaded_rules parse read path = (case loadRules parse read path of Inr m \<Rightarrow> m | Inl _ \<Rightarrow> Map.empty)"

lemma loaded_rules_known: "table_get (loaded_rules parse read path) d v e = Some rt \<Longrightarrow> known_route rt"
  by (auto simp: loaded_rules_def table_get_def [of Map.empty] split: sum.splits intro: loaded_known)

lemma Router_Route_deliverable:
  assumes "\<And>d v e rt. table_get m d v e = Some rt \<Longrightarrow> known_route rt"
    and "Router_Route parse order m u body = Inr rt"
  shows "deliverable rt"
proof -
  have bodyless: "deliverable rt" if "routeBodyless order m e q = Inr rt" for e q
    using that assms(1)
    by (auto simp: routeBodyless_def table_get_def split: option.splits intro!: bodyless_in_known) (metis option.simps(5))
  have plain: "deliverable (with_query rt' q)"
    if "lookup_route m d v e = Inr rt'" "TargetType rt' \<notin> set participant_types" for d v e rt' q
    using that assms(1) [of d v e rt'] by (auto simp: lookup_route_table known_route_def intro: with_query_deliverable)
  show ?thesis
    using assms(2)
    by (auto simp: Router_Route_def Let_def split: option.splits if_splits sum.splits
        intro: bodyless intro!: plain dest!: handleProtocolMapping_deliverable) (auto simp: participant_types_def)
qed

interpretation loaded_router: sound_router "router_plugin parse order (loaded_rules parse read path)"
  for parse order read path
proof
  fix w u body rt and w' :: 'a
  assume "RouteOf (router_plugin parse order (loaded_rules parse read path)) w u body = (Inr rt, w')"
  then show "deliverable rt"
    by (intro Router_Route_deliverable [OF loaded_rules_known]) (auto simp: router_plugin_def)
qed

subsection \<open>Bodyless requests\<close>

lemma bodyless_in_find:
  "bodyless_in v2 vs e q =
     (case find (\<lambda>v. (case v2 v of None \<Rightarrow> None | Some vm \<Rightarrow> vm e) \<noteq> None) vs of
        None \<Rightarrow> bodyless_in v2 [] e q
      | Some v \<Rightarrow> bodyless_in v2 [v] e q)"
  by (induction vs) (auto split: option.splits)

lemma find_unique:
  assumes "set xs = set ys" "\<And>x y. x \<in> set xs \<Longrightarrow> y \<in> set xs \<Longrightarrow> P x \<Longrightarrow> P y \<Longrightarrow> x = y"
  shows "find P xs = find P ys"
proof (cases "\<exists>x \<in> set xs. P x")
  case True
  then obtain a b where "find P xs = Some a" "find P ys = Some b"
    using assms(1) by (cases "find P xs"; cases "find P ys") (auto simp: find_None_iff)
  moreover from this have "a \<in> set xs" "P a" "b \<in> set xs" "P b"
    using assms(1) by (auto simp: find_Some_iff)
  ultimately show ?thesis using assms(2) by auto
next
  case False
  then have "find P xs = None" "find P ys = None"
    using assms(1) by (auto simp: find_None_iff)
  then show ?thesis by simp
qed

subsection \<open>Query strings\<close>

definition carries_query :: "string \<Rightarrow> Route \<Rightarrow> bool" where
  "carries_query q rt \<longleftrightarrow> (TargetType rt = targetTypeURL \<longrightarrow> (\<forall>v. RouteURL rt = Some v \<longrightarrow> URawQuery v = q))"

lemma with_query_carries: "q \<noteq> [] \<Longrightarrow> carries_query q (with_query rt q)"
  by (auto simp: carries_query_def with_query_def url_route_def split: option.splits)

lemma handleProtocolMapping_carries:
  "handleProtocolMapping parse rt uri e q = Inr rt' \<Longrightarrow> q \<noteq> [] \<Longrightarrow> carries_query q rt'"
  by (auto simp: carries_query_def handleProtocolMapping_def url_route_def Let_def
      split: if_splits option.splits sum.splits)

lemma bodyless_in_carries: "bodyless_in v2 vs e q = Inr rt \<Longrightarrow> q \<noteq> [] \<Longrightarrow> carries_query q rt"
  by (induction vs) (auto split: option.splits if_splits intro: with_query_carries)

subsection \<open>Properties\<close>

text \<open>C38: The nested rule table implements the list of rules. After a successful load, the route stored for a
  domain, version and endpoint is the one of the last rule of the file that names them, where a
  rule of a 2.x version counts for every domain.\<close>

theorem rule_table_refines_rules:
  assumes "loadRules parse read path = Inr m" "read path = Inr config"
  shows "table_get m d v e = map_of (rev (all_entries parse config)) (d, v, e)"
proof -
  have load: "load_rules_from parse config Map.empty = Inr m"
    using assms by (auto simp: loadRules_def split: if_splits option.splits)
  have "table_fun Map.empty = Map.empty" by (auto simp: table_fun_def table_get_def)
  then show ?thesis
    using fun_cong [OF load_rules_entries [OF load], of "(d, v, e)"] by (simp add: table_fun_def)
qed

definition sample_parse :: "string \<Rightarrow> goerr + URL" where
  "sample_parse s = Inr \<lparr>UScheme = ''https'', UHost = s, UPath = [], URawQuery = [], URest = []\<rparr>"

definition sample_rule :: "string \<Rightarrow> string \<Rightarrow> routingRule" where
  "sample_rule version publisher =
     \<lparr>RDomain = [], RVersion = version, RTargetType = ''publisher'',
      RTarget = \<lparr>TURL = [], TPublisherID = publisher, ExcludeAction = False\<rparr>, Endpoints = [''catalog'']\<rparr>"

definition sample_rules :: "routingRule list" where
  "sample_rules = [sample_rule ''2.0.0'' ''old'', sample_rule ''2.1.0'' ''new'']"

definition sample_table :: rule_table where
  "sample_table = loaded_rules sample_parse (\<lambda>p. Inr sample_rules) ''routing.yaml''"

lemma sample_load: "loadRules sample_parse (\<lambda>p. Inr sample_rules) ''routing.yaml'' = Inr sample_table"
  by (simp add: sample_table_def loaded_rules_def loadRules_def sample_rules_def sample_rule_def validateRule_def
      isV2Version_def rule_route_def rule_domain_def target_types table_get_def table_put_def table_init_def)

theorem rule_table_refines_rules_witness:
  "table_get sample_table ''*'' ''2.1.0'' ''catalog'' =
     Some \<lparr>TargetType = ''publisher'', PublisherID = ''new'', RouteURL = None\<rparr>"
  using rule_table_refines_rules [OF sample_load, of sample_rules "''*''" "''2.1.0''" "''catalog''"]
  by (simp add: all_entries_def rule_entries_def sample_rules_def sample_rule_def rule_route_def rule_domain_def
      isV2Version_def target_types)

text \<open>C39: Whatever the router returns, the handler can deliver. With the rules of a configuration that was
  accepted, a successful run of the routing step leaves a route that is a URL route with a
  URL or a publisher route; the participant target types never reach the handler.\<close>

theorem routed_requests_deliverable:
  assumes "loadRules parse read path = Inr m"
    and "addRouteStep_Run (router_plugin parse order m) base w ctx = (None, ctx', w')"
  shows "\<exists>rt. ScRoute ctx' = Some rt \<and> deliverable rt"
proof -
  have "m = loaded_rules parse read path" using assms(1) by (simp add: loaded_rules_def)
  with assms(2) loaded_router.add_route_deliverable show ?thesis by metis
qed

theorem routed_requests_deliverable_witness:
  "\<exists>rt. ScRoute (fst (snd (addRouteStep_Run (router_plugin sample_parse (\<lambda>m. [''2.0.0'', ''2.1.0'']) sample_table) ''/''
       () (sample_ctx\<lparr>Body := [], ScRequest := sample_request\<lparr>ReqURL := sample_url\<lparr>UPath := ''/catalog''\<rparr>\<rparr>\<rparr>)))) = Some rt \<and>
     deliverable rt"
proof -
  let ?r = "addRouteStep_Run (router_plugin sample_parse (\<lambda>m. [''2.0.0'', ''2.1.0'']) sample_table) ''/''
       () (sample_ctx\<lparr>Body := [], ScRequest := sample_request\<lparr>ReqURL := sample_url\<lparr>UPath := ''/catalog''\<rparr>\<rparr>\<rparr>)"
  have "?r = (None, fst (snd ?r), snd (snd ?r))"
    by (simp add: addRouteStep_Run_def router_plugin_def Router_Route_def stripBasePath_def TrimPrefix_def routeBodyless_def
        sample_table_def loaded_rules_def loadRules_def sample_rules_def sample_rule_def validateRule_def
        isV2Version_def rule_route_def rule_domain_def target_types table_get_def table_put_def table_init_def
        participant_types_def)
  from routed_requests_deliverable [OF sample_load this] show ?thesis .
qed

text \<open>The query string of the request is forwarded. When the request has one, every URL route the
  router returns carries exactly that query string.\<close>

theorem router_forwards_query:
  assumes "Router_Route parse order m (Some u) body = Inr rt" "URawQuery u \<noteq> []" "TargetType rt = targetTypeURL"
    and "RouteURL rt \<noteq> None"
  shows "\<exists>v. RouteURL rt = Some v \<and> URawQuery v = URawQuery u"
proof -
  have "carries_query (URawQuery u) rt"
    using assms(1,2) with_query_carries
    by (auto simp: Router_Route_def routeBodyless_def Let_def split: if_splits sum.splits option.splits
        dest!: handleProtocolMapping_carries bodyless_in_carries)
  with assms(3,4) show ?thesis by (auto simp: carries_query_def)
qed

theorem router_forwards_query_witness:
  "\<exists>v. RouteURL (with_query (url_route sample_url) ''a=b'') = Some v \<and> URawQuery v = ''a=b''"
proof -
  let ?m = "[''*'' \<mapsto> [''2.0.0'' \<mapsto> [''item'' \<mapsto> url_route sample_url]]]"
  have "Router_Route sample_parse (\<lambda>m. [''2.0.0'']) ?m (Some (sample_url\<lparr>UPath := ''item'', URawQuery := ''a=b''\<rparr>)) [] =
      Inr (with_query (url_route sample_url) ''a=b'')"
    by (simp add: Router_Route_def routeBodyless_def url_route_def participant_types_def target_types)
  from router_forwards_query [OF this] show ?thesis
    by (simp add: with_query_def url_route_def)
qed

text \<open>A request without a body is routed independently of the order in which Go visits the rule table, as
  long as at most one 2.x version defines the endpoint.\<close>

theorem bodyless_routing_unambiguous:
  assumes "m ''*'' = Some v2" "set (order v2) = dom v2" "set (order' v2) = dom v2"
    and "\<And>v v' vm vm'. \<lbrakk>v2 v = Some vm; v2 v' = Some vm'; vm e \<noteq> None; vm' e \<noteq> None\<rbrakk> \<Longrightarrow> v = v'"
  shows "routeBodyless order m e q = routeBodyless order' m e q"
proof -
  let ?P = "\<lambda>v. (case v2 v of None \<Rightarrow> None | Some vm \<Rightarrow> vm e) \<noteq> None"
  have "find ?P (order v2) = find ?P (order' v2)"
    by (rule find_unique) (use assms(2-4) in \<open>auto split: option.splits\<close>)
  then show ?thesis
    by (simp add: routeBodyless_def assms(1)
        bodyless_in_find [of v2 "order v2"] bodyless_in_find [of v2 "order' v2"])
qed

theorem bodyless_routing_unambiguous_witness:
  "routeBodyless (\<lambda>m. [''2.0.0'', ''2.1.0'']) [''*'' \<mapsto> [''2.0.0'' \<mapsto> Map.empty, ''2.1.0'' \<mapsto> Map.empty]] ''x'' [] =
   routeBodyless (\<lambda>m. [''2.1.0'', ''2.0.0'']) [''*'' \<mapsto> [''2.0.0'' \<mapsto> Map.empty, ''2.1.0'' \<mapsto> Map.empty]] ''x'' []"
  by (rule bodyless_routing_unambiguous [where ?v2.0 = "[''2.0.0'' \<mapsto> Map.empty, ''2.1.0'' \<mapsto> Map.empty]"])
    (auto split: if_splits)

text \<open>With two 2.x versions that define the same endpoint, which the configuration check accepts, the
  destination of a request without a body depends on the order in which Go visits the map: the
  same rules send it to either publisher.\<close>

theorem bodyless_routing_ambiguous:
  "loadRules sample_parse (\<lambda>p. Inr sample_rules) ''routing.yaml'' = Inr sample_table \<and>
   map_sum id PublisherID (routeBodyless (\<lambda>m. [''2.0.0'', ''2.1.0'']) sample_table ''catalog'' []) = Inr ''old'' \<and>
   map_sum id PublisherID (routeBodyless (\<lambda>m. [''2.1.0'', ''2.0.0'']) sample_table ''catalog'' []) = Inr ''new''"
  by (simp add: sample_table_def loaded_rules_def loadRules_def sample_rules_def sample_rule_def validateRule_def
      isV2Version_def rule_route_def rule_domain_def target_types table_get_def table_put_def table_init_def
      routeBodyless_def participant_types_def with_query_def)

lemma ExtractContext_cause: "ExtractContext body = Inl be \<Longrightarrow> errors_As as_schema (ErrBeckn be) = None"
  by (auto simp: ExtractContext_def Let_def NewCodedError_def NewCodedErrorWithCause_def as_schema_def
      split: option.splits json.splits)

lemma WrapExtractContextErr_nack:
  assumes "ExtractContext body = Inl becknErr"
  shows "nackBecknError c (WrapExtractContextErr p becknErr) =
    (CodedErr_BecknError (Code becknErr) ''BAD Request: '' defaultBadReqCode
       (Some (ErrWrap (p @ '': '') (ErrBeckn becknErr))), 400, StatusNACK)"
  using ExtractContext_cause [OF assms]
  by (simp add: nackBecknError_def WrapExtractContextErr_def NewBadReqErr_def errorf_w_def as_schema_def as_coded_def HTTPStatus_def)

text \<open>A request whose body has no readable context is refused by the routing step as a bad request: the
  negative answer has status 400 and the error code of the extraction.\<close>

theorem unreadable_body_is_bad_request:
  assumes "Body ctx \<noteq> []" "ExtractContext (Body ctx) = Inl becknErr"
    and "addRouteStep_Run (router_plugin parse order m) base w ctx = (err, ctx', w')"
  shows "\<exists>e be. err = Some e \<and> nackBecknError c e = (be, 400, StatusNACK) \<and>
           (Code becknErr \<noteq> [] \<longrightarrow> Code be = Code becknErr)"
proof -
  have "err = Some (errorf_w ''failed to determine route: '' (WrapExtractContextErr ''error parsing request body'' becknErr))"
    using assms by (auto simp: addRouteStep_Run_def router_plugin_def Router_Route_def stripBasePath_def Let_def)
  then show ?thesis
    by (auto simp: WrapExtractContextErr_nack [OF assms(2)] CodedErr_BecknError_def resolveCode_def)
qed

theorem unreadable_body_is_bad_request_witness:
  "\<exists>e be. fst (addRouteStep_Run (router_plugin sample_parse (\<lambda>m. []) sample_table) ''/'' () (sample_ctx\<lparr>Body := ''[]''\<rparr>)) = Some e \<and>
     nackBecknError Map.empty e = (be, 400, StatusNACK)"
proof -
  let ?r = "addRouteStep_Run (router_plugin sample_parse (\<lambda>m. []) sample_table) ''/'' () (sample_ctx\<lparr>Body := ''[]''\<rparr>)"
  have "json_decode ''[]'' = Some (JArr [])" by code_simp
  then obtain be where "ExtractContext (Body (sample_ctx\<lparr>Body := ''[]''\<rparr>)) = Inl be"
    by (simp add: ExtractContext_def Let_def)
  moreover have "Body (sample_ctx\<lparr>Body := ''[]''\<rparr>) \<noteq> []" "?r = (fst ?r, fst (snd ?r), snd (snd ?r))"
    by (simp_all add: prod_eq_iff del: not_Cons_self2)
  ultimately show ?thesis
    using unreadable_body_is_bad_request [of "sample_ctx\<lparr>Body := ''[]''\<rparr>" be sample_parse "\<lambda>m. []" sample_table
        "''/''" "()" "fst ?r" "fst (snd ?r)" "snd (snd ?r)" Map.empty] by blast
qed

end
