(* ===== verification/Preprocessor.thy ===== *)
theory Preprocessor
  imports Handler_Init
begin

text \<open>
  The middleware \<open>reqpreprocessor/reqpreprocessor.go\<close>: it reads the Beckn context of the body and
  puts the subscriber, the caller, the network and the configured keys into the Go context
  before the handler runs. \<open>writeCodedError\<close> answers a body it cannot read.
\<close>

record PreConfig =
  PreRole :: string
  ContextKeys :: "string list"
  ParentID :: string

definition snakeToCamel :: "string \<Rightarrow> string" where
  "snakeToCamel s =
     (case Split (CHR ''_'') s of
        [p] \<Rightarrow> s
      | p # ps \<Rightarrow> p @ concat (map (\<lambda>q. case q of [] \<Rightarrow> [] | c # cs \<Rightarrow> upper_byte c @ cs) ps)
      | [] \<Rightarrow> s)"

definition writeCodedError :: "int \<Rightarrow> string \<Rightarrow> string \<Rightarrow> Header \<Rightarrow> ResponseWriter \<Rightarrow> Header \<times> ResponseWriter" where
  "writeCodedError status code message h rw =
     (let data = json_encode (error_json (NewCodedError code message));
          h1 = json_content h;
          (ok, rw1) = http_Write data h1 (recorder_WriteHeader status h1 rw)
      in if ok then (h1, rw1) else http_Error message 500 h1 rw1)"

fun check_keys :: "string list \<Rightarrow> goerr option" where
  "check_keys [] = None"
| "check_keys (key # keys) = (case ParseContextKey key of Inl e \<Rightarrow> Some e | Inr _ \<Rightarrow> check_keys keys)"

definition validateConfig :: "PreConfig option \<Rightarrow> goerr option" where
  "validateConfig cfg =
     (case cfg of
        None \<Rightarrow> Some (ErrText ''config cannot be nil'')
      | Some c \<Rightarrow>
          if PreRole c \<noteq> ''bap'' \<and> PreRole c \<noteq> ''bpp'' then
            Some (ErrText (''role must be either '' @ [CHR 0x27] @ ''bap'' @ [CHR 0x27] @ '' or '' @ [CHR 0x27] @ ''bpp'' @ [CHR 0x27]))
          else
            check_keys (ContextKeys c))"

definition put_string :: "ContextKey \<Rightarrow> string \<Rightarrow> Context \<Rightarrow> Context" where
  "put_string k v ctx = (if v \<noteq> [] then ctx(k \<mapsto> JStr v) else ctx)"

text \<open>One round of the loop over the configured keys: the snake-case name, then its camel-case form.\<close>

definition put_key :: "(string \<times> json) list \<Rightarrow> Context \<Rightarrow> string \<Rightarrow> Context" where
  "put_key reqContext ctx key =
     (let ctxKey = (case ParseContextKey key of Inr k \<Rightarrow> k | Inl _ \<Rightarrow> []) in
      case jget reqContext key of
        Some v \<Rightarrow> ctx(ctxKey \<mapsto> v)
      | None \<Rightarrow>
          (let camelKey = snakeToCamel key in
           if camelKey \<noteq> key then
             (case jget reqContext camelKey of Some v \<Rightarrow> ctx(ctxKey \<mapsto> v) | None \<Rightarrow> ctx)
           else ctx))"

definition enrich :: "PreConfig \<Rightarrow> (string \<times> json) list \<Rightarrow> Context \<Rightarrow> Context" where
  "enrich cfg reqContext ctx =
     foldl (put_key reqContext)
       (put_string ContextKeyNetworkID (ResolveNetworkID reqContext)
       (put_string ContextKeyRemoteID (ResolveCallerID reqContext (PreRole cfg))
       (put_string ContextKeyParentID (ParentID cfg)
       (put_string ContextKeySubscriberID (ResolveSubscriberID reqContext (PreRole cfg)) ctx))))
       (ContextKeys cfg)"

definition preprocess :: "PreConfig \<Rightarrow> 'w Middleware" where
  "preprocess cfg next w r rh rw =
     (case ReqBody r of
        Inl e \<Rightarrow>
          finished ([], writeCodedError 400 ''SCH_INVALID_JSON'' ''Failed to read request body'' rh rw) w
      | Inr body \<Rightarrow>
          if body = [] then
            next w (r\<lparr>ReqCtx := put_string ContextKeyParentID (ParentID cfg) (ReqCtx r), ReqBody := Inr body\<rparr>) rh rw
          else
            (case ExtractContext body of
               Inl becknErr \<Rightarrow>
                 finished ([], writeCodedError 400 (Code becknErr) (ErrMessage becknErr) rh rw) w
             | Inr (_, reqContext) \<Rightarrow>
                 next w (r\<lparr>ReqBody := Inr body, ReqCtx := enrich cfg reqContext (ReqCtx r)\<rparr>) rh rw))"

definition NewPreProcessor :: "PreConfig option \<Rightarrow> goerr + 'w Middleware" where
  "NewPreProcessor cfg =
     (case validateConfig cfg of
        Some e \<Rightarrow> Inl e
      | None \<Rightarrow> (case cfg of Some c \<Rightarrow> Inr (preprocess c) | None \<Rightarrow> Inl (GoPanic ''nil config'')))"

subsection \<open>Lemmas\<close>

lemma check_keys_None: "check_keys keys = None \<Longrightarrow> key \<in> set keys \<Longrightarrow> \<exists>k. ParseContextKey key = Inr k"
  by (induction keys) (auto split: sum.splits)

lemma ParseContextKey_range: "ParseContextKey key = Inr k \<Longrightarrow> k \<in> snd ` set contextKeys"
  by (force simp: ParseContextKey_def split: option.splits dest: map_of_SomeD)

lemma put_key_other:
  assumes "\<And>k. ParseContextKey key = Inr k \<Longrightarrow> k \<noteq> k'" "k' \<noteq> []"
  shows "put_key rc ctx key k' = ctx k'"
  using assms by (auto simp: put_key_def Let_def split: option.splits sum.splits)

lemma foldl_put_key_other:
  assumes "\<And>key k. key \<in> set keys \<Longrightarrow> ParseContextKey key = Inr k \<Longrightarrow> k \<noteq> k'" "k' \<noteq> []"
  shows "foldl (put_key rc) ctx keys k' = ctx k'"
  using assms(1)
proof (induction keys arbitrary: ctx)
  case (Cons key keys)
  have "foldl (put_key rc) (put_key rc ctx key) keys k' = put_key rc ctx key k'"
    by (rule Cons.IH) (use Cons.prems in auto)
  moreover have "put_key rc ctx key k' = ctx k'"
    by (rule put_key_other [OF _ assms(2)]) (use Cons.prems in auto)
  ultimately show ?case by simp
qed simp

lemma put_string_other [simp]: "k \<noteq> k' \<Longrightarrow> put_string k v ctx k' = ctx k'"
  by (simp add: put_string_def)

lemma ctx_string_put_string:
  "ctx_string (put_string k v ctx) k = (if v \<noteq> [] then Some v else ctx_string ctx k)"
  by (simp add: put_string_def ctx_string_def)

text \<open>The keys that the configuration may extract never include the network id, nor may the subscriber id
  be overwritten unless its key is configured.\<close>

lemma enrich_network:
  "ctx_string0 (enrich c rc ctx) ContextKeyNetworkID =
    (if ResolveNetworkID rc \<noteq> [] then ResolveNetworkID rc else ctx_string0 ctx ContextKeyNetworkID)"
proof -
  have "foldl (put_key rc) c' (ContextKeys c) ContextKeyNetworkID = c' ContextKeyNetworkID" for c'
  proof (rule foldl_put_key_other)
    fix key k assume "key \<in> set (ContextKeys c)" "ParseContextKey key = Inr k"
    then have "k \<in> snd ` set contextKeys" by (intro ParseContextKey_range)
    then show "k \<noteq> ContextKeyNetworkID" by (auto simp: contextKeys_def context_key_defs)
  qed (simp add: context_key_defs)
  then show ?thesis
    by (auto simp: enrich_def ctx_string0_def ctx_string_def put_string_def context_key_defs)
qed

subsection \<open>Properties\<close>

text \<open>The preprocessor identifies the participants. When the extra keys of its configuration do not name
  them, the handler sees as subscriber id and remote id the ids that the body's context
  declares for its role, whenever the body declares them.\<close>

theorem preprocessor_identifies:
  assumes "ReqBody r = Inr body" "body \<noteq> []" "ExtractContext body = Inr (req, rc)"
    and "''subscriber_id'' \<notin> set (ContextKeys c)" "''remote_id'' \<notin> set (ContextKeys c)"
  shows "\<exists>r'. preprocess c next w r rh rw = next w r' rh rw \<and> ReqBody r' = Inr body \<and>
     (ResolveSubscriberID rc (PreRole c) \<noteq> [] \<longrightarrow>
        ctx_string (ReqCtx r') ContextKeySubscriberID = Some (ResolveSubscriberID rc (PreRole c))) \<and>
     (ResolveCallerID rc (PreRole c) \<noteq> [] \<longrightarrow>
        ctx_string0 (ReqCtx r') ContextKeyRemoteID = ResolveCallerID rc (PreRole c)) \<and>
     (ResolveNetworkID rc \<noteq> [] \<longrightarrow> ctx_string0 (ReqCtx r') ContextKeyNetworkID = ResolveNetworkID rc)"
proof -
  have keep: "foldl (put_key rc) c' (ContextKeys c) ck = c' ck"
    if "ck = ContextKeySubscriberID \<and> n = ''subscriber_id'' \<or> ck = ContextKeyRemoteID \<and> n = ''remote_id''"
      "n \<notin> set (ContextKeys c)" for ck n c'
  proof (rule foldl_put_key_other)
    fix key k assume "key \<in> set (ContextKeys c)" "ParseContextKey key = Inr k"
    with that show "k \<noteq> ck"
      by (auto simp: ParseContextKey_def contextKeys_def context_key_defs split: option.splits if_splits)
  qed (use that in \<open>auto simp: context_key_defs\<close>)
  let ?r = "r\<lparr>ReqBody := Inr body, ReqCtx := enrich c rc (ReqCtx r)\<rparr>"
  have "preprocess c next w r rh rw = next w ?r rh rw"
    using assms(1-3) by (simp add: preprocess_def)
  moreover have "ctx_string (enrich c rc (ReqCtx r)) ContextKeySubscriberID =
      Some (ResolveSubscriberID rc (PreRole c))" if "ResolveSubscriberID rc (PreRole c) \<noteq> []"
    using that keep [of ContextKeySubscriberID "''subscriber_id''"] assms(4)
    by (simp add: enrich_def ctx_string_def put_string_def context_key_defs)
  moreover have "ctx_string0 (enrich c rc (ReqCtx r)) ContextKeyRemoteID = ResolveCallerID rc (PreRole c)"
    if "ResolveCallerID rc (PreRole c) \<noteq> []"
    using that keep [of ContextKeyRemoteID "''remote_id''"] assms(5)
    by (simp add: enrich_def ctx_string0_def ctx_string_def put_string_def context_key_defs)
  ultimately show ?thesis
    using enrich_network by (intro exI [of _ ?r]) auto
qed

definition sample_pre :: PreConfig where
  "sample_pre = \<lparr>PreRole = ''bpp'', ContextKeys = [''transaction_id''], ParentID = []\<rparr>"

definition sample_body :: string where
  "sample_body = ''{\"context\":{\"bap_id\":\"a.b\",\"bppId\":\"c.d\",\"transactionId\":\"t1\"}}''"

lemma sample_context:
  "ExtractContext sample_body = Inr ([(''context'', JObj [(''bap_id'', JStr ''a.b''), (''bppId'', JStr ''c.d''),
     (''transactionId'', JStr ''t1'')])], [(''bap_id'', JStr ''a.b''), (''bppId'', JStr ''c.d''), (''transactionId'', JStr ''t1'')])"
  by code_simp

theorem preprocessor_identifies_witness:
  "\<exists>r'. preprocess sample_pre (\<lambda>w r rh rw. aborted (sample_ctx\<lparr>ScRequest := r\<rparr>) rw [] w) ()
       (sample_request\<lparr>ReqBody := Inr sample_body\<rparr>) Map.empty sample_writer = aborted (sample_ctx\<lparr>ScRequest := r'\<rparr>) sample_writer [] () \<and>
     ctx_string (ReqCtx r') ContextKeySubscriberID = Some ''c.d'' \<and> ctx_string0 (ReqCtx r') ContextKeyRemoteID = ''a.b''"
  using preprocessor_identifies [of "sample_request\<lparr>ReqBody := Inr sample_body\<rparr>" sample_body _ _ sample_pre
      "\<lambda>w r rh rw. aborted (sample_ctx\<lparr>ScRequest := r\<rparr>) rw [] w" "()" Map.empty sample_writer, OF _ _ sample_context]
  by (auto simp: sample_pre_def sample_body_def ResolveSubscriberID_def ResolveCallerID_def role_defs jstring_def jget_def)

text \<open>A body without a readable Beckn context never reaches the handler: the preprocessor answers it with
  status 400 and the JSON of the error code, and does nothing else.\<close>

theorem preprocessor_rejects:
  assumes "ReqBody r = Inr body" "body \<noteq> []" "ExtractContext body = Inl becknErr" "fresh_writer rw"
  shows "SentStatus (SvWriter (preprocess c next w r rh rw)) = Some 400 \<and>
     SentBody (SvWriter (preprocess c next w r rh rw)) =
       json_encode (JObj [(''code'', JStr (Code becknErr)), (''message'', JStr (ErrMessage becknErr))]) \<and>
     SvWorld (preprocess c next w r rh rw) = w"
  using assms
  by (simp add: preprocess_def writeCodedError_def fresh_writer_def Let_def finished_def split_beta NewCodedError_def)

theorem preprocessor_rejects_witness:
  "SentStatus (SvWriter (preprocess sample_pre (\<lambda>w r rh rw. aborted sample_ctx rw [] w) ()
     (sample_request\<lparr>ReqBody := Inr ''{}''\<rparr>) Map.empty sample_writer)) = Some 400"
proof -
  have "ExtractContext ''{}'' = Inl (NewCodedError ''SCH_REQUIRED_FIELD_MISSING'' ''context field not found or invalid'')"
    by code_simp
  moreover have "fresh_writer sample_writer" by (simp add: fresh_writer_def sample_writer_def)
  ultimately show ?thesis
    by (intro preprocessor_rejects [THEN conjunct1]) simp_all
qed

end
