(* ===== verification/Key_Manager.thy ===== *)
theory Key_Manager
  imports Response
begin

text \<open>
  The key manager plugin \<open>simplekeymanager/simplekeymanager.go\<close>: key sets in memory, loaded
  from the configuration or inserted at run time, and the look-up of other participants' public
  keys in the registry.

  The world of the plugin is a pair: its map of key sets and the world of the registry and the random
  source. The generators of keys and identifiers and \<open>pem.Decode\<close> are arguments. A stored key set is
  a value here; Go stores the pointer that \<open>InsertKeyset\<close> got and returns a copy from \<open>Keyset\<close>.
\<close>

record SkmConfig =
  SkSubscriberID :: string
  SkKeyID :: string
  SigningPrivateKey :: string
  SkSigningPublicKey :: string
  EncrPrivateKey :: string
  SkEncrPublicKey :: string

definition ErrEmptyKeyID :: goerr where "ErrEmptyKeyID = ErrText ''invalid request: keyID cannot be empty''"
definition ErrNilKeySet :: goerr where "ErrNilKeySet = ErrText ''keyset cannot be nil''"
definition ErrEmptySubscriberID :: goerr where
  "ErrEmptySubscriberID = ErrText ''invalid request: subscriberID cannot be empty''"
definition ErrEmptyUniqueKeyID :: goerr where
  "ErrEmptyUniqueKeyID = ErrText ''invalid request: uniqueKeyID cannot be empty''"
definition ErrSubscriberNotFound :: goerr where
  "ErrSubscriberNotFound = ErrText ''no subscriber found with given credentials''"
definition ErrNilRegistryLookup :: goerr where
  "ErrNilRegistryLookup = ErrText ''registry lookup implementation cannot be nil''"
definition ErrKeysetNotFound :: goerr where "ErrKeysetNotFound = ErrText ''keyset not found''"
definition ErrKeyExpiredOrRevoked :: goerr where
  "ErrKeyExpiredOrRevoked = ErrText ''subscriber key is expired or revoked''"

lemmas skm_errors = ErrEmptyKeyID_def ErrNilKeySet_def ErrEmptySubscriberID_def ErrEmptyUniqueKeyID_def
  ErrSubscriberNotFound_def ErrNilRegistryLookup_def ErrKeysetNotFound_def ErrKeyExpiredOrRevoked_def

definition codeSubscriberNotFound :: string where "codeSubscriberNotFound = ''AUT_SUBSCRIBER_NOT_FOUND''"
definition codeKeyExpiredOrRevoked :: string where "codeKeyExpiredOrRevoked = ''AUT_KEY_EXPIRED_OR_REVOKED''"

text \<open>\<open>fmt.Errorf("%w: ...", ErrInvalidConfig)\<close>.\<close>

definition invalid_config :: "string \<Rightarrow> goerr option" where
  "invalid_config what = Some (ErrText (''invalid configuration: '' @ what))"

definition required_key :: "string \<Rightarrow> goerr option" where
  "required_key name = invalid_config (name @ '' is required when keys are configured'')"

definition ValidateCfg :: "SkmConfig option \<Rightarrow> goerr option" where
  "ValidateCfg cfg =
     (case cfg of
        None \<Rightarrow> invalid_config ''config cannot be nil''
      | Some c \<Rightarrow>
          (let hasKeys = SigningPrivateKey c \<noteq> [] \<or> SkSigningPublicKey c \<noteq> [] \<or> EncrPrivateKey c \<noteq> [] \<or>
                 SkEncrPublicKey c \<noteq> [] \<or> SkSubscriberID c \<noteq> [] \<or> SkKeyID c \<noteq> []
           in if \<not> hasKeys then None
              else if SigningPrivateKey c = [] then required_key ''signingPrivateKey''
              else if SkSigningPublicKey c = [] then required_key ''signingPublicKey''
              else if EncrPrivateKey c = [] then required_key ''encrPrivateKey''
              else if SkEncrPublicKey c = [] then required_key ''encrPublicKey''
              else if SkSubscriberID c = [] then required_key ''subscriberId''
              else if SkKeyID c = [] then required_key ''keyId''
              else None))"

subsection \<open>Keys from the configuration\<close>

definition parseBase64Key :: "string \<Rightarrow> goerr + string" where
  "parseBase64Key keyData =
     (case b64_decode keyData of
        None \<Rightarrow> Inl (errorf_w ''failed to decode base64 key: '' (ErrText ''base64.DecodeString''))
      | Some decoded \<Rightarrow> Inr decoded)"

definition parsePEMKey :: "(string \<Rightarrow> string option) \<Rightarrow> string \<Rightarrow> goerr + string" where
  "parsePEMKey pem keyData =
     (case pem keyData of None \<Rightarrow> Inl (ErrText ''failed to decode PEM key'') | Some bytes \<Rightarrow> Inr bytes)"

definition parseKey :: "(string \<Rightarrow> string option) \<Rightarrow> string \<Rightarrow> goerr + string" where
  "parseKey pem keyData0 =
     (let keyData = TrimSpace keyData0 in
      if keyData = [] then Inl (ErrText ''key data is empty'')
      else if HasPrefix keyData ''-----BEGIN'' then parsePEMKey pem keyData
      else parseBase64Key keyData)"

definition parse_named_key :: "(string \<Rightarrow> string option) \<Rightarrow> string \<Rightarrow> string \<Rightarrow> goerr + string" where
  "parse_named_key pem name keyData =
     (case parseKey pem keyData of Inl e \<Rightarrow> Inl (errorf_w (''failed to parse '' @ name @ '': '') e) | Inr k \<Rightarrow> Inr k)"

definition loadKeysFromConfig ::
  "(string \<Rightarrow> string option) \<Rightarrow> SkmConfig \<Rightarrow> (string \<rightharpoonup> Keyset) \<Rightarrow> goerr + (string \<rightharpoonup> Keyset)" where
  "loadKeysFromConfig pem cfg keysets =
     (if SigningPrivateKey cfg \<noteq> [] \<and> SkSigningPublicKey cfg \<noteq> [] \<and> EncrPrivateKey cfg \<noteq> [] \<and> SkEncrPublicKey cfg \<noteq> [] then
        (case parse_named_key pem ''signingPrivateKey'' (SigningPrivateKey cfg) of
           Inl e \<Rightarrow> Inl e
         | Inr signingPrivate \<Rightarrow>
             (case parse_named_key pem ''signingPublicKey'' (SkSigningPublicKey cfg) of
                Inl e \<Rightarrow> Inl e
              | Inr signingPublic \<Rightarrow>
                  (case parse_named_key pem ''encrPrivateKey'' (EncrPrivateKey cfg) of
                     Inl e \<Rightarrow> Inl e
                   | Inr encrPrivate \<Rightarrow>
                       (case parse_named_key pem ''encrPublicKey'' (SkEncrPublicKey cfg) of
                          Inl e \<Rightarrow> Inl e
                        | Inr encrPublic \<Rightarrow>
                            Inr (keysets(SkSubscriberID cfg \<mapsto>
                              \<lparr>KSubscriberID = SkSubscriberID cfg, UniqueKeyID = SkKeyID cfg,
                               SigningPrivate = b64_encode signingPrivate, SigningPublic = b64_encode signingPublic,
                               EncrPrivate = b64_encode encrPrivate, EncrPublic = b64_encode encrPublic\<rparr>))))))
      else Inr keysets)"

definition skm_New ::
  "(string \<Rightarrow> string option) \<Rightarrow> 'v RegistryLookup option \<Rightarrow> SkmConfig option \<Rightarrow> goerr + (string \<rightharpoonup> Keyset)" where
  "skm_New pem registryLookup cfg =
     (case ValidateCfg cfg of
        Some e \<Rightarrow> Inl e
      | None \<Rightarrow>
          (case registryLookup of
             None \<Rightarrow> Inl ErrNilRegistryLookup
           | Some _ \<Rightarrow> (case cfg of Some c \<Rightarrow> loadKeysFromConfig pem c Map.empty | None \<Rightarrow> Inr Map.empty)))"

subsection \<open>Operations\<close>

record 'v KeyGen =
  gen_ed25519 :: "'v \<Rightarrow> (goerr + string \<times> string) \<times> 'v"
  gen_x25519 :: "'v \<Rightarrow> (goerr + string \<times> string) \<times> 'v"
  gen_uuid :: "'v \<Rightarrow> (goerr + string) \<times> 'v"

type_synonym 'v skm = "(string \<rightharpoonup> Keyset) \<times> 'v"

definition skm_GenerateKeyset :: "'v KeyGen \<Rightarrow> 'v skm \<Rightarrow> (goerr + Keyset) \<times> 'v skm" where
  "skm_GenerateKeyset g w =
     (let (ks, v) = w in
      case gen_ed25519 g v of
        (Inl e, v1) \<Rightarrow> (Inl (errorf_w ''failed to generate signing key pair: '' e), (ks, v1))
      | (Inr (signingPublic, seed), v1) \<Rightarrow>
          (case gen_x25519 g v1 of
             (Inl e, v2) \<Rightarrow> (Inl (errorf_w ''failed to generate encryption key pair: '' e), (ks, v2))
           | (Inr (encrPrivate, encrPublic), v2) \<Rightarrow>
               (case gen_uuid g v2 of
                  (Inl e, v3) \<Rightarrow> (Inl (errorf_w ''failed to generate unique key id uuid: '' e), (ks, v3))
                | (Inr uuid, v3) \<Rightarrow>
                    (Inr \<lparr>KSubscriberID = [], UniqueKeyID = uuid, SigningPrivate = b64_encode seed,
                          SigningPublic = b64_encode signingPublic, EncrPrivate = b64_encode encrPrivate,
                          EncrPublic = b64_encode encrPublic\<rparr>, (ks, v3)))))"

definition skm_InsertKeyset :: "'v skm \<Rightarrow> string \<Rightarrow> Keyset option \<Rightarrow> goerr option \<times> 'v skm" where
  "skm_InsertKeyset w keyID keys =
     (if keyID = [] then (Some ErrEmptyKeyID, w)
      else (case keys of
          None \<Rightarrow> (Some ErrNilKeySet, w)
        | Some k \<Rightarrow> (None, ((fst w)(keyID \<mapsto> k), snd w))))"

definition skm_DeleteKeyset :: "'v skm \<Rightarrow> string \<Rightarrow> goerr option \<times> 'v skm" where
  "skm_DeleteKeyset w keyID =
     (if keyID = [] then (Some ErrEmptyKeyID, w)
      else if fst w keyID = None then (Some ErrKeysetNotFound, w)
      else (None, ((fst w)(keyID := None), snd w)))"

definition skm_Keyset :: "'v skm \<Rightarrow> string \<Rightarrow> (goerr + Keyset) \<times> 'v skm" where
  "skm_Keyset w keyID =
     (if keyID = [] then (Inl ErrEmptyKeyID, w)
      else (case fst w keyID of None \<Rightarrow> (Inl ErrKeysetNotFound, w) | Some ks \<Rightarrow> (Inr ks, w)))"

definition skm_validateParams :: "string \<Rightarrow> string \<Rightarrow> goerr option" where
  "skm_validateParams subscriberID uniqueKeyID =
     (if subscriberID = [] then Some ErrEmptySubscriberID
      else if uniqueKeyID = [] then Some ErrEmptyUniqueKeyID else None)"

definition lookup_query :: "string \<Rightarrow> string \<Rightarrow> Subscription" where
  "lookup_query subscriberID uniqueKeyID =
     \<lparr>SubscriberID = subscriberID, SubURL = [], SubType = [], Domain = [], KeyID = uniqueKeyID,
      SigningPublicKey = [], EncrPublicKey = [], ValidFrom = zero_time, ValidUntil = zero_time, SubStatus = [],
      Created = zero_time, Updated = zero_time, Nonce = [], NetworkMemberships = []\<rparr>"

definition skm_LookupNPKeys ::
  "'v RegistryLookup \<Rightarrow> 'v skm \<Rightarrow> StepContext \<Rightarrow> string \<Rightarrow> string \<Rightarrow> (goerr + string \<times> string) \<times> 'v skm" where
  "skm_LookupNPKeys registry w ctx subscriberID uniqueKeyID =
     (case skm_validateParams subscriberID uniqueKeyID of
        Some e \<Rightarrow> (Inl (NewSignValidationErr codeSignatureInvalid e), w)
      | None \<Rightarrow>
          (case Lookup registry (snd w) ctx (lookup_query subscriberID uniqueKeyID) of
             (Inl e, v) \<Rightarrow> (Inl (errorf_w ''failed to lookup registry: '' e), (fst w, v))
           | (Inr [], v) \<Rightarrow> (Inl (NewSignValidationErr codeSubscriberNotFound ErrSubscriberNotFound), (fst w, v))
           | (Inr (s # _), v) \<Rightarrow>
               if \<not> IsKeyStatusUsable (SubStatus s) then
                 (Inl (NewSignValidationErr codeKeyExpiredOrRevoked ErrKeyExpiredOrRevoked), (fst w, v))
               else (Inr (SigningPublicKey s, EncrPublicKey s), (fst w, v))))"

definition skm_plugin :: "'v KeyGen \<Rightarrow> 'v RegistryLookup \<Rightarrow> 'v skm KeyManager" where
  "skm_plugin g registry =
     \<lparr>GenerateKeyset = skm_GenerateKeyset g, InsertKeyset = skm_InsertKeyset, KeysetOf = skm_Keyset,
      LookupNPKeys = skm_LookupNPKeys registry, DeleteKeyset = skm_DeleteKeyset\<rparr>"

subsection \<open>The contract of a key store\<close>

text \<open>
  What the signing steps rely on: the key manager behaves as a finite map from subscriber ids to key
  sets, the abstraction \<open>stored\<close>.
\<close>

locale keyset_store =
  fixes km :: "'w KeyManager"
    and stored :: "'w \<Rightarrow> string \<rightharpoonup> Keyset"
  assumes keyset_found: "k \<noteq> [] \<Longrightarrow> stored w k = Some ks \<Longrightarrow> KeysetOf km w k = (Inr ks, w)"
    and keyset_missing: "k = [] \<or> stored w k = None \<Longrightarrow> \<exists>e. KeysetOf km w k = (Inl e, w) \<and> \<not> is_panic e"
    and keyset_insert:
      "k \<noteq> [] \<Longrightarrow> fst (InsertKeyset km w k (Some ks)) = None \<and>
         stored (snd (InsertKeyset km w k (Some ks))) = (stored w)(k \<mapsto> ks)"
    and keyset_delete:
      "k \<noteq> [] \<Longrightarrow> stored w k \<noteq> None \<Longrightarrow> fst (DeleteKeyset km w k) = None \<and>
         stored (snd (DeleteKeyset km w k)) = (stored w)(k := None)"
    and lookup_keeps: "stored (snd (LookupNPKeys km w ctx s u)) = stored w"
    and generate_keeps: "stored (snd (GenerateKeyset km w)) = stored w"
begin

lemma insert_get: "k \<noteq> [] \<Longrightarrow> fst (KeysetOf km (snd (InsertKeyset km w k (Some ks))) k) = Inr ks"
  using keyset_insert [of k w ks] keyset_found [of k] by simp

lemma keyset_iff: "fst (KeysetOf km w k) = Inr ks \<longleftrightarrow> k \<noteq> [] \<and> stored w k = Some ks"
  using keyset_found [of k w] keyset_missing [of k w] by (cases "k = [] \<or> stored w k = None") auto

lemma insert_get_other:
  "k \<noteq> [] \<Longrightarrow> k' \<noteq> k \<Longrightarrow>
     fst (KeysetOf km (snd (InsertKeyset km w k (Some ks))) k') = Inr x \<longleftrightarrow> fst (KeysetOf km w k') = Inr x"
  using keyset_insert [of k w ks] by (simp add: keyset_iff)

lemma delete_get:
  assumes "k \<noteq> []" "stored w k \<noteq> None"
  shows "\<exists>e. fst (KeysetOf km (snd (DeleteKeyset km w k)) k) = Inl e"
proof -
  have "stored (snd (DeleteKeyset km w k)) k = None" using keyset_delete [OF assms] by simp
  then show ?thesis using keyset_missing [of k "snd (DeleteKeyset km w k)"] by auto
qed

text \<open>The signing step signs with the key set that was inserted for its subscriber.\<close>

lemma sign_uses_inserted:
  assumes "SubID ctx \<noteq> []" "w1 = snd (InsertKeyset km w (SubID ctx) (Some ks))"
    and "signStep_Run clock signer km None w1 ctx = (None, ctx', w')"
  shows "\<exists>s c e w2 w3. Sign signer w2 (Body ctx) (SigningPrivate ks) c e = (Inr s, w3) \<and>
    header_Get (ReqHeader (ScRequest ctx')) (if ScRole ctx = RoleGateway then AuthHeaderGateway else AuthHeaderSubscriber) =
      generateAuthHeader (SubID ctx) (UniqueKeyID ks) c e s []"
proof -
  have "KeysetOf km w1 (SubID ctx) = (Inr ks, w1)"
    using keyset_insert [OF assms(1), of w ks] keyset_found [OF assms(1)] assms(2) by simp
  then show ?thesis
    using assms(1,3)
    by (auto simp: signStep_Run_def lookupRequestSignature_def set_request_header_def Let_def
        split: prod.splits sum.splits) blast+
qed

end

interpretation simple_km: keyset_store "skm_plugin g registry" fst for g registry
proof (unfold_locales, goal_cases)
  case (1 k w ks)
  then show ?case by (simp add: skm_plugin_def skm_Keyset_def)
next
  case (2 k w)
  then show ?case by (auto simp: skm_plugin_def skm_Keyset_def skm_errors)
next
  case (3 k w ks)
  then show ?case by (simp add: skm_plugin_def skm_InsertKeyset_def)
next
  case (4 k w)
  then show ?case by (simp add: skm_plugin_def skm_DeleteKeyset_def)
next
  case (5 w ctx s u)
  show ?case by (auto simp: skm_plugin_def skm_LookupNPKeys_def split: option.splits prod.splits sum.splits list.splits)
next
  case (6 w)
  show ?case by (auto simp: skm_plugin_def skm_GenerateKeyset_def Let_def split: prod.splits sum.splits)
qed

subsection \<open>Properties\<close>

text \<open>The key manager is a map. After a key set is inserted under a non-empty id, that id yields it and
  every other id yields what it did before; after the deletion of a stored id, that id yields
  an error.\<close>

theorem key_manager_insert_lookup:
  assumes "k \<noteq> []"
  shows "fst (skm_Keyset (snd (skm_InsertKeyset w k (Some ks))) k) = Inr ks \<and>
     (\<forall>k' x. k' \<noteq> k \<longrightarrow> fst (skm_Keyset (snd (skm_InsertKeyset w k (Some ks))) k') = Inr x \<longleftrightarrow>
        fst (skm_Keyset w k') = Inr x) \<and>
     (\<exists>e. fst (skm_Keyset (snd (skm_DeleteKeyset (snd (skm_InsertKeyset w k (Some ks))) k)) k) = Inl e)"
  using simple_km.insert_get [of k undefined undefined w ks] simple_km.insert_get_other [of k _ undefined undefined w ks]
    simple_km.delete_get [of k "snd (skm_InsertKeyset w k (Some ks))" undefined undefined]
    simple_km.keyset_insert [of k undefined undefined w ks] assms
  by (auto simp: skm_plugin_def)

theorem key_manager_insert_lookup_witness:
  "fst (skm_Keyset (snd (skm_InsertKeyset (Map.empty, ()) ''bap'' (Some sample_keyset))) ''bap'') = Inr sample_keyset"
  using key_manager_insert_lookup [of "''bap''" "(Map.empty, ())" sample_keyset] by simp

text \<open>A key configuration is accepted exactly when it is empty or complete.\<close>

theorem ValidateCfg_all_or_nothing:
  "ValidateCfg (Some c) = None \<longleftrightarrow>
     (let fields = [SigningPrivateKey c, SkSigningPublicKey c, EncrPrivateKey c, SkEncrPublicKey c, SkSubscriberID c, SkKeyID c]
      in list_all (\<lambda>f. f = []) fields \<or> list_all (\<lambda>f. f \<noteq> []) fields)"
  by (auto simp: ValidateCfg_def Let_def invalid_config_def required_key_def)

lemma parseKey_b64: "s \<noteq> [] \<Longrightarrow> parseKey pem (b64_encode s) = Inr s"
proof -
  assume "s \<noteq> []"
  have "\<not> HasPrefix (b64_encode s) ''-----BEGIN''"
    using b64_encode_bytes [of s] by (cases "b64_encode s") (auto simp: b64_byte_def)
  then show ?thesis
    using \<open>s \<noteq> []\<close> TrimSpace_graphic [OF b64_encode_graphic [of s]]
    by (simp add: parseKey_def parseBase64Key_def)
qed

text \<open>A configured seed signs. When the configuration holds, in base64, a 32-byte seed and further
  non-empty keys, the new key manager serves under the configured subscriber id a key set
  with the configured key id whose private key makes, together with the public key of that
  seed, a key pair: what it signs verifies.\<close>

theorem configured_key_signs:
  assumes "ed25519_correct C" "length seed = 32"
    and "skm_New pem (Some registry) (Some c) = Inr keysets"
    and "SigningPrivateKey c = b64_encode seed" "SkSubscriberID c \<noteq> []"
  shows "\<exists>ks. fst (KeysetOf (skm_plugin g registry) (keysets, v) (SkSubscriberID c)) = Inr ks \<and>
     UniqueKeyID ks = SkKeyID c \<and> key_pair C (SigningPrivate ks) (b64_encode (ed25519_public C seed))"
proof -
  have valid: "ValidateCfg (Some c) = None" and load: "loadKeysFromConfig pem c Map.empty = Inr keysets"
    using assms(3) by (auto simp: skm_New_def split: option.splits)
  from valid assms(5) have "SigningPrivateKey c \<noteq> []" "SkSigningPublicKey c \<noteq> []" "EncrPrivateKey c \<noteq> []" "SkEncrPublicKey c \<noteq> []"
    by (auto simp: ValidateCfg_def Let_def invalid_config_def required_key_def split: if_splits)
  moreover have "seed \<noteq> []" using assms(2) by auto
  ultimately obtain ks where "keysets = [SkSubscriberID c \<mapsto> ks]" "UniqueKeyID ks = SkKeyID c"
      "SigningPrivate ks = b64_encode seed"
    using load by (auto simp: loadKeysFromConfig_def parse_named_key_def assms(4) parseKey_b64 split: sum.splits)
  with assms(5) key_pair_seed [OF assms(1,2)] show ?thesis
    by (simp add: skm_plugin_def skm_Keyset_def)
qed

definition sample_registry :: "unit RegistryLookup" where
  "sample_registry = \<lparr>Lookup = (\<lambda>v ctx q. (Inr [q\<lparr>SigningPublicKey := b64_encode sample_seed, SubStatus := ''SUBSCRIBED''\<rparr>], v))\<rparr>"

definition sample_skm_config :: SkmConfig where
  "sample_skm_config = \<lparr>SkSubscriberID = ''bap.example.com'', SkKeyID = ''key-1'', SigningPrivateKey = b64_encode sample_seed,
     SkSigningPublicKey = b64_encode sample_seed, EncrPrivateKey = b64_encode sample_seed, SkEncrPublicKey = b64_encode sample_seed\<rparr>"

definition sample_keygen :: "unit KeyGen" where
  "sample_keygen = \<lparr>gen_ed25519 = (\<lambda>v. (Inr (sample_seed, sample_seed), v)), gen_x25519 = (\<lambda>v. (Inr (''p'', ''q''), v)),
     gen_uuid = (\<lambda>v. (Inr ''uuid-1'', v))\<rparr>"

lemma sample_seed_nonempty [simp]: "sample_seed \<noteq> []"
  by (simp add: sample_seed_def)

theorem configured_key_signs_witness:
  "\<exists>keysets ks. skm_New (\<lambda>s. None) (Some sample_registry) (Some sample_skm_config) = Inr keysets \<and>
     fst (KeysetOf (skm_plugin sample_keygen sample_registry) (keysets, ()) ''bap.example.com'') = Inr ks \<and>
     key_pair sample_crypto (SigningPrivate ks) (b64_encode sample_seed)"
proof -
  have valid: "ValidateCfg (Some sample_skm_config) = None"
    by (simp add: ValidateCfg_def sample_skm_config_def)
  obtain keysets where new: "skm_New (\<lambda>s. None) (Some sample_registry) (Some sample_skm_config) = Inr keysets"
    using valid by (simp add: skm_New_def loadKeysFromConfig_def parse_named_key_def sample_skm_config_def parseKey_b64)
  moreover from configured_key_signs [OF sample_crypto_correct sample_seed_length this, of sample_keygen "()"]
  have "\<exists>ks. fst (KeysetOf (skm_plugin sample_keygen sample_registry) (keysets, ()) ''bap.example.com'') = Inr ks \<and>
     key_pair sample_crypto (SigningPrivate ks) (b64_encode sample_seed)"
    by (auto simp: sample_skm_config_def)
  ultimately show ?thesis by blast
qed

text \<open>Key look-up failures are authentication failures. When the validation step cannot get a key
  because an id of the header is empty, the registry knows no such subscriber, or its key is
  expired or revoked, the request is refused with status 401 and the code of that case.\<close>

theorem key_lookup_failures_are_401:
  assumes "parseHeader h = Inr hv" "HAlgorithm hv = ''ed25519''"
    and "validateSign_validate validator (skm_plugin g registry) w ctx h rs chk = (Some e, w')"
    and "Lookup registry (snd w) ctx (lookup_query (HSubscriberID hv) (HUniqueID hv)) = (Inr subs, v)"
    and "HSubscriberID hv = [] \<or> HUniqueID hv = [] \<or> subs = [] \<or> \<not> IsKeyStatusUsable (SubStatus (hd subs))"
  shows "\<exists>be. nackBecknError c e = (be, 401, StatusNACK) \<and>
     Code be = (if HSubscriberID hv = [] \<or> HUniqueID hv = [] then ''AUT_SIGNATURE_INVALID''
                else if subs = [] then ''AUT_SUBSCRIBER_NOT_FOUND'' else ''AUT_KEY_EXPIRED_OR_REVOKED'')"
proof -
  have err: "nackBecknError c (NewSignValidationErr code (ErrText t)) =
      (CodedErr_BecknError code ''Signature Validation Error: '' defaultSignValidationCode (Some (ErrText t)), 401, StatusNACK)"
    for code t
    by (simp add: nackBecknError_def NewSignValidationErr_def as_targets HTTPStatus_def)
  obtain code t w1 where "skm_LookupNPKeys registry w ctx (HSubscriberID hv) (HUniqueID hv) =
        (Inl (NewSignValidationErr code (ErrText t)), w1)"
    and code: "code = (if HSubscriberID hv = [] \<or> HUniqueID hv = [] then ''AUT_SIGNATURE_INVALID''
                else if subs = [] then ''AUT_SUBSCRIBER_NOT_FOUND'' else ''AUT_KEY_EXPIRED_OR_REVOKED'')"
  proof (cases "HSubscriberID hv = [] \<or> HUniqueID hv = []")
    case True
    then obtain t where "skm_validateParams (HSubscriberID hv) (HUniqueID hv) = Some (ErrText t)"
      by (cases "HSubscriberID hv = []") (auto simp: skm_validateParams_def skm_errors)
    with True show ?thesis
      by (intro that [of codeSignatureInvalid t]) (simp_all add: skm_LookupNPKeys_def codeSignatureInvalid_def)
  next
    case False
    then have "skm_validateParams (HSubscriberID hv) (HUniqueID hv) = None"
      by (simp add: skm_validateParams_def)
    with False assms(4,5) show ?thesis
      by (cases subs) (auto simp: skm_LookupNPKeys_def skm_errors codeSubscriberNotFound_def codeKeyExpiredOrRevoked_def
          intro: that)
  qed
  then have "e = errorf_w ''failed to get validation key: '' (NewSignValidationErr code (ErrText t))"
    using assms(1-3) by (simp add: validateSign_validate_def skm_plugin_def)
  then show ?thesis
    using code by (auto simp: err CodedErr_BecknError_def resolveCode_def)
qed

theorem key_lookup_failures_are_401_witness:
  "\<exists>e be. fst (validateSign_validate (validator_plugin sample_crypto 0 (\<lambda>w. (0, w)))
       (skm_plugin sample_keygen (sample_registry\<lparr>Lookup := (\<lambda>v ctx q. (Inr [], v))\<rparr>)) (Map.empty, ()) sample_ctx
       (generateAuthHeader ''a'' ''k'' 0 1 ''s'' []) [] True) = Some e \<and>
     nackBecknError Map.empty e = (be, 401, StatusNACK) \<and> Code be = ''AUT_SUBSCRIBER_NOT_FOUND''"
proof -
  let ?reg = "sample_registry\<lparr>Lookup := (\<lambda>v ctx q. (Inr [], v))\<rparr>"
  let ?h = "generateAuthHeader ''a'' ''k'' 0 1 ''s'' []"
  let ?r = "validateSign_validate (validator_plugin sample_crypto 0 (\<lambda>w. (0, w))) (skm_plugin sample_keygen ?reg)
     (Map.empty, ()) sample_ctx ?h [] True"
  have hv: "parseHeader ?h = Inr \<lparr>HSubscriberID = ''a'', HUniqueID = ''k'', HAlgorithm = ''ed25519''\<rparr>"
    by (rule parseHeader_generated) (simp_all add: clean_id_def graphic_def quote_def)
  have "\<exists>e w'. ?r = (Some e, w')"
    by (simp add: validateSign_validate_def hv skm_plugin_def skm_LookupNPKeys_def skm_validateParams_def)
  then obtain e w' where run: "?r = (Some e, w')" by blast
  have "\<exists>be. nackBecknError Map.empty e = (be, 401, StatusNACK) \<and>
     Code be = (if ''a'' = [] \<or> ''k'' = [] then ''AUT_SIGNATURE_INVALID''
                else if ([] :: Subscription list) = [] then ''AUT_SUBSCRIBER_NOT_FOUND'' else ''AUT_KEY_EXPIRED_OR_REVOKED'')"
    using key_lookup_failures_are_401 [OF hv _ run, of "[]" "()" Map.empty] by simp
  then show ?thesis using run by auto
qed

end
