(* ===== verification/Payload_Store.thy ===== *)
theory Payload_Store
  imports Response Sign_Protocol
begin

text \<open>
  The cache plugin \<open>cache/cache.go\<close> over a Redis client, and the payload store
  \<open>payloadstore/payloadstore.go\<close> on top of a cache: the configuration, the encoding of an entry
  (plain or compressed), the entry written for a request with its policies, the index of a
  transaction, and the look-ups.

  The Redis client, the clock, \<open>time.ParseDuration\<close>, the text form of a time and the gzip
  compression are arguments. Times and durations are nanoseconds.
\<close>

subsection \<open>The cache\<close>

text \<open>The client of \<open>go-redis\<close>; \<^term>\<open>None\<close> is the answer \<open>redis.Nil\<close> for a missing key.\<close>

record 'w RedisClient =
  RGet :: "'w \<Rightarrow> string \<Rightarrow> (goerr + string option) \<times> 'w"
  RSet :: "'w \<Rightarrow> string \<Rightarrow> string \<Rightarrow> int \<Rightarrow> goerr option \<times> 'w"
  RDel :: "'w \<Rightarrow> string \<Rightarrow> goerr option \<times> 'w"
  RFlushDB :: "'w \<Rightarrow> goerr option \<times> 'w"
  RPing :: "'w \<Rightarrow> goerr option \<times> 'w"

record RedisConfig =
  Addr :: string
  UseTLS :: bool

definition cache_validate :: "RedisConfig option \<Rightarrow> goerr option" where
  "cache_validate cfg =
     (case cfg of
        None \<Rightarrow> Some (ErrText ''empty config'')
      | Some c \<Rightarrow>
          if Addr c = [] then Some (ErrText (''missing required field '' @ [CHR 0x27] @ ''Addr'' @ [CHR 0x27]))
          else None)"

definition cache_Get :: "'w RedisClient \<Rightarrow> 'w \<Rightarrow> string \<Rightarrow> (goerr + string) \<times> 'w" where
  "cache_Get client w key =
     (case RGet client w key of
        (Inl e, w1) \<Rightarrow> (Inl e, w1)
      | (Inr None, w1) \<Rightarrow> (Inr [], w1)
      | (Inr (Some v), w1) \<Rightarrow> (Inr v, w1))"

definition cache_Set :: "'w RedisClient \<Rightarrow> 'w \<Rightarrow> string \<Rightarrow> string \<Rightarrow> int \<Rightarrow> goerr option \<times> 'w" where
  "cache_Set client w key v ttl = RSet client w key v ttl"

definition cache_Delete :: "'w RedisClient \<Rightarrow> 'w \<Rightarrow> string \<Rightarrow> goerr option \<times> 'w" where
  "cache_Delete client w key = RDel client w key"

definition cache_Clear :: "'w RedisClient \<Rightarrow> 'w \<Rightarrow> goerr option \<times> 'w" where
  "cache_Clear client w = RFlushDB client w"

definition cache_plugin :: "'w RedisClient \<Rightarrow> 'w Cache" where
  "cache_plugin client =
     \<lparr>CacheGet = cache_Get client, CacheSet = cache_Set client, CacheDelete = cache_Delete client,
      CacheClear = cache_Clear client\<rparr>"

definition cache_New :: "(RedisConfig \<Rightarrow> 'w RedisClient) \<Rightarrow> RedisConfig option \<Rightarrow> 'w \<Rightarrow> (goerr + 'w Cache) \<times> 'w" where
  "cache_New RedisClientFunc cfg w =
     (case cache_validate cfg of
        Some e \<Rightarrow> (Inl e, w)
      | None \<Rightarrow>
          (let client = RedisClientFunc (the cfg) in
           case RPing client w of
             (Some e, w1) \<Rightarrow>
               (Inl (if is_panic e then e else ErrText (''failed to connect to Redis: '' @ error_text e)), w1)
           | (None, w1) \<Rightarrow> (Inr (cache_plugin client), w1)))"

subsection \<open>Configuration of the store\<close>

definition hour :: int where "hour = 3600 * second"
definition defaultTTL :: int where "defaultTTL = 24 * hour"
definition defaultMaxBodyBytes :: int where "defaultMaxBodyBytes = 2 ^ 20"
definition prefixJSON :: string where "prefixJSON = ''j:''"
definition prefixGzip :: string where "prefixGzip = ''c:''"

record PSConfig =
  TTL :: int
  IndexTTL :: int
  MaxBodyBytes :: int
  StoreBody :: bool
  StoreSignature :: bool
  Compress :: bool

definition cfg_get :: "(string \<rightharpoonup> string) \<Rightarrow> string \<Rightarrow> string" where
  "cfg_get cfg k = (case cfg k of None \<Rightarrow> [] | Some v \<Rightarrow> v)"

definition invalid_setting :: "string \<Rightarrow> string \<Rightarrow> string \<Rightarrow> goerr" where
  "invalid_setting k raw call =
     errorf_w (''payloadstore: invalid '' @ k @ '' '' @ go_quote raw @ '': '') (ErrText call)"

text \<open>A boolean setting: its default when absent, an error when unreadable.\<close>

definition bool_setting :: "(string \<rightharpoonup> string) \<Rightarrow> string \<Rightarrow> bool \<Rightarrow> goerr + bool" where
  "bool_setting cfg k dflt =
     (let raw = cfg_get cfg k in
      if raw = [] then Inr dflt
      else (case ParseBool raw of None \<Rightarrow> Inl (invalid_setting k raw ''strconv.ParseBool'') | Some b \<Rightarrow> Inr b))"

definition duration_setting :: "(string \<Rightarrow> int option) \<Rightarrow> (string \<rightharpoonup> string) \<Rightarrow> string \<Rightarrow> int \<Rightarrow> goerr + int" where
  "duration_setting ParseDuration cfg k dflt =
     (let raw = cfg_get cfg k in
      if raw = [] then Inr dflt
      else (case ParseDuration raw of None \<Rightarrow> Inl (invalid_setting k raw ''time.ParseDuration'') | Some d \<Rightarrow> Inr d))"

definition max_body_setting :: "(string \<rightharpoonup> string) \<Rightarrow> goerr + int" where
  "max_body_setting cfg =
     (let raw = cfg_get cfg ''maxBodyBytes'' in
      if raw = [] then Inr defaultMaxBodyBytes
      else (case ParseInt64 raw of
          None \<Rightarrow> Inl (invalid_setting ''maxBodyBytes'' raw ''strconv.ParseInt'')
        | Some n \<Rightarrow>
            if n < 0 then Inl (ErrText (''payloadstore: maxBodyBytes must be >= 0, got '' @ int_dec n))
            else Inr n))"

definition ParseConfig ::
  "(string \<Rightarrow> int option) \<Rightarrow> (int \<Rightarrow> string) \<Rightarrow> (string \<rightharpoonup> string) \<Rightarrow> goerr + PSConfig" where
  "ParseConfig ParseDuration duration_text cfg =
     (case duration_setting ParseDuration cfg ''ttl'' defaultTTL of
        Inl e \<Rightarrow> Inl e
      | Inr ttl \<Rightarrow>
          if ttl \<le> 0 then Inl (ErrText ''payloadstore: ttl must be positive'')
          else
            (case duration_setting ParseDuration cfg ''indexTTL'' (wrap64 (ttl + hour)) of
               Inl e \<Rightarrow> Inl e
             | Inr indexTTL \<Rightarrow>
                 if indexTTL < ttl then
                   Inl (ErrText (''payloadstore: indexTTL ('' @ duration_text indexTTL @ '') must be >= ttl ('' @
                     duration_text ttl @ '')''))
                 else
                   (case max_body_setting cfg of
                      Inl e \<Rightarrow> Inl e
                    | Inr maxBodyBytes \<Rightarrow>
                        (case bool_setting cfg ''storeBody'' True of
                           Inl e \<Rightarrow> Inl e
                         | Inr storeBody \<Rightarrow>
                             (case bool_setting cfg ''storeSignature'' True of
                                Inl e \<Rightarrow> Inl e
                              | Inr storeSignature \<Rightarrow>
                                  (case bool_setting cfg ''compress'' False of
                                     Inl e \<Rightarrow> Inl e
                                   | Inr compress \<Rightarrow>
                                       Inr \<lparr>TTL = ttl, IndexTTL = indexTTL, MaxBodyBytes = maxBodyBytes,
                                            StoreBody = storeBody, StoreSignature = storeSignature,
                                            Compress = compress\<rparr>))))))"

subsection \<open>Keys and entries\<close>

definition msgKey :: "string \<Rightarrow> string \<Rightarrow> string" where
  "msgKey namespace messageID = ''payload:'' @ namespace @ '':msg:'' @ messageID"

definition txnIndexKey :: "string \<Rightarrow> string \<Rightarrow> string" where
  "txnIndexKey namespace transactionID = ''payload:'' @ namespace @ '':txn:'' @ transactionID @ '':index''"

text \<open>The Go library functions of the encoding: the JSON text of a time, and gzip.\<close>

record Codec =
  time_text :: "int \<Rightarrow> string option"
  time_parse :: "string \<Rightarrow> int option"
  gzip :: "string \<Rightarrow> string"
  gunzip :: "string \<Rightarrow> string option"

definition entry_json :: "PayloadEntry \<Rightarrow> string \<Rightarrow> string \<Rightarrow> json" where
  "entry_json e stored expires =
     JObj [(''MessageID'', JStr (EMessageID e)), (''TransactionID'', JStr (ETransactionID e)),
       (''NetworkID'', JStr (ENetworkID e)), (''Action'', JStr (EAction e)),
       (''SubscriberID'', JStr (ESubscriberID e)), (''Role'', JStr (ERole e)),
       (''RequestBody'', case ERequestBody e of None \<Rightarrow> JNull | Some b \<Rightarrow> JStr (b64_encode b)),
       (''Signature'', JStr (ESignature e)), (''StoredAt'', JStr stored), (''ExpiresAt'', JStr expires)]"

definition marshalEntry :: "Codec \<Rightarrow> PayloadEntry \<Rightarrow> bool \<Rightarrow> goerr + string" where
  "marshalEntry C entry compress =
     (case (time_text C (EStoredAt entry), time_text C (EExpiresAt entry)) of
        (Some s, Some x) \<Rightarrow>
          (let data = json_encode (entry_json entry s x)
           in Inr (if compress then prefixGzip @ b64_encode (gzip C data) else prefixJSON @ data))
      | _ \<Rightarrow> Inl (errorf_w ''payloadstore: marshal entry: '' (ErrText ''json.Marshal'')))"

text \<open>The zero value of an entry; the zero time is the start of the year 1.\<close>

definition zero_entry :: PayloadEntry where
  "zero_entry = \<lparr>EMessageID = [], ETransactionID = [], ENetworkID = [], EAction = [], ESubscriberID = [], ERole = [],
     ERequestBody = None, ESignature = [], EStoredAt = - (unixToInternal * second), EExpiresAt = - (unixToInternal * second)\<rparr>"

text \<open>
  Decoding into \<open>[]byte\<close>: a base64 string, \<open>null\<close> for nil, or an array of numbers below 256, in which
  \<open>null\<close> stands for a zero byte. The outer \<^term>\<open>None\<close> is a decoding error.
\<close>

definition decode_byte :: "json \<Rightarrow> char option" where
  "decode_byte v =
     (case v of
        JNull \<Rightarrow> Some (CHR 0x00)
      | JNum s \<Rightarrow> if list_all is_digit s \<and> dec_val s < 256 then Some (char_of (dec_val s)) else None
      | _ \<Rightarrow> None)"

definition decode_bytes :: "json \<Rightarrow> string option option" where
  "decode_bytes v =
     (case v of
        JNull \<Rightarrow> Some None
      | JStr s \<Rightarrow> map_option Some (b64_decode s)
      | JArr vs \<Rightarrow> (if list_all (\<lambda>x. decode_byte x \<noteq> None) vs then Some (Some (map (\<lambda>x. the (decode_byte x)) vs)) else None)
      | _ \<Rightarrow> None)"

text \<open>
  One member of the JSON object decoded into the entry; \<^term>\<open>None\<close> is a decoding error, which is
  sticky.
\<close>

definition set_string :: "json \<Rightarrow> (string \<Rightarrow> PayloadEntry) \<Rightarrow> PayloadEntry \<Rightarrow> PayloadEntry option" where
  "set_string v upd e = (case v of JNull \<Rightarrow> Some e | JStr s \<Rightarrow> Some (upd s) | _ \<Rightarrow> None)"

definition decode_entry_member :: "Codec \<Rightarrow> PayloadEntry option \<Rightarrow> string \<times> json \<Rightarrow> PayloadEntry option" where
  "decode_entry_member C acc kv =
     (case acc of
        None \<Rightarrow> None
      | Some e \<Rightarrow>
          (let k = fst kv; v = snd kv in
           if field_match ''MessageID'' k then set_string v (\<lambda>s. e\<lparr>EMessageID := s\<rparr>) e
           else if field_match ''TransactionID'' k then set_string v (\<lambda>s. e\<lparr>ETransactionID := s\<rparr>) e
           else if field_match ''NetworkID'' k then set_string v (\<lambda>s. e\<lparr>ENetworkID := s\<rparr>) e
           else if field_match ''Action'' k then set_string v (\<lambda>s. e\<lparr>EAction := s\<rparr>) e
           else if field_match ''SubscriberID'' k then set_string v (\<lambda>s. e\<lparr>ESubscriberID := s\<rparr>) e
           else if field_match ''Role'' k then set_string v (\<lambda>s. e\<lparr>ERole := s\<rparr>) e
           else if field_match ''RequestBody'' k then
             map_option (\<lambda>b. e\<lparr>ERequestBody := b\<rparr>) (decode_bytes v)
           else if field_match ''Signature'' k then set_string v (\<lambda>s. e\<lparr>ESignature := s\<rparr>) e
           else if field_match ''StoredAt'' k then
             (case v of JNull \<Rightarrow> Some e | JStr s \<Rightarrow> map_option (\<lambda>t. e\<lparr>EStoredAt := t\<rparr>) (time_parse C s) | _ \<Rightarrow> None)
           else if field_match ''ExpiresAt'' k then
             (case v of JNull \<Rightarrow> Some e | JStr s \<Rightarrow> map_option (\<lambda>t. e\<lparr>EExpiresAt := t\<rparr>) (time_parse C s) | _ \<Rightarrow> None)
           else Some e))"

definition decode_entry :: "Codec \<Rightarrow> string \<Rightarrow> goerr + PayloadEntry" where
  "decode_entry C data =
     (let bad = Inl (errorf_w ''payloadstore: unmarshal entry: '' (ErrText ''json.Unmarshal'')) in
      case json_decode data of
        Some (JObj kvs) \<Rightarrow>
          (case foldl (decode_entry_member C) (Some zero_entry) kvs of Some e \<Rightarrow> Inr e | None \<Rightarrow> bad)
      | Some JNull \<Rightarrow> Inr zero_entry
      | _ \<Rightarrow> bad)"

definition unmarshalEntry :: "Codec \<Rightarrow> string \<Rightarrow> goerr + PayloadEntry" where
  "unmarshalEntry C raw =
     (if length raw > 2 \<and> take 2 raw = prefixGzip then
        (case b64_decode (drop 2 raw) of
           None \<Rightarrow> Inl (errorf_w ''payloadstore: base64 decode: '' (ErrText ''base64.DecodeString''))
         | Some decoded \<Rightarrow>
             (case gunzip C decoded of
                None \<Rightarrow> Inl (errorf_w ''payloadstore: gzip read: '' (ErrText ''gzip''))
              | Some data \<Rightarrow> decode_entry C data))
      else if length raw > 2 \<and> take 2 raw = prefixJSON then decode_entry C (drop 2 raw)
      else decode_entry C raw)"

record becknCtxFields =
  BMessageID :: string
  BTransactionID :: string
  BNetworkID :: string
  BAction :: string

definition parseBecknCtx :: "string \<Rightarrow> becknCtxFields" where
  "parseBecknCtx body =
     (case context_map_field body of
        Some (Some (m # ms)) \<Rightarrow>
          (let c = m # ms in
           \<lparr>BMessageID = first_string c [''message_id'', ''messageId''],
            BTransactionID = first_string c [''transaction_id'', ''transactionId''],
            BNetworkID = first_string c [''network_id'', ''networkId''],
            BAction = first_string c [''action'']\<rparr>)
      | _ \<Rightarrow> \<lparr>BMessageID = [], BTransactionID = [], BNetworkID = [], BAction = []\<rparr>)"

subsection \<open>The store\<close>

record 'w payload_store =
  PsCache :: "'w Cache"
  PsConfig :: PSConfig
  PsNamespace :: string
  PsCodec :: Codec
  PsClock :: "'w clock"

definition store_New ::
  "(string \<Rightarrow> int option) \<Rightarrow> (int \<Rightarrow> string) \<Rightarrow> Codec \<Rightarrow> 'w clock \<Rightarrow> 'w Cache option \<Rightarrow> string \<Rightarrow> (string \<rightharpoonup> string) \<Rightarrow>
     goerr + 'w payload_store" where
  "store_New ParseDuration duration_text C clock cache namespace cfg =
     (case cache of
        None \<Rightarrow> Inl (ErrText ''payloadstore: cache cannot be nil'')
      | Some c \<Rightarrow>
          if namespace = [] then Inl (ErrText ''payloadstore: namespace cannot be empty'')
          else
            (case ParseConfig ParseDuration duration_text cfg of
               Inl e \<Rightarrow> Inl e
             | Inr config \<Rightarrow>
                 Inr \<lparr>PsCache = c, PsConfig = config, PsNamespace = namespace, PsCodec = C, PsClock = clock\<rparr>))"

definition store_Exists :: "'w payload_store \<Rightarrow> 'w \<Rightarrow> string \<Rightarrow> (goerr + bool) \<times> 'w" where
  "store_Exists s w messageID =
     (case CacheGet (PsCache s) w (msgKey (PsNamespace s) messageID) of
        (Inl e, w1) \<Rightarrow> (Inl e, w1)
      | (Inr raw, w1) \<Rightarrow> (Inr (raw \<noteq> []), w1))"

text \<open>Decoding an index into \<open>[]string\<close>.\<close>

definition decode_ids :: "string \<Rightarrow> string list option" where
  "decode_ids raw =
     (case json_decode raw of
        Some (JArr vs) \<Rightarrow>
          (if list_all (\<lambda>v. case v of JStr _ \<Rightarrow> True | JNull \<Rightarrow> True | _ \<Rightarrow> False) vs
           then Some (map (\<lambda>v. case v of JStr s \<Rightarrow> s | _ \<Rightarrow> []) vs) else None)
      | Some JNull \<Rightarrow> Some []
      | _ \<Rightarrow> None)"

definition encode_ids :: "string list \<Rightarrow> string" where
  "encode_ids ids = json_encode (JArr (map JStr ids))"

definition appendToIndex :: "'w payload_store \<Rightarrow> 'w \<Rightarrow> string \<Rightarrow> string \<Rightarrow> goerr option \<times> 'w" where
  "appendToIndex s w transactionID messageID =
     (let key = txnIndexKey (PsNamespace s) transactionID;
          (r, w1) = CacheGet (PsCache s) w key
      in case r of
           Inl e \<Rightarrow>
             if is_panic e then (Some e, w1)
             else
               (case CacheSet (PsCache s) w1 key (encode_ids [messageID]) (IndexTTL (PsConfig s)) of
                  (Some e, w2) \<Rightarrow> (Some (errorf_w ''payloadstore: set index key: '' e), w2)
                | (None, w2) \<Rightarrow> (None, w2))
         | Inr raw \<Rightarrow>
             (let ids = (if raw = [] then [] else (case decode_ids raw of Some ids \<Rightarrow> ids | None \<Rightarrow> [])) in
              if messageID \<in> set ids then (None, w1)
              else
                (case CacheSet (PsCache s) w1 key (encode_ids (ids @ [messageID])) (IndexTTL (PsConfig s)) of
                   (Some e, w2) \<Rightarrow> (Some (errorf_w ''payloadstore: set index key: '' e), w2)
                 | (None, w2) \<Rightarrow> (None, w2))))"

text \<open>The policies of \<open>persist\<close> on the entry, before it is written.\<close>

definition apply_policies :: "PSConfig \<Rightarrow> PayloadEntry \<Rightarrow> PayloadEntry" where
  "apply_policies c e =
     (let e1 = (if StoreBody c then e else e\<lparr>ERequestBody := None\<rparr>);
          e2 = (if StoreSignature c then e1 else e1\<lparr>ESignature := []\<rparr>)
      in case ERequestBody e2 of
           Some b \<Rightarrow>
             if MaxBodyBytes c > 0 \<and> int (length b) > MaxBodyBytes c
             then e2\<lparr>ERequestBody := Some (take (nat (MaxBodyBytes c)) b)\<rparr> else e2
         | None \<Rightarrow> e2)"

definition persist :: "'w payload_store \<Rightarrow> 'w \<Rightarrow> PayloadEntry \<Rightarrow> goerr option \<times> 'w" where
  "persist s w entry0 =
     (let c = PsConfig s;
          (now, w1) = PsClock s w;
          entry = (apply_policies c entry0)\<lparr>EStoredAt := now, EExpiresAt := now + TTL c\<rparr>
      in case marshalEntry (PsCodec s) entry (Compress c) of
           Inl e \<Rightarrow> (Some e, w1)
         | Inr serialized \<Rightarrow>
             (case CacheSet (PsCache s) w1 (msgKey (PsNamespace s) (EMessageID entry)) serialized (TTL c) of
                (Some e, w2) \<Rightarrow> (Some (errorf_w ''payloadstore: set msg key: '' e), w2)
              | (None, w2) \<Rightarrow>
                  if ETransactionID entry = [] then (None, w2)
                  else appendToIndex s w2 (ETransactionID entry) (EMessageID entry)))"

definition request_entry :: "StepContext \<Rightarrow> PayloadEntry" where
  "request_entry ctx =
     (let b = parseBecknCtx (Body ctx)
      in zero_entry\<lparr>EMessageID := BMessageID b, ETransactionID := BTransactionID b, ENetworkID := BNetworkID b,
           EAction := BAction b, ESubscriberID := SubID ctx, ERole := ScRole ctx, ERequestBody := Some (Body ctx),
           ESignature := header_Get (ReqHeader (ScRequest ctx)) AuthHeaderSubscriber\<rparr>)"

definition store_Store :: "'w payload_store \<Rightarrow> 'w \<Rightarrow> StepContext \<Rightarrow> goerr option \<times> 'w" where
  "store_Store s w ctx =
     (let b = parseBecknCtx (Body ctx) in
      if BMessageID b = [] then (None, w)
      else
        (case store_Exists s w (BMessageID b) of
           (Inl e, w1) \<Rightarrow> if is_panic e then (Some e, w1) else persist s w1 (request_entry ctx)
         | (Inr exists, w1) \<Rightarrow> persist s w1 (request_entry ctx)))"

text \<open>The loop of \<open>GetByTransactionID\<close>: what cannot be read is skipped.\<close>

fun read_entries :: "'w payload_store \<Rightarrow> 'w \<Rightarrow> string list \<Rightarrow> (goerr + PayloadEntry list) \<times> 'w" where
  "read_entries s w [] = (Inr [], w)"
| "read_entries s w (i # is) =
     (case CacheGet (PsCache s) w (msgKey (PsNamespace s) i) of
        (Inl e, w1) \<Rightarrow> if is_panic e then (Inl e, w1) else read_entries s w1 is
      | (Inr raw, w1) \<Rightarrow>
          if raw = [] then read_entries s w1 is
          else (case unmarshalEntry (PsCodec s) raw of
              Inl _ \<Rightarrow> read_entries s w1 is
            | Inr entry \<Rightarrow>
                (case read_entries s w1 is of
                   (Inl e, w2) \<Rightarrow> (Inl e, w2)
                 | (Inr es, w2) \<Rightarrow> (Inr (entry # es), w2))))"

definition store_GetByTransactionID :: "'w payload_store \<Rightarrow> 'w \<Rightarrow> string \<Rightarrow> (goerr + PayloadEntry list) \<times> 'w" where
  "store_GetByTransactionID s w transactionID =
     (case CacheGet (PsCache s) w (txnIndexKey (PsNamespace s) transactionID) of
        (Inl e, w1) \<Rightarrow> (if is_panic e then Inl e else Inr [], w1)
      | (Inr raw, w1) \<Rightarrow>
          if raw = [] then (Inr [], w1)
          else (case decode_ids raw of None \<Rightarrow> (Inr [], w1) | Some ids \<Rightarrow> read_entries s w1 ids))"

definition store_GetByMessageID ::
  "'w payload_store \<Rightarrow> 'w \<Rightarrow> string \<Rightarrow> string \<Rightarrow> (goerr + PayloadEntry option) \<times> 'w" where
  "store_GetByMessageID s w messageID action =
     (case CacheGet (PsCache s) w (msgKey (PsNamespace s) messageID) of
        (Inl e, w1) \<Rightarrow> (if is_panic e then Inl e else Inr None, w1)
      | (Inr raw, w1) \<Rightarrow>
          if raw = [] then (Inr None, w1)
          else (case unmarshalEntry (PsCodec s) raw of
              Inl e \<Rightarrow> (Inl e, w1)
            | Inr entry \<Rightarrow>
                if action \<noteq> [] \<and> EAction entry \<noteq> action then (Inr None, w1) else (Inr (Some entry), w1)))"

definition store_plugin :: "'w payload_store \<Rightarrow> 'w PayloadStore" where
  "store_plugin s =
     \<lparr>PSStore = store_Store s, PSGetByTransactionID = store_GetByTransactionID s,
      PSGetByMessageID = store_GetByMessageID s, PSExists = store_Exists s\<rparr>"

subsection \<open>Documented behaviour of the services\<close>

text \<open>
  A Redis server that answers: \<open>live\<close> is the value a key has now. Reading does not change it, and a
  set with a positive time to live replaces the value of its key only.
\<close>

definition redis_behaves :: "'w RedisClient \<Rightarrow> ('w \<Rightarrow> string \<rightharpoonup> string) \<Rightarrow> bool" where
  "redis_behaves R live \<longleftrightarrow>
     (\<forall>w k. RGet R w k = (Inr (live w k), w)) \<and>
     (\<forall>w k v ttl. ttl > 0 \<longrightarrow> fst (RSet R w k v ttl) = None \<and> live (snd (RSet R w k v ttl)) = (live w)(k \<mapsto> v))"

text \<open>The Go library reads back what it wrote: a time in its text form, and compressed data.\<close>

definition codec_reads_back :: "Codec \<Rightarrow> bool" where
  "codec_reads_back C \<longleftrightarrow>
     (\<forall>t s. time_text C t = Some s \<longrightarrow> ascii s \<and> time_parse C s = Some t) \<and>
     (\<forall>d. gunzip C (gzip C d) = Some d) \<and> (\<forall>d. d \<noteq> [] \<longrightarrow> gzip C d \<noteq> [])"

lemma cache_plugin_get:
  "redis_behaves R live \<Longrightarrow>
     CacheGet (cache_plugin R) w k = (Inr (case live w k of Some v \<Rightarrow> v | None \<Rightarrow> []), w)"
  by (auto simp: cache_plugin_def cache_Get_def redis_behaves_def split: option.splits)

lemma cache_plugin_set:
  "redis_behaves R live \<Longrightarrow> ttl > 0 \<Longrightarrow>
     \<exists>w'. CacheSet (cache_plugin R) w k v ttl = (None, w') \<and> live w' = (live w)(k \<mapsto> v)"
  by (auto simp: cache_plugin_def cache_Set_def redis_behaves_def prod_eq_iff)

subsection \<open>Encoding\<close>

definition entry_ascii :: "PayloadEntry \<Rightarrow> bool" where
  "entry_ascii e \<longleftrightarrow> ascii (EMessageID e) \<and> ascii (ETransactionID e) \<and> ascii (ENetworkID e) \<and> ascii (EAction e) \<and>
     ascii (ESubscriberID e) \<and> ascii (ERole e) \<and> ascii (ESignature e)"

lemma decode_entry_members:
  "decode_entry_member C (Some e) (''MessageID'', JStr s) = Some (e\<lparr>EMessageID := s\<rparr>)"
  "decode_entry_member C (Some e) (''TransactionID'', JStr s) = Some (e\<lparr>ETransactionID := s\<rparr>)"
  "decode_entry_member C (Some e) (''NetworkID'', JStr s) = Some (e\<lparr>ENetworkID := s\<rparr>)"
  "decode_entry_member C (Some e) (''Action'', JStr s) = Some (e\<lparr>EAction := s\<rparr>)"
  "decode_entry_member C (Some e) (''SubscriberID'', JStr s) = Some (e\<lparr>ESubscriberID := s\<rparr>)"
  "decode_entry_member C (Some e) (''Role'', JStr s) = Some (e\<lparr>ERole := s\<rparr>)"
  "decode_entry_member C (Some e) (''RequestBody'', JNull) = Some (e\<lparr>ERequestBody := None\<rparr>)"
  "decode_entry_member C (Some e) (''RequestBody'', JStr (b64_encode b)) = Some (e\<lparr>ERequestBody := Some b\<rparr>)"
  "decode_entry_member C (Some e) (''Signature'', JStr s) = Some (e\<lparr>ESignature := s\<rparr>)"
  "time_parse C s = Some t \<Longrightarrow> decode_entry_member C (Some e) (''StoredAt'', JStr s) = Some (e\<lparr>EStoredAt := t\<rparr>)"
  "time_parse C s = Some t \<Longrightarrow> decode_entry_member C (Some e) (''ExpiresAt'', JStr s) = Some (e\<lparr>EExpiresAt := t\<rparr>)"
  by (simp_all add: decode_entry_member_def set_string_def decode_bytes_def field_match_def in_range_def)

lemma ascii_b64: "ascii (b64_encode b)"
  using b64_encode_graphic [of b] by (auto simp: ascii_def list_all_iff graphic_def)

lemma decode_entry_json:
  assumes "entry_ascii e" and "ascii s" "time_parse C s = Some (EStoredAt e)"
    and "ascii x" "time_parse C x = Some (EExpiresAt e)"
  shows "decode_entry C (json_encode (entry_json e s x)) = Inr e"
proof -
  have wf: "json_wf (entry_json e s x)"
    using assms by (simp add: entry_json_def entry_ascii_def ascii_b64 split: option.splits)
  have "json_depth (entry_json e s x) \<le> max_depth"
    by (simp add: entry_json_def max_depth_def split: option.splits)
  then have dec: "json_decode (json_encode (entry_json e s x)) = Some (entry_json e s x)"
    using wf by (rule json_decode_encode [rotated])
  show ?thesis
    by (cases "ERequestBody e"; simp add: decode_entry_def dec) (simp_all add: entry_json_def decode_entry_members assms)
qed

lemma unmarshal_marshal:
  assumes "codec_reads_back C" and "entry_ascii e" and m: "marshalEntry C e compress = Inr raw"
  shows "unmarshalEntry C raw = Inr e" and "raw \<noteq> []"
proof -
  obtain s x where t: "time_text C (EStoredAt e) = Some s" "time_text C (EExpiresAt e) = Some x"
    using m by (auto simp: marshalEntry_def split: option.splits)
  have dec: "decode_entry C (json_encode (entry_json e s x)) = Inr e"
    using assms(1,2) t by (intro decode_entry_json) (auto simp: codec_reads_back_def)
  have ne: "json_encode (entry_json e s x) \<noteq> []"
    by (simp add: entry_json_def)
  then have "gzip C (json_encode (entry_json e s x)) \<noteq> []" and g: "gunzip C (gzip C d) = Some d" for d
    using assms(1) by (simp_all add: codec_reads_back_def)
  then show "unmarshalEntry C raw = Inr e" "raw \<noteq> []"
    using m t dec ne
    by (auto simp: marshalEntry_def unmarshalEntry_def prefixGzip_def prefixJSON_def Let_def split: if_splits)
qed

subsection \<open>What the store holds\<close>

text \<open>
  The abstract view of a store over a Redis server: the entry under a message id, and the message ids
  of a transaction, both read off the live keys.
\<close>

definition find_entry :: "'w payload_store \<Rightarrow> ('w \<Rightarrow> string \<rightharpoonup> string) \<Rightarrow> 'w \<Rightarrow> string \<rightharpoonup> PayloadEntry" where
  "find_entry s live w m =
     (case live w (msgKey (PsNamespace s) m) of
        None \<Rightarrow> None
      | Some raw \<Rightarrow>
          if raw = [] then None
          else (case unmarshalEntry (PsCodec s) raw of Inl _ \<Rightarrow> None | Inr e \<Rightarrow> Some e))"

definition index_ids :: "'w payload_store \<Rightarrow> ('w \<Rightarrow> string \<rightharpoonup> string) \<Rightarrow> 'w \<Rightarrow> string \<Rightarrow> string list" where
  "index_ids s live w t =
     (case live w (txnIndexKey (PsNamespace s) t) of
        None \<Rightarrow> []
      | Some raw \<Rightarrow> if raw = [] then [] else (case decode_ids raw of None \<Rightarrow> [] | Some ids \<Rightarrow> ids))"

text \<open>
  A store whose cache is a Redis server that answers, with a positive time to live, and whose clock
  does not write to the server.
\<close>

definition store_over :: "'w payload_store \<Rightarrow> 'w RedisClient \<Rightarrow> ('w \<Rightarrow> string \<rightharpoonup> string) \<Rightarrow> bool" where
  "store_over s R live \<longleftrightarrow>
     PsCache s = cache_plugin R \<and> redis_behaves R live \<and> codec_reads_back (PsCodec s) \<and>
     0 < TTL (PsConfig s) \<and> 0 < IndexTTL (PsConfig s) \<and> (\<forall>w. live (snd (PsClock s w)) = live w)"

text \<open>
  The invariant: every entry can be read, and every index holds distinct ids that JSON leaves as they
  are.
\<close>

definition store_inv :: "'w payload_store \<Rightarrow> ('w \<Rightarrow> string \<rightharpoonup> string) \<Rightarrow> 'w \<Rightarrow> bool" where
  "store_inv s live w \<longleftrightarrow>
     (\<forall>m raw. live w (msgKey (PsNamespace s) m) = Some raw \<longrightarrow>
        raw = [] \<or> (\<exists>e. unmarshalEntry (PsCodec s) raw = Inr e)) \<and>
     (\<forall>t. distinct (index_ids s live w t) \<and> list_all ascii (index_ids s live w t))"

text \<open>The entry a store writes for a request, and when it can be written.\<close>

definition stored_entry :: "'w payload_store \<Rightarrow> 'w \<Rightarrow> StepContext \<Rightarrow> PayloadEntry" where
  "stored_entry s w ctx =
     (let now = fst (PsClock s w)
      in (apply_policies (PsConfig s) (request_entry ctx))\<lparr>EStoredAt := now, EExpiresAt := now + TTL (PsConfig s)\<rparr>)"

definition storable :: "'w payload_store \<Rightarrow> 'w \<Rightarrow> StepContext \<Rightarrow> bool" where
  "storable s w ctx \<longleftrightarrow>
     EMessageID (request_entry ctx) \<noteq> [] \<and> entry_ascii (request_entry ctx) \<and>
     time_text (PsCodec s) (EStoredAt (stored_entry s w ctx)) \<noteq> None \<and>
     time_text (PsCodec s) (EExpiresAt (stored_entry s w ctx)) \<noteq> None"

lemma keys_apart [simp]:
  "msgKey ns a \<noteq> txnIndexKey ns b" "txnIndexKey ns b \<noteq> msgKey ns a"
  "msgKey ns a = msgKey ns b \<longleftrightarrow> a = b" "txnIndexKey ns a = txnIndexKey ns b \<longleftrightarrow> a = b"
  by (simp_all add: msgKey_def txnIndexKey_def)

lemma policies_keep [simp]:
  "EMessageID (apply_policies c e) = EMessageID e" "ETransactionID (apply_policies c e) = ETransactionID e"
  "ENetworkID (apply_policies c e) = ENetworkID e" "EAction (apply_policies c e) = EAction e"
  "ESubscriberID (apply_policies c e) = ESubscriberID e" "ERole (apply_policies c e) = ERole e"
  "ESignature (apply_policies c e) = (if StoreSignature c then ESignature e else [])"
  by (auto simp: apply_policies_def Let_def split: option.splits)

lemma stored_entry_keeps [simp]:
  "EMessageID (stored_entry s w ctx) = EMessageID (request_entry ctx)"
  "ETransactionID (stored_entry s w ctx) = ETransactionID (request_entry ctx)"
  "EAction (stored_entry s w ctx) = EAction (request_entry ctx)"
  "ESignature (stored_entry s w ctx) = (if StoreSignature (PsConfig s) then ESignature (request_entry ctx) else [])"
  by (simp_all add: stored_entry_def Let_def)

lemma decode_encode_ids: "list_all ascii ids \<Longrightarrow> decode_ids (encode_ids ids) = Some ids"
  and encode_ids_nonempty: "encode_ids ids \<noteq> []"
proof -
  have d: "json_depth (JArr (map JStr ids)) \<le> max_depth"
    by (induction ids) (simp_all add: max_depth_def)
  show "decode_ids (encode_ids ids) = Some ids" if "list_all ascii ids"
    using json_decode_encode [OF _ d] that
    by (simp add: decode_ids_def encode_ids_def list_all_iff comp_def)
  show "encode_ids ids \<noteq> []" by (simp add: encode_ids_def)
qed

subsection \<open>Refinement\<close>

lemma cache_get: "store_over s R live \<Longrightarrow>
    CacheGet (PsCache s) w k = (Inr (case live w k of Some v \<Rightarrow> v | None \<Rightarrow> []), w)"
  by (simp add: store_over_def cache_plugin_get)

lemma cache_set:
  assumes "store_over s R live" and "0 < ttl"
  obtains w' where "CacheSet (PsCache s) w k v ttl = (None, w')" "live w' = (live w)(k \<mapsto> v)"
  using assms cache_plugin_set [of R live ttl w k v] by (auto simp: store_over_def)

definition add_id :: "string \<Rightarrow> string list \<Rightarrow> string list" where
  "add_id m ids = (if m \<in> set ids then ids else ids @ [m])"

lemma appendToIndex_refines:
  assumes over: "store_over s R live" and ids: "list_all ascii (index_ids s live w t)" and m: "ascii m"
  obtains w' where "appendToIndex s w t m = (None, w')"
    and "\<And>i. live w' (msgKey (PsNamespace s) i) = live w (msgKey (PsNamespace s) i)"
    and "index_ids s live w' = (index_ids s live w)(t := add_id m (index_ids s live w t))"
proof -
  let ?k = "txnIndexKey (PsNamespace s) t" and ?ids = "index_ids s live w t"
  obtain w1 where set: "CacheSet (PsCache s) w ?k (encode_ids (?ids @ [m])) (IndexTTL (PsConfig s)) = (None, w1)"
    and live: "live w1 = (live w)(?k \<mapsto> encode_ids (?ids @ [m]))"
    using cache_set [OF over, of "IndexTTL (PsConfig s)"] over by (metis store_over_def)
  have read: "(let raw = (case live w ?k of Some v \<Rightarrow> v | None \<Rightarrow> [])
      in if raw = [] then [] else (case decode_ids raw of Some ids \<Rightarrow> ids | None \<Rightarrow> [])) = ?ids"
    by (auto simp: index_ids_def split: option.splits)
  show ?thesis
  proof (cases "m \<in> set ?ids")
    case True
    with that [of w] show ?thesis
      using read by (simp add: appendToIndex_def cache_get [OF over] add_id_def Let_def)
  next
    case False
    have "index_ids s live w1 = (index_ids s live w)(t := ?ids @ [m])"
      using decode_encode_ids [of "?ids @ [m]"] ids m encode_ids_nonempty [of "?ids @ [m]"]
      by (auto simp: fun_eq_iff index_ids_def live)
    with that [of w1] False show ?thesis
      using read set live by (simp add: appendToIndex_def cache_get [OF over] add_id_def Let_def)
  qed
qed

lemma entry_ascii_stored: "entry_ascii (request_entry ctx) \<Longrightarrow> entry_ascii (stored_entry s w ctx)"
  by (simp add: entry_ascii_def stored_entry_def Let_def)

definition index_after :: "string \<Rightarrow> string \<Rightarrow> (string \<Rightarrow> string list) \<Rightarrow> string \<Rightarrow> string list" where
  "index_after t m idx = (if t = [] then idx else idx(t := add_id m (idx t)))"

lemma store_inv_stored:
  assumes "store_inv s live w" and "ascii m"
    and "\<And>i. live w' (msgKey (PsNamespace s) i) = ((live w)(msgKey (PsNamespace s) m \<mapsto> raw)) (msgKey (PsNamespace s) i)"
    and "unmarshalEntry (PsCodec s) raw = Inr e"
    and "index_ids s live w' = index_after t m (index_ids s live w)"
  shows "store_inv s live w'"
  using assms by (auto simp: store_inv_def index_after_def add_id_def split: if_splits)

lemma store_refines:
  assumes over: "store_over s R live" and inv: "store_inv s live w" and st: "storable s w ctx"
  defines "e \<equiv> stored_entry s w ctx"
  obtains w' where "store_Store s w ctx = (None, w')" and "store_inv s live w'"
    and "find_entry s live w' = (find_entry s live w)(EMessageID e \<mapsto> e)"
    and "index_ids s live w' = index_after (ETransactionID e) (EMessageID e) (index_ids s live w)"
proof -
  let ?c = "PsConfig s" and ?m = "EMessageID e" and ?t = "ETransactionID e"
  let ?w1 = "snd (PsClock s w)"
  have asc: "entry_ascii e" and ne: "BMessageID (parseBecknCtx (Body ctx)) \<noteq> []"
    using st by (simp_all add: e_def storable_def entry_ascii_stored request_entry_def Let_def)
  obtain raw where raw: "marshalEntry (PsCodec s) e (Compress ?c) = Inr raw"
    using st by (auto simp: marshalEntry_def storable_def e_def Let_def)
  have un: "unmarshalEntry (PsCodec s) raw = Inr e" "raw \<noteq> []"
    using over unmarshal_marshal [OF _ asc raw] by (simp_all add: store_over_def)
  obtain w2 where set: "CacheSet (PsCache s) ?w1 (msgKey (PsNamespace s) ?m) raw (TTL ?c) = (None, w2)"
    and live2: "live w2 = (live w)(msgKey (PsNamespace s) ?m \<mapsto> raw)"
    using cache_set [OF over, of "TTL ?c" ?w1] over by (metis store_over_def)
  have idx2: "index_ids s live w2 = index_ids s live w"
    by (simp add: fun_eq_iff index_ids_def live2)
  obtain w3 where w3: "(if ?t = [] then (None, w2) else appendToIndex s w2 ?t ?m) = (None, w3)"
    and live3: "\<And>i. live w3 (msgKey (PsNamespace s) i) = live w2 (msgKey (PsNamespace s) i)"
    and idx3: "index_ids s live w3 = index_after ?t ?m (index_ids s live w)"
  proof (cases "?t = []")
    case True
    with that [of w2] show ?thesis by (simp add: idx2 index_after_def)
  next
    case False
    have "list_all ascii (index_ids s live w2 ?t)" "ascii ?m"
      using inv asc by (simp_all add: idx2 store_inv_def entry_ascii_def)
    from appendToIndex_refines [OF over this] obtain w3 where "appendToIndex s w2 ?t ?m = (None, w3)"
      "\<And>i. live w3 (msgKey (PsNamespace s) i) = live w2 (msgKey (PsNamespace s) i)"
      "index_ids s live w3 = (index_ids s live w2)(?t := add_id ?m (index_ids s live w2 ?t))"
      by blast
    with that [of w3] False show ?thesis by (simp add: idx2 index_after_def)
  qed
  have "store_Store s w ctx = (None, w3)"
    using ne w3 set raw
    by (simp add: store_Store_def store_Exists_def cache_get [OF over] persist_def Let_def split_beta
        e_def stored_entry_def split: if_splits)
  moreover have "store_inv s live w3"
    using store_inv_stored [OF inv _ _ un(1) idx3] asc live3 by (simp add: live2 entry_ascii_def)
  moreover have "find_entry s live w3 = (find_entry s live w)(?m \<mapsto> e)"
    using un by (auto simp: fun_eq_iff find_entry_def live3 live2)
  ultimately show ?thesis using idx3 by (rule that)
qed

lemma get_refines:
  assumes "store_over s R live" and "store_inv s live w"
  shows "store_GetByMessageID s w m a =
    (Inr (case find_entry s live w m of None \<Rightarrow> None
          | Some e \<Rightarrow> if a \<noteq> [] \<and> EAction e \<noteq> a then None else Some e), w)"
  using assms(2) cache_get [OF assms(1)]
  by (fastforce simp: store_GetByMessageID_def find_entry_def store_inv_def split: option.splits sum.splits)

lemma read_entries_refines:
  assumes "store_over s R live"
  shows "read_entries s w is = (Inr (List.map_filter (find_entry s live w) is), w)"
  by (induction "is") (auto simp: cache_get [OF assms] find_entry_def map_filter_simps split: option.splits sum.splits)

lemma transaction_refines:
  assumes "store_over s R live"
  shows "store_GetByTransactionID s w t = (Inr (List.map_filter (find_entry s live w) (index_ids s live w t)), w)"
  by (auto simp: store_GetByTransactionID_def cache_get [OF assms] index_ids_def read_entries_refines [OF assms]
      map_filter_simps split: option.splits)

subsection \<open>The contract of a payload store\<close>

text \<open>
  What the sign and validate steps rely on: the store holds at most one entry per message id, a
  look-up filters it by action, and storing a request replaces the entry of its message id only.
\<close>

locale message_store =
  fixes ps :: "'w PayloadStore"
    and ok :: "'w \<Rightarrow> bool"
    and held :: "'w \<Rightarrow> string \<rightharpoonup> PayloadEntry"
    and writable :: "'w \<Rightarrow> StepContext \<Rightarrow> bool"
    and written :: "'w \<Rightarrow> StepContext \<Rightarrow> PayloadEntry"
  assumes get_held: "ok w \<Longrightarrow> PSGetByMessageID ps w m a =
      (Inr (case held w m of None \<Rightarrow> None | Some e \<Rightarrow> if a \<noteq> [] \<and> EAction e \<noteq> a then None else Some e), w)"
    and store_held: "ok w \<Longrightarrow> writable w ctx \<Longrightarrow>
      \<exists>w'. PSStore ps w ctx = (None, w') \<and> ok w' \<and>
        held w' = (held w)(EMessageID (written w ctx) \<mapsto> written w ctx)"
begin

lemma callback_signature:
  assumes "ok w" and "IsAtLeastV2 (ProtocolVersion ctx)" and "authHeaderIncludesRequestSig h"
    and a: "TrimPrefix (extractBecknAction (Body ctx)) ''on_'' = a" "a \<noteq> []"
  shows "held w (MessageID ctx) = Some e \<Longrightarrow> EAction e = a \<Longrightarrow>
      lookupCallbackRequestSig (Some ps) w ctx h = (Inr (ESignature e), w)"
    and "held w (MessageID ctx) = None \<or> EAction (the (held w (MessageID ctx))) \<noteq> a \<Longrightarrow>
      \<exists>err. lookupCallbackRequestSig (Some ps) w ctx h = (Inl err, w) \<and> \<not> is_panic err"
  using assms by (auto simp: lookupCallbackRequestSig_def get_held is_panic_def split: option.splits)

lemma callback_iff:
  assumes "ok w" and "IsAtLeastV2 (ProtocolVersion ctx)" and "authHeaderIncludesRequestSig h"
    and "TrimPrefix (extractBecknAction (Body ctx)) ''on_'' = a" "a \<noteq> []"
  shows "fst (lookupCallbackRequestSig (Some ps) w ctx h) = Inr sig \<longleftrightarrow>
    (\<exists>e. held w (MessageID ctx) = Some e \<and> EAction e = a \<and> ESignature e = sig)"
  using callback_signature [OF assms]
  by (cases "held w (MessageID ctx)") force+

lemma stored_then_found:
  assumes "ok w" and "writable w ctx"
  shows "\<exists>w'. PSStore ps w ctx = (None, w') \<and> ok w' \<and>
    PSGetByMessageID ps w' (EMessageID (written w ctx)) (EAction (written w ctx)) = (Inr (Some (written w ctx)), w') \<and>
    (\<forall>m a. m \<noteq> EMessageID (written w ctx) \<longrightarrow>
       fst (PSGetByMessageID ps w' m a) = fst (PSGetByMessageID ps w m a))"
  using store_held [OF assms] assms(1) by (auto simp: get_held)

lemma other_action_hidden:
  assumes "ok w" and "writable w ctx" and "a \<noteq> []" "EAction (written w ctx) \<noteq> a"
  shows "\<exists>w'. PSStore ps w ctx = (None, w') \<and> ok w' \<and>
    PSGetByMessageID ps w' (EMessageID (written w ctx)) a = (Inr None, w')"
  using store_held [OF assms(1,2)] assms(3,4) by (auto simp: get_held)

end

interpretation redis_store: message_store "store_plugin s" "\<lambda>w. store_over s R live \<and> store_inv s live w"
    "find_entry s live" "storable s" "stored_entry s" for s R live
proof (unfold_locales, goal_cases)
  case (1 w m a)
  then show ?case by (simp add: store_plugin_def get_refines [of s R live w])
next
  case (2 w ctx)
  then show ?case using store_refines [of s R live w ctx] by (auto simp: store_plugin_def)
qed

subsection \<open>A sample store\<close>

text \<open>An in-memory server that keeps every key, and a codec that writes a time in decimal.\<close>

definition memory_redis :: "(string \<rightharpoonup> string) RedisClient" where
  "memory_redis =
     \<lparr>RGet = \<lambda>w k. (Inr (w k), w), RSet = \<lambda>w k v ttl. (None, w(k \<mapsto> v)), RDel = \<lambda>w k. (None, w(k := None)),
      RFlushDB = \<lambda>w. (None, Map.empty), RPing = \<lambda>w. (None, w)\<rparr>"

definition decimal_codec :: Codec where
  "decimal_codec =
     \<lparr>time_text = \<lambda>t. if int64 t then Some (int_dec t) else None, time_parse = ParseInt64,
      gzip = \<lambda>d. d, gunzip = Some\<rparr>"

definition sample_pstore :: "(string \<rightharpoonup> string) payload_store" where
  "sample_pstore =
     \<lparr>PsCache = cache_plugin memory_redis,
      PsConfig = \<lparr>TTL = defaultTTL, IndexTTL = defaultTTL + hour, MaxBodyBytes = defaultMaxBodyBytes,
        StoreBody = True, StoreSignature = True, Compress = False\<rparr>,
      PsNamespace = ''onix'', PsCodec = decimal_codec, PsClock = \<lambda>w. (5 * second, w)\<rparr>"

definition sample_search :: StepContext where
  "sample_search = sample_ctx\<lparr>Body := ''{\"context\":{\"message_id\":\"m1\",\"transaction_id\":\"t1\",\"action\":\"search\"}}'',
     ScRequest := sample_request\<lparr>ReqHeader := [AuthHeaderSubscriber \<mapsto> ''Signature s1'']\<rparr>\<rparr>"

definition sample_on_search :: StepContext where
  "sample_on_search = sample_ctx\<lparr>Body := ''{\"context\":{\"message_id\":\"m1\",\"transaction_id\":\"t1\",\"action\":\"on_search\"}}'',
     ScRequest := sample_request\<lparr>ReqHeader := [AuthHeaderSubscriber \<mapsto> ''Signature s2'']\<rparr>\<rparr>"

lemma memory_redis_behaves: "redis_behaves memory_redis (\<lambda>w. w)"
  by (simp add: redis_behaves_def memory_redis_def)

lemma ascii_int_dec: "ascii (int_dec t)"
  using int_dec_graphic [of t] by (auto simp: ascii_def list_all_iff graphic_def)

lemma decimal_codec_reads_back: "codec_reads_back decimal_codec"
  by (auto simp: codec_reads_back_def decimal_codec_def int64_def ascii_int_dec ParseInt64_int_dec split: if_splits)

lemma sample_pstore_over: "store_over sample_pstore memory_redis (\<lambda>w. w)"
  by (simp add: store_over_def sample_pstore_def memory_redis_behaves decimal_codec_reads_back
      defaultTTL_def hour_def second_def)

lemma sample_pstore_inv: "store_inv sample_pstore (\<lambda>w. w) Map.empty"
  by (simp add: store_inv_def index_ids_def)

lemma sample_search_storable: "storable sample_pstore w sample_search" "storable sample_pstore w sample_on_search"
  "EAction (request_entry sample_search) = ''search''" "EAction (request_entry sample_on_search) = ''on_search''"
  "EMessageID (request_entry sample_search) = ''m1''" "EMessageID (request_entry sample_on_search) = ''m1''"
  "ESignature (request_entry sample_search) = ''Signature s1''"
proof -
  have p: "request_entry sample_search = zero_entry\<lparr>EMessageID := ''m1'', ETransactionID := ''t1'', EAction := ''search'',
      ESubscriberID := ''bap.example.com'', ERole := RoleBAP, ERequestBody := Some (Body sample_search),
      ESignature := ''Signature s1''\<rparr>"
    by code_simp
  have q: "request_entry sample_on_search = zero_entry\<lparr>EMessageID := ''m1'', ETransactionID := ''t1'', EAction := ''on_search'',
      ESubscriberID := ''bap.example.com'', ERole := RoleBAP, ERequestBody := Some (Body sample_on_search),
      ESignature := ''Signature s2''\<rparr>"
    by code_simp
  show "storable sample_pstore w sample_search" "storable sample_pstore w sample_on_search"
    by (simp_all add: storable_def p q zero_entry_def entry_ascii_def stored_entry_def sample_pstore_def decimal_codec_def
        int64_def defaultTTL_def hour_def second_def role_defs)
  show "EAction (request_entry sample_search) = ''search''" "EAction (request_entry sample_on_search) = ''on_search''"
    "EMessageID (request_entry sample_search) = ''m1''" "EMessageID (request_entry sample_on_search) = ''m1''"
    "ESignature (request_entry sample_search) = ''Signature s1''"
    by (simp_all add: p q)
qed

definition sample_ack_header :: string where
  "sample_ack_header = ''Signature keyId=\"k\",headers=\"(created) (expires) digest (request-signature)\"''"

lemma sample_callback:
  "IsAtLeastV2 (ProtocolVersion sample_on_search)" "authHeaderIncludesRequestSig sample_ack_header"
  "MessageID sample_on_search = ''m1''"
  "TrimPrefix (extractBecknAction (Body sample_on_search)) ''on_'' = ''search''"
  by code_simp+

subsection \<open>Properties\<close>

text \<open>What the payload store writes for an entry, plain or compressed, is read back as the same entry:
  the prefix selects the decoder, the body survives its Base64 form, and both times are kept.\<close>

theorem entry_encoding_roundtrip:
  assumes "codec_reads_back C" and "entry_ascii e" and "marshalEntry C e compress = Inr raw"
  shows "unmarshalEntry C raw = Inr e"
  using assms by (rule unmarshal_marshal)

theorem entry_encoding_roundtrip_witness:
  "\<exists>raw. marshalEntry decimal_codec (stored_entry sample_pstore Map.empty sample_search) True = Inr raw \<and>
     unmarshalEntry decimal_codec raw = Inr (stored_entry sample_pstore Map.empty sample_search)"
proof -
  have "entry_ascii (stored_entry sample_pstore Map.empty sample_search)"
    using sample_search_storable(1) by (simp add: storable_def entry_ascii_stored)
  moreover obtain raw where "marshalEntry decimal_codec (stored_entry sample_pstore Map.empty sample_search) True = Inr raw"
    using sample_search_storable(1) [of Map.empty]
    by (auto simp: marshalEntry_def storable_def sample_pstore_def [THEN arg_cong, of PsCodec])
  ultimately show ?thesis using entry_encoding_roundtrip [OF decimal_codec_reads_back] by blast
qed

text \<open>C10: The payload store refines a pair of abstract maps, from message ids to entries and from
  transactions to their message ids: storing a request succeeds, keeps the invariant, replaces the
  entry of its message id and no other, and adds the id once to the index of its transaction; the
  look-up by transaction lists the entries of that index in order.\<close>

theorem payload_store_refines:
  assumes "store_over s R live" and "store_inv s live w" and "storable s w ctx"
  shows "\<exists>w'. store_Store s w ctx = (None, w') \<and> store_inv s live w' \<and>
    find_entry s live w' = (find_entry s live w)(EMessageID (request_entry ctx) \<mapsto> stored_entry s w ctx) \<and>
    index_ids s live w' = index_after (ETransactionID (request_entry ctx)) (EMessageID (request_entry ctx)) (index_ids s live w) \<and>
    (\<forall>t. store_GetByTransactionID s w' t =
       (Inr (List.map_filter (find_entry s live w') (index_ids s live w' t)), w'))"
  using store_refines [OF assms] transaction_refines [OF assms(1)] by (metis stored_entry_keeps(1,2))

theorem payload_store_refines_witness:
  "\<exists>w'. store_Store sample_pstore Map.empty sample_search = (None, w') \<and>
     find_entry sample_pstore (\<lambda>w. w) w' ''m1'' = Some (stored_entry sample_pstore Map.empty sample_search)"
  using payload_store_refines [OF sample_pstore_over sample_pstore_inv sample_search_storable(1)]
  by (auto simp: sample_search_storable)



text \<open>Storing a request makes its signature available to its callback: after \<open>Store\<close>, the look-up for
  the message id and action of the request returns the \<open>Authorization\<close> header it was sent with, and
  entries of other message ids are untouched.\<close>

theorem stored_request_found:
  assumes "store_over s R live" and "store_inv s live w" and "storable s w ctx" and "StoreSignature (PsConfig s)"
  shows "\<exists>w' e. store_Store s w ctx = (None, w') \<and>
    store_GetByMessageID s w' (EMessageID (request_entry ctx)) (EAction (request_entry ctx)) = (Inr (Some e), w') \<and>
    ESignature e = header_Get (ReqHeader (ScRequest ctx)) AuthHeaderSubscriber \<and>
    (\<forall>m a. m \<noteq> EMessageID (request_entry ctx) \<longrightarrow>
       fst (store_GetByMessageID s w' m a) = fst (store_GetByMessageID s w m a))"
proof -
  have "ESignature (request_entry ctx) = header_Get (ReqHeader (ScRequest ctx)) AuthHeaderSubscriber"
    by (simp add: request_entry_def Let_def)
  then show ?thesis
    using redis_store.stored_then_found [of s R live w ctx] assms by (fastforce simp: store_plugin_def)
qed

theorem stored_request_found_witness:
  "\<exists>w' e. store_Store sample_pstore Map.empty sample_search = (None, w') \<and>
     store_GetByMessageID sample_pstore w' ''m1'' ''search'' = (Inr (Some e), w') \<and> ESignature e = ''Signature s1''"
proof -
  have "StoreSignature (PsConfig sample_pstore)" by (simp add: sample_pstore_def)
  then show ?thesis
    using stored_request_found [OF sample_pstore_over sample_pstore_inv sample_search_storable(1)]
      sample_search_storable by (auto simp: sample_search_def)
qed

text \<open>The store keeps one entry per message id whatever its action: storing a message with the id of an
  earlier request and another action hides the request, so that a later callback to it is
  refused.\<close>

theorem same_id_hides_request:
  assumes "store_over s R live" and "store_inv s live w" and "storable s w ctx"
    and "IsAtLeastV2 (ProtocolVersion cb)" and "authHeaderIncludesRequestSig h"
    and "MessageID cb = EMessageID (request_entry ctx)"
    and "TrimPrefix (extractBecknAction (Body cb)) ''on_'' \<notin> {[], EAction (request_entry ctx)}"
  shows "\<exists>w' err. store_Store s w ctx = (None, w') \<and>
    lookupCallbackRequestSig (Some (store_plugin s)) w' cb h = (Inl err, w')"
proof -
  obtain w' where w': "store_Store s w ctx = (None, w')" "store_inv s live w'"
    "find_entry s live w' = (find_entry s live w)(EMessageID (request_entry ctx) \<mapsto> stored_entry s w ctx)"
    using store_refines [OF assms(1-3)] by auto
  then show ?thesis
    using redis_store.callback_signature(2) [of s R live w' cb h] assms by fastforce
qed

theorem same_id_hides_request_witness:
  "\<exists>w' err. store_Store sample_pstore Map.empty sample_on_search = (None, w') \<and>
    lookupCallbackRequestSig (Some (store_plugin sample_pstore)) w' sample_on_search sample_ack_header = (Inl err, w')"
  using same_id_hides_request [OF sample_pstore_over sample_pstore_inv sample_search_storable(2), of sample_on_search sample_ack_header]
  by (simp add: sample_callback sample_search_storable)

text \<open>A configuration the payload store accepts has a positive time to live, an index that lives at
  least as long as its entries, and no negative body limit.\<close>

theorem ParseConfig_bounds:
  assumes "ParseConfig pd dt cfg = Inr c"
  shows "0 < TTL c \<and> TTL c \<le> IndexTTL c \<and> 0 \<le> MaxBodyBytes c"
  using assms
  by (auto simp: ParseConfig_def max_body_setting_def Let_def defaultMaxBodyBytes_def split: sum.splits if_splits option.splits)

theorem ParseConfig_bounds_witness:
  "\<exists>c. ParseConfig (\<lambda>_. None) int_dec Map.empty = Inr c \<and> 0 < TTL c \<and> TTL c \<le> IndexTTL c \<and> 0 \<le> MaxBodyBytes c"
proof -
  obtain c where "ParseConfig (\<lambda>_. None) int_dec Map.empty = Inr c"
    by (simp add: ParseConfig_def duration_setting_def cfg_get_def max_body_setting_def bool_setting_def Let_def
        defaultTTL_def hour_def second_def wrap64_def)
  with ParseConfig_bounds show ?thesis by blast
qed

text \<open>
  The store reads \<open>message_id\<close> first, the handler only \<open>messageId\<close>: a message that uses the former is
  stored under an id that no callback context carries.
\<close>

lemma snake_case_id_unmatched:
  "BMessageID (parseBecknCtx (Body sample_search)) = ''m1'' \<and> extractMessageID (Body sample_search) = []"
  by code_simp

end
