(* ===== verification/Crawler_Queue.thy ===== *)
theory Crawler_Queue
  imports Beckn_Model "HOL-Library.AList" "HOL-Library.Multiset"
begin

text \<open>
  The Postgres store of the catalog crawler, \<open>catalogcrawler/internal/store\<close>: the work queue of
  \<open>queue.go\<close>, the catalog cursors of \<open>cursor.go\<close>, the index cursors of \<open>indexstate.go\<close> and the status
  query of \<open>statusquery.go\<close>. Every SQL statement of the source is a function on the tables. A table
  is a list of rows, in the order a scan meets them. \<open>now()\<close> and the fresh uuids are arguments, and
  so is the error the database may answer a statement with. Times and intervals are microseconds.

  The columns \<open>from_version\<close>, \<open>to_version\<close> and \<open>entry_version\<close> of the queue, and the columns of the
  index that the source calls unused, are never read and left out.
\<close>

subsection \<open>Tables\<close>

text \<open>A \<open>timestamptz\<close> that may be \<open>infinity\<close>, with the order of Postgres.\<close>

datatype timestamptz = At int | PgInfinity

instantiation timestamptz :: linorder
begin

fun less_eq_timestamptz :: "timestamptz \<Rightarrow> timestamptz \<Rightarrow> bool" where
  "less_eq_timestamptz (At a) (At b) \<longleftrightarrow> a \<le> b"
| "less_eq_timestamptz _ PgInfinity \<longleftrightarrow> True"
| "less_eq_timestamptz PgInfinity (At b) \<longleftrightarrow> False"

definition less_timestamptz :: "timestamptz \<Rightarrow> timestamptz \<Rightarrow> bool" where
  "less_timestamptz a b \<longleftrightarrow> a \<le> b \<and> \<not> b \<le> a"

instance
proof
  fix x y z :: timestamptz
  show "x < y \<longleftrightarrow> x \<le> y \<and> \<not> y \<le> x" by (rule less_timestamptz_def)
  show "x \<le> x" by (cases x) auto
  show "x \<le> y \<Longrightarrow> y \<le> z \<Longrightarrow> x \<le> z" by (cases x; cases y; cases z) auto
  show "x \<le> y \<Longrightarrow> y \<le> x \<Longrightarrow> x = y" by (cases x; cases y) auto
  show "x \<le> y \<or> y \<le> x" by (cases x; cases y) auto
qed

end

datatype queue_status = Queued | InProgress | Failed | Parked | Abandoned

record queue_row =
  QId :: string
  QCatalogId :: string
  QIndexUrl :: string
  QOp :: string
  QStatus :: queue_status
  QAttempts :: int
  QNextAttemptAt :: timestamptz
  QClaimedAt :: "int option"
  QClaimId :: "string option"
  QEnqueuedAt :: int
  QParkCount :: int
  QParkedAt :: "int option"
  QAbandonedAt :: "int option"

record catalog_row =
  CIndexUrl :: string
  CParticipantId :: "string option"
  CVersion :: "int option"
  CEntryVersion :: "int option"
  CRetired :: bool
  CReason :: "string option"
  CDescriptor :: "string option"
  CProvider :: "string option"
  CCatalogType :: "string option"
  CUpdatedAt :: int

record index_row =
  IParticipantId :: "string option"
  IETag :: "string option"
  ILastModified :: "string option"
  IUpdatedAt :: int

record Store =
  crawler_queue :: "queue_row list"
  crawler_catalog :: "(string \<times> catalog_row) list"
  crawler_index :: "(string \<times> index_row) list"

text \<open>The values of the crawl manager that the store reads and writes.\<close>

record QueueItem =
  ItemCatalogID :: string
  ItemIndexURL :: string
  ItemOp :: string

record ClaimedItem =
  ClID :: string
  ClClaimID :: string
  ClCatalogID :: string
  ClIndexURL :: string
  ClOp :: string
  ClAttempts :: int
  ClParticipantID :: string

record CatalogCursor =
  CurCatalogID :: string
  CurIndexURL :: string
  CurParticipantID :: string
  CurVersion :: int
  CurEntryVersion :: int
  CurRetired :: bool
  CurDescriptor :: string
  CurProvider :: string
  CurCatalogType :: string

record AbandonedCatalog =
  AbCatalogID :: string
  AbIndexURL :: string
  AbParticipantID :: string
  AbParkCount :: int
  AbLastError :: string
  AbAbandonedAt :: "int option"

text \<open>\<open>nullStr\<close> and \<open>nullBytes\<close> of \<open>scan.go\<close>, and reading a nullable string.\<close>

definition nullStr :: "string \<Rightarrow> string option" where
  "nullStr s = (if s = [] then None else Some s)"

definition null_string :: "string option \<Rightarrow> string" where
  "null_string v = (case v of None \<Rightarrow> [] | Some s \<Rightarrow> s)"

definition coalesce :: "'a option \<Rightarrow> 'a option \<Rightarrow> 'a option" where
  "coalesce a b = (case a of None \<Rightarrow> b | Some x \<Rightarrow> Some x)"

subsection \<open>The work queue\<close>

definition claimLease :: int where
  "claimLease = 15 * 60 * 1000000"

definition fresh_row :: "int \<Rightarrow> string \<Rightarrow> QueueItem \<Rightarrow> string \<Rightarrow> queue_row" where
  "fresh_row now uuid item op =
     \<lparr>QId = uuid, QCatalogId = ItemCatalogID item, QIndexUrl = ItemIndexURL item, QOp = op, QStatus = Queued,
      QAttempts = 0, QNextAttemptAt = At now, QClaimedAt = None, QClaimId = None, QEnqueuedAt = now,
      QParkCount = 0, QParkedAt = None, QAbandonedAt = None\<rparr>"

definition coalesce_row :: "int \<Rightarrow> QueueItem \<Rightarrow> string \<Rightarrow> queue_row \<Rightarrow> queue_row" where
  "coalesce_row now item op r =
     (let r1 = r\<lparr>QIndexUrl := ItemIndexURL item, QOp := op\<rparr> in
      if QClaimedAt r = None
      then r1\<lparr>QStatus := Queued, QAttempts := 0, QNextAttemptAt := At now, QParkedAt := None, QAbandonedAt := None\<rparr>
      else r1)"

definition upsert_queue :: "int \<Rightarrow> string \<Rightarrow> QueueItem \<Rightarrow> string \<Rightarrow> queue_row list \<Rightarrow> queue_row list" where
  "upsert_queue now uuid item op q =
     (if \<exists>r \<in> set q. QCatalogId r = ItemCatalogID item
      then map (\<lambda>r. if QCatalogId r = ItemCatalogID item then coalesce_row now item op r else r) q
      else q @ [fresh_row now uuid item op])"

definition Enqueue :: "goerr option \<Rightarrow> string \<Rightarrow> int \<Rightarrow> string \<Rightarrow> QueueItem \<Rightarrow> Store \<Rightarrow> goerr option \<times> Store" where
  "Enqueue err OpSync now uuid item s =
     (let op = (if ItemOp item = [] then OpSync else ItemOp item) in
      case err of
        Some e \<Rightarrow> (Some (errorf_w ''store: Enqueue: '' e), s)
      | None \<Rightarrow>
          if op \<notin> {''sync'', ''retire''} then
            (Some (errorf_w ''store: Enqueue: '' (ErrText ''crawler_queue_op_check'')), s)
          else (None, s\<lparr>crawler_queue := upsert_queue now uuid item op (crawler_queue s)\<rparr>))"

text \<open>
  The candidates of the claim: unclaimed or past the lease, and due. \<open>locked\<close> are the rows other
  transactions hold, which the statement skips.
\<close>

definition ready :: "int \<Rightarrow> queue_row \<Rightarrow> bool" where
  "ready now r \<longleftrightarrow>
     (case QClaimedAt r of None \<Rightarrow> True | Some t \<Rightarrow> t < now - claimLease) \<and> QNextAttemptAt r \<le> At now"

fun first_due :: "queue_row list \<Rightarrow> queue_row option" where
  "first_due [] = None"
| "first_due (r # rs) =
     (case first_due rs of
        None \<Rightarrow> Some r
      | Some r' \<Rightarrow> if QNextAttemptAt r \<le> QNextAttemptAt r' then Some r else Some r')"

definition index_participant :: "Store \<Rightarrow> string \<Rightarrow> string" where
  "index_participant s url =
     (case map_of (crawler_index s) url of None \<Rightarrow> [] | Some i \<Rightarrow> null_string (IParticipantId i))"

definition claim_row :: "int \<Rightarrow> string \<Rightarrow> queue_row \<Rightarrow> queue_row" where
  "claim_row now uuid r = r\<lparr>QClaimedAt := Some now, QStatus := InProgress, QClaimId := Some uuid\<rparr>"

definition ClaimNext ::
  "goerr option \<Rightarrow> int \<Rightarrow> string \<Rightarrow> (queue_row \<Rightarrow> bool) \<Rightarrow> Store \<Rightarrow> (goerr + ClaimedItem option) \<times> Store" where
  "ClaimNext err now uuid locked s =
     (case err of
        Some e \<Rightarrow> (Inl (errorf_w ''store: ClaimNext: '' e), s)
      | None \<Rightarrow>
          (case first_due (filter (\<lambda>r. ready now r \<and> \<not> locked r) (crawler_queue s)) of
             None \<Rightarrow> (Inr None, s)
           | Some r \<Rightarrow>
               (Inr (Some \<lparr>ClID = QId r, ClClaimID = uuid, ClCatalogID = QCatalogId r, ClIndexURL = QIndexUrl r,
                    ClOp = QOp r, ClAttempts = QAttempts r, ClParticipantID = index_participant s (QIndexUrl r)\<rparr>),
                s\<lparr>crawler_queue := map (\<lambda>q. if QId q = QId r then claim_row now uuid q else q) (crawler_queue s)\<rparr>)))"

text \<open>The rows a settling statement matches: the id and the claim of the holder.\<close>

definition claimed_by :: "string \<Rightarrow> string \<Rightarrow> queue_row \<Rightarrow> bool" where
  "claimed_by i claimID r \<longleftrightarrow> QId r = i \<and> QClaimId r = Some claimID"

definition release_row :: "timestamptz \<Rightarrow> queue_row \<Rightarrow> queue_row" where
  "release_row next r =
     r\<lparr>QAttempts := QAttempts r + 1, QNextAttemptAt := next, QClaimedAt := None, QClaimId := None, QStatus := Queued\<rparr>"

definition Reschedule :: "goerr option \<Rightarrow> string \<Rightarrow> string \<Rightarrow> timestamptz \<Rightarrow> Store \<Rightarrow> goerr option \<times> Store" where
  "Reschedule err i claimID nextAttemptAt s =
     (case err of
        Some e \<Rightarrow> (Some (errorf_w ''store: Reschedule: '' e), s)
      | None \<Rightarrow>
          (None, s\<lparr>crawler_queue := map (\<lambda>r. if claimed_by i claimID r then release_row nextAttemptAt r else r) (crawler_queue s)\<rparr>))"

definition park_row :: "int \<Rightarrow> queue_row \<Rightarrow> queue_row" where
  "park_row now r =
     r\<lparr>QAttempts := QAttempts r + 1, QClaimedAt := None, QClaimId := None, QStatus := Parked,
       QNextAttemptAt := PgInfinity, QParkCount := QParkCount r + 1, QParkedAt := Some now\<rparr>"

definition Park :: "goerr option \<Rightarrow> int \<Rightarrow> string \<Rightarrow> string \<Rightarrow> Store \<Rightarrow> goerr option \<times> Store" where
  "Park err now i claimID s =
     (case err of
        Some e \<Rightarrow> (Some (errorf_w ''store: Park: '' e), s)
      | None \<Rightarrow>
          (None, s\<lparr>crawler_queue := map (\<lambda>r. if claimed_by i claimID r then park_row now r else r) (crawler_queue s)\<rparr>))"

definition parked_since :: "int \<Rightarrow> int \<Rightarrow> queue_row \<Rightarrow> bool" where
  "parked_since now olderThan r \<longleftrightarrow>
     QStatus r = Parked \<and> (case QParkedAt r of None \<Rightarrow> False | Some t \<Rightarrow> t \<le> now - olderThan)"

definition revive_row :: "int \<Rightarrow> queue_row \<Rightarrow> queue_row" where
  "revive_row now r = r\<lparr>QStatus := Queued, QAttempts := 0, QNextAttemptAt := At now, QParkedAt := None\<rparr>"

definition abandon_row :: "int \<Rightarrow> queue_row \<Rightarrow> queue_row" where
  "abandon_row now r = r\<lparr>QStatus := Abandoned, QAbandonedAt := Some now\<rparr>"

text \<open>An \<open>UPDATE\<close> with its number of affected rows.\<close>

definition update_where :: "('r \<Rightarrow> bool) \<Rightarrow> ('r \<Rightarrow> 'r) \<Rightarrow> 'r list \<Rightarrow> 'r list \<times> nat" where
  "update_where P f rs = (map (\<lambda>r. if P r then f r else r) rs, length (filter P rs))"

text \<open>The two statements may fail, or the driver may fail to report the affected rows.\<close>

definition RequeueOrAbandonParked ::
  "(goerr option \<times> goerr option) \<times> (goerr option \<times> goerr option) \<Rightarrow> int \<Rightarrow> int \<Rightarrow> int \<Rightarrow> int \<Rightarrow> Store \<Rightarrow>
     (nat \<times> nat \<times> goerr option) \<times> Store" where
  "RequeueOrAbandonParked errs now1 now2 olderThan maxParkCount s =
     (let rev_err = (\<lambda>e. Some (errorf_w ''store: RequeueOrAbandonParked: reviving: '' e));
          ab_err = (\<lambda>e. Some (errorf_w ''store: RequeueOrAbandonParked: abandoning: '' e))
      in case fst (fst errs) of
           Some e \<Rightarrow> ((0, 0, rev_err e), s)
         | None \<Rightarrow>
             (let (q1, n1) = update_where (\<lambda>r. parked_since now1 olderThan r \<and> QParkCount r \<le> maxParkCount)
                               (revive_row now1) (crawler_queue s);
                  s1 = s\<lparr>crawler_queue := q1\<rparr>
              in case snd (fst errs) of
                   Some e \<Rightarrow> ((0, 0, rev_err e), s1)
                 | None \<Rightarrow>
                     (case fst (snd errs) of
                        Some e \<Rightarrow> ((n1, 0, ab_err e), s1)
                      | None \<Rightarrow>
                          (let (q2, n2) = update_where (\<lambda>r. parked_since now2 olderThan r \<and> QParkCount r > maxParkCount)
                                            (abandon_row now2) q1;
                               s2 = s\<lparr>crawler_queue := q2\<rparr>
                           in case snd (snd errs) of
                                Some e \<Rightarrow> ((n1, 0, ab_err e), s2)
                              | None \<Rightarrow> ((n1, n2, None), s2)))))"

definition ListAbandoned :: "goerr option \<Rightarrow> Store \<Rightarrow> goerr + AbandonedCatalog list" where
  "ListAbandoned err s =
     (case err of
        Some e \<Rightarrow> Inl (errorf_w ''store: ListAbandoned: '' e)
      | None \<Rightarrow>
          Inr (map (\<lambda>r. \<lparr>AbCatalogID = QCatalogId r, AbIndexURL = QIndexUrl r,
                 AbParticipantID = index_participant s (QIndexUrl r), AbParkCount = QParkCount r,
                 AbLastError = (case map_of (crawler_catalog s) (QCatalogId r) of
                     None \<Rightarrow> [] | Some c \<Rightarrow> null_string (CReason c)),
                 AbAbandonedAt = QAbandonedAt r\<rparr>)
            (sort_key (\<lambda>r. case QAbandonedAt r of Some t \<Rightarrow> At t | None \<Rightarrow> PgInfinity)
              (filter (\<lambda>r. QStatus r = Abandoned) (crawler_queue s)))))"

subsection \<open>Cursors\<close>

definition GetCatalogCursor :: "goerr option \<Rightarrow> string \<Rightarrow> Store \<Rightarrow> goerr + (CatalogCursor \<times> bool)" where
  "GetCatalogCursor err catalogID s =
     (let zero = \<lparr>CurCatalogID = [], CurIndexURL = [], CurParticipantID = [], CurVersion = 0, CurEntryVersion = 0,
            CurRetired = False, CurDescriptor = [], CurProvider = [], CurCatalogType = []\<rparr>
      in case err of
           Some e \<Rightarrow> Inl (errorf_w ''store: GetCatalogCursor: '' e)
         | None \<Rightarrow>
             (case map_of (crawler_catalog s) catalogID of
                None \<Rightarrow> Inr (zero, False)
              | Some c \<Rightarrow>
                  Inr (zero\<lparr>CurCatalogID := catalogID, CurIndexURL := CIndexUrl c,
                         CurParticipantID := null_string (CParticipantId c),
                         CurVersion := (case CVersion c of None \<Rightarrow> 0 | Some v \<Rightarrow> v),
                         CurEntryVersion := (case CEntryVersion c of None \<Rightarrow> 0 | Some v \<Rightarrow> v),
                         CurRetired := CRetired c\<rparr>, True)))"

definition GetCatalogEnvelope ::
  "goerr option \<Rightarrow> string \<Rightarrow> Store \<Rightarrow> goerr + (string \<times> string \<times> string \<times> string) option" where
  "GetCatalogEnvelope err catalogID s =
     (case err of
        Some e \<Rightarrow> Inl (errorf_w ''store: GetCatalogEnvelope: '' e)
      | None \<Rightarrow>
          (case map_of (crawler_catalog s) catalogID of
             None \<Rightarrow> Inr None
           | Some c \<Rightarrow>
               if CDescriptor c = None \<and> CProvider c = None then Inr None
               else Inr (Some (null_string (CDescriptor c), null_string (CProvider c), null_string (CCatalogType c),
                      null_string (CParticipantId c)))))"

text \<open>\<open>index_url\<close> is \<open>NOT NULL\<close>, so that an empty URL, which \<open>nullStr\<close> makes NULL, is refused.\<close>

definition not_null_index_url :: goerr where
  "not_null_index_url = ErrText ''null value in column index_url''"

definition settled_row :: "int \<Rightarrow> CatalogCursor \<Rightarrow> catalog_row option \<Rightarrow> catalog_row" where
  "settled_row now c old =
     (let kept = (\<lambda>new col. coalesce new (case old of None \<Rightarrow> None | Some r \<Rightarrow> col r)) in
      \<lparr>CIndexUrl = CurIndexURL c, CParticipantId = nullStr (CurParticipantID c), CVersion = Some (CurVersion c),
       CEntryVersion = Some (CurEntryVersion c), CRetired = CurRetired c, CReason = None,
       CDescriptor = kept (nullStr (CurDescriptor c)) CDescriptor, CProvider = kept (nullStr (CurProvider c)) CProvider,
       CCatalogType = kept (nullStr (CurCatalogType c)) CCatalogType, CUpdatedAt = now\<rparr>)"

definition upsertCatalog :: "goerr option \<Rightarrow> int \<Rightarrow> CatalogCursor \<Rightarrow> Store \<Rightarrow> goerr option \<times> Store" where
  "upsertCatalog err now c s =
     (case err of
        Some e \<Rightarrow> (Some (errorf_w ''store: upsertCatalog: '' e), s)
      | None \<Rightarrow>
          if CurIndexURL c = [] then (Some (errorf_w ''store: upsertCatalog: '' not_null_index_url), s)
          else (None, s\<lparr>crawler_catalog := AList.update (CurCatalogID c)
                  (settled_row now c (map_of (crawler_catalog s) (CurCatalogID c))) (crawler_catalog s)\<rparr>))"

record PassReport =
  RepCatalogID :: string
  RepIndexURL :: string
  RepParticipantID :: string
  RepError :: string

definition RecordFailure :: "goerr option \<Rightarrow> int \<Rightarrow> PassReport \<Rightarrow> Store \<Rightarrow> goerr option \<times> Store" where
  "RecordFailure err now rep s =
     (case err of
        Some e \<Rightarrow> (Some (errorf_w ''store: RecordFailure: '' e), s)
      | None \<Rightarrow>
          if RepIndexURL rep = [] then (Some (errorf_w ''store: RecordFailure: '' not_null_index_url), s)
          else
            (let row =
               (case map_of (crawler_catalog s) (RepCatalogID rep) of
                  None \<Rightarrow> \<lparr>CIndexUrl = RepIndexURL rep, CParticipantId = nullStr (RepParticipantID rep), CVersion = None,
                     CEntryVersion = None, CRetired = False, CReason = nullStr (RepError rep), CDescriptor = None,
                     CProvider = None, CCatalogType = None, CUpdatedAt = now\<rparr>
                | Some r \<Rightarrow> r\<lparr>CIndexUrl := RepIndexURL rep, CParticipantId := nullStr (RepParticipantID rep),
                     CReason := nullStr (RepError rep), CUpdatedAt := now\<rparr>)
             in (None, s\<lparr>crawler_catalog := AList.update (RepCatalogID rep) row (crawler_catalog s)\<rparr>)))"

text \<open>
  \<open>Complete\<close>: one transaction. An error of any of its statements, the commit included, leaves the
  tables as they were.
\<close>

definition Complete ::
  "goerr option \<times> goerr option \<times> goerr option \<times> goerr option \<Rightarrow> int \<Rightarrow> string \<Rightarrow> string \<Rightarrow> CatalogCursor \<Rightarrow>
     Store \<Rightarrow> goerr option \<times> Store" where
  "Complete errs now i claimID c s =
     (case errs of (begin_err, upsert_err, delete_err, commit_err) \<Rightarrow>
       (case begin_err of
          Some e \<Rightarrow> (Some (errorf_w ''store: Complete begin: '' e), s)
        | None \<Rightarrow>
            (case upsertCatalog upsert_err now c s of
               (Some e, _) \<Rightarrow> (Some e, s)
             | (None, s1) \<Rightarrow>
                 (case delete_err of
                    Some e \<Rightarrow> (Some (errorf_w ''store: Complete delete: '' e), s)
                  | None \<Rightarrow>
                      (case commit_err of
                         Some e \<Rightarrow> (Some e, s)
                       | None \<Rightarrow>
                           (None, s1\<lparr>crawler_queue := filter (\<lambda>r. \<not> claimed_by i claimID r) (crawler_queue s1)\<rparr>))))))"

record IndexCursor =
  IdxURL :: string
  IdxParticipantID :: string
  IdxETag :: string
  IdxLastModified :: string

definition GetIndexCursor :: "goerr option \<Rightarrow> string \<Rightarrow> Store \<Rightarrow> goerr + IndexCursor option" where
  "GetIndexCursor err url s =
     (case err of
        Some e \<Rightarrow> Inl (errorf_w ''store: GetIndexCursor: '' e)
      | None \<Rightarrow>
          Inr (map_option (\<lambda>i. \<lparr>IdxURL = url, IdxParticipantID = null_string (IParticipantId i),
                 IdxETag = null_string (IETag i), IdxLastModified = null_string (ILastModified i)\<rparr>)
               (map_of (crawler_index s) url)))"

definition UpsertIndexCursor :: "goerr option \<Rightarrow> int \<Rightarrow> IndexCursor \<Rightarrow> Store \<Rightarrow> goerr option \<times> Store" where
  "UpsertIndexCursor err now c s =
     (case err of
        Some e \<Rightarrow> (Some (errorf_w ''store: UpsertIndexCursor: '' e), s)
      | None \<Rightarrow>
          (None, s\<lparr>crawler_index := AList.update (IdxURL c)
             \<lparr>IParticipantId = nullStr (IdxParticipantID c), IETag = nullStr (IdxETag c),
              ILastModified = nullStr (IdxLastModified c), IUpdatedAt = now\<rparr> (crawler_index s)\<rparr>))"

subsection \<open>The status query\<close>

record CatalogStatus =
  SCatalogID :: string
  SIndexURL :: string
  SEverSynced :: bool
  SEntryVersion :: int
  SRetired :: bool
  SReason :: string
  SUpdatedAt :: "int option"
  SQueued :: bool
  SAttempts :: int
  SNextAttemptAt :: "timestamptz option"
  SParked :: bool
  SParkCount :: int
  SAbandoned :: bool
  SAbandonedAt :: "int option"
  SIndexPolledAt :: "int option"

text \<open>The full outer join: every catalog with its queue row, and every queue row without a catalog.\<close>

definition outer_join :: "Store \<Rightarrow> ((string \<times> catalog_row) option \<times> queue_row option) list" where
  "outer_join s =
     concat (map (\<lambda>c. let qs = filter (\<lambda>q. QCatalogId q = fst c) (crawler_queue s)
                      in if qs = [] then [(Some c, None)] else map (\<lambda>q. (Some c, Some q)) qs) (crawler_catalog s)) @
     map (\<lambda>q. (None, Some q)) (filter (\<lambda>q. map_of (crawler_catalog s) (QCatalogId q) = None) (crawler_queue s))"

definition joined_id :: "(string \<times> catalog_row) option \<times> queue_row option \<Rightarrow> string" where
  "joined_id p = (case fst p of Some c \<Rightarrow> fst c | None \<Rightarrow> QCatalogId (the (snd p)))"

definition joined_url :: "(string \<times> catalog_row) option \<times> queue_row option \<Rightarrow> string" where
  "joined_url p = (case fst p of Some c \<Rightarrow> CIndexUrl (snd c) | None \<Rightarrow> QIndexUrl (the (snd p)))"

definition joined_owner :: "Store \<Rightarrow> (string \<times> catalog_row) option \<times> queue_row option \<Rightarrow> string option" where
  "joined_owner s p =
     coalesce (case fst p of Some c \<Rightarrow> CParticipantId (snd c) | None \<Rightarrow> None)
       (case map_of (crawler_index s) (joined_url p) of Some i \<Rightarrow> IParticipantId i | None \<Rightarrow> None)"

definition scan_status :: "Store \<Rightarrow> (string \<times> catalog_row) option \<times> queue_row option \<Rightarrow> CatalogStatus" where
  "scan_status s p =
     (let c = map_option snd (fst p); q = snd p; st = map_option QStatus q in
      \<lparr>SCatalogID = joined_id p, SIndexURL = joined_url p,
       SEverSynced = (case c of Some r \<Rightarrow> CEntryVersion r \<noteq> None | None \<Rightarrow> False),
       SEntryVersion = (case c of Some r \<Rightarrow> (case CEntryVersion r of Some v \<Rightarrow> v | None \<Rightarrow> 0) | None \<Rightarrow> 0),
       SRetired = (case c of Some r \<Rightarrow> CRetired r | None \<Rightarrow> False),
       SReason = (case c of Some r \<Rightarrow> null_string (CReason r) | None \<Rightarrow> []),
       SUpdatedAt = map_option CUpdatedAt c,
       SQueued = (st = Some Queued \<or> st = Some InProgress),
       SAttempts = (case q of Some r \<Rightarrow> QAttempts r | None \<Rightarrow> 0),
       SNextAttemptAt = (if st = Some Queued \<or> st = Some InProgress then map_option QNextAttemptAt q else None),
       SParked = (st = Some Parked),
       SParkCount = (case q of Some r \<Rightarrow> QParkCount r | None \<Rightarrow> 0),
       SAbandoned = (st = Some Abandoned),
       SAbandonedAt = (case q of Some r \<Rightarrow> QAbandonedAt r | None \<Rightarrow> None),
       SIndexPolledAt = map_option IUpdatedAt (map_of (crawler_index s) (joined_url p))\<rparr>)"

text \<open>
  The query. \<open>order_by_id\<close> is the database's ordering by catalog id, which depends on its collation.
  A timestamp \<open>infinity\<close> cannot be scanned into a \<open>time.Time\<close>.
\<close>

definition Status_query ::
  "goerr option \<Rightarrow> (CatalogStatus list \<Rightarrow> CatalogStatus list) \<Rightarrow> string \<Rightarrow> string \<Rightarrow> Store \<Rightarrow> goerr + CatalogStatus list" where
  "Status_query err order_by_id participantID catalogID s =
     (case err of
        Some e \<Rightarrow> Inl (errorf_w ''store: Status: '' e)
      | None \<Rightarrow>
          (let out = order_by_id (map (scan_status s)
                 (filter (\<lambda>p. joined_owner s p = Some participantID \<and> (catalogID = [] \<or> joined_id p = catalogID)) (outer_join s)))
           in if \<exists>r \<in> set out. SNextAttemptAt r = Some PgInfinity
              then Inl (errorf_w ''store: Status: scanning row: '' (ErrText ''unsupported Scan'')) else Inr out))"

subsection \<open>Steps of the system\<close>

text \<open>
  The tables, the time and the uuids generated so far. One step is one call of the store by some
  worker or poller, the passing of time, or a change of the order in which a scan meets the rows.
\<close>

record system =
  Db :: Store
  Now :: int
  Issued :: "string set"

datatype label =
    Quiet
  | Claims "ClaimedItem option"
  | Settles string string

inductive queue_step :: "system \<Rightarrow> label \<Rightarrow> system \<Rightarrow> bool" where
  tick: "Now s \<le> t \<Longrightarrow> queue_step s Quiet (s\<lparr>Now := t\<rparr>)"
| reorder: "mset q = mset (crawler_queue (Db s)) \<Longrightarrow> queue_step s Quiet (s\<lparr>Db := (Db s)\<lparr>crawler_queue := q\<rparr>\<rparr>)"
| enqueue: "u \<notin> Issued s \<Longrightarrow> Enqueue err OpSync (Now s) u item (Db s) = (res, d) \<Longrightarrow>
    queue_step s Quiet (s\<lparr>Db := d, Issued := insert u (Issued s)\<rparr>)"
| claim: "u \<notin> Issued s \<Longrightarrow> ClaimNext None (Now s) u locked (Db s) = (Inr c, d) \<Longrightarrow>
    queue_step s (Claims c) (s\<lparr>Db := d, Issued := insert u (Issued s)\<rparr>)"
| reschedule: "Reschedule err i c (At t) (Db s) = (res, d) \<Longrightarrow> queue_step s (Settles i c) (s\<lparr>Db := d\<rparr>)"
| park: "Park err (Now s) i c (Db s) = (res, d) \<Longrightarrow> queue_step s (Settles i c) (s\<lparr>Db := d\<rparr>)"
| complete: "Complete errs (Now s) i c cur (Db s) = (res, d) \<Longrightarrow> queue_step s (Settles i c) (s\<lparr>Db := d\<rparr>)"
| sweep: "Now s \<le> t \<Longrightarrow> RequeueOrAbandonParked errs (Now s) t older mx (Db s) = (res, d) \<Longrightarrow>
    queue_step s Quiet (s\<lparr>Db := d, Now := t\<rparr>)"
| record_failure: "RecordFailure err (Now s) rep (Db s) = (res, d) \<Longrightarrow> queue_step s Quiet (s\<lparr>Db := d\<rparr>)"
| upsert_index: "UpsertIndexCursor err (Now s) ic (Db s) = (res, d) \<Longrightarrow> queue_step s Quiet (s\<lparr>Db := d\<rparr>)"

inductive_cases queue_step_claims: "queue_step s (Claims c) s'"

inductive run_of :: "('s \<Rightarrow> 'l \<Rightarrow> 's \<Rightarrow> bool) \<Rightarrow> 's \<Rightarrow> 'l list \<Rightarrow> 's \<Rightarrow> bool" for step where
  run_nil: "run_of step s [] s"
| run_cons: "step s l s1 \<Longrightarrow> run_of step s1 ls s2 \<Longrightarrow> run_of step s (l # ls) s2"

inductive_simps run_of_nil [simp]: "run_of step s [] s'"
inductive_simps run_of_cons: "run_of step s (l # ls) s'"

definition initial_system :: system where
  "initial_system = \<lparr>Db = \<lparr>crawler_queue = [], crawler_catalog = [], crawler_index = []\<rparr>, Now = 0, Issued = {}\<rparr>"

subsection \<open>Invariant\<close>

definition row_ok :: "queue_row \<Rightarrow> bool" where
  "row_ok r \<longleftrightarrow>
     (QStatus r = InProgress \<longleftrightarrow> QClaimedAt r \<noteq> None) \<and>
     (QClaimedAt r = None \<longleftrightarrow> QClaimId r = None) \<and>
     (QStatus r \<in> {Parked, Abandoned} \<longleftrightarrow> QParkedAt r \<noteq> None) \<and>
     (QStatus r \<in> {Parked, Abandoned} \<longleftrightarrow> QNextAttemptAt r = PgInfinity) \<and>
     (QStatus r = Abandoned \<longleftrightarrow> QAbandonedAt r \<noteq> None) \<and>
     QStatus r \<noteq> Failed \<and> 0 \<le> QAttempts r \<and> 0 \<le> QParkCount r \<and>
     (QStatus r \<in> {Parked, Abandoned} \<longrightarrow> 0 < QParkCount r)"

definition row_uuids :: "queue_row \<Rightarrow> string set" where
  "row_uuids r = insert (QId r) (set_option (QClaimId r))"

definition queue_ok :: "system \<Rightarrow> bool" where
  "queue_ok s \<longleftrightarrow>
     distinct (map QId (crawler_queue (Db s))) \<and> distinct (map QCatalogId (crawler_queue (Db s))) \<and>
     (\<forall>r \<in> set (crawler_queue (Db s)). row_ok r \<and> row_uuids r \<subseteq> Issued s)"

lemma row_ops_keys [simp]:
  "QId (coalesce_row now item op r) = QId r" "QCatalogId (coalesce_row now item op r) = QCatalogId r"
  "QId (claim_row now u r) = QId r" "QCatalogId (claim_row now u r) = QCatalogId r"
  "QId (release_row nxt r) = QId r" "QCatalogId (release_row nxt r) = QCatalogId r"
  "QId (park_row now r) = QId r" "QCatalogId (park_row now r) = QCatalogId r"
  "QId (revive_row now r) = QId r" "QCatalogId (revive_row now r) = QCatalogId r"
  "QId (abandon_row now r) = QId r" "QCatalogId (abandon_row now r) = QCatalogId r"
  by (simp_all add: coalesce_row_def claim_row_def release_row_def park_row_def revive_row_def abandon_row_def Let_def)

lemma row_ops_ok:
  "row_ok r \<Longrightarrow> row_ok (coalesce_row now item op r)"
  "row_ok r \<Longrightarrow> ready now r \<Longrightarrow> row_ok (claim_row now u r)"
  "row_ok r \<Longrightarrow> claimed_by i c r \<Longrightarrow> row_ok (release_row (At t) r)"
  "row_ok r \<Longrightarrow> claimed_by i c r \<Longrightarrow> row_ok (park_row now r)"
  "row_ok r \<Longrightarrow> parked_since now older r \<Longrightarrow> row_ok (revive_row now r)"
  "row_ok r \<Longrightarrow> parked_since now older r \<Longrightarrow> row_ok (abandon_row now r)"
  by (auto simp: row_ok_def coalesce_row_def claim_row_def ready_def release_row_def park_row_def claimed_by_def
      revive_row_def abandon_row_def parked_since_def Let_def split: option.splits)

lemma row_ops_uuids:
  "row_uuids (coalesce_row now item op r) = row_uuids r"
  "row_uuids (claim_row now u r) \<subseteq> insert u (row_uuids r)"
  "row_uuids (release_row nxt r) \<subseteq> row_uuids r" "row_uuids (park_row now r) \<subseteq> row_uuids r"
  "row_uuids (revive_row now r) = row_uuids r" "row_uuids (abandon_row now r) = row_uuids r"
  by (auto simp: row_uuids_def coalesce_row_def claim_row_def release_row_def park_row_def revive_row_def
      abandon_row_def Let_def)

text \<open>Every statement maps the rows one by one and keeps their keys, appends one, or deletes some.\<close>

lemma map_rows_ok:
  assumes "queue_ok s" and "\<And>r. r \<in> set (crawler_queue (Db s)) \<Longrightarrow> row_ok (f r) \<and> row_uuids (f r) \<subseteq> U"
    and "\<And>r. QId (f r) = QId r" "\<And>r. QCatalogId (f r) = QCatalogId r"
    and "crawler_queue d = map f (crawler_queue (Db s))"
  shows "queue_ok \<lparr>Db = d, Now = n, Issued = U\<rparr>"
  using assms by (simp add: queue_ok_def comp_def)

lemma filter_rows_ok:
  assumes "queue_ok s" and "crawler_queue d = filter P (crawler_queue (Db s))" and "Issued s \<subseteq> U"
  shows "queue_ok \<lparr>Db = d, Now = n, Issued = U\<rparr>"
  using assms by (auto simp: queue_ok_def distinct_map_filter)

lemma system_eta: "s = \<lparr>Db = Db s, Now = Now s, Issued = Issued s\<rparr>"
  by simp

lemma first_due_some: "first_due rs = Some r \<Longrightarrow> r \<in> set rs \<and> (\<forall>r' \<in> set rs. QNextAttemptAt r \<le> QNextAttemptAt r')"
proof (induction rs arbitrary: r)
  case (Cons a rs)
  show ?case
  proof (cases "first_due rs")
    case None
    then show ?thesis using Cons.prems by (cases rs) (auto split: option.splits if_splits)
  next
    case (Some r')
    then show ?thesis using Cons.prems Cons.IH [OF Some] by (auto split: if_splits dest: order_trans)
  qed
qed simp

lemma first_due_none [simp]: "first_due rs = None \<longleftrightarrow> rs = []"
  by (cases rs) (auto split: option.splits)

lemma ClaimNext_some:
  assumes "ClaimNext None now u locked s = (Inr (Some c), d)"
  obtains r where "r \<in> set (crawler_queue s)" "ready now r" "\<not> locked r" "ClID c = QId r" "ClClaimID c = u"
    "ClCatalogID c = QCatalogId r"
    "crawler_queue d = map (\<lambda>q. if QId q = QId r then claim_row now u q else q) (crawler_queue s)"
    "\<And>r'. r' \<in> set (crawler_queue s) \<Longrightarrow> ready now r' \<Longrightarrow> \<not> locked r' \<Longrightarrow> QNextAttemptAt r \<le> QNextAttemptAt r'"
proof -
  let ?rs = "filter (\<lambda>r. ready now r \<and> \<not> locked r) (crawler_queue s)"
  obtain r where r: "first_due ?rs = Some r"
    using assms by (auto simp: ClaimNext_def simp del: first_due_none split: option.splits)
  then have "r \<in> set ?rs" "\<forall>r' \<in> set ?rs. QNextAttemptAt r \<le> QNextAttemptAt r'"
    using first_due_some by blast+
  moreover have "ClID c = QId r" "ClClaimID c = u" "ClCatalogID c = QCatalogId r"
    "crawler_queue d = map (\<lambda>q. if QId q = QId r then claim_row now u q else q) (crawler_queue s)"
    using assms by (auto simp: ClaimNext_def r)
  ultimately show ?thesis using that [of r] by simp
qed

lemma mapped_at: "r \<in> set q \<Longrightarrow> P r \<Longrightarrow> f r \<in> set (map (\<lambda>x. if P x then f x else x) q)"
  by (induction q) auto

lemma ClaimNext_none: "ClaimNext None now u locked s = (Inr None, d) \<longleftrightarrow>
    d = s \<and> (\<forall>r \<in> set (crawler_queue s). ready now r \<longrightarrow> locked r)"
proof -
  have "(\<forall>r \<in> set (crawler_queue s). ready now r \<longrightarrow> locked r) \<longleftrightarrow>
      first_due (filter (\<lambda>r. ready now r \<and> \<not> locked r) (crawler_queue s)) = None"
    by (simp add: filter_empty_conv)
  then show ?thesis by (auto simp: ClaimNext_def simp del: first_due_none split: option.splits)
qed

lemma Enqueue_queue:
  assumes "Enqueue err OpSync now u item s = (res, d)"
  shows "crawler_queue d = crawler_queue s \<or> (\<exists>op. crawler_queue d = upsert_queue now u item op (crawler_queue s))"
  using assms by (auto simp: Enqueue_def Let_def split: option.splits if_split_asm)

lemma upsert_ok:
  assumes ok: "queue_ok s" and u: "u \<notin> Issued s" and d: "crawler_queue d = upsert_queue now u item op (crawler_queue (Db s))"
  shows "queue_ok \<lparr>Db = d, Now = n, Issued = insert u (Issued s)\<rparr>"
proof (cases "\<exists>r \<in> set (crawler_queue (Db s)). QCatalogId r = ItemCatalogID item")
  case True
  then have "crawler_queue d =
      map (\<lambda>r. if QCatalogId r = ItemCatalogID item then coalesce_row now item op r else r) (crawler_queue (Db s))"
    using d by (simp add: upsert_queue_def)
  then show ?thesis
    using ok by (elim map_rows_ok [rotated -1]) (auto simp: queue_ok_def row_ops_ok row_ops_uuids)
next
  case False
  have "row_ok (fresh_row now u item op)" "row_uuids (fresh_row now u item op) = {u}"
    "QId (fresh_row now u item op) = u" "QCatalogId (fresh_row now u item op) = ItemCatalogID item"
    by (simp_all add: row_ok_def fresh_row_def row_uuids_def)
  then show ?thesis using ok u d False by (auto simp: queue_ok_def row_uuids_def upsert_queue_def)
qed

lemma enqueue_ok:
  assumes "queue_ok s" and "u \<notin> Issued s" and "Enqueue err OpSync now u item (Db s) = (res, d)"
  shows "queue_ok \<lparr>Db = d, Now = n, Issued = insert u (Issued s)\<rparr>"
  using Enqueue_queue [OF assms(3)]
proof (elim disjE exE)
  assume "crawler_queue d = crawler_queue (Db s)"
  then show ?thesis using assms(1) by (auto simp: queue_ok_def)
qed (rule upsert_ok [OF assms(1,2)])

lemma claim_ok:
  assumes ok: "queue_ok s" and cl: "ClaimNext None now u locked (Db s) = (Inr c, d)"
  shows "queue_ok \<lparr>Db = d, Now = n, Issued = insert u (Issued s)\<rparr>"
proof (cases c)
  case None
  then show ?thesis using ok cl by (auto simp: ClaimNext_none queue_ok_def)
next
  case (Some c')
  with cl obtain r where r: "r \<in> set (crawler_queue (Db s))" "ready now r"
    and d: "crawler_queue d = map (\<lambda>q. if QId q = QId r then claim_row now u q else q) (crawler_queue (Db s))"
    by (auto elim: ClaimNext_some)
  have same: "q = r" if "q \<in> set (crawler_queue (Db s))" "QId q = QId r" for q
    using ok r that by (auto simp: queue_ok_def distinct_map inj_on_def)
  let ?f = "\<lambda>q. if QId q = QId r then claim_row now u q else q"
  have "row_ok (?f q) \<and> row_uuids (?f q) \<subseteq> insert u (Issued s)" if "q \<in> set (crawler_queue (Db s))" for q
  proof (cases "QId q = QId r")
    case True
    then have "q = r" using same that by simp
    then show ?thesis using ok r row_ops_ok(2) [of r now u] row_ops_uuids(2) [of now u r]
      by (auto simp: queue_ok_def)
  qed (use ok that in \<open>auto simp: queue_ok_def\<close>)
  then show ?thesis by (rule map_rows_ok [OF ok _ _ _ d]) simp_all
qed

lemma settle_ok:
  assumes ok: "queue_ok s"
    and "crawler_queue d = crawler_queue (Db s) \<or>
      crawler_queue d = map (\<lambda>r. if claimed_by i c r then release_row (At t) r else r) (crawler_queue (Db s)) \<or>
      crawler_queue d = map (\<lambda>r. if claimed_by i c r then park_row t r else r) (crawler_queue (Db s)) \<or>
      crawler_queue d = filter P (crawler_queue (Db s))"
  shows "queue_ok \<lparr>Db = d, Now = n, Issued = Issued s\<rparr>"
  using assms(2)
proof (elim disjE, goal_cases)
  case 1
  then show ?case using ok by (simp add: queue_ok_def)
next
  case 2
  then show ?case using ok row_ops_uuids(3)
    by (elim map_rows_ok [rotated -1]) (auto simp: queue_ok_def intro: row_ops_ok dest!: subsetD)
next
  case 3
  then show ?case using ok row_ops_uuids(4)
    by (elim map_rows_ok [rotated -1]) (auto simp: queue_ok_def intro: row_ops_ok dest!: subsetD)
next
  case 4
  then show ?case using ok by (auto intro: filter_rows_ok)
qed

lemma sweep_rows:
  assumes "RequeueOrAbandonParked errs now1 now2 older mx s = (res, d)"
  obtains f where "crawler_queue d = map f (crawler_queue s)"
    "\<And>r. f r = r \<or> (\<exists>t. parked_since t older r \<and> (f r = revive_row t r \<or> f r = abandon_row t r))"
proof -
  let ?p1 = "\<lambda>r. parked_since now1 older r \<and> QParkCount r \<le> mx" and ?p2 = "\<lambda>r. parked_since now2 older r \<and> QParkCount r > mx"
  let ?f1 = "\<lambda>r. if ?p1 r then revive_row now1 r else r" and ?f2 = "\<lambda>r. if ?p2 r then abandon_row now2 r else r"
  have "crawler_queue d = crawler_queue s \<or> crawler_queue d = map ?f1 (crawler_queue s) \<or>
      crawler_queue d = map (\<lambda>r. ?f2 (?f1 r)) (crawler_queue s)"
    using assms by (auto simp: RequeueOrAbandonParked_def update_where_def Let_def split: option.splits)
  moreover have two: "?f2 (?f1 r) = (if ?p1 r then revive_row now1 r else ?f2 r)" for r
    by (cases "?p1 r") (simp add: parked_since_def revive_row_def, simp only: if_False)
  ultimately consider "crawler_queue d = map id (crawler_queue s)" | "crawler_queue d = map ?f1 (crawler_queue s)"
    | "crawler_queue d = map (\<lambda>r. if ?p1 r then revive_row now1 r else ?f2 r) (crawler_queue s)"
    by (auto simp only: two list.map_id)
  then show ?thesis
  proof cases
    case 1 then show ?thesis by (rule that) simp
  next
    case 2 then show ?thesis by (rule that) auto
  next
    case 3 then show ?thesis by (rule that) auto
  qed
qed

lemma sweep_ok:
  assumes ok: "queue_ok s" and "RequeueOrAbandonParked errs now1 now2 older mx (Db s) = (res, d)"
  shows "queue_ok \<lparr>Db = d, Now = n, Issued = Issued s\<rparr>"
proof -
  obtain f where d: "crawler_queue d = map f (crawler_queue (Db s))"
    and f: "\<And>r. f r = r \<or> (\<exists>t. parked_since t older r \<and> (f r = revive_row t r \<or> f r = abandon_row t r))"
    using sweep_rows [OF assms(2)] by blast
  have "row_ok (f r) \<and> row_uuids (f r) \<subseteq> Issued s" if "r \<in> set (crawler_queue (Db s))" for r
  proof -
    have "row_ok r" "row_uuids r \<subseteq> Issued s" using ok that by (simp_all add: queue_ok_def)
    then show ?thesis using f [of r] by (auto simp: row_ops_uuids intro: row_ops_ok simp del: insert_subset)
  qed
  moreover have "QId (f r) = QId r" "QCatalogId (f r) = QCatalogId r" for r
    using f [of r] by auto
  ultimately show ?thesis by (intro map_rows_ok [OF ok _ _ _ d])
qed

lemma settled_queue:
  "Reschedule err i c nxt s = (res, d) \<Longrightarrow> crawler_queue d = crawler_queue s \<or>
     crawler_queue d = map (\<lambda>r. if claimed_by i c r then release_row nxt r else r) (crawler_queue s)"
  "Park err now i c s = (res, d) \<Longrightarrow> crawler_queue d = crawler_queue s \<or>
     crawler_queue d = map (\<lambda>r. if claimed_by i c r then park_row now r else r) (crawler_queue s)"
  "Complete errs now i c cur s = (res, d) \<Longrightarrow> crawler_queue d = crawler_queue s \<or>
     crawler_queue d = filter (\<lambda>r. \<not> claimed_by i c r) (crawler_queue s)"
  "RecordFailure err now rep s = (res, d) \<Longrightarrow> crawler_queue d = crawler_queue s"
  "UpsertIndexCursor err now ic s = (res, d) \<Longrightarrow> crawler_queue d = crawler_queue s"
  by (auto simp: Reschedule_def Park_def Complete_def upsertCatalog_def RecordFailure_def UpsertIndexCursor_def Let_def
      split: option.splits if_split_asm prod.splits)

lemma queue_step_ok: "queue_step s l s' \<Longrightarrow> queue_ok s \<Longrightarrow> queue_ok s'"
proof (induction rule: queue_step.induct)
  case (tick s t)
  then show ?case by (simp add: queue_ok_def)
next
  case (reorder q s)
  then have "distinct (map f q) \<longleftrightarrow> distinct (map f (crawler_queue (Db s)))" for f :: "queue_row \<Rightarrow> string"
    by (intro mset_eq_imp_distinct_iff) simp
  moreover have "set q = set (crawler_queue (Db s))" using reorder.hyps by (rule mset_eq_setD)
  ultimately show ?case using reorder.prems by (simp add: queue_ok_def)
next
  case (enqueue u s err OpSync item res d)
  then show ?case using enqueue_ok [of s u err OpSync "Now s" item res d "Now s"] by (cases s) simp
next
  case (claim u s locked c d)
  then show ?case using claim_ok [of s "Now s" u locked c d "Now s"] by (cases s) simp
next
  case (reschedule err i c t s res d)
  then show ?case using settled_queue(1) settle_ok [of s d i c t _ "Now s"] by (cases s) force
next
  case (park err s i c res d)
  then show ?case using settled_queue(2) settle_ok [of s d i c "Now s" _ "Now s"] by (cases s) force
next
  case (complete errs s i c cur res d)
  then have "queue_ok \<lparr>Db = d, Now = Now s, Issued = Issued s\<rparr>"
    using settle_ok [of s d i c 0 "\<lambda>r. \<not> claimed_by i c r"] settled_queue(3) [OF complete.hyps] by blast
  then show ?case by (cases s) simp
next
  case (sweep s t errs older mx res d)
  then show ?case using sweep_ok [of s errs "Now s" t older mx res d t] by (cases s) simp
next
  case (record_failure err s rep res d)
  then show ?case using settled_queue(4) by (fastforce simp: queue_ok_def)
next
  case (upsert_index err s ic res d)
  then show ?case using settled_queue(5) by (fastforce simp: queue_ok_def)
qed

subsection \<open>Leases\<close>

text \<open>
  The contract of a queue with leases: a claim is not disturbed by any step but its own settlement
  until the lease has run out, and the item is not claimed again.
\<close>

locale lease_queue =
  fixes step :: "'s \<Rightarrow> 'l \<Rightarrow> 's \<Rightarrow> bool"
    and ok :: "'s \<Rightarrow> bool"
    and time :: "'s \<Rightarrow> int"
    and lease :: int
    and holds :: "'s \<Rightarrow> string \<Rightarrow> string \<Rightarrow> int \<Rightarrow> bool"
    and claims :: "'l \<Rightarrow> string \<Rightarrow> bool"
    and settles :: "'l \<Rightarrow> string \<Rightarrow> string \<Rightarrow> bool"
  assumes ok_step: "step s l s' \<Longrightarrow> ok s \<Longrightarrow> ok s'"
    and time_step: "step s l s' \<Longrightarrow> time s \<le> time s'"
    and hold_step: "ok s \<Longrightarrow> step s l s' \<Longrightarrow> holds s i c t \<Longrightarrow> \<not> settles l i c \<Longrightarrow> time s \<le> t + lease \<Longrightarrow>
      holds s' i c t \<and> \<not> claims l i"
begin

lemma ok_run: "run_of step s ls s' \<Longrightarrow> ok s \<Longrightarrow> ok s'"
  by (induction rule: run_of.induct) (auto dest: ok_step)

lemma time_run: "run_of step s ls s' \<Longrightarrow> time s \<le> time s'"
  by (induction rule: run_of.induct) (auto dest: time_step)

lemma hold_run:
  "run_of step s ls s' \<Longrightarrow> ok s \<Longrightarrow> holds s i c t \<Longrightarrow> \<forall>l \<in> set ls. \<not> settles l i c \<Longrightarrow> time s' \<le> t + lease \<Longrightarrow>
     holds s' i c t \<and> (\<forall>l \<in> set ls. \<not> claims l i)"
proof (induction rule: run_of.induct)
  case (run_cons s l s1 ls s2)
  have "time s \<le> t + lease"
    using time_step [OF run_cons.hyps(1)] time_run [OF run_cons.hyps(2)] run_cons.prems by linarith
  then have "holds s1 i c t \<and> \<not> claims l i"
    using hold_step run_cons by simp
  with run_cons ok_step show ?case by auto
qed simp

end

definition holds_claim :: "system \<Rightarrow> string \<Rightarrow> string \<Rightarrow> int \<Rightarrow> bool" where
  "holds_claim s i c t \<longleftrightarrow>
     (\<exists>r \<in> set (crawler_queue (Db s)). QId r = i \<and> QClaimId r = Some c \<and> QClaimedAt r = Some t)"

definition claims_item :: "label \<Rightarrow> string \<Rightarrow> bool" where
  "claims_item l i \<longleftrightarrow> (case l of Claims (Some c) \<Rightarrow> ClID c = i | _ \<Rightarrow> False)"

lemma claims_item_simps [simp]:
  "\<not> claims_item Quiet i" "\<not> claims_item (Settles a b) i" "\<not> claims_item (Claims None) i"
  "claims_item (Claims (Some c)) i \<longleftrightarrow> ClID c = i"
  by (simp_all add: claims_item_def)

lemma hold_mapped:
  assumes "holds_claim s i c t" and "crawler_queue d = map f (crawler_queue (Db s))"
    and "\<And>r. r \<in> set (crawler_queue (Db s)) \<Longrightarrow> QId r = i \<Longrightarrow> QClaimId r = Some c \<Longrightarrow> QClaimedAt r = Some t \<Longrightarrow>
      QId (f r) = i \<and> QClaimId (f r) = Some c \<and> QClaimedAt (f r) = Some t"
  shows "holds_claim \<lparr>Db = d, Now = n, Issued = U\<rparr> i c t"
  using assms by (fastforce simp: holds_claim_def)

lemma claim_keeps_others:
  assumes ok: "queue_ok s" and cl: "ClaimNext None (Now s) u locked (Db s) = (Inr (Some k), d)"
    and h: "holds_claim s i c t" and lease: "Now s \<le> t + claimLease"
  shows "ClID k \<noteq> i \<and> holds_claim \<lparr>Db = d, Now = n, Issued = U\<rparr> i c t"
proof -
  obtain r where r: "r \<in> set (crawler_queue (Db s))" "ready (Now s) r" "ClID k = QId r"
    and d: "crawler_queue d = map (\<lambda>q. if QId q = QId r then claim_row (Now s) u q else q) (crawler_queue (Db s))"
    by (rule ClaimNext_some [OF cl]) (rule that)
  obtain q where q: "q \<in> set (crawler_queue (Db s))" "QId q = i" "QClaimedAt q = Some t"
    using h by (auto simp: holds_claim_def)
  have "\<not> ready (Now s) q" using q lease by (simp add: ready_def)
  then have "QId r \<noteq> i"
    using ok r(1,2) q by (auto simp: queue_ok_def distinct_map dest: inj_onD)
  then show ?thesis using r(3) hold_mapped [OF h d] by simp
qed

lemma settle_keeps_others:
  assumes h: "holds_claim s i c t" and other: "(i', c') \<noteq> (i, c)"
    and "crawler_queue d = crawler_queue (Db s) \<or>
      crawler_queue d = map (\<lambda>r. if claimed_by i' c' r then f r else r) (crawler_queue (Db s)) \<or>
      crawler_queue d = filter (\<lambda>r. \<not> claimed_by i' c' r) (crawler_queue (Db s))"
  shows "holds_claim \<lparr>Db = d, Now = n, Issued = U\<rparr> i c t"
  using assms(3)
proof (elim disjE)
  assume "crawler_queue d = map (\<lambda>r. if claimed_by i' c' r then f r else r) (crawler_queue (Db s))"
  then show ?thesis using h other by (elim hold_mapped [rotated]) (auto simp: claimed_by_def)
qed (use h other in \<open>auto simp: holds_claim_def claimed_by_def\<close>)

lemma upsert_keeps:
  assumes h: "holds_claim s i c t" and d: "crawler_queue d = upsert_queue now u item op (crawler_queue (Db s))"
  shows "holds_claim \<lparr>Db = d, Now = n, Issued = U\<rparr> i c t"
proof (cases "\<exists>r \<in> set (crawler_queue (Db s)). QCatalogId r = ItemCatalogID item")
  case True
  then have "crawler_queue d =
      map (\<lambda>r. if QCatalogId r = ItemCatalogID item then coalesce_row now item op r else r) (crawler_queue (Db s))"
    using d by (simp add: upsert_queue_def)
  then show ?thesis by (rule hold_mapped [OF h]) (simp add: coalesce_row_def Let_def)
qed (use h d in \<open>auto simp: holds_claim_def upsert_queue_def\<close>)

lemma sweep_keeps:
  assumes "queue_ok s" and h: "holds_claim s i c t"
    and "RequeueOrAbandonParked errs now1 now2 older mx (Db s) = (res, d)"
  shows "holds_claim \<lparr>Db = d, Now = n, Issued = U\<rparr> i c t"
proof -
  obtain f where d: "crawler_queue d = map f (crawler_queue (Db s))"
    and f: "\<And>r. f r = r \<or> (\<exists>t. parked_since t older r \<and> (f r = revive_row t r \<or> f r = abandon_row t r))"
    using sweep_rows [OF assms(3)] by blast
  show ?thesis
  proof (rule hold_mapped [OF h d])
    fix r assume "r \<in> set (crawler_queue (Db s))" "QId r = i" "QClaimId r = Some c" "QClaimedAt r = Some t"
    moreover from this have "\<not> parked_since t' older r" for t'
      using assms(1) by (auto simp: queue_ok_def row_ok_def parked_since_def)
    ultimately show "QId (f r) = i \<and> QClaimId (f r) = Some c \<and> QClaimedAt (f r) = Some t" using f [of r] by auto
  qed
qed

lemma queue_step_holds:
  "queue_step s l s' \<Longrightarrow> queue_ok s \<Longrightarrow> holds_claim s i c t \<Longrightarrow> l \<noteq> Settles i c \<Longrightarrow> Now s \<le> t + claimLease \<Longrightarrow>
     holds_claim s' i c t \<and> \<not> claims_item l i"
proof (induction rule: queue_step.induct)
  case (enqueue u s err OpSync item res d)
  from Enqueue_queue [OF enqueue.hyps(2)] show ?case
  proof (elim disjE exE)
    fix op assume "crawler_queue d = upsert_queue (Now s) u item op (crawler_queue (Db s))"
    then show ?case using upsert_keeps [OF enqueue.prems(2)] by (cases s) (simp add: claims_item_def)
  qed (use enqueue.prems in \<open>simp add: holds_claim_def claims_item_def\<close>)
next
  case (claim u s locked k d)
  show ?case
  proof (cases k)
    case None
    then show ?thesis using claim by (auto simp: ClaimNext_none claims_item_def holds_claim_def)
  next
    case (Some k')
    then show ?thesis using claim_keeps_others [of s u locked k' d i c t "Now s" "insert u (Issued s)"] claim
      by (cases s) (simp add: claims_item_def)
  qed
next
  case (reschedule err i' c' t' s res d)
  have "holds_claim \<lparr>Db = d, Now = Now s, Issued = Issued s\<rparr> i c t"
    by (rule settle_keeps_others [where f = "release_row (At t')" and i' = i' and c' = c'])
      (use reschedule settled_queue(1) [OF reschedule.hyps] in auto)
  then show ?case by (cases s) simp
next
  case (park err s i' c' res d)
  have "holds_claim \<lparr>Db = d, Now = Now s, Issued = Issued s\<rparr> i c t"
    by (rule settle_keeps_others [where f = "park_row (Now s)" and i' = i' and c' = c'])
      (use park settled_queue(2) [OF park.hyps] in auto)
  then show ?case by (cases s) simp
next
  case (complete errs s i' c' cur res d)
  have "holds_claim \<lparr>Db = d, Now = Now s, Issued = Issued s\<rparr> i c t"
    by (rule settle_keeps_others [where f = id and i' = i' and c' = c'])
      (use complete settled_queue(3) [OF complete.hyps] in auto)
  then show ?case by (cases s) simp
next
  case (sweep s t' errs older mx res d)
  then show ?case using sweep_keeps [of s i c t errs "Now s" t' older mx res d t' "Issued s"]
    by (cases s) (simp add: claims_item_def)
next
  case (reorder q s)
  then show ?case using mset_eq_setD [OF reorder.hyps] by (simp add: holds_claim_def)
next
  case (record_failure err s rep res d)
  then show ?case using settled_queue(4) [OF record_failure.hyps] by (simp add: holds_claim_def)
next
  case (upsert_index err s ic res d)
  then show ?case using settled_queue(5) [OF upsert_index.hyps] by (simp add: holds_claim_def)
qed (simp add: holds_claim_def)

lemma queue_step_time: "queue_step s l s' \<Longrightarrow> Now s \<le> Now s'"
  by (induction rule: queue_step.induct) simp_all

interpretation crawler: lease_queue queue_step queue_ok Now claimLease holds_claim claims_item "\<lambda>l i c. l = Settles i c"
  by unfold_locales (auto intro: queue_step_ok queue_step_time dest: queue_step_holds)

subsection \<open>A sample run\<close>

definition sample_item :: QueueItem where
  "sample_item = \<lparr>ItemCatalogID = ''cat-1'', ItemIndexURL = ''https://bpp.example.com/index'', ItemOp = []\<rparr>"

definition sample_queued :: system where
  "sample_queued = initial_system\<lparr>Db := snd (Enqueue None ''sync'' 0 ''row-1'' sample_item (Db initial_system)), Issued := {''row-1''}\<rparr>"

definition sample_claimed :: system where
  "sample_claimed = sample_queued\<lparr>Db := snd (ClaimNext None 0 ''claim-1'' (\<lambda>_. False) (Db sample_queued)),
     Issued := {''claim-1'', ''row-1''}\<rparr>"

definition sample_claim :: ClaimedItem where
  "sample_claim = \<lparr>ClID = ''row-1'', ClClaimID = ''claim-1'', ClCatalogID = ''cat-1'',
     ClIndexURL = ''https://bpp.example.com/index'', ClOp = ''sync'', ClAttempts = 0, ClParticipantID = []\<rparr>"

lemma sample_system:
  "Db sample_queued = \<lparr>crawler_queue = [fresh_row 0 ''row-1'' sample_item ''sync''], crawler_catalog = [], crawler_index = []\<rparr>"
  "Now sample_queued = 0" "Issued sample_queued = {''row-1''}"
  "Db sample_claimed = \<lparr>crawler_queue = [claim_row 0 ''claim-1'' (fresh_row 0 ''row-1'' sample_item ''sync'')],
     crawler_catalog = [], crawler_index = []\<rparr>"
  "Now sample_claimed = 0"
  by (simp_all add: sample_claimed_def sample_queued_def initial_system_def Enqueue_def upsert_queue_def sample_item_def
      ClaimNext_def ready_def fresh_row_def)

lemma sample_queue_run:
  "run_of queue_step initial_system [Quiet] sample_queued" "queue_step sample_queued (Claims (Some sample_claim)) sample_claimed"
proof -
  have "queue_step initial_system Quiet
      (initial_system\<lparr>Db := snd (Enqueue None ''sync'' 0 ''row-1'' sample_item (Db initial_system)), Issued := insert ''row-1'' (Issued initial_system)\<rparr>)"
    by (rule queue_step.enqueue [where err = None and OpSync = "''sync''" and item = sample_item and
          res = "fst (Enqueue None ''sync'' 0 ''row-1'' sample_item (Db initial_system))"]) (simp_all add: initial_system_def)
  moreover have "initial_system\<lparr>Db := snd (Enqueue None ''sync'' 0 ''row-1'' sample_item (Db initial_system)),
      Issued := insert ''row-1'' (Issued initial_system)\<rparr> = sample_queued"
    by (simp add: sample_queued_def initial_system_def)
  ultimately show "run_of queue_step initial_system [Quiet] sample_queued" by (simp add: run_of_cons)
  have "ClaimNext None (Now sample_queued) ''claim-1'' (\<lambda>_. False) (Db sample_queued) =
      (Inr (Some sample_claim), Db sample_claimed)"
    by (simp add: sample_system ClaimNext_def ready_def fresh_row_def sample_claim_def sample_item_def index_participant_def
        claim_row_def)
  from queue_step.claim [OF _ this]
  show "queue_step sample_queued (Claims (Some sample_claim)) sample_claimed"
    by (simp add: sample_system sample_claimed_def)
qed

lemma initial_ok: "queue_ok initial_system"
  by (simp add: queue_ok_def initial_system_def)

subsection \<open>Properties\<close>

text \<open>C9: In every state the store can reach, the queue has one row per id and per catalog; a row is in progress
  exactly when it carries a claim token and a claim time; it is parked or abandoned exactly when it is
  unclaimable (\<open>next_attempt_at\<close> infinite) and stamped as parked; and it is stamped as abandoned
  exactly when its status says so.\<close>

theorem queue_invariant:
  assumes "run_of queue_step initial_system ls s"
  shows "distinct (map QId (crawler_queue (Db s))) \<and> distinct (map QCatalogId (crawler_queue (Db s))) \<and>
    (\<forall>r \<in> set (crawler_queue (Db s)).
      (QStatus r = InProgress \<longleftrightarrow> QClaimedAt r \<noteq> None) \<and> (QClaimedAt r = None \<longleftrightarrow> QClaimId r = None) \<and>
      (QStatus r \<in> {Parked, Abandoned} \<longleftrightarrow> QNextAttemptAt r = PgInfinity) \<and>
      (QStatus r \<in> {Parked, Abandoned} \<longleftrightarrow> QParkedAt r \<noteq> None) \<and>
      (QStatus r = Abandoned \<longleftrightarrow> QAbandonedAt r \<noteq> None))"
  using crawler.ok_run [OF assms initial_ok] unfolding queue_ok_def row_ok_def by blast

theorem queue_invariant_witness:
  "distinct (map QCatalogId (crawler_queue (Db sample_queued))) \<and> crawler_queue (Db sample_queued) \<noteq> []"
  using queue_invariant [OF sample_queue_run(1)] by (simp add: sample_system)

text \<open>C8: A claim is exclusive for the length of its lease: once a worker has claimed an item, no sequence of
  calls by others and no passing of time up to 15 minutes makes \<open>ClaimNext\<close> hand the same
  row out again, unless the holder settles it; the row keeps the holder's token all along.\<close>

theorem claim_exclusive:
  assumes "run_of queue_step initial_system ls0 s" and "queue_step s (Claims (Some c)) s1"
    and "run_of queue_step s1 ls s2" and "Settles (ClID c) (ClClaimID c) \<notin> set ls" and "Now s2 \<le> Now s + claimLease"
  shows "(\<exists>r \<in> set (crawler_queue (Db s2)). QId r = ClID c \<and> QClaimId r = Some (ClClaimID c)) \<and>
    (\<forall>c'. Claims (Some c') \<in> set ls \<longrightarrow> ClID c' \<noteq> ClID c)"
proof -
  have ok: "queue_ok s" using crawler.ok_run [OF assms(1) initial_ok] .
  obtain u locked d where u: "ClaimNext None (Now s) u locked (Db s) = (Inr (Some c), d)"
    and s1: "s1 = s\<lparr>Db := d, Issued := insert u (Issued s)\<rparr>"
    using assms(2) by (auto elim: queue_step_claims)
  obtain r where r: "r \<in> set (crawler_queue (Db s))" "ClID c = QId r" "ClClaimID c = u"
    and d: "crawler_queue d = map (\<lambda>q. if QId q = QId r then claim_row (Now s) u q else q) (crawler_queue (Db s))"
    by (rule ClaimNext_some [OF u]) (rule that)
  have "claim_row (Now s) u r \<in> set (crawler_queue d)" unfolding d by (rule mapped_at) (use r in simp_all)
  then have "holds_claim s1 (ClID c) (ClClaimID c) (Now s)"
    using r unfolding holds_claim_def s1 by (intro bexI [of _ "claim_row (Now s) u r"]) (simp_all add: claim_row_def)
  with crawler.hold_run [OF assms(3) _ this] ok assms(2,4,5) show ?thesis
    by (fastforce simp: holds_claim_def dest: queue_step_ok)
qed

theorem claim_exclusive_witness:
  "(\<exists>r \<in> set (crawler_queue (Db sample_claimed)). QId r = ''row-1'' \<and> QClaimId r = Some ''claim-1'')"
  using claim_exclusive [OF sample_queue_run run_nil] by (simp add: sample_system sample_claim_def claimLease_def)

text \<open>\<open>ClaimNext\<close> hands out a row that is due, not parked or abandoned, and free or past its lease, with the
  smallest next attempt among all such rows that no other transaction locks, stamps it with the fresh
  token, and hands out nothing exactly when there is none.\<close>

theorem ClaimNext_earliest:
  assumes "queue_ok s" and "ClaimNext None now u locked (Db s) = (res, d)"
  shows "(case res of
      Inr (Some c) \<Rightarrow>
        (\<exists>r \<in> set (crawler_queue (Db s)). ClID c = QId r \<and> ClClaimID c = u \<and> ready now r \<and> \<not> locked r \<and>
           QStatus r \<in> {Queued, InProgress} \<and> claim_row now u r \<in> set (crawler_queue d) \<and>
           (\<forall>r' \<in> set (crawler_queue (Db s)). ready now r' \<and> \<not> locked r' \<longrightarrow> QNextAttemptAt r \<le> QNextAttemptAt r'))
    | Inr None \<Rightarrow> d = Db s \<and> (\<forall>r \<in> set (crawler_queue (Db s)). ready now r \<longrightarrow> locked r)
    | Inl e \<Rightarrow> False)"
proof -
  have "\<exists>c. res = Inr c" using assms(2) by (auto simp: ClaimNext_def split: option.splits)
  then consider (none) "res = Inr None" | (some) c where "res = Inr (Some c)" by (metis option.exhaust)
  then show ?thesis
  proof cases
    case none
    then show ?thesis using assms(2) by (simp add: ClaimNext_none)
  next
    case some
    obtain r where r: "r \<in> set (crawler_queue (Db s))" "ready now r" "\<not> locked r" "ClID c = QId r" "ClClaimID c = u"
      and d: "crawler_queue d = map (\<lambda>q. if QId q = QId r then claim_row now u q else q) (crawler_queue (Db s))"
      and least: "\<And>r'. r' \<in> set (crawler_queue (Db s)) \<Longrightarrow> ready now r' \<Longrightarrow> \<not> locked r' \<Longrightarrow> QNextAttemptAt r \<le> QNextAttemptAt r'"
      using assms(2) unfolding some by (rule ClaimNext_some) (rule that)
    have "row_ok r" using assms(1) r(1) by (simp add: queue_ok_def)
    then have "QStatus r \<in> {Queued, InProgress}"
      using r(2) by (cases "QStatus r") (auto simp: row_ok_def ready_def)
    moreover have "claim_row now u r \<in> set (crawler_queue d)" unfolding d by (rule mapped_at) (use r in simp_all)
    ultimately show ?thesis using r least unfolding some by (simp, intro bexI [of _ r]) simp_all
  qed
qed

theorem ClaimNext_earliest_witness:
  "\<exists>c d. ClaimNext None 0 ''claim-1'' (\<lambda>_. False) (Db sample_queued) = (Inr (Some c), d) \<and> ClClaimID c = ''claim-1'' \<and>
     (\<exists>r \<in> set (crawler_queue (Db sample_queued)). ClID c = QId r \<and> QStatus r \<in> {Queued, InProgress})"
proof -
  have "queue_ok sample_queued" using crawler.ok_run [OF sample_queue_run(1) initial_ok] .
  moreover obtain c d where c: "ClaimNext None 0 ''claim-1'' (\<lambda>_. False) (Db sample_queued) = (Inr (Some c), d)"
    by (simp add: sample_system ClaimNext_def ready_def fresh_row_def)
  ultimately show ?thesis using ClaimNext_earliest [OF _ c] by auto
qed

text \<open>Only the holder of a claim settles its row: with a token that no row carries, \<open>Reschedule\<close> and \<open>Park\<close>
  change nothing and \<open>Complete\<close> removes nothing. \<open>Complete\<close> still writes the cursor, so that a worker
  whose lease ran out overwrites what the new holder recorded.\<close>

theorem stale_claim_settles_nothing:
  assumes "\<forall>r \<in> set (crawler_queue s). \<not> claimed_by i c r"
  shows "snd (Reschedule err i c nxt s) = s \<and> snd (Park err now i c s) = s \<and>
    crawler_queue (snd (Complete errs now i c cur s)) = crawler_queue s \<and>
    (CurIndexURL cur \<noteq> [] \<longrightarrow>
      (\<exists>d row. Complete (None, None, None, None) now i c cur s = (None, d) \<and>
         map_of (crawler_catalog d) (CurCatalogID cur) = Some row \<and> CVersion row = Some (CurVersion cur)))"
proof (intro conjI impI)
  have same: "map (\<lambda>r. if claimed_by i c r then f r else r) (crawler_queue s) = crawler_queue s" for f
    using assms by (simp add: map_idI)
  show "snd (Reschedule err i c nxt s) = s" "snd (Park err now i c s) = s"
    by (simp_all add: Reschedule_def Park_def same split: option.splits)
  have "filter (\<lambda>r. \<not> claimed_by i c r) (crawler_queue s) = crawler_queue s"
    using assms by (simp add: filter_id_conv)
  then show "crawler_queue (snd (Complete errs now i c cur s)) = crawler_queue s"
    using settled_queue(3) [of errs now i c cur s "fst (Complete errs now i c cur s)"] by auto
  show "\<exists>d row. Complete (None, None, None, None) now i c cur s = (None, d) \<and>
      map_of (crawler_catalog d) (CurCatalogID cur) = Some row \<and> CVersion row = Some (CurVersion cur)"
    if "CurIndexURL cur \<noteq> []"
    using that by (simp add: Complete_def upsertCatalog_def settled_row_def Let_def update_conv)
qed

definition sample_cursor :: CatalogCursor where
  "sample_cursor = \<lparr>CurCatalogID = ''cat-1'', CurIndexURL = ''https://bpp.example.com/index'', CurParticipantID = [],
     CurVersion = 7, CurEntryVersion = 9, CurRetired = False, CurDescriptor = [], CurProvider = [], CurCatalogType = []\<rparr>"

theorem stale_claim_settles_nothing_witness:
  "\<exists>d row. Complete (None, None, None, None) 0 ''row-1'' ''stale'' sample_cursor (Db sample_claimed) = (None, d) \<and>
     map_of (crawler_catalog d) ''cat-1'' = Some row \<and> CVersion row = Some 7"
  using stale_claim_settles_nothing [of "Db sample_claimed" "''row-1''" "''stale''" None "At 0" 0 "(None, None, None, None)" sample_cursor]
  by (simp add: sample_system claimed_by_def claim_row_def sample_cursor_def)

text \<open>\<open>Complete\<close> is atomic: an error of any of its statements leaves every table as it was; without one,
  the row of the holder is gone, every other row stays, and the cursor of the catalog reads back as
  written, while an envelope captured earlier survives a settlement that carries none.\<close>

theorem Complete_atomic:
  assumes "Complete errs now i c cur s = (res, d)"
  shows "case res of
      Some e \<Rightarrow> d = s
    | None \<Rightarrow> crawler_queue d = filter (\<lambda>r. \<not> claimed_by i c r) (crawler_queue s) \<and> crawler_index d = crawler_index s \<and>
        GetCatalogCursor None (CurCatalogID cur) d =
          Inr (cur\<lparr>CurDescriptor := [], CurProvider := [], CurCatalogType := []\<rparr>, True) \<and>
        (\<forall>k. k \<noteq> CurCatalogID cur \<longrightarrow> map_of (crawler_catalog d) k = map_of (crawler_catalog s) k) \<and>
        (\<forall>old. map_of (crawler_catalog s) (CurCatalogID cur) = Some old \<longrightarrow> CurDescriptor cur = [] \<longrightarrow>
           (\<exists>row. map_of (crawler_catalog d) (CurCatalogID cur) = Some row \<and> CDescriptor row = CDescriptor old))"
proof (cases res)
  case (Some e)
  then show ?thesis
    using assms by (auto simp: Complete_def split: option.splits prod.splits)
next
  case None
  then have errs: "errs = (None, None, None, None)" and url: "CurIndexURL cur \<noteq> []"
    using assms by (auto simp: Complete_def upsertCatalog_def split: option.splits prod.splits if_splits)
  let ?row = "settled_row now cur (map_of (crawler_catalog s) (CurCatalogID cur))"
  have "d = s\<lparr>crawler_catalog := AList.update (CurCatalogID cur) ?row (crawler_catalog s),
      crawler_queue := filter (\<lambda>r. \<not> claimed_by i c r) (crawler_queue s)\<rparr>"
    using assms url unfolding errs None by (simp add: Complete_def upsertCatalog_def)
  moreover have "CDescriptor ?row = CDescriptor old"
    if "map_of (crawler_catalog s) (CurCatalogID cur) = Some old" "CurDescriptor cur = []" for old
    using that by (simp add: settled_row_def coalesce_def nullStr_def)
  moreover have "null_string (nullStr x) = x" for x by (simp add: null_string_def nullStr_def)
  ultimately show ?thesis
    by (simp add: None GetCatalogCursor_def update_conv settled_row_def Let_def)
qed

theorem Complete_atomic_witness:
  "\<exists>d. Complete (None, None, None, None) 0 ''row-1'' ''claim-1'' sample_cursor (Db sample_claimed) = (None, d) \<and> crawler_queue d = []"
proof -
  obtain d where d: "Complete (None, None, None, None) 0 ''row-1'' ''claim-1'' sample_cursor (Db sample_claimed) = (None, d)"
    by (simp add: Complete_def upsertCatalog_def sample_cursor_def Let_def)
  then show ?thesis
    using Complete_atomic [OF d] by (simp add: sample_system claimed_by_def claim_row_def fresh_row_def)
qed

text \<open>A sweep over the parked rows treats every row that has been parked long enough exactly once: it goes back
  to the queue when its park count is within the limit and is abandoned otherwise, all other rows are
  untouched, the two counts are the numbers of such rows, and a second sweep at the same time finds
  nothing to do.\<close>

theorem sweep_partitions_parked:
  assumes "RequeueOrAbandonParked ((None, None), (None, None)) now now olderThan maxParkCount s = (res, d)"
  shows "crawler_queue d =
      map (\<lambda>r. if \<not> parked_since now olderThan r then r
               else if QParkCount r \<le> maxParkCount then revive_row now r else abandon_row now r) (crawler_queue s) \<and>
    (\<exists>revived abandoned. res = (revived, abandoned, None) \<and>
       revived + abandoned = length (filter (parked_since now olderThan) (crawler_queue s)) \<and>
       abandoned = length (filter (\<lambda>r. parked_since now olderThan r \<and> QParkCount r > maxParkCount) (crawler_queue s))) \<and>
    RequeueOrAbandonParked ((None, None), (None, None)) now now olderThan maxParkCount d = ((0, 0, None), d)"
proof -
  let ?p = "parked_since now olderThan"
  let ?f1 = "\<lambda>r. if ?p r \<and> QParkCount r \<le> maxParkCount then revive_row now r else r"
  let ?f2 = "\<lambda>r. if ?p r \<and> QParkCount r > maxParkCount then abandon_row now r else r"
  let ?f = "\<lambda>r. if \<not> ?p r then r else if QParkCount r \<le> maxParkCount then revive_row now r else abandon_row now r"
  have gone: "\<not> ?p (revive_row now r)" "\<not> ?p (abandon_row now r)" for r
    by (simp_all add: parked_since_def revive_row_def abandon_row_def)
  have comp: "?f2 (?f1 r) = ?f r" and cnt: "?p (?f1 r) \<and> QParkCount (?f1 r) > maxParkCount \<longleftrightarrow>
      ?p r \<and> QParkCount r > maxParkCount" for r
    using gone [of r] by auto
  have d: "crawler_queue d = map ?f (crawler_queue s)"
    and res: "res = (length (filter (\<lambda>r. ?p r \<and> QParkCount r \<le> maxParkCount) (crawler_queue s)),
      length (filter (\<lambda>r. ?p r \<and> QParkCount r > maxParkCount) (crawler_queue s)), None)"
    using assms unfolding RequeueOrAbandonParked_def update_where_def Let_def
    by (auto simp: comp filter_map comp_def cnt simp del: not_less simp flip: comp)
  have count: "length (filter (\<lambda>r. ?p r \<and> QParkCount r \<le> maxParkCount) q) + length (filter (\<lambda>r. ?p r \<and> QParkCount r > maxParkCount) q) =
      length (filter ?p q)" for q
    by (induction q) auto
  have quiet: "\<forall>r \<in> set (crawler_queue d). \<not> ?p r" using gone by (auto simp: d)
  then have "RequeueOrAbandonParked ((None, None), (None, None)) now now olderThan maxParkCount d = ((0, 0, None), d)"
    by (simp add: RequeueOrAbandonParked_def update_where_def map_idI filter_empty_conv)
  with d res count show ?thesis by simp
qed

theorem sweep_partitions_parked_witness:
  "\<exists>res d. RequeueOrAbandonParked ((None, None), (None, None)) 10 10 5 1 (snd (Park None 0 ''row-1'' ''claim-1'' (Db sample_claimed))) = (res, d) \<and>
     map QStatus (crawler_queue d) = [Queued]"
proof -
  obtain res d where r: "RequeueOrAbandonParked ((None, None), (None, None)) 10 10 5 1
      (snd (Park None 0 ''row-1'' ''claim-1'' (Db sample_claimed))) = (res, d)"
    by fastforce
  then show ?thesis
    using sweep_partitions_parked [OF r]
    by (simp add: sample_system Park_def claimed_by_def claim_row_def fresh_row_def park_row_def parked_since_def revive_row_def)
qed

end
