(* ===== verification/Json_Values.thy ===== *)
theory Json_Values
  imports Json_Roundtrip "HOL-Library.List_Lexorder" "HOL-Library.Char_ord"
begin

text \<open>
  Decoded JSON as Go values. \<open>json.Unmarshal\<close> into \<open>any\<close> turns an object into a map, in which the
  last of several equal keys wins, and a number into a \<open>float64\<close>; \<open>json.Marshal\<close> writes the keys
  of a map in byte order. \<open>json.Unmarshal\<close> into \<open>map[string]json.RawMessage\<close> keeps the text of
  each member, and \<open>json.Marshal\<close> of such a map compacts it. A Go map is an association list
  without repeated keys; its order stands for the order in which \<open>range\<close> visits the map.

  The reading of a number into a \<open>float64\<close> and the shortest text of a \<open>float64\<close> are the two
  fields of \<open>Float64\<close>.
\<close>

subsection \<open>Untyped values\<close>

record Float64 =
  InRange :: "string \<Rightarrow> bool"
  FloatText :: "string \<Rightarrow> string"

fun numbers_ok :: "Float64 \<Rightarrow> json \<Rightarrow> bool" where
  "numbers_ok F (JNum s) = InRange F s"
| "numbers_ok F (JArr vs) = list_all (numbers_ok F) vs"
| "numbers_ok F (JObj kvs) = list_all (\<lambda>p. numbers_ok F (snd p)) kvs"
| "numbers_ok F v = True"

text \<open>A map built by inserting the members one after the other.\<close>

fun last_wins :: "(string \<times> 'a) list \<Rightarrow> (string \<times> 'a) list" where
  "last_wins [] = []"
| "last_wins (kv # kvs) =
     (if fst kv \<in> fst ` set kvs then last_wins kvs else kv # last_wins kvs)"

fun go_value :: "Float64 \<Rightarrow> json \<Rightarrow> json" where
  "go_value F (JNum s) = JNum (FloatText F s)"
| "go_value F (JArr vs) = JArr (map (go_value F) vs)"
| "go_value F (JObj kvs) = JObj (last_wins (map (\<lambda>p. (fst p, go_value F (snd p))) kvs))"
| "go_value F v = v"

text \<open>\<open>json.Unmarshal(data, &v)\<close> for \<open>var v any\<close>; \<^term>\<open>None\<close> is the error.\<close>

definition unmarshal_any :: "Float64 \<Rightarrow> string \<Rightarrow> json option" where
  "unmarshal_any F s =
     (case json_decode s of
        None \<Rightarrow> None
      | Some v \<Rightarrow> if numbers_ok F v then Some (go_value F v) else None)"

text \<open>
  \<open>json.Unmarshal(data, &m)\<close> for a variable \<open>m map[string]any\<close>. The decoder keeps the entries
  that a map already has and sets a map to nil for the literal \<open>null\<close>; a nil map is
  \<^term>\<open>None\<close>.
\<close>

definition go_set :: "(string \<times> 'a) list \<Rightarrow> string \<Rightarrow> 'a \<Rightarrow> (string \<times> 'a) list" where
  "go_set m k v =
     (if k \<in> fst ` set m then map (\<lambda>p. if fst p = k then (k, v) else p) m else m @ [(k, v)])"

definition go_entries :: "(string \<times> 'a) list option \<Rightarrow> (string \<times> 'a) list" where
  "go_entries m = (case m of None \<Rightarrow> [] | Some kvs \<Rightarrow> kvs)"

definition unmarshal_map ::
  "Float64 \<Rightarrow> string \<Rightarrow> (string \<times> json) list option \<Rightarrow> (string \<times> json) list option option" where
  "unmarshal_map F s m =
     (case unmarshal_any F s of
        Some (JObj kvs) \<Rightarrow> Some (Some (foldl (\<lambda>acc p. go_set acc (fst p) (snd p)) (go_entries m) kvs))
      | Some JNull \<Rightarrow> Some None
      | _ \<Rightarrow> None)"

text \<open>\<open>json.Marshal\<close> of an untyped value; it cannot fail on a decoded value.\<close>

fun sort_members :: "json \<Rightarrow> json" where
  "sort_members (JArr vs) = JArr (map sort_members vs)"
| "sort_members (JObj kvs) = JObj (sort_key fst (map (\<lambda>p. (fst p, sort_members (snd p))) kvs))"
| "sort_members v = v"

definition marshal_any :: "json \<Rightarrow> string" where
  "marshal_any v = json_encode (sort_members v)"

text \<open>A nil map is written as \<open>null\<close>.\<close>

definition marshal_map :: "(string \<times> json) list option \<Rightarrow> string" where
  "marshal_map m = (case m of None \<Rightarrow> ''null'' | Some kvs \<Rightarrow> marshal_any (JObj kvs))"

subsection \<open>Raw messages\<close>

definition trim_ws :: "string \<Rightarrow> string" where
  "trim_ws s = rev (dropWhile is_ws (rev (dropWhile is_ws s)))"

text \<open>The key of the outermost member whose value the scanner is reading.\<close>

definition open_member :: "scan_state \<Rightarrow> string option" where
  "open_member st =
     (case rev (snd st) of FMem kvs k # _ \<Rightarrow> Some k | _ \<Rightarrow> None)"

text \<open>The scanner of \<open>Go_Json\<close>, with the text of the members of the outermost object.\<close>

fun raw_run :: "scan_state \<Rightarrow> string \<Rightarrow> (string \<times> string) list \<Rightarrow> string \<Rightarrow>
    ((string \<times> string) list \<times> scan_state) option" where
  "raw_run st raw acc [] = Some (rev acc, st)"
| "raw_run st raw acc (c # s) =
     (case scan st c of
        None \<Rightarrow> None
      | Some st' \<Rightarrow>
          (case open_member st of
             None \<Rightarrow> raw_run st' [] acc s
           | Some k \<Rightarrow>
               if open_member st' = None then raw_run st' [] ((k, trim_ws (rev raw)) # acc) s
               else raw_run st' (c # raw) acc s))"

text \<open>\<open>json.Unmarshal\<close> into a nil \<open>map[string]json.RawMessage\<close>.\<close>

definition unmarshal_raw :: "string \<Rightarrow> (string \<times> string) list option option" where
  "unmarshal_raw s =
     (case raw_run (MValue, []) [] [] (s @ '' '') of
        Some (members, MAfter (JObj kvs), []) \<Rightarrow> Some (Some (last_wins members))
      | Some (members, MAfter JNull, []) \<Rightarrow> Some None
      | _ \<Rightarrow> None)"

text \<open>
  The compaction of a raw message: blanks outside strings are dropped, and the characters that
  \<open>json.Marshal\<close> escapes in strings are escaped. The flag says whether the text is inside a
  string.
\<close>

fun compact :: "bool \<Rightarrow> string \<Rightarrow> string" where
  "compact b [] = []"
| "compact b (c # s) =
     (if \<not> b then
        (if is_ws c then compact False s
         else if c = CHR 0x22 then c # compact True s else c # compact False s)
      else if c = CHR 0x22 then c # compact False s
      else if c = CHR 0x5C then (case s of [] \<Rightarrow> [c] | e # t \<Rightarrow> c # e # compact True t)
      else if c = CHR ''<'' \<or> c = CHR ''>'' \<or> c = CHR ''&'' then escape_ascii c @ compact True s
      else if HasPrefix (c # s) [CHR 0xE2, CHR 0x80, CHR 0xA8] then CHR 0x5C # ''u2028'' @ compact True (drop 2 s)
      else if HasPrefix (c # s) [CHR 0xE2, CHR 0x80, CHR 0xA9] then CHR 0x5C # ''u2029'' @ compact True (drop 2 s)
      else c # compact True s)"

definition marshal_raw :: "(string \<times> string) list \<Rightarrow> string" where
  "marshal_raw m =
     CHR ''{'' # Join (map (\<lambda>p. json_quote (fst p) @ CHR '':'' # compact False (snd p)) (sort_key fst m)) '','' @ ''}''"

lemma sort_members_nums: "json_nums v \<Longrightarrow> json_nums (sort_members v)"
proof (induction v)
  case (JObj kvs)
  then have "json_nums (sort_members (snd p))" if "p \<in> set kvs" for p
    using that by (cases p) (fastforce simp: list_all_iff)
  then show ?case by (auto simp: list_all_iff)
qed (auto simp: list_all_iff)

lemma fold_max_set: "fold max xs (0 :: nat) = Max (insert 0 (set xs))"
  using Max.set_eq_fold [of 0 xs] by simp

lemma sort_members_depth: "json_depth (sort_members v) = json_depth v"
proof (induction v)
  case (JArr vs)
  then show ?case by (simp add: fold_max_set image_image cong: image_cong)
next
  case (JObj kvs)
  have "json_depth (sort_members (snd p)) = json_depth (snd p)" if "p \<in> set kvs" for p
    using JObj.IH [of p "snd p"] that by (auto simp: snds.simps)
  then have "(\<lambda>p. json_depth (sort_members (snd p))) ` set kvs = (\<lambda>p. json_depth (snd p)) ` set kvs" by (rule image_cong [OF refl])
  then show ?case by (simp add: fold_max_set image_image)
qed simp_all

end
