(* ===== verification/Json_Paths.thy ===== *)
theory Json_Paths
  imports Json_Values Beckn_Model "HOL-Library.Sublist"
begin

text \<open>
  The path navigation of \<open>schemaversionmediator.go\<close>: \<open>parsePathSegment\<close>, \<open>getAtPath\<close> and
  \<open>setAtPath\<close> on a decoded message. The specification is navigation by a list of accesses (a key
  of an object or an index of an array); the functions of the source are shown to refine it.
  The locale \<open>value_paths\<close> states what the mediation loop relies on: an update at a path can be
  read back there and is not seen at paths apart from it.
\<close>

subsection \<open>Navigation as the source has it\<close>

fun LastIndexByte :: "char \<Rightarrow> string \<Rightarrow> nat option" where
  "LastIndexByte c [] = None"
| "LastIndexByte c (x # s) =
     (case LastIndexByte c s of
        Some i \<Rightarrow> Some (Suc i)
      | None \<Rightarrow> if x = c then Some 0 else None)"

definition HasSuffix :: "string \<Rightarrow> string \<Rightarrow> bool" where
  "HasSuffix s p \<longleftrightarrow> HasPrefix (rev s) (rev p)"

definition parsePathSegment :: "string \<Rightarrow> string \<times> int" where
  "parsePathSegment s =
     (case LastIndexByte (CHR ''['') s of
        None \<Rightarrow> (s, - 1)
      | Some i \<Rightarrow>
          if HasSuffix s '']'' then
            (case Atoi (drop (i + 1) (take (length s - 1) s)) of
               Some n \<Rightarrow> (take i s, n)
             | None \<Rightarrow> (s, - 1))
          else (s, - 1))"

text \<open>The verb \<open>%T\<close> on an untyped value.\<close>

definition go_type :: "json \<Rightarrow> string" where
  "go_type v = (case v of
      JNull \<Rightarrow> ''<nil>'' | JBool _ \<Rightarrow> ''bool'' | JNum _ \<Rightarrow> ''float64'' | JStr _ \<Rightarrow> ''string''
    | JArr _ \<Rightarrow> ''[]interface {}'' | JObj _ \<Rightarrow> ''map[string]interface {}'')"

definition expected_object :: "string \<Rightarrow> json \<Rightarrow> goerr" where
  "expected_object key v =
     ErrText (''expected object at segment '' @ go_quote key @ '', got '' @ go_type v)"

definition expected_array :: "string \<Rightarrow> json \<Rightarrow> goerr" where
  "expected_array key v =
     ErrText (''expected array at segment '' @ go_quote key @ '', got '' @ go_type v)"

definition out_of_range :: "string \<Rightarrow> int \<Rightarrow> string \<Rightarrow> nat \<Rightarrow> goerr" where
  "out_of_range place idx key n =
     ErrText (''index '' @ int_dec idx @ '' out of range at '' @ place @ go_quote key @
       '' (len '' @ nat_dec n @ '')'')"

text \<open>One turn of the loop of \<open>getAtPath\<close>, and the loop over the parts of the path.\<close>

definition get_part :: "json \<Rightarrow> string \<Rightarrow> goerr + json" where
  "get_part cur part =
     (let (key, idx) = parsePathSegment part in
      case cur of
        JObj m \<Rightarrow>
          (case jget m key of
             None \<Rightarrow> Inl (ErrText (''key '' @ go_quote key @ '' not found''))
           | Some val \<Rightarrow>
               if idx \<ge> 0 then
                 (case val of
                    JArr arr \<Rightarrow>
                      if idx \<ge> int (length arr) then Inl (out_of_range [] idx key (length arr))
                      else Inr (arr ! nat idx)
                  | _ \<Rightarrow> Inl (expected_array key val))
               else Inr val)
      | _ \<Rightarrow> Inl (expected_object key cur))"

fun get_parts :: "json \<Rightarrow> string list \<Rightarrow> goerr + json" where
  "get_parts cur [] = Inr cur"
| "get_parts cur (part # parts) =
     (case get_part cur part of Inl e \<Rightarrow> Inl e | Inr v \<Rightarrow> get_parts v parts)"

definition getAtPath :: "(string \<times> json) list \<Rightarrow> string \<Rightarrow> goerr + json" where
  "getAtPath obj relPath = get_parts (JObj obj) (Split (CHR ''.'') relPath)"

text \<open>
  \<open>setAtPath\<close> walks to the parent of the leaf and assigns there; the objects on the way are
  shared, so the assignment changes the whole object. A missing key on the way reads as nil.
\<close>

fun set_parts :: "json \<Rightarrow> string list \<Rightarrow> json \<Rightarrow> goerr + json" where
  "set_parts cur [] v = Inr v"
| "set_parts cur [part] v =
     (let (key, idx) = parsePathSegment part in
      case cur of
        JObj m \<Rightarrow>
          if idx \<ge> 0 then
            (case jget m key of
               Some (JArr arr) \<Rightarrow>
                 if idx \<ge> int (length arr) then Inl (out_of_range ''leaf '' idx key (length arr))
                 else Inr (JObj (go_set m key (JArr (arr[nat idx := v]))))
             | _ \<Rightarrow> Inl (ErrText (''expected array at leaf '' @ go_quote key)))
          else Inr (JObj (go_set m key v))
      | _ \<Rightarrow> Inl (ErrText (''parent of '' @ go_quote key @ '' is not an object, got '' @ go_type cur)))"
| "set_parts cur (part # p # ps) v =
     (let (key, idx) = parsePathSegment part in
      case cur of
        JObj m \<Rightarrow>
          (let val = (case jget m key of None \<Rightarrow> JNull | Some x \<Rightarrow> x) in
           if idx \<ge> 0 then
             (case val of
                JArr arr \<Rightarrow>
                  if idx \<ge> int (length arr) then Inl (out_of_range [] idx key (length arr))
                  else
                    (case set_parts (arr ! nat idx) (p # ps) v of
                       Inl e \<Rightarrow> Inl e
                     | Inr x \<Rightarrow> Inr (JObj (go_set m key (JArr (arr[nat idx := x])))))
              | _ \<Rightarrow> Inl (expected_array key val))
           else
             (case set_parts val (p # ps) v of
                Inl e \<Rightarrow> Inl e
              | Inr x \<Rightarrow> Inr (JObj (go_set m key x))))
      | _ \<Rightarrow> Inl (expected_object key cur))"

definition setAtPath :: "(string \<times> json) list \<Rightarrow> string \<Rightarrow> json \<Rightarrow> goerr + (string \<times> json) list" where
  "setAtPath obj relPath v =
     (case set_parts (JObj obj) (Split (CHR ''.'') relPath) v of
        Inl e \<Rightarrow> Inl e
      | Inr (JObj m) \<Rightarrow> Inr m
      | Inr _ \<Rightarrow> Inl (GoPanic ''unreachable''))"

subsection \<open>Navigation by accesses\<close>

datatype access = AKey string | AIdx nat

fun aget :: "json \<Rightarrow> access list \<Rightarrow> json option" where
  "aget v [] = Some v"
| "aget (JObj m) (AKey k # as) = (case jget m k of None \<Rightarrow> None | Some x \<Rightarrow> aget x as)"
| "aget (JArr xs) (AIdx i # as) = (if i < length xs then aget (xs ! i) as else None)"
| "aget v (a # as) = None"

fun aput :: "json \<Rightarrow> access list \<Rightarrow> json \<Rightarrow> json option" where
  "aput v [] x = Some x"
| "aput (JObj m) (AKey k # as) x =
     (case jget m k of
        None \<Rightarrow> if as = [] then Some (JObj (go_set m k x)) else None
      | Some y \<Rightarrow> map_option (\<lambda>z. JObj (go_set m k z)) (aput y as x))"
| "aput (JArr xs) (AIdx i # as) x =
     (if i < length xs then map_option (\<lambda>z. JArr (xs[i := z])) (aput (xs ! i) as x) else None)"
| "aput v (a # as) x = None"

definition part_accesses :: "string \<Rightarrow> access list" where
  "part_accesses part =
     (let (key, idx) = parsePathSegment part in AKey key # (if idx \<ge> 0 then [AIdx (nat idx)] else []))"

definition path_accesses :: "string \<Rightarrow> access list" where
  "path_accesses relPath = concat (map part_accesses (Split (CHR ''.'') relPath))"

definition paths_apart :: "string \<Rightarrow> string \<Rightarrow> bool" where
  "paths_apart p q \<longleftrightarrow> path_accesses p \<parallel> path_accesses q"

subsection \<open>Lemmas\<close>

lemma jget_None: "jget m k = None \<longleftrightarrow> k \<notin> fst ` set m"
  by (simp add: jget_def map_of_eq_None_iff)

lemma jget_go_set [simp]: "jget (go_set m k v) k' = (if k' = k then Some v else jget m k')"
proof (cases "k \<in> fst ` set m")
  case True
  have "map_of (map (\<lambda>p. if fst p = k then (k, v) else p) xs) k' =
      (if k' = k \<and> map_of xs k \<noteq> None then Some v else map_of xs k')" for xs
    by (induction xs) auto
  with True jget_None [of m k] show ?thesis by (simp add: jget_def go_set_def rev_map)
next
  case False
  then show ?thesis by (simp add: jget_def go_set_def)
qed

lemma parallel_Cons_same: "a # as \<parallel> a # bs \<longleftrightarrow> as \<parallel> bs"
  by (simp add: parallel_def)

lemma aget_append: "aget v (as @ bs) = Option.bind (aget v as) (\<lambda>x. aget x bs)"
  by (induction v as rule: aget.induct) (auto split: option.splits)

lemma aget_aput: "aput v as x = Some v' \<Longrightarrow> aget v' as = Some x"
  by (induction v as x arbitrary: v' rule: aput.induct) (auto split: option.splits if_splits)

lemma aput_defined: "aget v as = Some y \<Longrightarrow> \<exists>v'. aput v as x = Some v'"
  by (induction v as x arbitrary: y rule: aput.induct) (auto split: option.splits if_splits)

lemma aget_aput_apart: "aput v as x = Some v' \<Longrightarrow> as \<parallel> bs \<Longrightarrow> aget v' bs = aget v bs"
proof (induction v as x arbitrary: v' bs rule: aput.induct)
  case (2 m k as x)
  then obtain b bs' where b: "bs = b # bs'" by (cases bs) auto
  show ?case
  proof (cases "b = AKey k")
    case True
    with 2(3) b have "as \<parallel> bs'" by (simp add: parallel_Cons_same)
    with 2 True b show ?thesis by (auto split: option.splits if_splits)
  next
    case False
    with 2 b show ?thesis by (cases b) (auto split: option.splits if_splits)
  qed
next
  case (3 xs i as x)
  then obtain b bs' where b: "bs = b # bs'" by (cases bs) auto
  show ?case
  proof (cases "b = AIdx i")
    case True
    with 3(3) b have "as \<parallel> bs'" by (simp add: parallel_Cons_same)
    with 3 True b show ?thesis by (auto split: if_splits)
  next
    case False
    with 3 b show ?thesis by (cases b) (auto split: if_splits)
  qed
qed auto


text \<open>The value of a computation that may fail, without the error.\<close>

definition result :: "'e + 'a \<Rightarrow> 'a option" where
  "result r = (case r of Inl _ \<Rightarrow> None | Inr v \<Rightarrow> Some v)"

lemma result_simps [simp]: "result (Inl e) = None" "result (Inr v) = Some v"
  by (simp_all add: result_def)

lemma result_Some: "result r = Some v \<longleftrightarrow> r = Inr v"
  by (cases r) auto

lemma get_part_refines: "result (get_part cur part) = aget cur (part_accesses part)"
  by (cases cur) (auto simp: get_part_def part_accesses_def Let_def split: prod.splits option.splits json.splits)

lemma get_parts_refines: "result (get_parts cur parts) = aget cur (concat (map part_accesses parts))"
proof (induction parts arbitrary: cur)
  case (Cons part parts)
  have "aget cur (part_accesses part @ concat (map part_accesses parts)) =
      Option.bind (result (get_part cur part)) (\<lambda>x. result (get_parts x parts))"
    by (simp add: aget_append get_part_refines Cons.IH)
  then show ?case by (cases "get_part cur part") simp_all
qed simp

lemma getAtPath_refines: "result (getAtPath obj p) = aget (JObj obj) (path_accesses p)"
  by (simp add: getAtPath_def path_accesses_def get_parts_refines)

lemma part_accesses_nonempty [simp]: "part_accesses part \<noteq> []"
  by (simp add: part_accesses_def split: prod.splits)

lemma aput_key: "aput v (AKey k # as) x \<noteq> None \<Longrightarrow> \<exists>m. v = JObj m"
  by (cases v) auto

lemma set_parts_not_object: "parts \<noteq> [] \<Longrightarrow> \<forall>m. cur \<noteq> JObj m \<Longrightarrow> result (set_parts cur parts v) = None"
  by (induction cur parts v rule: set_parts.induct) (auto simp: Let_def split: json.splits prod.splits)

lemma result_map: "result (case r of Inl e \<Rightarrow> Inl e | Inr y \<Rightarrow> Inr (f y)) = map_option f (result r)"
  by (cases r) simp_all

lemma set_parts_refines:
  "parts \<noteq> [] \<Longrightarrow> result (set_parts cur parts v) = aput cur (concat (map part_accesses parts)) v"
proof (induction parts arbitrary: cur)
  case (Cons part rest)
  obtain key idx where part: "parsePathSegment part = (key, idx)" by (cases "parsePathSegment part")
  show ?case
  proof (cases rest)
    case Nil
    with part show ?thesis
      by (cases cur) (auto simp: part_accesses_def split: option.splits json.splits)
  next
    case (Cons p ps)
    with Cons.IH have ih: "result (set_parts x (p # ps) v) =
        aput x (part_accesses p @ concat (map part_accesses ps)) v" for x by simp
    have "aput JNull (part_accesses p @ concat (map part_accesses ps)) v = None"
      using set_parts_not_object [of "p # ps" JNull v] ih [of JNull] by simp
    with part Cons ih show ?thesis
      by (cases cur; cases "idx \<ge> 0")
        (auto simp: part_accesses_def [of part] result_map option.map_comp comp_def split: option.splits json.splits)
  qed
qed simp

lemma setAtPath_refines: "result (setAtPath obj p v) = Some m \<longleftrightarrow> aput (JObj obj) (path_accesses p) v = Some (JObj m)"
  using set_parts_refines [of "Split (CHR ''.'') p" "JObj obj" v]
  by (auto simp: setAtPath_def path_accesses_def result_def split: sum.splits json.splits)

lemma path_accesses_key: "\<exists>k as. path_accesses p = AKey k # as"
  by (cases "Split (CHR ''.'') p") (auto simp: path_accesses_def part_accesses_def split: prod.splits)

lemma setAtPath_defined:
  assumes "getAtPath obj p = Inr y"
  shows "\<exists>m. setAtPath obj p x = Inr m"
proof -
  obtain k as where ka: "path_accesses p = AKey k # as" using path_accesses_key by blast
  from assms getAtPath_refines [of obj p] have "aget (JObj obj) (path_accesses p) = Some y" by simp
  from aput_defined [OF this] obtain v' where v': "aput (JObj obj) (path_accesses p) x = Some v'" by blast
  with ka obtain m where "v' = JObj m" by (auto split: option.splits if_splits)
  with v' setAtPath_refines [of obj p x m] show ?thesis by (auto simp: result_Some)
qed

subsection \<open>What a client relies on\<close>

text \<open>
  The rewriting of the values at several paths, one after the other, as the mediation loop does
  it; \<open>tr p v\<close> is the new value at the path \<open>p\<close>.
\<close>

fun rewrite_all :: "('s \<Rightarrow> 'p \<Rightarrow> 'v option) \<Rightarrow> ('s \<Rightarrow> 'p \<Rightarrow> 'v \<Rightarrow> 's option) \<Rightarrow> ('p \<Rightarrow> 'v \<Rightarrow> 'v option) \<Rightarrow>
    'p list \<Rightarrow> 's \<Rightarrow> 's option" where
  "rewrite_all getv putv tr [] s = Some s"
| "rewrite_all getv putv tr (p # ps) s =
     Option.bind (getv s p) (\<lambda>v. Option.bind (tr p v) (\<lambda>x. Option.bind (putv s p x) (rewrite_all getv putv tr ps)))"

locale value_paths =
  fixes getv :: "'s \<Rightarrow> 'p \<Rightarrow> 'v option" and putv :: "'s \<Rightarrow> 'p \<Rightarrow> 'v \<Rightarrow> 's option"
    and apart :: "'p \<Rightarrow> 'p \<Rightarrow> bool"
  assumes put_defined: "getv s p = Some y \<Longrightarrow> \<exists>s'. putv s p x = Some s'"
    and get_put: "putv s p x = Some s' \<Longrightarrow> getv s' p = Some x"
    and get_put_apart: "putv s p x = Some s' \<Longrightarrow> apart p q \<Longrightarrow> getv s' q = getv s q"
    and apart_sym: "apart p q \<Longrightarrow> apart q p"
begin

lemma rewrite_all_frame:
  "rewrite_all getv putv tr ps s = Some s' \<Longrightarrow> \<forall>p \<in> set ps. apart p q \<Longrightarrow> getv s' q = getv s q"
  by (induction ps arbitrary: s) (auto simp: bind_eq_Some_conv get_put_apart)

lemma rewrite_all_values:
  assumes "rewrite_all getv putv tr ps s = Some s'" "sorted_wrt apart ps" "p \<in> set ps"
  shows "\<exists>v. getv s p = Some v \<and> tr p v \<noteq> None \<and> getv s' p = tr p v"
  using assms
proof (induction ps arbitrary: s)
  case (Cons r ps)
  then obtain v x s1 where s1: "getv s r = Some v" "tr r v = Some x" "putv s r x = Some s1"
    and rest: "rewrite_all getv putv tr ps s1 = Some s'" by (auto simp: bind_eq_Some_conv)
  show ?case
  proof (cases "p = r")
    case True
    have "getv s' r = getv s1 r"
      using rest Cons.prems(2) by (intro rewrite_all_frame) (auto intro: apart_sym)
    with True s1 get_put show ?thesis by auto
  next
    case False
    with Cons.prems have "sorted_wrt apart ps" "p \<in> set ps" by simp_all
    from Cons.IH [OF rest this] obtain w where "getv s1 p = Some w" "tr p w \<noteq> None" "getv s' p = tr p w"
      by blast
    moreover have "getv s1 p = getv s p"
      using s1(3) False Cons.prems(2,3) by (intro get_put_apart) auto
    ultimately show ?thesis by auto
  qed
qed simp

lemma rewrite_all_defined:
  assumes "\<forall>p \<in> set ps. \<exists>v. getv s p = Some v \<and> tr p v \<noteq> None" "sorted_wrt apart ps"
  shows "\<exists>s'. rewrite_all getv putv tr ps s = Some s'"
  using assms
proof (induction ps arbitrary: s)
  case (Cons r ps)
  then obtain v x where "getv s r = Some v" "tr r v = Some x" by auto
  moreover with put_defined obtain s1 where "putv s r x = Some s1" by blast
  moreover from this Cons.prems have "\<forall>p \<in> set ps. \<exists>v. getv s1 p = Some v \<and> tr p v \<noteq> None"
    by (auto simp: get_put_apart)
  ultimately show ?case using Cons by simp
qed simp

end

interpretation json_paths: value_paths
  "\<lambda>m p. result (getAtPath m p)" "\<lambda>m p x. result (setAtPath m p x)" paths_apart
proof (standard, goal_cases)
  case (1 s p y x)
  then show ?case using setAtPath_defined [of s p y x] by (auto simp: result_Some)
next
  case (2 s p x s')
  then show ?case using aget_aput by (simp add: setAtPath_refines getAtPath_refines)
next
  case (3 s p x s' q)
  then show ?case using aget_aput_apart [of "JObj s" "path_accesses p" x "JObj s'" "path_accesses q"]
    by (simp add: setAtPath_refines getAtPath_refines paths_apart_def)
next
  case (4 p q)
  then show ?case by (simp add: paths_apart_def parallel_commute)
qed

subsection \<open>Properties\<close>

definition sample_message :: "(string \<times> json) list" where
  "sample_message = [(''offers'', JArr [JObj [(''id'', JStr ''a'')], JObj [(''id'', JStr ''b'')]]), (''n'', JNum ''1'')]"

text \<open>C36: \<open>setAtPath\<close> and \<open>getAtPath\<close> obey the laws of a lens on the decoded message. Wherever
  \<open>getAtPath\<close> finds a value, \<open>setAtPath\<close> succeeds; afterwards \<open>getAtPath\<close> finds the new value
  there, and at every path that is neither inside nor around the changed place what it found
  before.\<close>

theorem setAtPath_lens:
  assumes "getAtPath m p = Inr y"
  shows "\<exists>m'. setAtPath m p x = Inr m' \<and> getAtPath m' p = Inr x \<and>
     (\<forall>q. paths_apart p q \<longrightarrow> result (getAtPath m' q) = result (getAtPath m q))"
proof -
  from assms json_paths.put_defined [of m p y x] obtain m' where m': "setAtPath m p x = Inr m'"
    by (auto simp: result_Some)
  with json_paths.get_put [of m p x m'] json_paths.get_put_apart [of m p x m'] show ?thesis
    by (auto simp: result_Some)
qed

theorem setAtPath_lens_witness:
  "\<exists>m'. setAtPath sample_message ''offers[1].id'' (JStr ''c'') = Inr m' \<and>
     getAtPath m' ''offers[1].id'' = Inr (JStr ''c'') \<and> result (getAtPath m' ''offers[0].id'') = Some (JStr ''a'')"
proof -
  have "getAtPath sample_message ''offers[1].id'' = Inr (JStr ''b'')" by code_simp
  from setAtPath_lens [OF this, of "JStr ''c''"] obtain m' where m':
    "setAtPath sample_message ''offers[1].id'' (JStr ''c'') = Inr m'" "getAtPath m' ''offers[1].id'' = Inr (JStr ''c'')"
    "paths_apart ''offers[1].id'' ''offers[0].id'' \<longrightarrow>
       result (getAtPath m' ''offers[0].id'') = result (getAtPath sample_message ''offers[0].id'')" by blast
  moreover have "paths_apart ''offers[1].id'' ''offers[0].id''" by code_simp
  moreover have "result (getAtPath sample_message ''offers[0].id'') = Some (JStr ''a'')" by code_simp
  ultimately show ?thesis by auto
qed

end
