(* ===== verification/Artifact_Cache.thy ===== *)
theory Artifact_Cache
  imports Signing Json_Paths
begin

text \<open>
  The translation map manager of \<open>schemaversionmediator.go\<close>: the bounded cache of translation
  artifacts with its two lifetimes, the HTTP fetch with one retry, and the negative caching of
  artifacts that do not exist.

  The HTTP client and the clock are arguments. The cache is passed explicitly. \<open>set\<close> holds
  the lock throughout; \<open>get\<close> has two critical sections, the look-up and the eviction of an
  expired entry, and the reachable caches are closed under each section on its own.
\<close>

subsection \<open>HTTP clients\<close>

text \<open>
  A response, with the bytes of its body up to the end or the first read error. \<open>NewRequest\<close>
  is the error of \<open>http.NewRequestWithContext\<close> on a GET of a URL, \<open>Do\<close> the round trip.
\<close>

record HttpResponse =
  HrStatus :: int
  HrHeader :: Header
  HrBody :: string
  HrBodyErr :: "goerr option"

record 'w HttpClient =
  NewRequest :: "string \<Rightarrow> goerr option"
  Do :: "'w \<Rightarrow> string \<Rightarrow> (goerr + HttpResponse) \<times> 'w"

text \<open>\<open>io.ReadAll(io.LimitReader(resp.Body, n))\<close>.\<close>

definition read_limited :: "nat \<Rightarrow> HttpResponse \<Rightarrow> goerr + string" where
  "read_limited n resp =
     (if length (HrBody resp) \<ge> n then Inr (take n (HrBody resp))
      else (case HrBodyErr resp of None \<Rightarrow> Inr (HrBody resp) | Some e \<Rightarrow> Inl e))"

text \<open>\<open>time.Since\<close>: the difference of two times, saturated to 64 bits.\<close>

definition time_since :: "int \<Rightarrow> int \<Rightarrow> int" where
  "time_since now t = max (- (2 ^ 63)) (min (2 ^ 63 - 1) (now - t))"

text \<open>\<open>errors.Is\<close> for a sentinel error.\<close>

definition errors_Is :: "goerr \<Rightarrow> goerr \<Rightarrow> bool" where
  "errors_Is e target \<longleftrightarrow> errors_As (\<lambda>x. if x = target then Some () else None) e \<noteq> None"

subsection \<open>The cache\<close>

definition ErrArtifactNotFound :: goerr where
  "ErrArtifactNotFound = ErrText ''schemaversionmediator: translation artifact not found''"

definition maxArtifactBodySize :: nat where "maxArtifactBodySize = 2 ^ 20"

record TranslationArtifact =
  Content :: string
  ContentType :: string

record artifactCacheEntry =
  CeArtifact :: "TranslationArtifact option"
  CeFetchedAt :: int

record artifactCache =
  CEntries :: "string \<rightharpoonup> artifactCacheEntry"
  CKeys :: "string list"
  CPositiveTTL :: int
  CNegativeTTL :: int
  CMaxEntries :: int

definition newArtifactCache :: "int \<Rightarrow> int \<Rightarrow> int \<Rightarrow> artifactCache" where
  "newArtifactCache positiveTTL negativeTTL maxEntries =
     \<lparr>CEntries = Map.empty, CKeys = [], CPositiveTTL = positiveTTL, CNegativeTTL = negativeTTL,
      CMaxEntries = maxEntries\<rparr>"

definition entry_ttl :: "artifactCache \<Rightarrow> artifactCacheEntry \<Rightarrow> int" where
  "entry_ttl c e = (if CeArtifact e = None then CNegativeTTL c else CPositiveTTL c)"

text \<open>
  The two critical sections of \<open>get\<close>: the look-up, and the check under the write lock, which
  reads the entry and the clock again.
\<close>

definition artifactCache_evict :: "'w clock \<Rightarrow> 'w \<Rightarrow> artifactCache \<Rightarrow> string \<Rightarrow> int \<Rightarrow> artifactCache \<times> 'w" where
  "artifactCache_evict clock w c key ttl =
     (case CEntries c key of
        None \<Rightarrow> (c, w)
      | Some e \<Rightarrow>
          (let (now, w1) = clock w in
           (if time_since now (CeFetchedAt e) > ttl then c\<lparr>CEntries := (CEntries c)(key := None)\<rparr> else c, w1)))"

definition artifactCache_get ::
  "'w clock \<Rightarrow> 'w \<Rightarrow> artifactCache \<Rightarrow> string \<Rightarrow> (TranslationArtifact option \<times> bool) \<times> artifactCache \<times> 'w" where
  "artifactCache_get clock w c key =
     (case CEntries c key of
        None \<Rightarrow> ((None, False), c, w)
      | Some entry \<Rightarrow>
          (let ttl = entry_ttl c entry; (now, w1) = clock w in
           if time_since now (CeFetchedAt entry) > ttl then
             (let (c1, w2) = artifactCache_evict clock w1 c key ttl in ((None, False), c1, w2))
           else ((CeArtifact entry, True), c, w1)))"

text \<open>The first component is the panic of \<open>c.keys[0]\<close> on an empty slice.\<close>

definition artifactCache_set ::
  "'w clock \<Rightarrow> 'w \<Rightarrow> artifactCache \<Rightarrow> string \<Rightarrow> TranslationArtifact option \<Rightarrow> goerr option \<times> artifactCache \<times> 'w" where
  "artifactCache_set clock w c key artifact =
     (let write = (\<lambda>c'. let (now, w1) = clock w in
            (None, c'\<lparr>CEntries := (CEntries c')(key \<mapsto> \<lparr>CeArtifact = artifact, CeFetchedAt = now\<rparr>)\<rparr>, w1)) in
      if CEntries c key = None then
        (if int (length (CKeys c)) \<ge> CMaxEntries c then
           (case CKeys c of
              [] \<Rightarrow> (Some (GoPanic ''index out of range''), c, w)
            | oldest # rest \<Rightarrow>
                write (c\<lparr>CKeys := rest @ [key], CEntries := (CEntries c)(oldest := None)\<rparr>))
         else write (c\<lparr>CKeys := CKeys c @ [key]\<rparr>))
      else write c)"

subsection \<open>Fetching\<close>

definition prefix_mediator :: string where "prefix_mediator = ''schemaversionmediator: ''"

definition httpFetch :: "'w HttpClient \<Rightarrow> 'w \<Rightarrow> string \<Rightarrow> (goerr + TranslationArtifact) \<times> 'w" where
  "httpFetch client w artifactURL =
     (let about = (\<lambda>s. prefix_mediator @ s @ go_quote artifactURL) in
      case NewRequest client artifactURL of
        Some e \<Rightarrow> (Inl (errorf_w (about ''build request for '' @ '': '') e), w)
      | None \<Rightarrow>
          (case Do client w artifactURL of
             (Inl e, w1) \<Rightarrow> (Inl (errorf_w (about ''fetch artifact '' @ '': '') e), w1)
           | (Inr resp, w1) \<Rightarrow>
               (if HrStatus resp = 404 then Inl ErrArtifactNotFound
                else if HrStatus resp \<noteq> 200 then
                  Inl (ErrText (about ''artifact '' @ '': unexpected status '' @ int_dec (HrStatus resp)))
                else
                  let contentType = header_Get (HrHeader resp) ''Content-Type'' in
                  if contentType = [] then Inl (ErrText (about ''artifact '' @ '': missing Content-Type header''))
                  else
                    (case read_limited maxArtifactBodySize resp of
                       Inl e \<Rightarrow> Inl (errorf_w (about ''read artifact '' @ '': '') e)
                     | Inr body \<Rightarrow>
                         if body = [] then Inl (ErrText (about ''artifact '' @ '': empty response body''))
                         else Inr \<lparr>Content = body, ContentType = contentType\<rparr>),
                w1)))"

text \<open>The loop of \<open>doFetch\<close>: the number of attempts left and the last error.\<close>

fun fetch_attempts ::
  "'w HttpClient \<Rightarrow> 'w \<Rightarrow> string \<Rightarrow> nat \<Rightarrow> goerr \<Rightarrow> (goerr + TranslationArtifact) \<times> 'w" where
  "fetch_attempts client w artifactURL 0 lastErr = (Inl lastErr, w)"
| "fetch_attempts client w artifactURL (Suc n) lastErr =
     (case httpFetch client w artifactURL of
        (Inr artifact, w1) \<Rightarrow> (Inr artifact, w1)
      | (Inl e, w1) \<Rightarrow>
          if is_panic e \<or> errors_Is e ErrArtifactNotFound then (Inl e, w1)
          else fetch_attempts client w1 artifactURL n e)"

definition doFetch :: "'w HttpClient \<Rightarrow> 'w \<Rightarrow> string \<Rightarrow> (goerr + TranslationArtifact) \<times> 'w" where
  "doFetch client w artifactURL = fetch_attempts client w artifactURL 2 (ErrText [])"

definition fetchArtifactByURL ::
  "'w clock \<Rightarrow> 'w HttpClient \<Rightarrow> 'w \<Rightarrow> artifactCache \<Rightarrow> string \<Rightarrow>
     (goerr + TranslationArtifact) \<times> artifactCache \<times> 'w" where
  "fetchArtifactByURL clock client w c artifactURL =
     (case artifactCache_get clock w c artifactURL of
        ((artifact, True), c1, w1) \<Rightarrow>
          ((case artifact of None \<Rightarrow> Inl ErrArtifactNotFound | Some a \<Rightarrow> Inr a), c1, w1)
      | ((_, False), c1, w1) \<Rightarrow>
          (case doFetch client w1 artifactURL of
             (Inl e, w2) \<Rightarrow>
               if errors_Is e ErrArtifactNotFound then
                 (case artifactCache_set clock w2 c1 artifactURL None of
                    (Some p, c2, w3) \<Rightarrow> (Inl p, c2, w3)
                  | (None, c2, w3) \<Rightarrow> (Inl e, c2, w3))
               else (Inl e, c1, w2)
           | (Inr a, w2) \<Rightarrow>
               (case artifactCache_set clock w2 c1 artifactURL (Some a) of
                  (Some p, c2, w3) \<Rightarrow> (Inl p, c2, w3)
                | (None, c2, w3) \<Rightarrow> (Inr a, c2, w3))))"

subsection \<open>The invariant\<close>

text \<open>
  The cache under any interleaving of the critical sections of its methods. The look-up of
  \<open>get\<close> does not change it.
\<close>

inductive cache_reachable :: "'w clock \<Rightarrow> artifactCache \<Rightarrow> artifactCache \<Rightarrow> bool" for clock c0 where
  start: "cache_reachable clock c0 c0"
| evict: "cache_reachable clock c0 c \<Longrightarrow> artifactCache_evict clock w c key ttl = (c', w') \<Longrightarrow>
     cache_reachable clock c0 c'"
| store: "cache_reachable clock c0 c \<Longrightarrow> artifactCache_set clock w c key a = (None, c', w') \<Longrightarrow>
     cache_reachable clock c0 c'"

definition cache_inv :: "int \<Rightarrow> artifactCache \<Rightarrow> bool" where
  "cache_inv cap c \<longleftrightarrow> CMaxEntries c = cap \<and> int (length (CKeys c)) \<le> cap \<and>
     (\<forall>k e. CEntries c k = Some e \<longrightarrow> k \<in> set (CKeys c))"

lemma evict_inv: "cache_inv cap c \<Longrightarrow> artifactCache_evict clock w c key ttl = (c', w') \<Longrightarrow> cache_inv cap c'"
  by (auto simp: cache_inv_def artifactCache_evict_def split: option.splits prod.splits if_splits)

lemma get_inv: "cache_inv cap c \<Longrightarrow> artifactCache_get clock w c key = (r, c', w') \<Longrightarrow> cache_inv cap c'"
  by (auto simp: artifactCache_get_def Let_def split: option.splits prod.splits if_splits intro: evict_inv)

lemma set_inv:
  assumes "cache_inv cap c" "0 < cap" "artifactCache_set clock w c key a = (r, c', w')"
  shows "cache_inv cap c' \<and> r = None"
proof (cases "CKeys c")
  case Nil
  with assms show ?thesis
    by (auto simp: cache_inv_def artifactCache_set_def Let_def split: prod.splits if_splits)
next
  case (Cons oldest rest)
  with assms show ?thesis
    by (auto simp: cache_inv_def artifactCache_set_def Let_def split: prod.splits if_splits) blast
qed

lemma cache_inv_card:
  assumes "cache_inv cap c"
  shows "finite (dom (CEntries c))" "int (card (dom (CEntries c))) \<le> cap"
proof -
  from assms have sub: "dom (CEntries c) \<subseteq> set (CKeys c)" and len: "int (length (CKeys c)) \<le> cap"
    unfolding cache_inv_def by auto
  show "finite (dom (CEntries c))" using sub finite_subset by blast
  have "card (dom (CEntries c)) \<le> card (set (CKeys c))" using sub by (simp add: card_mono)
  also have "\<dots> \<le> length (CKeys c)" by (rule card_length)
  finally show "int (card (dom (CEntries c))) \<le> cap" using len by simp
qed

lemma new_inv: "0 < cap \<Longrightarrow> cache_inv cap (newArtifactCache pos neg cap)"
  by (simp add: cache_inv_def newArtifactCache_def)

lemma reachable_inv: "cache_reachable clock c0 c \<Longrightarrow> cache_inv cap c0 \<Longrightarrow> 0 < cap \<Longrightarrow> cache_inv cap c"
  by (induction rule: cache_reachable.induct) (auto dest: evict_inv set_inv)

lemma get_reachable:
  "cache_reachable clock c0 c \<Longrightarrow> artifactCache_get clock w c key = (r, c', w') \<Longrightarrow> cache_reachable clock c0 c'"
  by (auto simp: artifactCache_get_def Let_def split: option.splits prod.splits if_splits
      intro: cache_reachable.evict)

text \<open>What \<open>set\<close> writes is what \<open>get\<close> finds while the entry lives.\<close>

lemma set_entry:
  assumes "artifactCache_set clock w c key a = (None, c', w')"
  shows "CEntries c' key = Some \<lparr>CeArtifact = a, CeFetchedAt = fst (clock w)\<rparr>"
    and "CPositiveTTL c' = CPositiveTTL c" "CNegativeTTL c' = CNegativeTTL c"
  using assms
  by (auto simp: artifactCache_set_def Let_def split: prod.splits if_splits list.splits)

lemma get_live:
  assumes "CEntries c key = Some e" "time_since (fst (clock w)) (CeFetchedAt e) \<le> entry_ttl c e"
  shows "artifactCache_get clock w c key = ((CeArtifact e, True), c, snd (clock w))"
  using assms by (cases "clock w") (simp add: artifactCache_get_def)

subsection \<open>Properties\<close>

text \<open>The artifact cache stays within its capacity. Started from the empty cache of a positive
  capacity, whatever the callers do and however their critical sections interleave, the cache
  never holds more entries than its capacity, its queue of keys is no longer than that, and \<open>set\<close>
  does not panic.\<close>

theorem artifact_cache_bounded:
  assumes "0 < cap" "cache_reachable clock (newArtifactCache pos neg cap) c"
  shows "int (card (dom (CEntries c))) \<le> cap \<and> int (length (CKeys c)) \<le> cap \<and>
    fst (artifactCache_set clock w c key a) = None"
proof -
  have inv: "cache_inv cap c" using reachable_inv [OF assms(2) new_inv assms(1)] assms(1) by blast
  obtain r c' w' where "artifactCache_set clock w c key a = (r, c', w')" by (cases "artifactCache_set clock w c key a")
  moreover from set_inv [OF inv assms(1) this] have "r = None" by simp
  ultimately show ?thesis using cache_inv_card [OF inv] inv by (simp add: cache_inv_def)
qed

definition tick :: "int clock" where "tick w = (w, w + 1)"

definition sample_artifact :: TranslationArtifact where
  "sample_artifact = \<lparr>Content = ''$'', ContentType = ''text/plain''\<rparr>"

theorem artifact_cache_bounded_witness:
  "\<exists>c. cache_reachable tick (newArtifactCache 10 5 1) c \<and> CEntries c ''b'' \<noteq> None \<and> CEntries c ''a'' = None \<and>
     int (card (dom (CEntries c))) \<le> 1"
proof -
  let ?c1 = "fst (snd (artifactCache_set tick 0 (newArtifactCache 10 5 1) ''a'' None))"
  let ?c2 = "fst (snd (artifactCache_set tick 1 ?c1 ''b'' (Some sample_artifact)))"
  have set1: "artifactCache_set tick 0 (newArtifactCache 10 5 1) ''a'' None = (None, ?c1, 1)"
    and set2: "artifactCache_set tick 1 ?c1 ''b'' (Some sample_artifact) = (None, ?c2, 2)"
    by (simp_all add: artifactCache_set_def newArtifactCache_def tick_def)
  have reach: "cache_reachable tick (newArtifactCache 10 5 1) ?c2"
    using cache_reachable.start set1 set2 by (blast intro: cache_reachable.store)
  have "CEntries ?c2 ''b'' \<noteq> None" "CEntries ?c2 ''a'' = None"
    by (simp_all add: artifactCache_set_def newArtifactCache_def tick_def)
  with artifact_cache_bounded [OF _ reach] reach show ?thesis by auto
qed


lemma errors_Is_refl: "errors_Is ErrArtifactNotFound ErrArtifactNotFound"
  by (simp add: errors_Is_def ErrArtifactNotFound_def)

lemma fetch_leaves_entry:
  assumes "fetchArtifactByURL clock client w c url = (r, c1, w1)" "cache_inv cap c" "0 < cap"
    and "(\<exists>a. r = Inr a) \<or> r = Inl ErrArtifactNotFound"
  shows "\<exists>e. CEntries c1 url = Some e \<and> r = (case CeArtifact e of None \<Rightarrow> Inl ErrArtifactNotFound | Some a \<Rightarrow> Inr a)"
proof -
  obtain a found c' w' where get: "artifactCache_get clock w c url = ((a, found), c', w')"
    by (cases "artifactCache_get clock w c url") auto
  show ?thesis
  proof (cases found)
    case True
    with get have "\<exists>e. CEntries c' url = Some e \<and> CeArtifact e = a"
      by (auto simp: artifactCache_get_def Let_def split: option.splits prod.splits if_splits)
    with True get assms(1) show ?thesis by (auto simp: fetchArtifactByURL_def)
  next
    case False
    obtain f w2 where fetch: "doFetch client w' url = (f, w2)" by (cases "doFetch client w' url")
    have set_ok: "\<exists>c2 w3. artifactCache_set clock w2 c' url b = (None, c2, w3)" for b
    proof -
      obtain p c2 w3 where p: "artifactCache_set clock w2 c' url b = (p, c2, w3)"
        by (cases "artifactCache_set clock w2 c' url b")
      with set_inv [OF get_inv [OF assms(2) get] assms(3) p] show ?thesis by simp
    qed
    obtain c2 w3 c3 w4 where sets: "artifactCache_set clock w2 c' url None = (None, c2, w3)"
      "artifactCache_set clock w2 c' url (result f) = (None, c3, w4)" using set_ok by metis
    with False get fetch assms(1,4) set_entry [OF sets(1)] set_entry [OF sets(2)] show ?thesis
      by (cases f) (auto simp: fetchArtifactByURL_def errors_Is_refl split: if_splits)
  qed
qed

text \<open>An answer about an artifact is asked for once. After a fetch that found the artifact or
  found that there is none, a second fetch of the URL within the lifetime of the entry returns the
  same answer from the cache: the only effect on the world is one reading of the clock.\<close>

theorem fetch_is_cached:
  assumes "fetchArtifactByURL clock client w c url = (r, c1, w1)" "cache_inv cap c" "0 < cap"
    and "(\<exists>a. r = Inr a) \<or> r = Inl ErrArtifactNotFound"
    and "time_since (fst (clock w1)) (CeFetchedAt (the (CEntries c1 url))) \<le> entry_ttl c1 (the (CEntries c1 url))"
  shows "fetchArtifactByURL clock client w1 c1 url = (r, c1, snd (clock w1))"
proof -
  from fetch_leaves_entry [OF assms(1-4)] obtain e where e: "CEntries c1 url = Some e"
    "r = (case CeArtifact e of None \<Rightarrow> Inl ErrArtifactNotFound | Some a \<Rightarrow> Inr a)" by blast
  with assms(5) get_live [OF e(1), of clock w1] show ?thesis by (simp add: fetchArtifactByURL_def)
qed

definition absent_client :: "int HttpClient" where
  "absent_client = \<lparr>NewRequest = (\<lambda>u. None),
     Do = (\<lambda>w u. (Inr \<lparr>HrStatus = 404, HrHeader = Map.empty, HrBody = [], HrBodyErr = None\<rparr>, w + 1000))\<rparr>"

theorem fetch_is_cached_witness:
  "fetchArtifactByURL tick absent_client 1001 (fst (snd (fetchArtifactByURL tick absent_client 0 (newArtifactCache 10 5 1) ''u''))) ''u''
     = (Inl ErrArtifactNotFound, fst (snd (fetchArtifactByURL tick absent_client 0 (newArtifactCache 10 5 1) ''u'')), 1002)"
proof -
  let ?c1 = "fst (snd (fetchArtifactByURL tick absent_client 0 (newArtifactCache 10 5 1) ''u''))"
  have do: "doFetch absent_client w ''u'' = (Inl ErrArtifactNotFound, w + 1000)" for w
    by (simp add: doFetch_def numeral_2_eq_2 httpFetch_def absent_client_def errors_Is_refl)
  have fetch: "fetchArtifactByURL tick absent_client 0 (newArtifactCache 10 5 1) ''u'' = (Inl ErrArtifactNotFound, ?c1, 1001)"
    by (simp add: fetchArtifactByURL_def artifactCache_get_def newArtifactCache_def do errors_Is_refl artifactCache_set_def tick_def)
  have inv: "cache_inv 1 (newArtifactCache 10 5 1)" by (simp add: new_inv)
  have entry: "CEntries ?c1 ''u'' = Some \<lparr>CeArtifact = None, CeFetchedAt = 1000\<rparr>" "CNegativeTTL ?c1 = 5"
    by (simp_all add: fetchArtifactByURL_def artifactCache_get_def newArtifactCache_def do errors_Is_refl artifactCache_set_def tick_def)
  show ?thesis
    using fetch_is_cached [OF fetch inv] entry by (simp add: entry_ttl_def tick_def time_since_def)
qed

text \<open>A refreshed entry is evicted before its time. \<open>get\<close> drops an expired entry but leaves its
  key in the queue, so the next \<open>set\<close> of the key queues it twice; once the queue is full, the
  next new key evicts the entry that was refreshed last, although the cache holds fewer entries
  than its capacity.\<close>

theorem refreshed_entry_evicted:
  assumes "k \<noteq> j" "CMaxEntries c = 2" "CKeys c = [k]" "CEntries c = [k \<mapsto> e]"
    and expired: "\<And>w. time_since (fst (clock w)) (CeFetchedAt e) > entry_ttl c e"
  shows "let (r, c1, w1) = artifactCache_get clock w c k;
             (p1, c2, w2) = artifactCache_set clock w1 c1 k a;
             (p2, c3, w3) = artifactCache_set clock w2 c2 j b
         in CEntries c2 k \<noteq> None \<and> card (dom (CEntries c2)) = 1 \<and> CEntries c3 k = None \<and>
            card (dom (CEntries c3)) = 1"
  using assms
  by (simp add: artifactCache_get_def artifactCache_evict_def artifactCache_set_def split_beta)

theorem refreshed_entry_evicted_witness:
  "let (r, c1, w1) = artifactCache_get (\<lambda>w. (100, w)) () ((newArtifactCache 10 5 2)\<lparr>CKeys := [''k''],
           CEntries := [''k'' \<mapsto> \<lparr>CeArtifact = None, CeFetchedAt = 0\<rparr>]\<rparr>) ''k'';
       (p1, c2, w2) = artifactCache_set (\<lambda>w. (100, w)) w1 c1 ''k'' None;
       (p2, c3, w3) = artifactCache_set (\<lambda>w. (100, w)) w2 c2 ''j'' None
   in CEntries c2 ''k'' \<noteq> None \<and> card (dom (CEntries c2)) = 1 \<and> CEntries c3 ''k'' = None \<and>
      card (dom (CEntries c3)) = 1"
  by (rule refreshed_entry_evicted [where e = "\<lparr>CeArtifact = None, CeFetchedAt = 0\<rparr>"])
    (simp_all add: newArtifactCache_def entry_ttl_def time_since_def)

end
