(* ===== verification/Node_Manifest.thy ===== *)
theory Node_Manifest
  imports Signing "HOL-Library.Product_Lexorder"
begin

text \<open>
  The manifests of \<open>pkg/model/manifest.go\<close>: the node manifest, in which a participant declares
  the schema objects it supports with their versions, and the network manifest, which names
  the policies of a network. Modelled are the choice of the canonical version of a schema
  object, the comparison of versions, and both \<open>Validate\<close> methods.

  The YAML decoder is an argument of the components that parse manifests. \<open>time.Parse\<close> and
  \<open>Time.Format\<close> with the RFC 3339 layout are the two fields of \<open>Rfc3339\<close>; a time is its
  number of nanoseconds.
\<close>

subsection \<open>Documents\<close>

record ManifestMetadata =
  ManifestURL :: string
  ManifestSignatureURL :: string
  SigningPublicKeyLookupURL :: string

record ManifestDocument =
  MdNetworkID :: string
  MdSubscriberID :: string
  MdContentType :: string
  MdContent :: string
  MdDigest :: string
  MdSourceURL :: string
  MdSignatureURL :: string
  MdVerified :: bool
  MdFetchedAt :: int

text \<open>The interface \<open>definition.ManifestLoader\<close>; a nil document is \<^term>\<open>None\<close>.\<close>

record 'w ManifestLoaderMethods =
  GetByNetworkID :: "'w \<Rightarrow> string \<Rightarrow> (goerr + ManifestDocument option) \<times> 'w"
  GetByMetadata :: "'w \<Rightarrow> ManifestMetadata \<Rightarrow> (goerr + ManifestDocument option) \<times> 'w"
  GetBySubscriberID :: "'w \<Rightarrow> string \<Rightarrow> (goerr + ManifestDocument option) \<times> 'w"

subsection \<open>Versions\<close>

text \<open>
  The value \<open>strconv.Atoi\<close> returns when its error is ignored: 0 for a malformed number, and
  the nearest 64-bit integer for a number out of range.
\<close>

definition atoi_value :: "string \<Rightarrow> int" where
  "atoi_value s =
     (let neg = HasPrefix s ''-'';
          ds = (if neg \<or> HasPrefix s ''+'' then tl s else s)
      in if ds = [] \<or> \<not> list_all is_digit ds then 0
         else if neg then max (- (2 ^ 63)) (- int (dec_val ds)) else min (2 ^ 63 - 1) (int (dec_val ds)))"

definition strip_v :: "string \<Rightarrow> string" where
  "strip_v s = (if s \<noteq> [] \<and> (hd s = CHR ''v'' \<or> hd s = CHR ''V'') then tl s else s)"

text \<open>The local function \<open>parse\<close> of \<open>compareVersion\<close>.\<close>

definition parse_version :: "string \<Rightarrow> int \<times> int" where
  "parse_version s =
     (let parts = SplitN2 (CHR ''.'') (strip_v s)
      in (atoi_value (parts ! 0), if length parts > 1 then atoi_value (parts ! 1) else 0))"

definition compareVersion :: "string \<Rightarrow> string \<Rightarrow> int" where
  "compareVersion a b =
     (let (aM, am) = parse_version a; (bM, bm) = parse_version b
      in if aM \<noteq> bM then wrap64 (aM - bM) else wrap64 (am - bm))"

fun best_version :: "string \<Rightarrow> string list \<Rightarrow> string" where
  "best_version best [] = best"
| "best_version best (v # vs) = best_version (if compareVersion v best > 0 then v else best) vs"

definition latestVersion :: "string list \<Rightarrow> goerr + string" where
  "latestVersion versions =
     (case versions of
        [] \<Rightarrow> Inl (ErrText ''empty versions list'')
      | v # vs \<Rightarrow> Inr (best_version v vs))"

subsection \<open>Schema objects\<close>

definition VersionPolicyLatest :: string where "VersionPolicyLatest = ''latest''"
definition VersionPolicyPinned :: string where "VersionPolicyPinned = ''pinned''"

record SchemaObject =
  SoType :: string
  BaseURL :: string
  SupportedVersions :: "string list"
  VersionPolicy :: string
  PinnedVersion :: string

definition effective_policy :: "SchemaObject \<Rightarrow> string \<Rightarrow> string" where
  "effective_policy s defaultPolicy =
     (let p = (if VersionPolicy s = [] then defaultPolicy else VersionPolicy s)
      in if p = [] then VersionPolicyLatest else p)"

definition CanonicalVersion :: "SchemaObject \<Rightarrow> string \<Rightarrow> goerr + string" where
  "CanonicalVersion s defaultPolicy =
     (if SupportedVersions s = [] then
        Inl (ErrText (''schema object '' @ go_quote (SoType s) @ '' has no supported versions''))
      else
        let policy = effective_policy s defaultPolicy in
        if policy = VersionPolicyLatest then latestVersion (SupportedVersions s)
        else if policy = VersionPolicyPinned then
          (if PinnedVersion s = [] then
             Inl (ErrText (''schema object '' @ go_quote (SoType s) @ '' has versionPolicy='' @
               go_quote VersionPolicyPinned @ '' but no pinnedVersion''))
           else Inr (PinnedVersion s))
        else Inl (ErrText (''schema object '' @ go_quote (SoType s) @ '' has unknown versionPolicy '' @
          go_quote policy)))"

record NodeManifestSchema =
  DefaultVersionPolicy :: string
  SchemaObjects :: "SchemaObject list"

record NodeManifestGovernance =
  NgEffectiveFrom :: string
  NgEffectiveUntil :: string

record NodeManifest =
  NmVersion :: string
  NmType :: string
  NmSubscriberID :: string
  NmSchema :: NodeManifestSchema
  NmGovernance :: NodeManifestGovernance

subsection \<open>Validation of node manifests\<close>

record Rfc3339 =
  ParseTime :: "string \<Rightarrow> int option"
  FormatTime :: "int \<Rightarrow> string"

definition NodeManifestType :: string where "NodeManifestType = ''node-manifest''"

definition blank :: "string \<Rightarrow> bool" where
  "blank s \<longleftrightarrow> TrimSpace s = []"

text \<open>The last part of both \<open>Validate\<close> methods: the period in which the manifest is effective.\<close>

definition check_period :: "Rfc3339 \<Rightarrow> string \<Rightarrow> string \<Rightarrow> string \<Rightarrow> int \<Rightarrow> goerr option" where
  "check_period T subject effFrom effUntil now =
     (case ParseTime T effFrom of
        None \<Rightarrow> Some (ErrWrap (subject @ '' has invalid governance.effectiveFrom: '') (ErrText ''time.Parse''))
      | Some effectiveFrom \<Rightarrow>
          if now < effectiveFrom then
            Some (ErrText (subject @ '' is not active until '' @ FormatTime T effectiveFrom))
          else if effUntil \<noteq> [] then
            (case ParseTime T effUntil of
               None \<Rightarrow> Some (ErrWrap (subject @ '' has invalid governance.effectiveUntil: '') (ErrText ''time.Parse''))
             | Some effectiveUntil \<Rightarrow>
                 if \<not> effectiveUntil > effectiveFrom then
                   Some (ErrText (subject @ '' must have governance.effectiveUntil later than governance.effectiveFrom''))
                 else if now > effectiveUntil then
                   Some (ErrText (subject @ '' expired at '' @ FormatTime T effectiveUntil))
                 else None)
          else None)"

definition known_policy :: "string \<Rightarrow> bool" where
  "known_policy p \<longleftrightarrow> p = [] \<or> p = VersionPolicyLatest \<or> p = VersionPolicyPinned"

text \<open>One turn of the loop over the schema objects.\<close>

definition validate_object :: "string \<Rightarrow> string \<Rightarrow> nat \<Rightarrow> SchemaObject \<Rightarrow> goerr option" where
  "validate_object subject defaultPolicy i obj =
     (let err = (\<lambda>msg. Some (ErrText (subject @ '': schema object at index '' @ nat_dec i @ msg))) in
      if blank (SoType obj) then err '' is missing type''
      else if blank (BaseURL obj) then err '' is missing baseUrl''
      else if SupportedVersions obj = [] then err '' has no supportedVersions''
      else if \<not> known_policy (VersionPolicy obj) then
        err ('' has unknown versionPolicy '' @ go_quote (VersionPolicy obj))
      else if VersionPolicy obj = VersionPolicyPinned
              \<or> (VersionPolicy obj = [] \<and> defaultPolicy = VersionPolicyPinned) then
        (if blank (PinnedVersion obj) then err '' has versionPolicy=pinned but no pinnedVersion''
         else if PinnedVersion obj \<notin> set (SupportedVersions obj) then
           err ('' pinnedVersion '' @ go_quote (PinnedVersion obj) @ '' is not in supportedVersions'')
         else None)
      else None)"

fun validate_objects :: "string \<Rightarrow> string \<Rightarrow> nat \<Rightarrow> SchemaObject list \<Rightarrow> goerr option" where
  "validate_objects subject defaultPolicy i [] = None"
| "validate_objects subject defaultPolicy i (obj # objs) =
     (case validate_object subject defaultPolicy i obj of
        Some e \<Rightarrow> Some e
      | None \<Rightarrow> validate_objects subject defaultPolicy (Suc i) objs)"

text \<open>The test for a three-part reference, used here and by the manifest loader.\<close>

definition three_parts :: "string \<Rightarrow> bool" where
  "three_parts s \<longleftrightarrow>
     (let parts = Split (CHR ''/'') s in length parts = 3 \<and> list_all (\<lambda>p. \<not> blank p) parts)"

definition NodeManifest_Validate :: "Rfc3339 \<Rightarrow> NodeManifest option \<Rightarrow> string \<Rightarrow> int \<Rightarrow> goerr option" where
  "NodeManifest_Validate T manifest expectedSubscriberID now =
     (let subject = ''node manifest for subscriber '' @ go_quote expectedSubscriberID;
          err = (\<lambda>msg. Some (ErrText (subject @ msg))) in
      case manifest of
        None \<Rightarrow> err '' cannot be nil''
      | Some m \<Rightarrow>
          if blank (NmVersion m) then err '' is missing manifestVersion''
          else if NmType m \<noteq> NodeManifestType then
            err ('' must have manifestType='' @ go_quote NodeManifestType)
          else if blank (NmSubscriberID m) then err '' is missing subscriberId''
          else if \<not> three_parts (NmSubscriberID m) then
            Some (ErrText (''node manifest subscriberId '' @ go_quote (NmSubscriberID m) @
              '' must be in namespace/registry/recordId format''))
          else if NmSubscriberID m \<noteq> expectedSubscriberID then
            Some (ErrText (''node manifest subscriberId '' @ go_quote (NmSubscriberID m) @
              '' does not match expected '' @ go_quote expectedSubscriberID))
          else if \<not> known_policy (DefaultVersionPolicy (NmSchema m)) then
            err ('' has unknown defaultVersionPolicy '' @ go_quote (DefaultVersionPolicy (NmSchema m)))
          else if SchemaObjects (NmSchema m) = [] then err '' must have at least one schema object''
          else
            (case validate_objects subject (DefaultVersionPolicy (NmSchema m)) 0 (SchemaObjects (NmSchema m)) of
               Some e \<Rightarrow> Some e
             | None \<Rightarrow>
                 check_period T subject (NgEffectiveFrom (NmGovernance m)) (NgEffectiveUntil (NmGovernance m)) now))"

subsection \<open>Validation of network manifests\<close>

definition NetworkManifestType :: string where "NetworkManifestType = ''network-manifest''"
definition PolicyTypeRego :: string where "PolicyTypeRego = ''rego''"
definition PolicySourceBundle :: string where "PolicySourceBundle = ''bundle''"
definition PolicySourceFile :: string where "PolicySourceFile = ''file''"

record NetworkManifestPublisher =
  PRole :: string
  PDomain :: string

record NetworkManifestBundle =
  BnID :: string
  BnURL :: string
  BnPolicyQueryPath :: string
  BnSigned :: bool
  BnSigningPublicKeyLookupURL :: string

record NetworkManifestFile =
  FlID :: string
  FlURL :: string
  FlPolicyQueryPath :: string
  FlSigned :: bool
  FlSignatureURL :: string
  FlSigningPublicKeyLookupURL :: string

record NetworkManifestPolicies =
  PoType :: string
  PoSource :: string
  PoBundle :: "NetworkManifestBundle option"
  PoFile :: "NetworkManifestFile option"

record NetworkManifestGovernance =
  GvEffectiveFrom :: string
  GvEffectiveUntil :: string
  GvSigned :: "bool option"

text \<open>The release id is any YAML value; \<open>NwReleaseID\<close> is its text under the verb \<open>%v\<close>.\<close>

record NetworkManifest =
  NwVersion :: string
  NwType :: string
  NwNetworkID :: string
  NwReleaseID :: "string option"
  NwPublisher :: NetworkManifestPublisher
  NwPolicies :: "NetworkManifestPolicies option"
  NwGovernance :: NetworkManifestGovernance

definition check_policies :: "string \<Rightarrow> NetworkManifestPolicies \<Rightarrow> goerr option" where
  "check_policies subject p =
     (let err = (\<lambda>msg. Some (ErrText (subject @ msg))); q = (\<lambda>s. go_quote s) in
      if PoSource p = PolicySourceBundle then
        (case PoBundle p of
           None \<Rightarrow> err ('' must include policies.bundle when policies.source='' @ q PolicySourceBundle)
         | Some b \<Rightarrow>
             if PoFile p \<noteq> None then
               err ('' must not include policies.file when policies.source='' @ q PolicySourceBundle)
             else if blank (BnID b) \<or> blank (BnURL b) \<or> blank (BnPolicyQueryPath b) then
               err '' is missing required policies.bundle fields''
             else if BnSigned b \<and> blank (BnSigningPublicKeyLookupURL b) then
               err '' requires policies.bundle.signingPublicKeyLookupUrl when policies.bundle.signed=true''
             else None)
      else if PoSource p = PolicySourceFile then
        (case PoFile p of
           None \<Rightarrow> err ('' must include policies.file when policies.source='' @ q PolicySourceFile)
         | Some f \<Rightarrow>
             if PoBundle p \<noteq> None then
               err ('' must not include policies.bundle when policies.source='' @ q PolicySourceFile)
             else if blank (FlID f) \<or> blank (FlURL f) \<or> blank (FlPolicyQueryPath f) then
               err '' is missing required policies.file fields''
             else if FlSigned f \<and> blank (FlSignatureURL f) then
               err '' requires policies.file.signatureUrl when policies.file.signed=true''
             else if FlSigned f \<and> blank (FlSigningPublicKeyLookupURL f) then
               err '' requires policies.file.signingPublicKeyLookupUrl when policies.file.signed=true''
             else None)
      else err ('' uses unsupported policies.source '' @ q (PoSource p)))"

definition NetworkManifest_Validate ::
  "Rfc3339 \<Rightarrow> NetworkManifest option \<Rightarrow> string \<Rightarrow> int \<Rightarrow> goerr option" where
  "NetworkManifest_Validate T manifest expectedNetworkID now =
     (let subject = ''manifest for network '' @ go_quote expectedNetworkID;
          err = (\<lambda>msg. Some (ErrText (subject @ msg))) in
      case manifest of
        None \<Rightarrow> err '' cannot be nil''
      | Some m \<Rightarrow>
          if blank (NwVersion m) then err '' is missing manifestVersion''
          else if NwType m \<noteq> NetworkManifestType then
            err ('' must have manifestType='' @ go_quote NetworkManifestType)
          else if NwNetworkID m = [] then err '' is missing networkId''
          else if NwNetworkID m \<noteq> expectedNetworkID then
            Some (ErrText (''manifest networkId '' @ go_quote (NwNetworkID m) @
              '' does not match configured network '' @ go_quote expectedNetworkID))
          else if (case NwReleaseID m of None \<Rightarrow> True | Some r \<Rightarrow> blank r) then err '' is missing releaseId''
          else if blank (PRole (NwPublisher m)) \<or> blank (PDomain (NwPublisher m)) then
            err '' must include publisher.role and publisher.domain''
          else
            (case NwPolicies m of
               None \<Rightarrow> err '' is missing policies section''
             | Some p \<Rightarrow>
                 if PoType p \<noteq> PolicyTypeRego then err ('' must have policies.type='' @ go_quote PolicyTypeRego)
                 else if GvSigned (NwGovernance m) = None then err '' is missing governance.signed''
                 else
                   (case check_period T subject (GvEffectiveFrom (NwGovernance m)) (GvEffectiveUntil (NwGovernance m)) now of
                      Some e \<Rightarrow> Some e
                    | None \<Rightarrow> check_policies subject p)))"


subsection \<open>Lemmas on versions\<close>

lemma atoi_value_range: "- (2 ^ 63) \<le> atoi_value s \<and> atoi_value s < 2 ^ 63"
  by (auto simp: atoi_value_def Let_def)

lemma atoi_value_nonneg: "CHR ''-'' \<notin> set s \<Longrightarrow> 0 \<le> atoi_value s"
  by (cases s) (auto simp: atoi_value_def Let_def)

lemma SplitN2_bytes: "p \<in> set (SplitN2 c s) \<Longrightarrow> set p \<subseteq> set s"
proof -
  have "set (tl (dropWhile Q s)) \<subseteq> set s" "set (takeWhile Q s) \<subseteq> set s" for Q
    by (induction s) auto
  then show "p \<in> set (SplitN2 c s) \<Longrightarrow> set p \<subseteq> set s"
    by (auto simp only: SplitN2_def list.set split: if_splits)
qed

lemma strip_v_bytes: "set (strip_v s) \<subseteq> set s"
  by (cases s) (auto simp: strip_v_def)

lemma SplitN2_nonempty [simp]: "SplitN2 c s \<noteq> []"
  by (simp add: SplitN2_def)

lemma parse_version_range:
  "parse_version s = (a, b) \<Longrightarrow> a < 2 ^ 63 \<and> b < 2 ^ 63"
  using atoi_value_range by (auto simp: parse_version_def Let_def)

lemma parse_version_nonneg:
  assumes "CHR ''-'' \<notin> set s" "parse_version s = (a, b)"
  shows "0 \<le> a" "0 \<le> b"
proof -
  have *: "CHR ''-'' \<notin> set p" if "p \<in> set (SplitN2 (CHR ''.'') (strip_v s))" for p
    using assms(1) SplitN2_bytes [OF that] strip_v_bytes [of s] by blast
  have "0 \<le> atoi_value (SplitN2 (CHR ''.'') (strip_v s) ! i)"
    if "i < length (SplitN2 (CHR ''.'') (strip_v s))" for i
    using * that by (intro atoi_value_nonneg) simp
  with assms(2) show "0 \<le> a" "0 \<le> b" by (auto simp: parse_version_def Let_def)
qed

text \<open>Without a minus sign no difference wraps, and the comparison is the lexicographic one.\<close>

lemma compareVersion_order:
  assumes "CHR ''-'' \<notin> set a" "CHR ''-'' \<notin> set b"
  shows "compareVersion a b > 0 \<longleftrightarrow> parse_version b < parse_version a"
proof -
  obtain aM am bM bm where ab: "parse_version a = (aM, am)" "parse_version b = (bM, bm)"
    by (cases "parse_version a"; cases "parse_version b")
  note bounds = parse_version_range [OF ab(1)] parse_version_range [OF ab(2)]
    parse_version_nonneg [OF assms(1) ab(1)] parse_version_nonneg [OF assms(2) ab(2)]
  then have "wrap64 (aM - bM) = aM - bM" "wrap64 (am - bm) = am - bm"
    by (auto intro!: wrap64_id)
  with ab show ?thesis by (auto simp: compareVersion_def less_prod_simp)
qed

lemma best_version_first:
  assumes "\<forall>v \<in> set (b # vs). CHR ''-'' \<notin> set v"
  shows "\<exists>pre post. b # vs = pre @ best_version b vs # post \<and>
           (\<forall>v \<in> set pre. parse_version v < parse_version (best_version b vs)) \<and>
           (\<forall>v \<in> set post. parse_version v \<le> parse_version (best_version b vs))"
  using assms
proof (induction vs arbitrary: b)
  case (Cons v vs)
  let ?c = "if compareVersion v b > 0 then v else b"
  define r where "r = best_version ?c vs"
  have r: "best_version b (v # vs) = r" by (simp add: r_def)
  have "\<forall>u \<in> set (?c # vs). CHR ''-'' \<notin> set u" using Cons.prems by auto
  from Cons.IH [OF this, folded r_def] obtain pre post where split: "?c # vs = pre @ r # post"
    and pre: "\<forall>u \<in> set pre. parse_version u < parse_version r"
    and post: "\<forall>u \<in> set post. parse_version u \<le> parse_version r" by blast
  have order: "compareVersion v b > 0 \<longleftrightarrow> parse_version b < parse_version v"
    using Cons.prems by (intro compareVersion_order) auto
  show ?case unfolding r
  proof (cases "compareVersion v b > 0")
    case True
    with order have "parse_version b < parse_version v" by simp
    moreover have "parse_version v \<le> parse_version r" using True split pre by (cases pre) auto
    ultimately have "parse_version b < parse_version r" by (rule less_le_trans)
    with True split pre post
    show "\<exists>pre post. b # v # vs = pre @ r # post \<and> (\<forall>v \<in> set pre. parse_version v < parse_version r) \<and>
        (\<forall>v \<in> set post. parse_version v \<le> parse_version r)"
      by (intro exI [of _ "b # pre"] exI [of _ post]) simp
  next
    case False
    then have le: "parse_version v \<le> parse_version b" using order by (simp add: not_less)
    show "\<exists>pre post. b # v # vs = pre @ r # post \<and> (\<forall>v \<in> set pre. parse_version v < parse_version r) \<and>
        (\<forall>v \<in> set post. parse_version v \<le> parse_version r)"
    proof (cases pre)
      case Nil
      with False split post le show ?thesis by (intro exI [of _ "[]"] exI [of _ "v # vs"]) simp
    next
      case (Cons x xs)
      with False split pre post le show ?thesis
        by (intro exI [of _ "b # v # xs"] exI [of _ post]) (simp add: le_less_trans)
    qed
  qed
qed (rule exI [of _ "[]"], rule exI [of _ "[]"], simp)

lemma best_version_mem: "best_version b vs \<in> set (b # vs)"
proof (induction vs arbitrary: b)
  case (Cons v vs)
  from Cons.IH [of "if compareVersion v b > 0 then v else b"] show ?case by (auto split: if_splits)
qed simp

lemma latestVersion_mem: "vs \<noteq> [] \<Longrightarrow> \<exists>v \<in> set vs. latestVersion vs = Inr v"
  using best_version_mem by (auto simp: latestVersion_def split: list.splits)

subsection \<open>Lemmas on validation\<close>

lemma validate_objects_None:
  "validate_objects subject dp i objs = None \<longleftrightarrow>
     (\<forall>k < length objs. validate_object subject dp (i + k) (objs ! k) = None)"
proof (induction objs arbitrary: i)
  case (Cons x xs)
  have "(\<forall>k < length (x # xs). validate_object subject dp (i + k) ((x # xs) ! k) = None) \<longleftrightarrow>
      validate_object subject dp i x = None \<and>
      (\<forall>k < length xs. validate_object subject dp (Suc i + k) (xs ! k) = None)"
    by (auto simp: less_Suc_eq_0_disj)
  with Cons.IH [of "Suc i"] show ?case by (simp split: option.splits)
qed simp

lemma validate_object_canonical:
  assumes "validate_object subject dp i obj = None" "known_policy dp"
  shows "\<exists>v \<in> set (SupportedVersions obj). CanonicalVersion obj dp = Inr v"
  using assms latestVersion_mem [of "SupportedVersions obj"]
  by (auto simp: validate_object_def CanonicalVersion_def effective_policy_def known_policy_def blank_def
      VersionPolicyLatest_def VersionPolicyPinned_def Let_def split: if_splits)

lemma check_period_None:
  "check_period T subject f u now = None \<longleftrightarrow>
     (\<exists>a. ParseTime T f = Some a \<and> a \<le> now \<and>
        (u \<noteq> [] \<longrightarrow> (\<exists>b. ParseTime T u = Some b \<and> a < b \<and> now \<le> b)))"
  by (auto simp: check_period_def split: option.splits)


lemma validated_objects_canonical:
  assumes "NodeManifest_Validate T (Some m) subscriber now = None" "obj \<in> set (SchemaObjects (NmSchema m))"
  shows "\<exists>v \<in> set (SupportedVersions obj). CanonicalVersion obj (DefaultVersionPolicy (NmSchema m)) = Inr v"
proof -
  let ?dp = "DefaultVersionPolicy (NmSchema m)"
  from assms have dp: "known_policy ?dp"
    and objs: "validate_objects (''node manifest for subscriber '' @ go_quote subscriber) ?dp 0 (SchemaObjects (NmSchema m)) = None"
    by (simp_all add: NodeManifest_Validate_def Let_def split: if_splits option.splits)
  from assms(2) objs validate_object_canonical [OF _ dp] show ?thesis
    by (auto simp: validate_objects_None in_set_conv_nth)
qed

subsection \<open>Properties\<close>

definition sample_offer :: SchemaObject where
  "sample_offer = \<lparr>SoType = ''Offer'', BaseURL = ''https://s.io/Offer'',
     SupportedVersions = [''v2.9'', ''v2.10''], VersionPolicy = [], PinnedVersion = []\<rparr>"

definition sample_manifest :: NodeManifest where
  "sample_manifest = \<lparr>NmVersion = ''1'', NmType = ''node-manifest'', NmSubscriberID = ''n/r/bpp'',
     NmSchema = \<lparr>DefaultVersionPolicy = [], SchemaObjects = [sample_offer]\<rparr>,
     NmGovernance = \<lparr>NgEffectiveFrom = ''5'', NgEffectiveUntil = []\<rparr>\<rparr>"

definition sample_times :: Rfc3339 where
  "sample_times = \<lparr>ParseTime = ParseInt64, FormatTime = int_dec\<rparr>"

text \<open>The canonical version under the policy \<open>latest\<close>. For versions without a minus sign,
  \<open>latestVersion\<close> returns the first listed version whose major and minor numbers are maximal: every
  version before it is strictly smaller and every version after it at most equal, numerically and
  not as text (2.10 is above 2.9).\<close>

theorem latestVersion_maximal:
  assumes "vs \<noteq> []" and "\<forall>v \<in> set vs. CHR ''-'' \<notin> set v"
  shows "\<exists>pre best post. latestVersion vs = Inr best \<and> vs = pre @ best # post \<and>
     (\<forall>v \<in> set pre. parse_version v < parse_version best) \<and>
     (\<forall>v \<in> set post. parse_version v \<le> parse_version best)"
proof -
  obtain b us where vs: "vs = b # us" using assms(1) by (cases vs) auto
  with best_version_first [of b us] assms(2) show ?thesis
    by (auto simp: latestVersion_def)
qed

theorem latestVersion_maximal_witness:
  "\<exists>pre best post. latestVersion [''v2.9'', ''v2.10''] = Inr best \<and> [''v2.9'', ''v2.10''] = pre @ best # post"
  using latestVersion_maximal [of "[''v2.9'', ''v2.10'']"] by auto

text \<open>A validated node manifest is usable for mediation. If \<open>Validate\<close> accepts a node manifest
  for a subscriber at a time, the manifest is the one of that subscriber, its id has three
  non-blank parts, the time lies in its period, and every schema object it declares has a
  canonical version, which is one of the versions it supports.\<close>

theorem validated_manifest_canonical:
  assumes "NodeManifest_Validate T (Some m) subscriber now = None"
  shows "NmSubscriberID m = subscriber \<and> three_parts subscriber \<and>
     (\<exists>a. ParseTime T (NgEffectiveFrom (NmGovernance m)) = Some a \<and> a \<le> now \<and>
        (NgEffectiveUntil (NmGovernance m) \<noteq> [] \<longrightarrow>
           (\<exists>b. ParseTime T (NgEffectiveUntil (NmGovernance m)) = Some b \<and> a < b \<and> now \<le> b))) \<and>
     SchemaObjects (NmSchema m) \<noteq> [] \<and>
     (\<forall>obj \<in> set (SchemaObjects (NmSchema m)).
        \<exists>v \<in> set (SupportedVersions obj). CanonicalVersion obj (DefaultVersionPolicy (NmSchema m)) = Inr v)"
proof -
  from assms have "check_period T (''node manifest for subscriber '' @ go_quote subscriber)
        (NgEffectiveFrom (NmGovernance m)) (NgEffectiveUntil (NmGovernance m)) now = None"
    and rest: "NmSubscriberID m = subscriber" "three_parts (NmSubscriberID m)" "SchemaObjects (NmSchema m) \<noteq> []"
    by (simp_all add: NodeManifest_Validate_def Let_def split: if_splits option.splits)
  with rest validated_objects_canonical [OF assms] show ?thesis by (simp add: check_period_None)
qed

theorem validated_manifest_canonical_witness:
  "CanonicalVersion sample_offer [] = Inr ''v2.10'' \<and> ''v2.10'' \<in> set (SupportedVersions sample_offer)"
proof -
  have "NodeManifest_Validate sample_times (Some sample_manifest) ''n/r/bpp'' 7 = None" by code_simp
  from validated_manifest_canonical [OF this]
  have "\<exists>v \<in> set (SupportedVersions sample_offer). CanonicalVersion sample_offer [] = Inr v"
    by (simp add: sample_manifest_def)
  moreover have "CanonicalVersion sample_offer [] = Inr ''v2.10''" by code_simp
  ultimately show ?thesis by simp
qed

text \<open>Three-part versions are not ordered by their minor number. When no version has a number as
  its text after the first dot, as in \<open>v2.1.0\<close>, and all agree on the major number, \<open>latestVersion\<close>
  returns the first one listed, whatever the others are.\<close>

theorem latestVersion_ignores_minor:
  assumes "\<forall>u \<in> set (v # vs). parse_version u = (major, 0)"
  shows "latestVersion (v # vs) = Inr v"
proof -
  have "best_version v vs = v" if "\<forall>u \<in> set (v # vs). parse_version u = (major, 0)" for vs
    using that by (induction vs) (simp_all add: compareVersion_def wrap64_def)
  with assms show ?thesis by (simp add: latestVersion_def)
qed

theorem latestVersion_ignores_minor_witness:
  "latestVersion [''v2.1.0'', ''v2.2.0'', ''v2.10.1''] = Inr ''v2.1.0''"
  by (rule latestVersion_ignores_minor [where major = 2]) code_simp

end
