(* ===== verification/Schema_Mediator.thy ===== *)
theory Schema_Mediator
  imports Artifact_Cache Node_Manifest
begin

text \<open>
  The plugin \<open>schemaversionmediator/schemaversionmediator.go\<close>: the policy, the walk over the
  payload that finds its schema objects, the compatibility check against a node manifest, the
  fetching of translation artifacts, and \<open>Mediate\<close>, which rewrites the message of a request.

  Arguments of the model are gathered in the record \<open>MedEnv\<close>: the manifest loader and the
  translator (plugins), the YAML decoder, the HTTP client, the clock, \<open>url.Parse\<close>, the
  \<open>float64\<close> conversions and the order in which \<open>range\<close> visits the maps of the decoded payload.
  The state is the world and the artifact cache. Log output is left out.
\<close>

subsection \<open>Policy\<close>

definition em_dash :: string where "em_dash = [CHR 0xE2, CHR 0x80, CHR 0x94]"

datatype PolicyAction = PolicyActionReject | PolicyActionTranslate | PolicyActionPassThrough

definition policy_action :: "string \<Rightarrow> PolicyAction option" where
  "policy_action s =
     (if s = ''reject'' then Some PolicyActionReject
      else if s = ''translate'' then Some PolicyActionTranslate
      else if s = ''passThrough'' then Some PolicyActionPassThrough else None)"

record TranslationPolicy =
  PAction :: PolicyAction
  POnFailure :: PolicyAction

definition defaultPolicy :: TranslationPolicy where
  "defaultPolicy = \<lparr>PAction = PolicyActionTranslate, POnFailure = PolicyActionReject\<rparr>"

definition load_action :: "(string \<rightharpoonup> string) \<Rightarrow> goerr + PolicyAction" where
  "load_action config =
     (case config ''action'' of
        None \<Rightarrow> Inr (PAction defaultPolicy)
      | Some raw \<Rightarrow>
          (case policy_action raw of
             Some PolicyActionPassThrough \<Rightarrow>
               Inl (ErrText (prefix_mediator @ ''action cannot be '' @ go_quote raw @
                 '' '' @ em_dash @ '' passThrough is only valid as onFailure''))
           | Some a \<Rightarrow> Inr a
           | None \<Rightarrow> Inl (ErrText (prefix_mediator @ ''invalid action '' @ go_quote raw @ '': must be reject or translate''))))"

definition load_on_failure :: "(string \<rightharpoonup> string) \<Rightarrow> goerr + PolicyAction" where
  "load_on_failure config =
     (case config ''onFailure'' of
        None \<Rightarrow> Inr (POnFailure defaultPolicy)
      | Some raw \<Rightarrow>
          (case policy_action raw of
             Some PolicyActionTranslate \<Rightarrow>
               Inl (ErrText (prefix_mediator @ ''onFailure cannot be '' @ go_quote raw @
                 '' '' @ em_dash @ '' would cause a translation loop''))
           | Some a \<Rightarrow> Inr a
           | None \<Rightarrow> Inl (ErrText (prefix_mediator @ ''invalid onFailure '' @ go_quote raw @ '': must be reject or passThrough''))))"

definition loadTranslationPolicy :: "(string \<rightharpoonup> string) \<Rightarrow> goerr + TranslationPolicy" where
  "loadTranslationPolicy config =
     (case load_action config of
        Inl e \<Rightarrow> Inl e
      | Inr a \<Rightarrow>
          if a = PolicyActionTranslate then
            (case load_on_failure config of
               Inl e \<Rightarrow> Inl e
             | Inr f \<Rightarrow> Inr \<lparr>PAction = a, POnFailure = f\<rparr>)
          else Inr \<lparr>PAction = a, POnFailure = POnFailure defaultPolicy\<rparr>)"

subsection \<open>The walk over the payload\<close>

record PayloadRef =
  ContextURL :: string
  RefType :: string

record SchemaObjectRef =
  PayloadRefOf :: PayloadRef
  JSONataPath :: string

definition stringField :: "(string \<times> json) list \<Rightarrow> string \<Rightarrow> string option" where
  "stringField m key =
     (case jget m key of Some (JStr s) \<Rightarrow> if s \<noteq> [] then Some s else None | _ \<Rightarrow> None)"

text \<open>The references found and the descriptions of the nodes that were skipped.\<close>

type_synonym walk = "SchemaObjectRef list \<times> string list"

definition walk_append :: "walk \<Rightarrow> walk \<Rightarrow> walk" where
  "walk_append a b = (fst a @ fst b, snd a @ snd b)"

definition walk_self :: "(string \<times> json) list \<Rightarrow> string \<Rightarrow> walk" where
  "walk_self v nodePath =
     (case stringField v ''@context'' of
        None \<Rightarrow> ([], [])
      | Some contextURL \<Rightarrow>
          (case stringField v ''@type'' of
             Some typ \<Rightarrow>
               ([\<lparr>PayloadRefOf = \<lparr>ContextURL = contextURL, RefType = typ\<rparr>, JSONataPath = nodePath\<rparr>], [])
           | None \<Rightarrow> ([], [nodePath @ '' (@context='' @ go_quote contextURL @ '', @type absent)''])))"

fun walkNode :: "json \<Rightarrow> string \<Rightarrow> walk"
  and walk_members :: "(string \<times> json) list \<Rightarrow> string \<Rightarrow> walk"
  and walk_items :: "json list \<Rightarrow> nat \<Rightarrow> string \<Rightarrow> walk" where
  "walkNode (JObj v) nodePath = walk_append (walk_self v nodePath) (walk_members v nodePath)"
| "walkNode (JArr v) nodePath = walk_items v 0 nodePath"
| "walkNode JNull nodePath = ([], [])"
| "walkNode (JBool b) nodePath = ([], [])"
| "walkNode (JNum s) nodePath = ([], [])"
| "walkNode (JStr s) nodePath = ([], [])"
| "walk_members [] nodePath = ([], [])"
| "walk_members ((key, child) # rest) nodePath =
     (if key = ''@context'' \<or> key = ''@type'' then walk_members rest nodePath
      else walk_append (walkNode child (nodePath @ ''.'' @ key)) (walk_members rest nodePath))"
| "walk_items [] i nodePath = ([], [])"
| "walk_items (item # rest) i nodePath =
     walk_append (walkNode item (nodePath @ ''['' @ nat_dec i @ '']'')) (walk_items rest (Suc i) nodePath)"

definition WalkPayload :: "Float64 \<Rightarrow> (json \<Rightarrow> json) \<Rightarrow> string \<Rightarrow> goerr + walk" where
  "WalkPayload F order payload =
     (case unmarshal_any F payload of
        None \<Rightarrow> Inl (ErrWrap (prefix_mediator @ ''walk payload: '') (ErrText ''json.Unmarshal''))
      | Some root \<Rightarrow> Inr (walkNode (order root) ''$''))"

subsection \<open>Compatibility\<close>

record TranslationNeeded =
  TnFrom :: PayloadRef
  TnTo :: "SchemaObject option"
  TnCanonicalVersion :: string
  TnPath :: string

definition ToContextURL :: "TranslationNeeded \<Rightarrow> string" where
  "ToContextURL t =
     (case TnTo t of
        None \<Rightarrow> ''<nil>''
      | Some to \<Rightarrow> BaseURL to @ ''/'' @ TnCanonicalVersion t @ ''/context.jsonld'')"

definition isVersionSegment :: "string \<Rightarrow> bool" where
  "isVersionSegment s =
     (let check = strip_v s in
      s \<noteq> [] \<and> check \<noteq> [] \<and> hd check \<noteq> CHR ''.'' \<and> last check \<noteq> CHR ''.'' \<and>
      list_all (\<lambda>c. c = CHR ''.'' \<or> is_digit c) check \<and> CHR ''.'' \<in> set check)"

definition extractVersionSegment :: "(string \<Rightarrow> goerr + URL) \<Rightarrow> string \<Rightarrow> goerr + string" where
  "extractVersionSegment parse contextURL =
     (case parse contextURL of
        Inl e \<Rightarrow> Inl (errorf_w (prefix_mediator @ ''invalid context URL '' @ go_quote contextURL @ '': '') e)
      | Inr u \<Rightarrow>
          (case find isVersionSegment (Split (CHR ''/'') (TrimByte (CHR ''/'') (UPath u))) of
             Some seg \<Rightarrow> Inr seg
           | None \<Rightarrow> Inl (ErrText (prefix_mediator @ ''no version segment found in context URL '' @ go_quote contextURL))))"

definition containsVersion :: "string list \<Rightarrow> string \<Rightarrow> bool" where
  "containsVersion versions v = list_ex (\<lambda>sv. sv = v) versions"

definition ErrNoManifest :: goerr where
  "ErrNoManifest = ErrText ''schemaversionmediator: node manifest unavailable, skipping mediation''"

text \<open>The map \<open>supported\<close>: the last declaration of a type wins.\<close>

definition supported :: "NodeManifest \<Rightarrow> string \<Rightarrow> SchemaObject option" where
  "supported manifest t = map_of (rev (map (\<lambda>o'. (SoType o', o')) (SchemaObjects (NmSchema manifest)))) t"

text \<open>The part of a compact IRI after its last colon.\<close>

definition type_name :: "string \<Rightarrow> string" where
  "type_name t = (case LastIndexByte (CHR '':'') t of None \<Rightarrow> t | Some i \<Rightarrow> drop (i + 1) t)"

definition check_ref ::
  "(string \<Rightarrow> goerr + URL) \<Rightarrow> NodeManifest \<Rightarrow> SchemaObjectRef \<Rightarrow> TranslationNeeded option" where
  "check_ref parse manifest ref =
     (case supported manifest (type_name (RefType (PayloadRefOf ref))) of
        None \<Rightarrow> None
      | Some local \<Rightarrow>
          (let ok = (case extractVersionSegment parse (ContextURL (PayloadRefOf ref)) of
               Inl _ \<Rightarrow> False
             | Inr v \<Rightarrow> containsVersion (SupportedVersions local) v) in
           if ok then None
           else
             (case CanonicalVersion local (DefaultVersionPolicy (NmSchema manifest)) of
                Inl _ \<Rightarrow> None
              | Inr canonical \<Rightarrow>
                  Some \<lparr>TnFrom = PayloadRefOf ref, TnTo = Some local, TnCanonicalVersion = canonical,
                        TnPath = JSONataPath ref\<rparr>)))"

definition CheckCompatibility ::
  "(string \<Rightarrow> goerr + URL) \<Rightarrow> SchemaObjectRef list \<Rightarrow> NodeManifest option \<Rightarrow> goerr + TranslationNeeded list" where
  "CheckCompatibility parse extracted manifest =
     (case manifest of
        None \<Rightarrow> Inl ErrNoManifest
      | Some m \<Rightarrow> Inr (List.map_filter (check_ref parse m) extracted))"

definition deriveArtifactURL :: "(string \<Rightarrow> goerr + URL) \<Rightarrow> TranslationNeeded \<Rightarrow> goerr + string" where
  "deriveArtifactURL parse need =
     (case TnTo need of
        None \<Rightarrow> Inl (ErrText (prefix_mediator @ ''cannot derive artifact URL for unknown schema type '' @
                  go_quote (RefType (TnFrom need)) @ '' (To is nil)''))
      | Some to \<Rightarrow>
          (case extractVersionSegment parse (ContextURL (TnFrom need)) of
             Inl e \<Rightarrow> Inl e
           | Inr fromVersion \<Rightarrow>
               Inr (BaseURL to @ ''/'' @ TnCanonicalVersion need @ ''/'' @ RefType (TnFrom need) @
                    ''_from_'' @ fromVersion @ ''.jsonata'')))"


subsection \<open>Configuration\<close>

definition default_fetch_timeout :: int where "default_fetch_timeout = 30 * second"
definition defaultPositiveTTL :: int where "defaultPositiveTTL = 24 * 3600 * second"
definition defaultNegativeTTL :: int where "defaultNegativeTTL = 5 * 60 * second"
definition defaultMaxCacheEntries :: int where "defaultMaxCacheEntries = 500"

definition duration_key ::
  "(string \<Rightarrow> int option) \<Rightarrow> (string \<rightharpoonup> string) \<Rightarrow> string \<Rightarrow> int \<Rightarrow> goerr + int" where
  "duration_key ParseDuration config key dflt =
     (case config key of
        None \<Rightarrow> Inr dflt
      | Some v \<Rightarrow>
          (case ParseDuration v of
             Some d \<Rightarrow> Inr d
           | None \<Rightarrow> Inl (ErrWrap (prefix_mediator @ ''invalid '' @ key @ '' '' @ go_quote v @ '': '') (ErrText ''time.ParseDuration''))))"

definition max_entries_key :: "(string \<rightharpoonup> string) \<Rightarrow> goerr + int" where
  "max_entries_key config =
     (case config ''maxCacheEntries'' of
        None \<Rightarrow> Inr defaultMaxCacheEntries
      | Some v \<Rightarrow>
          (case Atoi v of
             Some n \<Rightarrow> if n \<le> 0 then Inl (ErrText (prefix_mediator @ ''invalid maxCacheEntries '' @ go_quote v @ '': must be a positive integer''))
                       else Inr n
           | None \<Rightarrow> Inl (ErrText (prefix_mediator @ ''invalid maxCacheEntries '' @ go_quote v @ '': must be a positive integer''))))"

definition loadMapManagerConfig ::
  "(string \<Rightarrow> int option) \<Rightarrow> (string \<rightharpoonup> string) \<Rightarrow> goerr + int \<times> int \<times> int \<times> int" where
  "loadMapManagerConfig ParseDuration config =
     (case duration_key ParseDuration config ''fetchTimeout'' default_fetch_timeout of
        Inl e \<Rightarrow> Inl e
      | Inr fetchTimeout \<Rightarrow>
     (case duration_key ParseDuration config ''artifactCacheTTL'' defaultPositiveTTL of
        Inl e \<Rightarrow> Inl e
      | Inr positiveTTL \<Rightarrow>
     (case duration_key ParseDuration config ''negativeCacheTTL'' defaultNegativeTTL of
        Inl e \<Rightarrow> Inl e
      | Inr negativeTTL \<Rightarrow>
     (case max_entries_key config of
        Inl e \<Rightarrow> Inl e
      | Inr maxEntries \<Rightarrow> Inr (fetchTimeout, positiveTTL, negativeTTL, maxEntries)))))"

subsection \<open>The mediator\<close>

record 'w MedEnv =
  EvLoader :: "'w ManifestLoaderMethods"
  EvTranslate :: "'w \<Rightarrow> string \<Rightarrow> string \<Rightarrow> (goerr + string) \<times> 'w"
  EvYaml :: "string \<Rightarrow> goerr + NodeManifest"
  EvClient :: "'w HttpClient"
  EvClock :: "'w clock"
  EvParseURL :: "string \<Rightarrow> goerr + URL"
  EvFloat :: Float64
  EvOrder :: "json \<Rightarrow> json"

record mediator =
  MedPolicy :: TranslationPolicy
  MedNotOnboarded :: bool
  MedLocalManifest :: "NodeManifest option"

definition parseNodeManifest :: "(string \<Rightarrow> goerr + NodeManifest) \<Rightarrow> ManifestDocument \<Rightarrow> goerr + NodeManifest" where
  "parseNodeManifest yaml doc =
     (case yaml (MdContent doc) of
        Inl e \<Rightarrow> Inl (errorf_w (prefix_mediator @ ''parse node manifest: '') e)
      | Inr nm \<Rightarrow> Inr nm)"

text \<open>
  \<open>New\<close>. \<open>mkEnv\<close> builds the environment with the HTTP client of the configured timeout; the
  result is the environment, the mediator and its empty cache.
\<close>

definition mediator_New ::
  "(string \<Rightarrow> int option) \<Rightarrow> (int \<Rightarrow> 'w MedEnv) \<Rightarrow> 'w \<Rightarrow> (string \<rightharpoonup> string) \<Rightarrow>
     (goerr + 'w MedEnv \<times> mediator \<times> artifactCache) \<times> 'w" where
  "mediator_New ParseDuration mkEnv w cfg =
     (case loadTranslationPolicy cfg of
        Inl e \<Rightarrow> (Inl e, w)
      | Inr policy \<Rightarrow>
     (case loadMapManagerConfig ParseDuration cfg of
        Inl e \<Rightarrow> (Inl e, w)
      | Inr (fetchTimeout, positiveTTL, negativeTTL, maxEntries) \<Rightarrow>
          (let E = mkEnv fetchTimeout;
               cache = newArtifactCache positiveTTL negativeTTL maxEntries;
               m = \<lparr>MedPolicy = policy, MedNotOnboarded = False, MedLocalManifest = None\<rparr>;
               off = m\<lparr>MedNotOnboarded := True\<rparr>;
               nodeID = (case cfg ''nodeId'' of None \<Rightarrow> [] | Some s \<Rightarrow> s) in
           if nodeID = [] then (Inr (E, off, cache), w)
           else
             (case GetBySubscriberID (EvLoader E) w nodeID of
                (Inl e, w1) \<Rightarrow> (if is_panic e then Inl e else Inr (E, off, cache), w1)
              | (Inr None, w1) \<Rightarrow> (Inr (E, off, cache), w1)
              | (Inr (Some doc), w1) \<Rightarrow>
                  (case parseNodeManifest (EvYaml E) doc of
                     Inl e \<Rightarrow> (if is_panic e then Inl e else Inr (E, off, cache), w1)
                   | Inr nm \<Rightarrow>
                       (Inr (E, if SchemaObjects (NmSchema nm) = [] then off else m\<lparr>MedLocalManifest := Some nm\<rparr>, cache), w1))))))"

subsection \<open>Errors of the mediator\<close>

record MediationErr =
  MeCode :: string
  MeMessage :: string
  MeDroppedFields :: "string list"
  MeCause :: "goerr option"

definition MediationError_Error :: "MediationErr \<Rightarrow> string" where
  "MediationError_Error e =
     prefix_mediator @ MeCode e @ '': '' @ MeMessage e @
     (if MeDroppedFields e \<noteq> [] then '' (dropped: '' @ Join (MeDroppedFields e) '', '' @ '')'' else [])"

definition MediationError_BecknError :: "MediationErr \<Rightarrow> Error" where
  "MediationError_BecknError e = Error (MeCode e) (MediationError_Error e) None None"

definition mediation_error :: "string \<Rightarrow> string \<Rightarrow> goerr option \<Rightarrow> goerr" where
  "mediation_error code message k =
     (let e = \<lparr>MeCode = code, MeMessage = message, MeDroppedFields = [], MeCause = k\<rparr>
      in ErrOther (MediationError_Error e) (MediationError_BecknError e) (MeCause e))"

definition applyOnFailure :: "TranslationPolicy \<Rightarrow> goerr \<Rightarrow> goerr option" where
  "applyOnFailure policy c =
     (if is_panic c then Some c
      else if POnFailure policy = PolicyActionPassThrough then None
      else Some (mediation_error ''SCH_SCHEMA_ADAPTATION_FAILED''
             ''schema version mediation failed; check adapter logs for details'' (Some c)))"

definition fetchCounterpartyManifest ::
  "'w MedEnv \<Rightarrow> 'w \<Rightarrow> string \<Rightarrow> (goerr + NodeManifest) \<times> 'w" where
  "fetchCounterpartyManifest E w counterpartyID =
     (case GetBySubscriberID (EvLoader E) w counterpartyID of
        (Inl e, w1) \<Rightarrow> (Inl e, w1)
      | (Inr None, w1) \<Rightarrow> (Inl (ErrText ''no manifest document returned''), w1)
      | (Inr (Some doc), w1) \<Rightarrow> (parseNodeManifest (EvYaml E) doc, w1))"

definition extractMessageSubtree :: "string \<Rightarrow> goerr + string" where
  "extractMessageSubtree body =
     (case unmarshal_raw body of
        None \<Rightarrow> Inl (ErrText ''json.Unmarshal'')
      | Some envelope \<Rightarrow>
          (case map_of (go_entries envelope) ''message'' of
             None \<Rightarrow> Inl (ErrText (''payload has no '' @ go_quote ''message'' @ '' field''))
           | Some msg \<Rightarrow> Inr msg))"

definition patchMessageSubtree :: "string \<Rightarrow> string \<Rightarrow> goerr + string" where
  "patchMessageSubtree body translated =
     (case unmarshal_raw body of
        None \<Rightarrow> Inl (ErrText ''json.Unmarshal'')
      | Some None \<Rightarrow> Inl (GoPanic ''assignment to entry in nil map'')
      | Some (Some envelope) \<Rightarrow> Inr (marshal_raw (go_set envelope ''message'' translated)))"

subsection \<open>Fetching the artifacts\<close>

type_synonym 'w med_state = "'w \<times> artifactCache"

record fetchedArtifact =
  FaArtifact :: TranslationArtifact
  FaNeed :: TranslationNeeded

record ArtifactFetchFailure =
  AfNeed :: TranslationNeeded
  AfURL :: string
  AfReason :: goerr

definition fetchArtifact ::
  "'w MedEnv \<Rightarrow> 'w med_state \<Rightarrow> TranslationNeeded \<Rightarrow> (goerr + TranslationArtifact) \<times> 'w med_state" where
  "fetchArtifact E s need =
     (case deriveArtifactURL (EvParseURL E) need of
        Inl e \<Rightarrow> (Inl e, s)
      | Inr artifactURL \<Rightarrow>
          (let (r, c1, w1) = fetchArtifactByURL (EvClock E) (EvClient E) (fst s) (snd s) artifactURL in (r, (w1, c1))))"

text \<open>One turn of the loop of \<open>fetchAllArtifacts\<close>.\<close>

definition fetch_need ::
  "'w MedEnv \<Rightarrow> 'w med_state \<Rightarrow> TranslationNeeded \<Rightarrow> (ArtifactFetchFailure + TranslationArtifact) \<times> 'w med_state" where
  "fetch_need E s need =
     (if TnTo need = None then
        (Inl \<lparr>AfNeed = need, AfURL = [], AfReason = ErrText (''type '' @ go_quote (RefType (TnFrom need)) @
            '' not in local manifest: no translation target known'')\<rparr>, s)
      else
        (case deriveArtifactURL (EvParseURL E) need of
           Inl e \<Rightarrow> (Inl \<lparr>AfNeed = need, AfURL = [], AfReason = e\<rparr>, s)
         | Inr artifactURL \<Rightarrow>
             (case fetchArtifactByURL (EvClock E) (EvClient E) (fst s) (snd s) artifactURL of
                (Inl e, c1, w1) \<Rightarrow> (Inl \<lparr>AfNeed = need, AfURL = artifactURL, AfReason = e\<rparr>, (w1, c1))
              | (Inr artifact, c1, w1) \<Rightarrow> (Inr artifact, (w1, c1)))))"

text \<open>The result is a panic of a fetch, or the map of artifacts and the failures.\<close>

fun fetch_needs ::
  "'w MedEnv \<Rightarrow> TranslationNeeded list \<Rightarrow> (string \<times> fetchedArtifact) list \<Rightarrow> ArtifactFetchFailure list \<Rightarrow>
     'w med_state \<Rightarrow> (goerr + (string \<times> fetchedArtifact) list \<times> ArtifactFetchFailure list) \<times> 'w med_state" where
  "fetch_needs E [] artifacts failures s = (Inr (artifacts, failures), s)"
| "fetch_needs E (need # needs) artifacts failures s =
     (case fetch_need E s need of
        (Inl f, s1) \<Rightarrow>
          if is_panic (AfReason f) then (Inl (AfReason f), s1)
          else fetch_needs E needs artifacts (failures @ [f]) s1
      | (Inr artifact, s1) \<Rightarrow>
          fetch_needs E needs (go_set artifacts (TnPath need) \<lparr>FaArtifact = artifact, FaNeed = need\<rparr>) failures s1)"

definition fetchAllArtifacts ::
  "'w MedEnv \<Rightarrow> 'w med_state \<Rightarrow> TranslationNeeded list \<Rightarrow>
     (goerr + (string \<times> fetchedArtifact) list \<times> ArtifactFetchFailure list) \<times> 'w med_state" where
  "fetchAllArtifacts E s needs = fetch_needs E needs [] [] s"

subsection \<open>Applying the artifacts\<close>

definition Execute :: "'w MedEnv \<Rightarrow> 'w \<Rightarrow> string \<Rightarrow> string \<Rightarrow> (goerr + string) \<times> 'w" where
  "Execute E w expression message =
     (case EvTranslate E w expression message of
        (Inl e, w1) \<Rightarrow> (Inl (errorf_w (prefix_mediator @ ''execute expression: '') e), w1)
      | (Inr r, w1) \<Rightarrow> (Inr r, w1))"

definition rel_path :: "string \<Rightarrow> string" where
  "rel_path jsonataPath =
     (let relPath = TrimPrefix jsonataPath ''$.message.'' in if relPath = jsonataPath then [] else relPath)"

definition about_path :: "string \<Rightarrow> string \<Rightarrow> string" where
  "about_path what relPath = prefix_mediator @ what @ '' at '' @ go_quote relPath @ '': ''"

text \<open>The end of a turn of the loop: the translated text goes back into the message.\<close>

definition place_result ::
  "Float64 \<Rightarrow> string \<Rightarrow> string \<Rightarrow> string \<Rightarrow> (string \<times> json) list option \<Rightarrow> goerr + (string \<times> json) list option" where
  "place_result F relPath targetContextURL resultBytes msgObj =
     (if relPath = [] then
        (case unmarshal_map F resultBytes msgObj of
           None \<Rightarrow> Inl (ErrWrap (prefix_mediator @ ''unmarshal translated message: '') (ErrText ''json.Unmarshal''))
         | Some None \<Rightarrow> Inl (GoPanic ''assignment to entry in nil map'')
         | Some (Some m) \<Rightarrow> Inr (Some (go_set m ''@context'' (JStr targetContextURL))))
      else
        (case unmarshal_any F resultBytes of
           None \<Rightarrow> Inl (ErrWrap (about_path ''unmarshal translated subtree'' relPath) (ErrText ''json.Unmarshal''))
         | Some decoded \<Rightarrow>
             (let value = (case decoded of
                  JObj obj \<Rightarrow> JObj (go_set obj ''@context'' (JStr targetContextURL))
                | _ \<Rightarrow> decoded) in
              case setAtPath (go_entries msgObj) relPath value of
                Inl e \<Rightarrow> Inl (errorf_w (about_path ''set translated subtree'' relPath) e)
              | Inr m \<Rightarrow> Inr (Some m))))"

definition subtree_bytes :: "string \<Rightarrow> string \<Rightarrow> (string \<times> json) list option \<Rightarrow> goerr + string" where
  "subtree_bytes msgBytes relPath msgObj =
     (if relPath = [] then Inr msgBytes
      else (case getAtPath (go_entries msgObj) relPath of
          Inl e \<Rightarrow> Inl (errorf_w (about_path ''extract subtree'' relPath) e)
        | Inr subtree \<Rightarrow> Inr (marshal_any subtree)))"

definition apply_artifact ::
  "'w MedEnv \<Rightarrow> string \<Rightarrow> string \<Rightarrow> fetchedArtifact \<Rightarrow> (string \<times> json) list option \<Rightarrow> 'w \<Rightarrow>
     (goerr + (string \<times> json) list option) \<times> 'w" where
  "apply_artifact E msgBytes jsonataPath fa msgObj w =
     (let relPath = rel_path jsonataPath in
      case subtree_bytes msgBytes relPath msgObj of
        Inl e \<Rightarrow> (Inl e, w)
      | Inr subtreeBytes \<Rightarrow>
          (case Execute E w (Content (FaArtifact fa)) subtreeBytes of
             (Inl e, w1) \<Rightarrow> (Inl (errorf_w (about_path ''execute translation'' relPath) e), w1)
           | (Inr resultBytes, w1) \<Rightarrow>
               (place_result (EvFloat E) relPath (ToContextURL (FaNeed fa)) resultBytes msgObj, w1)))"

fun apply_artifacts ::
  "'w MedEnv \<Rightarrow> string \<Rightarrow> (string \<times> fetchedArtifact) list \<Rightarrow> string list \<Rightarrow> (string \<times> json) list option \<Rightarrow> 'w \<Rightarrow>
     (goerr + (string \<times> json) list option) \<times> 'w" where
  "apply_artifacts E msgBytes artifacts [] msgObj w = (Inr msgObj, w)"
| "apply_artifacts E msgBytes artifacts (p # ps) msgObj w =
     (case apply_artifact E msgBytes p (the (map_of artifacts p)) msgObj w of
        (Inl e, w1) \<Rightarrow> (Inl e, w1)
      | (Inr msgObj1, w1) \<Rightarrow> apply_artifacts E msgBytes artifacts ps msgObj1 w1)"

text \<open>The part of \<open>Mediate\<close> after the artifacts have been fetched: the new body.\<close>

definition translate_body ::
  "'w MedEnv \<Rightarrow> string \<Rightarrow> (string \<times> fetchedArtifact) list \<Rightarrow> 'w \<Rightarrow> (goerr + string) \<times> 'w" where
  "translate_body E body artifacts w =
     (case extractMessageSubtree body of
        Inl e \<Rightarrow> (Inl (errorf_w (prefix_mediator @ ''extract message subtree: '') e), w)
      | Inr msgBytes \<Rightarrow>
          (case unmarshal_map (EvFloat E) msgBytes None of
             None \<Rightarrow> (Inl (ErrWrap (prefix_mediator @ ''unmarshal message: '') (ErrText ''json.Unmarshal'')), w)
           | Some msgObj \<Rightarrow>
               (case apply_artifacts E msgBytes artifacts (sort (map fst artifacts)) msgObj w of
                  (Inl e, w1) \<Rightarrow> (Inl e, w1)
                | (Inr msgObj1, w1) \<Rightarrow>
                    ((case patchMessageSubtree body (marshal_map msgObj1) of
                        Inl e \<Rightarrow> Inl (errorf_w (prefix_mediator @ ''patch message subtree: '') e)
                      | Inr patched \<Rightarrow> Inr patched), w1))))"

subsection \<open>Mediate\<close>

definition mediate_needs ::
  "'w MedEnv \<Rightarrow> mediator \<Rightarrow> 'w med_state \<Rightarrow> StepContext \<Rightarrow> TranslationNeeded list \<Rightarrow>
     goerr option \<times> StepContext \<times> 'w med_state" where
  "mediate_needs E m s ctx needs =
     (case fetchAllArtifacts E s needs of
        (Inl e, s1) \<Rightarrow> (Some e, ctx, s1)
      | (Inr (artifacts, failures), s1) \<Rightarrow>
          if failures \<noteq> [] then
            (applyOnFailure (MedPolicy m)
               (errorf_w (prefix_mediator @ nat_dec (length failures) @ '' artifact fetch failure(s): first: '')
                  (AfReason (hd failures))), ctx, s1)
          else
            (case translate_body E (Body ctx) artifacts (fst s1) of
               (Inl e, w2) \<Rightarrow> (Some e, ctx, (w2, snd s1))
             | (Inr patched, w2) \<Rightarrow> (None, ctx\<lparr>Body := patched\<rparr>, (w2, snd s1))))"

text \<open>The manifest to check against: the local one, or for a caller that of the counterparty.\<close>

definition target_manifest ::
  "'w MedEnv \<Rightarrow> mediator \<Rightarrow> 'w \<Rightarrow> StepContext \<Rightarrow> string \<Rightarrow> (goerr option + NodeManifest option) \<times> 'w" where
  "target_manifest E m w ctx counterpartyID =
     (if IsCallerHandler ctx then
        (case fetchCounterpartyManifest E w counterpartyID of
           (Inl e, w1) \<Rightarrow>
             (Inl (if is_panic e then Some e
                   else applyOnFailure (MedPolicy m)
                     (ErrText (prefix_mediator @ ''counterparty manifest unavailable for '' @ go_quote counterpartyID @
                        '': '' @ error_text e))), w1)
         | (Inr nm, w1) \<Rightarrow> (Inr (Some nm), w1))
      else (Inr (MedLocalManifest m), w))"

definition Mediate :: "'w MedEnv \<Rightarrow> mediator \<Rightarrow> 'w med_state Step" where
  "Mediate E m s ctx =
     (if MedNotOnboarded m then
        (Some (mediation_error ''SCH_SUBSCRIBER_NOT_FOUND''
           ''Local node manifest is missing or has no schemaObjects. Publish your manifest to DeDi before going live.'' None),
         ctx, s)
      else
        let counterpartyID = ctx_string0 (ScCtx ctx) ContextKeyRemoteID in
        if counterpartyID = [] then (None, ctx, s)
        else
          (case WalkPayload (EvFloat E) (EvOrder E) (Body ctx) of
             Inl e \<Rightarrow> (Some (errorf_w (prefix_mediator @ ''walk payload: '') e), ctx, s)
           | Inr (refs, skipped) \<Rightarrow>
               (case target_manifest E m (fst s) ctx counterpartyID of
                  (Inl r, w1) \<Rightarrow> (r, ctx, (w1, snd s))
                | (Inr targetManifest, w1) \<Rightarrow>
                    (case CheckCompatibility (EvParseURL E) refs targetManifest of
                       Inl e \<Rightarrow> (Some e, ctx, (w1, snd s))
                     | Inr needs \<Rightarrow>
                         if needs = [] then (None, ctx, (w1, snd s))
                         else if PAction (MedPolicy m) = PolicyActionReject then
                           (Some (mediation_error ''SCH_SCHEMA_ADAPTATION_FAILED''
                              (''payload contains '' @ nat_dec (length needs) @
                               '' incompatible schema object(s) and policy is reject'') None), ctx, (w1, snd s))
                         else mediate_needs E m (w1, snd s) ctx needs))))"

subsection \<open>Utilities that the request path does not use\<close>

fun flattenKeyPaths :: "(string \<times> json) list \<Rightarrow> string \<Rightarrow> string list" where
  "flattenKeyPaths [] pre = []"
| "flattenKeyPaths ((k, child) # rest) pre =
     (let full = (if pre \<noteq> [] then pre @ ''.'' @ k else k)
      in (case child of JObj nested \<Rightarrow> flattenKeyPaths nested full | _ \<Rightarrow> [full])) @ flattenKeyPaths rest pre"

definition droppedFields :: "Float64 \<Rightarrow> string \<Rightarrow> string \<Rightarrow> goerr + string list" where
  "droppedFields F src dst =
     (case unmarshal_map F src None of
        None \<Rightarrow> Inl (ErrWrap ''unmarshal source: '' (ErrText ''json.Unmarshal''))
      | Some srcMap \<Rightarrow>
          (case unmarshal_map F dst None of
             None \<Rightarrow> Inl (ErrWrap ''unmarshal translated: '' (ErrText ''json.Unmarshal''))
           | Some dstMap \<Rightarrow>
               (let dstKeys = flattenKeyPaths (go_entries dstMap) []
                in Inr (sort (filter (\<lambda>k. k \<notin> set dstKeys) (flattenKeyPaths (go_entries srcMap) []))))))"

record MappingEntry =
  MapJSONataPath :: string
  Expression :: string

fun first_blank :: "nat \<Rightarrow> MappingEntry list \<Rightarrow> (nat \<times> MappingEntry) option" where
  "first_blank i [] = None"
| "first_blank i (e # es) = (if blank (Expression e) then Some (i, e) else first_blank (Suc i) es)"

definition ComposeExpression :: "MappingEntry list \<Rightarrow> goerr + string" where
  "ComposeExpression entries =
     (if entries = [] then Inr ''$''
      else (case first_blank 0 entries of
          Some (i, e) \<Rightarrow> Inl (ErrText (prefix_mediator @ ''compose expression: entry '' @ nat_dec i @ '' (path '' @
            go_quote (MapJSONataPath e) @ '') has empty expression''))
        | None \<Rightarrow> Inr (''$merge([$, '' @ Join (map Expression entries) '', '' @ ''])'')))"

end
