(* ===== verification/Payload_Walk.thy ===== *)
theory Payload_Walk
  imports Schema_Mediator
begin

text \<open>
  The walk over a payload and the navigation by path agree: the path that \<open>WalkPayload\<close> reports for
  a schema object inside the message leads \<open>getAtPath\<close> back to that object, as long as keys hold
  no dot and no index and arrays are not nested directly.
\<close>

subsection \<open>Paths as text\<close>

lemma Split_append_sep: "Split c (u @ c # s) = Split c u @ Split c s"
  by (induction u) (auto split: list.splits)

lemma Split_append_plain:
  "c \<notin> set t \<Longrightarrow> Split c (u @ t) = butlast (Split c u) @ [last (Split c u) @ t]"
proof (induction u)
  case Nil
  then show ?case by (simp add: Split_single)
next
  case (Cons x u)
  obtain w ws where "Split c u = w # ws" by (cases "Split c u") auto
  with Cons show ?case by (cases ws rule: rev_cases) (auto split: list.splits)
qed

lemma path_accesses_last_key: "path_accesses (rel @ CHR ''.'' # k) = path_accesses rel @ path_accesses k"
  by (simp add: path_accesses_def Split_append_sep)

definition plain_part :: "string \<Rightarrow> bool" where
  "plain_part k \<longleftrightarrow> CHR ''.'' \<notin> set k \<and> parsePathSegment k = (k, - 1)"

lemma plain_accesses: "plain_part k \<Longrightarrow> path_accesses k = [AKey k]"
  by (simp add: plain_part_def path_accesses_def Split_single part_accesses_def)

lemma LastIndexByte_append: "c \<notin> set t \<Longrightarrow> LastIndexByte c (u @ c # t) = Some (length u)"
proof -
  assume "c \<notin> set t"
  then have "LastIndexByte c t = None" by (induction t) auto
  then show ?thesis by (induction u) auto
qed

lemma Atoi_nat_dec: "i < 2 ^ 63 \<Longrightarrow> Atoi (nat_dec i) = Some (int i)"
  using ParseInt64_int_dec [of "int i"] by (simp add: Atoi_def int_dec_def)

lemma nat_dec_avoids: "\<not> is_digit c \<Longrightarrow> c \<notin> set (nat_dec n)"
  using nat_dec_digits [of n] by (auto simp: list_all_iff)

lemma parse_indexed:
  assumes "i < 2 ^ 63"
  shows "parsePathSegment (k @ ''['' @ nat_dec i @ '']'') = (k, int i)"
proof -
  let ?s = "k @ ''['' @ nat_dec i @ '']''"
  have "LastIndexByte (CHR ''['') ?s = Some (length k)"
    using LastIndexByte_append [of "CHR ''[''" "nat_dec i @ '']''" k] by (simp add: nat_dec_avoids is_digit_def)
  moreover have "HasSuffix ?s '']''" by (simp add: HasSuffix_def)
  moreover have "drop (length k + 1) (take (length ?s - 1) ?s) = nat_dec i" by simp
  ultimately show ?thesis using Atoi_nat_dec [OF assms] by (simp add: parsePathSegment_def)
qed

lemma path_accesses_index:
  assumes "plain_part (last (Split (CHR ''.'') rel))" "i < 2 ^ 63"
  shows "path_accesses (rel @ ''['' @ nat_dec i @ '']'') = path_accesses rel @ [AIdx i]"
proof -
  obtain ks k where split: "Split (CHR ''.'') rel = ks @ [k]" by (cases "Split (CHR ''.'') rel" rule: rev_cases) auto
  have "CHR ''.'' \<notin> set (''['' @ nat_dec i @ '']'')" by (simp add: nat_dec_avoids is_digit_def)
  from Split_append_plain [OF this, of rel]
  have "Split (CHR ''.'') (rel @ ''['' @ nat_dec i @ '']'') = ks @ [k @ ''['' @ nat_dec i @ '']'']"
    by (simp add: split)
  moreover have "part_accesses (k @ ''['' @ nat_dec i @ '']'') = part_accesses k @ [AIdx i]"
    using assms(1) split unfolding part_accesses_def parse_indexed [OF assms(2)] by (simp add: plain_part_def)
  ultimately show ?thesis by (simp only: path_accesses_def split) simp
qed

subsection \<open>Payloads whose paths are readable\<close>

fun clean_json :: "json \<Rightarrow> bool" where
  "clean_json (JObj kvs) = (distinct (map fst kvs) \<and> list_all (\<lambda>p. plain_part (fst p) \<and> clean_json (snd p)) kvs)"
| "clean_json (JArr vs) = (length vs < 2 ^ 63 \<and> list_all (\<lambda>v. (\<forall>ws. v \<noteq> JArr ws) \<and> clean_json v) vs)"
| "clean_json v = True"


definition is_array :: "json \<Rightarrow> bool" where "is_array v \<longleftrightarrow> (\<exists>vs. v = JArr vs)"

text \<open>
  The value at a path of the message, together with what an index appended to the path needs.
\<close>

definition at_path :: "json \<Rightarrow> string \<Rightarrow> json \<Rightarrow> bool" where
  "at_path msg rel v \<longleftrightarrow> aget msg (path_accesses rel) = Some v \<and>
     (is_array v \<longrightarrow> plain_part (last (Split (CHR ''.'') rel)))"

lemma jget_distinct: "distinct (map fst kvs) \<Longrightarrow> (k, v) \<in> set kvs \<Longrightarrow> jget kvs k = Some v"
  unfolding jget_def by (rule map_of_is_SomeI) (simp_all add: rev_map [symmetric])

lemma at_path_member:
  assumes "at_path msg rel (JObj kvs)" "distinct (map fst kvs)" "(k, v) \<in> set kvs" "plain_part k"
  shows "at_path msg (rel @ CHR ''.'' # k) v"
proof -
  have "CHR ''.'' \<notin> set k" using assms(4) by (simp add: plain_part_def)
  then have "last (Split (CHR ''.'') (rel @ CHR ''.'' # k)) = k" by (simp add: Split_append_sep Split_single)
  with assms show ?thesis
    by (simp add: at_path_def path_accesses_last_key plain_accesses aget_append jget_distinct)
qed

lemma at_path_item:
  assumes "at_path msg rel (JArr vs)" "i < length vs" "length vs < 2 ^ 63" "\<not> is_array (vs ! i)"
  shows "at_path msg (rel @ ''['' @ nat_dec i @ '']'') (vs ! i)"
proof -
  have plain: "plain_part (last (Split (CHR ''.'') rel))" using assms(1) by (simp add: at_path_def is_array_def)
  have "i < 2 ^ 63" using assms(2,3) by simp
  from path_accesses_index [OF plain this] assms show ?thesis by (simp add: at_path_def aget_append)
qed

text \<open>What the walk says of a node: its references carry the identity of the object at their path.\<close>

definition resolves :: "json \<Rightarrow> SchemaObjectRef \<Rightarrow> bool" where
  "resolves msg ref \<longleftrightarrow>
     (\<exists>rel obj. JSONataPath ref = ''$.message.'' @ rel \<and> aget msg (path_accesses rel) = Some (JObj obj) \<and>
        stringField obj ''@context'' = Some (ContextURL (PayloadRefOf ref)) \<and>
        stringField obj ''@type'' = Some (RefType (PayloadRefOf ref)))"

lemma walk_self_resolves:
  "at_path msg rel (JObj v) \<Longrightarrow> ref \<in> set (fst (walk_self v (''$.message.'' @ rel))) \<Longrightarrow> resolves msg ref"
  by (auto simp: walk_self_def resolves_def at_path_def split: option.splits)

lemma walk_members_iff:
  "ref \<in> set (fst (walk_members kvs path)) \<longleftrightarrow>
     (\<exists>(k, v) \<in> set kvs. k \<noteq> ''@context'' \<and> k \<noteq> ''@type'' \<and> ref \<in> set (fst (walkNode v (path @ ''.'' @ k))))"
proof (induction kvs)
  case (Cons p kvs)
  obtain k v where "p = (k, v)" by (cases p)
  with Cons.IH show ?case by (simp add: walk_append_def)
qed simp

lemma walk_items_iff:
  "ref \<in> set (fst (walk_items vs i path)) \<longleftrightarrow>
     (\<exists>j < length vs. ref \<in> set (fst (walkNode (vs ! j) (path @ ''['' @ nat_dec (i + j) @ '']''))))"
proof (induction vs arbitrary: i)
  case (Cons v vs)
  have "(\<exists>j < length (v # vs). P ((v # vs) ! j) (i + j)) \<longleftrightarrow> P v i \<or> (\<exists>j < length vs. P (vs ! j) (Suc i + j))" for P
    by (auto simp: less_Suc_eq_0_disj)
  from this [of "\<lambda>w n. ref \<in> set (fst (walkNode w (path @ ''['' @ nat_dec n @ '']'')))"] Cons.IH [of "Suc i"] show ?case
    by (simp add: walk_append_def)
qed simp

lemma walk_resolves:
  "clean_json v \<Longrightarrow> at_path msg rel v \<Longrightarrow> ref \<in> set (fst (walkNode v (''$.message.'' @ rel))) \<Longrightarrow> resolves msg ref"
proof (induction v arbitrary: rel)
  case (JArr vs)
  then obtain j where j: "j < length vs" "ref \<in> set (fst (walkNode (vs ! j) (''$.message.'' @ rel @ ''['' @ nat_dec j @ '']'')))"
    by (auto simp: walk_items_iff)
  have "clean_json (vs ! j)" "\<not> is_array (vs ! j)" "length vs < 2 ^ 63"
    using JArr.prems(1) j(1) by (auto simp: list_all_length is_array_def)
  then have "at_path msg (rel @ ''['' @ nat_dec j @ '']'') (vs ! j)"
    using JArr.prems(2) j(1) by (intro at_path_item)
  from JArr.IH [OF nth_mem [OF j(1)] \<open>clean_json (vs ! j)\<close> this j(2)] show ?case .
next
  case (JObj kvs)
  from JObj.prems(3) consider "ref \<in> set (fst (walk_self kvs (''$.message.'' @ rel)))"
    | k v where "(k, v) \<in> set kvs" "ref \<in> set (fst (walkNode v (''$.message.'' @ rel @ CHR ''.'' # k)))"
    by (auto simp: walk_append_def walk_members_iff)
  then show ?case
  proof cases
    case 1
    with JObj.prems(2) show ?thesis by (rule walk_self_resolves)
  next
    case 2
    have "clean_json v" "plain_part k" "distinct (map fst kvs)" using JObj.prems(1) 2(1) by (auto simp: list_all_iff)
    with JObj.IH [of "(k, v)" v "rel @ CHR ''.'' # k"] JObj.prems(2) 2 at_path_member snds.intros [of "(k, v)"]
    show ?thesis by auto
  qed
qed simp_all

text \<open>The paths below a node extend its path by a dot or a bracket.\<close>

lemma walk_path_extends:
  "ref \<in> set (fst (walkNode v path)) \<Longrightarrow>
     \<exists>ext. JSONataPath ref = path @ ext \<and> (ext = [] \<or> hd ext = CHR ''.'' \<or> hd ext = CHR ''['')"
proof (induction v arbitrary: path)
  case (JArr vs)
  then obtain j where "j < length vs" "ref \<in> set (fst (walkNode (vs ! j) (path @ ''['' @ nat_dec j @ '']'')))"
    by (auto simp: walk_items_iff)
  with JArr.IH [of "vs ! j" "path @ ''['' @ nat_dec j @ '']''"] show ?case by fastforce
next
  case (JObj kvs)
  from JObj.prems consider "ref \<in> set (fst (walk_self kvs path))"
    | k v where "(k, v) \<in> set kvs" "ref \<in> set (fst (walkNode v (path @ CHR ''.'' # k)))"
    by (auto simp: walk_append_def walk_members_iff)
  then show ?case
  proof cases
    case 1
    then show ?thesis by (auto simp: walk_self_def split: option.splits)
  next
    case 2
    with JObj.IH [of "(k, v)" v "path @ CHR ''.'' # k"] snds.intros [of "(k, v)"] show ?thesis by fastforce
  qed
qed simp_all

lemma key_text_unique:
  assumes "k @ ext = k' @ CHR ''.'' # rel" "CHR ''.'' \<notin> set k" "CHR ''.'' \<notin> set k'" "CHR ''['' \<notin> set k'"
    and "ext = [] \<or> hd ext = CHR ''.'' \<or> hd ext = CHR ''[''"
  shows "k = k' \<and> ext = CHR ''.'' # rel"
proof -
  from assms(1) obtain us where "k = k' @ us \<and> us @ ext = CHR ''.'' # rel \<or> k' = k @ us \<and> ext = us @ CHR ''.'' # rel"
    by (auto simp: append_eq_append_conv2)
  with assms(2-5) show ?thesis by (cases us) auto
qed

subsection \<open>Properties\<close>

text \<open>The paths of the walk can be read back. In a payload whose keys hold no dot and do not end in
  an index and whose arrays are not nested directly, every schema object that the walk finds at
  a path inside the message is what \<open>getAtPath\<close> finds in the message at the rest of that path: an
  object with the context URL and type that the walk reported.\<close>

theorem walk_paths_resolve:
  assumes "clean_json (JObj root)" "jget root ''message'' = Some (JObj msg)"
    and "ref \<in> set (fst (walkNode (JObj root) ''$''))" "JSONataPath ref = ''$.message.'' @ rel"
  shows "\<exists>obj. getAtPath msg rel = Inr (JObj obj) \<and>
     stringField obj ''@context'' = Some (ContextURL (PayloadRefOf ref)) \<and>
     stringField obj ''@type'' = Some (RefType (PayloadRefOf ref))"
proof -
  have "ref \<notin> set (fst (walk_self root ''$''))" using assms(4) by (auto simp: walk_self_def split: option.splits)
  with assms(3) obtain k v where kv: "(k, v) \<in> set root" "ref \<in> set (fst (walkNode v (''$'' @ CHR ''.'' # k)))"
    by (auto simp: walk_append_def walk_members_iff)
  from walk_path_extends [OF kv(2)] obtain ext where ext: "JSONataPath ref = ''$'' @ CHR ''.'' # k @ ext"
    "ext = [] \<or> hd ext = CHR ''.'' \<or> hd ext = CHR ''[''" by auto
  have "k = ''message''"
    using ext assms(1,4) kv(1) key_text_unique [of k ext "''message''" rel]
    by (auto simp: list_all_iff plain_part_def)
  moreover have "distinct (map fst root)" using assms(1) by simp
  ultimately have v: "v = JObj msg" using assms(2) kv(1) jget_distinct by fastforce
  have "\<forall>p \<in> set root. clean_json (snd p)" using assms(1) by (simp add: list_all_iff)
  from bspec [OF this kv(1)] v have "clean_json (JObj msg)" by simp
  have "ref \<notin> set (fst (walk_self msg ''$.message''))" using assms(4) by (auto simp: walk_self_def split: option.splits)
  with kv(2) v \<open>k = ''message''\<close> obtain k1 v1 where k1: "(k1, v1) \<in> set msg" "ref \<in> set (fst (walkNode v1 (''$.message.'' @ k1)))"
    by (auto simp: walk_append_def walk_members_iff)
  have clean1: "clean_json v1" "plain_part k1" "distinct (map fst msg)"
    using \<open>clean_json (JObj msg)\<close> k1(1) by (auto simp: list_all_iff)
  then have "at_path (JObj msg) k1 v1"
    using k1(1) by (simp add: at_path_def plain_accesses jget_distinct) (simp add: plain_part_def Split_single)
  from walk_resolves [OF clean1(1) this k1(2)] assms(4) obtain obj where
    "aget (JObj msg) (path_accesses rel) = Some (JObj obj)"
    "stringField obj ''@context'' = Some (ContextURL (PayloadRefOf ref))"
    "stringField obj ''@type'' = Some (RefType (PayloadRefOf ref))" by (auto simp: resolves_def)
  with getAtPath_refines [of msg rel] show ?thesis by (auto simp: result_Some)
qed


definition sample_payload :: "(string \<times> json) list" where
  "sample_payload = [(''context'', JObj []), (''message'', JObj [(''items'', JArr [JNull,
     JObj [(''@context'', JStr ''c''), (''@type'', JStr ''T'')]])])]"

theorem walk_paths_resolve_witness:
  "\<exists>obj. getAtPath [(''items'', JArr [JNull, JObj [(''@context'', JStr ''c''), (''@type'', JStr ''T'')]])] ''items[1]'' = Inr (JObj obj) \<and>
     stringField obj ''@context'' = Some ''c'' \<and> stringField obj ''@type'' = Some ''T''"
proof -
  let ?ref = "\<lparr>PayloadRefOf = \<lparr>ContextURL = ''c'', RefType = ''T''\<rparr>, JSONataPath = ''$.message.items[1]''\<rparr>"
  have "plain_part ''context''" "plain_part ''message''" "plain_part ''items''" "plain_part ''@context''" "plain_part ''@type''"
    by code_simp+
  then have clean: "clean_json (JObj sample_payload)" by (simp add: sample_payload_def)
  have walk: "?ref \<in> set (fst (walkNode (JObj sample_payload) ''$''))" by code_simp
  have msg: "jget sample_payload ''message'' =
      Some (JObj [(''items'', JArr [JNull, JObj [(''@context'', JStr ''c''), (''@type'', JStr ''T'')]])])" by code_simp
  show ?thesis using walk_paths_resolve [OF clean msg walk, of "''items[1]''"] by simp
qed

text \<open>Objects in directly nested arrays are found but cannot be reached. The walk reports a schema
  object in an array inside an array at a path with two indexes, and \<open>getAtPath\<close> fails on that path
  in the very message that was walked, because it takes the first index for a part of the key.\<close>

theorem nested_array_object_unreachable:
  assumes "plain_part k" "k \<noteq> ''@context''" "k \<noteq> ''@type''"
    and "stringField obj ''@context'' = Some c" "stringField obj ''@type'' = Some t"
  shows "\<lparr>PayloadRefOf = \<lparr>ContextURL = c, RefType = t\<rparr>, JSONataPath = ''$.message.'' @ k @ ''[0][0]''\<rparr>
       \<in> set (fst (walkNode (JObj [(k, JArr [JArr [JObj obj]])]) ''$.message'')) \<and>
     result (getAtPath [(k, JArr [JArr [JObj obj]])] (k @ ''[0][0]'')) = None"
proof -
  have zero: "nat_dec 0 = ''0''" by code_simp
  have found: "\<lparr>PayloadRefOf = \<lparr>ContextURL = c, RefType = t\<rparr>, JSONataPath = ''$.message.'' @ k @ ''[0][0]''\<rparr>
       \<in> set (fst (walkNode (JObj [(k, JArr [JArr [JObj obj]])]) ''$.message''))"
    using assms by (simp add: walk_append_def walk_self_def zero)
  have parse: "parsePathSegment (k @ ''[0][0]'') = (k @ ''[0]'', 0)"
    using parse_indexed [of 0 "k @ ''[0]''"] by (simp add: zero)
  have "CHR ''.'' \<notin> set (k @ ''[0][0]'')" using assms(1) by (simp add: plain_part_def)
  then have "path_accesses (k @ ''[0][0]'') = [AKey (k @ ''[0]''), AIdx 0]"
    by (simp add: path_accesses_def Split_single part_accesses_def parse)
  then have "result (getAtPath [(k, JArr [JArr [JObj obj]])] (k @ ''[0][0]'')) = None"
    by (simp add: getAtPath_refines jget_def)
  with found show ?thesis by blast
qed

theorem nested_array_object_unreachable_witness:
  "result (getAtPath [(''a'', JArr [JArr [JObj [(''@context'', JStr ''c''), (''@type'', JStr ''T'')]]])] (''a'' @ ''[0][0]'')) = None"
proof -
  have "plain_part ''a''" by code_simp
  then show ?thesis
    using nested_array_object_unreachable [of "''a''" "[(''@context'', JStr ''c''), (''@type'', JStr ''T'')]" "''c''" "''T''"]
    by (simp add: stringField_def jget_def)
qed

lemma jget_simps: "jget [] k = None" "jget (m @ [(a, b)]) k = (if k = a then Some b else jget m k)"
  by (simp_all add: jget_def)

lemma jget_fold_set:
  "jget (foldl (\<lambda>acc p. go_set acc (fst p) (snd p)) m kvs) k = (case jget kvs k of Some v \<Rightarrow> Some v | None \<Rightarrow> jget m k)"
proof (induction kvs rule: rev_induct)
  case (snoc p kvs)
  then show ?case by (cases p) (simp add: jget_simps)
qed (simp add: jget_simps)

text \<open>A translation outside the parts of the message is merged into the whole message. For an object
  whose path does not lie below the message, be it the message itself or any other part of the
  payload, the translator is run on the whole message, and its output is written over the message
  member by member: what the output does not mention keeps its old value, so a field that the
  translation drops or renames is still there.\<close>

theorem outside_object_merged_into_message:
  assumes "\<not> HasPrefix p ''$.message.''"
    and "EvTranslate E w (Content (FaArtifact fa)) msgBytes = (Inr out, w1)"
    and "unmarshal_any (EvFloat E) out = Some (JObj obj)"
  shows "\<exists>msg'. apply_artifact E msgBytes p fa (Some msg) w = (Inr (Some msg'), w1) \<and>
     (\<forall>k. jget msg' k = (if k = ''@context'' then Some (JStr (ToContextURL (FaNeed fa)))
        else case jget obj k of Some v \<Rightarrow> Some v | None \<Rightarrow> jget msg k))"
proof -
  have "rel_path p = []" using assms(1) by (simp add: rel_path_def TrimPrefix_def)
  with assms(2,3) show ?thesis
    by (simp add: apply_artifact_def subtree_bytes_def Execute_def place_result_def unmarshal_map_def go_entries_def jget_fold_set)
qed

definition merge_env :: "unit MedEnv" where
  "merge_env =
     \<lparr>EvLoader = \<lparr>GetByNetworkID = (\<lambda>w n. (Inr None, w)), GetByMetadata = (\<lambda>w n. (Inr None, w)),
        GetBySubscriberID = (\<lambda>w n. (Inr None, w))\<rparr>,
      EvTranslate = (\<lambda>w a x. (Inr ''{\"new\":1}'', w)), EvYaml = (\<lambda>s. Inl (ErrText s)),
      EvClient = \<lparr>NewRequest = (\<lambda>u. None), Do = (\<lambda>w u. (Inl (ErrText u), w))\<rparr>, EvClock = (\<lambda>w. (0, w)),
      EvParseURL = (\<lambda>u. Inl (ErrText u)), EvFloat = \<lparr>InRange = (\<lambda>s. True), FloatText = (\<lambda>s. s)\<rparr>, EvOrder = (\<lambda>v. v)\<rparr>"

definition merge_artifact :: fetchedArtifact where
  "merge_artifact = \<lparr>FaArtifact = sample_artifact, FaNeed = \<lparr>TnFrom = \<lparr>ContextURL = ''x/v1.0/c'', RefType = ''Ctx''\<rparr>,
     TnTo = Some sample_offer, TnCanonicalVersion = ''v2.10'', TnPath = ''$.context''\<rparr>\<rparr>"

theorem outside_object_merged_into_message_witness:
  "\<exists>msg'. fst (apply_artifact merge_env ''{\"old\":1}'' ''$.context'' merge_artifact (Some [(''old'', JNum ''1'')]) ()) = Inr (Some msg') \<and>
     jget msg' ''old'' = Some (JNum ''1'') \<and> jget msg' ''new'' = Some (JNum ''1'')"
proof -
  have out: "EvTranslate merge_env () (Content (FaArtifact fa)) ''{\"old\":1}'' = (Inr ''{\"new\":1}'', ())" for fa
    by (simp add: merge_env_def)
  have obj: "unmarshal_any (EvFloat merge_env) ''{\"new\":1}'' = Some (JObj [(''new'', JNum ''1'')])" by code_simp
  from outside_object_merged_into_message [OF _ out obj, of "''$.context''" merge_artifact "[(''old'', JNum ''1'')]"]
  show ?thesis by (auto simp: jget_def)
qed

end
