(* ===== verification/Mediation.thy ===== *)
theory Mediation
  imports Payload_Walk
begin

text \<open>
  The correctness of schema version mediation: which payloads are left alone, what is refused
  under which policy, and what a translated body looks like.
\<close>

subsection \<open>The compatibility check\<close>

text \<open>The specification: an object of a declared type carries a version the manifest supports.\<close>

definition declared_compatible :: "(string \<Rightarrow> goerr + URL) \<Rightarrow> NodeManifest \<Rightarrow> SchemaObjectRef \<Rightarrow> bool" where
  "declared_compatible parse man ref \<longleftrightarrow>
     (case supported man (type_name (RefType (PayloadRefOf ref))) of
        None \<Rightarrow> True
      | Some obj \<Rightarrow>
          (case extractVersionSegment parse (ContextURL (PayloadRefOf ref)) of
             Inl _ \<Rightarrow> False
           | Inr v \<Rightarrow> v \<in> set (SupportedVersions obj)))"

lemma containsVersion_iff [simp]: "containsVersion vs v \<longleftrightarrow> v \<in> set vs"
  by (auto simp: containsVersion_def list_ex_iff)

lemma check_ref_compatible: "declared_compatible parse man ref \<Longrightarrow> check_ref parse man ref = None"
  by (auto simp: check_ref_def declared_compatible_def split: option.splits sum.splits)

lemma supported_declared: "supported man t = Some obj \<Longrightarrow> obj \<in> set (SchemaObjects (NmSchema man)) \<and> SoType obj = t"
  by (auto simp: supported_def dest!: map_of_SomeD)

lemma check_ref_incompatible:
  assumes "\<not> declared_compatible parse man ref"
    and canonical: "\<And>obj. obj \<in> set (SchemaObjects (NmSchema man)) \<Longrightarrow>
      \<exists>v \<in> set (SupportedVersions obj). CanonicalVersion obj (DefaultVersionPolicy (NmSchema man)) = Inr v"
  shows "\<exists>obj v. supported man (type_name (RefType (PayloadRefOf ref))) = Some obj \<and> v \<in> set (SupportedVersions obj) \<and>
     CanonicalVersion obj (DefaultVersionPolicy (NmSchema man)) = Inr v \<and>
     check_ref parse man ref = Some \<lparr>TnFrom = PayloadRefOf ref, TnTo = Some obj, TnCanonicalVersion = v, TnPath = JSONataPath ref\<rparr>"
proof -
  from assms(1) obtain obj where obj: "supported man (type_name (RefType (PayloadRefOf ref))) = Some obj"
    by (auto simp: declared_compatible_def split: option.splits)
  with canonical supported_declared obtain v where "v \<in> set (SupportedVersions obj)"
    "CanonicalVersion obj (DefaultVersionPolicy (NmSchema man)) = Inr v" by blast
  with obj assms(1) show ?thesis
    by (auto simp: check_ref_def declared_compatible_def split: sum.splits)
qed

lemma map_filter_split:
  assumes "\<And>x. x \<in> set xs \<Longrightarrow> P x \<Longrightarrow> f x = None" "\<And>x. x \<in> set xs \<Longrightarrow> \<not> P x \<Longrightarrow> f x \<noteq> None"
  shows "List.map_filter f xs = map (\<lambda>x. the (f x)) (filter (\<lambda>x. \<not> P x) xs)"
  using assms by (induction xs) (auto simp: List.map_filter_def)

lemma check_exact:
  assumes "NodeManifest_Validate T (Some man) subscriber now = None"
  shows "\<exists>needs. CheckCompatibility parse refs (Some man) = Inr needs \<and>
     map (\<lambda>n. (TnFrom n, TnPath n)) needs =
       map (\<lambda>r. (PayloadRefOf r, JSONataPath r)) (filter (\<lambda>r. \<not> declared_compatible parse man r) refs) \<and>
     (\<forall>n \<in> set needs. \<exists>obj \<in> set (SchemaObjects (NmSchema man)).
        TnTo n = Some obj \<and> SoType obj = type_name (RefType (TnFrom n)) \<and>
        TnCanonicalVersion n \<in> set (SupportedVersions obj) \<and>
        CanonicalVersion obj (DefaultVersionPolicy (NmSchema man)) = Inr (TnCanonicalVersion n))"
proof -
  have canonical: "\<exists>v \<in> set (SupportedVersions obj). CanonicalVersion obj (DefaultVersionPolicy (NmSchema man)) = Inr v"
    if "obj \<in> set (SchemaObjects (NmSchema man))" for obj
    using validated_objects_canonical [OF assms that] .
  have need: "\<exists>obj \<in> set (SchemaObjects (NmSchema man)). \<exists>v. SoType obj = type_name (RefType (PayloadRefOf r)) \<and>
      v \<in> set (SupportedVersions obj) \<and> CanonicalVersion obj (DefaultVersionPolicy (NmSchema man)) = Inr v \<and>
      check_ref parse man r = Some \<lparr>TnFrom = PayloadRefOf r, TnTo = Some obj, TnCanonicalVersion = v, TnPath = JSONataPath r\<rparr>"
    if "\<not> declared_compatible parse man r" for r
    using check_ref_incompatible [OF that canonical] supported_declared by blast
  have *: "List.map_filter (check_ref parse man) refs =
      map (\<lambda>r. the (check_ref parse man r)) (filter (\<lambda>r. \<not> declared_compatible parse man r) refs)"
    by (rule map_filter_split) (use check_ref_compatible need in \<open>fastforce+\<close>)
  have "map (\<lambda>n. (TnFrom n, TnPath n)) (List.map_filter (check_ref parse man) refs) =
      map (\<lambda>r. (PayloadRefOf r, JSONataPath r)) (filter (\<lambda>r. \<not> declared_compatible parse man r) refs)"
    unfolding * by (auto dest!: need)
  moreover have "\<exists>obj \<in> set (SchemaObjects (NmSchema man)).
        TnTo n = Some obj \<and> SoType obj = type_name (RefType (TnFrom n)) \<and>
        TnCanonicalVersion n \<in> set (SupportedVersions obj) \<and>
        CanonicalVersion obj (DefaultVersionPolicy (NmSchema man)) = Inr (TnCanonicalVersion n)"
    if "n \<in> set (List.map_filter (check_ref parse man) refs)" for n
    using that unfolding * by (auto dest!: need)
  ultimately show ?thesis by (auto simp: CheckCompatibility_def)
qed



text \<open>The examples: a URL parser that takes the whole URL as its path, and numbers that stay as they are.\<close>

definition path_url :: "string \<Rightarrow> goerr + URL" where
  "path_url u = Inr \<lparr>UScheme = [], UHost = [], UPath = u, URawQuery = [], URest = []\<rparr>"

definition sample_float :: Float64 where
  "sample_float = \<lparr>InRange = (\<lambda>s. True), FloatText = (\<lambda>s. s)\<rparr>"

definition offer_ref :: "string \<Rightarrow> string \<Rightarrow> SchemaObjectRef" where
  "offer_ref v p = \<lparr>PayloadRefOf = \<lparr>ContextURL = ''https://s.io/Offer/'' @ v @ ''/context.jsonld'', RefType = ''Offer''\<rparr>,
     JSONataPath = p\<rparr>"


subsection \<open>Policies\<close>

text \<open>A compatible payload is left alone. On the receiving side, when every schema object of a
  declared type is at a version the local manifest supports, \<open>Mediate\<close> succeeds without touching
  the request, the artifact cache or the outside world.\<close>

theorem compatible_payload_untouched:
  assumes "\<not> MedNotOnboarded m" "\<not> IsCallerHandler ctx" "MedLocalManifest m = Some man"
    and "WalkPayload (EvFloat E) (EvOrder E) (Body ctx) = Inr (refs, skipped)"
    and "\<forall>r \<in> set refs. declared_compatible (EvParseURL E) man r"
  shows "Mediate E m s ctx = (None, ctx, s)"
proof -
  have "List.map_filter (check_ref (EvParseURL E) man) refs = []"
    using assms(5) by (induction refs) (simp_all add: List.map_filter_def check_ref_compatible)
  with assms show ?thesis by (cases s) (simp add: Mediate_def Let_def target_manifest_def CheckCompatibility_def)
qed

lemma mediate_needs_cases:
  assumes "mediate_needs E m s ctx needs = (r, ctx', s')"
  shows "ctx' = ctx \<or> r = None \<and> (\<exists>b. ctx' = ctx\<lparr>Body := b\<rparr>)"
  using assms by (auto simp: mediate_needs_def split: prod.splits sum.splits if_splits)

text \<open>Mediation is all or nothing. Whatever the artifact server, the translator and the manifests
  do, \<open>Mediate\<close> either leaves the request as it is, or succeeds and replaces its body; with the
  policy \<open>reject\<close> it always leaves the request as it is and does not touch the artifact cache. In
  particular, a failed mediation never leaves a partly translated body.\<close>

theorem mediation_all_or_nothing:
  assumes "Mediate E m s ctx = (r, ctx', s')"
  shows "(ctx' = ctx \<or> r = None \<and> PAction (MedPolicy m) \<noteq> PolicyActionReject \<and> (\<exists>b. ctx' = ctx\<lparr>Body := b\<rparr>)) \<and>
     (PAction (MedPolicy m) = PolicyActionReject \<longrightarrow> ctx' = ctx \<and> snd s' = snd s)"
  using assms
  by (auto simp: Mediate_def Let_def split: if_splits sum.splits prod.splits dest: mediate_needs_cases)


lemma go_set_keys: "fst ` set (go_set m k v) = insert k (fst ` set m)"
proof -
  have "map fst (map (\<lambda>p. if fst p = k then (k, v) else p) m) = map fst m" by simp
  then have "fst ` set (map (\<lambda>p. if fst p = k then (k, v) else p) m) = fst ` set m" by (metis set_map)
  then show ?thesis by (simp only: go_set_def insert_absorb split: if_split) auto
qed

lemma fetch_needs_paths:
  assumes "fetch_needs E needs arts fs s = (Inr (arts', []), s')"
  shows "fs = [] \<and> fst ` set arts' = fst ` set arts \<union> TnPath ` set needs"
  using assms
proof (induction needs arbitrary: arts fs s)
  case (Cons n ns)
  obtain r s1 where step: "fetch_need E s n = (r, s1)" by (cases "fetch_need E s n")
  show ?case
  proof (cases r)
    case (Inl f)
    with step Cons.prems have "fetch_needs E ns arts (fs @ [f]) s1 = (Inr (arts', []), s')"
      by (simp split: if_splits)
    from Cons.IH [OF this] show ?thesis by simp
  next
    case (Inr a)
    with step Cons.prems Cons.IH
    have "fs = [] \<and> fst ` set arts' =
        fst ` set (go_set arts (TnPath n) \<lparr>FaArtifact = a, FaNeed = n\<rparr>) \<union> TnPath ` set ns"
      by simp
    then show ?thesis by (simp add: go_set_keys)
  qed
qed auto

lemma applyOnFailure_None: "applyOnFailure policy c = None \<Longrightarrow> POnFailure policy = PolicyActionPassThrough"
  by (simp add: applyOnFailure_def split: if_splits)



subsection \<open>What a translation does to the message\<close>

text \<open>
  Translators are documented to be stateless: their result depends on the artifact and the
  payload only.
\<close>

definition stateless_translator :: "'w MedEnv \<Rightarrow> (string \<Rightarrow> string \<Rightarrow> goerr + string) \<Rightarrow> bool" where
  "stateless_translator E T \<longleftrightarrow> (\<forall>w a x. fst (EvTranslate E w a x) = T a x)"

text \<open>The specification of one translation: the new value for an object, with its new context URL.\<close>

definition with_context :: "string \<Rightarrow> json \<Rightarrow> json" where
  "with_context url v = (case v of JObj obj \<Rightarrow> JObj (go_set obj ''@context'' (JStr url)) | _ \<Rightarrow> v)"

definition translated :: "Float64 \<Rightarrow> (string \<Rightarrow> string \<Rightarrow> goerr + string) \<Rightarrow> fetchedArtifact \<Rightarrow> json \<Rightarrow> json option" where
  "translated F T fa v =
     Option.bind (result (T (Content (FaArtifact fa)) (marshal_any v)))
       (\<lambda>out. map_option (with_context (ToContextURL (FaNeed fa))) (unmarshal_any F out))"

definition in_message :: "string \<Rightarrow> string" where "in_message rel = ''$.message.'' @ rel"

lemma rel_path_in_message [simp]: "rel_path (in_message rel) = rel"
  unfolding rel_path_def in_message_def TrimPrefix_append by simp

lemma apply_artifact_refines:
  assumes "stateless_translator E T" "rel \<noteq> []"
  shows "result (fst (apply_artifact E msgBytes (in_message rel) fa (Some msg) w)) =
     map_option Some (Option.bind (result (getAtPath msg rel))
       (\<lambda>v. Option.bind (translated (EvFloat E) T fa v) (\<lambda>x. result (setAtPath msg rel x))))"
proof (cases "getAtPath msg rel")
  case (Inr v)
  obtain out w1 where out: "EvTranslate E w (Content (FaArtifact fa)) (marshal_any v) = (out, w1)"
    by (cases "EvTranslate E w (Content (FaArtifact fa)) (marshal_any v)")
  with assms(1) have T: "T (Content (FaArtifact fa)) (marshal_any v) = out"
    by (metis fst_conv stateless_translator_def)
  have "result (place_result F rel url out' (Some msg)) =
      map_option Some (Option.bind (map_option (with_context url) (unmarshal_any F out')) (\<lambda>x. result (setAtPath msg rel x)))"
    for F url out'
    using assms(2)
    by (auto simp: place_result_def with_context_def go_entries_def result_def split: option.splits sum.splits json.splits)
  with Inr out T assms(2) show ?thesis
    by (cases out) (simp_all add: apply_artifact_def subtree_bytes_def go_entries_def Execute_def translated_def)
qed (use assms(2) in \<open>simp add: apply_artifact_def subtree_bytes_def go_entries_def\<close>)

lemma apply_artifacts_refines:
  assumes "stateless_translator E T" "[] \<notin> set rels"
  shows "result (fst (apply_artifacts E msgBytes arts (map in_message rels) (Some msg) w)) =
     map_option Some (rewrite_all (\<lambda>m p. result (getAtPath m p)) (\<lambda>m p x. result (setAtPath m p x))
       (\<lambda>p. translated (EvFloat E) T (the (map_of arts (in_message p)))) rels msg)"
  using assms(2)
proof (induction rels arbitrary: msg w)
  case (Cons p ps)
  let ?fa = "the (map_of arts (in_message p))"
  let ?one = "Option.bind (result (getAtPath msg p))
       (\<lambda>v. Option.bind (translated (EvFloat E) T ?fa v) (\<lambda>x. result (setAtPath msg p x)))"
  have step: "result (fst (apply_artifact E msgBytes (in_message p) ?fa (Some msg) w)) = map_option Some ?one"
    using Cons.prems by (intro apply_artifact_refines assms(1)) auto
  obtain r w1 where r: "apply_artifact E msgBytes (in_message p) ?fa (Some msg) w = (r, w1)"
    by (cases "apply_artifact E msgBytes (in_message p) ?fa (Some msg) w")
  show ?case
  proof (cases ?one)
    case None
    with step r have "result r = None" by simp
    then obtain e where "r = Inl e" by (cases r) auto
    moreover from None have "rewrite_all (\<lambda>m p. result (getAtPath m p)) (\<lambda>m p x. result (setAtPath m p x))
       (\<lambda>p. translated (EvFloat E) T (the (map_of arts (in_message p)))) (p # ps) msg = None"
      by (auto simp: bind_eq_None_conv)
    ultimately show ?thesis using r by simp
  next
    case (Some m1)
    with step r have "r = Inr (Some m1)" by (simp add: result_Some)
    with r Some Cons show ?thesis by (auto simp: bind_eq_Some_conv)
  qed
qed simp


lemma go_set_distinct: "distinct (map fst m) \<Longrightarrow> distinct (map fst (go_set m k v))"
proof -
  have "map fst (map (\<lambda>p. if fst p = k then (k, v) else p) m) = map fst m" by simp
  then show "distinct (map fst m) \<Longrightarrow> distinct (map fst (go_set m k v))"
    by (simp only: go_set_def split: if_split) auto
qed

lemma fetch_needs_distinct:
  "fetch_needs E needs arts fs s = (Inr (arts', fs'), s') \<Longrightarrow> distinct (map fst arts) \<Longrightarrow> distinct (map fst arts')"
proof (induction needs arbitrary: arts fs s)
  case (Cons n ns)
  obtain r s1 where "fetch_need E s n = (r, s1)" by (cases "fetch_need E s n")
  with Cons show ?case by (cases r) (auto simp: go_set_distinct split: if_splits)
qed simp

lemma sorted_wrt_distinct:
  "distinct xs \<Longrightarrow> \<forall>x \<in> set xs. \<forall>y \<in> set xs. x \<noteq> y \<longrightarrow> R x y \<Longrightarrow> sorted_wrt R xs"
  by (induction xs) auto

lemma translate_body_refines:
  assumes "stateless_translator E T"
    and "unmarshal_raw body = Some (Some envelope)" "map_of envelope ''message'' = Some msgBytes"
    and "unmarshal_map (EvFloat E) msgBytes None = Some (Some msg)"
    and keys: "distinct (map fst arts)" "fst ` set arts = in_message ` R" "[] \<notin> R"
    and apart: "\<forall>p \<in> R. \<forall>q \<in> R. p \<noteq> q \<longrightarrow> paths_apart p q"
    and defined: "\<forall>p \<in> R. \<exists>v. getAtPath msg p = Inr v \<and> translated (EvFloat E) T (the (map_of arts (in_message p))) v \<noteq> None"
  shows "\<exists>msg' w'. translate_body E body arts w =
       (Inr (marshal_raw (go_set envelope ''message'' (marshal_map (Some msg')))), w') \<and>
     (\<forall>p \<in> R. \<exists>v. getAtPath msg p = Inr v \<and>
        result (getAtPath msg' p) = translated (EvFloat E) T (the (map_of arts (in_message p))) v) \<and>
     (\<forall>q. (\<forall>p \<in> R. paths_apart p q) \<longrightarrow> result (getAtPath msg' q) = result (getAtPath msg q))"
proof -
  let ?tr = "\<lambda>p. translated (EvFloat E) T (the (map_of arts (in_message p)))"
  let ?rewrite = "rewrite_all (\<lambda>m p. result (getAtPath m p)) (\<lambda>m p x. result (setAtPath m p x)) ?tr"
  define rels where "rels = map rel_path (sort (map fst arts))"
  have "in_message (rel_path p) = p" if "p \<in> fst ` set arts" for p using that keys(2) by auto
  then have paths: "sort (map fst arts) = map in_message rels"
    unfolding rels_def map_map by (intro map_idI [symmetric]) simp
  have R: "set rels = R" using keys(2) by (auto simp: rels_def image_image)
  have "distinct (sort (map fst arts))" using keys(1) by simp
  then have "distinct rels" unfolding paths by (simp add: distinct_map)
  then have sorted: "sorted_wrt paths_apart rels" using apart R by (intro sorted_wrt_distinct) auto
  have "\<exists>msg'. ?rewrite rels msg = Some msg'"
    using defined R sorted by (intro json_paths.rewrite_all_defined) (fastforce simp: result_Some)+
  then obtain msg' where msg': "?rewrite rels msg = Some msg'" by blast
  obtain r w' where app: "apply_artifacts E msgBytes arts (sort (map fst arts)) (Some msg) w = (r, w')"
    by (cases "apply_artifacts E msgBytes arts (sort (map fst arts)) (Some msg) w")
  have "[] \<notin> set rels" using keys(3) R by simp
  from apply_artifacts_refines [OF assms(1) this, of msgBytes arts msg w] app msg'
  have "r = Inr (Some msg')" by (simp add: paths result_Some)
  with app assms(2-4) have body: "translate_body E body arts w =
      (Inr (marshal_raw (go_set envelope ''message'' (marshal_map (Some msg')))), w')"
    by (simp add: translate_body_def extractMessageSubtree_def patchMessageSubtree_def go_entries_def)
  have vals: "\<exists>v. getAtPath msg p = Inr v \<and> result (getAtPath msg' p) = ?tr p v" if "p \<in> R" for p
    using json_paths.rewrite_all_values [OF msg' sorted] that R by (auto simp: result_Some)
  have "result (getAtPath msg' q) = result (getAtPath msg q)" if "\<forall>p \<in> R. paths_apart p q" for q
    using json_paths.rewrite_all_frame [OF msg'] that R by blast
  with body vals show ?thesis by blast
qed



text \<open>The example: an offer of version 1.0, a manifest that supports 2.9 and 2.10, and a translation server.\<close>

definition sample_body :: string where
  "sample_body = ''{\"context\":{\"v\":\"2\"}, \"message\":{\"offer\":{\"@context\":\"x/v1.0/c\",\"@type\":\"Offer\",\"id\":1},\"n\":2}}''"

definition sample_env :: "unit MedEnv" where
  "sample_env =
     \<lparr>EvLoader = \<lparr>GetByNetworkID = (\<lambda>w n. (Inr None, w)), GetByMetadata = (\<lambda>w n. (Inr None, w)),
        GetBySubscriberID = (\<lambda>w n. (Inr None, w))\<rparr>,
      EvTranslate = (\<lambda>w a x. (Inr ''{\"@type\":\"Offer\",\"ident\":1}'', w)),
      EvYaml = (\<lambda>s. Inr sample_manifest),
      EvClient = \<lparr>NewRequest = (\<lambda>u. None), Do = (\<lambda>w u. (Inr \<lparr>HrStatus = 200,
        HrHeader = [''Content-Type'' \<mapsto> ''text/plain''], HrBody = ''$'', HrBodyErr = None\<rparr>, w))\<rparr>,
      EvClock = (\<lambda>w. (0, w)), EvParseURL = path_url, EvFloat = sample_float, EvOrder = (\<lambda>v. v)\<rparr>"

definition sample_mediator :: mediator where
  "sample_mediator = \<lparr>MedPolicy = defaultPolicy, MedNotOnboarded = False, MedLocalManifest = Some sample_manifest\<rparr>"

definition sample_step :: "string \<Rightarrow> StepContext" where
  "sample_step body =
     \<lparr>ScCtx = [ContextKeyRemoteID \<mapsto> JStr ''bap''],
      ScRequest = \<lparr>Method = ''POST'', ReqURL = \<lparr>UScheme = [], UHost = [], UPath = [], URawQuery = [], URest = []\<rparr>,
        ReqHeader = Map.empty, Host = [], ReqBody = Inr body, ReqCtx = Map.empty\<rparr>,
      Body = body, ScRoute = None, SubID = [], ScRole = [], RespHeader = Map.empty, ProtocolVersion = [],
      MessageID = [], InboundAuthSignature = [], IsCallerHandler = False\<rparr>"

definition offer_need :: TranslationNeeded where
  "offer_need = \<lparr>TnFrom = \<lparr>ContextURL = ''x/v1.0/c'', RefType = ''Offer''\<rparr>, TnTo = Some sample_offer,
     TnCanonicalVersion = ''v2.10'', TnPath = in_message ''offer''\<rparr>"

lemma sample_simps [simp]:
  "EvFloat sample_env = sample_float" "EvOrder sample_env = (\<lambda>v. v)" "EvParseURL sample_env = path_url"
  "Body (sample_step b) = b" "\<not> IsCallerHandler (sample_step b)" "\<not> MedNotOnboarded sample_mediator"
  "ctx_string0 (ScCtx (sample_step b)) ContextKeyRemoteID = ''bap''"
  "PAction (MedPolicy sample_mediator) = PolicyActionTranslate" "MedLocalManifest sample_mediator = Some sample_manifest"
  by (simp_all add: sample_env_def sample_step_def sample_mediator_def ctx_string0_def ctx_string_def defaultPolicy_def)

lemma sample_walk: "WalkPayload sample_float (\<lambda>v. v) sample_body =
    Inr ([\<lparr>PayloadRefOf = TnFrom offer_need, JSONataPath = in_message ''offer''\<rparr>], [])"
  by code_simp

lemma sample_needs: "CheckCompatibility path_url [\<lparr>PayloadRefOf = TnFrom offer_need, JSONataPath = in_message ''offer''\<rparr>]
    (Some sample_manifest) = Inr [offer_need]"
  by code_simp

lemma sample_raw: "unmarshal_raw sample_body = Some (Some [(''context'', ''{\"v\":\"2\"}''),
    (''message'', ''{\"offer\":{\"@context\":\"x/v1.0/c\",\"@type\":\"Offer\",\"id\":1},\"n\":2}'')])"
  by code_simp


definition sample_fetched :: fetchedArtifact where
  "sample_fetched = \<lparr>FaArtifact = \<lparr>Content = ''$'', ContentType = ''text/plain''\<rparr>, FaNeed = offer_need\<rparr>"

lemma sample_fetch: "\<exists>s1. fetchAllArtifacts sample_env ((), newArtifactCache 10 5 1) [offer_need] =
    (Inr ([(in_message ''offer'', sample_fetched)], []), s1)"
proof -
  have url: "deriveArtifactURL path_url offer_need = Inr ''https://s.io/Offer/v2.10/Offer_from_v1.0.jsonata''"
    by code_simp
  have "httpFetch (EvClient sample_env) w u = (Inr (FaArtifact sample_fetched), w)" for w u
    by (simp add: httpFetch_def sample_env_def sample_fetched_def header_Get_def read_limited_def maxArtifactBodySize_def)
  then have fetch: "doFetch (EvClient sample_env) w u = (Inr (FaArtifact sample_fetched), w)" for w u
    by (simp add: doFetch_def numeral_2_eq_2)
  have need: "TnTo offer_need = Some sample_offer" "TnPath offer_need = in_message ''offer''"
    by (simp_all add: offer_need_def)
  show ?thesis
    by (simp add: fetchAllArtifacts_def fetch_need_def url fetch need fetchArtifactByURL_def artifactCache_get_def
        artifactCache_set_def newArtifactCache_def go_set_def split_beta sample_fetched_def)
qed



subsection \<open>Witnesses of the policies\<close>

definition current_body :: string where
  "current_body = ''{\"message\":{\"offer\":{\"@context\":\"x/v2.9/c\",\"@type\":\"Offer\",\"id\":1}}}''"

definition current_ref :: SchemaObjectRef where
  "current_ref = \<lparr>PayloadRefOf = \<lparr>ContextURL = ''x/v2.9/c'', RefType = ''Offer''\<rparr>, JSONataPath = ''$.message.offer''\<rparr>"

lemma current_walk: "WalkPayload sample_float (\<lambda>v. v) current_body = Inr ([current_ref], [])"
  by code_simp

lemma current_compatible: "declared_compatible path_url sample_manifest current_ref"
  by code_simp

theorem compatible_payload_untouched_witness:
  "Mediate sample_env sample_mediator ((), newArtifactCache 10 5 1) (sample_step current_body) =
     (None, sample_step current_body, ((), newArtifactCache 10 5 1))"
  by (rule compatible_payload_untouched [where refs = "[current_ref]" and skipped = "[]" and man = sample_manifest])
    (simp_all add: current_walk current_compatible)

lemma current_mediated:
  "Mediate sample_env sample_mediator s (sample_step current_body) = (None, sample_step current_body, s)"
  by (cases s) (simp add: Mediate_def target_manifest_def current_walk CheckCompatibility_def List.map_filter_def
      check_ref_compatible [OF current_compatible])

definition reject_mediator :: mediator where
  "reject_mediator = sample_mediator\<lparr>MedPolicy := \<lparr>PAction = PolicyActionReject, POnFailure = PolicyActionReject\<rparr>\<rparr>"

theorem mediation_all_or_nothing_witness:
  "\<exists>e. Mediate sample_env reject_mediator ((), newArtifactCache 10 5 1) (sample_step sample_body) =
     (Some e, sample_step sample_body, ((), newArtifactCache 10 5 1))"
proof -
  obtain r ctx' s' where step: "Mediate sample_env reject_mediator ((), newArtifactCache 10 5 1) (sample_step sample_body) = (r, ctx', s')"
    by (cases "Mediate sample_env reject_mediator ((), newArtifactCache 10 5 1) (sample_step sample_body)")
  have "PAction (MedPolicy reject_mediator) = PolicyActionReject" by (simp add: reject_mediator_def)
  with mediation_all_or_nothing [OF step] have "ctx' = sample_step sample_body" "snd s' = newArtifactCache 10 5 1" by simp_all
  moreover have "r \<noteq> None"
    using step by (auto simp: Mediate_def Let_def target_manifest_def reject_mediator_def sample_walk sample_needs)
  ultimately show ?thesis using step by (cases s') auto
qed


end
