(* ===== verification/Raw_Json.thy ===== *)
theory Raw_Json
  imports Json_Values
begin

text \<open>
  Raw messages are texts of values. The text that \<open>json.Unmarshal\<close> keeps for a member of an object
  reads as the value of that member wherever a value may stand, and so does its compaction;
  hence the body that \<open>json.Marshal\<close> builds from a map of raw messages decodes to the object of
  those values.
\<close>

subsection \<open>The scanner looks at the top of its stack only\<close>

lemma scan_top:
  "scan (m, x # rest) c =
     (case scan (m, [x]) c of
        None \<Rightarrow> None
      | Some (m', pre) \<Rightarrow>
          if length pre > 1 \<and> length rest + 1 \<ge> max_depth then None else Some (m', pre @ rest))"
proof (cases m)
  case (MLit w v)
  then show ?thesis by (cases w) (auto simp: max_depth_def)
qed (auto simp: begin_value_def push_frame_def after_value_def max_depth_def split: if_splits frame.splits option.splits)

lemma scan_below:
  assumes "scan (m, up @ [f]) c = Some (m', stk')" "up \<noteq> []"
  shows "\<exists>up'. stk' = up' @ [f] \<and> (\<forall>g. scan (m, up @ [g]) c = Some (m', up' @ [g]))"
proof -
  obtain x xs where up: "up = x # xs" using assms(2) by (cases up) auto
  from assms(1) obtain pre where "scan (m, [x]) c = Some (m', pre)" "stk' = pre @ xs @ [f]"
    "\<not> (length pre > 1 \<and> length (xs @ [f]) + 1 \<ge> max_depth)"
    unfolding up append_Cons scan_top [of m x "xs @ [f]"] by (auto split: option.splits if_splits)
  then show ?thesis unfolding up append_Cons scan_top [of m x "xs @ _"]
    by (intro exI [of _ "pre @ xs"]) auto
qed

text \<open>A mode in which a value has been read, up to the end of a number.\<close>

definition complete :: "mode \<Rightarrow> json \<Rightarrow> bool" where
  "complete m v \<longleftrightarrow> m = MAfter v \<or> (\<exists>st raw. m = MNum st raw \<and> num_accept st \<and> v = JNum (rev raw))"

lemma scan_member:
  assumes "scan (m, [FMem kvs k]) c = Some (m', stk')"
  shows "(\<exists>pre. stk' = pre @ [FMem kvs k] \<and> (\<forall>g. scan (m, [g]) c = Some (m', pre @ [g]))) \<or>
    (\<exists>v. complete m v \<and> ((m', stk') = (MKey, [FObj ((k, v) # kvs)]) \<or> (m', stk') = (MAfter (JObj (rev ((k, v) # kvs))), [])))"
proof (cases m)
  case (MNum st raw)
  with assms show ?thesis
    by (auto simp: after_value_def complete_def split: if_splits option.splits)
next
  case (MAfter v)
  with assms show ?thesis by (auto simp: after_value_def complete_def split: if_splits)
qed (use assms in \<open>auto simp: begin_value_def push_frame_def max_depth_def split: if_splits option.splits list.splits\<close>)


subsection \<open>Texts of values\<close>

definition reads :: "string \<Rightarrow> json \<Rightarrow> bool" where
  "reads t v \<longleftrightarrow> (\<forall>f. \<exists>m. run (MValue, [f]) t = Some (m, [f]) \<and> complete m v)"

lemma complete_delim: "complete m v \<Longrightarrow> delim rest \<Longrightarrow> run (m, stk) rest = run (MAfter v, stk) rest"
  by (cases rest) (auto simp: complete_def num_next_delim, simp add: delim_def)

lemma reads_run: "reads t v \<Longrightarrow> delim rest \<Longrightarrow> run (MValue, [f]) (t @ rest) = run (MAfter v, [f]) rest"
proof -
  assume "reads t v" "delim rest"
  then obtain m where "run (MValue, [f]) t = Some (m, [f])" "complete m v" unfolding reads_def by blast
  with complete_delim [OF _ \<open>delim rest\<close>] show ?thesis by (simp add: run_append)
qed

text \<open>The literals under way hold letters only.\<close>

definition lit_ok :: "mode \<Rightarrow> bool" where
  "lit_ok m \<longleftrightarrow> (\<forall>w v. m = MLit w v \<longrightarrow> list_all (in_range 97 122) w)"

lemma letter_not_special: "in_range 97 122 c \<Longrightarrow> \<not> is_ws c \<and> c \<noteq> CHR 0x22"
  by (auto simp: in_range_def is_ws_def)

lemma scan_lit_ok: "scan (m, stk) c = Some (m', stk') \<Longrightarrow> lit_ok m \<Longrightarrow> lit_ok m'"
  by (cases m) (auto simp: lit_ok_def begin_value_def push_frame_def after_value_def end_string_def in_range_def Let_def
      split: if_splits frame.splits option.splits list.splits)

lemma run_lit_ok: "run (m, stk) s = Some (m', stk') \<Longrightarrow> lit_ok m \<Longrightarrow> lit_ok m'"
proof (induction s arbitrary: m stk)
  case (Cons c s)
  then obtain m1 stk1 where "scan (m, stk) c = Some (m1, stk1)" "run (m1, stk1) s = Some (m', stk')"
    by (auto split: option.splits)
  with Cons scan_lit_ok show ?case by blast
qed simp

lemma blank_after_value:
  assumes "scan (m0, stk0) c = Some (m, stk)" "complete m v" "is_ws c" "lit_ok m0"
  shows "stk0 = stk \<and> complete m0 v"
proof (cases m0)
  case (MNum st raw)
  have "num_next st c = None" using assms(3) by (cases st) (auto simp: is_ws_def num_next_def is_digit_def)
  with MNum assms show ?thesis by (auto simp: complete_def after_value_def split: if_splits)
next
  case (MLit w u)
  with assms show ?thesis by (cases w) (auto simp: lit_ok_def dest: letter_not_special split: if_splits)
qed (use assms in \<open>auto simp: complete_def after_value_def is_ws_def is_hex_def is_digit_def in_range_def split: if_splits\<close>)

lemma reads_snoc:
  assumes "reads (t @ [c]) v" "is_ws c"
  shows "reads t v"
  unfolding reads_def
proof
  fix f
  from assms(1) obtain m where m: "run (MValue, [f]) (t @ [c]) = Some (m, [f])" "complete m v"
    unfolding reads_def by blast
  then obtain m0 stk0 where "run (MValue, [f]) t = Some (m0, stk0)" "scan (m0, stk0) c = Some (m, [f])"
    by (auto simp: run_append split: option.splits)
  moreover from this(1) have "lit_ok m0" by (rule run_lit_ok) (simp add: lit_ok_def)
  ultimately show "\<exists>m. run (MValue, [f]) t = Some (m, [f]) \<and> complete m v"
    using blank_after_value m(2) assms(2) by blast
qed

lemma reads_trim: "reads t v \<Longrightarrow> reads (trim_ws t) v"
proof -
  have left: "reads (dropWhile is_ws t) v" if "reads t v" for t
    using that by (induction t) (auto simp: reads_def)
  have "reads (rev (dropWhile is_ws u)) v" if "reads (rev u) v" for u
    using that by (induction u) (auto intro: reads_snoc)
  from this [of "rev (dropWhile is_ws t)"] left show "reads t v \<Longrightarrow> reads (trim_ws t) v"
    by (simp add: trim_ws_def)
qed


subsection \<open>The members of an object\<close>

definition member_text :: "string \<times> string \<Rightarrow> string \<times> json \<Rightarrow> bool" where
  "member_text kt kv \<longleftrightarrow> fst kt = fst kv \<and> reads (snd kt) (snd kv)"

definition key_mode :: "mode \<Rightarrow> bool" where
  "key_mode m \<longleftrightarrow> (case m of MKey0 \<Rightarrow> True | MKey \<Rightarrow> True | MColon _ \<Rightarrow> True | MStr key _ \<Rightarrow> key | MEsc key _ \<Rightarrow> key
     | MHex key _ _ \<Rightarrow> key | _ \<Rightarrow> False)"

text \<open>
  What the raw scanner has collected, by the frame at the bottom of the stack: nothing for a
  scalar or an array, the finished members of an object, and for an open member also the text
  of its value so far.
\<close>

definition raw_ok :: "scan_state \<Rightarrow> string \<Rightarrow> (string \<times> string) list \<Rightarrow> bool" where
  "raw_ok st raw acc \<longleftrightarrow> (case rev (snd st) of
      [] \<Rightarrow> (case fst st of
          MAfter (JObj kvs) \<Rightarrow> list_all2 member_text (rev acc) kvs
        | MLit w (JObj kvs) \<Rightarrow> False
        | _ \<Rightarrow> acc = [])
    | FObj kvs # up \<Rightarrow> up = [] \<and> key_mode (fst st) \<and> list_all2 member_text acc kvs
    | FMem kvs k # up \<Rightarrow> list_all2 member_text acc kvs \<and>
        (\<forall>g. run (MValue, [g]) (rev raw) = Some (fst st, rev up @ [g]))
    | FArr vs # up \<Rightarrow> acc = [])"

lemma raw_ok_empty:
  assumes "raw_ok (m, []) raw acc" "scan (m, []) c = Some st'"
  shows "raw_ok st' [] acc"
proof (cases m)
  case (MAfter v)
  with assms show ?thesis by (cases v) (auto simp: raw_ok_def after_value_def split: if_splits)
next
  case (MLit w v)
  with assms show ?thesis by (cases v) (auto simp: raw_ok_def split: list.splits if_splits)
next
  case (MNum st r)
  with assms show ?thesis by (auto simp: raw_ok_def after_value_def split: if_splits option.splits)
qed (use assms in \<open>auto simp: raw_ok_def begin_value_def push_frame_def max_depth_def key_mode_def end_string_def Let_def
    split: if_splits option.splits\<close>)

lemma raw_ok_object:
  assumes "raw_ok (m, [FObj kvs]) raw acc" "scan (m, [FObj kvs]) c = Some st'"
  shows "raw_ok st' [] acc"
proof -
  from assms(1) have "key_mode m" "list_all2 member_text acc kvs" by (simp_all add: raw_ok_def)
  then show ?thesis using assms(2)
    by (cases m) (auto simp: raw_ok_def key_mode_def end_string_def Let_def list_all2_rev split: if_splits)
qed

lemma raw_ok_array:
  assumes "raw_ok (m, up @ [FArr vs]) raw acc" "scan (m, up @ [FArr vs]) c = Some st'"
  shows "raw_ok st' [] acc"
proof (cases "up = []")
  case False
  obtain m' stk' where st': "st' = (m', stk')" by (cases st')
  with scan_below [of m up "FArr vs" c m' stk'] assms(2) False obtain up' where "stk' = up' @ [FArr vs]" by blast
  with assms(1) st' show ?thesis by (simp add: raw_ok_def)
next
  case True
  with assms have acc: "acc = []" and scan: "scan (m, [FArr vs]) c = Some st'" by (simp_all add: raw_ok_def)
  show ?thesis
  proof (cases m)
    case (MLit w v)
    with acc scan show ?thesis by (auto simp: raw_ok_def split: list.splits if_splits)
  qed (use acc scan in \<open>auto simp: raw_ok_def begin_value_def push_frame_def max_depth_def after_value_def
      split: if_splits option.splits\<close>)
qed

lemma raw_ok_member:
  assumes "raw_ok (m, up @ [FMem kvs k]) raw acc" "scan (m, up @ [FMem kvs k]) c = Some st'"
  shows "if open_member st' = None then raw_ok st' [] ((k, trim_ws (rev raw)) # acc) else raw_ok st' (c # raw) acc"
proof -
  obtain m' stk' where st': "st' = (m', stk')" by (cases st')
  from assms(1) have acc: "list_all2 member_text acc kvs" and raw: "\<And>g. run (MValue, [g]) (rev raw) = Some (m, up @ [g])"
    by (simp_all add: raw_ok_def)
  consider (goes_on) pre where "stk' = pre @ [FMem kvs k]" "\<And>g. scan (m, up @ [g]) c = Some (m', pre @ [g])"
    | (ends) v where "up = []" "complete m v"
        "st' = (MKey, [FObj ((k, v) # kvs)]) \<or> st' = (MAfter (JObj (rev ((k, v) # kvs))), [])"
    using scan_below [of m up "FMem kvs k" c m' stk'] scan_member [of m kvs k c m' stk'] assms(2) st'
    by (cases "up = []") auto
  then show ?thesis
  proof cases
    case goes_on
    have "run (MValue, [g]) (rev raw @ [c]) = Some (m', pre @ [g])" for g by (simp add: run_append raw goes_on)
    with goes_on acc st' show ?thesis by (simp add: open_member_def raw_ok_def)
  next
    case ends
    have "reads (rev raw) v" using raw ends by (simp add: reads_def)
    then have "member_text (k, trim_ws (rev raw)) (k, v)" by (simp add: member_text_def reads_trim)
    with ends(3) acc show ?thesis
      by (auto simp: open_member_def raw_ok_def key_mode_def list_all2_rev intro!: list_all2_appendI)
  qed
qed


lemma raw_ok_step:
  assumes "raw_ok st raw acc" "scan st c = Some st'"
  shows "case open_member st of
      None \<Rightarrow> raw_ok st' [] acc
    | Some k \<Rightarrow> if open_member st' = None then raw_ok st' [] ((k, trim_ws (rev raw)) # acc) else raw_ok st' (c # raw) acc"
proof -
  obtain m stk where st: "st = (m, stk)" by (cases st)
  show ?thesis
  proof (cases stk rule: rev_cases)
    case Nil
    with st raw_ok_empty assms show ?thesis by (simp add: open_member_def)
  next
    case (snoc up f)
    show ?thesis
    proof (cases f)
      case (FArr vs)
      with st snoc raw_ok_array assms show ?thesis by (simp add: open_member_def)
    next
      case (FObj kvs)
      with st snoc assms(1) have "up = []" by (simp add: raw_ok_def)
      with st snoc FObj raw_ok_object assms show ?thesis by (simp add: open_member_def)
    next
      case (FMem kvs k)
      with st snoc have "open_member st = Some k" by (simp add: open_member_def)
      with raw_ok_member [of m up kvs k raw acc c st'] st snoc FMem assms show ?thesis by simp
    qed
  qed
qed

text \<open>The raw scanner runs along the plain one and keeps its invariant.\<close>

lemma raw_run_ok:
  assumes "raw_ok st raw acc" "run st s = Some st'"
  shows "\<exists>raw' acc'. raw_run st raw acc s = Some (rev acc', st') \<and> raw_ok st' raw' acc'"
  using assms
proof (induction s arbitrary: st raw acc)
  case (Cons c s)
  then obtain st1 where st1: "scan st c = Some st1" "run st1 s = Some st'" by (auto split: option.splits)
  from raw_ok_step [OF Cons.prems(1) st1(1)] Cons.IH [OF _ st1(2)] st1(1) show ?case
    by (auto split: option.splits if_splits)
qed auto

lemma unmarshal_raw_decodes:
  assumes "json_decode body = Some (JObj kvs)"
  shows "\<exists>members. unmarshal_raw body = Some (Some (last_wins members)) \<and> list_all2 member_text members kvs"
proof -
  from assms have run: "run (MValue, []) (body @ '' '') = Some (MAfter (JObj kvs), [])"
    by (auto simp: json_decode_def split: option.splits prod.splits mode.splits list.splits)
  have "raw_ok (MValue, []) [] []" by (simp add: raw_ok_def)
  from raw_run_ok [OF this run] obtain raw' acc' where
    "raw_run (MValue, []) [] [] (body @ '' '') = Some (rev acc', (MAfter (JObj kvs), []))"
    "raw_ok (MAfter (JObj kvs), []) raw' acc'" by blast
  then show ?thesis by (auto simp: unmarshal_raw_def raw_ok_def)
qed


subsection \<open>Compaction\<close>

text \<open>The pieces of a string literal, before and after compaction.\<close>

definition u4 :: "string \<Rightarrow> string" where "u4 hs = CHR 0x5C # CHR ''u'' # hs"

definition tok :: "string \<times> string \<Rightarrow> bool" where
  "tok p \<longleftrightarrow>
     (\<exists>x. p = ([x], [x]) \<and> x \<noteq> CHR 0x5C) \<or>
     (\<exists>e. p = ([CHR 0x5C, e], [CHR 0x5C, e]) \<and> e \<noteq> CHR ''u'') \<or>
     (\<exists>a b c d. p = (u4 [a, b, c, d], u4 [a, b, c, d])) \<or>
     (\<exists>x a b c d. p = (x, u4 [a, b, c, d]) \<and> utf8_encode (hex4 a b c d) = x \<and> hex4 a b c d < 0xD800 \<and>
        x \<noteq> [] \<and> CHR 0x5C \<notin> set x)"

lemma unquote_other: "x \<noteq> CHR 0x5C \<Longrightarrow> unquote (x # t) = x # unquote t"
  by (simp add: unquote.simps)

lemma unquote_esc: "e \<noteq> CHR ''u'' \<Longrightarrow> unquote (CHR 0x5C # e # t) = unescape e # unquote t"
  by (simp add: unquote.simps)

lemma unquote_scalar:
  "hex4 a b c d < 0xD800 \<or> 0xE000 \<le> hex4 a b c d \<Longrightarrow> unquote (u4 [a, b, c, d] @ t) = utf8_encode (hex4 a b c d) @ unquote t"
  using unquote_u4 by (simp add: u4_def)

definition low_half :: "string \<Rightarrow> bool" where
  "low_half t \<longleftrightarrow> (\<exists>a b c d r. t = u4 [a, b, c, d] @ r \<and> 0xDC00 \<le> hex4 a b c d \<and> hex4 a b c d < 0xE000)"

lemma unquote_pair:
  assumes "\<not> (hex4 a b c d < 0xD800 \<or> 0xE000 \<le> hex4 a b c d)" "hex4 a b c d < 0xDC00"
    "0xDC00 \<le> hex4 a' b' c' d'" "hex4 a' b' c' d' < 0xE000"
  shows "unquote (u4 [a, b, c, d] @ u4 [a', b', c', d'] @ t) =
    utf8_encode (0x10000 + (hex4 a b c d - 0xD800) * 1024 + (hex4 a' b' c' d' - 0xDC00)) @ unquote t"
  using assms by (simp add: u4_def unquote.simps(2) [of "CHR 0x5C"] Let_def)

lemma unquote_lone:
  assumes "\<not> (hex4 a b c d < 0xD800 \<or> 0xE000 \<le> hex4 a b c d)" "\<not> hex4 a b c d < 0xDC00 \<or> \<not> low_half t"
  shows "unquote (u4 [a, b, c, d] @ t) = replacement_char @ unquote t"
proof -
  have "\<not> (k = CHR 0x5C \<and> u = CHR ''u'' \<and> hex4 a b c d < 0xDC00 \<and> 0xDC00 \<le> hex4 a' b' c' d' \<and> hex4 a' b' c' d' < 0xE000)"
    if "t = k # u # a' # b' # c' # d' # r" for k u a' b' c' d' r
    using assms(2) that by (auto simp: low_half_def u4_def)
  then show ?thesis
    using assms(1) by (auto simp: u4_def unquote.simps(2) [of "CHR 0x5C"] Let_def split: list.splits)
qed


lemma low_half_tok:
  assumes "list_all tok ts"
  shows "low_half (concat (map fst ts)) \<longleftrightarrow> low_half (concat (map snd ts))"
    and "low_half (concat (map fst ts)) \<Longrightarrow> \<exists>a b c d ts'. ts = (u4 [a, b, c, d], u4 [a, b, c, d]) # ts' \<and>
       0xDC00 \<le> hex4 a b c d \<and> hex4 a b c d < 0xE000"
proof -
  have "(low_half (concat (map fst ts)) \<longleftrightarrow> low_half (concat (map snd ts))) \<and>
    (low_half (concat (map fst ts)) \<longrightarrow> (\<exists>a b c d ts'. ts = (u4 [a, b, c, d], u4 [a, b, c, d]) # ts' \<and>
       0xDC00 \<le> hex4 a b c d \<and> hex4 a b c d < 0xE000))"
  proof (cases ts)
    case Nil
    then show ?thesis by (simp add: low_half_def u4_def)
  next
    case (Cons p us)
    with assms have "tok p" by simp
    then consider (plain) x where "p = ([x], [x])" "x \<noteq> CHR 0x5C" | (esc) e where "p = ([CHR 0x5C, e], [CHR 0x5C, e])" "e \<noteq> CHR ''u''"
      | (hex) a b c d where "p = (u4 [a, b, c, d], u4 [a, b, c, d])"
      | (new) x xs a b c d where "p = (x # xs, u4 [a, b, c, d])" "hex4 a b c d < 0xD800" "x \<noteq> CHR 0x5C"
      unfolding tok_def by (metis list.set_intros(1) neq_Nil_conv)
    then show ?thesis
      by cases (use Cons in \<open>auto simp: low_half_def u4_def\<close>)
  qed
  then show "low_half (concat (map fst ts)) \<longleftrightarrow> low_half (concat (map snd ts))"
    and "low_half (concat (map fst ts)) \<Longrightarrow> \<exists>a b c d ts'. ts = (u4 [a, b, c, d], u4 [a, b, c, d]) # ts' \<and>
       0xDC00 \<le> hex4 a b c d \<and> hex4 a b c d < 0xE000" by blast+
qed

lemma unquote_toks:
  "list_all tok ts \<Longrightarrow> unquote (concat (map fst ts)) = unquote (concat (map snd ts))"
proof (induction ts rule: length_induct)
  case (1 ts)
  show ?case
  proof (cases ts)
    case (Cons p us)
    with 1 have tok: "tok p" "list_all tok us" and ih: "unquote (concat (map fst us)) = unquote (concat (map snd us))"
      by simp_all
    from tok(1) show ?thesis unfolding tok_def
    proof (elim disjE exE conjE, goal_cases)
      case (1 x)
      with Cons ih show ?case by (simp add: unquote_other)
    next
      case (2 e)
      with Cons ih show ?case by (simp add: unquote_esc)
    next
      case (3 a b c d)
      note p = 3
      consider "hex4 a b c d < 0xD800 \<or> 0xE000 \<le> hex4 a b c d"
        | "\<not> (hex4 a b c d < 0xD800 \<or> 0xE000 \<le> hex4 a b c d)" "hex4 a b c d < 0xDC00" "low_half (concat (map fst us))"
        | "\<not> (hex4 a b c d < 0xD800 \<or> 0xE000 \<le> hex4 a b c d)" "\<not> hex4 a b c d < 0xDC00 \<or> \<not> low_half (concat (map fst us))"
        by blast
      then show ?case
      proof cases
        case 1
        with p Cons ih show ?thesis by (simp add: unquote_scalar)
      next
        case 2
        from low_half_tok(2) [OF tok(2) 2(3)] obtain a' b' c' d' vs where
          us: "us = (u4 [a', b', c', d'], u4 [a', b', c', d']) # vs" "0xDC00 \<le> hex4 a' b' c' d'" "hex4 a' b' c' d' < 0xE000" by blast
        have "unquote (concat (map fst vs)) = unquote (concat (map snd vs))"
          using \<open>\<forall>xs. length xs < length ts \<longrightarrow> list_all tok xs \<longrightarrow> _ xs\<close> tok(2) Cons us by simp
        with p Cons us unquote_pair [OF 2(1,2) us(2,3)] show ?thesis by simp
      next
        case 3
        with low_half_tok(1) [OF tok(2)] p Cons ih unquote_lone [OF 3(1)] show ?thesis by simp
      qed
    next
      case (4 x a b c d)
      with Cons ih unquote_plain [of x] show ?case by (simp add: unquote_scalar)
    qed
  qed simp
qed

text \<open>Two scanners side by side: one reads a text, the other its compaction.\<close>

definition toks :: "string \<Rightarrow> string \<Rightarrow> bool" where
  "toks raw raw' \<longleftrightarrow> (\<exists>ts. list_all tok ts \<and> rev raw = concat (map fst ts) \<and> rev raw' = concat (map snd ts))"

lemma toks_nil [simp]: "toks [] []"
  unfolding toks_def by (rule exI [of _ "[]"]) simp

lemma toks_snoc: "toks raw raw' \<Longrightarrow> tok (x, y) \<Longrightarrow> toks (rev x @ raw) (rev y @ raw')"
  unfolding toks_def
proof (elim exE conjE)
  fix ts assume "list_all tok ts" "rev raw = concat (map fst ts)" "rev raw' = concat (map snd ts)" "tok (x, y)"
  then show "\<exists>ts. list_all tok ts \<and> rev (rev x @ raw) = concat (map fst ts) \<and> rev (rev y @ raw') = concat (map snd ts)"
    by (intro exI [of _ "ts @ [(x, y)]"]) simp
qed

lemma end_string_toks: "toks raw raw' \<Longrightarrow> end_string key raw = end_string key raw'"
  using unquote_toks by (fastforce simp: toks_def end_string_def)

definition in_string :: "mode \<Rightarrow> bool" where
  "in_string m \<longleftrightarrow> (case m of MStr _ _ \<Rightarrow> True | MEsc _ _ \<Rightarrow> True | MHex _ _ _ \<Rightarrow> True | _ \<Rightarrow> False)"

definition sim_mode :: "mode \<Rightarrow> mode \<Rightarrow> bool" where
  "sim_mode m m' \<longleftrightarrow>
     \<not> in_string m \<and> m' = m \<or>
     (\<exists>st raw. m = MAfter (JNum (rev raw)) \<and> m' = MNum st raw \<and> num_accept st) \<or>
     (\<exists>key raw raw'. m = MStr key raw \<and> m' = MStr key raw' \<and> toks raw raw') \<or>
     (\<exists>key hs raw raw'. length hs < 4 \<and> m = MHex key (hs @ CHR ''u'' # CHR 0x5C # raw) (4 - length hs) \<and>
        m' = MHex key (hs @ CHR ''u'' # CHR 0x5C # raw') (4 - length hs) \<and> toks raw raw')"

lemma sim_strI: "toks raw raw' \<Longrightarrow> sim_mode (MStr key raw) (MStr key raw')"
  unfolding sim_mode_def by blast

lemma sim_hexI:
  "length hs < 4 \<Longrightarrow> toks raw raw' \<Longrightarrow> n = 4 - length hs \<Longrightarrow>
     sim_mode (MHex key (hs @ CHR ''u'' # CHR 0x5C # raw) n) (MHex key (hs @ CHR ''u'' # CHR 0x5C # raw') n)"
  unfolding sim_mode_def by blast

lemma sim_complete: "sim_mode m m' \<Longrightarrow> complete m v \<Longrightarrow> complete m' v"
  by (auto simp: sim_mode_def complete_def in_string_def)

lemma num_next_quote [simp]: "num_next st (CHR 0x22) = None"
  by (cases st) (simp_all add: num_next_def is_digit_def)

lemma sim_outside:
  assumes "sim_mode m m'" "\<not> in_string m" "lit_ok m" "scan (m, stk) c = Some (m1, stk1)"
  shows "if is_ws c then stk1 = stk \<and> sim_mode m1 m' \<and> \<not> in_string m1
         else \<exists>m1'. scan (m', stk) c = Some (m1', stk1) \<and> sim_mode m1 m1' \<and> in_string m1 = (c = CHR 0x22)"
proof -
  from assms(1,2) consider (same) "m' = m" | (num) st raw where "m = MAfter (JNum (rev raw))" "m' = MNum st raw" "num_accept st"
    by (auto simp: sim_mode_def in_string_def)
  then show ?thesis
  proof cases
    case same
    have "stk1 = stk \<and> sim_mode m1 m \<and> \<not> in_string m1" if "is_ws c"
    proof (cases m)
      case (MNum st raw)
      have "num_next st c = None" using that by (cases st) (auto simp: is_ws_def num_next_def is_digit_def)
      with MNum that assms show ?thesis by (auto simp: after_value_def sim_mode_def in_string_def split: if_splits)
    next
      case (MLit w v)
      with that assms show ?thesis
        by (cases w) (auto simp: lit_ok_def dest: letter_not_special split: if_splits)
    qed (use that assms in \<open>auto simp: sim_mode_def in_string_def after_value_def split: if_splits\<close>)
    moreover have "sim_mode m1 m1 \<and> in_string m1 = (c = CHR 0x22)" if "\<not> is_ws c"
    proof (cases m)
      case (MLit w v)
      with that assms show ?thesis
        by (cases w) (auto simp: lit_ok_def sim_mode_def in_string_def dest: letter_not_special split: if_splits)
    next
      case (MNum st raw)
      with that assms show ?thesis
        by (auto simp: sim_mode_def in_string_def after_value_def num_next_quote
            split: if_splits frame.splits list.splits option.splits)
    qed (use that assms in \<open>auto simp: sim_mode_def in_string_def after_value_def begin_value_def push_frame_def num_begin_def is_digit_def
        split: if_splits frame.splits list.splits option.splits\<close>)
    ultimately show ?thesis using same assms(4) by auto
  next
    case num
    then show ?thesis
    proof (cases "is_ws c")
      case True
      with num assms show ?thesis by (auto simp: after_value_def sim_mode_def in_string_def)
    next
      case False
      with num assms(4) have "c \<in> {CHR '','', CHR '']'', CHR ''}''}"
        by (auto simp: after_value_def split: frame.splits list.splits if_splits)
      then have "num_next st c = None" using num_next_delim [of c "[]" st] by (auto simp: delim_def)
      with num False assms(4) have "scan (m', stk) c = Some (m1, stk1)" by simp
      with False num assms(4) show ?thesis
        by (auto simp: sim_mode_def in_string_def after_value_def split: frame.splits list.splits if_splits)
    qed
  qed
qed

text \<open>The pieces that compaction rewrites inside a string.\<close>

definition run_piece :: "string \<Rightarrow> bool" where
  "run_piece x \<longleftrightarrow> (\<forall>key raw stk t. run (MStr key raw, stk) (x @ t) = run (MStr key (rev x @ raw), stk) t)"

lemma tok_new:
  "utf8_encode (hex4 a b c d) = x \<Longrightarrow> hex4 a b c d < 0xD800 \<Longrightarrow> x \<noteq> [] \<Longrightarrow> CHR 0x5C \<notin> set x \<Longrightarrow> tok (x, u4 [a, b, c, d])"
  unfolding tok_def by blast

lemma HasPrefix3: "HasPrefix (c # s) [x, y, z] \<Longrightarrow> c = x \<and> (\<exists>t. s = y # z # t)"
  by (cases s; cases "tl s") (auto simp: HasPrefix_def)

lemma html_piece:
  assumes "c = CHR ''<'' \<or> c = CHR ''>'' \<or> c = CHR ''&''"
  shows "tok ([c], escape_ascii c)" "run_piece [c]" "run_piece (escape_ascii c)"
proof -
  have small: "(of_char c :: nat) < 128" using assms by auto
  have esc: "escape_ascii c = u4 [CHR ''0'', CHR ''0'', hex_digit (of_char c div 16), hex_digit (of_char c mod 16)]"
    using assms by (auto simp: escape_ascii_def Let_def u4_def)
  have "utf8_encode (of_char c) = [c]" using small by (simp add: utf8_encode_def)
  then show "tok ([c], escape_ascii c)"
    unfolding esc using hex4_escape [OF small] small assms by (intro tok_new) auto
  show "run_piece [c]" using assms by (auto simp: run_piece_def)
  show "run_piece (escape_ascii c)" by (simp add: run_piece_def run_escape_char small)
qed

lemma separator_piece:
  assumes "x = [CHR 0xE2, CHR 0x80, CHR 0xA8] \<and> y = CHR 0x5C # ''u2028'' \<or> x = [CHR 0xE2, CHR 0x80, CHR 0xA9] \<and> y = CHR 0x5C # ''u2029''"
  shows "tok (x, y)" "run_piece x" "run_piece y"
proof -
  have "y = u4 ''2028'' \<or> y = u4 ''2029''" using assms by (auto simp: u4_def)
  with assms show "tok (x, y)" by (auto simp: u4_def simp flip: u4_def intro!: tok_new simp: hex4_specials utf8_encode_specials)
  show "run_piece x" using assms by (auto simp: run_piece_def)
  show "run_piece y" using assms by (auto simp: run_piece_def is_hex_def is_digit_def in_range_def)
qed

lemma plain_piece:
  assumes "scan (MStr key raw, stk) c = Some st" "c \<noteq> CHR 0x22" "c \<noteq> CHR 0x5C"
  shows "tok ([c], [c])" "run_piece [c]"
  using assms by (auto simp: tok_def run_piece_def split: if_splits)

text \<open>How compaction splits the text inside a string.\<close>

lemma compact_split:
  assumes "scan (MStr key raw, stk) c = Some st" "c \<noteq> CHR 0x22" "c \<noteq> CHR 0x5C"
  shows "\<exists>x y t. c # s = x @ t \<and> x \<noteq> [] \<and> compact True (c # s) = y @ compact True t \<and> tok (x, y) \<and> run_piece x \<and> run_piece y"
proof -
  consider (html) "c = CHR ''<'' \<or> c = CHR ''>'' \<or> c = CHR ''&''"
    | (line) "\<not> (c = CHR ''<'' \<or> c = CHR ''>'' \<or> c = CHR ''&'')" "HasPrefix (c # s) [CHR 0xE2, CHR 0x80, CHR 0xA8]"
    | (para) "\<not> (c = CHR ''<'' \<or> c = CHR ''>'' \<or> c = CHR ''&'')" "HasPrefix (c # s) [CHR 0xE2, CHR 0x80, CHR 0xA9]"
    | (plain) "\<not> (c = CHR ''<'' \<or> c = CHR ''>'' \<or> c = CHR ''&'')" "\<not> HasPrefix (c # s) [CHR 0xE2, CHR 0x80, CHR 0xA8]"
        "\<not> HasPrefix (c # s) [CHR 0xE2, CHR 0x80, CHR 0xA9]"
    by blast
  then show ?thesis
  proof cases
    case html
    with html_piece [OF html] assms show ?thesis
      by (intro exI [of _ "[c]"] exI [of _ "escape_ascii c"] exI [of _ s]) simp
  next
    case line
    then obtain t where "s = CHR 0x80 # CHR 0xA8 # t" "c = CHR 0xE2" using HasPrefix3 by blast
    with separator_piece [of "[CHR 0xE2, CHR 0x80, CHR 0xA8]" "CHR 0x5C # ''u2028''"] show ?thesis
      by (intro exI [of _ "[CHR 0xE2, CHR 0x80, CHR 0xA8]"] exI [of _ "CHR 0x5C # ''u2028''"] exI [of _ t])
         (simp add: HasPrefix_def)
  next
    case para
    then obtain t where "s = CHR 0x80 # CHR 0xA9 # t" "c = CHR 0xE2" using HasPrefix3 by blast
    with separator_piece [of "[CHR 0xE2, CHR 0x80, CHR 0xA9]" "CHR 0x5C # ''u2029''"] show ?thesis
      by (intro exI [of _ "[CHR 0xE2, CHR 0x80, CHR 0xA9]"] exI [of _ "CHR 0x5C # ''u2029''"] exI [of _ t])
         (simp add: HasPrefix_def)
  next
    case plain
    with plain_piece [OF assms] assms show ?thesis
      by (intro exI [of _ "[c]"] exI [of _ "[c]"] exI [of _ s]) simp
  qed
qed

lemma compact_hex: "is_hex c \<Longrightarrow> compact True (c # s) = c # compact True s"
proof -
  assume "is_hex c"
  then have "(of_char c :: nat) \<in> {48..57} \<union> {65..70} \<union> {97..102}" by (auto simp: is_hex_def is_digit_def in_range_def)
  then have "c \<notin> {CHR 0x22, CHR 0x5C, CHR ''<'', CHR ''>'', CHR ''&'', CHR 0xE2}" by auto
  then show ?thesis by (simp add: HasPrefix_def)
qed

lemma run_ConsE:
  assumes "run (m, stk) (c # s) = Some r"
  obtains m1 stk1 where "scan (m, stk) c = Some (m1, stk1)" "run (m1, stk1) s = Some r"
  using assms by (auto split: option.splits)

lemma sim_escape:
  assumes "toks raw raw'" "scan (MEsc key (CHR 0x5C # raw), stk) e = Some (m1, stk1)"
  shows "\<exists>m1'. scan (MEsc key (CHR 0x5C # raw'), stk) e = Some (m1', stk1) \<and> sim_mode m1 m1' \<and> in_string m1"
proof (cases "e = CHR ''u''")
  case True
  with assms sim_hexI [of "[]", OF _ assms(1)] show ?thesis by (auto simp: in_string_def)
next
  case False
  then have "tok ([CHR 0x5C, e], [CHR 0x5C, e])" by (simp add: tok_def)
  from sim_strI [OF toks_snoc [OF assms(1) this]] False assms(2) show ?thesis
    by (auto simp: in_string_def split: if_splits)
qed

lemma sim_hex:
  assumes "length hs < 4" "toks raw raw'" "scan (MHex key (hs @ CHR ''u'' # CHR 0x5C # raw) (4 - length hs), stk) c = Some (m1, stk1)"
  shows "is_hex c \<and> (\<exists>m1'. scan (MHex key (hs @ CHR ''u'' # CHR 0x5C # raw') (4 - length hs), stk) c = Some (m1', stk1) \<and>
     sim_mode m1 m1' \<and> in_string m1)"
proof (cases "length hs = 3")
  case True
  then obtain x y z where hs: "hs = [x, y, z]" by (auto simp: length_Suc_conv numeral_3_eq_3)
  have "tok (u4 [z, y, x, c], u4 [z, y, x, c])" by (auto simp: tok_def)
  from sim_strI [OF toks_snoc [OF assms(2) this]] hs assms(3) show ?thesis
    by (auto simp: in_string_def u4_def split: if_splits)
next
  case False
  with assms(1) have n: "length (c # hs) < 4" "4 - length hs - 1 = 4 - length (c # hs)" "4 - length hs \<noteq> 1" by auto
  from sim_hexI [OF n(1) assms(2) refl, of key] n assms(3) show ?thesis
    by (auto simp: in_string_def simp del: One_nat_def split: if_splits)
qed

lemma compact_run:
  "sim_mode m m' \<Longrightarrow> in_string m = b \<Longrightarrow> lit_ok m \<Longrightarrow> run (m, stk) s = Some (m2, stk2) \<Longrightarrow> complete m2 v \<Longrightarrow>
     \<exists>m2'. run (m', stk) (compact b s) = Some (m2', stk2) \<and> complete m2' v"
proof (induction "length s" arbitrary: s b m m' stk rule: less_induct)
  case less
  show ?case
  proof (cases s)
    case Nil
    with less.prems sim_complete show ?thesis by auto
  next
    case (Cons c t)
    note ih = less.hyps [OF _ _ _ _ _ less.prems(5)]
    obtain m1 stk1 where scan: "scan (m, stk) c = Some (m1, stk1)" and run: "run (m1, stk1) t = Some (m2, stk2)"
      using less.prems(4) [unfolded Cons] by (rule run_ConsE)
    have lit: "lit_ok m1" by (rule scan_lit_ok [OF scan less.prems(3)])
    show ?thesis
    proof (cases "in_string m")
      case False
      note out = sim_outside [OF less.prems(1) False less.prems(3) scan]
      show ?thesis
      proof (cases "is_ws c")
        case True
        with out have "stk1 = stk" "sim_mode m1 m'" "\<not> in_string m1" by simp_all
        with ih [of t m1 m' False stk] run lit Cons True False less.prems(2) show ?thesis by simp
      next
        case not_ws: False
        with out obtain m1' where "scan (m', stk) c = Some (m1', stk1)" "sim_mode m1 m1'" "in_string m1 = (c = CHR 0x22)" by auto
        with ih [of t m1 m1' "c = CHR 0x22" stk1] run lit Cons not_ws False less.prems(2) show ?thesis
          by (cases "c = CHR 0x22") simp_all
      qed
    next
      case True
      with less.prems(1) consider
          (str) key raw raw' where "m = MStr key raw" "m' = MStr key raw'" "toks raw raw'"
        | (hex) key hs raw raw' where "length hs < 4" "m = MHex key (hs @ CHR ''u'' # CHR 0x5C # raw) (4 - length hs)"
            "m' = MHex key (hs @ CHR ''u'' # CHR 0x5C # raw') (4 - length hs)" "toks raw raw'"
        by (auto simp: sim_mode_def in_string_def)
      then show ?thesis
      proof cases
        case str
        consider (quote_end) "c = CHR 0x22" | (esc) "c = CHR 0x5C" | (other) "c \<noteq> CHR 0x22" "c \<noteq> CHR 0x5C" by blast
        then show ?thesis
        proof cases
          case quote_end
          then have "m1 = end_string key raw'" "stk1 = stk" using scan str end_string_toks by auto
          moreover from this have "\<not> in_string m1" "sim_mode m1 m1"
            by (auto simp: end_string_def in_string_def sim_mode_def Let_def)
          ultimately show ?thesis using ih [of t m1 m1 False stk] run lit Cons True less.prems(2) quote_end str by simp
        next
          case esc
          with scan str have m1: "m1 = MEsc key (CHR 0x5C # raw)" "stk1 = stk" by auto
          with run less.prems(5) obtain e u where t: "t = e # u" by (cases t) (auto simp: complete_def)
          obtain m3 stk3 where m3: "scan (MEsc key (CHR 0x5C # raw), stk) e = Some (m3, stk3)" "run (m3, stk3) u = Some (m2, stk2)"
            using run [unfolded t m1] by (rule run_ConsE)
          from sim_escape [OF str(3) m3(1)] obtain m3' where
            "scan (MEsc key (CHR 0x5C # raw'), stk) e = Some (m3', stk3)" "sim_mode m3 m3'" "in_string m3" by blast
          with ih [of u m3 m3' True stk3] m3 scan_lit_ok [OF m3(1)] Cons t True less.prems(2) str esc show ?thesis
            by (simp add: lit_ok_def)
        next
          case other
          from compact_split [of key raw stk c "(m1, stk1)" t] scan str other obtain x y u where
            u: "c # t = x @ u" "x \<noteq> []" "compact True (c # t) = y @ compact True u" "tok (x, y)" "run_piece x" "run_piece y" by blast
          have "run (MStr key (rev x @ raw), stk) u = Some (m2, stk2)"
            using less.prems(4) Cons u(1,5) str by (simp add: run_piece_def)
          moreover have "sim_mode (MStr key (rev x @ raw)) (MStr key (rev y @ raw'))"
            using toks_snoc [OF str(3) u(4)] by (auto simp: sim_mode_def)
          moreover have "length u < length s" using Cons u(1,2) by (metis length_append length_greater_0_conv less_add_same_cancel2)
          ultimately obtain m2' where "run (MStr key (rev y @ raw'), stk) (compact True u) = Some (m2', stk2)" "complete m2' v"
            using ih [of u "MStr key (rev x @ raw)" _ True stk] by (auto simp: in_string_def lit_ok_def)
          with u(3,6) Cons True less.prems(2) str show ?thesis by (simp add: run_piece_def)
        qed
      next
        case hex
        from sim_hex [OF hex(1,4) scan [unfolded hex(2)]] obtain m1' where
          "is_hex c" "scan (m', stk) c = Some (m1', stk1)" "sim_mode m1 m1'" "in_string m1" unfolding hex(3) by blast
        with ih [of t m1 m1' True stk1] run lit Cons True less.prems(2) show ?thesis
          by (simp only: compact_hex run.simps) simp
      qed
    qed
  qed
qed

lemma reads_compact:
  assumes "reads t v"
  shows "reads (compact False t) v"
  unfolding reads_def
proof
  fix f
  from assms obtain m where "run (MValue, [f]) t = Some (m, [f])" "complete m v" unfolding reads_def by blast
  then show "\<exists>m. run (MValue, [f]) (compact False t) = Some (m, [f]) \<and> complete m v"
    using compact_run [of MValue MValue False "[f]" t m "[f]" v] by (simp add: sim_mode_def in_string_def lit_ok_def)
qed

text \<open>An encoded value is a text of it.\<close>

lemma reads_encode:
  assumes "json_nums v" "json_depth v < max_depth"
  shows "reads (json_encode v) (json_coerce v)"
  unfolding reads_def
proof
  fix f
  have "run (MValue, [f]) (json_encode v @ '' '') = Some (MAfter (json_coerce v), [f])"
    using run_json_encode [of v "[f]" "'' ''"] assms by (simp add: after_value_def is_ws_def)
  then obtain m stk where m: "run (MValue, [f]) (json_encode v) = Some (m, stk)"
    "scan (m, stk) (CHR '' '') = Some (MAfter (json_coerce v), [f])" by (auto simp: run_append split: option.splits)
  moreover have "lit_ok m" by (rule run_lit_ok [OF m(1)]) (simp add: lit_ok_def)
  ultimately have "stk = [f] \<and> complete m (json_coerce v)"
    using blank_after_value [of m stk "CHR '' ''" "MAfter (json_coerce v)" "[f]" "json_coerce v"]
    by (simp add: complete_def is_ws_def)
  with m(1) show "\<exists>m. run (MValue, [f]) (json_encode v) = Some (m, [f]) \<and> complete m (json_coerce v)" by blast
qed

subsection \<open>Decoded values are valid UTF-8\<close>

definition valid_members :: "(string \<times> json) list \<Rightarrow> bool" where
  "valid_members kvs \<longleftrightarrow> list_all (\<lambda>p. utf8_coerce (fst p) = fst p \<and> json_coerce (snd p) = snd p) kvs"

definition valid_frame :: "frame \<Rightarrow> bool" where
  "valid_frame f \<longleftrightarrow> (case f of FArr vs \<Rightarrow> list_all (\<lambda>v. json_coerce v = v) vs | FObj kvs \<Rightarrow> valid_members kvs
     | FMem kvs k \<Rightarrow> valid_members kvs \<and> utf8_coerce k = k)"

definition valid_mode :: "mode \<Rightarrow> bool" where
  "valid_mode m \<longleftrightarrow> (case m of MColon k \<Rightarrow> utf8_coerce k = k | MAfter v \<Rightarrow> json_coerce v = v | MLit w v \<Rightarrow> json_coerce v = v | _ \<Rightarrow> True)"

lemma coerce_object: "json_coerce (JObj kvs) = JObj kvs \<longleftrightarrow> valid_members kvs"
  by (induction kvs) (auto simp: valid_members_def prod_eq_iff)

lemma coerce_array: "json_coerce (JArr vs) = JArr vs \<longleftrightarrow> list_all (\<lambda>v. json_coerce v = v) vs"
  by (induction vs) auto

lemma scan_valid:
  assumes "scan (m, stk) c = Some (m', stk')" "valid_mode m" "list_all valid_frame stk"
  shows "valid_mode m' \<and> list_all valid_frame stk'"
proof -
  note simps = valid_mode_def valid_frame_def coerce_object coerce_array
  have after: "valid_mode m1 \<and> list_all valid_frame stk1"
    if "after_value v c stk = Some (m1, stk1)" "json_coerce v = v" for v m1 stk1
    using that assms(3)
    by (auto simp del: json_coerce.simps(2,3) simp: after_value_def simps valid_members_def split: if_splits list.splits frame.splits)
  show ?thesis
  proof (cases m)
    case (MAfter v)
    with after assms show ?thesis by (simp add: valid_mode_def)
  next
    case (MNum st raw)
    with after [of "JNum (rev raw)"] assms show ?thesis by (auto simp: valid_mode_def split: option.splits if_splits)
  next
    case (MStr key raw)
    with assms show ?thesis by (auto simp: valid_mode_def end_string_def Let_def split: if_splits)
  next
    case (MLit w v)
    with assms show ?thesis by (auto simp: valid_mode_def split: list.splits if_splits)
  qed (use assms in \<open>auto simp del: json_coerce.simps(2,3) simp: begin_value_def push_frame_def simps valid_members_def
      split: if_splits list.splits frame.splits option.splits\<close>)
qed

lemma run_valid:
  "run (m, stk) s = Some (m', stk') \<Longrightarrow> valid_mode m \<Longrightarrow> list_all valid_frame stk \<Longrightarrow> valid_mode m' \<and> list_all valid_frame stk'"
proof (induction s arbitrary: m stk)
  case (Cons c s)
  then obtain m1 stk1 where "scan (m, stk) c = Some (m1, stk1)" "run (m1, stk1) s = Some (m', stk')"
    by (blast elim: run_ConsE)
  with Cons scan_valid show ?case by blast
qed simp

lemma json_decode_valid: "json_decode s = Some v \<Longrightarrow> json_coerce v = v"
  using run_valid [of MValue "[]" "s @ '' ''" "MAfter v" "[]"]
  by (auto simp: json_decode_def valid_mode_def split: option.splits prod.splits mode.splits list.splits)

subsection \<open>Marshalling raw messages\<close>

lemma run_raw_members:
  assumes "m \<noteq> []" "\<And>p. p \<in> set m \<Longrightarrow> reads (snd p) (val (fst p))"
  shows "run (MKey, [FObj acc]) (Join (map (\<lambda>p. json_quote (fst p) @ CHR '':'' # snd p) m) '','' @ CHR ''}'' # t) =
    run (MAfter (JObj (rev acc @ map (\<lambda>p. (utf8_coerce (fst p), val (fst p))) m)), []) t"
  using assms
proof (induction m arbitrary: acc)
  case (Cons p m)
  let ?rest = "Join (map (\<lambda>p. json_quote (fst p) @ CHR '':'' # snd p) m) '','' @ CHR ''}'' # t"
  have p: "run (MValue, [f]) (snd p @ u) = run (MAfter (val (fst p)), [f]) u" if "delim u" for f u
    using reads_run [OF Cons.prems(2) [of p] that] by simp
  show ?case
  proof (cases "m = []")
    case True
    with p [of "CHR ''}'' # t"] show ?thesis by (simp add: run_key after_value_def is_ws_def)
  next
    case False
    then have "run (MKey, [FObj ((utf8_coerce (fst p), val (fst p)) # acc)]) ?rest =
        run (MAfter (JObj (rev ((utf8_coerce (fst p), val (fst p)) # acc) @ map (\<lambda>p. (utf8_coerce (fst p), val (fst p))) m)), []) t"
      by (intro Cons.IH) (use Cons.prems in auto)
    with False p [of "CHR '','' # ?rest"] show ?thesis
      by (cases m) (simp_all add: run_key after_value_def is_ws_def)
  qed
qed simp

lemma marshal_raw_decodes:
  assumes "\<And>p. p \<in> set m \<Longrightarrow> reads (snd p) (val (fst p))"
  shows "json_decode (marshal_raw m) = Some (JObj (map (\<lambda>p. (utf8_coerce (fst p), val (fst p))) (sort_key fst m)))"
proof -
  define sm where "sm = map (\<lambda>p. (fst p, compact False (snd p))) (sort_key fst m)"
  let ?body = "Join (map (\<lambda>p. json_quote (fst p) @ CHR '':'' # snd p) sm) '','' @ CHR ''}'' # '' ''"
  have bytes: "marshal_raw m @ '' '' = CHR ''{'' # ?body" by (simp add: marshal_raw_def sm_def comp_def)
  have sm: "reads (snd p) (val (fst p))" if "p \<in> set sm" for p
    using that assms reads_compact by (auto simp: sm_def)
  have start: "run (MValue, []) (CHR ''{'' # u) = run (MKey0, [FObj []]) u" for u
    by (simp add: is_ws_def begin_value_def push_frame_def max_depth_def)
  have "run (MKey0, [FObj []]) ?body = Some (MAfter (JObj (map (\<lambda>p. (utf8_coerce (fst p), val (fst p))) sm)), [])"
  proof (cases sm)
    case Nil
    then show ?thesis by (simp add: is_ws_def after_value_def)
  next
    case (Cons w ws)
    then have "run (MKey0, [FObj []]) ?body = run (MKey, [FObj []]) ?body"
      by (cases ws) (simp_all add: json_quote_def is_ws_def)
    with run_raw_members [of sm val "[]" "'' ''"] sm Cons show ?thesis
      by (simp add: after_value_def is_ws_def)
  qed
  then show ?thesis unfolding json_decode_def bytes start by (simp add: sm_def comp_def)
qed

lemma last_wins_subset: "set (last_wins kvs) \<subseteq> set kvs"
  by (induction kvs) auto

end
