(* ===== verification/Patched_Body.thy ===== *)
theory Patched_Body
  imports Mediation Raw_Json
begin

text \<open>
  The body that mediation sends on. \<open>patchMessageSubtree\<close> takes the received body apart into raw
  messages, replaces the message and puts the rest together again, compacted and with its
  members sorted; decoded, the new body is the old one with another message.
\<close>

lemma member_text_keys: "list_all2 member_text ms kvs \<Longrightarrow> fst ` set ms = fst ` set kvs"
  by (induction rule: list_all2_induct) (auto simp: member_text_def)

lemma jget_Cons: "jget (kv # kvs) k = (case jget kvs k of None \<Rightarrow> if fst kv = k then Some (snd kv) else None | Some v \<Rightarrow> Some v)"
  by (cases kv) (auto simp: jget_def map_add_def split: option.splits)

lemma last_wins_member:
  "list_all2 member_text ms kvs \<Longrightarrow> p \<in> set (last_wins ms) \<Longrightarrow> \<exists>v. jget kvs (fst p) = Some v \<and> reads (snd p) v"
proof (induction ms kvs rule: list_all2_induct)
  case (Cons m ms kv kvs)
  show ?case
  proof (cases "p \<in> set (last_wins ms)")
    case True
    with Cons.IH show ?thesis by (auto simp: jget_Cons)
  next
    case False
    with Cons.prems have "p = m" "fst m \<notin> fst ` set ms" by (auto split: if_splits)
    moreover from this have "jget kvs (fst m) = None" using member_text_keys [OF Cons(2)] jget_None [of kvs] by simp
    ultimately show ?thesis using Cons(1) by (simp add: jget_Cons member_text_def)
  qed
qed simp

lemma last_wins_keys: "fst ` set (last_wins ms) = fst ` set ms"
  by (induction ms) auto

lemma go_set_members: "p \<in> set (go_set m k t) \<Longrightarrow> fst p = k \<and> snd p = t \<or> fst p \<noteq> k \<and> p \<in> set m"
  unfolding go_set_def by (cases "k \<in> fst ` set m") (auto intro: rev_image_eqI split: if_splits)

lemma jget_map_val: "jget (map (\<lambda>p. (fst p, val (fst p))) m) k = (if k \<in> fst ` set m then Some (val k) else None)"
  by (induction m rule: rev_induct) (auto simp: jget_def)

lemma patched_decodes:
  assumes body: "json_decode body = Some (JObj kvs)" and new: "reads t v"
  shows "\<exists>body' kvs'. patchMessageSubtree body t = Inr body' \<and> json_decode body' = Some (JObj kvs') \<and>
    (\<forall>k. jget kvs' k = (if k = ''message'' then Some v else jget kvs k))"
proof -
  from unmarshal_raw_decodes [OF body] obtain ms where
    ms: "unmarshal_raw body = Some (Some (last_wins ms))" "list_all2 member_text ms kvs" by blast
  let ?m = "go_set (last_wins ms) ''message'' t"
  let ?val = "\<lambda>k. if k = ''message'' then v else the (jget kvs k)"
  have reads: "reads (snd p) (?val (fst p))" if "p \<in> set ?m" for p
    using go_set_members [OF that] last_wins_member [OF ms(2)] new by fastforce
  have keys: "fst ` set ?m = insert ''message'' (fst ` set kvs)"
    by (simp add: go_set_keys last_wins_keys member_text_keys [OF ms(2)])
  have "valid_members kvs" using json_decode_valid [OF body] by (simp only: coerce_object)
  then have coerced: "utf8_coerce k = k" if "k \<in> fst ` set ?m" for k
    using that unfolding keys by (auto simp: valid_members_def list_all_iff)
  have "map (\<lambda>p. (utf8_coerce (fst p), ?val (fst p))) (sort_key fst ?m) = map (\<lambda>p. (fst p, ?val (fst p))) (sort_key fst ?m)"
    using coerced by (intro map_cong) auto
  then have "json_decode (marshal_raw ?m) = Some (JObj (map (\<lambda>p. (fst p, ?val (fst p))) (sort_key fst ?m)))"
    using marshal_raw_decodes [of ?m ?val] reads by simp
  moreover have "jget (map (\<lambda>p. (fst p, ?val (fst p))) (sort_key fst ?m)) k = (if k = ''message'' then Some v else jget kvs k)" for k
    unfolding jget_map_val [where val = ?val] set_sort keys using jget_None [of kvs k] by auto
  ultimately show ?thesis using ms(1) by (simp add: patchMessageSubtree_def)
qed

subsection \<open>The message that is written\<close>

text \<open>Numbers stay well formed: those of decoded texts, and those of a message that is rewritten.\<close>

definition good_numbers :: "(string \<times> json) list \<Rightarrow> bool" where
  "good_numbers m \<longleftrightarrow> list_all (\<lambda>p. json_nums (snd p)) m"

lemma go_value_nums:
  assumes "\<And>t. num_ok (FloatText F t)"
  shows "json_nums (go_value F v)"
proof (induction v)
  case (JObj kvs)
  then have "json_nums (snd p)" if "p \<in> set (map (\<lambda>p. (fst p, go_value F (snd p))) kvs)" for p
    using that by (auto intro: snds.intros)
  with last_wins_subset [of "map (\<lambda>p. (fst p, go_value F (snd p))) kvs"] show ?case
    by (auto simp: list_all_iff)
qed (use assms in \<open>auto simp: list_all_iff\<close>)

lemma go_set_nums: "good_numbers m \<Longrightarrow> json_nums v \<Longrightarrow> good_numbers (go_set m k v)"
  using go_set_members [of _ m k v] by (fastforce simp: good_numbers_def list_all_iff)

lemma aput_nums: "aput v as x = Some v' \<Longrightarrow> json_nums v \<Longrightarrow> json_nums x \<Longrightarrow> json_nums v'"
proof (induction v as x arbitrary: v' rule: aput.induct)
  case (2 m k as x)
  have m: "good_numbers m" using 2(3) by (simp add: good_numbers_def)
  have "json_nums y" if "jget m k = Some y" for y
    using that m by (fastforce simp: good_numbers_def jget_def list_all_iff dest: map_of_SomeD)
  with 2 m go_set_nums [OF m, of _ k] show ?case
    by (auto simp: good_numbers_def split: option.splits if_splits)
next
  case (3 xs i as x)
  then show ?case by (auto simp: list_all_iff set_update_subset_insert split: if_splits dest!: subsetD [OF set_update_subset_insert])
qed auto

lemma unmarshal_any_nums: "(\<And>t. num_ok (FloatText F t)) \<Longrightarrow> unmarshal_any F s = Some v \<Longrightarrow> json_nums v"
  by (auto simp: unmarshal_any_def go_value_nums split: option.splits if_splits)

lemma unmarshal_map_nums:
  assumes "\<And>t. num_ok (FloatText F t)" "unmarshal_map F s m = Some m'" "good_numbers (go_entries m)"
  shows "good_numbers (go_entries m')"
proof -
  have fold: "good_numbers (foldl (\<lambda>acc p. go_set acc (fst p) (snd p)) acc kvs)"
    if "good_numbers acc" "good_numbers kvs" for acc kvs
    using that by (induction kvs arbitrary: acc) (auto simp: good_numbers_def intro: go_set_nums [unfolded good_numbers_def])
  have "good_numbers kvs" if "unmarshal_any F s = Some (JObj kvs)" for kvs
    using that unmarshal_any_nums [OF assms(1)] by (fastforce simp: good_numbers_def)
  with fold assms(2,3) show ?thesis
    by (auto simp: unmarshal_map_def go_entries_def good_numbers_def split: option.splits json.splits)
qed

lemma place_result_nums:
  assumes "\<And>t. num_ok (FloatText F t)" "place_result F rel url bytes m = Inr m'" "good_numbers (go_entries m)"
  shows "good_numbers (go_entries m')"
proof (cases "rel = []")
  case True
  with assms(2) obtain m1 where "unmarshal_map F bytes m = Some (Some m1)" "m' = Some (go_set m1 ''@context'' (JStr url))"
    by (auto simp: place_result_def split: option.splits)
  with unmarshal_map_nums [OF assms(1) _ assms(3)] go_set_nums show ?thesis by (fastforce simp: go_entries_def)
next
  case False
  with assms(2) obtain v x m1 where v: "unmarshal_any F bytes = Some v" "setAtPath (go_entries m) rel x = Inr m1" "m' = Some m1"
    "x = (case v of JObj obj \<Rightarrow> JObj (go_set obj ''@context'' (JStr url)) | _ \<Rightarrow> v)"
    by (auto simp: place_result_def Let_def split: option.splits sum.splits)
  have "json_nums v" by (rule unmarshal_any_nums [OF assms(1) v(1)])
  with v(4) have "json_nums x" using go_set_nums [unfolded good_numbers_def] by (auto split: json.splits)
  moreover from v(2) have "aput (JObj (go_entries m)) (path_accesses rel) x = Some (JObj m1)"
    using setAtPath_refines [of "go_entries m" rel x m1] by simp
  ultimately have "json_nums (JObj m1)" using aput_nums assms(3) by (fastforce simp: good_numbers_def)
  with v(3) show ?thesis by (simp add: good_numbers_def go_entries_def)
qed

lemma apply_artifacts_nums:
  assumes "\<And>t. num_ok (FloatText (EvFloat E) t)"
  shows "apply_artifacts E msgBytes arts ps m w = (Inr m', w') \<Longrightarrow> good_numbers (go_entries m) \<Longrightarrow> good_numbers (go_entries m')"
proof (induction ps arbitrary: m w)
  case (Cons p ps)
  from Cons.prems(1) obtain m1 w1 where step: "apply_artifact E msgBytes p (the (map_of arts p)) m w = (Inr m1, w1)"
    "apply_artifacts E msgBytes arts ps m1 w1 = (Inr m', w')" by (auto split: prod.splits sum.splits)
  from step(1) obtain bytes where "place_result (EvFloat E) (rel_path p) (ToContextURL (FaNeed (the (map_of arts p)))) bytes m = Inr m1"
    by (auto simp: apply_artifact_def Let_def split: prod.splits sum.splits)
  from Cons.IH [OF step(2) place_result_nums [OF assms this Cons.prems(2)]] show ?case .
qed simp

lemma marshal_map_encodes: "\<exists>v. marshal_map m = json_encode v \<and> (good_numbers (go_entries m) \<longrightarrow> json_nums v)"
proof (cases m)
  case None
  then show ?thesis by (intro exI [of _ JNull]) (simp add: marshal_map_def)
next
  case (Some kvs)
  then show ?thesis using sort_members_nums [of "JObj kvs"]
    by (intro exI [of _ "sort_members (JObj kvs)"]) (simp add: marshal_map_def marshal_any_def good_numbers_def go_entries_def)
qed

lemma translate_body_patches:
  assumes "\<And>t. num_ok (FloatText (EvFloat E) t)" "translate_body E body arts w = (Inr b, w')"
  shows "\<exists>v. patchMessageSubtree body (json_encode v) = Inr b \<and> json_nums v"
proof -
  from assms(2) obtain msgBytes m m1 w1 where m: "unmarshal_map (EvFloat E) msgBytes None = Some m"
    "apply_artifacts E msgBytes arts (sort (map fst arts)) m w = (Inr m1, w1)" "patchMessageSubtree body (marshal_map m1) = Inr b"
    by (auto simp: translate_body_def split: sum.splits option.splits prod.splits)
  have "good_numbers (go_entries m)"
    by (rule unmarshal_map_nums [OF assms(1) m(1)]) (simp add: go_entries_def good_numbers_def)
  from apply_artifacts_nums [OF assms(1) m(2) this] marshal_map_encodes [of m1] m(3) show ?thesis by auto
qed

lemma Mediate_body:
  assumes "Mediate E m s ctx = (r, ctx', s')" "ctx' \<noteq> ctx"
  shows "\<exists>arts w b w'. translate_body E (Body ctx) arts w = (Inr b, w') \<and> ctx' = ctx\<lparr>Body := b\<rparr>"
  using assms by (auto simp: Mediate_def mediate_needs_def Let_def split: if_splits sum.splits prod.splits)

text \<open>C35: Only the message of a body changes. Whatever the manifests, the artifacts and the translator
  are, when mediation changes a request whose body is a JSON object, the new body is the old one
  with the text of some value as its message; unless that value is nested more deeply than the
  decoder admits, the new body decodes, its message is that value (with any byte that is not
  UTF-8 replaced), and every other member of it, the Beckn context among them, has the value it had.\<close>

theorem mediation_keeps_envelope:
  assumes "Mediate E m s ctx = (r, ctx', s')" "ctx' \<noteq> ctx"
    and "json_decode (Body ctx) = Some (JObj kvs)" and "\<And>t. num_ok (FloatText (EvFloat E) t)"
  shows "\<exists>v. patchMessageSubtree (Body ctx) (json_encode v) = Inr (Body ctx') \<and>
     (json_depth v < max_depth \<longrightarrow>
        (\<exists>kvs'. json_decode (Body ctx') = Some (JObj kvs') \<and>
           (\<forall>k. jget kvs' k = (if k = ''message'' then Some (json_coerce v) else jget kvs k))))"
proof -
  from Mediate_body [OF assms(1,2)] obtain arts w b w' where
    b: "translate_body E (Body ctx) arts w = (Inr b, w')" "ctx' = ctx\<lparr>Body := b\<rparr>" by blast
  from translate_body_patches [OF assms(4) b(1)] obtain v where
    v: "patchMessageSubtree (Body ctx) (json_encode v) = Inr b" "json_nums v" by blast
  have "\<exists>kvs'. json_decode b = Some (JObj kvs') \<and> (\<forall>k. jget kvs' k = (if k = ''message'' then Some (json_coerce v) else jget kvs k))"
    if "json_depth v < max_depth"
    using patched_decodes [OF assms(3) reads_encode [OF v(2) that]] v(1) by auto
  with v(1) b(2) show ?thesis by (intro exI [of _ v]) simp
qed

text \<open>The example of the mediated offer, with a number format that writes every number as 1.\<close>

definition ones_env :: "unit MedEnv" where
  "ones_env = sample_env\<lparr>EvFloat := \<lparr>InRange = (\<lambda>s. True), FloatText = (\<lambda>s. ''1'')\<rparr>\<rparr>"

lemma ones_simps [simp]:
  "EvOrder ones_env = (\<lambda>v. v)" "EvParseURL ones_env = path_url" "FloatText (EvFloat ones_env) t = ''1''"
  by (simp_all add: ones_env_def)

lemma ones_walk: "WalkPayload (EvFloat ones_env) (\<lambda>v. v) sample_body =
    Inr ([\<lparr>PayloadRefOf = TnFrom offer_need, JSONataPath = in_message ''offer''\<rparr>], [])"
  by code_simp

lemma fetch_ignores_numbers: "fetch_needs (E\<lparr>EvFloat := F\<rparr>) needs arts fs s = fetch_needs E needs arts fs s"
proof (induction needs arbitrary: arts fs s)
  case (Cons n ns)
  have "fetch_need (E\<lparr>EvFloat := F\<rparr>) s n = fetch_need E s n" by (simp add: fetch_need_def cong: sum.case_cong)
  with Cons show ?case by (simp split: prod.splits sum.splits)
qed simp

lemma ones_fetch: "\<exists>s1. fetchAllArtifacts ones_env ((), newArtifactCache 10 5 1) [offer_need] =
    (Inr ([(in_message ''offer'', sample_fetched)], []), s1)"
  using sample_fetch by (simp only: ones_env_def fetchAllArtifacts_def fetch_ignores_numbers)

definition ones_body :: string where
  "ones_body = ''{\"context\":{\"v\":\"2\"},\"message\":{\"n\":1,\"offer\":{\"@context\":\"https://s.io/Offer/v2.10/context.jsonld\",\"@type\":\"Offer\",\"ident\":1}}}''"

lemma ones_translate: "translate_body ones_env sample_body [(in_message ''offer'', sample_fetched)] w = (Inr ones_body, w)"
proof -
  have "translate_body ones_env sample_body [(in_message ''offer'', sample_fetched)] () = (Inr ones_body, ())" by code_simp
  then show ?thesis by (cases w) simp
qed

lemma ones_mediated: "\<exists>s'. Mediate ones_env sample_mediator ((), newArtifactCache 10 5 1) (sample_step sample_body) =
    (None, (sample_step sample_body)\<lparr>Body := ones_body\<rparr>, s')"
proof -
  obtain s1 where fetched: "fetchAllArtifacts ones_env ((), newArtifactCache 10 5 1) [offer_need] =
    (Inr ([(in_message ''offer'', sample_fetched)], []), s1)" using ones_fetch by blast
  have "Mediate ones_env sample_mediator ((), newArtifactCache 10 5 1) (sample_step sample_body) =
      mediate_needs ones_env sample_mediator ((), newArtifactCache 10 5 1) (sample_step sample_body) [offer_need]"
    by (simp add: Mediate_def Let_def target_manifest_def ones_walk sample_needs)
  with fetched ones_translate show ?thesis by (simp add: mediate_needs_def)
qed

theorem mediation_keeps_envelope_witness:
  "\<exists>v. patchMessageSubtree sample_body (json_encode v) = Inr ones_body"
proof -
  obtain s' where step: "Mediate ones_env sample_mediator ((), newArtifactCache 10 5 1) (sample_step sample_body) =
    (None, (sample_step sample_body)\<lparr>Body := ones_body\<rparr>, s')" using ones_mediated by blast
  have "ones_body \<noteq> sample_body" by code_simp
  then have "(sample_step sample_body)\<lparr>Body := ones_body\<rparr> \<noteq> sample_step sample_body" by (simp add: sample_step_def)
  moreover have "\<exists>kvs. json_decode sample_body = Some (JObj kvs)"
  proof -
    have "(case json_decode sample_body of Some (JObj kvs) \<Rightarrow> True | _ \<Rightarrow> False)" by code_simp
    then show ?thesis by (auto split: option.splits json.splits)
  qed
  moreover have "num_ok (FloatText (EvFloat ones_env) t)" for t by (simp, code_simp)
  ultimately show ?thesis using mediation_keeps_envelope [OF step] by auto
qed

end
