(* ===== verification/Cache_Contract.thy ===== *)
theory Cache_Contract
  imports Payload_Store
begin

text \<open>
  What the plugins that keep JSON texts in a cache rely on. A cache may forget, and it may fail, but
  it never returns a text that was not stored under the key: \<open>held\<close> bounds what can be read.
\<close>

text \<open>Every text that may be read under a key has a property.\<close>

definition all_held :: "('w \<Rightarrow> bool) \<Rightarrow> ('w \<Rightarrow> string \<rightharpoonup> string) \<Rightarrow> (string \<Rightarrow> string \<Rightarrow> bool) \<Rightarrow> 'w \<Rightarrow> bool" where
  "all_held ok held P w \<longleftrightarrow> ok w \<and> (\<forall>k v. held w k = Some v \<longrightarrow> P k v)"

locale string_cache =
  fixes cache :: "'w Cache"
    and ok :: "'w \<Rightarrow> bool"
    and held :: "'w \<Rightarrow> string \<rightharpoonup> string"
  assumes get_held: "ok w \<Longrightarrow> CacheGet cache w k = (r, w') \<Longrightarrow>
      ok w' \<and> held w' \<subseteq>\<^sub>m held w \<and> (\<forall>v. r = Inr v \<longrightarrow> v = [] \<or> held w k = Some v)"
    and set_held: "ok w \<Longrightarrow> 0 < ttl \<Longrightarrow> CacheSet cache w k v ttl = (e, w') \<Longrightarrow>
      ok w' \<and> held w' \<subseteq>\<^sub>m (held w)(k \<mapsto> v)"
begin

lemma all_held_less: "all_held ok held P w \<Longrightarrow> ok w' \<Longrightarrow> held w' \<subseteq>\<^sub>m held w \<Longrightarrow> all_held ok held P w'"
  by (auto simp: all_held_def map_le_def dom_def)

lemma all_held_get:
  assumes "all_held ok held P w" "CacheGet cache w k = (r, w')"
  shows "all_held ok held P w'" and "r = Inr v \<Longrightarrow> v = [] \<or> P k v"
  using assms get_held [of w k r w'] all_held_less [of P w w'] by (auto simp: all_held_def)

lemma all_held_set:
  assumes "all_held ok held P w" "0 < ttl" "P k v" "CacheSet cache w k v ttl = (e, w')"
  shows "all_held ok held P w'"
proof -
  from set_held [OF _ assms(2,4)] assms(1) have ok: "ok w'" and le: "held w' \<subseteq>\<^sub>m (held w)(k \<mapsto> v)" by (auto simp: all_held_def)
  have "((held w)(k \<mapsto> v)) k' = Some v'" if "held w' k' = Some v'" for k' v'
    using le that unfolding map_le_def dom_def by (metis (mono_tags, lifting) mem_Collect_eq option.discI)
  with assms(1,3) ok show ?thesis unfolding all_held_def by (metis fun_upd_apply option.inject)
qed

end

interpretation redis_cache: string_cache "cache_plugin R" "\<lambda>w. redis_behaves R live" live for R live
proof (unfold_locales, goal_cases)
  case (1 w k r w')
  then show ?case by (auto simp: cache_plugin_get split: option.splits)
next
  case (2 w ttl k v e w')
  then show ?case using cache_plugin_set [of R live ttl w k v] by auto
qed

end
