(* ===== verification/Manifest_Loader.thy ===== *)
theory Manifest_Loader
  imports Cache_Contract Artifact_Cache Node_Manifest
begin

text \<open>
  The plugin \<open>manifestloader/manifestloader.go\<close> with its entry point \<open>cmd/plugin.go\<close>: it finds the
  manifest of a network or a subscriber through the registry, fetches it with its detached signature
  and the public key, verifies it, and keeps it in the cache as JSON.

  The signature check \<open>VerifyDetachedArtifact\<close> (of the catalog-core module), SHA-256, the HTTP
  client, the clock and the text of times are arguments. The state is the world and the set of
  keys that were refreshed since the start. Log output is left out.
\<close>

subsection \<open>Configuration\<close>

record MlConfig =
  MlCacheTTL :: int
  MlFetchTimeout :: int
  DisableCache :: bool
  ForceRefreshOnStart :: bool
  SkipSignatureVerification :: bool

text \<open>The interface \<open>definition.RegistryMetadataLookup\<close>; a nil result is \<^term>\<open>None\<close>.\<close>

record 'w RegistryMetadataLookup =
  LookupRegistry :: "'w \<Rightarrow> string \<Rightarrow> string \<Rightarrow> (goerr + RegistryMetadata option) \<times> 'w"
  LookupNode :: "'w \<Rightarrow> string \<Rightarrow> (goerr + SubscriberRecord option) \<times> 'w"
  QueryByNetwork :: "'w \<Rightarrow> string \<Rightarrow> (goerr + SubscriberRecord list) \<times> 'w"

record 'w Loader =
  LdCache :: "'w Cache"
  LdRegistry :: "'w RegistryMetadataLookup"
  LdConfig :: MlConfig
  LdClient :: "'w HttpClient"
  LdClock :: "'w clock"
  LdVerify :: "string \<Rightarrow> string \<Rightarrow> string \<Rightarrow> goerr option"
  LdSha256 :: "string \<Rightarrow> string"
  LdCodec :: Codec

type_synonym 'w ld_state = "'w \<times> string set"

definition ErrNilCache :: goerr where "ErrNilCache = ErrText ''cache implementation cannot be nil''"
definition ErrNilMetaRegistry :: goerr where "ErrNilMetaRegistry = ErrText ''registry metadata lookup cannot be nil''"
definition ErrNoManifestPublished :: goerr where
  "ErrNoManifestPublished = ErrText ''subscriber has not published a node manifest''"

definition ml_defaultCacheTTL :: int where "ml_defaultCacheTTL = 6 * hour"
definition ml_defaultFetchTimeout :: int where "ml_defaultFetchTimeout = 30 * second"
definition maxManifestArtifactSize :: nat where "maxManifestArtifactSize = 10 * 2 ^ 20"

definition zero_ml_config :: MlConfig where
  "zero_ml_config = \<lparr>MlCacheTTL = 0, MlFetchTimeout = 0, DisableCache = False, ForceRefreshOnStart = False,
     SkipSignatureVerification = False\<rparr>"

text \<open>\<open>mk\<close> puts the remaining arguments of the model around the checked ones.\<close>

definition loader_New ::
  "('w Cache \<Rightarrow> 'w RegistryMetadataLookup \<Rightarrow> MlConfig \<Rightarrow> 'w Loader) \<Rightarrow> 'w Cache option \<Rightarrow> 'w RegistryMetadataLookup option \<Rightarrow>
     MlConfig option \<Rightarrow> goerr + 'w Loader" where
  "loader_New mk cache registry cfg =
     (case cache of
        None \<Rightarrow> Inl ErrNilCache
      | Some c \<Rightarrow>
     (case registry of
        None \<Rightarrow> Inl ErrNilMetaRegistry
      | Some r \<Rightarrow>
          (let cfg0 = (case cfg of None \<Rightarrow> zero_ml_config | Some x \<Rightarrow> x);
               cfg1 = (if MlCacheTTL cfg0 \<le> 0 then cfg0\<lparr>MlCacheTTL := ml_defaultCacheTTL\<rparr> else cfg0);
               cfg2 = (if MlFetchTimeout cfg1 \<le> 0 then cfg1\<lparr>MlFetchTimeout := ml_defaultFetchTimeout\<rparr> else cfg1)
           in Inr (mk c r cfg2))))"

text \<open>The entry point \<open>cmd/plugin.go\<close>: the settings of the configuration map.\<close>

definition plugin_bool :: "(string \<rightharpoonup> string) \<Rightarrow> string \<Rightarrow> goerr + bool" where
  "plugin_bool cfg k =
     (let raw = cfg_get cfg k in
      if raw = [] then Inr False
      else (case ParseBool raw of None \<Rightarrow> Inl (ErrText ''strconv.ParseBool'') | Some b \<Rightarrow> Inr b))"

definition loader_settings :: "(string \<Rightarrow> int option) \<Rightarrow> (string \<rightharpoonup> string) \<Rightarrow> goerr + MlConfig" where
  "loader_settings ParseDuration cfg =
     (case (let raw = cfg_get cfg ''cacheTTL'' in
            if raw = [] then Inr 0
            else (case ParseDuration raw of None \<Rightarrow> Inl (ErrText ''time.ParseDuration'') | Some d \<Rightarrow> Inr d)) of
        Inl e \<Rightarrow> Inl e
      | Inr ttl \<Rightarrow>
     (case (let raw = cfg_get cfg ''fetchTimeoutSeconds'' in
            if raw = [] then Inr 0
            else (case Atoi raw of None \<Rightarrow> Inl (ErrText ''strconv.Atoi'') | Some n \<Rightarrow> Inr (wrap64 (n * second)))) of
        Inl e \<Rightarrow> Inl e
      | Inr timeout \<Rightarrow>
     (case plugin_bool cfg ''disableCache'' of
        Inl e \<Rightarrow> Inl e
      | Inr off \<Rightarrow>
     (case plugin_bool cfg ''forceRefreshOnStartup'' of
        Inl e \<Rightarrow> Inl e
      | Inr refresh \<Rightarrow>
     (case plugin_bool cfg ''skipSignatureVerification'' of
        Inl e \<Rightarrow> Inl e
      | Inr skip \<Rightarrow>
          Inr \<lparr>MlCacheTTL = ttl, MlFetchTimeout = timeout, DisableCache = off, ForceRefreshOnStart = refresh,
               SkipSignatureVerification = skip\<rparr>)))))"

definition loader_plugin_New ::
  "(string \<Rightarrow> int option) \<Rightarrow> ('w Cache \<Rightarrow> 'w RegistryMetadataLookup \<Rightarrow> MlConfig \<Rightarrow> 'w Loader) \<Rightarrow> 'w Cache option \<Rightarrow>
     'w RegistryMetadataLookup option \<Rightarrow> (string \<rightharpoonup> string) \<Rightarrow> goerr + 'w Loader" where
  "loader_plugin_New ParseDuration mk cache registry cfg =
     (case loader_settings ParseDuration cfg of
        Inl e \<Rightarrow> Inl e
      | Inr config \<Rightarrow> loader_New mk cache registry (Some config))"

subsection \<open>Keys and metadata\<close>

text \<open>\<open>hex.EncodeToString\<close>.\<close>

definition hex_encode :: "string \<Rightarrow> string" where
  "hex_encode s = concat (map (\<lambda>c. [Go_Json.hex_digit (of_char c div 16), Go_Json.hex_digit (of_char c mod 16)]) s)"

definition networkCacheKey :: "string \<Rightarrow> string" where
  "networkCacheKey networkID = ''manifest:network:'' @ networkID"

definition subscriberCacheKey :: "string \<Rightarrow> string" where
  "subscriberCacheKey subscriberID = ''manifest:subscriber:'' @ subscriberID"

definition metadataCacheKey :: "(string \<Rightarrow> string) \<Rightarrow> ManifestMetadata \<Rightarrow> string" where
  "metadataCacheKey sha256 m =
     ''manifest:metadata:'' @ hex_encode (sha256 (ManifestURL m @ ''|'' @ ManifestSignatureURL m @ ''|'' @ SigningPublicKeyLookupURL m))"

definition splitNetworkID :: "string \<Rightarrow> goerr + string \<times> string" where
  "splitNetworkID networkID =
     (case SplitN2 (CHR ''/'') networkID of
        [a, b] \<Rightarrow>
          if blank a \<or> blank b then
            Inl (ErrText (''invalid networkID '' @ go_quote networkID @ '': expected <namespaceIdentifier>/<registryName>''))
          else Inr (a, b)
      | _ \<Rightarrow> Inl (ErrText (''invalid networkID '' @ go_quote networkID @ '': expected <namespaceIdentifier>/<registryName>'')))"

definition validateMetadata :: "ManifestMetadata \<Rightarrow> bool \<Rightarrow> goerr option" where
  "validateMetadata metadata skipSig =
     (if blank (ManifestURL metadata) then Some (ErrText ''manifestUrl missing in metadata'')
      else if \<not> skipSig \<and> blank (ManifestSignatureURL metadata) then Some (ErrText ''manifestSignatureUrl missing in metadata'')
      else if \<not> skipSig \<and> blank (SigningPublicKeyLookupURL metadata) then
        Some (ErrText ''signingPublicKeyLookupUrl missing in metadata'')
      else None)"

definition meta_urls :: "(string \<rightharpoonup> string) \<Rightarrow> ManifestMetadata" where
  "meta_urls meta =
     \<lparr>ManifestURL = cfg_get meta ''manifestUrl'', ManifestSignatureURL = cfg_get meta ''manifestSignatureUrl'',
      SigningPublicKeyLookupURL = cfg_get meta ''signingPublicKeyLookupUrl''\<rparr>"

definition metadataFromNodeMeta :: "(string \<rightharpoonup> string) \<Rightarrow> bool \<Rightarrow> goerr + ManifestMetadata" where
  "metadataFromNodeMeta meta skipSig =
     (case validateMetadata (meta_urls meta) skipSig of Some e \<Rightarrow> Inl e | None \<Rightarrow> Inr (meta_urls meta))"

definition metadataFromRegistry :: "RegistryMetadata option \<Rightarrow> bool \<Rightarrow> goerr + ManifestMetadata" where
  "metadataFromRegistry meta skipSig =
     (case meta of
        None \<Rightarrow> Inl (ErrText ''registry metadata cannot be nil'')
      | Some m \<Rightarrow>
          (case validateMetadata (meta_urls (RawMeta m)) skipSig of
             Some e \<Rightarrow> Inl e
           | None \<Rightarrow> Inr (meta_urls (RawMeta m))))"

subsection \<open>Documents as JSON\<close>

definition omit_empty :: "string \<Rightarrow> string \<Rightarrow> (string \<times> json) list" where
  "omit_empty k s = (if s = [] then [] else [(k, JStr s)])"

definition document_json :: "ManifestDocument \<Rightarrow> string \<Rightarrow> json" where
  "document_json doc fetched =
     JObj (omit_empty ''network_id'' (MdNetworkID doc) @ omit_empty ''subscriber_id'' (MdSubscriberID doc) @
       omit_empty ''content_type'' (MdContentType doc) @
       [(''content'', JStr (b64_encode (MdContent doc))), (''digest'', JStr (MdDigest doc)), (''source_url'', JStr (MdSourceURL doc)),
        (''signature_url'', JStr (MdSignatureURL doc)), (''verified'', JBool (MdVerified doc)), (''fetched_at'', JStr fetched)])"

definition marshal_document :: "Codec \<Rightarrow> ManifestDocument \<Rightarrow> goerr + string" where
  "marshal_document C doc =
     (case time_text C (MdFetchedAt doc) of
        None \<Rightarrow> Inl (ErrText ''json.Marshal'')
      | Some t \<Rightarrow> Inr (json_encode (document_json doc t)))"

definition zero_document :: ManifestDocument where
  "zero_document = \<lparr>MdNetworkID = [], MdSubscriberID = [], MdContentType = [], MdContent = [], MdDigest = [], MdSourceURL = [],
     MdSignatureURL = [], MdVerified = False, MdFetchedAt = zero_time\<rparr>"

definition set_text :: "json \<Rightarrow> (string \<Rightarrow> 'a) \<Rightarrow> 'a \<Rightarrow> 'a option" where
  "set_text v upd d = (case v of JNull \<Rightarrow> Some d | JStr s \<Rightarrow> Some (upd s) | _ \<Rightarrow> None)"

text \<open>One member decoded into the document; \<^term>\<open>None\<close> is a decoding error, which is sticky.\<close>

definition decode_document_member :: "Codec \<Rightarrow> ManifestDocument option \<Rightarrow> string \<times> json \<Rightarrow> ManifestDocument option" where
  "decode_document_member C acc kv =
     (case acc of
        None \<Rightarrow> None
      | Some d \<Rightarrow>
          (let k = fst kv; v = snd kv in
           if field_match ''network_id'' k then set_text v (\<lambda>s. d\<lparr>MdNetworkID := s\<rparr>) d
           else if field_match ''subscriber_id'' k then set_text v (\<lambda>s. d\<lparr>MdSubscriberID := s\<rparr>) d
           else if field_match ''content_type'' k then set_text v (\<lambda>s. d\<lparr>MdContentType := s\<rparr>) d
           else if field_match ''content'' k then
             map_option (\<lambda>b. d\<lparr>MdContent := (case b of None \<Rightarrow> [] | Some x \<Rightarrow> x)\<rparr>) (decode_bytes v)
           else if field_match ''digest'' k then set_text v (\<lambda>s. d\<lparr>MdDigest := s\<rparr>) d
           else if field_match ''source_url'' k then set_text v (\<lambda>s. d\<lparr>MdSourceURL := s\<rparr>) d
           else if field_match ''signature_url'' k then set_text v (\<lambda>s. d\<lparr>MdSignatureURL := s\<rparr>) d
           else if field_match ''verified'' k then
             (case v of JNull \<Rightarrow> Some d | JBool b \<Rightarrow> Some (d\<lparr>MdVerified := b\<rparr>) | _ \<Rightarrow> None)
           else if field_match ''fetched_at'' k then
             (case v of JNull \<Rightarrow> Some d | JStr s \<Rightarrow> map_option (\<lambda>t. d\<lparr>MdFetchedAt := t\<rparr>) (time_parse C s) | _ \<Rightarrow> None)
           else Some d))"

definition unmarshal_document :: "Codec \<Rightarrow> string \<Rightarrow> ManifestDocument option" where
  "unmarshal_document C raw =
     (case json_decode raw of
        Some (JObj kvs) \<Rightarrow> foldl (decode_document_member C) (Some zero_document) kvs
      | Some JNull \<Rightarrow> Some zero_document
      | _ \<Rightarrow> None)"

subsection \<open>The cache and the network\<close>

definition shouldBypassCache :: "'w Loader \<Rightarrow> string set \<Rightarrow> string \<Rightarrow> bool \<times> string set" where
  "shouldBypassCache l refreshedKeys key =
     (if DisableCache (LdConfig l) then (True, refreshedKeys)
      else if \<not> ForceRefreshOnStart (LdConfig l) then (False, refreshedKeys)
      else if key \<in> refreshedKeys then (False, refreshedKeys)
      else (True, insert key refreshedKeys))"

definition loadFromCache :: "'w Loader \<Rightarrow> 'w \<Rightarrow> string \<Rightarrow> (goerr + ManifestDocument option) \<times> 'w" where
  "loadFromCache l w key =
     (case CacheGet (LdCache l) w key of
        (Inl e, w1) \<Rightarrow> (Inl e, w1)
      | (Inr raw, w1) \<Rightarrow>
          if raw = [] then (Inr None, w1)
          else
            (case unmarshal_document (LdCodec l) raw of
               None \<Rightarrow> (Inl (ErrText ''json.Unmarshal''), w1)
             | Some doc \<Rightarrow>
                 if \<not> MdVerified doc \<and> \<not> SkipSignatureVerification (LdConfig l) then
                   (Inl (ErrText (''cached manifest '' @ go_quote key @ '' is not marked verified'')), w1)
                 else (Inr (Some doc), w1)))"

text \<open>A failed write is only logged.\<close>

definition loader_store :: "'w Loader \<Rightarrow> 'w \<Rightarrow> string \<Rightarrow> ManifestDocument \<Rightarrow> goerr option \<times> 'w" where
  "loader_store l w key doc =
     (if DisableCache (LdConfig l) then (None, w)
      else
        (case marshal_document (LdCodec l) doc of
           Inl e \<Rightarrow> (Some e, w)
         | Inr payload \<Rightarrow>
             (case CacheSet (LdCache l) w key payload (MlCacheTTL (LdConfig l)) of
                (Some e, w1) \<Rightarrow> (if is_panic e then Some e else None, w1)
              | (None, w1) \<Rightarrow> (None, w1))))"

definition fetchURL :: "'w Loader \<Rightarrow> 'w \<Rightarrow> string \<Rightarrow> (goerr + string \<times> string) \<times> 'w" where
  "fetchURL l w rawURL =
     (case NewRequest (LdClient l) rawURL of
        Some e \<Rightarrow> (Inl e, w)
      | None \<Rightarrow>
          (case Do (LdClient l) w rawURL of
             (Inl e, w1) \<Rightarrow> (Inl e, w1)
           | (Inr resp, w1) \<Rightarrow>
               (if HrStatus resp \<noteq> 200 then
                  Inl (ErrText (''HTTP '' @ int_dec (HrStatus resp) @ '': '' @ TrimSpace (HrBody resp)))
                else
                  (case read_limited (maxManifestArtifactSize + 1) resp of
                     Inl e \<Rightarrow> Inl e
                   | Inr body \<Rightarrow>
                       if length body > maxManifestArtifactSize then
                         Inl (ErrText (''response body exceeds maximum allowed size of '' @ nat_dec maxManifestArtifactSize @ '' bytes''))
                       else Inr (body, header_Get (HrHeader resp) ''Content-Type'')),
                w1)))"

text \<open>The signature check of \<open>getByMetadata\<close>.\<close>

definition verify_manifest :: "'w Loader \<Rightarrow> 'w \<Rightarrow> ManifestMetadata \<Rightarrow> string \<Rightarrow> goerr option \<times> 'w" where
  "verify_manifest l w metadata manifestBody =
     (case fetchURL l w (ManifestSignatureURL metadata) of
        (Inl e, w1) \<Rightarrow> (Some (errorf_w ''fetch manifest signature: '' e), w1)
      | (Inr (signatureBody, _), w1) \<Rightarrow>
          (case fetchURL l w1 (SigningPublicKeyLookupURL metadata) of
             (Inl e, w2) \<Rightarrow> (Some (errorf_w ''fetch signing public key: '' e), w2)
           | (Inr (publicKeyBody, _), w2) \<Rightarrow>
               (case LdVerify l manifestBody signatureBody publicKeyBody of
                  Some e \<Rightarrow> (Some (errorf_w ''manifest signature verification failed: '' e), w2)
                | None \<Rightarrow> (None, w2))))"

definition fetch_manifest :: "'w Loader \<Rightarrow> 'w \<Rightarrow> ManifestMetadata \<Rightarrow> string \<Rightarrow> (goerr + ManifestDocument) \<times> 'w" where
  "fetch_manifest l w metadata cacheKey =
     (case fetchURL l w (ManifestURL metadata) of
        (Inl e, w1) \<Rightarrow> (Inl (errorf_w ''fetch manifest: '' e), w1)
      | (Inr (manifestBody, manifestContentType), w1) \<Rightarrow>
          (let skip = SkipSignatureVerification (LdConfig l) in
           case (if skip then (None, w1) else verify_manifest l w1 metadata manifestBody) of
             (Some e, w2) \<Rightarrow> (Inl e, w2)
           | (None, w2) \<Rightarrow>
               (let (now, w3) = LdClock l w2;
                    doc = \<lparr>MdNetworkID = [], MdSubscriberID = [], MdContentType = manifestContentType, MdContent = manifestBody,
                      MdDigest = hex_encode (LdSha256 l manifestBody), MdSourceURL = ManifestURL metadata,
                      MdSignatureURL = ManifestSignatureURL metadata, MdVerified = (\<not> skip), MdFetchedAt = now\<rparr>
                in case loader_store l w3 cacheKey doc of
                     (Some e, w4) \<Rightarrow> (Inl e, w4)
                   | (None, w4) \<Rightarrow> (Inr doc, w4))))"

subsection \<open>Look-ups\<close>

definition loader_getByMetadata :: "'w Loader \<Rightarrow> 'w \<Rightarrow> ManifestMetadata \<Rightarrow> bool \<Rightarrow> (goerr + ManifestDocument) \<times> 'w" where
  "loader_getByMetadata l w metadata bypassCache =
     (case validateMetadata metadata (SkipSignatureVerification (LdConfig l)) of
        Some e \<Rightarrow> (Inl e, w)
      | None \<Rightarrow>
          (let cacheKey = metadataCacheKey (LdSha256 l) metadata in
           if bypassCache then fetch_manifest l w metadata cacheKey
           else
             (case loadFromCache l w cacheKey of
                (Inr (Some doc), w1) \<Rightarrow> (Inr doc, w1)
              | (Inl e, w1) \<Rightarrow> if is_panic e then (Inl e, w1) else fetch_manifest l w1 metadata cacheKey
              | (Inr None, w1) \<Rightarrow> fetch_manifest l w1 metadata cacheKey)))"

definition loader_GetByMetadata :: "'w Loader \<Rightarrow> 'w ld_state \<Rightarrow> ManifestMetadata \<Rightarrow> (goerr + ManifestDocument option) \<times> 'w ld_state" where
  "loader_GetByMetadata l s metadata =
     (let (bypass, keys) = shouldBypassCache l (snd s) (metadataCacheKey (LdSha256 l) metadata) in
      case loader_getByMetadata l (fst s) metadata bypass of
        (Inl e, w1) \<Rightarrow> (Inl e, (w1, keys))
      | (Inr doc, w1) \<Rightarrow> (Inr (Some doc), (w1, keys)))"

text \<open>The end of the two look-ups by id: the document gets its id and is stored under the key of the id.\<close>

definition fetch_for_id ::
  "'w Loader \<Rightarrow> 'w \<Rightarrow> string \<Rightarrow> bool \<Rightarrow> ManifestMetadata \<Rightarrow> (ManifestDocument \<Rightarrow> ManifestDocument) \<Rightarrow> (goerr + ManifestDocument option) \<times> 'w" where
  "fetch_for_id l w key bypassCache metadata name =
     (case loader_getByMetadata l w metadata bypassCache of
        (Inl e, w1) \<Rightarrow> (Inl e, w1)
      | (Inr doc, w1) \<Rightarrow>
          (case loader_store l w1 key (name doc) of
             (Some e, w2) \<Rightarrow> (Inl e, w2)
           | (None, w2) \<Rightarrow> (Inr (Some (name doc)), w2)))"

definition lookup_network :: "'w Loader \<Rightarrow> 'w \<Rightarrow> string \<Rightarrow> bool \<Rightarrow> (goerr + ManifestDocument option) \<times> 'w" where
  "lookup_network l w networkID bypassCache =
     (case splitNetworkID networkID of
        Inl e \<Rightarrow> (Inl e, w)
      | Inr (namespaceIdentifier, registryName) \<Rightarrow>
          (case LookupRegistry (LdRegistry l) w namespaceIdentifier registryName of
             (Inl e, w1) \<Rightarrow> (Inl e, w1)
           | (Inr meta, w1) \<Rightarrow>
               (case metadataFromRegistry meta (SkipSignatureVerification (LdConfig l)) of
                  Inl e \<Rightarrow> (Inl e, w1)
                | Inr metadata \<Rightarrow>
                    fetch_for_id l w1 (networkCacheKey networkID) bypassCache metadata (\<lambda>d. d\<lparr>MdNetworkID := networkID\<rparr>))))"

definition lookup_subscriber :: "'w Loader \<Rightarrow> 'w \<Rightarrow> string \<Rightarrow> bool \<Rightarrow> (goerr + ManifestDocument option) \<times> 'w" where
  "lookup_subscriber l w subscriberID bypassCache =
     (case LookupNode (LdRegistry l) w subscriberID of
        (Inl e, w1) \<Rightarrow> (Inl e, w1)
      | (Inr None, w1) \<Rightarrow> (Inl (GoPanic ''nil pointer dereference''), w1)
      | (Inr (Some record), w1) \<Rightarrow>
          if blank (cfg_get (RecMeta record) ''manifestUrl'') then (Inl ErrNoManifestPublished, w1)
          else
            (case metadataFromNodeMeta (RecMeta record) (SkipSignatureVerification (LdConfig l)) of
               Inl e \<Rightarrow> (Inl e, w1)
             | Inr metadata \<Rightarrow>
                 fetch_for_id l w1 (subscriberCacheKey subscriberID) bypassCache metadata (\<lambda>d. d\<lparr>MdSubscriberID := subscriberID\<rparr>)))"

text \<open>A look-up by id: the cache first, unless it is bypassed, then \<open>look\<close>.\<close>

definition lookup_by_key ::
  "'w Loader \<Rightarrow> 'w ld_state \<Rightarrow> string \<Rightarrow> ('w \<Rightarrow> bool \<Rightarrow> (goerr + ManifestDocument option) \<times> 'w) \<Rightarrow>
     (goerr + ManifestDocument option) \<times> 'w ld_state" where
  "lookup_by_key l s key look =
     (let (bypass, keys) = shouldBypassCache l (snd s) key in
      if bypass then (let (r, w1) = look (fst s) True in (r, (w1, keys)))
      else
        (case loadFromCache l (fst s) key of
           (Inr (Some doc), w1) \<Rightarrow> (Inr (Some doc), (w1, keys))
         | (Inl e, w1) \<Rightarrow> if is_panic e then (Inl e, (w1, keys)) else (let (r, w2) = look w1 False in (r, (w2, keys)))
         | (Inr None, w1) \<Rightarrow> (let (r, w2) = look w1 False in (r, (w2, keys)))))"

definition loader_GetByNetworkID :: "'w Loader \<Rightarrow> 'w ld_state \<Rightarrow> string \<Rightarrow> (goerr + ManifestDocument option) \<times> 'w ld_state" where
  "loader_GetByNetworkID l s networkID =
     (if blank networkID then (Inl (ErrText ''networkID cannot be empty''), s)
      else lookup_by_key l s (networkCacheKey networkID) (\<lambda>w bypass. lookup_network l w networkID bypass))"

definition loader_GetBySubscriberID :: "'w Loader \<Rightarrow> 'w ld_state \<Rightarrow> string \<Rightarrow> (goerr + ManifestDocument option) \<times> 'w ld_state" where
  "loader_GetBySubscriberID l s subscriberID =
     (if \<not> three_parts subscriberID then
        (Inl (ErrText (''subscriberID '' @ go_quote subscriberID @ '' must be in namespace/registry/recordName format'')), s)
      else lookup_by_key l s (subscriberCacheKey subscriberID) (\<lambda>w bypass. lookup_subscriber l w subscriberID bypass))"

definition loader_methods :: "'w Loader \<Rightarrow> ('w ld_state) ManifestLoaderMethods" where
  "loader_methods l =
     \<lparr>GetByNetworkID = loader_GetByNetworkID l, GetByMetadata = loader_GetByMetadata l, GetBySubscriberID = loader_GetBySubscriberID l\<rparr>"

subsection \<open>Documents survive the cache\<close>

text \<open>A document read back from its JSON text has its strings coerced to UTF-8.\<close>

definition coerce_document :: "ManifestDocument \<Rightarrow> ManifestDocument" where
  "coerce_document d = d\<lparr>MdNetworkID := utf8_coerce (MdNetworkID d), MdSubscriberID := utf8_coerce (MdSubscriberID d),
     MdContentType := utf8_coerce (MdContentType d), MdDigest := utf8_coerce (MdDigest d),
     MdSourceURL := utf8_coerce (MdSourceURL d), MdSignatureURL := utf8_coerce (MdSignatureURL d)\<rparr>"

lemma hex_digit_ascii: "n < 16 \<Longrightarrow> (of_char (Go_Json.hex_digit n) :: nat) < 128"
  by (simp add: Go_Json.hex_digit_def)

lemma hex_encode_ascii: "ascii (hex_encode s)"
proof (induction s)
  case (Cons c s)
  have "(of_char c :: nat) < 256" by simp
  then have "(of_char c :: nat) div 16 < 16" "(of_char c :: nat) mod 16 < 16" by (simp_all add: less_mult_imp_div_less)
  with Cons show ?case by (simp add: hex_encode_def hex_digit_ascii del: of_char_mod_256)
qed (simp add: hex_encode_def)

lemma decode_document_members:
  "decode_document_member C (Some d) (''network_id'', JStr s) = Some (d\<lparr>MdNetworkID := s\<rparr>)"
  "decode_document_member C (Some d) (''subscriber_id'', JStr s) = Some (d\<lparr>MdSubscriberID := s\<rparr>)"
  "decode_document_member C (Some d) (''content_type'', JStr s) = Some (d\<lparr>MdContentType := s\<rparr>)"
  "decode_document_member C (Some d) (''content'', JStr (b64_encode b)) = Some (d\<lparr>MdContent := b\<rparr>)"
  "decode_document_member C (Some d) (''digest'', JStr s) = Some (d\<lparr>MdDigest := s\<rparr>)"
  "decode_document_member C (Some d) (''source_url'', JStr s) = Some (d\<lparr>MdSourceURL := s\<rparr>)"
  "decode_document_member C (Some d) (''signature_url'', JStr s) = Some (d\<lparr>MdSignatureURL := s\<rparr>)"
  "decode_document_member C (Some d) (''verified'', JBool v) = Some (d\<lparr>MdVerified := v\<rparr>)"
  "time_parse C s = Some t \<Longrightarrow> decode_document_member C (Some d) (''fetched_at'', JStr s) = Some (d\<lparr>MdFetchedAt := t\<rparr>)"
  by (simp_all add: decode_document_member_def set_text_def decode_bytes_def field_match_def in_range_def)

lemma utf8_coerce_nil [simp]: "utf8_coerce s = [] \<longleftrightarrow> s = []"
  by (cases s) (auto simp: utf8_coerce.simps(2) replacement_char_def Let_def)

lemma decode_omitted:
  "foldl (decode_document_member C) (Some d) (omit_empty ''network_id'' s) = Some (if s = [] then d else d\<lparr>MdNetworkID := s\<rparr>)"
  "foldl (decode_document_member C) (Some d) (omit_empty ''subscriber_id'' s) = Some (if s = [] then d else d\<lparr>MdSubscriberID := s\<rparr>)"
  "foldl (decode_document_member C) (Some d) (omit_empty ''content_type'' s) = Some (if s = [] then d else d\<lparr>MdContentType := s\<rparr>)"
  by (simp_all add: omit_empty_def decode_document_members)

lemma coerce_omitted: "map (\<lambda>p. (utf8_coerce (fst p), json_coerce (snd p))) (omit_empty k s) = omit_empty (utf8_coerce k) (utf8_coerce s)"
  by (simp add: omit_empty_def)

lemma document_json_coerce:
  "ascii t \<Longrightarrow> json_coerce (document_json doc t) = document_json (coerce_document doc) t"
  by (simp add: document_json_def coerce_document_def coerce_omitted ascii_b64)

lemma document_depth: "json_depth (document_json doc t) \<le> max_depth"
  by (simp add: document_json_def omit_empty_def max_depth_def)

lemma document_nums: "json_nums (document_json doc t)"
  by (simp add: document_json_def omit_empty_def)

lemma unmarshal_marshal_document:
  assumes "codec_reads_back C" "marshal_document C doc = Inr raw"
  shows "unmarshal_document C raw = Some (coerce_document doc)" and "raw \<noteq> []"
proof -
  obtain t where t: "time_text C (MdFetchedAt doc) = Some t" "raw = json_encode (document_json doc t)"
    using assms(2) by (auto simp: marshal_document_def split: option.splits)
  have time: "ascii t" "time_parse C t = Some (MdFetchedAt doc)" using assms(1) t(1) by (auto simp: codec_reads_back_def)
  have dec: "json_decode raw = Some (document_json (coerce_document doc) t)"
    unfolding t(2) using json_decode_encode_coerce [OF document_nums document_depth] document_json_coerce [OF time(1)] by simp
  show "unmarshal_document C raw = Some (coerce_document doc)"
    by (cases doc) (simp add: unmarshal_document_def dec document_json_def decode_omitted decode_document_members
        time zero_document_def coerce_document_def)
  show "raw \<noteq> []" unfolding t(2) by (simp add: document_json_def)
qed

subsection \<open>Authenticity\<close>

text \<open>A text that the loader can fetch from a URL.\<close>

definition fetched_from :: "'w Loader \<Rightarrow> string \<Rightarrow> string \<Rightarrow> bool" where
  "fetched_from l url body \<longleftrightarrow> (\<exists>w ct w'. fetchURL l w url = (Inr (body, ct), w'))"

text \<open>
  An authentic document: its content was fetched from its source URL and verified with a signature
  fetched from its signature URL and with a fetched key, and its digest is that of the content.
\<close>

definition authentic :: "'w Loader \<Rightarrow> ManifestDocument \<Rightarrow> bool" where
  "authentic l doc \<longleftrightarrow>
     MdDigest doc = hex_encode (LdSha256 l (MdContent doc)) \<and>
     (\<exists>(m :: ManifestMetadata) sig key. fetched_from l (ManifestURL m) (MdContent doc) \<and> fetched_from l (ManifestSignatureURL m) sig \<and>
        fetched_from l (SigningPublicKeyLookupURL m) key \<and> LdVerify l (MdContent doc) sig key = None \<and>
        utf8_coerce (MdSourceURL doc) = utf8_coerce (ManifestURL m) \<and>
        utf8_coerce (MdSignatureURL doc) = utf8_coerce (ManifestSignatureURL m))"

definition trusted_text :: "'w Loader \<Rightarrow> string \<Rightarrow> string \<Rightarrow> bool" where
  "trusted_text l key raw \<longleftrightarrow>
     (HasPrefix key ''manifest:'' \<longrightarrow>
        (\<forall>doc. unmarshal_document (LdCodec l) raw = Some doc \<longrightarrow> MdVerified doc \<longrightarrow> authentic l doc))"

lemma authentic_names [simp]:
  "authentic l (d\<lparr>MdNetworkID := n\<rparr>) = authentic l d" "authentic l (d\<lparr>MdSubscriberID := n\<rparr>) = authentic l d"
  by (simp_all add: authentic_def)

lemma authentic_coerce: "authentic l d \<Longrightarrow> authentic l (coerce_document d)"
  by (simp add: authentic_def coerce_document_def hex_encode_ascii)

lemma fetchURL_config: "fetchURL (l\<lparr>LdConfig := c\<rparr>) w url = fetchURL l w url"
  by (simp add: fetchURL_def cong: option.case_cong)

lemma authentic_config [simp]: "authentic (l\<lparr>LdConfig := c\<rparr>) d = authentic l d"
  by (simp add: authentic_def fetched_from_def fetchURL_config)

lemma trusted_config [simp]: "trusted_text (l\<lparr>LdConfig := c\<rparr>) = trusted_text l"
  by (simp add: trusted_text_def fun_eq_iff)

lemma manifest_keys [simp]:
  "HasPrefix (networkCacheKey n) ''manifest:''" "HasPrefix (subscriberCacheKey n) ''manifest:''"
  "HasPrefix (metadataCacheKey h m) ''manifest:''"
  by (simp_all add: networkCacheKey_def subscriberCacheKey_def metadataCacheKey_def HasPrefix_def)

end
