(* ===== verification/Manifest_Trust.thy ===== *)
theory Manifest_Trust
  imports Manifest_Loader
begin

text \<open>
  What the manifest loader guarantees. The locale \<open>manifest_cache\<close> states what the loader relies on:
  a cache that returns what was stored, and a registry, an HTTP client and a clock that do not write
  to it. It is interpreted for a loader over the Redis cache plugin. The sequences of calls and
  restarts are a reachability relation.
\<close>

text \<open>What a document that the loader hands out must satisfy.\<close>

definition vouched :: "'w Loader \<Rightarrow> ManifestDocument \<Rightarrow> bool" where
  "vouched l doc \<longleftrightarrow> (MdVerified doc \<longrightarrow> authentic l doc) \<and> (SkipSignatureVerification (LdConfig l) \<or> MdVerified doc)"

lemma vouched_names [simp]:
  "vouched l (d\<lparr>MdNetworkID := n\<rparr>) = vouched l d" "vouched l (d\<lparr>MdSubscriberID := n\<rparr>) = vouched l d"
  by (simp_all add: vouched_def)

locale manifest_cache = string_cache "LdCache l" ok held
  for l :: "'w Loader" and ok :: "'w \<Rightarrow> bool" and held :: "'w \<Rightarrow> string \<rightharpoonup> string" +
  assumes registry_keeps: "ok w \<Longrightarrow> LookupRegistry (LdRegistry l) w a b = (rm, w') \<Longrightarrow> ok w' \<and> held w' \<subseteq>\<^sub>m held w"
    and node_keeps: "ok w \<Longrightarrow> LookupNode (LdRegistry l) w a = (rn, w') \<Longrightarrow> ok w' \<and> held w' \<subseteq>\<^sub>m held w"
    and do_keeps: "ok w \<Longrightarrow> Do (LdClient l) w u = (rd, w') \<Longrightarrow> ok w' \<and> held w' \<subseteq>\<^sub>m held w"
    and clock_keeps: "ok w \<Longrightarrow> LdClock l w = (t, w') \<Longrightarrow> ok w' \<and> held w' \<subseteq>\<^sub>m held w"
    and codec_ok: "ok w \<Longrightarrow> codec_reads_back (LdCodec l)"
    and ttl_ok: "ok w \<Longrightarrow> 0 < MlCacheTTL (LdConfig l)"
begin

lemma trusted_ok: "all_held ok held (trusted_text l) w \<Longrightarrow> ok w"
  by (simp add: all_held_def)

lemma trusted_step:
  "all_held ok held (trusted_text l) w \<Longrightarrow> (ok w \<Longrightarrow> ok w' \<and> held w' \<subseteq>\<^sub>m held w) \<Longrightarrow> all_held ok held (trusted_text l) w'"
  using all_held_less trusted_ok by blast

lemma fetchURL_keeps:
  assumes "fetchURL l w url = (r, w')" "all_held ok held (trusted_text l) w"
  shows "all_held ok held (trusted_text l) w'" and "r = Inr (b, ct) \<Longrightarrow> fetched_from l url b"
proof -
  show "r = Inr (b, ct) \<Longrightarrow> fetched_from l url b" using assms(1) by (auto simp: fetched_from_def)
  from assms(1) consider "w' = w" | rd where "Do (LdClient l) w url = (rd, w')"
    by (auto simp: fetchURL_def split: option.splits prod.splits sum.splits)
  then show "all_held ok held (trusted_text l) w'"
    using trusted_step [OF assms(2)] do_keeps assms(2) by cases blast+
qed

lemma verify_keeps:
  assumes "verify_manifest l w m body = (r, w')" "all_held ok held (trusted_text l) w"
  shows "all_held ok held (trusted_text l) w' \<and> (r = None \<longrightarrow> (\<exists>sig key. fetched_from l (ManifestSignatureURL m) sig \<and>
    fetched_from l (SigningPublicKeyLookupURL m) key \<and> LdVerify l body sig key = None))"
proof (cases "fetchURL l w (ManifestSignatureURL m)")
  case (Pair r1 w1)
  note first = fetchURL_keeps [OF Pair assms(2)]
  show ?thesis
  proof (cases "fetchURL l w1 (SigningPublicKeyLookupURL m)")
    case (Pair r2 w2)
    note second = fetchURL_keeps [OF Pair first(1)]
    from \<open>fetchURL l w _ = _\<close> Pair assms(1) first second show ?thesis
      by (auto simp: verify_manifest_def split: sum.splits option.splits) blast
  qed
qed

lemma store_keeps:
  assumes "loader_store l w key doc = (r, w')" "all_held ok held (trusted_text l) w" "MdVerified doc \<longrightarrow> authentic l doc"
  shows "all_held ok held (trusted_text l) w'"
proof -
  from assms(1) consider "w' = w"
    | raw e where "marshal_document (LdCodec l) doc = Inr raw" "CacheSet (LdCache l) w key raw (MlCacheTTL (LdConfig l)) = (e, w')"
    by (auto simp: loader_store_def split: if_splits sum.splits prod.splits option.splits)
  then show ?thesis
  proof cases
    case 2
    have "trusted_text l key raw"
      using unmarshal_marshal_document(1) [OF codec_ok [OF trusted_ok [OF assms(2)]] 2(1)] assms(3) authentic_coerce [of l doc]
      by (auto simp: trusted_text_def coerce_document_def)
    with all_held_set [OF assms(2) ttl_ok [OF trusted_ok [OF assms(2)]] _ 2(2)] show ?thesis by blast
  qed (use assms(2) in simp)
qed

lemma load_keeps:
  assumes "loadFromCache l w key = (r, w')" "all_held ok held (trusted_text l) w" "HasPrefix key ''manifest:''"
  shows "all_held ok held (trusted_text l) w'" and "r = Inr (Some doc) \<Longrightarrow> vouched l doc"
proof -
  obtain r1 w1 where get: "CacheGet (LdCache l) w key = (r1, w1)" by (cases "CacheGet (LdCache l) w key")
  with assms(1) have "w' = w1" by (auto simp: loadFromCache_def split: sum.splits option.splits if_splits)
  with all_held_get(1) [OF assms(2) get] show "all_held ok held (trusted_text l) w'" by simp
  assume "r = Inr (Some doc)"
  with assms(1) get obtain raw where "r1 = Inr raw" "raw \<noteq> []" "unmarshal_document (LdCodec l) raw = Some doc"
    "MdVerified doc \<or> SkipSignatureVerification (LdConfig l)"
    by (auto simp: loadFromCache_def split: sum.splits option.splits if_splits)
  with all_held_get(2) [OF assms(2) get] assms(3) show "vouched l doc" by (auto simp: vouched_def trusted_text_def)
qed

lemma fetch_manifest_keeps:
  assumes "fetch_manifest l w m key = (r, w')" "all_held ok held (trusted_text l) w"
  shows "all_held ok held (trusted_text l) w' \<and> (\<forall>doc. r = Inr doc \<longrightarrow> vouched l doc)"
proof (cases "fetchURL l w (ManifestURL m)")
  case (Pair r1 w1)
  note first = fetchURL_keeps [OF Pair assms(2)]
  let ?skip = "SkipSignatureVerification (LdConfig l)"
  show ?thesis
  proof (cases r1)
    case (Inl e)
    with Pair assms(1) first(1) show ?thesis by (auto simp: fetch_manifest_def)
  next
    case (Inr bc)
    obtain body ct where bc: "bc = (body, ct)" by (cases bc)
    obtain rv w2 where v: "(if ?skip then (None, w1) else verify_manifest l w1 m body) = (rv, w2)" by fastforce
    have t2: "all_held ok held (trusted_text l) w2" and
      ok: "rv = None \<Longrightarrow> \<not> ?skip \<Longrightarrow> \<exists>sig key. fetched_from l (ManifestSignatureURL m) sig \<and>
        fetched_from l (SigningPublicKeyLookupURL m) key \<and> LdVerify l body sig key = None"
      using v first(1) verify_keeps [of w1 m body rv w2] by (auto split: if_splits)
    show ?thesis
    proof (cases rv)
      case (Some e)
      with Pair Inr bc v assms(1) t2 show ?thesis by (auto simp: fetch_manifest_def)
    next
      case None
      obtain now w3 where clock: "LdClock l w2 = (now, w3)" by (cases "LdClock l w2")
      let ?doc = "\<lparr>MdNetworkID = [], MdSubscriberID = [], MdContentType = ct, MdContent = body,
          MdDigest = hex_encode (LdSha256 l body), MdSourceURL = ManifestURL m,
          MdSignatureURL = ManifestSignatureURL m, MdVerified = (\<not> ?skip), MdFetchedAt = now\<rparr>"
      have t3: "all_held ok held (trusted_text l) w3" using trusted_step [OF t2] clock_keeps clock by blast
      have doc: "vouched l ?doc"
        using ok [OF None] first(2) [of body ct] Inr bc by (auto simp: vouched_def authentic_def)
      obtain rs w4 where st: "loader_store l w3 key ?doc = (rs, w4)" by (cases "loader_store l w3 key ?doc")
      with store_keeps [OF st t3] doc have t4: "all_held ok held (trusted_text l) w4" by (auto simp: vouched_def)
      from Pair Inr bc v None clock st assms(1) t4 doc show ?thesis
        by (auto simp: fetch_manifest_def split: option.splits)
    qed
  qed
qed

lemma getByMetadata_keeps:
  assumes "loader_getByMetadata l w m bypass = (r, w')" "all_held ok held (trusted_text l) w"
  shows "all_held ok held (trusted_text l) w' \<and> (\<forall>doc. r = Inr doc \<longrightarrow> vouched l doc)"
proof -
  let ?key = "metadataCacheKey (LdSha256 l) m"
  obtain rc wc where load: "loadFromCache l w ?key = (rc, wc)" by (cases "loadFromCache l w ?key")
  note cached = load_keeps [OF load assms(2) manifest_keys(3)]
  from assms(1) load consider "w' = w" "\<exists>e. r = Inl e" | "fetch_manifest l w m ?key = (r, w')" | "fetch_manifest l wc m ?key = (r, w')"
    | "w' = wc" "(\<exists>e. r = Inl e) \<or> (\<exists>doc. rc = Inr (Some doc) \<and> r = Inr doc)"
    by (auto simp: loader_getByMetadata_def Let_def split: option.splits sum.splits if_splits)
  then show ?thesis
    using assms(2) cached fetch_manifest_keeps [of w m ?key r w'] fetch_manifest_keeps [of wc m ?key r w'] by cases auto
qed

lemma fetch_for_id_keeps:
  assumes "fetch_for_id l w key bypass m name = (r, w')" "all_held ok held (trusted_text l) w"
    and "\<And>d. vouched l (name d) = vouched l d"
  shows "all_held ok held (trusted_text l) w' \<and> (\<forall>doc. r = Inr (Some doc) \<longrightarrow> vouched l doc)"
proof -
  obtain r1 w1 where get: "loader_getByMetadata l w m bypass = (r1, w1)" by (cases "loader_getByMetadata l w m bypass")
  note got = getByMetadata_keeps [OF get assms(2)]
  show ?thesis
  proof (cases r1)
    case (Inr doc)
    obtain rs w2 where st: "loader_store l w1 key (name doc) = (rs, w2)" by (cases "loader_store l w1 key (name doc)")
    have v: "vouched l (name doc)" using got Inr assms(3) by simp
    with store_keeps [OF st] got have "all_held ok held (trusted_text l) w2" by (simp add: vouched_def)
    with get Inr st assms(1) v show ?thesis by (auto simp: fetch_for_id_def split: option.splits)
  qed (use get assms(1) got in \<open>auto simp: fetch_for_id_def\<close>)
qed

lemma lookup_network_keeps:
  assumes "lookup_network l w n bypass = (r, w')" "all_held ok held (trusted_text l) w"
  shows "all_held ok held (trusted_text l) w' \<and> (\<forall>doc. r = Inr (Some doc) \<longrightarrow> vouched l doc)"
proof -
  from assms(1) consider "w' = w" "\<exists>e. r = Inl e"
    | a b rm where "LookupRegistry (LdRegistry l) w a b = (rm, w')" "\<exists>e. r = Inl e"
    | a b rm w1 m where "LookupRegistry (LdRegistry l) w a b = (rm, w1)"
        "fetch_for_id l w1 (networkCacheKey n) bypass m (\<lambda>d. d\<lparr>MdNetworkID := n\<rparr>) = (r, w')"
    by (auto simp: lookup_network_def split: sum.splits prod.splits)
  then show ?thesis
  proof cases
    case (3 a b rm w1 m)
    with trusted_step [OF assms(2)] registry_keeps have "all_held ok held (trusted_text l) w1" by blast
    with fetch_for_id_keeps [OF 3(2)] show ?thesis by simp
  qed (use assms(2) trusted_step registry_keeps in blast)+
qed

lemma lookup_subscriber_keeps:
  assumes "lookup_subscriber l w n bypass = (r, w')" "all_held ok held (trusted_text l) w"
  shows "all_held ok held (trusted_text l) w' \<and> (\<forall>doc. r = Inr (Some doc) \<longrightarrow> vouched l doc)"
proof -
  from assms(1) consider rn where "LookupNode (LdRegistry l) w n = (rn, w')" "\<exists>e. r = Inl e"
    | rn w1 m where "LookupNode (LdRegistry l) w n = (rn, w1)"
        "fetch_for_id l w1 (subscriberCacheKey n) bypass m (\<lambda>d. d\<lparr>MdSubscriberID := n\<rparr>) = (r, w')"
    by (auto simp: lookup_subscriber_def split: sum.splits prod.splits option.splits if_splits)
  then show ?thesis
  proof cases
    case (2 rn w1 m)
    with trusted_step [OF assms(2)] node_keeps have "all_held ok held (trusted_text l) w1" by blast
    with fetch_for_id_keeps [OF 2(2)] show ?thesis by simp
  qed (use assms(2) trusted_step node_keeps in blast)
qed

lemma lookup_by_key_keeps:
  assumes "lookup_by_key l s key look = (r, s')" "all_held ok held (trusted_text l) (fst s)" "HasPrefix key ''manifest:''"
    and look: "\<And>w bypass r w'. look w bypass = (r, w') \<Longrightarrow> all_held ok held (trusted_text l) w \<Longrightarrow>
      all_held ok held (trusted_text l) w' \<and> (\<forall>doc. r = Inr (Some doc) \<longrightarrow> vouched l doc)"
  shows "all_held ok held (trusted_text l) (fst s') \<and> (\<forall>doc. r = Inr (Some doc) \<longrightarrow> vouched l doc)"
proof -
  obtain rc wc where load: "loadFromCache l (fst s) key = (rc, wc)" by (cases "loadFromCache l (fst s) key")
  note cached = load_keeps [OF load assms(2,3)]
  from assms(1) load consider "look (fst s) True = (r, fst s')" | "look wc False = (r, fst s')"
    | "fst s' = wc" "(\<exists>e. r = Inl e) \<or> rc = r"
    by (auto simp: lookup_by_key_def Let_def split: option.splits sum.splits prod.splits if_splits)
  then show ?thesis using assms(2) cached look by cases auto
qed

text \<open>The three look-ups of the interface.\<close>

lemma lookups_keep:
  assumes "all_held ok held (trusted_text l) (fst s)"
    and "loader_GetByNetworkID l s n = (r, s') \<or> loader_GetBySubscriberID l s n = (r, s') \<or> loader_GetByMetadata l s m = (r, s')"
  shows "all_held ok held (trusted_text l) (fst s') \<and> (\<forall>doc. r = Inr (Some doc) \<longrightarrow> vouched l doc)"
  using assms(2)
proof (elim disjE)
  assume "loader_GetByNetworkID l s n = (r, s')"
  then show ?thesis
    using assms(1) lookup_by_key_keeps [of s "networkCacheKey n" "\<lambda>w bypass. lookup_network l w n bypass" r s', OF _ _ manifest_keys(1) lookup_network_keeps]
    by (cases "blank n") (auto simp: loader_GetByNetworkID_def)
next
  assume "loader_GetBySubscriberID l s n = (r, s')"
  then show ?thesis
    using assms(1) lookup_by_key_keeps [of s "subscriberCacheKey n" "\<lambda>w bypass. lookup_subscriber l w n bypass" r s', OF _ _ manifest_keys(2) lookup_subscriber_keeps]
    by (cases "three_parts n") (auto simp: loader_GetBySubscriberID_def)
next
  assume "loader_GetByMetadata l s m = (r, s')"
  then show ?thesis
    using assms(1) getByMetadata_keeps [of "fst s" m]
    by (auto simp: loader_GetByMetadata_def Let_def split: prod.splits sum.splits)
qed

end

subsection \<open>A loader over the Redis cache\<close>

definition loader_over :: "'w Loader \<Rightarrow> 'w RedisClient \<Rightarrow> ('w \<Rightarrow> string \<rightharpoonup> string) \<Rightarrow> bool" where
  "loader_over l R live \<longleftrightarrow>
     LdCache l = cache_plugin R \<and> redis_behaves R live \<and> codec_reads_back (LdCodec l) \<and> 0 < MlCacheTTL (LdConfig l) \<and>
     (\<forall>w a b. live (snd (LookupRegistry (LdRegistry l) w a b)) = live w) \<and>
     (\<forall>w a. live (snd (LookupNode (LdRegistry l) w a)) = live w) \<and>
     (\<forall>w u. live (snd (Do (LdClient l) w u)) = live w) \<and> (\<forall>w. live (snd (LdClock l w)) = live w)"

lemma loader_over_keeps:
  assumes "loader_over l R live"
  shows "LookupRegistry (LdRegistry l) w a b = (rm, w') \<Longrightarrow> live w' = live w"
    and "LookupNode (LdRegistry l) w a = (rn, w') \<Longrightarrow> live w' = live w"
    and "Do (LdClient l) w u = (rd, w') \<Longrightarrow> live w' = live w" and "LdClock l w = (t, w') \<Longrightarrow> live w' = live w"
  using assms unfolding loader_over_def by (metis snd_conv)+

interpretation redis_loader: manifest_cache l "\<lambda>w. loader_over l R live" live for l R live
proof (unfold_locales, goal_cases)
  case (1 w k r w')
  then have "LdCache l = cache_plugin R" "redis_behaves R live" by (simp_all add: loader_over_def)
  with 1 redis_cache.get_held [of R live w k r w'] show ?case by simp
next
  case (2 w ttl k v e w')
  then have "LdCache l = cache_plugin R" "redis_behaves R live" by (simp_all add: loader_over_def)
  with 2 redis_cache.set_held [of R live ttl w k v e w'] show ?case by simp
next
  case (3 w a b rm w')
  then show ?case using loader_over_keeps(1) [of l R live w a b rm w'] by simp
next
  case (4 w a rm w')
  then show ?case using loader_over_keeps(2) [of l R live w a rm w'] by simp
next
  case (5 w u rd w')
  then show ?case using loader_over_keeps(3) [of l R live w u rd w'] by simp
next
  case (6 w t w')
  then show ?case using loader_over_keeps(4) [of l R live w t w'] by simp
qed (simp_all add: loader_over_def)

text \<open>The states of a node: look-ups in any order, and restarts with another configuration.\<close>

inductive loader_reach :: "'w Loader \<Rightarrow> 'w ld_state \<Rightarrow> MlConfig \<Rightarrow> 'w ld_state \<Rightarrow> bool" for l s0 where
  start: "loader_reach l s0 (LdConfig l) s0"
| restart: "loader_reach l s0 c s \<Longrightarrow> 0 < MlCacheTTL c' \<Longrightarrow> loader_reach l s0 c' (fst s, {})"
| network: "loader_reach l s0 c s \<Longrightarrow> loader_GetByNetworkID (l\<lparr>LdConfig := c\<rparr>) s n = (r, s') \<Longrightarrow> loader_reach l s0 c s'"
| subscriber: "loader_reach l s0 c s \<Longrightarrow> loader_GetBySubscriberID (l\<lparr>LdConfig := c\<rparr>) s n = (r, s') \<Longrightarrow> loader_reach l s0 c s'"
| metadata: "loader_reach l s0 c s \<Longrightarrow> loader_GetByMetadata (l\<lparr>LdConfig := c\<rparr>) s m = (r, s') \<Longrightarrow> loader_reach l s0 c s'"

lemma loader_over_config: "loader_over l R live \<Longrightarrow> 0 < MlCacheTTL c \<Longrightarrow> loader_over (l\<lparr>LdConfig := c\<rparr>) R live"
  by (simp add: loader_over_def)

lemma loader_reach_trusted:
  assumes "loader_reach l s0 c s" "loader_over l R live" "all_held (\<lambda>w. loader_over l R live) live (trusted_text l) (fst s0)"
  shows "0 < MlCacheTTL c \<and> all_held (\<lambda>w. loader_over l R live) live (trusted_text l) (fst s)"
  using assms(1)
proof induction
  case start
  with assms(2,3) show ?case by (simp add: loader_over_def)
next
  case (network c s n r s')
  with redis_loader.lookups_keep [of "l\<lparr>LdConfig := c\<rparr>" R live s n r s'] loader_over_config [OF assms(2), of c]
  show ?case by (simp add: all_held_def)
next
  case (subscriber c s n r s')
  with redis_loader.lookups_keep [of "l\<lparr>LdConfig := c\<rparr>" R live s n r s'] loader_over_config [OF assms(2), of c]
  show ?case by (simp add: all_held_def)
next
  case (metadata c s m r s')
  with redis_loader.lookups_keep [of "l\<lparr>LdConfig := c\<rparr>" R live s _ r s' m] loader_over_config [OF assms(2), of c]
  show ?case by (simp add: all_held_def)
qed simp

text \<open>C14: Only verified manifests are used. Start from a Redis server that holds no manifest, and let the
  loader be called and restarted in any order and with any configuration, also ones that skip the
  verification. Whenever a loader that does not skip it returns a manifest, the content was fetched
  from the URL that the document names as its source and verified with a signature and a key that
  were fetched, and the digest is that of the content. In particular a manifest that was cached
  without verification is not served after the verification is switched on.\<close>

theorem loaded_manifests_verified:
  assumes "loader_over l R live" "\<forall>k. HasPrefix k ''manifest:'' \<longrightarrow> live (fst s0) k = None"
    and "loader_reach l s0 c s" "\<not> SkipSignatureVerification c"
    and "loader_GetByNetworkID (l\<lparr>LdConfig := c\<rparr>) s n = (Inr (Some doc), s') \<or>
         loader_GetBySubscriberID (l\<lparr>LdConfig := c\<rparr>) s n = (Inr (Some doc), s') \<or>
         loader_GetByMetadata (l\<lparr>LdConfig := c\<rparr>) s m = (Inr (Some doc), s')"
  shows "MdVerified doc \<and> authentic l doc"
proof -
  have "all_held (\<lambda>w. loader_over l R live) live (trusted_text l) (fst s0)"
    using assms(1,2) by (auto simp: all_held_def trusted_text_def)
  from loader_reach_trusted [OF assms(3,1) this] have "0 < MlCacheTTL c" "all_held (\<lambda>w. loader_over l R live) live (trusted_text l) (fst s)"
    by simp_all
  moreover from this loader_over_config [OF assms(1)]
  have "all_held (\<lambda>w. loader_over (l\<lparr>LdConfig := c\<rparr>) R live) live (trusted_text (l\<lparr>LdConfig := c\<rparr>)) (fst s)"
    by (simp add: all_held_def)
  ultimately have "vouched (l\<lparr>LdConfig := c\<rparr>) doc"
    using redis_loader.lookups_keep [of "l\<lparr>LdConfig := c\<rparr>" R live s n "Inr (Some doc)" s' m] assms(5) by blast
  with assms(4) show ?thesis by (simp add: vouched_def)
qed

text \<open>The example: a node with an empty Redis server, URLs that serve their own text, and a signature check that compares.\<close>

definition sample_loader :: "(string \<rightharpoonup> string) Loader" where
  "sample_loader =
     \<lparr>LdCache = cache_plugin memory_redis,
      LdRegistry = \<lparr>LookupRegistry = (\<lambda>w a b. (Inr None, w)), LookupNode = (\<lambda>w n. (Inr None, w)), QueryByNetwork = (\<lambda>w n. (Inr [], w))\<rparr>,
      LdConfig = \<lparr>MlCacheTTL = hour, MlFetchTimeout = second, DisableCache = False, ForceRefreshOnStart = False,
        SkipSignatureVerification = False\<rparr>,
      LdClient = \<lparr>NewRequest = (\<lambda>u. None), Do = (\<lambda>w u. (Inr \<lparr>HrStatus = 200, HrHeader = Map.empty, HrBody = u, HrBodyErr = None\<rparr>, w))\<rparr>,
      LdClock = (\<lambda>w. (7, w)), LdVerify = (\<lambda>c s k. if s = ''sig'' \<and> k = ''key'' then None else Some (ErrText ''bad'')),
      LdSha256 = (\<lambda>s. []), LdCodec = decimal_codec\<rparr>"

definition sample_metadata :: ManifestMetadata where
  "sample_metadata = \<lparr>ManifestURL = ''man'', ManifestSignatureURL = ''sig'', SigningPublicKeyLookupURL = ''key''\<rparr>"

definition sample_document :: ManifestDocument where
  "sample_document = \<lparr>MdNetworkID = [], MdSubscriberID = [], MdContentType = [], MdContent = ''man'', MdDigest = [],
     MdSourceURL = ''man'', MdSignatureURL = ''sig'', MdVerified = True, MdFetchedAt = 7\<rparr>"

lemma sample_loader_over: "loader_over sample_loader memory_redis (\<lambda>w. w)"
  by (simp add: loader_over_def sample_loader_def memory_redis_behaves decimal_codec_reads_back hour_def second_def)

lemma sample_fetchURL: "length u \<le> 3 \<Longrightarrow> fetchURL sample_loader w u = (Inr (u, []), w)"
  by (simp add: fetchURL_def sample_loader_def read_limited_def maxManifestArtifactSize_def header_Get_def)

lemma sample_loader_loads: "\<exists>s'. loader_GetByMetadata sample_loader (Map.empty, {}) sample_metadata = (Inr (Some sample_document), s')"
proof -
  have "\<not> blank ''man''" "\<not> blank ''sig''" "\<not> blank ''key''" by code_simp+
  moreover have "time_text decimal_codec 7 \<noteq> None" by (simp add: decimal_codec_def int64_def)
  moreover have "fetchURL sample_loader w ''man'' = (Inr (''man'', []), w)" "fetchURL sample_loader w ''sig'' = (Inr (''sig'', []), w)"
    "fetchURL sample_loader w ''key'' = (Inr (''key'', []), w)" for w by (simp_all add: sample_fetchURL)
  moreover have "LdVerify sample_loader c ''sig'' ''key'' = None" "LdSha256 sample_loader c = []" "LdClock sample_loader w = (7, w)"
    "LdCodec sample_loader = decimal_codec" "\<not> DisableCache (LdConfig sample_loader)" "\<not> ForceRefreshOnStart (LdConfig sample_loader)"
    "\<not> SkipSignatureVerification (LdConfig sample_loader)" "LdCache sample_loader = cache_plugin memory_redis" for c w
    by (simp_all add: sample_loader_def)
  ultimately show ?thesis
    by (auto simp: loader_GetByMetadata_def shouldBypassCache_def loader_getByMetadata_def sample_metadata_def validateMetadata_def
        loadFromCache_def cache_plugin_def cache_Get_def cache_Set_def memory_redis_def fetch_manifest_def verify_manifest_def
        loader_store_def marshal_document_def sample_document_def hex_encode_def Let_def)
qed

theorem loaded_manifests_verified_witness: "authentic sample_loader sample_document"
proof -
  obtain s' where step: "loader_GetByMetadata sample_loader (Map.empty, {}) sample_metadata = (Inr (Some sample_document), s')"
    using sample_loader_loads by blast
  have "sample_loader\<lparr>LdConfig := LdConfig sample_loader\<rparr> = sample_loader" by simp
  with loaded_manifests_verified [OF sample_loader_over, of "(Map.empty, {})", OF _ loader_reach.start, of _ sample_document s' sample_metadata]
    step show ?thesis by (simp add: sample_loader_def)
qed

end
