(* ===== verification/Subscription_Json.thy ===== *)
theory Subscription_Json
  imports Manifest_Loader
begin

text \<open>
  Subscriptions as JSON: the tags of \<open>Subscriber\<close> and \<open>Subscription\<close> in \<open>pkg/model/model.go\<close>, which
  the registry clients send, receive and keep in the cache. Empty strings, zero times and empty
  lists are left out. Reading back a written list yields the same records, with their strings
  coerced to UTF-8.
\<close>

subsection \<open>Writing\<close>

definition omit_zero_time :: "Codec \<Rightarrow> string \<Rightarrow> int \<Rightarrow> (string \<times> json) list option" where
  "omit_zero_time C k t = (if t = zero_time then Some [] else map_option (\<lambda>x. [(k, JStr x)]) (time_text C t))"

definition omit_no_strings :: "string \<Rightarrow> string list \<Rightarrow> (string \<times> json) list" where
  "omit_no_strings k xs = (if xs = [] then [] else [(k, JArr (map JStr xs))])"

definition subscription_members ::
  "Subscription \<Rightarrow> (string \<times> json) list \<Rightarrow> (string \<times> json) list \<Rightarrow> (string \<times> json) list \<Rightarrow> (string \<times> json) list \<Rightarrow>
     (string \<times> json) list" where
  "subscription_members s valid_from valid_until created updated =
     omit_empty ''subscriber_id'' (SubscriberID s) @ omit_empty ''url'' (SubURL s) @ omit_empty ''type'' (SubType s) @
     omit_empty ''domain'' (Domain s) @ omit_empty ''key_id'' (KeyID s) @
     omit_empty ''signing_public_key'' (SigningPublicKey s) @ omit_empty ''encr_public_key'' (EncrPublicKey s) @
     valid_from @ valid_until @ omit_empty ''status'' (SubStatus s) @ created @ updated @
     omit_empty ''nonce'' (Nonce s) @ omit_no_strings ''network_memberships'' (NetworkMemberships s)"

text \<open>\<^term>\<open>None\<close> is the error of \<open>json.Marshal\<close>, which a time outside the years 0 to 9999 causes.\<close>

definition subscription_json :: "Codec \<Rightarrow> Subscription \<Rightarrow> json option" where
  "subscription_json C s =
     (case (omit_zero_time C ''valid_from'' (ValidFrom s), omit_zero_time C ''valid_until'' (ValidUntil s),
            omit_zero_time C ''created'' (Created s), omit_zero_time C ''updated'' (Updated s)) of
        (Some vf, Some vu, Some cr, Some up) \<Rightarrow> Some (JObj (subscription_members s vf vu cr up))
      | _ \<Rightarrow> None)"

definition marshal_subscription :: "Codec \<Rightarrow> Subscription \<Rightarrow> string option" where
  "marshal_subscription C s = map_option json_encode (subscription_json C s)"

definition marshal_subscriptions :: "Codec \<Rightarrow> Subscription list \<Rightarrow> string option" where
  "marshal_subscriptions C ss =
     (if list_all (\<lambda>s. subscription_json C s \<noteq> None) ss
      then Some (json_encode (JArr (map (\<lambda>s. the (subscription_json C s)) ss))) else None)"

subsection \<open>Reading\<close>

definition zero_subscription :: Subscription where
  "zero_subscription =
     \<lparr>SubscriberID = [], SubURL = [], SubType = [], Domain = [], KeyID = [], SigningPublicKey = [], EncrPublicKey = [],
      ValidFrom = zero_time, ValidUntil = zero_time, SubStatus = [], Created = zero_time, Updated = zero_time,
      Nonce = [], NetworkMemberships = []\<rparr>"

definition set_time :: "Codec \<Rightarrow> json \<Rightarrow> (int \<Rightarrow> 'a) \<Rightarrow> 'a \<Rightarrow> 'a option" where
  "set_time C v upd d = (case v of JNull \<Rightarrow> Some d | JStr s \<Rightarrow> map_option upd (time_parse C s) | _ \<Rightarrow> None)"

text \<open>Into \<open>[]string\<close>: \<open>null\<close> is nil, and a \<open>null\<close> element leaves the empty string.\<close>

definition set_strings :: "json \<Rightarrow> (string list \<Rightarrow> 'a) \<Rightarrow> 'a option" where
  "set_strings v upd =
     (case v of
        JNull \<Rightarrow> Some (upd [])
      | JArr vs \<Rightarrow>
          if list_all (\<lambda>x. case x of JStr _ \<Rightarrow> True | JNull \<Rightarrow> True | _ \<Rightarrow> False) vs
          then Some (upd (map (\<lambda>x. case x of JStr s \<Rightarrow> s | _ \<Rightarrow> []) vs)) else None
      | _ \<Rightarrow> None)"

text \<open>One member decoded into the record; \<^term>\<open>None\<close> is a decoding error, which is sticky.\<close>

definition decode_subscription_member :: "Codec \<Rightarrow> Subscription option \<Rightarrow> string \<times> json \<Rightarrow> Subscription option" where
  "decode_subscription_member C acc kv =
     (case acc of
        None \<Rightarrow> None
      | Some d \<Rightarrow>
          (let k = fst kv; v = snd kv in
           if field_match ''subscriber_id'' k then set_text v (\<lambda>s. d\<lparr>SubscriberID := s\<rparr>) d
           else if field_match ''url'' k then set_text v (\<lambda>s. d\<lparr>SubURL := s\<rparr>) d
           else if field_match ''type'' k then set_text v (\<lambda>s. d\<lparr>SubType := s\<rparr>) d
           else if field_match ''domain'' k then set_text v (\<lambda>s. d\<lparr>Domain := s\<rparr>) d
           else if field_match ''key_id'' k then set_text v (\<lambda>s. d\<lparr>KeyID := s\<rparr>) d
           else if field_match ''signing_public_key'' k then set_text v (\<lambda>s. d\<lparr>SigningPublicKey := s\<rparr>) d
           else if field_match ''encr_public_key'' k then set_text v (\<lambda>s. d\<lparr>EncrPublicKey := s\<rparr>) d
           else if field_match ''valid_from'' k then set_time C v (\<lambda>t. d\<lparr>ValidFrom := t\<rparr>) d
           else if field_match ''valid_until'' k then set_time C v (\<lambda>t. d\<lparr>ValidUntil := t\<rparr>) d
           else if field_match ''status'' k then set_text v (\<lambda>s. d\<lparr>SubStatus := s\<rparr>) d
           else if field_match ''created'' k then set_time C v (\<lambda>t. d\<lparr>Created := t\<rparr>) d
           else if field_match ''updated'' k then set_time C v (\<lambda>t. d\<lparr>Updated := t\<rparr>) d
           else if field_match ''nonce'' k then set_text v (\<lambda>s. d\<lparr>Nonce := s\<rparr>) d
           else if field_match ''network_memberships'' k then set_strings v (\<lambda>xs. d\<lparr>NetworkMemberships := xs\<rparr>)
           else Some d))"

definition decode_subscription :: "Codec \<Rightarrow> json \<Rightarrow> Subscription option" where
  "decode_subscription C v =
     (case v of
        JObj kvs \<Rightarrow> foldl (decode_subscription_member C) (Some zero_subscription) kvs
      | JNull \<Rightarrow> Some zero_subscription
      | _ \<Rightarrow> None)"

text \<open>\<open>json.Unmarshal\<close> into a nil \<open>[]Subscription\<close>.\<close>

definition unmarshal_subscriptions :: "Codec \<Rightarrow> string \<Rightarrow> Subscription list option" where
  "unmarshal_subscriptions C raw =
     (case json_decode raw of
        Some (JArr vs) \<Rightarrow>
          (if list_all (\<lambda>v. decode_subscription C v \<noteq> None) vs
           then Some (map (\<lambda>v. the (decode_subscription C v)) vs) else None)
      | Some JNull \<Rightarrow> Some []
      | _ \<Rightarrow> None)"

subsection \<open>The round trip\<close>

definition coerce_subscription :: "Subscription \<Rightarrow> Subscription" where
  "coerce_subscription s = s\<lparr>SubscriberID := utf8_coerce (SubscriberID s), SubURL := utf8_coerce (SubURL s),
     SubType := utf8_coerce (SubType s), Domain := utf8_coerce (Domain s), KeyID := utf8_coerce (KeyID s),
     SigningPublicKey := utf8_coerce (SigningPublicKey s), EncrPublicKey := utf8_coerce (EncrPublicKey s),
     SubStatus := utf8_coerce (SubStatus s), Nonce := utf8_coerce (Nonce s),
     NetworkMemberships := map utf8_coerce (NetworkMemberships s)\<rparr>"

text \<open>A left-out member leaves the zero value.\<close>

lemma decode_texts:
  "SubscriberID d = [] \<Longrightarrow> foldl (decode_subscription_member C) (Some d) (omit_empty ''subscriber_id'' s) = Some (d\<lparr>SubscriberID := s\<rparr>)"
  "SubURL d = [] \<Longrightarrow> foldl (decode_subscription_member C) (Some d) (omit_empty ''url'' s) = Some (d\<lparr>SubURL := s\<rparr>)"
  "SubType d = [] \<Longrightarrow> foldl (decode_subscription_member C) (Some d) (omit_empty ''type'' s) = Some (d\<lparr>SubType := s\<rparr>)"
  "Domain d = [] \<Longrightarrow> foldl (decode_subscription_member C) (Some d) (omit_empty ''domain'' s) = Some (d\<lparr>Domain := s\<rparr>)"
  "KeyID d = [] \<Longrightarrow> foldl (decode_subscription_member C) (Some d) (omit_empty ''key_id'' s) = Some (d\<lparr>KeyID := s\<rparr>)"
  "SigningPublicKey d = [] \<Longrightarrow> foldl (decode_subscription_member C) (Some d) (omit_empty ''signing_public_key'' s) = Some (d\<lparr>SigningPublicKey := s\<rparr>)"
  "EncrPublicKey d = [] \<Longrightarrow> foldl (decode_subscription_member C) (Some d) (omit_empty ''encr_public_key'' s) = Some (d\<lparr>EncrPublicKey := s\<rparr>)"
  "SubStatus d = [] \<Longrightarrow> foldl (decode_subscription_member C) (Some d) (omit_empty ''status'' s) = Some (d\<lparr>SubStatus := s\<rparr>)"
  "Nonce d = [] \<Longrightarrow> foldl (decode_subscription_member C) (Some d) (omit_empty ''nonce'' s) = Some (d\<lparr>Nonce := s\<rparr>)"
  by (cases d; simp add: omit_empty_def decode_subscription_member_def set_text_def field_match_def in_range_def)+

lemma decode_memberships:
  "NetworkMemberships d = [] \<Longrightarrow>
     foldl (decode_subscription_member C) (Some d) (omit_no_strings ''network_memberships'' xs) = Some (d\<lparr>NetworkMemberships := xs\<rparr>)"
  by (cases d) (simp add: omit_no_strings_def decode_subscription_member_def set_strings_def field_match_def in_range_def
      list_all_iff comp_def)

text \<open>A written time is read back, unless it is the zero time, which is left out.\<close>

definition time_member :: "Codec \<Rightarrow> string \<Rightarrow> int \<Rightarrow> (string \<times> json) list \<Rightarrow> bool" where
  "time_member C k t kvs \<longleftrightarrow>
     (t = zero_time \<and> kvs = []) \<or> (t \<noteq> zero_time \<and> (\<exists>x. kvs = [(k, JStr x)] \<and> ascii x \<and> time_parse C x = Some t))"

lemma omit_zero_time_member: "codec_reads_back C \<Longrightarrow> omit_zero_time C k t = Some kvs \<Longrightarrow> time_member C k t kvs"
  by (auto simp: omit_zero_time_def time_member_def codec_reads_back_def split: if_splits)

lemma decode_times:
  "time_member C ''valid_from'' t kvs \<Longrightarrow> ValidFrom d = zero_time \<Longrightarrow> foldl (decode_subscription_member C) (Some d) kvs = Some (d\<lparr>ValidFrom := t\<rparr>)"
  "time_member C ''valid_until'' t kvs \<Longrightarrow> ValidUntil d = zero_time \<Longrightarrow> foldl (decode_subscription_member C) (Some d) kvs = Some (d\<lparr>ValidUntil := t\<rparr>)"
  "time_member C ''created'' t kvs \<Longrightarrow> Created d = zero_time \<Longrightarrow> foldl (decode_subscription_member C) (Some d) kvs = Some (d\<lparr>Created := t\<rparr>)"
  "time_member C ''updated'' t kvs \<Longrightarrow> Updated d = zero_time \<Longrightarrow> foldl (decode_subscription_member C) (Some d) kvs = Some (d\<lparr>Updated := t\<rparr>)"
  by (cases d; auto simp: time_member_def decode_subscription_member_def set_time_def field_match_def in_range_def)+

lemma decode_members:
  assumes "time_member C ''valid_from'' (ValidFrom s) vf" "time_member C ''valid_until'' (ValidUntil s) vu"
    "time_member C ''created'' (Created s) cr" "time_member C ''updated'' (Updated s) up"
  shows "foldl (decode_subscription_member C) (Some zero_subscription) (subscription_members s vf vu cr up) = Some s"
  unfolding subscription_members_def foldl_append
  by (simp add: decode_texts decode_memberships decode_times(1) [OF assms(1)] decode_times(2) [OF assms(2)]
      decode_times(3) [OF assms(3)] decode_times(4) [OF assms(4)] zero_subscription_def)

lemma coerce_time_member:
  "time_member C k t kvs \<Longrightarrow> ascii k \<Longrightarrow> map (\<lambda>p. (utf8_coerce (fst p), json_coerce (snd p))) kvs = kvs"
  by (auto simp: time_member_def utf8_coerce_ascii)

lemma coerce_no_strings:
  "map (\<lambda>p. (utf8_coerce (fst p), json_coerce (snd p))) (omit_no_strings k xs) = omit_no_strings (utf8_coerce k) (map utf8_coerce xs)"
  by (simp add: omit_no_strings_def)

lemma coerce_members:
  assumes "time_member C ''valid_from'' (ValidFrom s) vf" "time_member C ''valid_until'' (ValidUntil s) vu"
    "time_member C ''created'' (Created s) cr" "time_member C ''updated'' (Updated s) up"
  shows "json_coerce (JObj (subscription_members s vf vu cr up)) = JObj (subscription_members (coerce_subscription s) vf vu cr up)"
  using assms [THEN coerce_time_member]
  by (simp add: subscription_members_def coerce_subscription_def coerce_omitted coerce_no_strings)

lemma fold_max_below: "\<forall>x \<in> set xs. x \<le> b \<Longrightarrow> a \<le> b \<Longrightarrow> fold max xs a \<le> (b :: nat)"
  by (induction xs arbitrary: a) simp_all

lemma members_plain:
  "\<forall>p \<in> set (omit_empty k s). json_nums (snd p) \<and> json_depth (snd p) \<le> 1"
  "\<forall>p \<in> set (omit_no_strings k xs). json_nums (snd p) \<and> json_depth (snd p) \<le> 1"
  "time_member C k t kvs \<Longrightarrow> \<forall>p \<in> set kvs. json_nums (snd p) \<and> json_depth (snd p) \<le> 1"
  using fold_max_below [of "map (\<lambda>x. 0) xs" 0 0]
  by (auto simp: omit_empty_def omit_no_strings_def time_member_def list_all_iff comp_def)

lemma subscription_json_decodes:
  assumes "codec_reads_back C" "subscription_json C s = Some j"
  shows "decode_subscription C (json_coerce j) = Some (coerce_subscription s)" and "json_nums j" and "json_depth j \<le> 2"
proof -
  obtain vf vu cr up where parts: "omit_zero_time C ''valid_from'' (ValidFrom s) = Some vf"
      "omit_zero_time C ''valid_until'' (ValidUntil s) = Some vu" "omit_zero_time C ''created'' (Created s) = Some cr"
      "omit_zero_time C ''updated'' (Updated s) = Some up" and j: "j = JObj (subscription_members s vf vu cr up)"
    using assms(2) by (auto simp: subscription_json_def split: option.splits)
  note times = parts [THEN omit_zero_time_member [OF assms(1)]]
  have keep: "ValidFrom (coerce_subscription s) = ValidFrom s" "ValidUntil (coerce_subscription s) = ValidUntil s"
    "Created (coerce_subscription s) = Created s" "Updated (coerce_subscription s) = Updated s"
    by (simp_all add: coerce_subscription_def)
  show "decode_subscription C (json_coerce j) = Some (coerce_subscription s)"
    using decode_members [of C "coerce_subscription s" vf vu cr up] times
    unfolding j coerce_members [OF times] decode_subscription_def keep by simp
  have plain: "\<forall>p \<in> set (subscription_members s vf vu cr up). json_nums (snd p) \<and> json_depth (snd p) \<le> 1"
    unfolding subscription_members_def set_append using times [THEN members_plain(3)] members_plain(1,2)
    by (metis (no_types, lifting) Un_iff)
  show "json_nums j" using plain by (simp add: j list_all_iff)
  show "json_depth j \<le> 2" using plain by (simp add: j fold_max_below)
qed

lemma unmarshal_marshal_subscriptions:
  assumes "codec_reads_back C" "marshal_subscriptions C ss = Some raw"
  shows "unmarshal_subscriptions C raw = Some (map coerce_subscription ss)"
proof -
  let ?j = "\<lambda>s. the (subscription_json C s)"
  have all: "\<forall>s \<in> set ss. subscription_json C s = Some (?j s)" and raw: "raw = json_encode (JArr (map ?j ss))"
    using assms(2) by (auto simp: marshal_subscriptions_def list_all_iff split: if_splits)
  note each = subscription_json_decodes [OF assms(1)]
  have "\<forall>x \<in> set (map json_depth (map ?j ss)). x \<le> 2" using all each(3) by auto
  then have "json_depth (JArr (map ?j ss)) \<le> max_depth"
    using fold_max_below [of "map json_depth (map ?j ss)" 2 0] by (simp add: max_depth_def)
  moreover have "json_nums (JArr (map ?j ss))" using all each(2) by (auto simp: list_all_iff)
  ultimately have "json_decode raw = Some (JArr (map (\<lambda>s. json_coerce (?j s)) ss))"
    unfolding raw using json_decode_encode_coerce [of "JArr (map ?j ss)"] by (simp add: comp_def del: json_encode.simps)
  moreover have "\<forall>s \<in> set ss. decode_subscription C (json_coerce (?j s)) = Some (coerce_subscription s)"
    using all each(1) by blast
  ultimately show ?thesis by (auto simp: unmarshal_subscriptions_def list_all_iff)
qed

end
