(* ===== verification/Dedi_Registry.thy ===== *)
theory Dedi_Registry
  imports Subscription_Json
begin

text \<open>
  The DeDi registry plugin, \<open>dediregistry/dediregistry.go\<close> with its entry point \<open>cmd/plugin.go\<close>: look-ups
  of signing keys, registries, nodes and networks over HTTP, the classification of every failure, the
  check of network memberships, and the cache of signing keys.

  A \<open>context.Context\<close> is the pair of its values and, when it is a \<open>*model.StepContext\<close>, the body of
  that. The retrying HTTP client, \<open>url.Parse\<close>, \<open>strings.EqualFold\<close>, the RFC 3339 format, the
  reading of \<open>float64\<close> numbers and the \<open>Timeout\<close> methods of foreign errors are arguments.
\<close>

subsection \<open>Escaping of path segments\<close>

definition hex_upper :: "nat \<Rightarrow> char" where
  "hex_upper d = (if d < 10 then char_of (48 + d) else char_of (55 + d))"

text \<open>The bytes that \<open>url.PathEscape\<close> keeps.\<close>

definition path_byte :: "char \<Rightarrow> bool" where
  "path_byte c \<longleftrightarrow> in_range 97 122 c \<or> in_range 65 90 c \<or> in_range 48 57 c \<or> c \<in> set ''-_.~$&+:=@''"

definition escape_byte :: "char \<Rightarrow> string" where
  "escape_byte c =
     (if path_byte c then [c]
      else [CHR ''%'', hex_upper ((of_char c :: nat) div 16), hex_upper ((of_char c :: nat) mod 16)])"

definition PathEscape :: "string \<Rightarrow> string" where
  "PathEscape s = concat (map escape_byte s)"

definition validSegment :: "string \<Rightarrow> bool" where
  "validSegment s \<longleftrightarrow> TrimSpace s \<noteq> [] \<and> s \<noteq> ''.'' \<and> s \<noteq> ''..''"

definition validPath :: "string \<Rightarrow> bool" where
  "validPath p = list_all validSegment (Split (CHR ''/'') p)"

definition escapePath :: "string \<Rightarrow> string" where
  "escapePath p = Join (map PathEscape (Split (CHR ''/'') p)) ''/''"

subsection \<open>Errors\<close>

definition codeNetTimeout :: string where "codeNetTimeout = ''NET_TIMEOUT''"
definition codeNetDownstreamUnavailable :: string where "codeNetDownstreamUnavailable = ''NET_DOWNSTREAM_UNAVAILABLE''"
definition codeNetDownstreamInvalidResp :: string where "codeNetDownstreamInvalidResp = ''NET_DOWNSTREAM_INVALID_RESPONSE''"
definition codeNetRequestCancelled :: string where "codeNetRequestCancelled = ''NET_REQUEST_CANCELLED''"
definition codeNetInternalError :: string where "codeNetInternalError = ''NET_INTERNAL_ERROR''"
definition codeNetEntityNotFound :: string where "codeNetEntityNotFound = ''NET_ENTITY_NOT_FOUND''"
definition codeAutSubscriberNotFound :: string where "codeAutSubscriberNotFound = ''AUT_SUBSCRIBER_NOT_FOUND''"
definition codeAutKeyNotFound :: string where "codeAutKeyNotFound = ''AUT_KEY_NOT_FOUND''"
definition codeAutSignatureInvalid :: string where "codeAutSignatureInvalid = ''AUT_SIGNATURE_INVALID''"
definition codeAutNetworkNotAllowed :: string where "codeAutNetworkNotAllowed = ''AUT_NETWORK_NOT_ALLOWED''"
definition codeCtxMissingField :: string where "codeCtxMissingField = ''CTX_MISSING_FIELD''"
definition codeCtxInvalidField :: string where "codeCtxInvalidField = ''CTX_INVALID_FIELD''"

definition maxLookupResponseBytes :: nat where "maxLookupResponseBytes = 2 ^ 20"
definition maxErrorBodyLogBytes :: nat where "maxErrorBodyLogBytes = 4 * 2 ^ 10"
definition maxQueryResponseBytes :: nat where "maxQueryResponseBytes = 8 * 2 ^ 20"

definition subscriberNotFound :: "goerr \<Rightarrow> goerr" where
  "subscriberNotFound err = NewSignValidationErr codeAutSubscriberNotFound err"

definition entityNotFound :: "goerr \<Rightarrow> goerr" where
  "entityNotFound err = NewCodedErr 404 codeNetEntityNotFound err"

definition badUpstreamResponse :: "goerr \<Rightarrow> goerr" where
  "badUpstreamResponse err = NewCodedErr 502 codeNetDownstreamInvalidResp err"

definition downstreamUnavailable :: "goerr \<Rightarrow> goerr" where
  "downstreamUnavailable err = NewCodedErr 503 codeNetDownstreamUnavailable err"

definition internalErr :: "goerr \<Rightarrow> goerr" where
  "internalErr err = NewCodedErr 500 codeNetInternalError err"

text \<open>The sentinel errors of package \<open>context\<close>.\<close>

definition Canceled :: goerr where "Canceled = ErrText ''context canceled''"
definition DeadlineExceeded :: goerr where "DeadlineExceeded = ErrText ''context deadline exceeded''"

definition isTimeout :: "(goerr \<Rightarrow> bool option) \<Rightarrow> goerr \<Rightarrow> bool" where
  "isTimeout timeoutOf err \<longleftrightarrow> errors_Is err DeadlineExceeded \<or> errors_As timeoutOf err = Some True"

text \<open>\<open>sanitize\<close> hides the cause behind a public text (and logs it).\<close>

definition sanitize :: "string \<Rightarrow> goerr \<Rightarrow> goerr" where
  "sanitize msg c = ErrPublic msg c"

definition transportErr :: "(goerr \<Rightarrow> bool option) \<Rightarrow> string \<Rightarrow> goerr \<Rightarrow> goerr" where
  "transportErr timeoutOf operation err =
     (if errors_Is err Canceled then
        NewCodedErr 500 codeNetRequestCancelled (ErrPublic (''DeDi '' @ operation @ '' was cancelled'') err)
      else if isTimeout timeoutOf err then
        NewCodedErr 504 codeNetTimeout (sanitize (''DeDi '' @ operation @ '' timed out'') err)
      else downstreamUnavailable (sanitize (''DeDi '' @ operation @ '' failed: registry unreachable'') err))"

subsection \<open>The client\<close>

text \<open>
  A response with its status line, and a client of \<open>retryablehttp\<close>: the error of building a request for a
  method and URL, and the round trip with its retries.
\<close>

record RegResponse = HttpResponse +
  HrStatusText :: string

record 'w RetryClient =
  RcNewRequest :: "string \<Rightarrow> string \<Rightarrow> goerr option"
  RcDo :: "'w \<Rightarrow> string \<Rightarrow> string \<Rightarrow> string \<Rightarrow> (goerr + RegResponse) \<times> 'w"

record RetrySettings =
  RsTimeout :: int
  RsRetryMax :: int
  RsRetryWaitMin :: int
  RsRetryWaitMax :: int
  RsPassthrough :: bool

record DediConfig =
  DdURL :: string
  DdCacheTTL :: int
  AllowedNetworkIDs :: "string list"
  DdTimeout :: int
  DdRetryMax :: int
  DdRetryWaitMin :: int
  DdRetryWaitMax :: int

text \<open>The library functions of the model, apart from the client.\<close>

record DediLib =
  LibFloat :: Float64
  LibPositive :: "string \<Rightarrow> bool"
  LibInt64 :: "string \<Rightarrow> int"
  LibParseTime :: "string \<Rightarrow> int option"
  LibEqualFold :: "string \<Rightarrow> string \<Rightarrow> bool"
  LibTimeout :: "goerr \<Rightarrow> bool option"
  LibCodec :: Codec

record 'w DeDiRegistryClient =
  DcConfig :: DediConfig
  DcClient :: "'w RetryClient"
  DcCache :: "'w Cache option"
  DcCacheTTL :: int
  DcLib :: DediLib

definition dedi_defaultCacheTTL :: int where "dedi_defaultCacheTTL = 5 * 60 * second"

definition dediAllRegistriesWildcard :: string where "dediAllRegistriesWildcard = ''subscribers.beckn.one''"

definition networkAgnosticSubscriberIDs :: "string list" where
  "networkAgnosticSubscriberIDs = [''staging.catalg.fabric.nfh.global'', ''fabric.nfh.global'']"

definition isNetworkAgnosticSubscriber :: "string \<Rightarrow> bool" where
  "isNetworkAgnosticSubscriber subscriberID \<longleftrightarrow> subscriberID \<in> set networkAgnosticSubscriberIDs"

definition dedi_validate :: "(string \<Rightarrow> URL option) \<Rightarrow> DediConfig option \<Rightarrow> goerr option" where
  "dedi_validate url_Parse cfg =
     (case cfg of
        None \<Rightarrow> Some (ErrText ''DeDi registry config cannot be nil'')
      | Some c \<Rightarrow>
          if DdURL c = [] then Some (ErrText ''url cannot be empty'')
          else if (case url_Parse (DdURL c) of None \<Rightarrow> True
                   | Some u \<Rightarrow> (UScheme u \<noteq> ''http'' \<and> UScheme u \<noteq> ''https'') \<or> UHost u = []) then
            Some (ErrText (''url must be an absolute http(s) URL, got '' @ go_quote (DdURL c)))
          else if list_ex (\<lambda>x. x \<in> set ''?#'') (DdURL c) then
            Some (ErrText (''url must not have a query or fragment, got '' @ go_quote (DdURL c)))
          else None)"

text \<open>\<open>defaults\<close> are the settings of \<open>retryablehttp.NewClient\<close>, \<open>mk\<close> the client with given settings.\<close>

definition dedi_retry_settings :: "RetrySettings \<Rightarrow> DediConfig \<Rightarrow> RetrySettings" where
  "dedi_retry_settings defaults cfg =
     (let s0 = defaults\<lparr>RsPassthrough := True\<rparr>;
          s1 = (if DdTimeout cfg > 0 then s0\<lparr>RsTimeout := wrap64 (DdTimeout cfg * second)\<rparr> else s0);
          s2 = (if DdRetryMax cfg > 0 then s1\<lparr>RsRetryMax := DdRetryMax cfg\<rparr> else s1);
          s3 = (if DdRetryWaitMin cfg > 0 then s2\<lparr>RsRetryWaitMin := DdRetryWaitMin cfg\<rparr> else s2)
      in if DdRetryWaitMax cfg > 0 then s3\<lparr>RsRetryWaitMax := DdRetryWaitMax cfg\<rparr> else s3)"

definition dedi_New ::
  "(string \<Rightarrow> URL option) \<Rightarrow> RetrySettings \<Rightarrow> (RetrySettings \<Rightarrow> 'w RetryClient) \<Rightarrow> DediLib \<Rightarrow> 'w Cache option \<Rightarrow>
     DediConfig option \<Rightarrow> goerr + 'w DeDiRegistryClient" where
  "dedi_New url_Parse defaults mk lib cache cfg =
     (case dedi_validate url_Parse cfg of
        Some e \<Rightarrow> Inl e
      | None \<Rightarrow>
          (let c = the cfg;
               ttl = (if DdCacheTTL c \<le> 0 then dedi_defaultCacheTTL else DdCacheTTL c);
               clientCfg = c\<lparr>DdURL := rev (dropWhile (\<lambda>x. x = CHR ''/'') (rev (DdURL c)))\<rparr>
           in Inr \<lparr>DcConfig = clientCfg, DcClient = mk (dedi_retry_settings defaults c), DcCache = cache,
                   DcCacheTTL = ttl, DcLib = lib\<rparr>))"

subsection \<open>Requests\<close>

definition classifyStatus :: "string \<Rightarrow> RegResponse \<Rightarrow> (goerr \<Rightarrow> goerr) \<Rightarrow> goerr" where
  "classifyStatus operation resp onNotFound =
     (let err = ErrText (''DeDi '' @ operation @ '' request failed with status: '' @ HrStatusText resp) in
      if HrStatus resp = 404 then onNotFound err
      else if HrStatus resp \<ge> 400 \<and> HrStatus resp < 500 \<and> HrStatus resp \<noteq> 429 then internalErr err
      else downstreamUnavailable err)"

definition read_body :: "nat \<Rightarrow> RegResponse \<Rightarrow> goerr + string" where
  "read_body n resp = read_limited n (HttpResponse.truncate resp)"

definition doGet ::
  "'w DeDiRegistryClient \<Rightarrow> 'w \<Rightarrow> string \<Rightarrow> string \<Rightarrow> nat \<Rightarrow> (goerr \<Rightarrow> goerr) \<Rightarrow> (goerr + string) \<times> 'w" where
  "doGet c w url operation maxBytes onNotFound =
     (case RcNewRequest (DcClient c) ''GET'' url of
        Some e \<Rightarrow>
          (Inl (internalErr (sanitize (''DeDi '' @ operation @ '' failed: could not build request'')
             (errorf_w (''failed to create '' @ operation @ '' request: '') e))), w)
      | None \<Rightarrow>
          (case RcDo (DcClient c) w ''GET'' url [] of
             (Inl e, w1) \<Rightarrow>
               (Inl (if is_panic e then e
                     else transportErr (LibTimeout (DcLib c)) operation (errorf_w (''failed to send DeDi '' @ operation @ '' request: '') e)), w1)
           | (Inr resp, w1) \<Rightarrow>
               if HrStatus resp \<noteq> 200 then (Inl (classifyStatus operation resp onNotFound), w1)
               else
                 (case read_body (maxBytes + 1) resp of
                    Inl e \<Rightarrow>
                      (Inl (if is_panic e then e
                            else transportErr (LibTimeout (DcLib c)) operation
                              (errorf_w (''failed to read '' @ operation @ '' response body: '') e)), w1)
                  | Inr body \<Rightarrow>
                      if length body > maxBytes then
                        (Inl (badUpstreamResponse (sanitize (''DeDi '' @ operation @ '' response exceeds max '' @ nat_dec maxBytes @ '' bytes'')
                           (ErrText (operation @ '' response from '' @ url @ '' exceeds max '' @ nat_dec maxBytes @ '' bytes'')))), w1)
                      else (Inr body, w1))))"

text \<open>The object under \<open>data\<close> of a response.\<close>

definition parse_data :: "Float64 \<Rightarrow> string \<Rightarrow> string \<Rightarrow> goerr + (string \<times> json) list" where
  "parse_data F operation body =
     (case unmarshal_map F body None of
        None \<Rightarrow> Inl (badUpstreamResponse (errorf_w (''failed to unmarshal '' @ operation @ '' response body: '') (ErrText ''json.Unmarshal'')))
      | Some responseData \<Rightarrow>
          (case jget (go_entries responseData) ''data'' of
             Some (JObj data) \<Rightarrow> Inr data
           | _ \<Rightarrow> Inl (badUpstreamResponse (ErrText (''invalid '' @ operation @ '' response format: missing data field'')))))"

definition fetchDeDiData ::
  "'w DeDiRegistryClient \<Rightarrow> 'w \<Rightarrow> string \<Rightarrow> string \<Rightarrow> (goerr \<Rightarrow> goerr) \<Rightarrow> (goerr + (string \<times> json) list) \<times> 'w" where
  "fetchDeDiData c w url operation onNotFound =
     (case doGet c w url operation maxLookupResponseBytes onNotFound of
        (Inl e, w1) \<Rightarrow> (Inl e, w1)
      | (Inr body, w1) \<Rightarrow> (parse_data (LibFloat (DcLib c)) operation body, w1))"

subsection \<open>Records\<close>

definition parseTime :: "(string \<Rightarrow> int option) \<Rightarrow> string \<Rightarrow> int" where
  "parseTime parse timeStr =
     (if timeStr = [] then zero_time else (case parse timeStr of None \<Rightarrow> zero_time | Some t \<Rightarrow> t))"

definition parseSubscriptionFromData :: "DediLib \<Rightarrow> (string \<times> json) list \<Rightarrow> bool \<Rightarrow> goerr + Subscription" where
  "parseSubscriptionFromData lib data requireSigningKey =
     (case jget data ''details'' of
        Some (JObj details) \<Rightarrow>
          if requireSigningKey \<and> jstring details ''signing_public_key'' = [] then
            Inl (NewSignValidationErr codeAutKeyNotFound (ErrText ''invalid or missing signing_public_key in response''))
          else
            Inr \<lparr>SubscriberID = jstring details ''subscriber_id'', SubURL = jstring details ''url'',
                 SubType = jstring details ''type'', Domain = jstring details ''domain'', KeyID = [],
                 SigningPublicKey = jstring details ''signing_public_key'', EncrPublicKey = jstring details ''encr_public_key'',
                 ValidFrom = zero_time, ValidUntil = zero_time, SubStatus = [],
                 Created = parseTime (LibParseTime lib) (jstring data ''created_at''),
                 Updated = parseTime (LibParseTime lib) (jstring data ''updated_at''), Nonce = [], NetworkMemberships = []\<rparr>
      | _ \<Rightarrow> Inl (badUpstreamResponse (ErrText ''invalid response format: missing details field'')))"

definition url_of :: "json \<Rightarrow> string list" where
  "url_of item =
     (case item of
        JObj obj \<Rightarrow> (case jget obj ''url'' of Some (JStr u) \<Rightarrow> if u = [] then [] else [u] | _ \<Rightarrow> [])
      | _ \<Rightarrow> [])"

definition extractURLObjectArray :: "json list \<Rightarrow> string list" where
  "extractURLObjectArray items = concat (map url_of items)"

text \<open>The text \<open>null\<close> decodes to a nil array without an error.\<close>

definition parseDoubleEncodedURLArray :: "Float64 \<Rightarrow> string \<Rightarrow> string list option" where
  "parseDoubleEncodedURLArray F s =
     (case unmarshal_any F s of
        Some (JArr items) \<Rightarrow> Some (extractURLObjectArray items)
      | Some JNull \<Rightarrow> Some []
      | _ \<Rightarrow> None)"

definition meta_entry ::
  "Float64 \<Rightarrow> (string \<rightharpoonup> string) \<times> (string \<rightharpoonup> string list) \<Rightarrow> string \<times> json \<Rightarrow> (string \<rightharpoonup> string) \<times> (string \<rightharpoonup> string list)" where
  "meta_entry F acc kv =
     (case snd kv of
        JStr v \<Rightarrow>
          (case parseDoubleEncodedURLArray F v of
             Some arr \<Rightarrow> (fst acc, (snd acc)(fst kv \<mapsto> arr))
           | None \<Rightarrow> ((fst acc)(fst kv \<mapsto> v), snd acc))
      | JArr v \<Rightarrow> (fst acc, (snd acc)(fst kv \<mapsto> extractURLObjectArray v))
      | _ \<Rightarrow> acc)"

definition parseMetaFromData :: "Float64 \<Rightarrow> (string \<times> json) list \<Rightarrow> (string \<rightharpoonup> string) \<times> (string \<rightharpoonup> string list)" where
  "parseMetaFromData F data =
     (case jget data ''meta'' of
        Some (JObj rawMetaMap) \<Rightarrow> foldl (meta_entry F) (Map.empty, Map.empty) rawMetaMap
      | _ \<Rightarrow> (Map.empty, Map.empty))"

text \<open>Only arrays of decoded values occur here, so that the case \<open>[]string\<close> does not.\<close>

definition extractStringSlice :: "json option \<Rightarrow> string list" where
  "extractStringSlice v =
     (case v of
        Some (JArr items) \<Rightarrow> concat (map (\<lambda>x. case x of JStr s \<Rightarrow> if s \<noteq> [] then [s] else [] | _ \<Rightarrow> []) items)
      | _ \<Rightarrow> [])"

subsection \<open>Network memberships\<close>

definition containsAny :: "string list \<Rightarrow> string list \<Rightarrow> bool" where
  "containsAny vs allowed =
     (if vs = [] \<or> allowed = [] then False
      else (let allowedSet = filter (\<lambda>x. x \<noteq> []) allowed in list_ex (\<lambda>v. v \<in> set allowedSet) vs))"

text \<open>A number in the request context that does not fit a \<open>float64\<close> makes the decoding fail.\<close>

definition context_numbers_ok :: "Float64 \<Rightarrow> string \<Rightarrow> bool" where
  "context_numbers_ok F body =
     (case json_decode body of
        Some (JObj kvs) \<Rightarrow> list_all (\<lambda>p. field_match ''context'' (fst p) \<longrightarrow> numbers_ok F (snd p)) kvs
      | _ \<Rightarrow> True)"

definition extractContextNetworkID :: "Float64 \<Rightarrow> Context \<Rightarrow> string option \<Rightarrow> string" where
  "extractContextNetworkID F ctx stepBody =
     (if ctx_string0 ctx ContextKeyNetworkID \<noteq> [] then ctx_string0 ctx ContextKeyNetworkID
      else
        (case stepBody of
           None \<Rightarrow> []
         | Some body \<Rightarrow>
             if body = [] then []
             else
               (case context_map_field body of
                  Some (Some c) \<Rightarrow> if context_numbers_ok F body then ResolveNetworkID c else []
                | _ \<Rightarrow> [])))"

definition validateContextNetworkID :: "string list \<Rightarrow> string \<Rightarrow> string list \<Rightarrow> string \<Rightarrow> goerr option" where
  "validateContextNetworkID allowed networkID networkMemberships subscriberID =
     (if networkID = [] then None
      else if \<not> containsAny networkMemberships [networkID] then
        Some (NewSignValidationErr codeAutNetworkNotAllowed
          (ErrText (''context.network_id '' @ go_quote networkID @ '' is not in network_memberships of subscriber '' @ go_quote subscriberID)))
      else if allowed \<noteq> [] \<and> \<not> containsAny [networkID] allowed then
        Some (NewSignValidationErr codeAutNetworkNotAllowed
          (ErrPublic (''context.network_id '' @ go_quote networkID @ '' is not a network this adapter accepts'')
            (ErrText (''context.network_id '' @ go_quote networkID @ '' is not in configured allowedNetworkIDs''))))
      else None)"

definition validateMemberships :: "string list \<Rightarrow> string \<Rightarrow> string list \<Rightarrow> string \<Rightarrow> goerr option" where
  "validateMemberships allowed networkID networkMemberships subscriberID =
     (if isNetworkAgnosticSubscriber subscriberID then None
      else if allowed \<noteq> [] \<and> (networkMemberships = [] \<or> \<not> containsAny networkMemberships allowed) then
        Some (NewSignValidationErr codeAutNetworkNotAllowed
          (ErrPublic (''subscriber '' @ go_quote subscriberID @ '' is not a member of a network this adapter accepts'')
            (ErrText (''registry entry with subscriber_id '' @ [CHR 0x27] @ subscriberID @ [CHR 0x27] @
              '' does not belong to any configured networks (registry.config.allowedNetworkIDs)''))))
      else validateContextNetworkID allowed networkID networkMemberships subscriberID)"

subsection \<open>Look-up of signing keys\<close>

definition lookupCacheKey :: "string \<Rightarrow> string \<Rightarrow> string" where
  "lookupCacheKey subscriberID keyID = ''dedi_lookup_v2_'' @ PathEscape subscriberID @ ''/'' @ PathEscape keyID"

definition isSubscriberRecord :: "DediLib \<Rightarrow> string \<Rightarrow> string \<Rightarrow> bool" where
  "isSubscriberRecord lib recordSubscriberID subscriberID \<longleftrightarrow>
     recordSubscriberID = [] \<or> LibEqualFold lib recordSubscriberID subscriberID"

text \<open>\<^term>\<open>Inr None\<close> is a miss.\<close>

definition cachedLookup ::
  "'w DeDiRegistryClient \<Rightarrow> 'w \<Rightarrow> string \<Rightarrow> string \<Rightarrow> (goerr + Subscription list option) \<times> 'w" where
  "cachedLookup c w key subscriberID =
     (case DcCache c of
        None \<Rightarrow> (Inr None, w)
      | Some cache \<Rightarrow>
          (case CacheGet cache w key of
             (Inl e, w1) \<Rightarrow> (if is_panic e then Inl e else Inr None, w1)
           | (Inr cached, w1) \<Rightarrow>
               (case unmarshal_subscriptions (LibCodec (DcLib c)) cached of
                  None \<Rightarrow> (Inr None, w1)
                | Some [] \<Rightarrow> (Inr (Some []), w1)
                | Some (s # ss) \<Rightarrow>
                    if \<not> isSubscriberRecord (DcLib c) (SubscriberID s) subscriberID then (Inr None, w1)
                    else (Inr (Some (s # ss)), w1))))"

definition lookup_url :: "'w DeDiRegistryClient \<Rightarrow> string \<Rightarrow> string \<Rightarrow> string" where
  "lookup_url c subscriberID keyID =
     DdURL (DcConfig c) @ ''/lookup/'' @ PathEscape subscriberID @ ''/'' @ dediAllRegistriesWildcard @ ''/'' @ PathEscape keyID"

text \<open>The record of a response, before the check of its memberships.\<close>

definition lookup_record :: "DediLib \<Rightarrow> string \<Rightarrow> string \<Rightarrow> (string \<times> json) list \<Rightarrow> goerr + Subscription" where
  "lookup_record lib subscriberID keyID data =
     (case parseSubscriptionFromData lib data True of
        Inl e \<Rightarrow> Inl e
      | Inr parsed \<Rightarrow>
          if \<not> isSubscriberRecord lib (SubscriberID parsed) subscriberID then
            Inl (NewSignValidationErr codeAutSubscriberNotFound
              (ErrText (''DeDi returned a record for subscriber '' @ go_quote (SubscriberID parsed) @ '', not '' @ go_quote subscriberID)))
          else Inr (parsed\<lparr>KeyID := keyID, NetworkMemberships := extractStringSlice (jget data ''network_memberships'')\<rparr>))"

definition entry_lifetime :: "'w DeDiRegistryClient \<Rightarrow> (string \<times> json) list \<Rightarrow> int" where
  "entry_lifetime c data =
     (case jget data ''ttl'' of
        Some (JNum x) \<Rightarrow> if LibPositive (DcLib c) x then wrap64 (LibInt64 (DcLib c) x * second) else DcCacheTTL c
      | _ \<Rightarrow> DcCacheTTL c)"

text \<open>A failed write is only logged.\<close>

definition cache_record :: "'w DeDiRegistryClient \<Rightarrow> 'w \<Rightarrow> string \<Rightarrow> int \<Rightarrow> Subscription \<Rightarrow> goerr option \<times> 'w" where
  "cache_record c w key ttl s =
     (case (DcCache c, marshal_subscriptions (LibCodec (DcLib c)) [s]) of
        (Some cache, Some encoded) \<Rightarrow>
          (case CacheSet cache w key encoded ttl of
             (Some e, w1) \<Rightarrow> (if is_panic e then Some e else None, w1)
           | (None, w1) \<Rightarrow> (None, w1))
      | _ \<Rightarrow> (None, w))"

definition remote_lookup ::
  "'w DeDiRegistryClient \<Rightarrow> 'w \<Rightarrow> string \<Rightarrow> string \<Rightarrow> string \<Rightarrow> (goerr + Subscription list) \<times> 'w" where
  "remote_lookup c w networkID subscriberID keyID =
     (case fetchDeDiData c w (lookup_url c subscriberID keyID) ''record lookup'' subscriberNotFound of
        (Inl e, w1) \<Rightarrow> (Inl e, w1)
      | (Inr data, w1) \<Rightarrow>
          (case lookup_record (DcLib c) subscriberID keyID data of
             Inl e \<Rightarrow> (Inl e, w1)
           | Inr s \<Rightarrow>
               (case validateMemberships (AllowedNetworkIDs (DcConfig c)) networkID (NetworkMemberships s) (SubscriberID s) of
                  Some e \<Rightarrow> (Inl e, w1)
                | None \<Rightarrow>
                    (case cache_record c w1 (lookupCacheKey subscriberID keyID) (entry_lifetime c data) s of
                       (Some e, w2) \<Rightarrow> (Inl e, w2)
                     | (None, w2) \<Rightarrow> (Inr [s], w2)))))"

definition check_cached :: "'w DeDiRegistryClient \<Rightarrow> string \<Rightarrow> Subscription list \<Rightarrow> goerr + Subscription list" where
  "check_cached c networkID rs =
     (case rs of
        [] \<Rightarrow> Inr rs
      | s # _ \<Rightarrow>
          (case validateMemberships (AllowedNetworkIDs (DcConfig c)) networkID (NetworkMemberships s) (SubscriberID s) of
             Some e \<Rightarrow> Inl e
           | None \<Rightarrow> Inr rs))"

definition dedi_Lookup ::
  "'w DeDiRegistryClient \<Rightarrow> 'w \<Rightarrow> Context \<Rightarrow> string option \<Rightarrow> Subscription \<Rightarrow> (goerr + Subscription list) \<times> 'w" where
  "dedi_Lookup c w ctx stepBody req =
     (let subscriberID = SubscriberID req; keyID = KeyID req;
          networkID = extractContextNetworkID (LibFloat (DcLib c)) ctx stepBody in
      if subscriberID = [] then
        (Inl (NewSignValidationErr codeAutSignatureInvalid (ErrText ''subscriber_id is required for DeDi lookup'')), w)
      else if keyID = [] then
        (Inl (NewSignValidationErr codeAutSignatureInvalid (ErrText ''key_id is required for DeDi lookup'')), w)
      else if \<not> validSegment subscriberID \<or> \<not> validSegment keyID then
        (Inl (NewSignValidationErr codeAutSignatureInvalid
           (ErrText (''subscriber_id '' @ go_quote subscriberID @ '' / key_id '' @ go_quote keyID @ '' is not a valid DeDi path segment''))), w)
      else
        (case cachedLookup c w (lookupCacheKey subscriberID keyID) subscriberID of
           (Inl e, w1) \<Rightarrow> (Inl e, w1)
         | (Inr (Some rs), w1) \<Rightarrow> (check_cached c networkID rs, w1)
         | (Inr None, w1) \<Rightarrow> remote_lookup c w1 networkID subscriberID keyID))"

subsection \<open>Metadata\<close>

definition registry_metadata :: "string \<Rightarrow> string \<Rightarrow> (string \<times> json) list \<Rightarrow> goerr + RegistryMetadata" where
  "registry_metadata namespaceIdentifier registryName data =
     (case jget data ''meta'' of
        None \<Rightarrow> Inl (badUpstreamResponse (ErrText ''invalid response format: missing meta field''))
      | Some (JObj rawMeta) \<Rightarrow>
          Inr \<lparr>NamespaceIdentifier = namespaceIdentifier, RegistryName = registryName,
               RawMeta = (\<lambda>k. case jget rawMeta k of Some (JStr s) \<Rightarrow> Some s | _ \<Rightarrow> None)\<rparr>
      | Some _ \<Rightarrow> Inl (badUpstreamResponse (ErrText ''invalid response format: invalid meta field'')))"

definition dedi_LookupRegistry ::
  "'w DeDiRegistryClient \<Rightarrow> 'w \<Rightarrow> string \<Rightarrow> string \<Rightarrow> (goerr + RegistryMetadata) \<times> 'w" where
  "dedi_LookupRegistry c w namespaceIdentifier registryName =
     (if namespaceIdentifier = [] then
        (Inl (NewBadReqErr codeCtxMissingField (ErrText ''namespaceIdentifier is required for DeDi registry lookup'')), w)
      else if registryName = [] then
        (Inl (NewBadReqErr codeCtxMissingField (ErrText ''registryName is required for DeDi registry lookup'')), w)
      else if \<not> validSegment namespaceIdentifier \<or> \<not> validSegment registryName then
        (Inl (NewBadReqErr codeCtxInvalidField (ErrText (''namespaceIdentifier '' @ go_quote namespaceIdentifier @
           '' / registryName '' @ go_quote registryName @ '' is not a valid DeDi path segment''))), w)
      else
        (case fetchDeDiData c w (DdURL (DcConfig c) @ ''/lookup/'' @ PathEscape namespaceIdentifier @ ''/'' @ PathEscape registryName)
                ''registry lookup'' entityNotFound of
           (Inl e, w1) \<Rightarrow> (Inl e, w1)
         | (Inr data, w1) \<Rightarrow> (registry_metadata namespaceIdentifier registryName data, w1)))"

text \<open>The record of a participant, as node look-ups and network queries build it.\<close>

definition node_record :: "DediLib \<Rightarrow> (string \<times> json) list \<Rightarrow> goerr + SubscriberRecord" where
  "node_record lib data =
     (case parseSubscriptionFromData lib data False of
        Inl e \<Rightarrow> Inl e
      | Inr subscription \<Rightarrow>
          (let (meta, metaArrays) = parseMetaFromData (LibFloat lib) data
           in Inr \<lparr>RecSubscription = subscription, RecMeta = meta, RecMetaArrays = metaArrays\<rparr>))"

definition dedi_LookupNode :: "'w DeDiRegistryClient \<Rightarrow> 'w \<Rightarrow> string \<Rightarrow> (goerr + SubscriberRecord) \<times> 'w" where
  "dedi_LookupNode c w nodeID =
     (if nodeID = [] then
        (Inl (NewBadReqErr codeCtxMissingField (ErrText ''nodeID is required for DeDi node lookup'')), w)
      else if length (filter (\<lambda>x. x = CHR ''/'') nodeID) \<noteq> 2 \<or> \<not> validPath nodeID then
        (Inl (NewBadReqErr codeCtxInvalidField (ErrText (''nodeID '' @ go_quote nodeID @
           '' must be namespace/registry/recordName with 3 segments, none empty, whitespace-only, '' @ go_quote ''.'' @
           '' or '' @ go_quote ''..''))), w)
      else
        (case fetchDeDiData c w (DdURL (DcConfig c) @ ''/lookup/'' @ escapePath nodeID) ''node lookup'' entityNotFound of
           (Inl e, w1) \<Rightarrow> (Inl e, w1)
         | (Inr data, w1) \<Rightarrow> (node_record (DcLib c) data, w1)))"

text \<open>
  Decoding into \<open>struct { Data struct { Records []map[string]any } }\<close>; \<^term>\<open>None\<close> is an error, and a
  nil map is empty.
\<close>

definition decode_records :: "Float64 \<Rightarrow> json \<Rightarrow> (string \<times> json) list list option" where
  "decode_records F v =
     (case v of
        JNull \<Rightarrow> Some []
      | JArr vs \<Rightarrow>
          if list_all (\<lambda>x. case x of JObj _ \<Rightarrow> numbers_ok F x | JNull \<Rightarrow> True | _ \<Rightarrow> False) vs
          then Some (map (\<lambda>x. case go_value F x of JObj kvs \<Rightarrow> kvs | _ \<Rightarrow> []) vs) else None
      | _ \<Rightarrow> None)"

definition decode_data_member ::
  "Float64 \<Rightarrow> (string \<times> json) list list option \<Rightarrow> string \<times> json \<Rightarrow> (string \<times> json) list list option" where
  "decode_data_member F acc kv =
     (if acc \<noteq> None \<and> field_match ''records'' (fst kv) then decode_records F (snd kv) else acc)"

definition decode_envelope_member ::
  "Float64 \<Rightarrow> (string \<times> json) list list option \<Rightarrow> string \<times> json \<Rightarrow> (string \<times> json) list list option" where
  "decode_envelope_member F acc kv =
     (if acc \<noteq> None \<and> field_match ''data'' (fst kv) then
        (case snd kv of
           JNull \<Rightarrow> acc
         | JObj members \<Rightarrow> foldl (decode_data_member F) acc members
         | _ \<Rightarrow> None)
      else acc)"

definition queryEnvelope :: "Float64 \<Rightarrow> string \<Rightarrow> (string \<times> json) list list option" where
  "queryEnvelope F body =
     (case json_decode body of
        Some (JObj kvs) \<Rightarrow> foldl (decode_envelope_member F) (Some []) kvs
      | Some JNull \<Rightarrow> Some []
      | _ \<Rightarrow> None)"

fun live_records :: "DediLib \<Rightarrow> (string \<times> json) list list \<Rightarrow> SubscriberRecord list" where
  "live_records lib [] = []"
| "live_records lib (data # rest) =
     (if jstring data ''state'' \<noteq> ''live'' then live_records lib rest
      else
        (case node_record lib data of
           Inl e \<Rightarrow> live_records lib rest
         | Inr r \<Rightarrow> r # live_records lib rest))"

definition dedi_QueryByNetwork :: "'w DeDiRegistryClient \<Rightarrow> 'w \<Rightarrow> string \<Rightarrow> (goerr + SubscriberRecord list) \<times> 'w" where
  "dedi_QueryByNetwork c w networkID =
     (if networkID = [] then
        (Inl (NewBadReqErr codeCtxMissingField (ErrText ''networkID is required for DeDi query'')), w)
      else if \<not> validPath networkID then
        (Inl (NewBadReqErr codeCtxInvalidField (ErrText (''networkID '' @ go_quote networkID @
           '' has an empty, whitespace-only, '' @ go_quote ''.'' @ '' or '' @ go_quote ''..'' @ '' segment''))), w)
      else
        (case doGet c w (DdURL (DcConfig c) @ ''/query/'' @ escapePath networkID) ''network query'' maxQueryResponseBytes entityNotFound of
           (Inl e, w1) \<Rightarrow> (Inl e, w1)
         | (Inr body, w1) \<Rightarrow>
             (case queryEnvelope (LibFloat (DcLib c)) body of
                None \<Rightarrow>
                  (Inl (badUpstreamResponse (errorf_w ''failed to unmarshal network query response body: '' (ErrText ''json.Unmarshal''))), w1)
              | Some records \<Rightarrow> (Inr (live_records (DcLib c) records), w1))))"

text \<open>The two interfaces that the client implements.\<close>

definition dedi_lookup_plugin :: "'w DeDiRegistryClient \<Rightarrow> 'w RegistryLookup" where
  "dedi_lookup_plugin c = \<lparr>Lookup = (\<lambda>w ctx req. dedi_Lookup c w (ScCtx ctx) (Some (Body ctx)) req)\<rparr>"

definition dedi_metadata_plugin :: "'w DeDiRegistryClient \<Rightarrow> 'w RegistryMetadataLookup" where
  "dedi_metadata_plugin c =
     \<lparr>LookupRegistry = (\<lambda>w a b. let (r, w1) = dedi_LookupRegistry c w a b in (map_sum id Some r, w1)),
      LookupNode = (\<lambda>w n. let (r, w1) = dedi_LookupNode c w n in (map_sum id Some r, w1)),
      QueryByNetwork = dedi_QueryByNetwork c\<rparr>"

subsection \<open>The entry point (cmd/plugin.go)\<close>

text \<open>A set duration with a lower bound; an absent or empty setting leaves zero.\<close>

definition dedi_wait :: "(string \<Rightarrow> int option) \<Rightarrow> (int \<Rightarrow> string) \<Rightarrow> (string \<rightharpoonup> string) \<Rightarrow> string \<Rightarrow> goerr + int" where
  "dedi_wait ParseDuration duration_text config key =
     (case config key of
        Some raw \<Rightarrow>
          if raw = [] then Inr 0
          else
            (case ParseDuration raw of
               None \<Rightarrow> Inl (errorf_w (''invalid '' @ key @ '' value '' @ [CHR 0x27] @ raw @ [CHR 0x27] @ '': '') (ErrText ''time.ParseDuration''))
             | Some d \<Rightarrow> if d < 0 then Inl (ErrText (key @ '' must be non-negative, got '' @ duration_text d)) else Inr d)
      | None \<Rightarrow> Inr 0)"

definition dedi_count :: "(string \<rightharpoonup> string) \<Rightarrow> string \<Rightarrow> int \<Rightarrow> string \<Rightarrow> goerr + int" where
  "dedi_count config key lowest complaint =
     (case config key of
        Some raw \<Rightarrow>
          if raw = [] then Inr 0
          else
            (case Atoi raw of
               None \<Rightarrow> Inl (errorf_w (''invalid '' @ key @ '' value '' @ [CHR 0x27] @ raw @ [CHR 0x27] @ '': '') (ErrText ''strconv.Atoi''))
             | Some n \<Rightarrow> if n < lowest then Inl (ErrText (key @ complaint @ int_dec n)) else Inr n)
      | None \<Rightarrow> Inr 0)"

text \<open>An invalid \<open>cacheTTL\<close> is logged and ignored.\<close>

definition dedi_cache_ttl :: "(string \<Rightarrow> int option) \<Rightarrow> (string \<rightharpoonup> string) \<Rightarrow> int" where
  "dedi_cache_ttl ParseDuration config =
     (case config ''cacheTTL'' of
        Some raw \<Rightarrow> if raw = [] then 0 else (case ParseDuration raw of None \<Rightarrow> 0 | Some d \<Rightarrow> d)
      | None \<Rightarrow> 0)"

definition dedi_parseConfig ::
  "(string \<Rightarrow> int option) \<Rightarrow> (int \<Rightarrow> string) \<Rightarrow> (string \<rightharpoonup> string) \<Rightarrow> goerr + DediConfig" where
  "dedi_parseConfig ParseDuration duration_text config =
     (case dedi_count config ''timeout'' 1 '' must be positive, got '' of
        Inl e \<Rightarrow> Inl e
      | Inr timeout \<Rightarrow>
     (case dedi_count config ''retry_max'' 0 '' must be non-negative, got '' of
        Inl e \<Rightarrow> Inl e
      | Inr retryMax \<Rightarrow>
     (case dedi_wait ParseDuration duration_text config ''retry_wait_min'' of
        Inl e \<Rightarrow> Inl e
      | Inr waitMin \<Rightarrow>
     (case dedi_wait ParseDuration duration_text config ''retry_wait_max'' of
        Inl e \<Rightarrow> Inl e
      | Inr waitMax \<Rightarrow>
          if waitMin > 0 \<and> waitMax > 0 \<and> waitMin > waitMax then
            Inl (ErrText (''retry_wait_min ('' @ duration_text waitMin @ '') must not exceed retry_wait_max ('' @ duration_text waitMax @ '')''))
          else
            Inr \<lparr>DdURL = (case config ''url'' of None \<Rightarrow> [] | Some u \<Rightarrow> u), DdCacheTTL = dedi_cache_ttl ParseDuration config,
                 AllowedNetworkIDs = [], DdTimeout = timeout, DdRetryMax = retryMax, DdRetryWaitMin = waitMin,
                 DdRetryWaitMax = waitMax\<rparr>))))"

definition parseAllowedNetworkIDs :: "string \<Rightarrow> string list" where
  "parseAllowedNetworkIDs raw = filter (\<lambda>x. x \<noteq> []) (map TrimSpace (Split (CHR '','') raw))"

definition resolveAllowedNetworkIDs :: "(string \<rightharpoonup> string) \<Rightarrow> goerr + string list" where
  "resolveAllowedNetworkIDs config =
     (if (case config ''allowedParentNamespaces'' of None \<Rightarrow> False | Some raw \<Rightarrow> raw \<noteq> []) \<and> config ''allowedNetworkIDs'' = None then
        Inl (ErrText (''config key '' @ [CHR 0x27] @ ''allowedParentNamespaces'' @ [CHR 0x27] @ '' is no longer supported; use '' @
          [CHR 0x27] @ ''allowedNetworkIDs'' @ [CHR 0x27] @ '' with full network IDs''))
      else
        (case config ''allowedNetworkIDs'' of
           Some raw \<Rightarrow> Inr (if raw \<noteq> [] then parseAllowedNetworkIDs raw else [])
         | None \<Rightarrow> Inr []))"

definition dedi_plugin_New ::
  "(string \<Rightarrow> int option) \<Rightarrow> (int \<Rightarrow> string) \<Rightarrow> (DediConfig option \<Rightarrow> goerr + 'w DeDiRegistryClient) \<Rightarrow> Context option \<Rightarrow>
     (string \<rightharpoonup> string) \<Rightarrow> goerr + 'w DeDiRegistryClient" where
  "dedi_plugin_New ParseDuration duration_text newFunc ctx config =
     (case ctx of
        None \<Rightarrow> Inl (ErrText ''context cannot be nil'')
      | Some _ \<Rightarrow>
     (case dedi_parseConfig ParseDuration duration_text config of
        Inl e \<Rightarrow> Inl (errorf_w ''failed to parse DeDi registry configuration: '' e)
      | Inr dediConfig \<Rightarrow>
     (case resolveAllowedNetworkIDs config of
        Inl e \<Rightarrow> Inl e
      | Inr allowed \<Rightarrow> newFunc (Some (dediConfig\<lparr>AllowedNetworkIDs := allowed\<rparr>)))))"

end
