(* ===== verification/Dedi_Trust.thy ===== *)
theory Dedi_Trust
  imports Dedi_Registry Raw_Json
begin

text \<open>
  What a look-up of signing keys in the DeDi registry guarantees: every record that it returns, from
  the network or from the cache, is the one that DeDi served for the requested subscriber and key,
  belongs to that subscriber, and its network memberships pass the present configuration and the
  present request. Failures are classified, and their texts do not show the internals of the
  registry.
\<close>

subsection \<open>A cache with any time to live\<close>

text \<open>
  DeDi states the life time of a record, so that a set may have no positive life time. A Redis server
  that may fail or forget, but never invents: \<open>live\<close> bounds what a key may have.
\<close>

definition redis_keeps :: "'w RedisClient \<Rightarrow> ('w \<Rightarrow> string \<rightharpoonup> string) \<Rightarrow> bool" where
  "redis_keeps R live \<longleftrightarrow>
     (\<forall>w k r w'. RGet R w k = (r, w') \<longrightarrow> live w' \<subseteq>\<^sub>m live w \<and> (\<forall>v. r = Inr (Some v) \<longrightarrow> live w k = Some v)) \<and>
     (\<forall>w k v ttl e w'. RSet R w k v ttl = (e, w') \<longrightarrow> live w' \<subseteq>\<^sub>m (live w)(k \<mapsto> v))"

locale lasting_cache = string_cache +
  assumes set_any: "ok w \<Longrightarrow> CacheSet cache w k v ttl = (e, w') \<Longrightarrow> ok w' \<and> held w' \<subseteq>\<^sub>m (held w)(k \<mapsto> v)"
begin

lemma all_held_set_any:
  assumes "all_held ok held P w" "P k v" "CacheSet cache w k v ttl = (e, w')"
  shows "all_held ok held P w'"
proof -
  from set_any [OF _ assms(3)] assms(1) have "ok w'" and le: "held w' \<subseteq>\<^sub>m (held w)(k \<mapsto> v)" by (auto simp: all_held_def)
  have "((held w)(k \<mapsto> v)) k' = Some v'" if "held w' k' = Some v'" for k' v'
    using le that unfolding map_le_def dom_def by (metis (mono_tags, lifting) mem_Collect_eq option.discI)
  with assms(1,2) \<open>ok w'\<close> show ?thesis unfolding all_held_def by (metis fun_upd_apply option.inject)
qed

end

interpretation kept_cache: lasting_cache "cache_plugin R" "\<lambda>w. redis_keeps R live" live for R live
proof (unfold_locales, goal_cases)
  case (1 w k r w')
  then show ?case
    unfolding redis_keeps_def cache_plugin_def cache_Get_def
    by (auto split: prod.splits sum.splits option.splits)
next
  case (2 w ttl k v e w')
  then show ?case unfolding redis_keeps_def cache_plugin_def cache_Set_def by auto
next
  case (3 w k v ttl e w')
  then show ?case unfolding redis_keeps_def cache_plugin_def cache_Set_def by auto
qed

subsection \<open>Cache keys\<close>

fun path_unescape :: "string \<Rightarrow> string" where
  "path_unescape (c # a # b # s) =
     (if c = CHR ''%'' then char_of (16 * hex_val a + hex_val b) # path_unescape s else c # path_unescape (a # b # s))"
| "path_unescape s = s"

lemma hex_val_upper: "d < 16 \<Longrightarrow> hex_val (hex_upper d) = d"
  by (auto simp: hex_val_def hex_upper_def is_digit_def)

lemma percent_escaped [simp]: "\<not> path_byte (CHR ''%'')" "\<not> path_byte (CHR ''/'')"
  by (simp_all add: path_byte_def in_range_def)

lemma path_unescape_plain: "c \<noteq> CHR ''%'' \<Longrightarrow> path_unescape (c # s) = c # path_unescape s"
proof (cases s)
  case (Cons a t)
  then show "c \<noteq> CHR ''%'' \<Longrightarrow> ?thesis" by (cases t) simp_all
qed simp

lemma path_unescape_byte: "path_unescape (escape_byte c @ s) = c # path_unescape s"
proof (cases "path_byte c")
  case True
  then have "c \<noteq> CHR ''%''" by auto
  with True show ?thesis by (simp add: escape_byte_def path_unescape_plain)
next
  case False
  have "(of_char c :: nat) < 256" by simp
  then have "(of_char c :: nat) div 16 < 16" "(of_char c :: nat) mod 16 < 16" by (simp_all add: less_mult_imp_div_less)
  with False show ?thesis by (simp add: escape_byte_def hex_val_upper del: of_char_mod_256)
qed

lemma path_unescape_escape: "path_unescape (PathEscape s) = s"
  by (induction s) (simp_all add: PathEscape_def path_unescape_byte)

lemma PathEscape_inj: "PathEscape s = PathEscape t \<longleftrightarrow> s = t"
  by (metis path_unescape_escape)

lemma hex_upper_not_slash: "d < 16 \<Longrightarrow> hex_upper d \<noteq> CHR ''/''"
  by (auto simp: hex_upper_def dest: arg_cong [where f = "of_char :: char \<Rightarrow> nat"])

lemma escape_byte_no_slash: "CHR ''/'' \<notin> set (escape_byte c)"
proof -
  have "(of_char c :: nat) < 256" by simp
  then have "(of_char c :: nat) div 16 < 16" "(of_char c :: nat) mod 16 < 16" by (simp_all add: less_mult_imp_div_less)
  then have "CHR ''/'' \<noteq> hex_upper ((of_char c :: nat) div 16)" "CHR ''/'' \<noteq> hex_upper ((of_char c :: nat) mod 16)"
    using hex_upper_not_slash by metis+
  then show ?thesis by (auto simp: escape_byte_def split: if_splits)
qed

lemma PathEscape_no_slash: "CHR ''/'' \<notin> set (PathEscape s)"
  by (induction s) (simp_all add: PathEscape_def escape_byte_no_slash)

lemma lookupCacheKey_inj: "lookupCacheKey s k = lookupCacheKey s' k' \<longleftrightarrow> s = s' \<and> k = k'"
  using append_sep_inj [OF PathEscape_no_slash [of s] PathEscape_no_slash [of s'], of "PathEscape k" "PathEscape k'"]
  by (simp add: lookupCacheKey_def PathEscape_inj)

lemma lookup_url_inj: "lookup_url c s k = lookup_url c s' k' \<longleftrightarrow> s = s' \<and> k = k'"
  using append_sep_inj [OF PathEscape_no_slash [of s] PathEscape_no_slash [of s'],
      of "dediAllRegistriesWildcard @ CHR ''/'' # PathEscape k" "dediAllRegistriesWildcard @ CHR ''/'' # PathEscape k'"]
  by (simp add: lookup_url_def PathEscape_inj)

subsection \<open>Decoded responses are valid UTF-8\<close>

lemma valid_JObj: "json_coerce (JObj kvs) = JObj kvs \<longleftrightarrow> valid_members kvs"
  using map_eq_conv [of "\<lambda>p. (utf8_coerce (fst p), json_coerce (snd p))" kvs id]
  by (auto simp: valid_members_def list_all_iff prod_eq_iff)

lemma valid_JArr: "json_coerce (JArr vs) = JArr vs \<longleftrightarrow> (\<forall>v \<in> set vs. json_coerce v = v)"
  using map_eq_conv [of json_coerce vs id] by simp

lemma go_value_valid: "json_coerce v = v \<Longrightarrow> json_coerce (go_value F v) = go_value F v"
proof (induction F v rule: go_value.induct)
  case (2 F vs)
  then show ?case by (simp only: go_value.simps valid_JArr) auto
next
  case (3 F kvs)
  have "valid_members (map (\<lambda>p. (fst p, go_value F (snd p))) kvs)"
    using 3 by (auto simp: valid_members_def list_all_iff valid_JObj simp del: json_coerce.simps)
  then show ?case
    unfolding go_value.simps valid_JObj using last_wins_subset unfolding valid_members_def list_all_iff by blast
qed simp_all

lemma jget_valid: "valid_members kvs \<Longrightarrow> jget kvs k = Some v \<Longrightarrow> json_coerce v = v"
  unfolding valid_members_def list_all_iff jget_def by (metis map_of_SomeD set_rev snd_conv)

lemma jstring_valid: "valid_members kvs \<Longrightarrow> utf8_coerce (jstring kvs k) = jstring kvs k"
  using jget_valid [of kvs k] by (auto simp: jstring_def split: option.splits json.splits)

lemma valid_members_append: "valid_members (a @ b) \<longleftrightarrow> valid_members a \<and> valid_members b"
  unfolding valid_members_def list_all_iff by auto

lemma valid_members_put: "valid_members m \<Longrightarrow> utf8_coerce k = k \<Longrightarrow> json_coerce v = v \<Longrightarrow>
    valid_members (map (\<lambda>p. if fst p = k then (k, v) else p) m)"
  unfolding valid_members_def by (induction m) simp_all

lemma go_set_valid: "valid_members m \<Longrightarrow> utf8_coerce k = k \<Longrightarrow> json_coerce v = v \<Longrightarrow> valid_members (go_set m k v)"
  by (simp add: go_set_def valid_members_put valid_members_append) (simp add: valid_members_def)

lemma go_sets_valid: "valid_members kvs \<Longrightarrow> valid_members m \<Longrightarrow> valid_members (foldl (\<lambda>acc p. go_set acc (fst p) (snd p)) m kvs)"
proof (induction kvs arbitrary: m)
  case (Cons p kvs)
  from Cons.prems(1) have "valid_members kvs" "utf8_coerce (fst p) = fst p" "json_coerce (snd p) = snd p" unfolding valid_members_def list_all_iff by auto
  with Cons.IH go_set_valid [OF Cons.prems(2)] show ?case by simp
qed simp

lemma parse_data_valid: "parse_data F operation body = Inr data \<Longrightarrow> valid_members data"
proof -
  assume "parse_data F operation body = Inr data"
  then obtain m where m: "unmarshal_map F body None = Some m" "jget (go_entries m) ''data'' = Some (JObj data)"
    by (auto simp: parse_data_def split: option.splits json.splits)
  then obtain v kvs where "json_decode body = Some v" "go_value F v = JObj kvs"
      "m = Some (foldl (\<lambda>acc p. go_set acc (fst p) (snd p)) [] kvs)"
    by (auto simp: unmarshal_map_def unmarshal_any_def go_entries_def jget_def split: option.splits json.splits if_splits)
  moreover from this json_decode_valid go_value_valid have "valid_members kvs" using valid_JObj by metis
  ultimately have "valid_members (go_entries m)" using go_sets_valid [of kvs "[]"] by (simp add: go_entries_def valid_members_def list_all_iff)
  with m(2) show ?thesis using jget_valid valid_JObj by blast
qed

lemma strings_valid: "valid_members data \<Longrightarrow> map utf8_coerce (extractStringSlice (jget data k)) = extractStringSlice (jget data k)"
  using jget_valid [of data k] valid_JArr
  by (fastforce simp: extractStringSlice_def intro!: map_idI split: option.splits json.splits if_splits simp del: json_coerce.simps(2))

text \<open>Only the key id, which the request states, can change when a record passes through the cache.\<close>

lemma lookup_record_valid:
  assumes "valid_members data" "lookup_record lib sub key data = Inr r"
  shows "coerce_subscription r = r\<lparr>KeyID := utf8_coerce key\<rparr>" and "KeyID r = key" and "SigningPublicKey r \<noteq> []"
    and "isSubscriberRecord lib (SubscriberID r) sub"
proof -
  obtain details where d: "jget data ''details'' = Some (JObj details)"
    using assms(2) by (auto simp: lookup_record_def parseSubscriptionFromData_def split: option.splits json.splits)
  then have "valid_members details" using jget_valid [OF assms(1)] valid_JObj by blast
  then show "coerce_subscription r = r\<lparr>KeyID := utf8_coerce key\<rparr>" "KeyID r = key" "SigningPublicKey r \<noteq> []"
    "isSubscriberRecord lib (SubscriberID r) sub"
    using assms(2) d jstring_valid [of details] strings_valid [OF assms(1)]
    by (auto simp: lookup_record_def parseSubscriptionFromData_def coerce_subscription_def split: if_splits)
qed

subsection \<open>What is returned and what is cached\<close>

text \<open>A record that DeDi serves for a subscriber and a key.\<close>

definition dedi_record :: "'w DeDiRegistryClient \<Rightarrow> string \<Rightarrow> string \<Rightarrow> Subscription \<Rightarrow> bool" where
  "dedi_record c sub key r \<longleftrightarrow>
     (\<exists>w w' resp body data. RcDo (DcClient c) w ''GET'' (lookup_url c sub key) [] = (Inr resp, w') \<and> HrStatus resp = 200 \<and>
        read_body (maxLookupResponseBytes + 1) resp = Inr body \<and> length body \<le> maxLookupResponseBytes \<and>
        parse_data (LibFloat (DcLib c)) ''record lookup'' body = Inr data \<and> lookup_record (DcLib c) sub key data = Inr r)"

text \<open>The memberships that the present configuration and request admit.\<close>

definition admitted :: "string list \<Rightarrow> string \<Rightarrow> Subscription \<Rightarrow> bool" where
  "admitted allowed networkID s \<longleftrightarrow>
     isNetworkAgnosticSubscriber (SubscriberID s) \<or>
     ((allowed \<noteq> [] \<longrightarrow> (\<exists>n \<in> set (NetworkMemberships s). n \<noteq> [] \<and> n \<in> set allowed)) \<and>
      (networkID \<noteq> [] \<longrightarrow> networkID \<in> set (NetworkMemberships s) \<and> (allowed \<noteq> [] \<longrightarrow> networkID \<in> set allowed)))"

lemma containsAny_iff: "containsAny vs allowed \<longleftrightarrow> (\<exists>n \<in> set vs. n \<noteq> [] \<and> n \<in> set allowed)"
  by (auto simp: containsAny_def list_ex_iff)

lemma validateMemberships_None:
  "validateMemberships allowed n (NetworkMemberships s) (SubscriberID s) = None \<longleftrightarrow> admitted allowed n s"
  by (auto simp: validateMemberships_def validateContextNetworkID_def admitted_def containsAny_iff)

definition dedi_text :: "'w DeDiRegistryClient \<Rightarrow> string \<Rightarrow> string \<Rightarrow> bool" where
  "dedi_text c k v \<longleftrightarrow>
     (\<forall>sub key. k = lookupCacheKey sub key \<longrightarrow>
        (\<exists>r. dedi_record c sub key r \<and> marshal_subscriptions (LibCodec (DcLib c)) [r] = Some v))"

text \<open>A result for a subscriber and a key: the record itself, or its copy in the cache.\<close>

definition certified :: "'w DeDiRegistryClient \<Rightarrow> string \<Rightarrow> string \<Rightarrow> Subscription \<Rightarrow> bool" where
  "certified c sub key s \<longleftrightarrow>
     (\<exists>r. dedi_record c sub key r \<and> (s = r \<or> s = r\<lparr>KeyID := utf8_coerce key\<rparr>)) \<and> isSubscriberRecord (DcLib c) (SubscriberID s) sub"

lemma dedi_record_valid:
  assumes "dedi_record c sub key r"
  shows "coerce_subscription r = r\<lparr>KeyID := utf8_coerce key\<rparr>" and "isSubscriberRecord (DcLib c) (SubscriberID r) sub"
    and "SigningPublicKey r \<noteq> []"
proof -
  obtain body data where "parse_data (LibFloat (DcLib c)) ''record lookup'' body = Inr data" "lookup_record (DcLib c) sub key data = Inr r"
    using assms unfolding dedi_record_def by blast
  note valid = lookup_record_valid [OF parse_data_valid [OF this(1)] this(2)]
  from valid(1) show "coerce_subscription r = r\<lparr>KeyID := utf8_coerce key\<rparr>" .
  from valid(4) show "isSubscriberRecord (DcLib c) (SubscriberID r) sub" .
  from valid(3) show "SigningPublicKey r \<noteq> []" .
qed

lemma fetchDeDiData_served:
  assumes "fetchDeDiData c w (lookup_url c sub key) ''record lookup'' subscriberNotFound = (Inr data, w')"
    and "lookup_record (DcLib c) sub key data = Inr r"
  shows "dedi_record c sub key r"
  using assms unfolding fetchDeDiData_def doGet_def dedi_record_def
  by (simp split: option.splits prod.splits sum.splits if_splits) (metis not_le)

lemma fetchDeDiData_state:
  "fetchDeDiData c w url op nf = (r, w') \<Longrightarrow> w' = w \<or> (\<exists>rd. RcDo (DcClient c) w ''GET'' url [] = (rd, w'))"
  unfolding fetchDeDiData_def doGet_def by (simp split: option.splits prod.splits sum.splits if_splits)

lemma dedi_Lookup_cases:
  assumes "dedi_Lookup c w ctx sb req = (r, w')"
    and "cachedLookup c w (lookupCacheKey (SubscriberID req) (KeyID req)) (SubscriberID req) = (rc, wc)"
  obtains e where "w' = w" "r = Inl (NewSignValidationErr codeAutSignatureInvalid e)" | e where "w' = wc" "rc = Inl e" "r = Inl e"
    | rs where "rc = Inr (Some rs)" "r = check_cached c (extractContextNetworkID (LibFloat (DcLib c)) ctx sb) rs" "w' = wc"
    | "remote_lookup c wc (extractContextNetworkID (LibFloat (DcLib c)) ctx sb) (SubscriberID req) (KeyID req) = (r, w')"
proof (cases "SubscriberID req = [] \<or> KeyID req = [] \<or> \<not> validSegment (SubscriberID req) \<or> \<not> validSegment (KeyID req)")
  case True
  with assms(1) have "w' = w \<and> (\<exists>e. r = Inl (NewSignValidationErr codeAutSignatureInvalid e))" unfolding dedi_Lookup_def Let_def by (simp split: if_split_asm) blast+
  with that(1) show ?thesis by blast
next
  case False
  with assms have step: "(case rc of Inl e \<Rightarrow> (Inl e, wc) | Inr (Some rs) \<Rightarrow> (check_cached c (extractContextNetworkID (LibFloat (DcLib c)) ctx sb) rs, wc)
      | Inr None \<Rightarrow> remote_lookup c wc (extractContextNetworkID (LibFloat (DcLib c)) ctx sb) (SubscriberID req) (KeyID req)) = (r, w')"
    unfolding dedi_Lookup_def Let_def by (simp split: sum.splits option.splits)
  show ?thesis
  proof (cases rc)
    case (Inr hit)
    with step that(3,4) show ?thesis by (cases hit) simp_all
  qed (use step that(2) in auto)
qed

locale dedi_client = lasting_cache cache ok held
  for cache :: "'w Cache" and ok :: "'w \<Rightarrow> bool" and held :: "'w \<Rightarrow> string \<rightharpoonup> string" +
  fixes c :: "'w DeDiRegistryClient"
  assumes has_cache: "ok w \<Longrightarrow> DcCache c = Some cache"
    and do_keeps: "ok w \<Longrightarrow> RcDo (DcClient c) w m u b = (rd, w') \<Longrightarrow> ok w' \<and> held w' \<subseteq>\<^sub>m held w"
    and codec_ok: "ok w \<Longrightarrow> codec_reads_back (LibCodec (DcLib c))"
begin

lemma trusted_ok: "all_held ok held (dedi_text c) w \<Longrightarrow> ok w"
  by (simp add: all_held_def)

lemma fetch_keeps:
  assumes "all_held ok held (dedi_text c) w" "fetchDeDiData c w url op nf = (r, w')"
  shows "all_held ok held (dedi_text c) w'"
  using fetchDeDiData_state [OF assms(2)] assms(1) all_held_less [OF assms(1)] do_keeps trusted_ok by blast

lemma cached_keeps:
  assumes "all_held ok held (dedi_text c) w" "cachedLookup c w (lookupCacheKey sub key) sub = (r, w')"
  shows "all_held ok held (dedi_text c) w'" and "r = Inr (Some rs) \<Longrightarrow> \<exists>s. rs = [s] \<and> certified c sub key s"
proof -
  note ok = trusted_ok [OF assms(1)]
  obtain rg wg where get: "CacheGet cache w (lookupCacheKey sub key) = (rg, wg)" by (cases "CacheGet cache w (lookupCacheKey sub key)")
  have w': "w' = wg" using assms(2) get by (simp add: cachedLookup_def has_cache [OF ok] split: sum.splits option.splits list.splits if_splits)
  then show "all_held ok held (dedi_text c) w'" using all_held_get(1) [OF assms(1) get] by simp
  assume "r = Inr (Some rs)"
  then obtain v where v: "rg = Inr v" "unmarshal_subscriptions (LibCodec (DcLib c)) v = Some rs"
      and mine: "\<And>s ss. rs = s # ss \<Longrightarrow> isSubscriberRecord (DcLib c) (SubscriberID s) sub"
    using assms(2) get by (auto simp: cachedLookup_def has_cache [OF ok] split: sum.splits option.splits list.splits if_splits)
  have "v \<noteq> []" using v(2) by (auto simp: unmarshal_subscriptions_def json_decode_def is_ws_def)
  with all_held_get(2) [OF assms(1) get v(1)] obtain r' where r': "dedi_record c sub key r'"
      "marshal_subscriptions (LibCodec (DcLib c)) [r'] = Some v"
    by (auto simp: dedi_text_def)
  have "rs = [coerce_subscription r']"
    using unmarshal_marshal_subscriptions [OF codec_ok [OF ok] r'(2)] v(2) by simp
  then show "\<exists>s. rs = [s] \<and> certified c sub key s"
    using r'(1) dedi_record_valid(1) [OF r'(1)] mine by (auto simp: certified_def)
qed

lemma cache_record_keeps:
  assumes "all_held ok held (dedi_text c) w" "dedi_record c sub key s"
    and "cache_record c w (lookupCacheKey sub key) ttl s = (e, w')"
  shows "all_held ok held (dedi_text c) w'"
proof -
  have "dedi_text c (lookupCacheKey sub key) v" if "marshal_subscriptions (LibCodec (DcLib c)) [s] = Some v" for v
    using that assms(2) by (auto simp: dedi_text_def lookupCacheKey_inj)
  then show ?thesis
    using assms(1,3) all_held_set_any [OF assms(1)]
    by (auto simp: cache_record_def has_cache [OF trusted_ok [OF assms(1)]] split: option.splits prod.splits)
qed

lemma remote_keeps:
  assumes "all_held ok held (dedi_text c) w" "remote_lookup c w n sub key = (r, w')"
  shows "all_held ok held (dedi_text c) w'"
    and "r = Inr rs \<Longrightarrow> \<exists>s. rs = [s] \<and> certified c sub key s \<and> admitted (AllowedNetworkIDs (DcConfig c)) n s"
proof -
  obtain rf wf where fetch: "fetchDeDiData c w (lookup_url c sub key) ''record lookup'' subscriberNotFound = (rf, wf)"
    by (cases "fetchDeDiData c w (lookup_url c sub key) ''record lookup'' subscriberNotFound")
  note wf = fetch_keeps [OF assms(1) fetch]
  from assms(2) fetch consider "w' = wf" "\<exists>e. r = Inl e"
    | data s e where "rf = Inr data" "lookup_record (DcLib c) sub key data = Inr s"
        "validateMemberships (AllowedNetworkIDs (DcConfig c)) n (NetworkMemberships s) (SubscriberID s) = None"
        "cache_record c wf (lookupCacheKey sub key) (entry_lifetime c data) s = (e, w')" "r = (case e of None \<Rightarrow> Inr [s] | Some x \<Rightarrow> Inl x)"
    by (auto simp: remote_lookup_def split: sum.splits option.splits prod.splits)
  then have "all_held ok held (dedi_text c) w' \<and>
      (\<forall>rs. r = Inr rs \<longrightarrow> (\<exists>s. rs = [s] \<and> certified c sub key s \<and> admitted (AllowedNetworkIDs (DcConfig c)) n s))"
  proof cases
    case (2 data s e)
    have rec: "dedi_record c sub key s" using fetchDeDiData_served [OF fetch [unfolded 2(1)] 2(2)] .
    then have "certified c sub key s" using dedi_record_valid(2) by (auto simp: certified_def)
    with 2 cache_record_keeps [OF wf rec 2(4)] show ?thesis by (auto simp: validateMemberships_None split: option.splits)
  qed (use wf in auto)
  then show "all_held ok held (dedi_text c) w'"
    and "r = Inr rs \<Longrightarrow> \<exists>s. rs = [s] \<and> certified c sub key s \<and> admitted (AllowedNetworkIDs (DcConfig c)) n s" by auto
qed

lemma lookup_keeps:
  assumes "all_held ok held (dedi_text c) w" "dedi_Lookup c w ctx sb req = (r, w')"
  shows "all_held ok held (dedi_text c) w'"
    and "r = Inr rs \<Longrightarrow> \<exists>s. rs = [s] \<and> certified c (SubscriberID req) (KeyID req) s \<and>
      admitted (AllowedNetworkIDs (DcConfig c)) (extractContextNetworkID (LibFloat (DcLib c)) ctx sb) s"
proof -
  let ?sub = "SubscriberID req" and ?key = "KeyID req" and ?n = "extractContextNetworkID (LibFloat (DcLib c)) ctx sb"
  obtain rc wc where cached: "cachedLookup c w (lookupCacheKey ?sub ?key) ?sub = (rc, wc)"
    by (cases "cachedLookup c w (lookupCacheKey ?sub ?key) ?sub")
  note hit = cached_keeps [OF assms(1) cached]
  from assms(2) cached have "all_held ok held (dedi_text c) w' \<and>
      (\<forall>rs. r = Inr rs \<longrightarrow> (\<exists>s. rs = [s] \<and> certified c ?sub ?key s \<and> admitted (AllowedNetworkIDs (DcConfig c)) ?n s))"
  proof (cases rule: dedi_Lookup_cases)
    case (3 rs')
    with hit(1) hit(2) [of rs'] show ?thesis by (auto simp: check_cached_def validateMemberships_None split: option.splits)
  next
    case 4
    with remote_keeps [OF hit(1)] show ?thesis by blast
  qed (use assms(1) hit(1) in auto)
  then show "all_held ok held (dedi_text c) w'"
    and "r = Inr rs \<Longrightarrow> \<exists>s. rs = [s] \<and> certified c ?sub ?key s \<and> admitted (AllowedNetworkIDs (DcConfig c)) ?n s" by auto
qed

end

subsection \<open>A client over the Redis cache\<close>

definition dedi_over :: "'w DeDiRegistryClient \<Rightarrow> 'w RedisClient \<Rightarrow> ('w \<Rightarrow> string \<rightharpoonup> string) \<Rightarrow> bool" where
  "dedi_over c R live \<longleftrightarrow>
     DcCache c = Some (cache_plugin R) \<and> redis_keeps R live \<and> codec_reads_back (LibCodec (DcLib c)) \<and>
     (\<forall>w m u b r w'. RcDo (DcClient c) w m u b = (r, w') \<longrightarrow> live w' \<subseteq>\<^sub>m live w)"

lemma dedi_overD:
  assumes "dedi_over c R live"
  shows "DcCache c = Some (cache_plugin R)" "redis_keeps R live" "codec_reads_back (LibCodec (DcLib c))"
    "RcDo (DcClient c) w m u b = (r, w') \<Longrightarrow> live w' \<subseteq>\<^sub>m live w"
  using assms unfolding dedi_over_def by blast+

interpretation redis_dedi: dedi_client "cache_plugin R" "\<lambda>w. dedi_over c R live" live c for c R live
proof (unfold_locales, goal_cases)
  case (1 w k r w')
  then show ?case using kept_cache.get_held [OF dedi_overD(2) [OF 1(1)] 1(2)] by simp
next
  case (2 w ttl k v e w')
  then show ?case using kept_cache.set_any [OF dedi_overD(2) [OF 2(1)] 2(3)] by simp
next
  case (3 w k v ttl e w')
  then show ?case using kept_cache.set_any [OF dedi_overD(2) [OF 3(1)] 3(2)] by simp
next
  case (4 w)
  then show ?case by (rule dedi_overD(1))
next
  case (5 w m u b rd w')
  then show ?case using dedi_overD(4) [OF 5] by simp
next
  case (6 w)
  then show ?case by (rule dedi_overD(3))
qed

text \<open>The client after a restart with another list of allowed networks.\<close>

definition with_allowed :: "'w DeDiRegistryClient \<Rightarrow> string list \<Rightarrow> 'w DeDiRegistryClient" where
  "with_allowed c allowed = c\<lparr>DcConfig := (DcConfig c)\<lparr>AllowedNetworkIDs := allowed\<rparr>\<rparr>"

lemma with_allowed_simps [simp]:
  "DcLib (with_allowed c al) = DcLib c" "DcCache (with_allowed c al) = DcCache c" "DcClient (with_allowed c al) = DcClient c"
  "AllowedNetworkIDs (DcConfig (with_allowed c al)) = al" "lookup_url (with_allowed c al) s k = lookup_url c s k"
  by (simp_all add: with_allowed_def lookup_url_def)

lemma with_allowed_same:
  "dedi_over (with_allowed c al) R live = dedi_over c R live" "dedi_record (with_allowed c al) sub key r = dedi_record c sub key r"
  "dedi_text (with_allowed c al) = dedi_text c" "certified (with_allowed c al) sub key s = certified c sub key s"
  by (simp_all add: dedi_over_def dedi_record_def dedi_text_def [abs_def] certified_def)

inductive dedi_reach :: "'w DeDiRegistryClient \<Rightarrow> 'w \<Rightarrow> 'w \<Rightarrow> bool" for c w0 where
  start: "dedi_reach c w0 w0"
| lookup: "dedi_reach c w0 w \<Longrightarrow> dedi_Lookup (with_allowed c al) w ctx sb req = (r, w') \<Longrightarrow> dedi_reach c w0 w'"

lemma dedi_reach_trusted:
  assumes "dedi_reach c w0 w" "all_held (\<lambda>w. dedi_over c R live) live (dedi_text c) w0"
  shows "all_held (\<lambda>w. dedi_over c R live) live (dedi_text c) w"
  using assms(1)
proof induction
  case (lookup w al ctx sb req r w')
  then show ?case using redis_dedi.lookup_keeps(1) [of "with_allowed c al" R live w ctx sb req r w'] by (simp add: with_allowed_same)
qed (use assms(2) in simp)

text \<open>C13: Only registered keys are used. Start from a Redis server without DeDi entries and let look-ups run in
  any order, with restarts under other lists of allowed networks and with records whose life time is
  zero or negative. Whenever a look-up succeeds, from the network or from the cache, it returns
  exactly one record, which DeDi served for this subscriber id and key id and which has a signing
  key; the record belongs to the subscriber, and it is exempt as the shared catalog service or its
  memberships include an allowed network (when a list is configured) and the network that the
  request names (when it names one, which must then be allowed too).\<close>

theorem dedi_lookup_registered:
  assumes "dedi_over c R live" "\<forall>k. HasPrefix k ''dedi_lookup_v2_'' \<longrightarrow> live w0 k = None" "dedi_reach c w0 w"
    and "dedi_Lookup (with_allowed c allowed) w ctx sb req = (Inr rs, w')"
  shows "\<exists>s r. rs = [s] \<and> dedi_record c (SubscriberID req) (KeyID req) r \<and> SigningPublicKey r \<noteq> [] \<and>
    (s = r \<or> s = r\<lparr>KeyID := utf8_coerce (KeyID req)\<rparr>) \<and> isSubscriberRecord (DcLib c) (SubscriberID s) (SubscriberID req) \<and>
    admitted allowed (extractContextNetworkID (LibFloat (DcLib c)) ctx sb) s"
proof -
  have "all_held (\<lambda>w. dedi_over c R live) live (dedi_text c) w0"
    using assms(1,2) by (auto simp: all_held_def dedi_text_def lookupCacheKey_def HasPrefix_def)
  from dedi_reach_trusted [OF assms(3) this]
  have "all_held (\<lambda>w. dedi_over (with_allowed c allowed) R live) live (dedi_text (with_allowed c allowed)) w"
    by (simp add: with_allowed_same)
  from redis_dedi.lookup_keeps(2) [OF this assms(4), of rs]
  obtain s where s: "rs = [s]" "certified c (SubscriberID req) (KeyID req) s"
      "admitted allowed (extractContextNetworkID (LibFloat (DcLib c)) ctx sb) s"
    by (auto simp: with_allowed_same)
  then obtain r where "dedi_record c (SubscriberID req) (KeyID req) r" "s = r \<or> s = r\<lparr>KeyID := utf8_coerce (KeyID req)\<rparr>"
      "isSubscriberRecord (DcLib c) (SubscriberID s) (SubscriberID req)"
    by (auto simp: certified_def)
  with s dedi_record_valid(3) show ?thesis by blast
qed

subsection \<open>Failures\<close>

text \<open>A refusal of the sender (401 with an \<open>AUT_\<close> code), or a fault of the registry or the adapter.\<close>

definition classified :: "goerr \<Rightarrow> bool" where
  "classified e \<longleftrightarrow> (\<exists>b st. as_coded e = Some (b, st) \<and>
     (HasPrefix (Code b) ''AUT_'' \<and> st = 401 \<or> HasPrefix (Code b) ''NET_'' \<and> st \<in> {500, 502, 503, 504}))"

lemmas dedi_codes = codeNetTimeout_def codeNetDownstreamUnavailable_def codeNetDownstreamInvalidResp_def codeNetRequestCancelled_def
  codeNetInternalError_def codeNetEntityNotFound_def codeAutSubscriberNotFound_def codeAutKeyNotFound_def
  codeAutSignatureInvalid_def codeAutNetworkNotAllowed_def

lemmas coded_defs = as_coded_def NewCodedErr_def NewSignValidationErr_def CodedErr_BecknError_def resolveCode_def HTTPStatus_def

lemma classified_constructors:
  "classified (subscriberNotFound e)" "classified (badUpstreamResponse e)" "classified (downstreamUnavailable e)"
  "classified (internalErr e)" "classified (transportErr T op e)"
  "HasPrefix code ''AUT_'' \<Longrightarrow> classified (NewSignValidationErr code e)"
  by (auto simp: classified_def subscriberNotFound_def badUpstreamResponse_def downstreamUnavailable_def internalErr_def
      transportErr_def coded_defs dedi_codes HasPrefix_def)

lemma classifyStatus_classified: "(\<And>x. classified (nf x)) \<Longrightarrow> classified (classifyStatus op resp nf)"
  by (simp add: classifyStatus_def Let_def classified_constructors)

lemma doGet_classified:
  assumes "\<And>x. classified (nf x)" "doGet c w url op n nf = (Inl e, w')"
  shows "is_panic e \<or> classified e"
  using assms(2) unfolding doGet_def
  by (auto simp: classified_constructors classifyStatus_classified [OF assms(1)] split: option.splits prod.splits sum.splits if_splits)

lemma fetchDeDiData_classified:
  assumes "fetchDeDiData c w url op subscriberNotFound = (Inl e, w')"
  shows "is_panic e \<or> classified e"
  using assms doGet_classified [of subscriberNotFound c w url op maxLookupResponseBytes e w'] classified_constructors(1)
  unfolding fetchDeDiData_def parse_data_def
  by (auto simp: classified_constructors split: option.splits prod.splits sum.splits json.splits)

lemma lookup_record_classified: "lookup_record lib sub key data = Inl e \<Longrightarrow> classified e"
  unfolding lookup_record_def parseSubscriptionFromData_def
  by (auto simp: dedi_codes HasPrefix_def intro!: classified_constructors split: option.splits json.splits if_splits sum.splits)

lemma validateMemberships_classified: "validateMemberships al n ms sub = Some e \<Longrightarrow> classified e"
  unfolding validateMemberships_def validateContextNetworkID_def
  by (auto simp: dedi_codes HasPrefix_def intro!: classified_constructors split: if_splits)

lemma remote_classified:
  assumes "remote_lookup c w n sub key = (Inl e, w')"
  shows "is_panic e \<or> classified e"
  using assms fetchDeDiData_classified [of c w "lookup_url c sub key" "''record lookup''"] lookup_record_classified validateMemberships_classified
  unfolding remote_lookup_def cache_record_def
  by (auto split: option.splits prod.splits sum.splits if_splits)

text \<open>Every failed key look-up in the DeDi registry is classified: unless it panics, it is an
  authentication failure with status 401 and an \<open>AUT_\<close> code, or a fault of the registry or the adapter with
  status 500, 502, 503 or 504 and a \<open>NET_\<close> code. An unreachable or misbehaving registry is never
  reported as an authentication failure of the sender.\<close>

theorem dedi_lookup_errors_classified:
  assumes "dedi_Lookup c w ctx sb req = (Inl e, w')"
  shows "is_panic e \<or> (\<exists>b st. as_coded e = Some (b, st) \<and>
     (HasPrefix (Code b) ''AUT_'' \<and> st = 401 \<or> HasPrefix (Code b) ''NET_'' \<and> st \<in> {500, 502, 503, 504}))"
proof -
  obtain rc wc where cached: "cachedLookup c w (lookupCacheKey (SubscriberID req) (KeyID req)) (SubscriberID req) = (rc, wc)"
    by (cases "cachedLookup c w (lookupCacheKey (SubscriberID req) (KeyID req)) (SubscriberID req)")
  from assms cached have "is_panic e \<or> classified e"
  proof (cases rule: dedi_Lookup_cases)
    case (1 x)
    then show ?thesis using classified_constructors(6) by (simp add: dedi_codes HasPrefix_def)
  next
    case (2 x)
    with cached show ?thesis by (auto simp: cachedLookup_def split: option.splits prod.splits sum.splits if_splits list.splits)
  next
    case (3 rs)
    then show ?thesis using validateMemberships_classified by (auto simp: check_cached_def split: list.splits option.splits)
  qed (rule remote_classified)
  then show ?thesis by (simp add: classified_def)
qed

lemma errors_Is_wraps:
  "errors_Is e x \<Longrightarrow> errors_Is (ErrWrap p e) x" "errors_Is e x \<Longrightarrow> errors_Is (ErrPublic m e) x"
  "errors_Is e x \<Longrightarrow> errors_Is (ErrCoded c h p d (Some e)) x"
  by (auto simp: errors_Is_def split: option.splits)

lemma errors_Is_errorf: "errors_Is e x \<Longrightarrow> errors_Is (errorf_w p e) x"
  by (simp add: errorf_w_def errors_Is_wraps)

lemma transportErr_chain: "errors_Is e x \<Longrightarrow> errors_Is (transportErr T op e) x"
  by (simp add: transportErr_def sanitize_def NewCodedErr_def downstreamUnavailable_def errors_Is_wraps)

lemma transportErr_public:
  "\<exists>code outcome st. (code, outcome, st) \<in> {(''NET_REQUEST_CANCELLED'', '' was cancelled'', 500), (''NET_TIMEOUT'', '' timed out'', 504),
      (''NET_DOWNSTREAM_UNAVAILABLE'', '' failed: registry unreachable'', 503)} \<and>
    error_text (transportErr T op e) = ''DeDi '' @ op @ outcome \<and>
    as_coded (transportErr T op e) = Some (Error code (''DeDi '' @ op @ outcome) None None, st) \<and>
    (code = ''NET_REQUEST_CANCELLED'' \<longleftrightarrow> errors_Is e Canceled)"
  by (auto simp: transportErr_def sanitize_def coded_defs downstreamUnavailable_def dedi_codes CodedErr_Error_def)

lemma errors_Is_text: "\<not> is_panic e \<Longrightarrow> errors_Is (errorf_w p e) (ErrText t) \<longleftrightarrow> errors_Is e (ErrText t)"
  by (simp add: errorf_w_def errors_Is_def)

text \<open>What a participant is told about a failed round trip to the registry depends on the kind of the failure
  only. When the transport fails, \<open>doGet\<close> returns an error whose text and Beckn error name the operation and
  one of three outcomes (cancelled, timed out, unreachable) with the matching code and status; the
  URL of the registry and the text of the cause do not occur in it, while the cause stays in the chain
  for \<open>errors.Is\<close>.\<close>

theorem dedi_transport_errors_public:
  assumes "RcNewRequest (DcClient c) ''GET'' url = None" "RcDo (DcClient c) w ''GET'' url [] = (Inl fault, w')" "\<not> is_panic fault"
  shows "\<exists>e code outcome st. doGet c w url operation n onNotFound = (Inl e, w') \<and>
    (code, outcome, st) \<in> {(''NET_REQUEST_CANCELLED'', '' was cancelled'', 500), (''NET_TIMEOUT'', '' timed out'', 504),
      (''NET_DOWNSTREAM_UNAVAILABLE'', '' failed: registry unreachable'', 503)} \<and>
    error_text e = ''DeDi '' @ operation @ outcome \<and> as_coded e = Some (Error code (''DeDi '' @ operation @ outcome) None None, st) \<and>
    (\<forall>x. errors_Is fault x \<longrightarrow> errors_Is e x) \<and> (code = ''NET_REQUEST_CANCELLED'' \<longleftrightarrow> errors_Is fault Canceled)"
proof -
  let ?err = "errorf_w (''failed to send DeDi '' @ operation @ '' request: '') fault"
  have "doGet c w url operation n onNotFound = (Inl (transportErr (LibTimeout (DcLib c)) operation ?err), w')"
    using assms by (simp add: doGet_def)
  moreover have "errors_Is ?err Canceled \<longleftrightarrow> errors_Is fault Canceled" unfolding Canceled_def by (rule errors_Is_text [OF assms(3)])
  moreover have "errors_Is fault x \<longrightarrow> errors_Is (transportErr (LibTimeout (DcLib c)) operation ?err) x" for x
    using transportErr_chain errors_Is_errorf by blast
  ultimately show ?thesis using transportErr_public [of "LibTimeout (DcLib c)" operation ?err] by metis
qed

text \<open>The example: a registry with one participant, and an empty Redis server.\<close>

definition sample_dedi_body :: string where
  "sample_dedi_body = ''{\"data\":{\"details\":{\"subscriber_id\":\"bap\",\"signing_public_key\":\"key\"},\"network_memberships\":[\"net\"]}}''"

definition sample_dedi_lib :: DediLib where
  "sample_dedi_lib =
     \<lparr>LibFloat = \<lparr>InRange = (\<lambda>s. True), FloatText = (\<lambda>s. s)\<rparr>, LibPositive = (\<lambda>s. True), LibInt64 = (\<lambda>s. 1), LibParseTime = (\<lambda>s. None),
      LibEqualFold = (\<lambda>a b. fold_name a = fold_name b), LibTimeout = (\<lambda>e. None), LibCodec = decimal_codec\<rparr>"

definition sample_dedi :: "(string \<rightharpoonup> string) DeDiRegistryClient" where
  "sample_dedi =
     \<lparr>DcConfig = \<lparr>DdURL = ''https://dedi'', DdCacheTTL = 0, AllowedNetworkIDs = [''net''], DdTimeout = 0, DdRetryMax = 0, DdRetryWaitMin = 0,
        DdRetryWaitMax = 0\<rparr>,
      DcClient = \<lparr>RcNewRequest = (\<lambda>m u. None),
        RcDo = (\<lambda>w m u b. (Inr \<lparr>HrStatus = 200, HrHeader = Map.empty, HrBody = sample_dedi_body, HrBodyErr = None, HrStatusText = ''200 OK''\<rparr>, w))\<rparr>,
      DcCache = Some (cache_plugin memory_redis), DcCacheTTL = hour, DcLib = sample_dedi_lib\<rparr>"

definition sample_dedi_query :: Subscription where
  "sample_dedi_query = zero_subscription\<lparr>SubscriberID := ''BAP'', KeyID := ''k1''\<rparr>"

definition sample_dedi_record :: Subscription where
  "sample_dedi_record = zero_subscription\<lparr>SubscriberID := ''bap'', KeyID := ''k1'', SigningPublicKey := ''key'', NetworkMemberships := [''net'']\<rparr>"

lemma sample_dedi_over: "dedi_over sample_dedi memory_redis (\<lambda>w. w)"
  by (auto simp: dedi_over_def sample_dedi_def sample_dedi_lib_def decimal_codec_reads_back redis_keeps_def memory_redis_def)

lemma sample_dedi_parse:
  "\<exists>data. parse_data (LibFloat sample_dedi_lib) ''record lookup'' sample_dedi_body = Inr data \<and>
     lookup_record sample_dedi_lib ''BAP'' ''k1'' data = Inr sample_dedi_record"
proof -
  have "(case parse_data (LibFloat sample_dedi_lib) ''record lookup'' sample_dedi_body of
      Inr data \<Rightarrow> lookup_record sample_dedi_lib ''BAP'' ''k1'' data = Inr sample_dedi_record | Inl e \<Rightarrow> False)" by code_simp
  then show ?thesis by (auto split: sum.splits)
qed

lemma sample_dedi_lookup: "\<exists>w'. dedi_Lookup (with_allowed sample_dedi [''net'']) Map.empty Map.empty None sample_dedi_query = (Inr [sample_dedi_record], w')"
proof -
  obtain data where data: "parse_data (LibFloat sample_dedi_lib) ''record lookup'' sample_dedi_body = Inr data"
      "lookup_record sample_dedi_lib ''BAP'' ''k1'' data = Inr sample_dedi_record" using sample_dedi_parse by blast
  have seg: "validSegment ''BAP''" "validSegment ''k1''" by code_simp+
  have "length sample_dedi_body < maxLookupResponseBytes" by (simp add: sample_dedi_body_def maxLookupResponseBytes_def)
  then have fetch: "fetchDeDiData (with_allowed sample_dedi al) w u ''record lookup'' nf = (Inr data, w)" for al w u nf
    using data(1) by (simp add: fetchDeDiData_def doGet_def sample_dedi_def read_body_def read_limited_def HttpResponse.truncate_def)
  have "validateMemberships [''net''] [] (NetworkMemberships sample_dedi_record) (SubscriberID sample_dedi_record) = None" by code_simp
  moreover have "unmarshal_subscriptions C [] = None" for C by (simp add: unmarshal_subscriptions_def json_decode_def is_ws_def)
  moreover have "extractContextNetworkID F Map.empty None = []" for F by (simp add: extractContextNetworkID_def ctx_string0_def ctx_string_def)
  ultimately show ?thesis
    using data(2) seg fetch
    by (simp add: dedi_Lookup_def sample_dedi_query_def cachedLookup_def remote_lookup_def cache_record_def sample_dedi_def with_allowed_def
        cache_plugin_def cache_Get_def cache_Set_def memory_redis_def split: option.splits)
qed

theorem dedi_lookup_registered_witness: "\<exists>r. dedi_record sample_dedi ''BAP'' ''k1'' r \<and> SigningPublicKey r = ''key''"
proof -
  obtain w' where "dedi_Lookup (with_allowed sample_dedi [''net'']) Map.empty Map.empty None sample_dedi_query = (Inr [sample_dedi_record], w')"
    using sample_dedi_lookup by blast
  from dedi_lookup_registered [OF sample_dedi_over _ dedi_reach.start this]
  obtain r where r: "dedi_record sample_dedi (SubscriberID sample_dedi_query) (KeyID sample_dedi_query) r"
      "sample_dedi_record = r \<or> sample_dedi_record = r\<lparr>KeyID := utf8_coerce (KeyID sample_dedi_query)\<rparr>" by auto
  have "SigningPublicKey sample_dedi_record = SigningPublicKey r" using r(2)
  proof
    assume "sample_dedi_record = r\<lparr>KeyID := utf8_coerce (KeyID sample_dedi_query)\<rparr>"
    from arg_cong [OF this, of SigningPublicKey] show ?thesis by simp
  qed simp
  then have "SigningPublicKey r = ''key''" by (simp add: sample_dedi_record_def)
  with r(1) show ?thesis by (auto simp: sample_dedi_query_def)
qed

lemma sample_dedi_refused:
  "dedi_Lookup sample_dedi Map.empty Map.empty None zero_subscription =
     (Inl (NewSignValidationErr codeAutSignatureInvalid (ErrText ''subscriber_id is required for DeDi lookup'')), Map.empty)"
  by (simp add: dedi_Lookup_def zero_subscription_def)

theorem dedi_lookup_errors_classified_witness:
  "\<exists>b. as_coded (NewSignValidationErr codeAutSignatureInvalid (ErrText ''subscriber_id is required for DeDi lookup'')) = Some (b, 401) \<and>
     HasPrefix (Code b) ''AUT_''"
proof -
  let ?e = "NewSignValidationErr codeAutSignatureInvalid (ErrText ''subscriber_id is required for DeDi lookup'')"
  have "\<not> is_panic ?e" "\<exists>b. as_coded ?e = Some (b, 401)" by (simp_all add: NewSignValidationErr_def is_panic_def as_coded_def HTTPStatus_def)
  with dedi_lookup_errors_classified [OF sample_dedi_refused] show ?thesis by auto
qed

definition broken_dedi :: "unit DeDiRegistryClient" where
  "broken_dedi =
     \<lparr>DcConfig = DcConfig sample_dedi, DcClient = \<lparr>RcNewRequest = (\<lambda>m u. None), RcDo = (\<lambda>w m u b. (Inl (ErrWrap u Canceled), w))\<rparr>,
      DcCache = None, DcCacheTTL = hour, DcLib = sample_dedi_lib\<rparr>"

theorem dedi_transport_errors_public_witness:
  "\<exists>e. doGet broken_dedi () ''https://dedi/x'' ''node lookup'' 10 entityNotFound = (Inl e, ()) \<and> error_text e = ''DeDi node lookup was cancelled''"
proof -
  have "errors_Is (ErrWrap ''https://dedi/x'' Canceled) Canceled" by (simp add: errors_Is_def Canceled_def)
  then show ?thesis
    using dedi_transport_errors_public [of broken_dedi "''https://dedi/x''" "()" "ErrWrap ''https://dedi/x'' Canceled" "()"
        "''node lookup''" 10 entityNotFound]
    by (auto simp: broken_dedi_def is_panic_def)
qed

text \<open>The cache key and the request URL identify the subscriber and the key: two look-ups share one
  exactly when they ask for the same subscriber id and the same key id, whatever bytes the ids contain.\<close>

theorem dedi_keys_distinct:
  "(lookupCacheKey sub key = lookupCacheKey sub' key' \<longleftrightarrow> sub = sub' \<and> key = key') \<and>
   (lookup_url c sub key = lookup_url c sub' key' \<longleftrightarrow> sub = sub' \<and> key = key')"
  by (simp add: lookupCacheKey_inj lookup_url_inj)

text \<open>An allow-list of separators and blanks is no allow-list. When the setting \<open>allowedNetworkIDs\<close> has only empty
  items, the plugin starts with an empty list, and with an empty list every record is admitted for a
  request that names no network.\<close>

theorem blank_allowlist_admits_all:
  assumes "config ''allowedNetworkIDs'' = Some raw" "\<forall>item \<in> set (Split (CHR '','') raw). TrimSpace item = []"
  shows "resolveAllowedNetworkIDs config = Inr [] \<and> validateMemberships [] [] memberships sub = None"
  using assms by (auto simp: resolveAllowedNetworkIDs_def parseAllowedNetworkIDs_def validateMemberships_def validateContextNetworkID_def
      filter_empty_conv)

theorem blank_allowlist_admits_all_witness:
  "resolveAllowedNetworkIDs [''allowedNetworkIDs'' \<mapsto> '' , ''] = Inr []"
proof -
  have "\<forall>item \<in> set (Split (CHR '','') '' , ''). TrimSpace item = []" by code_simp
  then show ?thesis using blank_allowlist_admits_all [of "[''allowedNetworkIDs'' \<mapsto> '' , '']" "'' , ''"] by simp
qed

end
