(* ===== verification/Registry_Client.thy ===== *)
theory Registry_Client
  imports Dedi_Registry Key_Manager
begin

text \<open>
  The registry client \<open>registry/registry.go\<close> with its entry point \<open>cmd/plugin.go\<close>, and the key source of
  the crawler and the publisher, \<open>internal/registrykey/registrykey.go\<close>, over any registry. The retrying
  HTTP client and the clock are arguments.
\<close>

subsection \<open>Configuration\<close>

record RegConfig =
  RgURL :: string
  RgCfgTTL :: int
  RgRetryMax :: int
  RgRetryWaitMin :: int
  RgRetryWaitMax :: int

record 'w RegistryClient =
  RgConfig :: RegConfig
  RgClient :: "'w RetryClient"
  RgCache :: "'w Cache option"
  RgCacheTTL :: int
  RgClock :: "'w clock"
  RgCodec :: Codec

definition reg_defaultCacheTTL :: int where "reg_defaultCacheTTL = 5 * 60 * second"

definition reg_validate :: "RegConfig option \<Rightarrow> goerr option" where
  "reg_validate cfg =
     (case cfg of
        None \<Rightarrow> Some (ErrText ''registry config cannot be nil'')
      | Some c \<Rightarrow> if RgURL c = [] then Some (ErrText ''registry URL cannot be empty'') else None)"

definition reg_retry_settings :: "RetrySettings \<Rightarrow> RegConfig \<Rightarrow> RetrySettings" where
  "reg_retry_settings defaults cfg =
     (let s1 = (if RgRetryMax cfg > 0 then defaults\<lparr>RsRetryMax := RgRetryMax cfg\<rparr> else defaults);
          s2 = (if RgRetryWaitMin cfg > 0 then s1\<lparr>RsRetryWaitMin := RgRetryWaitMin cfg\<rparr> else s1)
      in if RgRetryWaitMax cfg > 0 then s2\<lparr>RsRetryWaitMax := RgRetryWaitMax cfg\<rparr> else s2)"

definition reg_New ::
  "RetrySettings \<Rightarrow> (RetrySettings \<Rightarrow> 'w RetryClient) \<Rightarrow> 'w clock \<Rightarrow> Codec \<Rightarrow> 'w Cache option \<Rightarrow> RegConfig option \<Rightarrow>
     goerr + 'w RegistryClient" where
  "reg_New defaults mk clock C cache cfg =
     (case reg_validate cfg of
        Some e \<Rightarrow> Inl e
      | None \<Rightarrow>
          (let c = the cfg in
           Inr \<lparr>RgConfig = c, RgClient = mk (reg_retry_settings defaults c), RgCache = cache,
                RgCacheTTL = (if RgCfgTTL c \<le> 0 then reg_defaultCacheTTL else RgCfgTTL c), RgClock = clock, RgCodec = C\<rparr>))"

text \<open>The entry point: an absent or empty setting leaves zero, and an invalid \<open>cacheTTL\<close> is ignored.\<close>

definition reg_wait :: "(string \<Rightarrow> int option) \<Rightarrow> (string \<rightharpoonup> string) \<Rightarrow> string \<Rightarrow> goerr + int" where
  "reg_wait ParseDuration config key =
     (case config key of
        Some raw \<Rightarrow>
          if raw = [] then Inr 0
          else
            (case ParseDuration raw of
               None \<Rightarrow> Inl (errorf_w (''invalid '' @ key @ '' value '' @ [CHR 0x27] @ raw @ [CHR 0x27] @ '': '') (ErrText ''time.ParseDuration''))
             | Some d \<Rightarrow> Inr d)
      | None \<Rightarrow> Inr 0)"

definition reg_parseConfig :: "(string \<Rightarrow> int option) \<Rightarrow> (string \<rightharpoonup> string) \<Rightarrow> goerr + RegConfig" where
  "reg_parseConfig ParseDuration config =
     (case (case config ''retry_max'' of
              Some raw \<Rightarrow>
                if raw = [] then Inr 0
                else
                  (case Atoi raw of
                     None \<Rightarrow> Inl (errorf_w (''invalid retry_max value '' @ [CHR 0x27] @ raw @ [CHR 0x27] @ '': '') (ErrText ''strconv.Atoi''))
                   | Some n \<Rightarrow> Inr n)
            | None \<Rightarrow> Inr 0) of
        Inl e \<Rightarrow> Inl e
      | Inr retryMax \<Rightarrow>
     (case reg_wait ParseDuration config ''retry_wait_min'' of
        Inl e \<Rightarrow> Inl e
      | Inr waitMin \<Rightarrow>
     (case reg_wait ParseDuration config ''retry_wait_max'' of
        Inl e \<Rightarrow> Inl e
      | Inr waitMax \<Rightarrow>
          Inr \<lparr>RgURL = (case config ''url'' of None \<Rightarrow> [] | Some u \<Rightarrow> u), RgCfgTTL = dedi_cache_ttl ParseDuration config,
               RgRetryMax = retryMax, RgRetryWaitMin = waitMin, RgRetryWaitMax = waitMax\<rparr>)))"

definition reg_plugin_New ::
  "(string \<Rightarrow> int option) \<Rightarrow> (RegConfig option \<Rightarrow> goerr + 'w RegistryClient) \<Rightarrow> Context option \<Rightarrow> (string \<rightharpoonup> string) \<Rightarrow>
     goerr + 'w RegistryClient" where
  "reg_plugin_New ParseDuration newFunc ctx config =
     (case ctx of
        None \<Rightarrow> Inl (ErrText ''context cannot be nil'')
      | Some _ \<Rightarrow>
     (case reg_parseConfig ParseDuration config of
        Inl e \<Rightarrow> Inl (errorf_w ''failed to parse registry configuration: '' e)
      | Inr registryConfig \<Rightarrow> newFunc (Some registryConfig)))"

subsection \<open>Requests\<close>

text \<open>\<open>io.ReadAll\<close> of a whole body.\<close>

definition read_whole :: "RegResponse \<Rightarrow> goerr + string" where
  "read_whole resp = (case HrBodyErr resp of None \<Rightarrow> Inr (HrBody resp) | Some e \<Rightarrow> Inl e)"

text \<open>A POST of a JSON text; a body is read only after the status 200.\<close>

definition reg_post ::
  "'w RegistryClient \<Rightarrow> 'w \<Rightarrow> string \<Rightarrow> string \<Rightarrow> string \<Rightarrow> (goerr + RegResponse) \<times> 'w" where
  "reg_post c w operation url jsonData =
     (case RcNewRequest (RgClient c) ''POST'' url of
        Some e \<Rightarrow> (Inl (errorf_w ''failed to create request: '' e), w)
      | None \<Rightarrow>
          (case RcDo (RgClient c) w ''POST'' url jsonData of
             (Inl e, w1) \<Rightarrow> (Inl (errorf_w (''failed to send '' @ operation @ '' request with retry: '') e), w1)
           | (Inr resp, w1) \<Rightarrow>
               if HrStatus resp \<noteq> 200 then (Inl (ErrText (operation @ '' request failed with status: '' @ HrStatusText resp)), w1)
               else (Inr resp, w1)))"

definition marshal_failed :: goerr where
  "marshal_failed = NewBadReqErr [] (errorf_w ''failed to marshal subscription data: '' (ErrText ''json.Marshal''))"

definition reg_Subscribe :: "'w RegistryClient \<Rightarrow> 'w \<Rightarrow> Subscription \<Rightarrow> goerr option \<times> 'w" where
  "reg_Subscribe c w subscription =
     (case marshal_subscription (RgCodec c) subscription of
        None \<Rightarrow> (Some marshal_failed, w)
      | Some jsonData \<Rightarrow>
          (case reg_post c w ''subscribe'' (RgURL (RgConfig c) @ ''/subscribe'') jsonData of
             (Inl e, w1) \<Rightarrow>
               (Some e, w1)
           | (Inr resp, w1) \<Rightarrow> (None, w1)))"

definition reg_cache_key :: "Subscription \<Rightarrow> string" where
  "reg_cache_key q = ''lookup_'' @ SubscriberID q @ ''_'' @ KeyID q"

definition reg_cached :: "'w RegistryClient \<Rightarrow> 'w \<Rightarrow> string \<Rightarrow> (goerr + Subscription list option) \<times> 'w" where
  "reg_cached c w key =
     (case RgCache c of
        None \<Rightarrow> (Inr None, w)
      | Some cache \<Rightarrow>
          (case CacheGet cache w key of
             (Inl e, w1) \<Rightarrow> (if is_panic e then Inl e else Inr None, w1)
           | (Inr cached, w1) \<Rightarrow> (Inr (unmarshal_subscriptions (RgCodec c) cached), w1)))"

definition entry_ttl_until :: "'w RegistryClient \<Rightarrow> 'w \<Rightarrow> Subscription \<Rightarrow> int \<times> 'w" where
  "entry_ttl_until c w s =
     (if ValidUntil s \<noteq> zero_time then
        (let (now, w1) = RgClock c w; d = time_since (ValidUntil s) now
         in (if d > 0 then d else RgCacheTTL c, w1))
      else (RgCacheTTL c, w))"

text \<open>Results are cached when there are any; a failed write is only logged.\<close>

definition reg_store :: "'w RegistryClient \<Rightarrow> 'w \<Rightarrow> string \<Rightarrow> Subscription list \<Rightarrow> goerr option \<times> 'w" where
  "reg_store c w key rs =
     (case (RgCache c, rs) of
        (Some cache, s # ss) \<Rightarrow>
          (let (ttl, w1) = entry_ttl_until c w s in
           case marshal_subscriptions (RgCodec c) rs of
             None \<Rightarrow> (None, w1)
           | Some data \<Rightarrow>
               (case CacheSet cache w1 key data ttl of
                  (Some e, w2) \<Rightarrow> (if is_panic e then Some e else None, w2)
                | (None, w2) \<Rightarrow> (None, w2)))
      | _ \<Rightarrow> (None, w))"

definition reg_fetch :: "'w RegistryClient \<Rightarrow> 'w \<Rightarrow> Subscription \<Rightarrow> (goerr + Subscription list) \<times> 'w" where
  "reg_fetch c w q =
     (case marshal_subscription (RgCodec c) q of
        None \<Rightarrow> (Inl marshal_failed, w)
      | Some jsonData \<Rightarrow>
          (case reg_post c w ''lookup'' (RgURL (RgConfig c) @ ''/lookup'') jsonData of
             (Inl e, w1) \<Rightarrow> (Inl e, w1)
           | (Inr resp, w1) \<Rightarrow>
               (case read_whole resp of
                  Inl e \<Rightarrow> (Inl (errorf_w ''failed to read response body: '' e), w1)
                | Inr body \<Rightarrow>
                    (case unmarshal_subscriptions (RgCodec c) body of
                       None \<Rightarrow> (Inl (errorf_w ''failed to unmarshal response body: '' (ErrText ''json.Unmarshal'')), w1)
                     | Some rs \<Rightarrow> (Inr rs, w1)))))"

definition reg_Lookup :: "'w RegistryClient \<Rightarrow> 'w \<Rightarrow> Subscription \<Rightarrow> (goerr + Subscription list) \<times> 'w" where
  "reg_Lookup c w q =
     (case reg_cached c w (reg_cache_key q) of
        (Inl e, w1) \<Rightarrow> (Inl e, w1)
      | (Inr (Some rs), w1) \<Rightarrow> (Inr rs, w1)
      | (Inr None, w1) \<Rightarrow>
          (case reg_fetch c w1 q of
             (Inl e, w2) \<Rightarrow> (Inl e, w2)
           | (Inr rs, w2) \<Rightarrow>
               (case reg_store c w2 (reg_cache_key q) rs of
                  (Some e, w3) \<Rightarrow> (Inl e, w3)
                | (None, w3) \<Rightarrow> (Inr rs, w3))))"

definition registry_plugin :: "'w RegistryClient \<Rightarrow> 'w RegistryLookup" where
  "registry_plugin c = \<lparr>Lookup = (\<lambda>w ctx q. reg_Lookup c w q)\<rparr>"

subsection \<open>The key source (registrykey.go)\<close>

text \<open>
  A failed look-up is returned unclassified, which the crawler takes for transient; every other
  failure is a permanent signature fault.
\<close>

datatype KeyFault = PermanentFault string | Unclassified goerr

definition key_Resolve :: "'w RegistryLookup \<Rightarrow> 'w \<Rightarrow> StepContext \<Rightarrow> string \<Rightarrow> string \<Rightarrow> string \<Rightarrow> (KeyFault + string) \<times> 'w" where
  "key_Resolve reg w ctx caller nodeID keyID =
     (let named = ''registry key '' @ go_quote keyID @ '' for node '' @ go_quote nodeID in
      case Lookup reg w ctx (lookup_query nodeID keyID) of
        (Inl e, w1) \<Rightarrow>
          (Inl (Unclassified (errorf_w (caller @ '': registry lookup for node '' @ go_quote nodeID @ '' key '' @ go_quote keyID @ '': '') e)), w1)
      | (Inr [], w1) \<Rightarrow>
          (Inl (PermanentFault (caller @ '': registry has no key '' @ go_quote keyID @ '' for node '' @ go_quote nodeID)), w1)
      | (Inr (sub # _), w1) \<Rightarrow>
          if \<not> IsKeyStatusUsable (SubStatus sub) then
            (Inl (PermanentFault (caller @ '': '' @ named @ '' has unusable status '' @ go_quote (SubStatus sub))), w1)
          else if SigningPublicKey sub = [] then
            (Inl (PermanentFault (caller @ '': '' @ named @ '' has no signing public key'')), w1)
          else
            (case b64_decode (SigningPublicKey sub) of
               None \<Rightarrow> (Inl (PermanentFault (caller @ '': '' @ named @ '' is not valid base64: '' @ ''base64.DecodeString'')), w1)
             | Some raw \<Rightarrow>
                 if length raw \<noteq> 32 then
                   (Inl (PermanentFault (caller @ '': '' @ named @ '' decodes to '' @ nat_dec (length raw) @ '' bytes, want 32'')), w1)
                 else (Inr raw, w1)))"

definition key_Source ::
  "string \<Rightarrow> 'w RegistryLookup option \<Rightarrow> 'w \<Rightarrow> StepContext \<Rightarrow> string \<Rightarrow> string \<Rightarrow> (KeyFault + string) \<times> 'w" where
  "key_Source caller reg w ctx nodeID keyID =
     (case reg of
        None \<Rightarrow> (Inl (PermanentFault (caller @ '': no registry configured, cannot resolve key '' @ go_quote keyID)), w)
      | Some r \<Rightarrow>
          if nodeID = [] then (Inl (PermanentFault (caller @ '': no nodeId given, cannot resolve key '' @ go_quote keyID)), w)
          else key_Resolve r w ctx caller nodeID keyID)"

lemma key_Resolve_found:
  assumes "key_Resolve reg w ctx caller nodeID keyID = (Inr raw, w')"
  obtains s ss where "Lookup reg w ctx (lookup_query nodeID keyID) = (Inr (s # ss), w')" "IsKeyStatusUsable (SubStatus s)"
    "b64_decode (SigningPublicKey s) = Some raw" "length raw = 32"
  using assms unfolding key_Resolve_def Let_def
  by (simp split: prod.splits sum.splits list.splits if_splits option.splits)

subsection \<open>What the cache returns\<close>

lemma reg_store_held:
  assumes "redis_behaves R live" "RgCache c = Some (cache_plugin R)" "0 < RgCacheTTL c" "rs \<noteq> []"
    and "marshal_subscriptions (RgCodec c) rs = Some data"
  shows "\<exists>w'. reg_store c w key rs = (None, w') \<and> live w' key = Some data"
proof -
  obtain s ss where rs: "rs = s # ss" using assms(4) by (cases rs) auto
  obtain ttl w1 where ttl: "entry_ttl_until c w s = (ttl, w1)" by (cases "entry_ttl_until c w s")
  then have "0 < ttl" using assms(3) by (auto simp: entry_ttl_until_def Let_def split: if_splits prod.splits)
  from cache_plugin_set [OF assms(1) this, of w1 key data]
  obtain w2 where "CacheSet (cache_plugin R) w1 key data ttl = (None, w2)" "live w2 = (live w1)(key \<mapsto> data)" by blast
  then show ?thesis using assms(2,5) ttl by (simp add: reg_store_def rs)
qed

lemma reg_cached_held:
  assumes "redis_behaves R live" "RgCache c = Some (cache_plugin R)" "live w key = Some data"
  shows "reg_cached c w key = (Inr (unmarshal_subscriptions (RgCodec c) data), w)"
  using assms by (simp add: reg_cached_def cache_plugin_get)

text \<open>A fetched result answers every later query with the same cache key.\<close>

lemma reg_lookup_again:
  assumes "redis_behaves R live" "RgCache c = Some (cache_plugin R)" "0 < RgCacheTTL c" "codec_reads_back (RgCodec c)"
    and "live w (reg_cache_key q) = None" "reg_Lookup c w q = (Inr rs, w')" "rs \<noteq> []"
    and "marshal_subscriptions (RgCodec c) rs \<noteq> None" "reg_cache_key q' = reg_cache_key q"
  shows "reg_Lookup c w' q' = (Inr (map coerce_subscription rs), w')"
proof -
  obtain data where data: "marshal_subscriptions (RgCodec c) rs = Some data" using assms(8) by auto
  have "unmarshal_subscriptions (RgCodec c) [] = None" by (simp add: unmarshal_subscriptions_def json_decode_def is_ws_def)
  with assms(1,2,5) have miss: "reg_cached c w (reg_cache_key q) = (Inr None, w)" by (simp add: reg_cached_def cache_plugin_get)
  obtain w2 where "reg_store c w2 (reg_cache_key q) rs = (None, w')"
    using assms(6) miss by (auto simp: reg_Lookup_def split: prod.splits sum.splits option.splits)
  with reg_store_held [OF assms(1-3,7) data, of w2 "reg_cache_key q"] have "live w' (reg_cache_key q) = Some data" by auto
  from reg_cached_held [OF assms(1,2) this] show ?thesis
    using unmarshal_marshal_subscriptions [OF assms(4) data] assms(9) by (simp add: reg_Lookup_def)
qed

text \<open>C15: The registry client confuses subscribers. Its cache key joins the subscriber id and the key id with an
  underscore, which ids may contain. Once the record of subscriber \<open>a\<close> with key \<open>b_k\<close> has been fetched, the key
  manager answers a look-up of the different subscriber \<open>a_b\<close> with key \<open>k\<close> from that entry: it returns
  the signing key of \<open>a\<close>, and the registry is not asked.\<close>

theorem registry_cache_confuses_subscribers:
  assumes "redis_behaves R live" "RgCache c = Some (cache_plugin R)" "0 < RgCacheTTL c" "codec_reads_back (RgCodec c)"
    and "a \<noteq> []" "k \<noteq> []" "live w (reg_cache_key (lookup_query a (b @ ''_'' @ k))) = None"
    and "reg_Lookup c w (lookup_query a (b @ ''_'' @ k)) = (Inr (s # ss), w')"
    and "marshal_subscriptions (RgCodec c) (s # ss) \<noteq> None" "IsKeyStatusUsable (utf8_coerce (SubStatus s))"
  shows "skm_LookupNPKeys (registry_plugin c) (keysets, w') ctx (a @ ''_'' @ b) k =
    (Inr (utf8_coerce (SigningPublicKey s), utf8_coerce (EncrPublicKey s)), (keysets, w'))"
proof -
  have key: "reg_cache_key (lookup_query (a @ ''_'' @ b) k) = reg_cache_key (lookup_query a (b @ ''_'' @ k))"
    by (simp add: reg_cache_key_def lookup_query_def)
  have "reg_Lookup c w' (lookup_query (a @ ''_'' @ b) k) = (Inr (map coerce_subscription (s # ss)), w')"
    using reg_lookup_again [OF assms(1-4,7,8) _ assms(9) key] by simp
  then show ?thesis
    using assms(5,6,10) by (simp add: skm_LookupNPKeys_def skm_validateParams_def registry_plugin_def coerce_subscription_def)
qed

text \<open>The example: a registry that answers every query with the record of subscriber \<open>a\<close>.\<close>

definition sample_reg_record :: Subscription where
  "sample_reg_record = zero_subscription\<lparr>SubscriberID := ''a'', SigningPublicKey := ''key-of-a''\<rparr>"

definition sample_answer :: string where
  "sample_answer = the (marshal_subscriptions decimal_codec [sample_reg_record])"

definition sample_reg :: "(string \<rightharpoonup> string) RegistryClient" where
  "sample_reg =
     \<lparr>RgConfig = \<lparr>RgURL = ''https://reg'', RgCfgTTL = 0, RgRetryMax = 0, RgRetryWaitMin = 0, RgRetryWaitMax = 0\<rparr>,
      RgClient = \<lparr>RcNewRequest = (\<lambda>m u. None),
        RcDo = (\<lambda>w m u b. (Inr \<lparr>HrStatus = 200, HrHeader = Map.empty, HrBody = sample_answer, HrBodyErr = None, HrStatusText = ''200 OK''\<rparr>, w))\<rparr>,
      RgCache = Some (cache_plugin memory_redis), RgCacheTTL = hour, RgClock = (\<lambda>w. (0, w)), RgCodec = decimal_codec\<rparr>"

lemma sample_reg_over: "RgCache sample_reg = Some (cache_plugin memory_redis)" "0 < RgCacheTTL sample_reg" "codec_reads_back (RgCodec sample_reg)"
  by (simp_all add: sample_reg_def hour_def second_def decimal_codec_reads_back)

lemma sample_reg_query: "\<exists>j. marshal_subscription decimal_codec (lookup_query a k) = Some j"
  by (simp add: marshal_subscription_def subscription_json_def lookup_query_def omit_zero_time_def)

lemma sample_reg_marshal: "marshal_subscriptions decimal_codec [sample_reg_record] \<noteq> None"
  by (simp add: marshal_subscriptions_def subscription_json_def sample_reg_record_def zero_subscription_def omit_zero_time_def)

lemma sample_reg_lookup: "\<exists>w'. reg_Lookup sample_reg Map.empty (lookup_query ''a'' (''b'' @ ''_'' @ ''k'')) = (Inr [sample_reg_record], w')"
proof -
  have "marshal_subscriptions decimal_codec [sample_reg_record] = Some sample_answer" using sample_reg_marshal by (simp add: sample_answer_def)
  moreover have "coerce_subscription sample_reg_record = sample_reg_record" by code_simp
  ultimately have "unmarshal_subscriptions decimal_codec sample_answer = Some [sample_reg_record]"
    using unmarshal_marshal_subscriptions [OF decimal_codec_reads_back] by simp
  moreover obtain j where "marshal_subscription decimal_codec (lookup_query ''a'' (''b'' @ ''_'' @ ''k'')) = Some j" using sample_reg_query by blast
  ultimately have fetch: "reg_fetch sample_reg w (lookup_query ''a'' (''b'' @ ''_'' @ ''k'')) = (Inr [sample_reg_record], w)" for w
    by (simp add: reg_fetch_def reg_post_def read_whole_def sample_reg_def)
  obtain data where data: "marshal_subscriptions (RgCodec sample_reg) [sample_reg_record] = Some data"
    using sample_reg_marshal by (auto simp: sample_reg_def)
  have "unmarshal_subscriptions C [] = None" for C by (simp add: unmarshal_subscriptions_def json_decode_def is_ws_def)
  then have "reg_cached sample_reg Map.empty key = (Inr None, Map.empty)" for key
    using sample_reg_over(1) by (simp add: reg_cached_def cache_plugin_get [OF memory_redis_behaves])
  with fetch reg_store_held [OF memory_redis_behaves sample_reg_over(1,2) _ data, of Map.empty "reg_cache_key (lookup_query ''a'' (''b'' @ ''_'' @ ''k''))"]
  show ?thesis by (auto simp: reg_Lookup_def)
qed

theorem registry_cache_confuses_subscribers_witness:
  "\<exists>w'. fst (skm_LookupNPKeys (registry_plugin sample_reg) (Map.empty, w') sample_signed (''a'' @ ''_'' @ ''b'') ''k'') = Inr (''key-of-a'', [])"
proof -
  obtain w' where step: "reg_Lookup sample_reg Map.empty (lookup_query ''a'' (''b'' @ ''_'' @ ''k'')) = (Inr [sample_reg_record], w')"
    using sample_reg_lookup by blast
  have "marshal_subscriptions (RgCodec sample_reg) [sample_reg_record] \<noteq> None" using sample_reg_marshal by (simp add: sample_reg_def)
  moreover have "IsKeyStatusUsable (utf8_coerce (SubStatus sample_reg_record))" by code_simp
  moreover have "utf8_coerce (SigningPublicKey sample_reg_record) = ''key-of-a''" "utf8_coerce (EncrPublicKey sample_reg_record) = []"
    by code_simp+
  ultimately have "fst (skm_LookupNPKeys (registry_plugin sample_reg) (Map.empty, w') sample_signed (''a'' @ ''_'' @ ''b'') ''k'') = Inr (''key-of-a'', [])"
    using registry_cache_confuses_subscribers [OF memory_redis_behaves sample_reg_over _ _ _ step, of Map.empty sample_signed] by simp
  then show ?thesis by blast
qed

end
