(* ===== verification/Trusted_Keys.thy ===== *)
theory Trusted_Keys
  imports Dedi_Trust Registry_Client
begin

text \<open>
  The validation step over the simple key manager over the DeDi registry: an accepted request is signed
  with a key that DeDi serves for the subscriber whom the header names, and that subscriber belongs to
  the networks that the adapter and the request ask for.
\<close>

abbreviation "trusted_state c R live v \<equiv> all_held (\<lambda>w. dedi_over c R live) live (dedi_text c) v"

abbreviation "dedi_keys g c \<equiv> skm_plugin g (dedi_lookup_plugin c)"

text \<open>The network that a request asks for.\<close>

definition request_network :: "'w DeDiRegistryClient \<Rightarrow> StepContext \<Rightarrow> string" where
  "request_network c ctx = extractContextNetworkID (LibFloat (DcLib c)) (ScCtx ctx) (Some (Body ctx))"

lemma trusted_less: "trusted_state c R live v \<Longrightarrow> live v' \<subseteq>\<^sub>m live v \<Longrightarrow> trusted_state c R live v'"
  by (rule redis_dedi.all_held_less) (simp_all add: all_held_def)

lemma keys_trusted:
  assumes "trusted_state c R live (snd w)" "LookupNPKeys (dedi_keys g c) w ctx sub uid = (r, w')"
  shows "trusted_state c R live (snd w')"
    and "r = Inr (pk, enc) \<Longrightarrow> \<exists>s. dedi_record c sub uid s \<and> SigningPublicKey s = pk \<and> isSubscriberRecord (DcLib c) (SubscriberID s) sub \<and>
      admitted (AllowedNetworkIDs (DcConfig c)) (request_network c ctx) s"
proof -
  let ?q = "lookup_query sub uid"
  obtain rl v where look: "dedi_Lookup c (snd w) (ScCtx ctx) (Some (Body ctx)) ?q = (rl, v)"
    by (cases "dedi_Lookup c (snd w) (ScCtx ctx) (Some (Body ctx)) ?q")
  note found = redis_dedi.lookup_keeps [OF assms(1) look]
  have "w' = w \<or> snd w' = v"
    using assms(2) look
    by (auto simp: skm_plugin_def skm_LookupNPKeys_def dedi_lookup_plugin_def split: option.splits sum.splits list.splits if_splits)
  with assms(1) found(1) show "trusted_state c R live (snd w')" by auto
  assume "r = Inr (pk, enc)"
  with assms(2) look obtain s ss where "rl = Inr (s # ss)" "SigningPublicKey s = pk"
    by (auto simp: skm_plugin_def skm_LookupNPKeys_def dedi_lookup_plugin_def split: option.splits sum.splits list.splits if_splits)
  with found(2) [of "s # ss"] have s: "SigningPublicKey s = pk" "certified c sub uid s"
      "admitted (AllowedNetworkIDs (DcConfig c)) (request_network c ctx) s"
    by (auto simp: request_network_def lookup_query_def)
  from s(2) obtain x where x: "dedi_record c sub uid x" "s = x \<or> s = x\<lparr>KeyID := utf8_coerce uid\<rparr>" by (auto simp: certified_def)
  then have "SigningPublicKey x = pk" "admitted (AllowedNetworkIDs (DcConfig c)) (request_network c ctx) x"
    using s(1,3) by (auto simp: admitted_def)
  with x(1) dedi_record_valid(2) [OF x(1)] show "\<exists>s. dedi_record c sub uid s \<and> SigningPublicKey s = pk \<and>
      isSubscriberRecord (DcLib c) (SubscriberID s) sub \<and> admitted (AllowedNetworkIDs (DcConfig c)) (request_network c ctx) s" by blast
qed

text \<open>Neither the clock nor the payload store adds DeDi entries.\<close>

definition quiet :: "('v \<Rightarrow> string \<rightharpoonup> string) \<Rightarrow> 'v skm clock \<Rightarrow> 'v skm PayloadStore option \<Rightarrow> bool" where
  "quiet live clock ps \<longleftrightarrow>
     (\<forall>u t u'. clock u = (t, u') \<longrightarrow> live (snd u') \<subseteq>\<^sub>m live (snd u)) \<and>
     (\<forall>p u m a r u'. ps = Some p \<longrightarrow> PSGetByMessageID p u m a = (r, u') \<longrightarrow> live (snd u') \<subseteq>\<^sub>m live (snd u))"

lemma validate_state:
  "validateSign_validate (validator_plugin C tol clock) km w ctx h rs chk = (e, w') \<Longrightarrow>
     w' = w \<or> (\<exists>sub uid r w1. LookupNPKeys km w ctx sub uid = (r, w1) \<and> (w' = w1 \<or> (\<exists>t. clock w1 = (t, w'))))"
  unfolding validateSign_validate_def validator_plugin_def Let_def
  by (simp split: sum.splits prod.splits if_splits) blast+

lemma headers_state:
  "fst (validateHeaders v km ps w ctx) = None \<Longrightarrow>
     \<exists>w1. (w1 = w \<or> (\<exists>h e. validateSign_validate v km w ctx h [] False = (e, w1))) \<and> fst (validateSubscriberHeader v km ps w1 ctx) = None"
  unfolding validateHeaders_def Let_def by (simp split: if_splits prod.splits option.splits) blast+

lemma validate_trusted:
  assumes "quiet live clock ps" "trusted_state c R live (snd w)"
    and "validateSign_validate (validator_plugin C tol clock) (dedi_keys g c) w ctx h rs chk = (e, w')"
  shows "trusted_state c R live (snd w')"
proof -
  from validate_state [OF assms(3)] consider "w' = w" | sub uid r where "LookupNPKeys (dedi_keys g c) w ctx sub uid = (r, w')"
    | sub uid r w1 t where "LookupNPKeys (dedi_keys g c) w ctx sub uid = (r, w1)" "clock w1 = (t, w')"
    by blast
  then show ?thesis
  proof cases
    case (3 sub uid r w1 t)
    then have "live (snd w') \<subseteq>\<^sub>m live (snd w1)" using assms(1) unfolding quiet_def by blast
    with keys_trusted(1) [OF assms(2) 3(1)] show ?thesis by (rule trusted_less)
  qed (use assms(2) keys_trusted(1) in blast)+
qed

lemma callback_trusted:
  assumes "quiet live clock ps" "trusted_state c R live (snd w)" "lookupCallbackRequestSig ps w ctx h = (r, w')"
  shows "trusted_state c R live (snd w')"
proof -
  from assms(3) consider "w' = w" | p a rp where "ps = Some p" "PSGetByMessageID p w (MessageID ctx) a = (rp, w')"
    by (auto simp: lookupCallbackRequestSig_def Let_def split: option.splits sum.splits prod.splits if_splits)
  then show ?thesis
  proof cases
    case (2 p a rp)
    then have "live (snd w') \<subseteq>\<^sub>m live (snd w)" using assms(1) unfolding quiet_def by blast
    with assms(2) show ?thesis by (rule trusted_less)
  qed (use assms(2) in simp)
qed

lemma validated_by_registered_key:
  assumes "quiet live clock ps" "trusted_state c R live (snd w)"
    and "fst (validateSubscriberHeader (validator_plugin C tol clock) (dedi_keys g c) ps w ctx) = None"
    and h: "h = header_Get (ReqHeader (ScRequest ctx)) AuthHeaderSubscriber"
  shows "\<exists>hv s rs now. parseHeader h = Inr hv \<and> dedi_record c (HSubscriberID hv) (HUniqueID hv) s \<and>
    isSubscriberRecord (DcLib c) (SubscriberID s) (HSubscriberID hv) \<and>
    admitted (AllowedNetworkIDs (DcConfig c)) (request_network c ctx) s \<and> accepted C tol now ctx (Body ctx) h rs (SigningPublicKey s) True"
proof -
  obtain rs w1 where sig: "lookupCallbackRequestSig ps w ctx h = (Inr rs, w1)"
    and val: "fst (validateSign_validate (validator_plugin C tol clock) (dedi_keys g c) w1 ctx h rs True) = None"
    using validateSubscriberHeader_sound [OF assms(3)] h by metis
  note trusted = callback_trusted [OF assms(1,2) sig]
  obtain hv pk enc w2 where hv: "parseHeader h = Inr hv"
    "LookupNPKeys (dedi_keys g c) w1 ctx (HSubscriberID hv) (HUniqueID hv) = (Inr (pk, enc), w2)"
    "accepted C tol (fst (clock w2)) ctx (Body ctx) h rs pk True"
    using validateSign_validate_sound [OF val] by metis
  from keys_trusted(2) [OF trusted hv(2) refl] hv(1,3) show ?thesis by blast
qed


text \<open>The example: a registry that serves the key of the participant who signed the sample request.\<close>

definition signer_body :: string where
  "signer_body = ''{\"data\":{\"details\":{\"signing_public_key\":\"'' @ b64_encode sample_seed @ ''\"}}}''"

definition signer_dedi :: "(string \<rightharpoonup> string) DeDiRegistryClient" where
  "signer_dedi = sample_dedi
     \<lparr>DcConfig := (DcConfig sample_dedi)\<lparr>AllowedNetworkIDs := []\<rparr>,
      DcClient := \<lparr>RcNewRequest = (\<lambda>m u. None),
        RcDo = (\<lambda>w m u b. (Inr \<lparr>HrStatus = 200, HrHeader = Map.empty, HrBody = signer_body, HrBodyErr = None, HrStatusText = ''200 OK''\<rparr>, w))\<rparr>\<rparr>"

definition signer_record :: Subscription where
  "signer_record = zero_subscription\<lparr>KeyID := ''key-1'', SigningPublicKey := b64_encode sample_seed\<rparr>"

lemma signer_over: "dedi_over signer_dedi memory_redis (\<lambda>w. w)"
  using sample_dedi_over by (simp add: dedi_over_def signer_dedi_def)

lemma signer_parse:
  "\<exists>data. parse_data (LibFloat sample_dedi_lib) ''record lookup'' signer_body = Inr data \<and>
     lookup_record sample_dedi_lib ''bap.example.com'' ''key-1'' data = Inr signer_record"
proof -
  have "(case parse_data (LibFloat sample_dedi_lib) ''record lookup'' signer_body of
      Inr data \<Rightarrow> lookup_record sample_dedi_lib ''bap.example.com'' ''key-1'' data = Inr signer_record | Inl e \<Rightarrow> False)" by code_simp
  then show ?thesis by (auto split: sum.splits)
qed

lemma signer_lookup: "\<exists>w'. dedi_Lookup signer_dedi Map.empty (ScCtx (validation_ctx sample_signed)) (Some (Body (validation_ctx sample_signed)))
    (lookup_query ''bap.example.com'' ''key-1'') = (Inr [signer_record], w')"
proof -
  obtain data where data: "parse_data (LibFloat sample_dedi_lib) ''record lookup'' signer_body = Inr data"
      "lookup_record sample_dedi_lib ''bap.example.com'' ''key-1'' data = Inr signer_record" using signer_parse by blast
  have seg: "validSegment ''bap.example.com''" "validSegment ''key-1''" by code_simp+
  have "length (b64_encode sample_seed) = 44" by code_simp
  then have "length signer_body < maxLookupResponseBytes" by (simp add: signer_body_def maxLookupResponseBytes_def)
  then have fetch: "fetchDeDiData signer_dedi w u ''record lookup'' nf = (Inr data, w)" for w u nf
    using data(1) by (simp add: fetchDeDiData_def doGet_def signer_dedi_def sample_dedi_def read_body_def read_limited_def HttpResponse.truncate_def)
  obtain h where signed: "sample_signed = set_request_header AuthHeaderSubscriber h sample_ctx" by (rule sample_run)
  have "context_map_field ''{}'' = Some None" by code_simp
  then have net: "extractContextNetworkID F (ScCtx (validation_ctx sample_signed)) (Some (Body (validation_ctx sample_signed))) = []" for F
    by (simp add: extractContextNetworkID_def signed set_request_header_def validation_ctx_def ctx_string0_def ctx_string_def context_key_defs)
  have "validateMemberships [] [] (NetworkMemberships signer_record) (SubscriberID signer_record) = None" by code_simp
  moreover have "unmarshal_subscriptions C [] = None" for C by (simp add: unmarshal_subscriptions_def json_decode_def is_ws_def)
  ultimately show ?thesis
    using data(2) seg fetch
    by (simp add: dedi_Lookup_def lookup_query_def cachedLookup_def remote_lookup_def cache_record_def net signer_dedi_def sample_dedi_def
        cache_plugin_def cache_Get_def cache_Set_def memory_redis_def split: option.splits)
qed

lemma signer_validated:
  "fst (validateSignStep_Run (validator_plugin sample_crypto 0 (\<lambda>w. (0, w))) (dedi_keys g signer_dedi) None (Map.empty, Map.empty) sample_signed) = None"
proof -
  obtain s where signed: "sample_signed = set_request_header AuthHeaderSubscriber s sample_ctx"
    and run: "signStep_Run (\<lambda>w. (0, w)) (signer_plugin sample_crypto) sample_km None () sample_ctx =
       (None, set_request_header AuthHeaderSubscriber s sample_ctx, ())"
    by (rule sample_run)
  obtain w' where "dedi_Lookup signer_dedi Map.empty (ScCtx (validation_ctx sample_signed)) (Some (Body (validation_ctx sample_signed)))
    (lookup_query ''bap.example.com'' ''key-1'') = (Inr [signer_record], w')" using signer_lookup by blast
  then have key: "LookupNPKeys (dedi_keys g signer_dedi) (Map.empty, Map.empty) (validation_ctx sample_signed) ''bap.example.com'' ''key-1'' =
      (Inr (b64_encode sample_seed, []), (Map.empty, w'))"
    by (simp add: skm_plugin_def skm_LookupNPKeys_def skm_validateParams_def dedi_lookup_plugin_def signer_record_def zero_subscription_def
        IsKeyStatusUsable_def nonUsableKeySubscriptionStatuses_def)
  show ?thesis
    by (rule ed25519.sign_then_validate [where C = sample_crypto and ctx = sample_ctx and rctx = "validation_ctx sample_signed"
          and ks = sample_keyset and rs = "[]" and clock = "\<lambda>w. (0, w)" and km = sample_km and w = "()"
          and ctx' = sample_signed and ps = None and H = s and ?t1.0 = "0" and ?t2.0 = "0" and pk = "b64_encode sample_seed"
          and v = "(Map.empty, Map.empty)" and ?v1.0 = "(Map.empty, Map.empty)" and enc = "[]" and ?v2.0 = "(Map.empty, w')"])
      (use key_pair_seed [OF sample_crypto_correct sample_seed_length] key in \<open>simp_all add: run signed sample_checks\<close>)
qed


end
