(* ===== verification/Vc_Config.thy ===== *)
theory Vc_Config
  imports Manifest_Loader "HOL-Library.Word"
begin

text \<open>
  The outer edge of the VC validator: its settings (\<open>vcvalidator.go\<close>: \<open>Config\<close> and \<open>ParseConfig\<close>) and the
  HTTP clients it fetches DID documents and revocation lists with (\<open>verify.go\<close>: \<open>newHTTPClient\<close>,
  the guard against addresses that are not public, and the two fetchers).

  \<open>strings.ToLower\<close>, \<open>time.ParseDuration\<close>, \<open>net.SplitHostPort\<close>, \<open>net.ParseIP\<close> and the client that
  \<open>net/http\<close> builds from its settings are arguments. The methods of \<open>net.IP\<close> are modelled on bytes.
\<close>

unbundle bit_operations_syntax

subsection \<open>Settings\<close>

record VcConfig =
  Enabled :: bool
  Actions :: "string list"
  AllowedDIDMethods :: "string list"
  CheckExpiry :: bool
  CheckRevocation :: bool
  RequireProof :: bool
  FailOpen :: bool
  HTTPTimeout :: int
  MaxCredentials :: int
  AllowPrivateNetworks :: bool
  DebugLogging :: bool

definition vc_DefaultConfig :: VcConfig where
  "vc_DefaultConfig =
     \<lparr>Enabled = True, Actions = [], AllowedDIDMethods = [''key'', ''jwk'', ''web''], CheckExpiry = True,
      CheckRevocation = True, RequireProof = True, FailOpen = False, HTTPTimeout = 10 * second,
      MaxCredentials = 10, AllowPrivateNetworks = False, DebugLogging = False\<rparr>"

definition vc_parseBool :: "(string \<Rightarrow> string) \<Rightarrow> string \<Rightarrow> bool \<Rightarrow> bool" where
  "vc_parseBool ToLower v dflt =
     (let s = ToLower (TrimSpace v) in
      if s \<in> {''true'', ''1'', ''yes''} then True
      else if s \<in> {''false'', ''0'', ''no''} then False else dflt)"

definition splitCSV :: "string \<Rightarrow> string list" where
  "splitCSV v = filter (\<lambda>p. p \<noteq> []) (map TrimSpace (Split (CHR '','') v))"

text \<open>A boolean setting, and the two numeric ones with the prior value in \<open>dflt\<close>.\<close>

definition vc_flag :: "(string \<Rightarrow> string) \<Rightarrow> (string \<rightharpoonup> string) \<Rightarrow> string \<Rightarrow> bool \<Rightarrow> bool" where
  "vc_flag ToLower cfg k dflt = (case cfg k of Some v \<Rightarrow> vc_parseBool ToLower v dflt | None \<Rightarrow> dflt)"

definition vc_timeout :: "(string \<Rightarrow> int option) \<Rightarrow> (string \<rightharpoonup> string) \<Rightarrow> int \<Rightarrow> goerr + int" where
  "vc_timeout ParseDuration cfg dflt =
     (case cfg ''httpTimeout'' of
        None \<Rightarrow> Inr dflt
      | Some v \<Rightarrow>
          if TrimSpace v = [] then Inr dflt
          else
            (case Atoi (TrimSpace v) of
               Some secs \<Rightarrow> Inr (wrap64 (secs * second))
             | None \<Rightarrow>
                 (case ParseDuration (TrimSpace v) of
                    Some d \<Rightarrow> Inr d
                  | None \<Rightarrow> Inl (ErrText (''validateVC: invalid httpTimeout '' @ go_quote v)))))"

definition vc_max :: "(string \<rightharpoonup> string) \<Rightarrow> int \<Rightarrow> goerr + int" where
  "vc_max cfg dflt =
     (case cfg ''maxCredentials'' of
        None \<Rightarrow> Inr dflt
      | Some v \<Rightarrow>
          if TrimSpace v = [] then Inr dflt
          else
            (case Atoi (TrimSpace v) of
               Some n \<Rightarrow>
                 if n < 1 then Inl (ErrText (''validateVC: invalid maxCredentials '' @ go_quote v @ '' (must be a positive integer)''))
                 else Inr n
             | None \<Rightarrow> Inl (ErrText (''validateVC: invalid maxCredentials '' @ go_quote v @ '' (must be a positive integer)''))))"

definition vc_methods :: "(string \<Rightarrow> string) \<Rightarrow> (string \<rightharpoonup> string) \<Rightarrow> string list \<Rightarrow> string list" where
  "vc_methods ToLower cfg dflt =
     (case cfg ''allowedDidMethods'' of
        None \<Rightarrow> dflt
      | Some v \<Rightarrow> if TrimSpace v = [] then dflt else map (\<lambda>m. TrimPrefix (ToLower m) ''did:'') (splitCSV v))"

definition vc_ParseConfig ::
  "(string \<Rightarrow> string) \<Rightarrow> (string \<Rightarrow> int option) \<Rightarrow> (string \<rightharpoonup> string) \<Rightarrow> goerr + VcConfig" where
  "vc_ParseConfig ToLower ParseDuration cfg =
     (let d = vc_DefaultConfig; flag = vc_flag ToLower cfg in
      case vc_timeout ParseDuration cfg (HTTPTimeout d) of
        Inl e \<Rightarrow> Inl e
      | Inr timeout \<Rightarrow>
          (case vc_max cfg (MaxCredentials d) of
             Inl e \<Rightarrow> Inl e
           | Inr maxc \<Rightarrow>
               (let config =
                     \<lparr>Enabled = flag ''enabled'' (Enabled d),
                      Actions = (case cfg ''actions'' of None \<Rightarrow> Actions d | Some v \<Rightarrow> splitCSV v),
                      AllowedDIDMethods = vc_methods ToLower cfg (AllowedDIDMethods d),
                      CheckExpiry = flag ''checkExpiry'' (CheckExpiry d),
                      CheckRevocation = flag ''checkRevocation'' (CheckRevocation d),
                      RequireProof = flag ''requireProof'' (RequireProof d), FailOpen = flag ''failOpen'' (FailOpen d),
                      HTTPTimeout = timeout, MaxCredentials = maxc,
                      AllowPrivateNetworks = flag ''allowPrivateNetworks'' (AllowPrivateNetworks d),
                      DebugLogging = flag ''debugLogging'' (DebugLogging d)\<rparr>
                in if Enabled config \<and> Actions config = [] then
                     Inl (ErrText (''validateVC: actions is required when enabled (e.g. '' @ [CHR 0x22] @ ''confirm,init'' @ [CHR 0x22] @ '')''))
                   else Inr config)))"

definition IsActionEnabled :: "VcConfig \<Rightarrow> string \<Rightarrow> bool" where
  "IsActionEnabled c action = list_ex (\<lambda>a. a = action) (Actions c)"

definition IsMethodAllowed :: "VcConfig \<Rightarrow> string \<Rightarrow> bool" where
  "IsMethodAllowed c m = list_ex (\<lambda>a. a = m) (AllowedDIDMethods c)"

subsection \<open>Addresses\<close>

text \<open>A \<open>net.IP\<close>: 4 or 16 bytes.\<close>

type_synonym IP = "8 word list"

definition To4 :: "IP \<Rightarrow> IP option" where
  "To4 ip =
     (if length ip = 4 then Some ip
      else if length ip = 16 \<and> take 10 ip = replicate 10 0 \<and> ip ! 10 = 0xFF \<and> ip ! 11 = 0xFF then Some (drop 12 ip)
      else None)"

definition v4InV6Prefix :: IP where
  "v4InV6Prefix = replicate 10 0 @ [0xFF, 0xFF]"

definition IP_Equal :: "IP \<Rightarrow> IP \<Rightarrow> bool" where
  "IP_Equal ip x =
     (if length ip = length x then ip = x
      else if length ip = 4 \<and> length x = 16 then take 12 x = v4InV6Prefix \<and> ip = drop 12 x
      else if length ip = 16 \<and> length x = 4 then take 12 ip = v4InV6Prefix \<and> drop 12 ip = x
      else False)"

definition IPv4 :: "8 word \<Rightarrow> 8 word \<Rightarrow> 8 word \<Rightarrow> 8 word \<Rightarrow> IP" where
  "IPv4 a b c d = v4InV6Prefix @ [a, b, c, d]"

definition IsUnspecified :: "IP \<Rightarrow> bool" where
  "IsUnspecified ip \<longleftrightarrow> IP_Equal ip (IPv4 0 0 0 0) \<or> IP_Equal ip (replicate 16 0)"

definition IsLoopback :: "IP \<Rightarrow> bool" where
  "IsLoopback ip =
     (case To4 ip of Some ip4 \<Rightarrow> ip4 ! 0 = 127 | None \<Rightarrow> IP_Equal ip (replicate 15 0 @ [1]))"

definition IsPrivate :: "IP \<Rightarrow> bool" where
  "IsPrivate ip =
     (case To4 ip of
        Some ip4 \<Rightarrow> ip4 ! 0 = 10 \<or> ip4 ! 0 = 172 \<and> ip4 ! 1 AND 0xF0 = 16 \<or> ip4 ! 0 = 192 \<and> ip4 ! 1 = 168
      | None \<Rightarrow> length ip = 16 \<and> ip ! 0 AND 0xFE = 0xFC)"

definition IsMulticast :: "IP \<Rightarrow> bool" where
  "IsMulticast ip =
     (case To4 ip of Some ip4 \<Rightarrow> ip4 ! 0 AND 0xF0 = 0xE0 | None \<Rightarrow> length ip = 16 \<and> ip ! 0 = 0xFF)"

definition IsLinkLocalMulticast :: "IP \<Rightarrow> bool" where
  "IsLinkLocalMulticast ip =
     (case To4 ip of
        Some ip4 \<Rightarrow> ip4 ! 0 = 224 \<and> ip4 ! 1 = 0 \<and> ip4 ! 2 = 0
      | None \<Rightarrow> length ip = 16 \<and> ip ! 0 = 0xFF \<and> ip ! 1 AND 0x0F = 0x02)"

definition IsLinkLocalUnicast :: "IP \<Rightarrow> bool" where
  "IsLinkLocalUnicast ip =
     (case To4 ip of
        Some ip4 \<Rightarrow> ip4 ! 0 = 169 \<and> ip4 ! 1 = 254
      | None \<Rightarrow> length ip = 16 \<and> ip ! 0 = 0xFE \<and> ip ! 1 AND 0xC0 = 0x80)"

definition isDisallowedIP :: "IP \<Rightarrow> bool" where
  "isDisallowedIP ip \<longleftrightarrow>
     IsLoopback ip \<or> IsPrivate ip \<or> IsLinkLocalUnicast ip \<or> IsLinkLocalMulticast ip \<or> IsMulticast ip \<or>
     IsUnspecified ip \<or> IP_Equal ip (IPv4 255 255 255 255)"

definition guardDial :: "(string \<Rightarrow> goerr + string) \<Rightarrow> (string \<Rightarrow> IP option) \<Rightarrow> string \<Rightarrow> goerr option" where
  "guardDial SplitHost ParseIP address =
     (case SplitHost address of
        Inl e \<Rightarrow> Some (ErrText (''blocked dial to '' @ go_quote address @ '': '' @ error_text e))
      | Inr host \<Rightarrow>
          (let blocked = Some (ErrText (''blocked dial to non-public address '' @ go_quote address @
                '' (set allowPrivateNetworks=true only for local deployments)'')) in
           case ParseIP host of None \<Rightarrow> blocked | Some ip \<Rightarrow> if isDisallowedIP ip then blocked else None))"

subsection \<open>Clients\<close>

definition maxRedirects :: nat where "maxRedirects = 3"

definition check_redirect :: "nat \<Rightarrow> goerr option" where
  "check_redirect via =
     (if via \<ge> maxRedirects then Some (ErrText (''stopped after '' @ nat_dec maxRedirects @ '' redirects'')) else None)"

text \<open>What \<open>newHTTPClient\<close> sets; the check of the address is \<^term>\<open>None\<close> for the default transport.\<close>

record ClientSettings =
  CsTimeout :: int
  CsCheckRedirect :: "nat \<Rightarrow> goerr option"
  CsControl :: "(string \<Rightarrow> goerr option) option"

definition vc_newHTTPClient :: "(string \<Rightarrow> goerr + string) \<Rightarrow> (string \<Rightarrow> IP option) \<Rightarrow> VcConfig \<Rightarrow> ClientSettings" where
  "vc_newHTTPClient SplitHost ParseIP cfg =
     \<lparr>CsTimeout = HTTPTimeout cfg, CsCheckRedirect = check_redirect,
      CsControl = (if AllowPrivateNetworks cfg then None else Some (guardDial SplitHost ParseIP))\<rparr>"

text \<open>A client: the error of building a GET, and the round trip with an \<open>Accept\<close> header.\<close>

record 'w VcClient =
  VcNewRequest :: "string \<Rightarrow> goerr option"
  VcDo :: "'w \<Rightarrow> string \<Rightarrow> string \<Rightarrow> (goerr + HttpResponse) \<times> 'w"

type_synonym 'w fetcher = "'w \<Rightarrow> string \<Rightarrow> (goerr + string) \<times> 'w"
type_synonym 'w statusFetcher = "'w \<Rightarrow> string \<Rightarrow> (goerr + int \<times> string) \<times> 'w"

definition httpFetcher :: "'w VcClient \<Rightarrow> 'w fetcher" where
  "httpFetcher client w url =
     (case VcNewRequest client url of
        Some e \<Rightarrow> (Inl e, w)
      | None \<Rightarrow>
          (case VcDo client w url ''application/json, application/did+json, */*'' of
             (Inl e, w1) \<Rightarrow> (Inl e, w1)
           | (Inr resp, w1) \<Rightarrow>
               (case read_limited (2 ^ 20) resp of
                  Inl e \<Rightarrow> (Inl e, w1)
                | Inr body \<Rightarrow>
                    if HrStatus resp < 200 \<or> HrStatus resp \<ge> 300 then
                      (Inl (ErrText (''http '' @ int_dec (HrStatus resp) @ '' for '' @ url)), w1)
                    else (Inr body, w1))))"

text \<open>The error of reading the body is dropped here, with what was read before it kept.\<close>

definition httpStatusFetcher :: "'w VcClient \<Rightarrow> 'w statusFetcher" where
  "httpStatusFetcher client w url =
     (case VcNewRequest client url of
        Some e \<Rightarrow> (Inl e, w)
      | None \<Rightarrow>
          (case VcDo client w url ''application/json, */*'' of
             (Inl e, w1) \<Rightarrow> (Inl e, w1)
           | (Inr resp, w1) \<Rightarrow> (Inr (HrStatus resp, take (2 ^ 20) (HrBody resp)), w1)))"

subsection \<open>Which addresses are refused\<close>

lemma four_bytes: "length ip = 4 \<Longrightarrow> \<exists>a b c d. ip = [a, b, c, d]"
  by (auto simp: numeral_eq_Suc length_Suc_conv)

lemma IPv4_length [simp]: "length (IPv4 a b c d) = 16"
  by (simp add: IPv4_def v4InV6Prefix_def)

lemma To4_IPv4 [simp]: "To4 (IPv4 a b c d) = Some [a, b, c, d]"
  by (simp add: To4_def IPv4_def v4InV6Prefix_def nth_append)

lemma To4_four [simp]: "To4 [a, b, c, d] = Some [a, b, c, d]"
  by (simp add: To4_def)

text \<open>The bytes of a 32-bit address, and the refused networks as intervals of such addresses.\<close>

definition v4_bytes :: "32 word \<Rightarrow> IP" where
  "v4_bytes w = [ucast (drop_bit 24 w), ucast (drop_bit 16 w), ucast (drop_bit 8 w), ucast w]"

definition refused_v4 :: "(nat \<times> nat) list" where
  "refused_v4 =
     [(0x00000000, 0x00000000), (0x0A000000, 0x0AFFFFFF), (0x7F000000, 0x7FFFFFFF), (0xA9FE0000, 0xA9FEFFFF),
      (0xAC100000, 0xAC1FFFFF), (0xC0A80000, 0xC0A8FFFF), (0xE0000000, 0xEFFFFFFF), (0xFFFFFFFF, 0xFFFFFFFF)]"


lemma high_bits: "x AND 0xF0 = push_bit 4 (drop_bit 4 x)" for x :: "8 word"
proof -
  have mask: "(0xF0 :: 8 word) = NOT (mask 4)" by (simp add: mask_eq_exp_minus_1)
  show ?thesis unfolding mask by (rule bit_word_eqI) (auto simp: bit_simps)
qed

lemma high_nibble:
  "x AND 0xF0 = 16 \<longleftrightarrow> unat x div 16 = 1" "x AND 0xF0 = 0xE0 \<longleftrightarrow> unat x div 16 = 14" for x :: "8 word"
proof -
  have "unat x < 256" using unsigned_less [of x, where ?'a = nat] by simp
  then have "unat (push_bit 4 (drop_bit 4 x)) = 16 * (unat x div 16)"
    by (simp only: unsigned_push_bit_eq unsigned_drop_bit_eq) (simp add: push_bit_eq_mult drop_bit_eq_div take_bit_eq_mod)
  then show "x AND 0xF0 = 16 \<longleftrightarrow> unat x div 16 = 1" "x AND 0xF0 = 0xE0 \<longleftrightarrow> unat x div 16 = 14"
    by (auto simp: high_bits word_unat_eq_iff)
qed

lemma v4_byte_unat:
  "unat (ucast (drop_bit k w) :: 8 word) = unat w div 2 ^ k mod 256" for w :: "32 word"
  by (simp only: unsigned_ucast_eq unsigned_drop_bit_eq) (use unsigned_less [of w, where ?'a = nat] in \<open>simp add: drop_bit_eq_div take_bit_eq_mod\<close>)

lemma byte_eq_unat: "n < 256 \<Longrightarrow> x = word_of_nat n \<longleftrightarrow> unat x = n" for x :: "8 word"
  by (auto simp: word_unat_eq_iff unsigned_of_nat take_bit_eq_mod)

lemmas bytes_eq_unat =
  byte_eq_unat [of 0, simplified] byte_eq_unat [of 10, simplified] byte_eq_unat [of 127, simplified]
  byte_eq_unat [of 168, simplified] byte_eq_unat [of 169, simplified] byte_eq_unat [of 172, simplified]
  byte_eq_unat [of 192, simplified] byte_eq_unat [of 224, simplified] byte_eq_unat [of 254, simplified]
  byte_eq_unat [of 255, simplified]

lemma v4_disallowed:
  assumes form: "ip \<in> {[a, b, c, d], IPv4 a b c d}"
  shows "isDisallowedIP ip \<longleftrightarrow> unat a = 127 \<or> unat a = 10 \<or> unat a = 172 \<and> unat b div 16 = 1 \<or> unat a = 192 \<and> unat b = 168 \<or>
    unat a = 169 \<and> unat b = 254 \<or> unat a div 16 = 14 \<or> unat a = 0 \<and> unat b = 0 \<and> unat c = 0 \<and> unat d = 0 \<or>
    unat a = 255 \<and> unat b = 255 \<and> unat c = 255 \<and> unat d = 255"
proof -
  have to4: "To4 ip = Some [a, b, c, d]" using form by auto
  have eq: "IP_Equal ip (IPv4 e f g h) \<longleftrightarrow> a = e \<and> b = f \<and> c = g \<and> d = h" for e f g h
    using form by (auto simp: IP_Equal_def IPv4_def v4InV6Prefix_def)
  have "0xFF \<notin> set (replicate n (0 :: 8 word))" for n by simp
  then have "v4InV6Prefix \<noteq> replicate 12 0" "IPv4 a b c d \<noteq> replicate 16 0"
    unfolding v4InV6Prefix_def IPv4_def by (metis in_set_conv_decomp append_Cons append_Nil append_assoc)+
  then have "\<not> IP_Equal ip (replicate 16 0)"
    using form by (auto simp: IP_Equal_def)
  moreover have multicast: "unat a = 224 \<Longrightarrow> unat a div 16 = 14" by simp
  moreover have "[a, b, c, d] ! 0 = a" "[a, b, c, d] ! 1 = b" "[a, b, c, d] ! 2 = c" by simp_all
  ultimately show ?thesis
    unfolding isDisallowedIP_def IsLoopback_def IsPrivate_def IsMulticast_def IsLinkLocalMulticast_def
      IsLinkLocalUnicast_def IsUnspecified_def eq to4 option.case
    by (simp only: high_nibble) (simp only: bytes_eq_unat, blast dest: multicast)
qed

lemma v4_bytes_unat:
  "unat (v4_bytes w ! 0) = unat w div 2 ^ 24" "unat (v4_bytes w ! 1) = unat w div 2 ^ 16 mod 256"
  "unat (v4_bytes w ! 2) = unat w div 2 ^ 8 mod 256" "unat (v4_bytes w ! 3) = unat w mod 256"
proof -
  have "unat w < 2 ^ 32" using unsigned_less [of w, where ?'a = nat] by simp
  then show "unat (v4_bytes w ! 0) = unat w div 2 ^ 24" by (simp add: v4_bytes_def v4_byte_unat)
  show "unat (v4_bytes w ! 1) = unat w div 2 ^ 16 mod 256" "unat (v4_bytes w ! 2) = unat w div 2 ^ 8 mod 256"
    "unat (v4_bytes w ! 3) = unat w mod 256"
    using v4_byte_unat [of 0 w] by (simp_all add: v4_bytes_def v4_byte_unat)
qed

text \<open>Two adjacent digits of a number are one digit of a larger base.\<close>

lemma digits_join: "n div (k * m) = a \<and> n div k mod m = b \<longleftrightarrow> n div k = a * m + b \<and> b < m" if "m > 0" for n k m a b :: nat
  using that by (auto simp: div_mult2_eq)

lemma digit_range: "n div k = q \<longleftrightarrow> q * k \<le> n \<and> n < Suc q * k" if "k > 0" for n k q :: nat
  using that by (auto simp: div_nat_eqI dividend_less_times_div mult.commute)

lemma v4_ranges:
  fixes n :: nat
  assumes "n < 2 ^ 32"
  shows "n div 2 ^ 24 = 127 \<longleftrightarrow> 0x7F000000 \<le> n \<and> n \<le> 0x7FFFFFFF" "n div 2 ^ 24 = 10 \<longleftrightarrow> 0x0A000000 \<le> n \<and> n \<le> 0x0AFFFFFF"
    "n div 2 ^ 24 = 172 \<and> n div 2 ^ 16 mod 256 div 16 = 1 \<longleftrightarrow> 0xAC100000 \<le> n \<and> n \<le> 0xAC1FFFFF"
    "n div 2 ^ 24 = 192 \<and> n div 2 ^ 16 mod 256 = 168 \<longleftrightarrow> 0xC0A80000 \<le> n \<and> n \<le> 0xC0A8FFFF"
    "n div 2 ^ 24 = 169 \<and> n div 2 ^ 16 mod 256 = 254 \<longleftrightarrow> 0xA9FE0000 \<le> n \<and> n \<le> 0xA9FEFFFF"
    "n div 2 ^ 24 div 16 = 14 \<longleftrightarrow> 0xE0000000 \<le> n \<and> n \<le> 0xEFFFFFFF"
    "n div 2 ^ 24 = a \<and> n div 2 ^ 16 mod 256 = b \<and> n div 2 ^ 8 mod 256 = c \<and> n mod 256 = d \<longleftrightarrow>
       n = ((a * 256 + b) * 256 + c) * 256 + d \<and> b < 256 \<and> c < 256 \<and> d < 256"
proof -
  have sixteen: "n div 2 ^ 16 mod 256 div 16 = n div 2 ^ 20 mod 16"
  proof -
    have "n div 2 ^ 16 mod 256 div 16 = n div 2 ^ 16 div 16 mod 16" using mod_mult2_eq [of "n div 2 ^ 16" 16 16] by simp
    then show ?thesis by (simp add: div_mult2_eq [symmetric])
  qed
  show "n div 2 ^ 24 = 127 \<longleftrightarrow> 0x7F000000 \<le> n \<and> n \<le> 0x7FFFFFFF" "n div 2 ^ 24 = 10 \<longleftrightarrow> 0x0A000000 \<le> n \<and> n \<le> 0x0AFFFFFF"
    by (auto simp: digit_range)
  show "n div 2 ^ 24 = 172 \<and> n div 2 ^ 16 mod 256 div 16 = 1 \<longleftrightarrow> 0xAC100000 \<le> n \<and> n \<le> 0xAC1FFFFF"
    unfolding sixteen using digits_join [of 16 n "2 ^ 20" 172 1] by (auto simp: digit_range)
  show "n div 2 ^ 24 = 192 \<and> n div 2 ^ 16 mod 256 = 168 \<longleftrightarrow> 0xC0A80000 \<le> n \<and> n \<le> 0xC0A8FFFF"
    "n div 2 ^ 24 = 169 \<and> n div 2 ^ 16 mod 256 = 254 \<longleftrightarrow> 0xA9FE0000 \<le> n \<and> n \<le> 0xA9FEFFFF"
    using digits_join [of 256 n "2 ^ 16" 192 168] digits_join [of 256 n "2 ^ 16" 169 254] by (auto simp: digit_range)
  show "n div 2 ^ 24 div 16 = 14 \<longleftrightarrow> 0xE0000000 \<le> n \<and> n \<le> 0xEFFFFFFF"
    by (auto simp: div_mult2_eq [symmetric] digit_range)
  show "n div 2 ^ 24 = a \<and> n div 2 ^ 16 mod 256 = b \<and> n div 2 ^ 8 mod 256 = c \<and> n mod 256 = d \<longleftrightarrow>
       n = ((a * 256 + b) * 256 + c) * 256 + d \<and> b < 256 \<and> c < 256 \<and> d < 256"
    using digits_join [of 256 n "2 ^ 16" a b] digits_join [of 256 n "2 ^ 8" "a * 256 + b" c]
      digits_join [of 256 n 1 "(a * 256 + b) * 256 + c" d] by auto
qed

lemma refused_ranges:
  "list_ex (\<lambda>(lo, hi). lo \<le> n \<and> n \<le> hi) refused_v4 \<longleftrightarrow>
      n = 0 \<or> 0x0A000000 \<le> n \<and> n \<le> 0x0AFFFFFF \<or> 0x7F000000 \<le> n \<and> n \<le> 0x7FFFFFFF \<or> 0xA9FE0000 \<le> n \<and> n \<le> 0xA9FEFFFF \<or>
      0xAC100000 \<le> n \<and> n \<le> 0xAC1FFFFF \<or> 0xC0A80000 \<le> n \<and> n \<le> 0xC0A8FFFF \<or> 0xE0000000 \<le> n \<and> n \<le> 0xEFFFFFFF \<or>
      n = 0xFFFFFFFF"
proof -
  have "x \<le> n \<and> n \<le> x \<longleftrightarrow> n = x" for x by auto
  then show ?thesis by (simp add: refused_v4_def)
qed

text \<open>C21: The dial guard refuses an IPv4 address, in its 4-byte form and in its 16-byte form alike, exactly when it is
  0.0.0.0, 255.255.255.255, or in one of 10/8, 127/8, 169.254/16, 172.16/12, 192.168/16 and 224/4.\<close>

theorem refused_v4_exact:
  "ip \<in> {v4_bytes w, v4InV6Prefix @ v4_bytes w} \<Longrightarrow>
     isDisallowedIP ip \<longleftrightarrow> list_ex (\<lambda>(lo, hi). lo \<le> unat w \<and> unat w \<le> hi) refused_v4"
proof -
  assume ip: "ip \<in> {v4_bytes w, v4InV6Prefix @ v4_bytes w}"
  let ?n = "unat w"
  obtain a b c d where bytes: "v4_bytes w = [a, b, c, d]" by (simp add: v4_bytes_def)
  have values_: "unat a = ?n div 2 ^ 24" "unat b = ?n div 2 ^ 16 mod 256" "unat c = ?n div 2 ^ 8 mod 256" "unat d = ?n mod 256"
    using v4_bytes_unat [of w] by (simp_all add: bytes)
  have n: "?n < 2 ^ 32" using unsigned_less [of w, where ?'a = nat] by simp
  have "list_ex (\<lambda>(lo, hi). lo \<le> unat w \<and> unat w \<le> hi) refused_v4 \<longleftrightarrow>
      ?n = 0 \<or> 0x0A000000 \<le> ?n \<and> ?n \<le> 0x0AFFFFFF \<or> 0x7F000000 \<le> ?n \<and> ?n \<le> 0x7FFFFFFF \<or> 0xA9FE0000 \<le> ?n \<and> ?n \<le> 0xA9FEFFFF \<or>
      0xAC100000 \<le> ?n \<and> ?n \<le> 0xAC1FFFFF \<or> 0xC0A80000 \<le> ?n \<and> ?n \<le> 0xC0A8FFFF \<or> 0xE0000000 \<le> ?n \<and> ?n \<le> 0xEFFFFFFF \<or>
      ?n = 0xFFFFFFFF"
    by (rule refused_ranges)
  moreover have "ip \<in> {[a, b, c, d], IPv4 a b c d}" using ip by (simp add: bytes IPv4_def)
  note v4_disallowed [OF this, unfolded values_ v4_ranges [OF n]]
  ultimately show ?thesis by (simp add: disj_ac)
qed

theorem refused_v4_exact_witness:
  "isDisallowedIP (v4_bytes 0xA9FEA9FE) \<and> \<not> isDisallowedIP (v4InV6Prefix @ v4_bytes 0x64400001)"
  using refused_v4_exact [of "v4_bytes 0xA9FEA9FE" "0xA9FEA9FE"]
    refused_v4_exact [of "v4InV6Prefix @ v4_bytes 0x64400001" "0x64400001"]
  by (simp add: refused_ranges)

end
