(* ===== verification/Base58.thy ===== *)
theory Base58
  imports Beckn_Model Go_Base64
begin

text \<open>
  The text encodings of keys in the VC validator (\<open>vcvalidator/verify.go\<close>): base58btc of the plugin's own
  making, and the URL alphabet of \<open>encoding/base64\<close>. The schoolbook conversion of \<open>base58Decode\<close>
  computes the base-256 digits of the number that the text denotes.
\<close>

subsection \<open>The decoder\<close>

definition b58Alphabet :: string where
  "b58Alphabet = ''123456789ABCDEFGHJKLMNPQRSTUVWXYZabcdefghijkmnopqrstuvwxyz''"

text \<open>The table \<open>b58Index\<close>, with \<^term>\<open>None\<close> for -1.\<close>

fun position :: "char \<Rightarrow> string \<Rightarrow> nat option" where
  "position c [] = None"
| "position c (x # xs) = (if c = x then Some 0 else map_option Suc (position c xs))"

definition b58Index :: "char \<Rightarrow> nat option" where
  "b58Index c = position c b58Alphabet"

text \<open>
  One character: every byte of the little-endian number is multiplied by 58 with a carry, and the
  bytes of the last carry are appended.
\<close>

fun mul_add :: "nat \<Rightarrow> nat list \<Rightarrow> nat list \<times> nat" where
  "mul_add carry [] = ([], carry)"
| "mul_add carry (b # out) =
     (let s = carry + 58 * b; (rest, c) = mul_add (s div 256) out in (s mod 256 # rest, c))"

function carry_bytes :: "nat \<Rightarrow> nat list" where
  "carry_bytes carry = (if carry > 0 then carry mod 256 # carry_bytes (carry div 256) else [])"
  by pat_completeness auto
termination by (relation "measure id") auto

declare carry_bytes.simps [simp del]

definition b58_step :: "nat \<Rightarrow> nat list \<Rightarrow> nat list" where
  "b58_step c out = (let (out', carry) = mul_add c out in out' @ carry_bytes carry)"

fun b58_loop :: "string \<Rightarrow> nat list \<Rightarrow> goerr + nat list" where
  "b58_loop [] out = Inr out"
| "b58_loop (x # s) out =
     (case b58Index x of
        None \<Rightarrow> Inl (ErrText (''invalid base58 character '' @ [CHR 0x27] @ quote_byte x @ [CHR 0x27]))
      | Some c \<Rightarrow> b58_loop s (b58_step c out))"

definition base58Decode :: "string \<Rightarrow> goerr + string" where
  "base58Decode s =
     (if s = [] then Inl (ErrText ''empty base58 string'')
      else
        (let zeros = length (takeWhile (\<lambda>c. c = CHR ''1'') s) in
         case b58_loop (drop zeros s) [] of
           Inl e \<Rightarrow> Inl e
         | Inr out \<Rightarrow> Inr (map char_of (replicate zeros 0 @ rev out))))"

subsection \<open>Base64 with the URL alphabet\<close>

definition url_to_std :: "char \<Rightarrow> char" where
  "url_to_std c =
     (if c = CHR ''-'' then CHR ''+'' else if c = CHR ''_'' then CHR ''/''
      else if c = CHR ''+'' \<or> c = CHR ''/'' then CHR 0x00 else c)"

text \<open>\<open>base64.URLEncoding\<close>, and \<open>base64.RawURLEncoding\<close> without padding.\<close>

definition line_breaks_out :: "string \<Rightarrow> string" where
  "line_breaks_out s = filter (\<lambda>c. c \<noteq> CHR 0x0A \<and> c \<noteq> CHR 0x0D) s"

definition b64url_decode :: "string \<Rightarrow> string option" where
  "b64url_decode s = b64_groups (map url_to_std (line_breaks_out s))"

definition b64rawurl_decode :: "string \<Rightarrow> string option" where
  "b64rawurl_decode s =
     (let t = map url_to_std (line_breaks_out s) in
      if CHR ''='' \<in> set t \<or> length t mod 4 = 1 then None
      else b64_groups (t @ replicate ((4 - length t mod 4) mod 4) (CHR ''='')))"

subsection \<open>What the decoder computes\<close>

text \<open>The number that a text of base-58 digits denotes.\<close>

fun b58_value :: "string \<Rightarrow> nat \<Rightarrow> nat" where
  "b58_value [] v = v"
| "b58_value (x # s) v = b58_value s (58 * v + (case b58Index x of Some c \<Rightarrow> c | None \<Rightarrow> 0))"

definition b58_text :: "string \<Rightarrow> bool" where
  "b58_text s \<longleftrightarrow> (\<forall>x \<in> set s. b58Index x \<noteq> None)"

lemma carry_bytes_0 [simp]: "carry_bytes 0 = []" by (simp add: carry_bytes.simps)

lemma carry_bytes_pos: "n > 0 \<Longrightarrow> carry_bytes n = n mod 256 # carry_bytes (n div 256)"
  by (subst carry_bytes.simps) simp

text \<open>The schoolbook step computes the digits of \<open>58 * v + c\<close> from those of \<open>v\<close>.\<close>

lemma mul_add_carry: "fst (mul_add c (carry_bytes v)) @ carry_bytes (snd (mul_add c (carry_bytes v))) = carry_bytes (58 * v + c)"
proof (induction v arbitrary: c rule: less_induct)
  case (less v)
  show ?case
  proof (cases "v = 0")
    case False
    let ?s = "c + 58 * (v mod 256)" and ?q = "v div 256"
    have "v = 256 * ?q + v mod 256" by simp
    then have split: "58 * v + c = 256 * (58 * ?q) + ?s" by linarith
    have "(256 * m + t) mod 256 = t mod 256 \<and> (256 * m + t) div 256 = m + t div 256" for m t :: nat by simp
    then have "(58 * v + c) mod 256 = ?s mod 256" "(58 * v + c) div 256 = 58 * ?q + ?s div 256"
      unfolding split by blast+
    moreover have "fst (mul_add (?s div 256) (carry_bytes ?q)) @ carry_bytes (snd (mul_add (?s div 256) (carry_bytes ?q))) =
        carry_bytes (58 * ?q + ?s div 256)" using less.IH [of ?q] False by simp
    ultimately show ?thesis
      using False by (simp add: carry_bytes_pos [of v] carry_bytes_pos [of "58 * v + c"] Let_def split_beta)
  qed simp
qed

lemma b58_step_digits: "b58_step c (carry_bytes v) = carry_bytes (58 * v + c)"
  using mul_add_carry [of c v] by (simp add: b58_step_def split_beta)

lemma b58_loop_digits:
  "b58_loop s (carry_bytes v) = Inr out \<longleftrightarrow> b58_text s \<and> out = carry_bytes (b58_value s v)"
proof (induction s arbitrary: v)
  case (Cons x s)
  then show ?case by (auto simp: b58_text_def b58_step_digits split: option.splits)
qed (auto simp: b58_text_def)

lemma carry_bytes_bytes: "b \<in> set (carry_bytes n) \<Longrightarrow> b < 256"
proof (induction n rule: less_induct)
  case (less n)
  from less.prems have "n > 0" by (cases "n = 0") simp_all
  with less.prems have "b = n mod 256 \<or> b \<in> set (carry_bytes (n div 256))" by (simp add: carry_bytes_pos)
  with less.IH [of "n div 256"] \<open>n > 0\<close> show ?case by (auto simp: div_less_dividend)
qed

lemma carry_bytes_last: "n > 0 \<Longrightarrow> carry_bytes n \<noteq> [] \<and> last (carry_bytes n) \<noteq> 0"
proof (induction n rule: less_induct)
  case (less n)
  then show ?case by (cases "n div 256 = 0") (auto simp: carry_bytes_pos div_eq_0_iff)
qed

lemma carry_bytes_inj: "carry_bytes m = carry_bytes n \<Longrightarrow> m = n"
proof (induction m arbitrary: n rule: less_induct)
  case (less m)
  show ?case
  proof (cases "m = 0 \<or> n = 0")
    case True
    with less.prems show ?thesis using carry_bytes_last [of m] carry_bytes_last [of n] by force
  next
    case False
    with less.prems have "m mod 256 = n mod 256" "carry_bytes (m div 256) = carry_bytes (n div 256)"
      by (simp_all add: carry_bytes_pos)
    with less.IH [of "m div 256" "n div 256"] False have "m div 256 = n div 256" "m mod 256 = n mod 256" by simp_all
    then show ?thesis using div_mult_mod_eq [of m 256] div_mult_mod_eq [of n 256] by metis
  qed
qed

text \<open>The number that a byte string denotes, most significant byte first, and the length of a run.\<close>

definition be_value :: "string \<Rightarrow> nat" where
  "be_value b = foldl (\<lambda>v c. 256 * v + of_char c) 0 b"

definition leading :: "char \<Rightarrow> string \<Rightarrow> nat" where
  "leading x s = length (takeWhile (\<lambda>c. c = x) s)"

lemma be_value_simps [simp]: "be_value [] = 0" "be_value (b @ [c]) = 256 * be_value b + of_char c"
  by (simp_all add: be_value_def)

lemma be_value_zeros: "be_value (replicate z (CHR 0x00) @ b) = be_value b"
proof -
  have "foldl (\<lambda>v c. 256 * v + of_char c) 0 (replicate z (CHR 0x00)) = (0 :: nat)" by (induction z) simp_all
  then show ?thesis by (simp add: be_value_def)
qed

text \<open>Without a leading zero the bytes are the digits of the number.\<close>

lemma be_digits: "b = [] \<or> hd b \<noteq> CHR 0x00 \<Longrightarrow> map of_char b = rev (carry_bytes (be_value b)) \<and> (b \<noteq> [] \<longrightarrow> be_value b > 0)"
proof (induction b rule: rev_induct)
  case (snoc c b)
  have byte: "(of_char c :: nat) < 256" by simp
  have "b = [] \<or> hd b \<noteq> CHR 0x00" using snoc.prems by (cases b) auto
  note ih = snoc.IH [OF this]
  have pos: "256 * be_value b + of_char c > 0"
  proof (cases b)
    case Nil
    with snoc.prems have "c \<noteq> CHR 0x00" by simp
    then have "(of_char c :: nat) \<noteq> of_char (CHR 0x00)" by (simp only: of_char_eq_iff not_False_eq_True)
    then show ?thesis by simp
  qed (use ih in simp)
  have "(256 * be_value b + of_char c) mod 256 = of_char c" "(256 * be_value b + of_char c) div 256 = be_value b"
    using byte by simp_all
  with carry_bytes_pos [OF pos] have "carry_bytes (be_value (b @ [c])) = of_char c # carry_bytes (be_value b)"
    by (simp only: be_value_simps)
  with ih pos show ?case by simp
qed simp

lemma char_of_map: "map char_of (map of_char b :: nat list) = (b :: string)"
  by (induction b) simp_all

lemma leading_split: "s = replicate (leading x s) x @ drop (leading x s) s" "drop (leading x s) s = [] \<or> hd (drop (leading x s) s) \<noteq> x"
proof -
  have "takeWhile (\<lambda>c. c = x) s = replicate (leading x s) x"
    unfolding leading_def by (intro replicate_eqI) (auto dest: set_takeWhileD)
  moreover have "drop (leading x s) s = dropWhile (\<lambda>c. c = x) s" unfolding leading_def by (simp add: dropWhile_eq_drop)
  ultimately show "s = replicate (leading x s) x @ drop (leading x s) s" by (metis takeWhile_dropWhile_id)
  show "drop (leading x s) s = [] \<or> hd (drop (leading x s) s) \<noteq> x"
    using hd_dropWhile [of "\<lambda>c. c = x" s] by (auto simp: \<open>drop (leading x s) s = dropWhile (\<lambda>c. c = x) s\<close>)
qed

lemma leading_replicate: "r = [] \<or> hd r \<noteq> x \<Longrightarrow> leading x (replicate z x @ r) = z"
  unfolding leading_def by (induction z) (cases r, auto)+

lemma bytes_of_value: "b = replicate (leading (CHR 0x00) b) (CHR 0x00) @ map char_of (rev (carry_bytes (be_value b)))"
proof -
  let ?r = "drop (leading (CHR 0x00) b) b"
  have "be_value b = be_value ?r" using be_value_zeros leading_split(1) by metis
  moreover have "?r = map char_of (rev (carry_bytes (be_value ?r)))"
    using be_digits [OF leading_split(2)] char_of_map by metis
  ultimately show ?thesis using leading_split(1) by metis
qed

lemma be_value_digits:
  "be_value (replicate z (CHR 0x00) @ map char_of (rev (carry_bytes n))) = n \<and>
   leading (CHR 0x00) (replicate z (CHR 0x00) @ map char_of (rev (carry_bytes n))) = z"
proof -
  let ?d = "map char_of (rev (carry_bytes n)) :: string"
  have bytes: "map of_char ?d = rev (carry_bytes n)"
    using carry_bytes_bytes by (auto simp: comp_def intro!: map_idI)
  have no_zero: "?d = [] \<or> hd ?d \<noteq> CHR 0x00"
  proof (cases "n = 0")
    case False
    then have "last (carry_bytes n) \<noteq> 0" "carry_bytes n \<noteq> []" using carry_bytes_last by simp_all
    moreover have "last (carry_bytes n) < 256" using calculation(2) by (intro carry_bytes_bytes [OF last_in_set])
    ultimately show ?thesis by (simp add: hd_map hd_rev flip: of_char_eq_iff [where ?'a = nat])
  qed simp
  from be_digits [OF this] bytes have "carry_bytes (be_value ?d) = carry_bytes n" by (metis rev_rev_ident)
  then show ?thesis using carry_bytes_inj be_value_zeros leading_replicate [OF no_zero] by metis
qed

lemma b58Index_one: "b58Index x = Some 0 \<longleftrightarrow> x = CHR ''1''"
  by (simp add: b58Index_def b58Alphabet_def)

lemma b58_value_ones: "b58_value (replicate z (CHR ''1'') @ s) 0 = b58_value s 0"
  by (induction z) (simp_all add: b58Index_one [THEN iffD2, OF refl])

lemma base58Decode_digits:
  "base58Decode s = Inr b \<longleftrightarrow> s \<noteq> [] \<and> b58_text s \<and>
     b = replicate (leading (CHR ''1'') s) (CHR 0x00) @ map char_of (rev (carry_bytes (b58_value s 0)))"
proof -
  let ?z = "leading (CHR ''1'') s"
  have one: "b58Index (CHR ''1'') \<noteq> None" by (simp add: b58Index_one [THEN iffD2, OF refl])
  have "b58_text (replicate n (CHR ''1'') @ r) \<longleftrightarrow> b58_text r" for n r
    using one unfolding b58_text_def set_append by (auto dest: in_set_replicate [THEN iffD1])
  from this [of ?z "drop ?z s"] have "b58_text (drop ?z s) \<longleftrightarrow> b58_text s"
    unfolding leading_split(1) [symmetric] by blast
  moreover have "b58_value (drop ?z s) 0 = b58_value s 0" 
    using b58_value_ones [of ?z "drop ?z s"] unfolding leading_split(1) [symmetric] by simp
  moreover have "b58_loop (drop ?z s) [] = Inr out \<longleftrightarrow> b58_text (drop ?z s) \<and> out = carry_bytes (b58_value (drop ?z s) 0)" for out
    using b58_loop_digits [of "drop ?z s" 0 out] by simp
  ultimately have loop: "b58_loop (drop ?z s) [] = Inr out \<longleftrightarrow> b58_text s \<and> out = carry_bytes (b58_value s 0)" for out
    by simp
  have "base58Decode s = (if s = [] then Inl (ErrText ''empty base58 string'')
      else (case b58_loop (drop ?z s) [] of Inl e \<Rightarrow> Inl e | Inr out \<Rightarrow> Inr (replicate ?z (CHR 0x00) @ map char_of (rev out))))"
    unfolding base58Decode_def Let_def leading_def [symmetric]
    by (simp add: char_of_def split: sum.split)
  then have "base58Decode s = Inr b \<longleftrightarrow>
      s \<noteq> [] \<and> (\<exists>out. b58_loop (drop ?z s) [] = Inr out \<and> b = replicate ?z (CHR 0x00) @ map char_of (rev out))"
    by (auto split: sum.splits if_splits)
  then show ?thesis unfolding loop by blast
qed

text \<open>C20: \<open>base58Decode\<close> returns the bytes \<open>b\<close> exactly for the non-empty texts over the base-58 alphabet that
  denote the number of \<open>b\<close> in base 256 and have as many leading ones as \<open>b\<close> has leading zero bytes.
\<close>

theorem base58_exact:
  "base58Decode s = Inr b \<longleftrightarrow>
     s \<noteq> [] \<and> b58_text s \<and> be_value b = b58_value s 0 \<and> leading (CHR 0x00) b = leading (CHR ''1'') s"
proof -
  let ?d = "replicate (leading (CHR ''1'') s) (CHR 0x00) @ map char_of (rev (carry_bytes (b58_value s 0)))"
  have "b = ?d \<longleftrightarrow> be_value b = b58_value s 0 \<and> leading (CHR 0x00) b = leading (CHR ''1'') s"
    using be_value_digits bytes_of_value by metis
  then show ?thesis unfolding base58Decode_digits by blast
qed

end
