(* ===== verification/Vc_Keys.thy ===== *)
theory Vc_Keys
  imports Vc_Config Base58
begin

text \<open>
  DID resolution of the VC validator (\<open>vcvalidator/verify.go\<close>, sections "Failure classes" and "DID
  resolution"): from a DID or DID URL to a public key with its signature algorithm, for the methods
  \<open>key\<close>, \<open>jwk\<close> and \<open>web\<close>, and the classification of the errors on the way.

  A \<open>json.RawMessage\<close> is the decoded value with its members in their order. The JWK and curve libraries, gzip,
  the reading of RFC 3339 times, \<open>int(float64)\<close>, Unicode case mapping and the methods of foreign error
  types are the fields of \<open>VcLib\<close>.
\<close>

subsection \<open>Library\<close>

datatype Curve = P256 | P384 | P521 | Secp256k1

text \<open>A \<open>crypto.PublicKey\<close>, and what \<open>jwk.Export\<close> yields.\<close>

datatype PublicKey = EdPub string | EcPub Curve string | OtherKey string

datatype RawKey = RawEdPriv string | RawEcPriv Curve string | RawPub PublicKey

record VcLib =
  VlToLower :: "string \<Rightarrow> string"
  VlEqualFold :: "string \<Rightarrow> string \<Rightarrow> bool"
  VlTimeout :: "goerr \<Rightarrow> bool option"
  VlUrlError :: "goerr \<Rightarrow> bool"
  VlFloat :: Float64
  VlInt :: "string \<Rightarrow> int"
  VlParseTime :: "string \<Rightarrow> int option"
  VlJwkParse :: "json option \<Rightarrow> goerr + string"
  VlJwkExport :: "string \<Rightarrow> goerr + RawKey"
  VlP256Compressed :: "string \<Rightarrow> string option"
  VlP256Uncompressed :: "string \<Rightarrow> string option"
  VlSecp256k1 :: "string \<Rightarrow> goerr + string"
  VlJwsVerify :: "string \<Rightarrow> string \<Rightarrow> PublicKey \<Rightarrow> goerr + string"
  VlGunzip :: "string \<Rightarrow> (goerr + string) option"

record ResolvedKey =
  RkPub :: PublicKey
  RkAlg :: string

subsection \<open>Failure classes\<close>

definition failStructure :: string where "failStructure = ''INVALID_CREDENTIAL''"
definition failProof :: string where "failProof = ''INVALID_PROOF''"
definition failExpired :: string where "failExpired = ''CREDENTIAL_EXPIRED''"
definition failRevoked :: string where "failRevoked = ''CREDENTIAL_REVOKED''"
definition failResolution :: string where "failResolution = ''DID_RESOLUTION_FAILED''"
definition failIssuer :: string where "failIssuer = ''ISSUER_MISMATCH''"

definition codeSchInvalidJSON :: string where "codeSchInvalidJSON = ''SCH_INVALID_JSON''"
definition codeSchRequiredFieldMissing :: string where "codeSchRequiredFieldMissing = ''SCH_REQUIRED_FIELD_MISSING''"
definition codeSchSchemaValidation :: string where "codeSchSchemaValidation = ''SCH_SCHEMA_VALIDATION_FAILED''"
definition codeAutSignatureMissing :: string where "codeAutSignatureMissing = ''AUT_SIGNATURE_MISSING''"
definition vc_codeAutSignatureInvalid :: string where "vc_codeAutSignatureInvalid = ''AUT_SIGNATURE_INVALID''"
definition codeAutUnauthorizedAction :: string where "codeAutUnauthorizedAction = ''AUT_UNAUTHORIZED_ACTION''"
definition codeAutKeyExpiredOrRevoked :: string where "codeAutKeyExpiredOrRevoked = ''AUT_KEY_EXPIRED_OR_REVOKED''"
definition vc_codeAutKeyNotFound :: string where "vc_codeAutKeyNotFound = ''AUT_KEY_NOT_FOUND''"
definition vc_codeNetTimeout :: string where "vc_codeNetTimeout = ''NET_TIMEOUT''"
definition vc_codeNetDownstreamUnavailable :: string where
  "vc_codeNetDownstreamUnavailable = ''NET_DOWNSTREAM_UNAVAILABLE''"

text \<open>An \<open>error\<close> of the verifier: a \<open>*vcError\<close> with its class, code and message, or any other.\<close>

datatype vc_err = VcError string string string | VcOther goerr

definition vcError_Error :: "string \<Rightarrow> string \<Rightarrow> string" where
  "vcError_Error class msg = class @ '': '' @ msg"

definition isTimeoutErr :: "VcLib \<Rightarrow> goerr \<Rightarrow> bool" where
  "isTimeoutErr lib err =
     (case errors_As (VlTimeout lib) err of
        Some b \<Rightarrow> b
      | None \<Rightarrow> Contains (VlToLower lib (error_text err)) ''timeout'')"

definition isNetErr :: "VcLib \<Rightarrow> goerr \<Rightarrow> bool" where
  "isNetErr lib err \<longleftrightarrow>
     errors_As (\<lambda>e. if VlUrlError lib e then Some () else None) err \<noteq> None \<or> isTimeoutErr lib err \<or>
     Contains (error_text err) ''dial'' \<or> Contains (error_text err) ''no such host'' \<or> Contains (error_text err) ''connection''"

definition resolutionCode :: "VcLib \<Rightarrow> goerr \<Rightarrow> string" where
  "resolutionCode lib err =
     (if \<not> isNetErr lib err then vc_codeAutKeyNotFound
      else if isTimeoutErr lib err then vc_codeNetTimeout else vc_codeNetDownstreamUnavailable)"

subsection \<open>Keys\<close>

definition mcEd25519 :: string where "mcEd25519 = [CHR 0xED, CHR 0x01]"
definition mcP256 :: string where "mcP256 = [CHR 0x80, CHR 0x24]"
definition mcSecp256k1 :: string where "mcSecp256k1 = [CHR 0xE7, CHR 0x01]"

definition decompressP256 :: "VcLib \<Rightarrow> string \<Rightarrow> goerr + PublicKey" where
  "decompressP256 lib b =
     (if length b = 33 then
        (case VlP256Compressed lib b of
           None \<Rightarrow> Inl (ErrText ''invalid compressed P-256 point'') | Some x \<Rightarrow> Inr (EcPub P256 x))
      else if length b = 65 then
        (case VlP256Uncompressed lib b of
           None \<Rightarrow> Inl (ErrText ''invalid uncompressed P-256 point'') | Some x \<Rightarrow> Inr (EcPub P256 x))
      else Inl (ErrText (''unexpected P-256 key length '' @ nat_dec (length b))))"

definition keyFromMulticodec :: "VcLib \<Rightarrow> string \<Rightarrow> goerr + ResolvedKey" where
  "keyFromMulticodec lib raw =
     (if HasPrefix raw mcEd25519 then
        (let k = drop 2 raw in
         if length k \<noteq> 32 then Inl (ErrText (''ed25519 key wrong size: '' @ nat_dec (length k)))
         else Inr \<lparr>RkPub = EdPub k, RkAlg = ''EdDSA''\<rparr>)
      else if HasPrefix raw mcP256 then
        (case decompressP256 lib (drop 2 raw) of
           Inl e \<Rightarrow> Inl e
         | Inr pub \<Rightarrow> Inr \<lparr>RkPub = pub, RkAlg = ''ES256''\<rparr>)
      else if HasPrefix raw mcSecp256k1 then
        (case VlSecp256k1 lib (drop 2 raw) of
           Inl e \<Rightarrow> Inl (errorf_w ''secp256k1 parse: '' e)
         | Inr x \<Rightarrow> Inr \<lparr>RkPub = EcPub Secp256k1 x, RkAlg = ''ES256K''\<rparr>)
      else Inl (ErrText (''unsupported multicodec prefix '' @ hex_encode (take 2 raw))))"

definition publicOf :: "RawKey \<Rightarrow> PublicKey" where
  "publicOf raw = (case raw of RawEdPriv pub \<Rightarrow> EdPub pub | RawEcPriv c pub \<Rightarrow> EcPub c pub | RawPub k \<Rightarrow> k)"

text \<open>A string field decoded although \<open>Unmarshal\<close> may report an error, which is ignored here.\<close>

definition lenient_field :: "json option \<Rightarrow> string \<Rightarrow> string" where
  "lenient_field v field = (case v of Some (JObj kvs) \<Rightarrow> snd (foldl (decode_field field) (False, []) kvs) | _ \<Rightarrow> [])"

definition algForKey :: "json option \<Rightarrow> PublicKey \<Rightarrow> goerr + string" where
  "algForKey v pub =
     (let alg = lenient_field v ''alg''; crv = lenient_field v ''crv'' in
      if alg \<in> {''EdDSA'', ''ES256'', ''ES256K'', ''ES384'', ''ES512''} then Inr alg
      else if crv = ''Ed25519'' then Inr ''EdDSA''
      else if crv = ''P-256'' then Inr ''ES256''
      else if crv = ''secp256k1'' \<or> crv = ''P-256K'' then Inr ''ES256K''
      else if crv = ''P-384'' then Inr ''ES384''
      else if crv = ''P-521'' then Inr ''ES512''
      else
        (case pub of
           EdPub k \<Rightarrow> Inr ''EdDSA''
         | EcPub P256 x \<Rightarrow> Inr ''ES256''
         | EcPub P384 x \<Rightarrow> Inr ''ES384''
         | EcPub P521 x \<Rightarrow> Inr ''ES512''
         | _ \<Rightarrow> Inl (ErrText ''cannot determine algorithm for key'')))"

text \<open>The argument is the decoded JSON text of the JWK, \<^term>\<open>None\<close> for a text that is not JSON.\<close>

definition keyFromJWKBytes :: "VcLib \<Rightarrow> json option \<Rightarrow> goerr + ResolvedKey" where
  "keyFromJWKBytes lib b =
     (case VlJwkParse lib b of
        Inl e \<Rightarrow> Inl (errorf_w ''jwk parse: '' e)
      | Inr key \<Rightarrow>
          (case VlJwkExport lib key of
             Inl e \<Rightarrow> Inl (errorf_w ''jwk export: '' e)
           | Inr raw \<Rightarrow>
               (case algForKey b (publicOf raw) of
                  Inl e \<Rightarrow> Inl e
                | Inr alg \<Rightarrow> Inr \<lparr>RkPub = publicOf raw, RkAlg = alg\<rparr>)))"

subsection \<open>DID documents\<close>

record VerificationEntry =
  VeID :: string
  VeType :: string
  VeController :: string
  VePublicKeyJwk :: "json option"
  VePublicKeyMultibase :: string
  VePublicKeyBase58 :: string

definition zero_vm_entry :: VerificationEntry where
  "zero_vm_entry = \<lparr>VeID = [], VeType = [], VeController = [], VePublicKeyJwk = None, VePublicKeyMultibase = [],
     VePublicKeyBase58 = []\<rparr>"

definition decode_vm_member :: "VerificationEntry option \<Rightarrow> string \<times> json \<Rightarrow> VerificationEntry option" where
  "decode_vm_member acc kv =
     (case acc of
        None \<Rightarrow> None
      | Some d \<Rightarrow>
          (let k = fst kv; v = snd kv in
           if field_match ''id'' k then set_text v (\<lambda>s. d\<lparr>VeID := s\<rparr>) d
           else if field_match ''type'' k then set_text v (\<lambda>s. d\<lparr>VeType := s\<rparr>) d
           else if field_match ''controller'' k then set_text v (\<lambda>s. d\<lparr>VeController := s\<rparr>) d
           else if field_match ''publicKeyJwk'' k then Some (d\<lparr>VePublicKeyJwk := Some v\<rparr>)
           else if field_match ''publicKeyMultibase'' k then set_text v (\<lambda>s. d\<lparr>VePublicKeyMultibase := s\<rparr>) d
           else if field_match ''publicKeyBase58'' k then set_text v (\<lambda>s. d\<lparr>VePublicKeyBase58 := s\<rparr>) d
           else Some d))"

definition decode_vm :: "VerificationEntry \<Rightarrow> json \<Rightarrow> VerificationEntry option" where
  "decode_vm old v =
     (case v of
        JObj kvs \<Rightarrow> foldl decode_vm_member (Some old) kvs
      | JNull \<Rightarrow> Some old
      | _ \<Rightarrow> None)"

text \<open>
  A slice of entries: its length and its backing array. A second \<open>verificationMethod\<close> member decodes its elements
  over those that the array already holds.
\<close>

type_synonym entry_slice = "nat \<times> VerificationEntry list"

definition slot :: "VerificationEntry list \<Rightarrow> nat \<Rightarrow> VerificationEntry" where
  "slot slots i = (if i < length slots then slots ! i else zero_vm_entry)"

definition decode_vms :: "entry_slice \<Rightarrow> json \<Rightarrow> entry_slice option" where
  "decode_vms sl v =
     (case v of
        JNull \<Rightarrow> Some (0, [])
      | JArr vs \<Rightarrow>
          if vs = [] then Some (0, [])
          else
            (let ds = map (\<lambda>i. decode_vm (slot (snd sl) i) (vs ! i)) [0..<length vs] in
             if list_all (\<lambda>d. d \<noteq> None) ds then Some (length vs, map the ds @ drop (length vs) (snd sl)) else None)
      | _ \<Rightarrow> None)"

definition decode_didDocument_member :: "(string \<times> entry_slice) option \<Rightarrow> string \<times> json \<Rightarrow> (string \<times> entry_slice) option" where
  "decode_didDocument_member acc kv =
     (case acc of
        None \<Rightarrow> None
      | Some (ident, sl) \<Rightarrow>
          if field_match ''id'' (fst kv) then set_text (snd kv) (\<lambda>s. (s, sl)) (ident, sl)
          else if field_match ''verificationMethod'' (fst kv) then map_option (Pair ident) (decode_vms sl (snd kv))
          else Some (ident, sl))"

text \<open>\<open>json.Unmarshal\<close> into a \<open>didDocument\<close>, of which only the verification methods are used.\<close>

definition unmarshal_didDocument :: "string \<Rightarrow> VerificationEntry list option" where
  "unmarshal_didDocument body =
     (case json_decode body of
        Some (JObj kvs) \<Rightarrow>
          map_option (\<lambda>(ident, n, slots). take n slots) (foldl decode_didDocument_member (Some ([], 0, [])) kvs)
      | Some JNull \<Rightarrow> Some []
      | _ \<Rightarrow> None)"

definition selectVM :: "VerificationEntry list \<Rightarrow> string \<Rightarrow> string \<Rightarrow> VerificationEntry option" where
  "selectVM vms fullDID fragment =
     (if fragment = [] then Some (hd vms)
      else List.find (\<lambda>vm. VeID vm = fullDID \<or> HasSuffix (VeID vm) (CHR ''#'' # fragment)) vms)"

definition keyFromVerificationMethod :: "VcLib \<Rightarrow> VerificationEntry \<Rightarrow> goerr + ResolvedKey" where
  "keyFromVerificationMethod lib vm =
     (if VePublicKeyJwk vm \<noteq> None then keyFromJWKBytes lib (VePublicKeyJwk vm)
      else
        (case VePublicKeyMultibase vm of
           c # mb \<Rightarrow>
             if c \<noteq> CHR ''z'' then
               Inl (ErrText (''publicKeyMultibase must be base58btc ('' @ [CHR 0x27] @ ''z'' @ [CHR 0x27] @ '')''))
             else
               (case base58Decode mb of
                  Inl e \<Rightarrow> Inl (errorf_w ''publicKeyMultibase decode: '' e)
                | Inr raw \<Rightarrow> keyFromMulticodec lib raw)
         | [] \<Rightarrow>
             if VePublicKeyBase58 vm \<noteq> [] then
               (case base58Decode (VePublicKeyBase58 vm) of
                  Inl e \<Rightarrow> Inl (errorf_w ''publicKeyBase58 decode: '' e)
                | Inr raw \<Rightarrow>
                    if length raw = 32 then Inr \<lparr>RkPub = EdPub raw, RkAlg = ''EdDSA''\<rparr>
                    else Inl (ErrText (''unsupported publicKeyBase58 length '' @ nat_dec (length raw))))
             else Inl (ErrText (''verification method '' @ go_quote (VeID vm) @ '' has no public key material''))))"

subsection \<open>Resolution\<close>

text \<open>The parts before and after the first number sign.\<close>

definition base_did :: "string \<Rightarrow> string" where
  "base_did did = takeWhile (\<lambda>c. c \<noteq> CHR ''#'') did"

definition fragment_of :: "string \<Rightarrow> string" where
  "fragment_of did = drop (Suc (length (base_did did))) did"

definition didMethod :: "string \<Rightarrow> string" where
  "didMethod did =
     (case Split (CHR '':'') did of p0 # p1 # _ \<Rightarrow> if p0 = ''did'' then p1 else [] | _ \<Rightarrow> [])"

definition slice_panic :: goerr where "slice_panic = GoPanic ''slice bounds out of range''"

definition resolveDIDKey :: "VcLib \<Rightarrow> string \<Rightarrow> goerr + ResolvedKey" where
  "resolveDIDKey lib did =
     (if length did < 8 then Inl slice_panic
      else
        (case base_did (drop 8 did) of
           c # mb \<Rightarrow>
             if c \<noteq> CHR ''z'' then Inl (ErrText (''did:key must use base58btc multibase ('' @ [CHR 0x27] @ ''z'' @ [CHR 0x27] @ ''), got '' @ go_quote did))
             else
               (case base58Decode mb of
                  Inl e \<Rightarrow> Inl (errorf_w ''did:key base58 decode: '' e)
                | Inr raw \<Rightarrow> keyFromMulticodec lib raw)
         | [] \<Rightarrow> Inl (ErrText (''did:key must use base58btc multibase ('' @ [CHR 0x27] @ ''z'' @ [CHR 0x27] @ ''), got '' @ go_quote did))))"

definition resolveDIDJWK :: "VcLib \<Rightarrow> string \<Rightarrow> goerr + ResolvedKey" where
  "resolveDIDJWK lib did =
     (if length did < 8 then Inl slice_panic
      else
        (let ident = base_did (drop 8 did) in
         case (case b64rawurl_decode ident of Some d \<Rightarrow> Some d | None \<Rightarrow> b64url_decode ident) of
           None \<Rightarrow> Inl (errorf_w ''did:jwk base64url decode: '' (ErrText ''base64.DecodeString''))
         | Some dec \<Rightarrow> keyFromJWKBytes lib (json_decode dec)))"

fun percent_colon :: "string \<Rightarrow> string" where
  "percent_colon [] = []"
| "percent_colon (c # s) =
     (if HasPrefix (c # s) ''%3A'' then CHR '':'' # percent_colon (drop 2 s) else c # percent_colon s)"

definition didWebURL :: "string \<Rightarrow> goerr + string" where
  "didWebURL did =
     (let rest = TrimPrefix did ''did:web:'' in
      if rest = [] \<or> rest = did then Inl (ErrText (''invalid did:web: '' @ go_quote did))
      else
        (case map percent_colon (Split (CHR '':'') rest) of
           [host] \<Rightarrow> Inr (''https://'' @ host @ ''/.well-known/did.json'')
         | host # parts \<Rightarrow> Inr (''https://'' @ host @ ''/'' @ Join parts ''/'' @ ''/did.json'')
         | [] \<Rightarrow> Inl slice_panic))"

definition resolveDIDWeb :: "VcLib \<Rightarrow> 'w fetcher \<Rightarrow> 'w \<Rightarrow> string \<Rightarrow> (goerr + ResolvedKey) \<times> 'w" where
  "resolveDIDWeb lib fetch w did =
     (case didWebURL (base_did did) of
        Inl e \<Rightarrow> (Inl e, w)
      | Inr url \<Rightarrow>
          (case fetch w url of
             (Inl e, w1) \<Rightarrow> (Inl (errorf_w (''did:web fetch '' @ url @ '': '') e), w1)
           | (Inr body, w1) \<Rightarrow>
               ((case unmarshal_didDocument body of
                  None \<Rightarrow> Inl (errorf_w (''did:web parse '' @ url @ '': '') (ErrText ''json.Unmarshal''))
                | Some vms \<Rightarrow>
                    if vms = [] then Inl (ErrText (''did:web '' @ base_did did @ '' has no verificationMethod''))
                    else
                      (case selectVM vms did (fragment_of did) of
                         None \<Rightarrow> Inl (ErrText (''did:web '' @ base_did did @ '': verification method '' @ go_quote (fragment_of did) @ '' not found''))
                       | Some vm \<Rightarrow> keyFromVerificationMethod lib vm)), w1)))"

definition resolveDID :: "VcLib \<Rightarrow> VcConfig \<Rightarrow> 'w fetcher \<Rightarrow> 'w \<Rightarrow> string \<Rightarrow> string \<Rightarrow> (goerr + ResolvedKey) \<times> 'w" where
  "resolveDID lib cfg fetch w did headerAlg =
     (let m = didMethod did in
      if m = [] then (Inl (ErrText (''not a DID: '' @ go_quote did)), w)
      else if \<not> IsMethodAllowed cfg m then
        (Inl (ErrText (''did method '' @ go_quote m @ '' not allowed (allowed: ['' @ Join (AllowedDIDMethods cfg) '' '' @ ''])'')), w)
      else if m = ''key'' then (resolveDIDKey lib did, w)
      else if m = ''jwk'' then (resolveDIDJWK lib did, w)
      else if m = ''web'' then resolveDIDWeb lib fetch w did
      else (Inl (ErrText (''unsupported did method '' @ go_quote m)), w))"

end
