(* ===== verification/Vc_Status.thy ===== *)
theory Vc_Status
  imports Vc_Keys
begin

text \<open>
  Revocation in the VC validator (\<open>vcvalidator/verify.go\<close>, section "Revocation"): status entries, bitstring
  status lists, DEDI registries and generic status documents. The test of a bit in a status list is the
  one on 8-bit words of the code; Go's division and remainder truncate towards zero.
\<close>

subsection \<open>The verifier\<close>

record 'w Verifier =
  VfCfg :: VcConfig
  VfFetch :: "'w fetcher"
  VfStatusGet :: "'w statusFetcher"
  VfNow :: "'w clock"
  VfLib :: VcLib

subsection \<open>Status entries\<close>

record StatusEntry =
  SeID :: string
  SeType :: string
  StatusPurpose :: string
  StatusListIndex :: json
  StatusListCredential :: string

definition zero_status :: StatusEntry where
  "zero_status = \<lparr>SeID = [], SeType = [], StatusPurpose = [], StatusListIndex = JNull, StatusListCredential = []\<rparr>"

definition decode_status_member :: "Float64 \<Rightarrow> StatusEntry option \<Rightarrow> string \<times> json \<Rightarrow> StatusEntry option" where
  "decode_status_member F acc kv =
     (case acc of
        None \<Rightarrow> None
      | Some d \<Rightarrow>
          (let k = fst kv; v = snd kv in
           if field_match ''id'' k then set_text v (\<lambda>s. d\<lparr>SeID := s\<rparr>) d
           else if field_match ''type'' k then set_text v (\<lambda>s. d\<lparr>SeType := s\<rparr>) d
           else if field_match ''statusPurpose'' k then set_text v (\<lambda>s. d\<lparr>StatusPurpose := s\<rparr>) d
           else if field_match ''statusListIndex'' k then
             (if numbers_ok F v then Some (d\<lparr>StatusListIndex := go_value F v\<rparr>) else None)
           else if field_match ''statusListCredential'' k then set_text v (\<lambda>s. d\<lparr>StatusListCredential := s\<rparr>) d
           else Some d))"

definition decode_status :: "Float64 \<Rightarrow> json \<Rightarrow> StatusEntry option" where
  "decode_status F v =
     (case v of
        JObj kvs \<Rightarrow> foldl (decode_status_member F) (Some zero_status) kvs
      | JNull \<Rightarrow> Some zero_status
      | _ \<Rightarrow> None)"

text \<open>The raw message is never blank here: it is the text of a JSON value.\<close>

definition parseStatusEntries :: "Float64 \<Rightarrow> json \<Rightarrow> StatusEntry list option" where
  "parseStatusEntries F raw =
     (case raw of
        JArr vs \<Rightarrow>
          (let ds = map (decode_status F) vs in if list_all (\<lambda>d. d \<noteq> None) ds then Some (map the ds) else None)
      | _ \<Rightarrow> map_option (\<lambda>d. [d]) (decode_status F raw))"

definition statusURL :: "StatusEntry \<Rightarrow> string" where
  "statusURL e = (if StatusListCredential e \<noteq> [] then StatusListCredential e else SeID e)"

text \<open>Decoded values are never a Go \<open>int\<close>, so that this case does not occur.\<close>

definition toInt :: "VcLib \<Rightarrow> json \<Rightarrow> goerr + int" where
  "toInt lib v =
     (case v of
        JNum s \<Rightarrow> Inr (VlInt lib s)
      | JStr s \<Rightarrow> (case Atoi s of Some i \<Rightarrow> Inr i | None \<Rightarrow> Inl (ErrText ''strconv.Atoi''))
      | JNull \<Rightarrow> Inl (ErrText ''missing'')
      | JBool b \<Rightarrow> Inl (ErrText ''unexpected type bool'')
      | JArr vs \<Rightarrow> Inl (ErrText ''unexpected type []interface {}'')
      | JObj kvs \<Rightarrow> Inl (ErrText ''unexpected type map[string]interface {}''))"

subsection \<open>Status lists\<close>

definition decodeBitstring :: "VcLib \<Rightarrow> string \<Rightarrow> goerr + string" where
  "decodeBitstring lib encoded =
     (case (case b64rawurl_decode encoded of Some raw \<Rightarrow> Some raw | None \<Rightarrow> b64_decode encoded) of
        None \<Rightarrow> Inl (errorf_w ''decode bitstring: '' (ErrText ''base64.DecodeString''))
      | Some raw \<Rightarrow>
          (case VlGunzip lib raw of
             None \<Rightarrow> Inr raw
           | Some (Inl e) \<Rightarrow> Inl (errorf_w ''inflate bitstring: '' e)
           | Some (Inr out) \<Rightarrow> Inr out))"

text \<open>Integer division of Go, and a shift of a byte by an unsigned 64-bit count.\<close>

definition go_div :: "int \<Rightarrow> int \<Rightarrow> int" where
  "go_div a b = (if a < 0 then - (- a div b) else a div b)"

definition go_mod :: "int \<Rightarrow> int \<Rightarrow> int" where
  "go_mod a b = a - b * go_div a b"

definition bit_set :: "char \<Rightarrow> int \<Rightarrow> bool" where
  "bit_set c i \<longleftrightarrow> (word_of_nat (of_char c) :: 8 word) AND drop_bit (nat (i mod 2 ^ 64)) 0x80 \<noteq> 0"

definition index_panic :: goerr where "index_panic = GoPanic ''index out of range''"

definition list_bit :: "string \<Rightarrow> int \<Rightarrow> goerr + bool" where
  "list_bit bits idx =
     (let byteIdx = go_div idx 8; bitIdx = go_mod idx 8 in
      if byteIdx \<ge> int (length bits) then Inr False
      else if byteIdx < 0 then Inl index_panic
      else Inr (bit_set (bits ! nat byteIdx) bitIdx))"

text \<open>The field \<open>credentialSubject.encodedList\<close>; \<^term>\<open>None\<close> is a decoding error.\<close>

definition decode_subject :: "bool \<times> string \<Rightarrow> string \<times> json \<Rightarrow> bool \<times> string" where
  "decode_subject acc kv =
     (if field_match ''credentialSubject'' (fst kv) then
        (case snd kv of
           JNull \<Rightarrow> acc
         | JObj inner \<Rightarrow> foldl (decode_field ''encodedList'') acc inner
         | _ \<Rightarrow> (True, snd acc))
      else acc)"

definition unmarshal_statusList :: "string \<Rightarrow> string option" where
  "unmarshal_statusList body =
     (case json_decode body of
        Some (JObj kvs) \<Rightarrow> (let (err, v) = foldl decode_subject (False, []) kvs in if err then None else Some v)
      | Some JNull \<Rightarrow> Some []
      | _ \<Rightarrow> None)"

definition statusListRevoked :: "'w Verifier \<Rightarrow> 'w \<Rightarrow> StatusEntry \<Rightarrow> (goerr + bool) \<times> 'w" where
  "statusListRevoked v w e =
     (case toInt (VfLib v) (StatusListIndex e) of
        Inl err \<Rightarrow> (Inl (errorf_w ''statusListIndex: '' err), w)
      | Inr idx \<Rightarrow>
          (case VfFetch v w (StatusListCredential e) of
             (Inl err, w1) \<Rightarrow> (Inl err, w1)
           | (Inr body, w1) \<Rightarrow>
               ((case unmarshal_statusList body of
                  None \<Rightarrow> Inl (errorf_w ''parse status list: '' (ErrText ''json.Unmarshal''))
                | Some encodedList \<Rightarrow>
                    if encodedList = [] then Inl (ErrText ''status list has no encodedList'')
                    else
                      (case decodeBitstring (VfLib v) encodedList of
                         Inl err \<Rightarrow> Inl err
                       | Inr bits \<Rightarrow> list_bit bits idx)), w1)))"

subsection \<open>Registries and documents\<close>

definition isDEDI :: "VcLib \<Rightarrow> StatusEntry \<Rightarrow> bool" where
  "isDEDI lib e \<longleftrightarrow>
     HasPrefix (VlToLower lib (SeType e)) ''dedi'' \<or>
     Contains (VlToLower lib (SeID e)) ''/dedi/lookup/'' \<or>
     Contains (VlToLower lib (StatusListCredential e)) ''/dedi/lookup/''"

definition dediRevoked :: "'w Verifier \<Rightarrow> 'w \<Rightarrow> StatusEntry \<Rightarrow> (goerr + bool) \<times> 'w" where
  "dediRevoked v w e =
     (let url = (if SeID e = [] then StatusListCredential e else SeID e) in
      if url = [] then (Inr False, w)
      else
        (case VfStatusGet v w url of
           (Inl err, w1) \<Rightarrow> (Inl err, w1)
         | (Inr (status, body), w1) \<Rightarrow>
             (if status = 404 \<or> status = 410 then Inr False
              else if status \<ge> 200 \<and> status < 300 then Inr True
              else Inl (ErrText (''dedi lookup '' @ url @ '': http '' @ int_dec status)), w1)))"

fun docRevoked :: "VcLib \<Rightarrow> json \<Rightarrow> bool" where
  "docRevoked lib (JObj doc) =
     list_ex (\<lambda>p.
        (case snd p of
           JBool b \<Rightarrow> VlToLower lib (fst p) = ''revoked'' \<and> b
         | JStr s \<Rightarrow>
             VlToLower lib (fst p) \<in> {''status'', ''statuspurpose''} \<and> VlToLower lib s \<in> {''revoked'', ''suspended''}
         | _ \<Rightarrow> docRevoked lib (snd p))) doc"
| "docRevoked lib v = False"

definition genericRevoked :: "'w Verifier \<Rightarrow> 'w \<Rightarrow> string \<Rightarrow> (goerr + bool) \<times> 'w" where
  "genericRevoked v w url =
     (if url = [] then (Inr False, w)
      else
        (case VfFetch v w url of
           (Inl err, w1) \<Rightarrow> (Inl err, w1)
         | (Inr body, w1) \<Rightarrow>
             (case unmarshal_map (VlFloat (VfLib v)) body None of
                None \<Rightarrow>
                  (let s = VlToLower (VfLib v) body in
                   (Inr (Contains s ([CHR 0x22] @ ''revoked'' @ [CHR 0x22] @ '':true'') \<or> Contains s ''revoked''), w1))
              | Some doc \<Rightarrow> (Inr (docRevoked (VfLib v) (JObj (go_entries doc))), w1))))"

definition entryRevoked :: "'w Verifier \<Rightarrow> 'w \<Rightarrow> StatusEntry \<Rightarrow> (goerr + bool) \<times> 'w" where
  "entryRevoked v w e =
     (if isDEDI (VfLib v) e then dediRevoked v w e
      else if Contains (VlToLower (VfLib v) (SeType e)) ''statuslist'' \<and> StatusListCredential e \<noteq> [] then
        statusListRevoked v w e
      else genericRevoked v w (statusURL e))"

subsection \<open>The check\<close>

definition gates :: "VcLib \<Rightarrow> StatusEntry \<Rightarrow> bool" where
  "gates lib e \<longleftrightarrow> StatusPurpose e = [] \<or> VlEqualFold lib (StatusPurpose e) ''revocation''"

fun check_entries :: "'w Verifier \<Rightarrow> 'w \<Rightarrow> StatusEntry list \<Rightarrow> vc_err option \<times> 'w" where
  "check_entries v w [] = (None, w)"
| "check_entries v w (e # es) =
     (if \<not> gates (VfLib v) e then check_entries v w es
      else
        (case entryRevoked v w e of
           (Inl err, w1) \<Rightarrow>
             if is_panic err then (Some (VcOther err), w1)
             else if FailOpen (VfCfg v) then check_entries v w1 es
             else (Some (VcError failResolution (resolutionCode (VfLib v) err) (''revocation check: '' @ error_text err)), w1)
         | (Inr revoked, w1) \<Rightarrow>
             if revoked then
               (Some (VcError failRevoked codeAutKeyExpiredOrRevoked (''credential revoked via '' @ statusURL e)), w1)
             else check_entries v w1 es))"

definition checkRevocation :: "'w Verifier \<Rightarrow> 'w \<Rightarrow> json \<Rightarrow> vc_err option \<times> 'w" where
  "checkRevocation v w raw =
     (case parseStatusEntries (VlFloat (VfLib v)) raw of
        None \<Rightarrow> (Some (VcError failStructure codeSchInvalidJSON ''credentialStatus: json.Unmarshal''), w)
      | Some entries \<Rightarrow> check_entries v w entries)"

end
