(* ===== verification/Vc_Validator.thy ===== *)
theory Vc_Validator
  imports Vc_Status
begin

text \<open>
  The validateVC step (\<open>vcvalidator/vcvalidator.go\<close> and the sections "Credential model" and "Verifier" of
  \<open>verify.go\<close>): the credentials embedded in a request body are collected and each is checked for its
  validity window, its proof and its revocation status.
\<close>

subsection \<open>Credentials\<close>

record Proof =
  PfType :: string
  JWT :: string
  ProofValue :: string
  VerificationMethod :: string
  PfCreated :: string

record Credential =
  CdID :: string
  CdType :: "json option"
  CdIssuer :: "json option"
  CdValidFrom :: string
  CdValidUntil :: string
  CredentialStatus :: "json option"
  CdProof :: "Proof option"

definition zero_proof :: Proof where
  "zero_proof = \<lparr>PfType = [], JWT = [], ProofValue = [], VerificationMethod = [], PfCreated = []\<rparr>"

definition zero_credential :: Credential where
  "zero_credential = \<lparr>CdID = [], CdType = None, CdIssuer = None, CdValidFrom = [], CdValidUntil = [],
     CredentialStatus = None, CdProof = None\<rparr>"

definition decode_proof_member :: "Proof option \<Rightarrow> string \<times> json \<Rightarrow> Proof option" where
  "decode_proof_member acc kv =
     (case acc of
        None \<Rightarrow> None
      | Some d \<Rightarrow>
          (let k = fst kv; v = snd kv in
           if field_match ''type'' k then set_text v (\<lambda>s. d\<lparr>PfType := s\<rparr>) d
           else if field_match ''jwt'' k then set_text v (\<lambda>s. d\<lparr>JWT := s\<rparr>) d
           else if field_match ''proofValue'' k then set_text v (\<lambda>s. d\<lparr>ProofValue := s\<rparr>) d
           else if field_match ''verificationMethod'' k then set_text v (\<lambda>s. d\<lparr>VerificationMethod := s\<rparr>) d
           else if field_match ''created'' k then set_text v (\<lambda>s. d\<lparr>PfCreated := s\<rparr>) d
           else Some d))"

text \<open>A pointer is set to nil by \<open>null\<close> and allocated once by objects.\<close>

definition decode_proof :: "Proof option \<Rightarrow> json \<Rightarrow> Proof option option" where
  "decode_proof old v =
     (case v of
        JNull \<Rightarrow> Some None
      | JObj kvs \<Rightarrow>
          map_option Some (foldl decode_proof_member (Some (case old of None \<Rightarrow> zero_proof | Some p \<Rightarrow> p)) kvs)
      | _ \<Rightarrow> None)"

definition decode_credential_member :: "Credential option \<Rightarrow> string \<times> json \<Rightarrow> Credential option" where
  "decode_credential_member acc kv =
     (case acc of
        None \<Rightarrow> None
      | Some d \<Rightarrow>
          (let k = fst kv; v = snd kv in
           if field_match ''id'' k then set_text v (\<lambda>s. d\<lparr>CdID := s\<rparr>) d
           else if field_match ''type'' k then Some (d\<lparr>CdType := Some v\<rparr>)
           else if field_match ''issuer'' k then Some (d\<lparr>CdIssuer := Some v\<rparr>)
           else if field_match ''validFrom'' k then set_text v (\<lambda>s. d\<lparr>CdValidFrom := s\<rparr>) d
           else if field_match ''validUntil'' k then set_text v (\<lambda>s. d\<lparr>CdValidUntil := s\<rparr>) d
           else if field_match ''credentialStatus'' k then Some (d\<lparr>CredentialStatus := Some v\<rparr>)
           else if field_match ''proof'' k then map_option (\<lambda>p. d\<lparr>CdProof := p\<rparr>) (decode_proof (CdProof d) v)
           else Some d))"

definition unmarshal_credential :: "string \<Rightarrow> Credential option" where
  "unmarshal_credential raw =
     (case json_decode raw of
        Some (JObj kvs) \<Rightarrow> foldl decode_credential_member (Some zero_credential) kvs
      | Some JNull \<Rightarrow> Some zero_credential
      | _ \<Rightarrow> None)"

text \<open>The identifier of an object; \<^term>\<open>None\<close> is a decoding error.\<close>

definition object_id :: "json \<Rightarrow> string option" where
  "object_id v =
     (case v of
        JObj kvs \<Rightarrow> (let (err, s) = foldl (decode_field ''id'') (False, []) kvs in if err then None else Some s)
      | JNull \<Rightarrow> Some []
      | _ \<Rightarrow> None)"

definition issuerDID :: "Credential \<Rightarrow> vc_err + string" where
  "issuerDID c =
     (case CdIssuer c of
        None \<Rightarrow> Inl (VcError failStructure codeSchRequiredFieldMissing ''credential has no issuer'')
      | Some (JStr s) \<Rightarrow>
          if s \<noteq> [] then Inr s
          else Inl (VcError failStructure codeSchRequiredFieldMissing ''credential issuer has no id'')
      | Some v \<Rightarrow>
          (case object_id v of
             Some s \<Rightarrow>
               if s \<noteq> [] then Inr s
               else Inl (VcError failStructure codeSchRequiredFieldMissing ''credential issuer has no id'')
           | None \<Rightarrow> Inl (VcError failStructure codeSchRequiredFieldMissing ''credential issuer has no id'')))"

subsection \<open>Validity\<close>

definition expired :: "string \<Rightarrow> vc_err" where
  "expired msg = VcError failExpired codeAutKeyExpiredOrRevoked msg"

definition window_error :: "VcLib \<Rightarrow> int \<Rightarrow> string \<Rightarrow> string \<Rightarrow> vc_err option" where
  "window_error lib now validFrom validUntil =
     (if validFrom \<noteq> [] \<and> (case VlParseTime lib validFrom of Some t \<Rightarrow> now < t | None \<Rightarrow> False) then
        Some (expired (''credential not yet valid (validFrom='' @ validFrom @ '')''))
      else if validUntil \<noteq> [] \<and> (case VlParseTime lib validUntil of Some t \<Rightarrow> now > t | None \<Rightarrow> False) then
        Some (expired (''credential expired (validUntil='' @ validUntil @ '')''))
      else None)"

definition checkWindow :: "'w Verifier \<Rightarrow> 'w \<Rightarrow> string \<Rightarrow> string \<Rightarrow> vc_err option \<times> 'w" where
  "checkWindow v w validFrom validUntil =
     (let (now, w1) = VfNow v w in (window_error (VfLib v) now validFrom validUntil, w1))"

text \<open>An \<open>int64\<close> field: the literal has to be an integer in range.\<close>

definition set_int64 :: "json \<Rightarrow> (int \<Rightarrow> 'a) \<Rightarrow> 'a \<Rightarrow> 'a option" where
  "set_int64 v upd d =
     (case v of JNull \<Rightarrow> Some d | JNum s \<Rightarrow> map_option upd (ParseInt64 s) | _ \<Rightarrow> None)"

definition decode_claims_member :: "(int \<times> int) option \<Rightarrow> string \<times> json \<Rightarrow> (int \<times> int) option" where
  "decode_claims_member acc kv =
     (case acc of
        None \<Rightarrow> None
      | Some d \<Rightarrow>
          if field_match ''nbf'' (fst kv) then set_int64 (snd kv) (\<lambda>n. (n, snd d)) d
          else if field_match ''exp'' (fst kv) then set_int64 (snd kv) (\<lambda>n. (fst d, n)) d
          else Some d)"

definition unmarshal_claims :: "string \<Rightarrow> (int \<times> int) option" where
  "unmarshal_claims payload =
     (case json_decode payload of
        Some (JObj kvs) \<Rightarrow> foldl decode_claims_member (Some (0, 0)) kvs
      | Some JNull \<Rightarrow> Some (0, 0)
      | _ \<Rightarrow> None)"

definition claims_error :: "int \<Rightarrow> int \<times> int \<Rightarrow> vc_err option" where
  "claims_error now claims =
     (if fst claims \<noteq> 0 \<and> now < fst claims then
        Some (expired (''credential not yet valid (nbf='' @ int_dec (fst claims) @ '', now='' @ int_dec now @ '')''))
      else if snd claims \<noteq> 0 \<and> now > snd claims then
        Some (expired (''credential expired (exp='' @ int_dec (snd claims) @ '', now='' @ int_dec now @ '')''))
      else None)"

text \<open>Times are nanoseconds; \<open>Unix\<close> counts whole seconds.\<close>

definition checkJWTClaims :: "'w Verifier \<Rightarrow> 'w \<Rightarrow> string \<Rightarrow> vc_err option \<times> 'w" where
  "checkJWTClaims v w payload =
     (case unmarshal_claims payload of
        None \<Rightarrow> (None, w)
      | Some claims \<Rightarrow> (let (now, w1) = VfNow v w in (claims_error (now div second) claims, w1)))"

subsection \<open>Proofs\<close>

record JwtHeader =
  JhAlg :: string
  JhKid :: string
  JhTyp :: string

definition decode_header_member :: "JwtHeader option \<Rightarrow> string \<times> json \<Rightarrow> JwtHeader option" where
  "decode_header_member acc kv =
     (case acc of
        None \<Rightarrow> None
      | Some d \<Rightarrow>
          (let k = fst kv; v = snd kv in
           if field_match ''alg'' k then set_text v (\<lambda>s. d\<lparr>JhAlg := s\<rparr>) d
           else if field_match ''kid'' k then set_text v (\<lambda>s. d\<lparr>JhKid := s\<rparr>) d
           else if field_match ''typ'' k then set_text v (\<lambda>s. d\<lparr>JhTyp := s\<rparr>) d
           else Some d))"

definition unmarshal_header :: "string \<Rightarrow> JwtHeader option" where
  "unmarshal_header b =
     (let zero = \<lparr>JhAlg = [], JhKid = [], JhTyp = []\<rparr> in
      case json_decode b of
        Some (JObj kvs) \<Rightarrow> foldl decode_header_member (Some zero) kvs
      | Some JNull \<Rightarrow> Some zero
      | _ \<Rightarrow> None)"

definition decodeJWTHeader :: "string \<Rightarrow> goerr + JwtHeader" where
  "decodeJWTHeader token =
     (let parts = Split (CHR ''.'') token in
      if length parts \<noteq> 3 then
        Inl (ErrText (''malformed JWT: expected 3 segments, got '' @ nat_dec (length parts)))
      else
        (case b64rawurl_decode (parts ! 0) of
           None \<Rightarrow> Inl (errorf_w ''decode JWT header: '' (ErrText ''base64.DecodeString''))
         | Some b \<Rightarrow>
             (case unmarshal_header b of
                None \<Rightarrow> Inl (errorf_w ''parse JWT header: '' (ErrText ''json.Unmarshal''))
              | Some h \<Rightarrow> if JhAlg h = [] then Inl (ErrText ''JWT header missing alg'') else Inr h)))"

definition didOfKID :: "string \<Rightarrow> string" where
  "didOfKID kid = (if kid = [] then [] else if \<not> HasPrefix kid ''did:'' then [] else base_did kid)"

definition verifyJWTProof :: "'w Verifier \<Rightarrow> 'w \<Rightarrow> Proof \<Rightarrow> string \<Rightarrow> vc_err option \<times> 'w" where
  "verifyJWTProof v w pf issuer =
     (let lib = VfLib v; token = JWT pf in
      case decodeJWTHeader token of
        Inl e \<Rightarrow> (Some (VcError failProof vc_codeAutSignatureInvalid (error_text e)), w)
      | Inr header \<Rightarrow>
          (let signerDID = (if didOfKID (JhKid header) = [] then issuer else didOfKID (JhKid header)) in
           if base_did signerDID \<noteq> base_did issuer then
             (Some (VcError failIssuer codeAutUnauthorizedAction
                (''proof signer '' @ go_quote signerDID @ '' does not match issuer '' @ go_quote issuer)), w)
           else
             (case resolveDID lib (VfCfg v) (VfFetch v) w (JhKid header) (JhAlg header) of
                (Inl e, w1) \<Rightarrow>
                  if is_panic e then (Some (VcOther e), w1)
                  else if isNetErr lib e \<and> FailOpen (VfCfg v) then (None, w1)
                  else (Some (VcError failResolution (resolutionCode lib e)
                          (''resolve '' @ go_quote (JhKid header) @ '': '' @ error_text e)), w1)
              | (Inr key, w1) \<Rightarrow>
                  if JhAlg header \<noteq> RkAlg key then
                    (Some (VcError failProof vc_codeAutSignatureInvalid
                       (''header alg '' @ go_quote (JhAlg header) @ '' does not match issuer key algorithm '' @ go_quote (RkAlg key))), w1)
                  else
                    (case VlJwsVerify lib token (RkAlg key) (RkPub key) of
                       Inl e \<Rightarrow>
                         (Some (VcError failProof vc_codeAutSignatureInvalid
                            (''signature verification failed: '' @ error_text e)), w1)
                     | Inr payload \<Rightarrow>
                         if CheckExpiry (VfCfg v) then checkJWTClaims v w1 payload else (None, w1)))))"

definition proofValue_check :: "'w Verifier \<Rightarrow> 'w \<Rightarrow> Proof \<Rightarrow> vc_err option \<times> 'w" where
  "proofValue_check v w pf =
     (if RequireProof (VfCfg v) then
        (Some (VcError failProof vc_codeAutSignatureInvalid
           (''proof type '' @ go_quote (PfType pf) @ '' requires JSON-LD canonicalisation which is not supported; set requireProof=false to accept on expiry/revocation only'')), w)
      else
        (let vm = VerificationMethod pf in
         if vm = [] then
           (Some (VcError failProof codeAutSignatureMissing
              (''proof type '' @ go_quote (PfType pf) @ '' has no verificationMethod to resolve'')), w)
         else
           (case resolveDID (VfLib v) (VfCfg v) (VfFetch v) w vm [] of
              (Inl e, w1) \<Rightarrow>
                if is_panic e then (Some (VcOther e), w1)
                else if FailOpen (VfCfg v) then (None, w1)
                else (Some (VcError failResolution (resolutionCode (VfLib v) e)
                        (''verificationMethod '' @ go_quote vm @ '' did not resolve: '' @ error_text e)), w1)
            | (Inr key, w1) \<Rightarrow> (None, w1))))"

definition proof_check :: "'w Verifier \<Rightarrow> 'w \<Rightarrow> Credential \<Rightarrow> string \<Rightarrow> vc_err option \<times> 'w" where
  "proof_check v w cred issuer =
     (case CdProof cred of
        None \<Rightarrow> (Some (VcError failProof codeAutSignatureMissing ''credential has no proof''), w)
      | Some pf \<Rightarrow>
          if JWT pf \<noteq> [] then verifyJWTProof v w pf issuer
          else if ProofValue pf \<noteq> [] then proofValue_check v w pf
          else (Some (VcError failProof codeAutSignatureMissing ''proof has neither jwt nor proofValue''), w))"

definition verify_credential :: "'w Verifier \<Rightarrow> 'w \<Rightarrow> Credential \<Rightarrow> vc_err option \<times> 'w" where
  "verify_credential v w cred =
     (case issuerDID cred of
        Inl e \<Rightarrow> (Some e, w)
      | Inr issuer \<Rightarrow>
          (case (if CheckExpiry (VfCfg v) then checkWindow v w (CdValidFrom cred) (CdValidUntil cred) else (None, w)) of
             (Some e, w1) \<Rightarrow> (Some e, w1)
           | (None, w1) \<Rightarrow>
               (case proof_check v w1 cred issuer of
                  (Some e, w2) \<Rightarrow> (Some e, w2)
                | (None, w2) \<Rightarrow>
                    (case CredentialStatus cred of
                       Some st \<Rightarrow> if CheckRevocation (VfCfg v) then checkRevocation v w2 st else (None, w2)
                     | None \<Rightarrow> (None, w2)))))"

definition vc_verify :: "'w Verifier \<Rightarrow> 'w \<Rightarrow> string \<Rightarrow> vc_err option \<times> 'w" where
  "vc_verify v w raw =
     (case unmarshal_credential raw of
        None \<Rightarrow> (Some (VcError failStructure codeSchInvalidJSON ''cannot parse credential: json.Unmarshal''), w)
      | Some cred \<Rightarrow> verify_credential v w cred)"

subsection \<open>Extraction\<close>

definition extractAction :: "string \<Rightarrow> string \<Rightarrow> string" where
  "extractAction urlPath body =
     (let lst = last (Split (CHR ''/'') (rev (dropWhile (\<lambda>c. c = CHR ''/'') (rev urlPath)))) in
      if lst \<noteq> [] \<and> lst \<noteq> ''caller'' \<and> lst \<noteq> ''receiver'' then lst else context_string_field ''action'' body)"

definition isCredential :: "(string \<times> json) list \<Rightarrow> bool" where
  "isCredential m \<longleftrightarrow> jget m ''proof'' \<noteq> None \<and> jget m ''credentialSubject'' \<noteq> None"

fun walkCredentials :: "json \<Rightarrow> string list" where
  "walkCredentials (JObj n) =
     (if isCredential n then [marshal_any (JObj n)] else []) @ concat (map (\<lambda>p. walkCredentials (snd p)) n)"
| "walkCredentials (JArr n) = concat (map walkCredentials n)"
| "walkCredentials v = []"

definition extractCredentials :: "Float64 \<Rightarrow> string \<Rightarrow> string list" where
  "extractCredentials F body = (case unmarshal_any F body of None \<Rightarrow> [] | Some root \<Rightarrow> walkCredentials root)"

subsection \<open>The step\<close>

record 'w VcStep =
  VsCfg :: VcConfig
  VsVerifier :: "'w Verifier"

definition vc_New ::
  "(string \<Rightarrow> int option) \<Rightarrow> (string \<Rightarrow> goerr + string) \<Rightarrow> (string \<Rightarrow> IP option) \<Rightarrow> (ClientSettings \<Rightarrow> 'w VcClient) \<Rightarrow>
     'w clock \<Rightarrow> VcLib \<Rightarrow> (string \<rightharpoonup> string) \<Rightarrow> goerr + 'w VcStep" where
  "vc_New ParseDuration SplitHost ParseIP mk now lib cfg =
     (case vc_ParseConfig (VlToLower lib) ParseDuration cfg of
        Inl e \<Rightarrow> Inl (errorf_w ''validateVC: config: '' e)
      | Inr config \<Rightarrow>
          (let client = mk (vc_newHTTPClient SplitHost ParseIP config) in
           Inr \<lparr>VsCfg = config,
                VsVerifier = \<lparr>VfCfg = config, VfFetch = httpFetcher client, VfStatusGet = httpStatusFetcher client,
                  VfNow = now, VfLib = lib\<rparr>\<rparr>))"

definition nackErr :: "string \<Rightarrow> string \<Rightarrow> string \<Rightarrow> goerr" where
  "nackErr class code msg =
     (if class = failStructure then NewBadReqErr code (ErrText (vcError_Error class msg))
      else NewSignValidationErr code (ErrText (vcError_Error class msg)))"

text \<open>\<open>nackErr(asVCError(err))\<close>; a panic passes.\<close>

definition reject :: "vc_err \<Rightarrow> goerr" where
  "reject e =
     (case e of
        VcError class code msg \<Rightarrow> nackErr class code msg
      | VcOther err \<Rightarrow> if is_panic err then err else nackErr failStructure codeSchSchemaValidation (error_text err))"

fun verify_all :: "'w Verifier \<Rightarrow> 'w \<Rightarrow> string list \<Rightarrow> goerr option \<times> 'w" where
  "verify_all v w [] = (None, w)"
| "verify_all v w (raw # creds) =
     (case vc_verify v w raw of
        (Some e, w1) \<Rightarrow> (Some (reject e), w1)
      | (None, w1) \<Rightarrow> verify_all v w1 creds)"

definition vc_Run :: "'w VcStep \<Rightarrow> 'w Step" where
  "vc_Run s w ctx =
     (if \<not> Enabled (VsCfg s) then (None, ctx, w)
      else if \<not> IsActionEnabled (VsCfg s) (extractAction (UPath (ReqURL (ScRequest ctx))) (Body ctx)) then (None, ctx, w)
      else
        (let creds = extractCredentials (VlFloat (VfLib (VsVerifier s))) (Body ctx) in
         if creds = [] then (None, ctx, w)
         else if int (length creds) > MaxCredentials (VsCfg s) then
           (Some (nackErr failStructure codeSchSchemaValidation
              (''request carries '' @ nat_dec (length creds) @ '' credentials, exceeding maxCredentials='' @ int_dec (MaxCredentials (VsCfg s)))), ctx, w)
         else (let (e, w1) = verify_all (VsVerifier s) w creds in (e, ctx, w1))))"

end
