(* ===== verification/Vc_Trust.thy ===== *)
theory Vc_Trust
  imports Vc_Validator Handler
begin

text \<open>
  What a passing validateVC step guarantees, and what it does not: the soundness of the step under
  the strict policy, the exact meaning of a status list index, the inputs that panic, the effect of
  \<open>failOpen\<close> on a forged proof, and that the proof does not cover the subject of the credential.
\<close>

subsection \<open>Bits of a status list\<close>

text \<open>The bits of a byte, most significant first.\<close>

definition msb_bits :: "char \<Rightarrow> bool list" where
  "msb_bits c = map (\<lambda>k. bit (of_char c :: nat) (7 - k)) [0..<8]"

lemma bit_set_bit: "bit_set c i \<longleftrightarrow> bit (of_char c :: nat) (7 - nat i)" if "0 \<le> i" "i < 8"
proof -
  define k where "k = nat i"
  have k: "k < 8" "nat (i mod 2 ^ 64) = k" using that by (simp_all add: k_def)
  have top_bit: "(0x80 :: 8 word) = push_bit 7 1" by (simp add: push_bit_eq_mult)
  have "drop_bit j (push_bit m 1 :: 8 word) = push_bit (m - j) 1" if "j \<le> m" "m < 8" for j m
    by (rule bit_word_eqI) (use that in \<open>auto simp: bit_simps\<close>)
  from this [of k 7] have "drop_bit k (0x80 :: 8 word) = push_bit (7 - k) 1" unfolding top_bit using k by simp
  then have "bit_set c i \<longleftrightarrow> (word_of_nat (of_char c) :: 8 word) AND push_bit (7 - k) 1 \<noteq> 0"
    unfolding bit_set_def k(2) by simp
  also have "\<dots> \<longleftrightarrow> bit (word_of_nat (of_char c) :: 8 word) (7 - k)"
    by (simp add: push_bit_eq_mult and_exp_eq_0_iff_not_bit)
  also have "\<dots> \<longleftrightarrow> bit (of_char c :: nat) (7 - k)" using k by (auto simp: bit_simps)
  finally show ?thesis by (simp add: k_def)
qed

lemma bit_set_far: "\<not> bit_set c i" if "i < 0" "- 8 < i"
proof -
  have "i mod 2 ^ 64 = (i + 2 ^ 64) mod 2 ^ 64" by simp
  also have "\<dots> = i + 2 ^ 64" using that by (intro mod_pos_pos_trivial) simp_all
  finally have "i mod 2 ^ 64 = i + 2 ^ 64" .
  then have "nat (i mod 2 ^ 64) \<ge> 8" using that by simp
  then have "drop_bit (nat (i mod 2 ^ 64)) (0x80 :: 8 word) = 0"
    by (auto intro!: bit_word_eqI simp: bit_simps dest: bit_imp_le_length)
  then show ?thesis by (simp add: bit_set_def)
qed

lemma length_msb_bits [simp]: "length (msb_bits c) = 8"
  by (simp add: msb_bits_def)

lemma nth_msb_bits: "concat (map msb_bits bits) ! n = bit (of_char (bits ! (n div 8)) :: nat) (7 - n mod 8)"
  if "n < 8 * length bits"
  using that
proof (induction bits arbitrary: n)
  case (Cons c bits)
  show ?case
  proof (cases "n < 8")
    case False
    then have "n div 8 = Suc ((n - 8) div 8)" "n mod 8 = (n - 8) mod 8" by (simp_all add: div_if mod_if)
    with False Cons show ?thesis by (simp add: nth_append)
  qed (simp add: nth_append msb_bits_def)
qed simp

text \<open>C19: Looking up index \<open>idx\<close> in a status list yields the bit at that position counted from the most
  significant bit of the first byte, false beyond the list and for the indices -7 to -1, and
  a panic for every index below -7.
\<close>

theorem status_bit_exact:
  "list_bit bits idx =
     (if idx \<le> - 8 then Inl index_panic
      else Inr (0 \<le> idx \<and> nat idx < 8 * length bits \<and> concat (map msb_bits bits) ! nat idx))"
proof (cases "0 \<le> idx")
  case True
  have "go_div idx 8 = idx div 8" "go_mod idx 8 = idx mod 8"
    using True by (simp_all add: go_div_def go_mod_def minus_mult_div_eq_mod)
  moreover have "idx div 8 \<ge> int (length bits) \<longleftrightarrow> \<not> nat idx < 8 * length bits" using True by linarith
  moreover have "\<not> idx div 8 < 0" using True by simp
  moreover have "nat (idx div 8) = nat idx div 8" "nat (idx mod 8) = nat idx mod 8"
    using True by (simp_all add: nat_div_distrib nat_mod_distrib)
  ultimately show ?thesis
    using True nth_msb_bits [of "nat idx" bits] by (simp add: list_bit_def Let_def bit_set_bit)
next
  case False
  then have "go_div idx 8 = - ((- idx) div 8)" "go_mod idx 8 = idx + 8 * ((- idx) div 8)"
    by (simp_all add: go_div_def go_mod_def)
  moreover have "- ((- idx) div 8) < 0 \<longleftrightarrow> idx \<le> - 8" using False by linarith
  moreover have "- ((- idx) div 8) = 0 \<and> idx + 8 * ((- idx) div 8) = idx" if "\<not> idx \<le> - 8" using False that by auto
  ultimately show ?thesis
    using False by (auto simp: list_bit_def Let_def bit_set_far)
qed

subsection \<open>What a verified credential has\<close>

text \<open>The key that a DID resolves to in some state, and the outcome of a status entry in some state.\<close>

definition key_resolves :: "'w Verifier \<Rightarrow> string \<Rightarrow> ResolvedKey \<Rightarrow> bool" where
  "key_resolves v did key \<longleftrightarrow> (\<exists>w alg. fst (resolveDID (VfLib v) (VfCfg v) (VfFetch v) w did alg) = Inr key)"

definition signed_by :: "'w Verifier \<Rightarrow> string \<Rightarrow> string \<Rightarrow> bool" where
  "signed_by v token issuer \<longleftrightarrow>
     (\<exists>h key payload. decodeJWTHeader token = Inr h \<and> base_did (JhKid h) = base_did issuer \<and>
        IsMethodAllowed (VfCfg v) (didMethod (JhKid h)) \<and> key_resolves v (JhKid h) key \<and> JhAlg h = RkAlg key \<and>
        VlJwsVerify (VfLib v) token (RkAlg key) (RkPub key) = Inr payload \<and>
        (CheckExpiry (VfCfg v) \<longrightarrow>
           (\<forall>claims. unmarshal_claims payload = Some claims \<longrightarrow> (\<exists>now. claims_error now claims = None))))"

definition not_revoked :: "'w Verifier \<Rightarrow> json \<Rightarrow> bool" where
  "not_revoked v st \<longleftrightarrow>
     (\<exists>entries. parseStatusEntries (VlFloat (VfLib v)) st = Some entries \<and>
        (\<forall>e \<in> set entries. gates (VfLib v) e \<longrightarrow> (\<exists>w. fst (entryRevoked v w e) = Inr False)))"

definition vc_valid :: "'w Verifier \<Rightarrow> Credential \<Rightarrow> bool" where
  "vc_valid v cred \<longleftrightarrow>
     (\<exists>issuer pf. issuerDID cred = Inr issuer \<and> CdProof cred = Some pf \<and> signed_by v (JWT pf) issuer) \<and>
     (CheckExpiry (VfCfg v) \<longrightarrow> (\<exists>now. window_error (VfLib v) now (CdValidFrom cred) (CdValidUntil cred) = None)) \<and>
     (\<forall>st. CredentialStatus cred = Some st \<longrightarrow> CheckRevocation (VfCfg v) \<longrightarrow> not_revoked v st)"

lemma Split_prefix: "Split c s = p # ps \<Longrightarrow> ps = [] \<or> take (Suc (length p)) s = p @ [c]"
proof (induction s arbitrary: p ps)
  case (Cons x s)
  then show ?case
    by (cases "Split c s") (auto split: if_splits)
qed simp

lemma didMethod_did: "didMethod did \<noteq> [] \<Longrightarrow> HasPrefix did ''did:''"
  by (auto simp: didMethod_def HasPrefix_def split: list.splits if_splits dest!: Split_prefix)

lemma didOfKID_did: "didMethod kid \<noteq> [] \<Longrightarrow> didOfKID kid = base_did kid \<and> base_did kid \<noteq> []"
proof -
  assume "didMethod kid \<noteq> []"
  then have "HasPrefix kid ''did:''" by (rule didMethod_did)
  then obtain t where "kid = ''did:'' @ t" unfolding HasPrefix_def by (metis append_take_drop_id)
  then show ?thesis by (simp add: didOfKID_def base_did_def HasPrefix_def)
qed

lemma base_did_idem [simp]: "base_did (base_did d) = base_did d"
  unfolding base_did_def by (induction d) (auto simp: takeWhile_eq_all_conv dest: set_takeWhileD)

lemma resolveDID_method:
  "resolveDID lib cfg fetch w did alg = (Inr key, w1) \<Longrightarrow> didMethod did \<noteq> [] \<and> IsMethodAllowed cfg (didMethod did)"
  by (auto simp: resolveDID_def Let_def split: if_splits)

lemma verifyJWTProof_signed:
  assumes ok: "verifyJWTProof v w pf issuer = (None, w')" and strict: "\<not> FailOpen (VfCfg v)"
  shows "signed_by v (JWT pf) issuer"
proof -
  obtain h where h: "decodeJWTHeader (JWT pf) = Inr h"
    using ok by (cases "decodeJWTHeader (JWT pf)") (simp_all add: verifyJWTProof_def)
  let ?signer = "if didOfKID (JhKid h) = [] then issuer else didOfKID (JhKid h)"
  obtain r w1 where r: "resolveDID (VfLib v) (VfCfg v) (VfFetch v) w (JhKid h) (JhAlg h) = (r, w1)" by fastforce
  have signer: "base_did ?signer = base_did issuer"
    using ok h by (auto simp: verifyJWTProof_def Let_def split: if_splits)
  obtain key where key: "r = Inr key"
    using ok h r signer strict by (cases r) (auto simp: verifyJWTProof_def Let_def split: if_splits)
  note allowed = resolveDID_method [OF r [unfolded key]]
  then have kid: "base_did (JhKid h) = base_did issuer"
    using didOfKID_did [of "JhKid h"] signer by simp
  have alg: "JhAlg h = RkAlg key"
    using ok h r signer by (auto simp: verifyJWTProof_def Let_def key split: if_splits)
  then obtain payload where payload: "VlJwsVerify (VfLib v) (JWT pf) (RkAlg key) (RkPub key) = Inr payload"
    using ok h r signer
    by (cases "VlJwsVerify (VfLib v) (JWT pf) (RkAlg key) (RkPub key)") (auto simp: verifyJWTProof_def Let_def key split: if_splits)
  have "\<exists>now. claims_error now claims = None" if "CheckExpiry (VfCfg v)" "unmarshal_claims payload = Some claims" for claims
    using ok h r signer alg payload that
    by (auto simp: verifyJWTProof_def Let_def key checkJWTClaims_def split: if_splits prod.splits)
  then show ?thesis unfolding signed_by_def key_resolves_def using h kid allowed r key alg payload by (metis fst_conv)
qed

lemma check_entries_clear:
  assumes "check_entries v w es = (None, w')" and "\<not> FailOpen (VfCfg v)" and "e \<in> set es" and "gates (VfLib v) e"
  shows "\<exists>w1. fst (entryRevoked v w1 e) = Inr False"
  using assms
proof (induction es arbitrary: w)
  case (Cons x es)
  obtain r w1 where r: "entryRevoked v w x = (r, w1)" by fastforce
  show ?case
  proof (cases "gates (VfLib v) x")
    case True
    with Cons.prems(1,2) r have "r = Inr False \<and> check_entries v w1 es = (None, w')"
      by (cases r) (auto split: if_splits)
    then show ?thesis using Cons.IH [of w1] Cons.prems r by (auto intro: exI [of _ w])
  qed (use Cons in auto)
qed simp

lemma verify_credential_valid:
  assumes ok: "verify_credential v w cred = (None, w')" and strict: "\<not> FailOpen (VfCfg v)" "RequireProof (VfCfg v)"
  shows "vc_valid v cred"
proof -
  obtain issuer where issuer: "issuerDID cred = Inr issuer"
    using ok by (cases "issuerDID cred") (simp_all add: verify_credential_def)
  let ?window = "if CheckExpiry (VfCfg v) then checkWindow v w (CdValidFrom cred) (CdValidUntil cred) else (None, w)"
  obtain w1 where w1: "?window = (None, w1)"
    using ok issuer by (cases ?window; cases "fst ?window") (auto simp: verify_credential_def)
  obtain w2 where w2: "proof_check v w1 cred issuer = (None, w2)"
    using ok issuer w1 by (cases "proof_check v w1 cred issuer"; cases "fst (proof_check v w1 cred issuer)")
      (auto simp: verify_credential_def)
  obtain pf where pf: "CdProof cred = Some pf" "verifyJWTProof v w1 pf issuer = (None, w2)"
    using w2 strict by (auto simp: proof_check_def proofValue_check_def split: option.splits if_splits)
  have "\<exists>now. window_error (VfLib v) now (CdValidFrom cred) (CdValidUntil cred) = None" if "CheckExpiry (VfCfg v)"
    using w1 that by (auto simp: checkWindow_def split: prod.splits)
  moreover have "not_revoked v st" if "CredentialStatus cred = Some st" "CheckRevocation (VfCfg v)" for st
  proof -
    have "checkRevocation v w2 st = (None, w')"
      using ok issuer w1 w2 that by (simp add: verify_credential_def)
    then show ?thesis
      using check_entries_clear [of v w2 _ w'] strict(1) by (auto simp: checkRevocation_def not_revoked_def split: option.splits)
  qed
  ultimately show ?thesis
    unfolding vc_valid_def using issuer pf verifyJWTProof_signed [OF pf(2) strict(1)] by blast
qed

subsection \<open>Embedded credentials\<close>

text \<open>The objects with a proof and a subject anywhere in a value.\<close>

inductive embedded :: "json \<Rightarrow> (string \<times> json) list \<Rightarrow> bool" where
  here: "isCredential n \<Longrightarrow> embedded (JObj n) n"
| member: "p \<in> set n \<Longrightarrow> embedded (snd p) c \<Longrightarrow> embedded (JObj n) c"
| element: "x \<in> set n \<Longrightarrow> embedded x c \<Longrightarrow> embedded (JArr n) c"

lemma walk_embedded: "embedded v c \<Longrightarrow> marshal_any (JObj c) \<in> set (walkCredentials v)"
  by (induction rule: embedded.induct) auto

lemma verify_all_each:
  "verify_all v w creds = (None, w') \<Longrightarrow> raw \<in> set creds \<Longrightarrow> \<exists>w1 w2. vc_verify v w1 raw = (None, w2)"
proof (induction creds arbitrary: w)
  case (Cons x creds)
  obtain w1 where "vc_verify v w x = (None, w1)" "verify_all v w1 creds = (None, w')"
    using Cons.prems(1) by (auto split: prod.splits option.splits)
  with Cons show ?case by auto
qed simp


text \<open>The step leaves the step context alone, so it is one of the framed steps of the handler.\<close>

lemma vc_Run_ctx: "fst (snd (vc_Run s w ctx)) = ctx"
  by (simp add: vc_Run_def Let_def split: prod.split)

interpretation validate_vc_step: framed_step "vc_Run s" for s
  by unfold_locales (simp add: vc_Run_ctx frame_def)

subsection \<open>Panics of the resolution\<close>

definition calm :: "goerr + 'a \<Rightarrow> bool" where
  "calm r \<longleftrightarrow> (case r of Inl e \<Rightarrow> \<not> is_panic e | Inr _ \<Rightarrow> True)"

definition calm_lib :: "VcLib \<Rightarrow> bool" where
  "calm_lib lib \<longleftrightarrow> (\<forall>b. calm (VlJwkParse lib b)) \<and> (\<forall>k. calm (VlJwkExport lib k)) \<and> (\<forall>b. calm (VlSecp256k1 lib b))"

lemma calm_simps [simp]:
  "calm (Inr x)" "calm (Inl (ErrText t))" "calm (Inl (errorf_w t e)) = (\<not> is_panic e)" "\<not> calm (Inl slice_panic)"
  by (auto simp: calm_def is_panic_def errorf_w_def slice_panic_def split: goerr.splits)

lemma calm_Inl: "calm r \<Longrightarrow> r = Inl e \<Longrightarrow> \<not> is_panic e"
  by (simp add: calm_def)

lemma calm_base58 [simp]: "calm (base58Decode s)"
proof -
  have "calm (b58_loop t out)" for t out
    by (induction t arbitrary: out) (auto split: option.splits)
  then show ?thesis by (auto simp: base58Decode_def Let_def calm_def split: sum.splits) (metis sum.case(1))
qed

lemma base58_err: "base58Decode s = Inl e \<Longrightarrow> \<not> is_panic e"
  by (rule calm_Inl [OF calm_base58])

lemma calm_multicodec [simp]: "calm_lib lib \<Longrightarrow> calm (keyFromMulticodec lib raw)"
  by (auto simp: keyFromMulticodec_def decompressP256_def calm_lib_def Let_def split: sum.splits option.splits if_splits dest: calm_Inl)

lemma calm_jwk [simp]: "calm_lib lib \<Longrightarrow> calm (keyFromJWKBytes lib b)"
  by (auto simp: keyFromJWKBytes_def calm_lib_def algForKey_def Let_def
      split: sum.splits option.splits if_splits PublicKey.splits Curve.splits dest: calm_Inl)

lemma calm_method [simp]: "calm_lib lib \<Longrightarrow> calm (keyFromVerificationMethod lib vm)"
  by (auto simp: keyFromVerificationMethod_def split: sum.splits list.splits dest: base58_err)

lemma Split_single_iff: "Split c t = [w] \<longleftrightarrow> t = w \<and> c \<notin> set t"
proof (induction t arbitrary: w)
  case (Cons x t)
  then show ?case by (cases "Split c t"; cases w) (auto split: if_splits)
qed auto

lemma short_did: "didMethod did = m \<Longrightarrow> m \<noteq> [] \<Longrightarrow> length did < 5 + length m \<longleftrightarrow> did = ''did:'' @ m"
proof -
  assume m: "didMethod did = m" "m \<noteq> []"
  then obtain ps where ps: "Split (CHR '':'') did = ''did'' # m # ps"
    by (auto simp: didMethod_def split: list.splits if_splits)
  from m obtain t where t: "did = ''did:'' @ t" using didMethod_did [of did] unfolding HasPrefix_def by (metis append_take_drop_id)
  from ps have split: "Split (CHR '':'') t = m # ps" by (simp add: t split: list.splits)
  show ?thesis
  proof (cases ps)
    case Nil
    then show ?thesis using split by (auto simp: t Split_single_iff)
  next
    case (Cons p qs)
    then have "take (Suc (length m)) t = m @ '':''" using Split_prefix [OF split] by simp
    then have "length t \<ge> Suc (length m)" by (metis length_append_singleton length_take min.absorb_iff2 nat_le_linear min.absorb1)
    then show ?thesis by (auto simp: t)
  qed
qed

text \<open>With library functions and a fetcher that do not panic, resolving a DID panics exactly for the texts
  did:key and did:jwk without an identifier, when their method is allowed; every other DID is resolved or
  refused with an error.\<close>

theorem resolution_panics_exactly:
  assumes "calm_lib lib" and "\<And>w url. calm (fst (fetch w url))"
  shows "\<not> calm (fst (resolveDID lib cfg fetch w did alg)) \<longleftrightarrow>
    did \<in> {''did:key'', ''did:jwk''} \<and> IsMethodAllowed cfg (didMethod did)"
proof -
  have short: "length did < 8 \<longleftrightarrow> did = ''did:'' @ didMethod did" if "didMethod did \<in> {''key'', ''jwk''}"
    using short_did [of did "didMethod did"] that by auto
  have key: "calm (resolveDIDKey lib did) \<longleftrightarrow> \<not> length did < 8"
    using assms(1) by (auto simp: resolveDIDKey_def split: list.splits sum.splits dest: base58_err)
  have jwk: "calm (resolveDIDJWK lib did) \<longleftrightarrow> \<not> length did < 8"
    using assms(1) by (auto simp: resolveDIDJWK_def Let_def is_panic_def split: option.splits)
  have "calm (didWebURL d)" for d
    by (auto simp: didWebURL_def Let_def split: list.splits)
  then have url: "didWebURL d = Inl e \<Longrightarrow> calm (Inl e :: goerr + ResolvedKey)" for d e by (metis calm_Inl calm_def sum.case(1))
  have fetched: "fetch w1 u = (Inl e, w2) \<Longrightarrow> \<not> is_panic e" for w1 u e w2 using assms(2) [of w1 u] by (simp add: calm_def)
  have web: "calm (fst (resolveDIDWeb lib fetch w did))"
    using assms(1) by (auto simp: resolveDIDWeb_def split: sum.splits prod.splits option.splits dest: url fetched)
  have "didMethod ''did:key'' = ''key''" "didMethod ''did:jwk'' = ''jwk''" by (simp_all add: didMethod_def)
  then show ?thesis
    using short key jwk web by (auto simp: resolveDID_def Let_def)
qed

subsection \<open>failOpen and forged proofs\<close>

lemma net_words:
  "isNetErr lib (ErrText (''not a DID: '' @ go_quote ''dial''))"
  "isNetErr lib (ErrText (''not a DID: '' @ go_quote ''connection''))"
  by (simp_all add: isNetErr_def Contains_def go_quote_def quote_byte_def HasPrefix_def)

text \<open>C17: With failOpen set, a credential whose JWT header carries the kid dial or connection, which is no DID at
  all, and that names no validity window and no status, is accepted for any issuer and with any signature.\<close>

theorem fail_open_accepts_forgery:
  assumes "FailOpen (VfCfg v)" and "unmarshal_credential raw = Some cred" and "issuerDID cred = Inr issuer"
    and "CdProof cred = Some pf" and "JWT pf \<noteq> []" and "decodeJWTHeader (JWT pf) = Inr h"
    and "JhKid h \<in> {''dial'', ''connection''}"
    and "CdValidFrom cred = []" and "CdValidUntil cred = []" and "CredentialStatus cred = None"
  shows "fst (vc_verify v w raw) = None"
proof -
  have kid: "didMethod (JhKid h) = []" "didOfKID (JhKid h) = []"
    using assms(7) by (auto simp: didMethod_def didOfKID_def HasPrefix_def)
  have net: "isNetErr (VfLib v) (ErrText (''not a DID: '' @ go_quote (JhKid h)))"
    using assms(7) net_words by auto
  have jwt: "verifyJWTProof v w1 pf issuer = (None, w1)" for w1
    using assms(1,6) kid net by (simp add: verifyJWTProof_def resolveDID_def Let_def is_panic_def)
  have "window_error (VfLib v) now [] [] = None" for now by (simp add: window_error_def)
  with jwt assms show ?thesis
    by (auto simp: vc_verify_def verify_credential_def checkWindow_def proof_check_def split: prod.splits)
qed

subsection \<open>The subject is not covered\<close>

text \<open>A sorted object reads back with its own members, coerced and in the order of the keys.\<close>

definition read_back :: "(string \<times> json) list \<Rightarrow> (string \<times> json) list" where
  "read_back c = map (\<lambda>p. (utf8_coerce (fst p), json_coerce (snd p))) (sort_key fst (map (\<lambda>p. (fst p, sort_members (snd p))) c))"

lemma decode_subject_ignored: "decode_credential_member acc (''credentialSubject'', v) = acc"
  by (cases acc) (simp_all add: decode_credential_member_def field_match_def HasPrefix_def in_range_def Let_def)

lemma foldl_ignore:
  "(\<And>acc x. x \<in> set xs \<Longrightarrow> \<not> P x \<Longrightarrow> f acc x = acc) \<Longrightarrow> foldl f a xs = foldl f a (filter P xs)"
  by (induction xs arbitrary: a) auto

lemma utf8_subject: "utf8_coerce ''credentialSubject'' = ''credentialSubject''"
  by (simp add: utf8_len_def in_range_def)

lemma credential_without_subject:
  "foldl decode_credential_member a (read_back c) =
     foldl decode_credential_member a (read_back (filter (\<lambda>p. fst p \<noteq> ''credentialSubject'') c))"
proof -
  let ?s = "sort_key fst (map (\<lambda>p. (fst p, sort_members (snd p))) c)" and ?P = "\<lambda>p. fst p \<noteq> ''credentialSubject''"
  let ?g = "\<lambda>p. (utf8_coerce (fst p), json_coerce (snd p))"
  have "foldl (\<lambda>acc p. decode_credential_member acc (?g p)) a ?s = foldl (\<lambda>acc p. decode_credential_member acc (?g p)) a (filter ?P ?s)"
    by (rule foldl_ignore) (auto simp: utf8_subject decode_subject_ignored)
  also have "filter ?P ?s = sort_key fst (map (\<lambda>p. (fst p, sort_members (snd p))) (filter ?P c))"
    by (simp add: filter_sort filter_map comp_def)
  finally show ?thesis by (simp add: read_back_def foldl_map)
qed

lemma go_set_others: "filter (\<lambda>p. fst p \<noteq> k) (go_set m k x) = filter (\<lambda>p. fst p \<noteq> k) m"
proof -
  have "filter (\<lambda>p. fst p \<noteq> k) (map (\<lambda>p. if fst p = k then (k, x) else p) m) = filter (\<lambda>p. fst p \<noteq> k) m"
    by (induction m) auto
  then show ?thesis by (simp add: go_set_def)
qed

lemma credential_read_back:
  assumes "json_nums (JObj c)" and "json_depth (JObj c) \<le> max_depth"
  shows "unmarshal_credential (marshal_any (JObj c)) = foldl decode_credential_member (Some zero_credential) (read_back c)"
proof -
  have "json_decode (marshal_any (JObj c)) = Some (json_coerce (sort_members (JObj c)))"
    unfolding marshal_any_def
    by (rule json_decode_encode_coerce) (use assms sort_members_nums [OF assms(1)] in \<open>simp_all only: sort_members_depth\<close>)
  then show ?thesis by (simp add: unmarshal_credential_def read_back_def)
qed

text \<open>C18: The verdict on a credential does not depend on its subject: replacing the value of credentialSubject, which
  the JWT in the proof is never compared with, gives the same outcome and the same effects.\<close>

theorem subject_not_covered:
  assumes "json_nums (JObj c)" and "json_depth (JObj c) \<le> max_depth"
    and "json_nums (JObj (go_set c ''credentialSubject'' x))" and "json_depth (JObj (go_set c ''credentialSubject'' x)) \<le> max_depth"
  shows "vc_verify v w (marshal_any (JObj (go_set c ''credentialSubject'' x))) = vc_verify v w (marshal_any (JObj c))"
proof -
  have "unmarshal_credential (marshal_any (JObj (go_set c ''credentialSubject'' x))) = unmarshal_credential (marshal_any (JObj c))"
    unfolding credential_read_back [OF assms(1,2)] credential_read_back [OF assms(3,4)]
    using credential_without_subject [of _ c] credential_without_subject [of _ "go_set c ''credentialSubject'' x"] go_set_others
    by metis
  then show ?thesis by (simp add: vc_verify_def)
qed

subsection \<open>Examples\<close>

definition plain_float :: Float64 where
  "plain_float = \<lparr>InRange = (\<lambda>s. True), FloatText = (\<lambda>s. s)\<rparr>"

definition sample_vc_lib :: VcLib where
  "sample_vc_lib =
     \<lparr>VlToLower = (\<lambda>s. s), VlEqualFold = (=), VlTimeout = (\<lambda>e. None), VlUrlError = (\<lambda>e. False), VlFloat = plain_float,
      VlInt = (\<lambda>s. 0), VlParseTime = (\<lambda>s. None), VlJwkParse = (\<lambda>b. Inr []),
      VlJwkExport = (\<lambda>k. Inr (RawPub (EdPub ''pub''))), VlP256Compressed = (\<lambda>b. None), VlP256Uncompressed = (\<lambda>b. None),
      VlSecp256k1 = (\<lambda>b. Inl (ErrText ''secp256k1'')), VlJwsVerify = (\<lambda>t a k. Inr ''{}''), VlGunzip = (\<lambda>b. None)\<rparr>"

text \<open>A token with the kid \<open>did:jwk:e30\<close>, and one with the kid \<open>dial\<close>.\<close>

definition sample_token :: string where
  "sample_token = ''eyJhbGciOiJFZERTQSIsImtpZCI6ImRpZDpqd2s6ZTMwIn0.e30.c2ln''"

definition forged_token :: string where
  "forged_token = ''eyJhbGciOiJub25lIiwia2lkIjoiZGlhbCJ9.e30.c2ln''"

definition sample_vc :: "string \<Rightarrow> (string \<times> json) list" where
  "sample_vc token = [(''credentialSubject'', JObj []), (''issuer'', JStr ''did:jwk:e30''), (''proof'', JObj [(''jwt'', JStr token)])]"

definition sample_cred :: "string \<Rightarrow> Credential" where
  "sample_cred token = zero_credential\<lparr>CdIssuer := Some (JStr ''did:jwk:e30''), CdProof := Some (zero_proof\<lparr>JWT := token\<rparr>)\<rparr>"

lemma sample_headers:
  "decodeJWTHeader sample_token = Inr \<lparr>JhAlg = ''EdDSA'', JhKid = ''did:jwk:e30'', JhTyp = []\<rparr>"
  "decodeJWTHeader forged_token = Inr \<lparr>JhAlg = ''none'', JhKid = ''dial'', JhTyp = []\<rparr>"
  by code_simp+

lemma sample_vc_wf: "json_wf (JObj (sample_vc sample_token))" "json_wf (JObj (sample_vc forged_token))"
  by code_simp+

lemma sample_vc_depth: "json_depth (JObj (sample_vc t)) \<le> max_depth"
  by (simp add: sample_vc_def max_depth_def)

lemma sample_read_back:
  "read_back (sample_vc sample_token) = sample_vc sample_token" "read_back (sample_vc forged_token) = sample_vc forged_token"
  by code_simp+

lemma sample_decoded:
  assumes "t = sample_token \<or> t = forged_token"
  shows "unmarshal_credential (marshal_any (JObj (sample_vc t))) = Some (sample_cred t)"
proof -
  have "json_nums (JObj (sample_vc t))" "read_back (sample_vc t) = sample_vc t"
    using assms json_wf_coerce [OF sample_vc_wf(1)] json_wf_coerce [OF sample_vc_wf(2)] sample_read_back by auto
  then show ?thesis
    unfolding credential_read_back [OF \<open>json_nums (JObj (sample_vc t))\<close> sample_vc_depth]
    by (simp add: sample_vc_def decode_credential_member_def field_match_def HasPrefix_def in_range_def Let_def decode_proof_def
        decode_proof_member_def set_text_def sample_cred_def zero_credential_def zero_proof_def)
qed

definition sample_vc_client :: "ClientSettings \<Rightarrow> unit VcClient" where
  "sample_vc_client cs = \<lparr>VcNewRequest = (\<lambda>u. None), VcDo = (\<lambda>w u a. (Inl (ErrText ''offline''), w))\<rparr>"

definition sample_vc_config :: VcConfig where
  "sample_vc_config = vc_DefaultConfig\<lparr>Actions := [''search'']\<rparr>"

definition sample_vc_step :: "bool \<Rightarrow> unit VcStep" where
  "sample_vc_step open =
     (let cfg = sample_vc_config\<lparr>FailOpen := open\<rparr>;
          client = sample_vc_client (vc_newHTTPClient Inr (\<lambda>h. None) cfg) in
      \<lparr>VsCfg = cfg, VsVerifier = \<lparr>VfCfg = cfg, VfFetch = httpFetcher client, VfStatusGet = httpStatusFetcher client,
         VfNow = (\<lambda>w. (0, w)), VfLib = sample_vc_lib\<rparr>\<rparr>)"

lemma sample_vc_New:
  "vc_New (\<lambda>s. None) Inr (\<lambda>h. None) sample_vc_client (\<lambda>w. (0, w)) sample_vc_lib [''actions'' \<mapsto> ''search''] = Inr (sample_vc_step False)"
proof -
  have "splitCSV ''search'' = [''search'']" by code_simp
  then show ?thesis
    by (simp add: vc_New_def vc_ParseConfig_def vc_timeout_def vc_max_def vc_methods_def vc_flag_def vc_DefaultConfig_def
        sample_vc_step_def sample_vc_config_def Let_def sample_vc_lib_def)
qed

definition sample_vc_ctx :: StepContext where
  "sample_vc_ctx = sample_ctx\<lparr>Body := json_encode (JObj (sample_vc sample_token))\<rparr>"

lemma sample_root: "unmarshal_any plain_float (Body sample_vc_ctx) = Some (JObj (sample_vc sample_token))"
proof -
  have "json_decode (Body sample_vc_ctx) = Some (JObj (sample_vc sample_token))"
    using json_decode_encode [OF sample_vc_wf(1) sample_vc_depth] by (simp add: sample_vc_ctx_def)
  then show ?thesis by (simp add: unmarshal_any_def sample_vc_def plain_float_def)
qed

lemma sample_action: "extractAction (UPath (ReqURL (ScRequest sample_vc_ctx))) b = ''search''"
  by (simp add: extractAction_def sample_vc_ctx_def sample_ctx_def sample_request_def sample_url_def Let_def)

lemma sample_resolved:
  "resolveDID sample_vc_lib (VsCfg (sample_vc_step b)) fetch w ''did:jwk:e30'' a = (Inr \<lparr>RkPub = EdPub ''pub'', RkAlg = ''EdDSA''\<rparr>, w)"
proof -
  have "b64rawurl_decode ''e30'' = Some ''{}''" "json_decode ''{}'' = Some (JObj [])" by code_simp+
  then show ?thesis
    by (simp add: resolveDID_def resolveDIDJWK_def didMethod_def base_did_def IsMethodAllowed_def sample_vc_step_def sample_vc_config_def
        vc_DefaultConfig_def Let_def keyFromJWKBytes_def sample_vc_lib_def publicOf_def algForKey_def lenient_field_def)
qed

lemma sample_jws: "VlJwsVerify sample_vc_lib t a k = Inr ''{}''"
  by (simp add: sample_vc_lib_def)

lemma sample_verified: "vc_verify (VsVerifier (sample_vc_step False)) w (marshal_any (JObj (sample_vc sample_token))) = (None, w)"
proof -
  let ?v = "VsVerifier (sample_vc_step False)"
  have v: "VfCfg ?v = VsCfg (sample_vc_step False)" "VfLib ?v = sample_vc_lib" "VfNow ?v = (\<lambda>w. (0, w))"
    by (simp_all add: sample_vc_step_def Let_def)
  have "unmarshal_claims ''{}'' = Some (0, 0)" by code_simp
  then have "verifyJWTProof ?v w (zero_proof\<lparr>JWT := sample_token\<rparr>) ''did:jwk:e30'' = (None, w)"
    by (simp add: verifyJWTProof_def Let_def v sample_headers sample_resolved sample_jws didOfKID_def HasPrefix_def base_did_def
        checkJWTClaims_def claims_error_def)
  moreover have "sample_token \<noteq> []" by (simp add: sample_token_def)
  ultimately show ?thesis
    by (simp add: vc_verify_def sample_decoded verify_credential_def sample_cred_def issuerDID_def checkWindow_def v window_error_def
        zero_credential_def zero_proof_def proof_check_def)
qed

lemma sample_vc_run: "vc_Run (sample_vc_step False) () sample_vc_ctx = (None, sample_vc_ctx, ())"
proof -
  let ?s = "sample_vc_step False"
  have s: "Enabled (VsCfg ?s)" "Actions (VsCfg ?s) = [''search'']" "MaxCredentials (VsCfg ?s) = 10" "VfLib (VsVerifier ?s) = sample_vc_lib"
    by (simp_all add: sample_vc_step_def sample_vc_config_def vc_DefaultConfig_def Let_def)
  have "extractCredentials plain_float (Body sample_vc_ctx) = [marshal_any (JObj (sample_vc sample_token))]"
    unfolding extractCredentials_def sample_root by (simp add: sample_vc_def isCredential_def jget_def)
  moreover have "VlFloat sample_vc_lib = plain_float" by (simp add: sample_vc_lib_def)
  ultimately show ?thesis
    by (simp add: vc_Run_def s sample_action IsActionEnabled_def sample_verified)
qed


theorem fail_open_accepts_forgery_witness:
  "fst (vc_verify (VsVerifier (sample_vc_step True)) () (marshal_any (JObj (sample_vc forged_token)))) = None"
proof (rule fail_open_accepts_forgery)
  show "unmarshal_credential (marshal_any (JObj (sample_vc forged_token))) = Some (sample_cred forged_token)"
    by (simp add: sample_decoded)
  have "forged_token \<noteq> []" by (simp add: forged_token_def)
  then show "JWT (zero_proof\<lparr>JWT := forged_token\<rparr>) \<noteq> []" by simp
  show "decodeJWTHeader (JWT (zero_proof\<lparr>JWT := forged_token\<rparr>)) = Inr \<lparr>JhAlg = ''none'', JhKid = ''dial'', JhTyp = []\<rparr>"
    by (simp add: sample_headers)
qed (simp_all add: sample_vc_step_def Let_def sample_cred_def issuerDID_def zero_credential_def)

theorem resolution_panics_exactly_witness:
  "\<not> calm (fst (resolveDID sample_vc_lib vc_DefaultConfig (\<lambda>w u. (Inl (ErrText ''offline''), w)) () ''did:key'' ''EdDSA''))"
proof -
  have "calm_lib sample_vc_lib" by (simp add: calm_lib_def sample_vc_lib_def)
  moreover have "IsMethodAllowed vc_DefaultConfig (didMethod ''did:key'')"
    by (simp add: IsMethodAllowed_def vc_DefaultConfig_def didMethod_def)
  ultimately show ?thesis
    using resolution_panics_exactly [of sample_vc_lib "\<lambda>w u. (Inl (ErrText ''offline''), w)" vc_DefaultConfig "()" "''did:key''" "''EdDSA''"]
    by simp
qed

theorem subject_not_covered_witness:
  "fst (vc_verify (VsVerifier (sample_vc_step False)) () (marshal_any (JObj
      (go_set (sample_vc sample_token) ''credentialSubject'' (JObj [(''limit'', JNum ''9'')]))))) = None"
proof -
  let ?c = "sample_vc sample_token" and ?x = "JObj [(''limit'', JNum ''9'')]"
  have "num_ok ''9''" by code_simp
  then have "json_nums (JObj (go_set ?c ''credentialSubject'' ?x))" "json_depth (JObj (go_set ?c ''credentialSubject'' ?x)) \<le> max_depth"
    "json_nums (JObj ?c)"
    by (simp_all add: sample_vc_def go_set_def max_depth_def)
  from subject_not_covered [OF this(3) sample_vc_depth this(1,2), where v = "VsVerifier (sample_vc_step False)" and w = "()"]
  show ?thesis by (simp add: sample_verified)
qed

end
