(* ===== verification/Opa_Config.thy ===== *)
theory Opa_Config
  imports Dedi_Registry
begin

text \<open>
  The settings of the OPA policy checker (\<open>opapolicychecker/enforcer.go\<close>): the plugin's own settings, the file of
  network policies and the entry of one policy. The YAML decoder and \<open>time.ParseDuration\<close> are arguments;
  a decoded mapping is a list of members in the order in which \<open>range\<close> visits the map.
\<close>

subsection \<open>Records\<close>

record OpaConfig =
  OpNetworkPolicyConfig :: string
  OpRefreshInterval :: int
  OpEnabled :: bool
  OpDebugLogging :: bool
  OpRuntimeConfig :: "string \<rightharpoonup> string"

record ArtifactVerificationConfig =
  AvEnabled :: bool
  AvPublicKeyLookupURL :: string
  AvSignatureLocation :: string
  AvAlgorithm :: string

record PolicyConfig =
  PcType :: string
  PcLocation :: string
  PcPolicyPaths :: "string list"
  PcQuery :: string
  PcEnabled :: bool
  PcFetchTimeout :: int
  PcIsBundle :: bool
  PcVerification :: "ArtifactVerificationConfig option"
  PcRuntimeConfig :: "string \<rightharpoonup> string"

definition policyTypeFile :: string where "policyTypeFile = ''file''"
definition policyTypeDir :: string where "policyTypeDir = ''dir''"
definition policyTypeBundle :: string where "policyTypeBundle = ''bundle''"
definition policyTypeManifest :: string where "policyTypeManifest = ''manifest''"

definition knownKeys :: "string list" where
  "knownKeys = [''networkPolicyConfig'', ''enabled'', ''debugLogging'', ''refreshInterval'']"

definition policyEntryKnownKeys :: "string list" where
  "policyEntryKnownKeys =
     [''type'', ''location'', ''query'', ''enabled'', ''fetchTimeoutSeconds'', ''verification.enabled'',
      ''verification.publicKeyLookupUrl'', ''verification.signatureLocation'', ''verification.algorithm'']"

definition defaultPolicyFetchTimeout :: int where "defaultPolicyFetchTimeout = 30 * second"
definition defaultBundleVerificationKeyID :: string where "defaultBundleVerificationKeyID = ''default''"
definition defaultBundleVerificationAlgorithm :: string where "defaultBundleVerificationAlgorithm = ''ES256''"

definition opa_DefaultConfig :: OpaConfig where
  "opa_DefaultConfig = \<lparr>OpNetworkPolicyConfig = [], OpRefreshInterval = 0, OpEnabled = True, OpDebugLogging = False,
     OpRuntimeConfig = Map.empty\<rparr>"

definition defaultPolicyConfig :: PolicyConfig where
  "defaultPolicyConfig = \<lparr>PcType = [], PcLocation = [], PcPolicyPaths = [], PcQuery = [], PcEnabled = True,
     PcFetchTimeout = defaultPolicyFetchTimeout, PcIsBundle = False, PcVerification = None, PcRuntimeConfig = Map.empty\<rparr>"

text \<open>A name between single quotes.\<close>

definition sq :: "string \<Rightarrow> string" where "sq s = CHR 0x27 # s @ [CHR 0x27]"

definition is_on :: "string \<Rightarrow> bool" where "is_on v \<longleftrightarrow> v = ''true'' \<or> v = ''1''"

definition other_settings :: "string list \<Rightarrow> (string \<rightharpoonup> string) \<Rightarrow> (string \<rightharpoonup> string)" where
  "other_settings known cfg = (\<lambda>k. if k \<in> set known then None else cfg k)"

subsection \<open>The plugin's settings\<close>

definition opa_ParseConfig :: "(string \<Rightarrow> int option) \<Rightarrow> (string \<rightharpoonup> string) \<Rightarrow> goerr + OpaConfig" where
  "opa_ParseConfig ParseDuration cfg =
     (let required = Inl (ErrText (sq ''networkPolicyConfig'' @ '' is required'')); d = opa_DefaultConfig in
      case cfg ''networkPolicyConfig'' of
        None \<Rightarrow> required
      | Some npc \<Rightarrow>
          if TrimSpace npc = [] then required
          else
            (let config = d\<lparr>OpNetworkPolicyConfig := npc,
                   OpEnabled := (case cfg ''enabled'' of None \<Rightarrow> OpEnabled d | Some v \<Rightarrow> is_on v),
                   OpDebugLogging := (case cfg ''debugLogging'' of None \<Rightarrow> OpDebugLogging d | Some v \<Rightarrow> is_on v),
                   OpRuntimeConfig := other_settings knownKeys cfg\<rparr>;
                 invalid = (\<lambda>v. Inl (ErrText (sq ''refreshInterval'' @ '' must be a valid non-negative duration, got '' @ go_quote v)))
             in case cfg ''refreshInterval'' of
                  None \<Rightarrow> Inr config
                | Some v \<Rightarrow>
                    if v = [] then Inr config
                    else
                      (case ParseDuration v of
                         None \<Rightarrow> invalid v
                       | Some dur \<Rightarrow> if dur < 0 then invalid v else Inr (config\<lparr>OpRefreshInterval := dur\<rparr>))))"

subsection \<open>The entry of a policy\<close>

definition setting :: "(string \<rightharpoonup> string) \<Rightarrow> string \<Rightarrow> string" where
  "setting cfg k = (case cfg k of None \<Rightarrow> [] | Some v \<Rightarrow> v)"

definition pc_source :: "(string \<rightharpoonup> string) \<Rightarrow> PolicyConfig \<Rightarrow> goerr + PolicyConfig" where
  "pc_source cfg c =
     (let typ = PcType c; location = setting cfg ''location'' in
      if typ \<in> {policyTypeFile, policyTypeDir, policyTypeBundle} then
        (if location = [] then Inl (ErrText (sq ''location'' @ '' is required''))
         else Inr (c\<lparr>PcLocation := location, PcIsBundle := (typ = policyTypeBundle), PcPolicyPaths := [location]\<rparr>))
      else if typ = policyTypeManifest then
        (if TrimSpace location \<noteq> [] then Inl (ErrText (sq ''location'' @ '' must not be set for type='' @ policyTypeManifest))
         else Inr c)
      else Inl (ErrText (''unsupported type '' @ go_quote typ @ '' (expected: file, dir, bundle, or manifest)'')))"

definition pc_query :: "(string \<rightharpoonup> string) \<Rightarrow> PolicyConfig \<Rightarrow> goerr + PolicyConfig" where
  "pc_query cfg c =
     (let query = setting cfg ''query'' in
      if PcType c \<noteq> policyTypeManifest then
        (if query = [] then Inl (ErrText (sq ''query'' @ '' is required (e.g., data.policy.violations)''))
         else Inr (c\<lparr>PcQuery := query\<rparr>))
      else if TrimSpace query \<noteq> [] then Inl (ErrText (sq ''query'' @ '' must not be set for type='' @ policyTypeManifest))
      else Inr c)"

definition pc_timeout :: "(string \<rightharpoonup> string) \<Rightarrow> PolicyConfig \<Rightarrow> goerr + PolicyConfig" where
  "pc_timeout cfg c =
     (let fts = setting cfg ''fetchTimeoutSeconds'';
          invalid = Inl (ErrText (sq ''fetchTimeoutSeconds'' @ '' must be a positive integer, got '' @ go_quote fts)) in
      if fts = [] then Inr c
      else
        (case Atoi fts of
           None \<Rightarrow> invalid
         | Some secs \<Rightarrow> if secs \<le> 0 then invalid else Inr (c\<lparr>PcFetchTimeout := wrap64 (secs * second)\<rparr>)))"

definition verification_of :: "(string \<rightharpoonup> string) \<Rightarrow> ArtifactVerificationConfig" where
  "verification_of cfg =
     (let alg = TrimSpace (setting cfg ''verification.algorithm'') in
      \<lparr>AvEnabled = True, AvPublicKeyLookupURL = TrimSpace (setting cfg ''verification.publicKeyLookupUrl''),
       AvSignatureLocation = TrimSpace (setting cfg ''verification.signatureLocation''),
       AvAlgorithm = (if alg = [] then defaultBundleVerificationAlgorithm else alg)\<rparr>)"

definition pc_verification :: "(string \<rightharpoonup> string) \<Rightarrow> PolicyConfig \<Rightarrow> goerr + PolicyConfig" where
  "pc_verification cfg c =
     (let ve = setting cfg ''verification.enabled''; v = verification_of cfg in
      if ve = [] then Inr c
      else if PcType c = policyTypeManifest then
        Inl (ErrText (''verification must not be configured for type='' @ policyTypeManifest @
          ''; manifest verification is handled by the manifest loader''))
      else
        (case ParseBool ve of
           None \<Rightarrow> Inl (ErrText (sq ''verification.enabled'' @ '' must be a boolean, got '' @ go_quote ve))
         | Some False \<Rightarrow> Inr c
         | Some True \<Rightarrow>
             if AvPublicKeyLookupURL v = [] then
               Inl (ErrText (sq ''verification.publicKeyLookupUrl'' @ '' is required when verification.enabled=true''))
             else if PcType c = policyTypeBundle \<and> AvSignatureLocation v \<noteq> [] then
               Inl (ErrText (sq ''verification.signatureLocation'' @ '' must not be set for type='' @ policyTypeBundle @
                 ''; bundle signatures are read from inside the bundle''))
             else if PcType c = policyTypeDir then
               Inl (ErrText (''verification is not supported for type='' @ policyTypeDir @ ''; package the directory as a signed bundle instead''))
             else if PcType c = policyTypeFile \<and> AvSignatureLocation v = [] then
               Inl (ErrText (sq ''verification.signatureLocation'' @ '' is required when verification.enabled=true for type='' @ PcType c))
             else Inr (c\<lparr>PcVerification := Some v\<rparr>)))"

definition bind_result :: "goerr + 'a \<Rightarrow> ('a \<Rightarrow> goerr + 'b) \<Rightarrow> goerr + 'b" where
  "bind_result r f = (case r of Inl e \<Rightarrow> Inl e | Inr x \<Rightarrow> f x)"

definition parsePolicyConfig :: "(string \<rightharpoonup> string) \<Rightarrow> goerr + PolicyConfig" where
  "parsePolicyConfig cfg =
     (let typ = setting cfg ''type''; c0 = defaultPolicyConfig\<lparr>PcType := typ\<rparr> in
      if typ = [] then Inl (ErrText (sq ''type'' @ '' is required (file, dir, bundle, or manifest)''))
      else
        bind_result (pc_source cfg c0) (\<lambda>c1.
        bind_result (pc_query cfg c1) (\<lambda>c2.
        bind_result (pc_timeout cfg (c2\<lparr>PcEnabled := (case cfg ''enabled'' of None \<Rightarrow> PcEnabled c2 | Some v \<Rightarrow> is_on v)\<rparr>)) (\<lambda>c3.
        bind_result (pc_verification cfg c3) (\<lambda>c4.
          Inr (c4\<lparr>PcRuntimeConfig := other_settings policyEntryKnownKeys cfg\<rparr>))))))"

subsection \<open>The file of network policies\<close>

datatype YamlValue =
    YStr string
  | YBool bool
  | YInt int
  | YFloat string
  | YNull
  | YMap "(string \<times> YamlValue) list"
  | YOther

text \<open>The text of a scalar; \<open>YFloat\<close> carries the text of \<open>strconv.FormatFloat\<close>.\<close>

definition scalar_text :: "YamlValue \<Rightarrow> string option" where
  "scalar_text v =
     (case v of
        YStr s \<Rightarrow> Some s
      | YBool b \<Rightarrow> Some (if b then ''true'' else ''false'')
      | YInt i \<Rightarrow> Some (int_dec i)
      | YFloat s \<Rightarrow> Some s
      | _ \<Rightarrow> None)"

definition field_error :: "string \<Rightarrow> string \<Rightarrow> YamlValue \<Rightarrow> goerr" where
  "field_error policyName k v =
     ErrText (''network policy '' @ go_quote policyName @ '' field '' @ go_quote k @
       (if v = YNull then '' cannot be null'' else '' must be a scalar value''))"

fun flatten_sub :: "string \<Rightarrow> (string \<times> YamlValue) list \<Rightarrow> (string \<rightharpoonup> string) \<Rightarrow> goerr + (string \<rightharpoonup> string)" where
  "flatten_sub policyName [] cfg = Inr cfg"
| "flatten_sub policyName ((k, v) # sub) cfg =
     (case scalar_text v of
        None \<Rightarrow> Inl (field_error policyName (''verification.'' @ k) v)
      | Some s \<Rightarrow> flatten_sub policyName sub (cfg(''verification.'' @ k \<mapsto> s)))"

fun flatten_policy :: "string \<Rightarrow> (string \<times> YamlValue) list \<Rightarrow> (string \<rightharpoonup> string) \<Rightarrow> goerr + (string \<rightharpoonup> string)" where
  "flatten_policy policyName [] cfg = Inr cfg"
| "flatten_policy policyName ((k, v) # rest) cfg =
     (case v of
        YMap sub \<Rightarrow>
          if k \<noteq> ''verification'' then Inl (field_error policyName k v)
          else bind_result (flatten_sub policyName sub cfg) (flatten_policy policyName rest)
      | _ \<Rightarrow>
          (case scalar_text v of
             None \<Rightarrow> Inl (field_error policyName k v)
           | Some s \<Rightarrow> flatten_policy policyName rest (cfg(k \<mapsto> s))))"

text \<open>The decoded file: its policies, \<^term>\<open>None\<close> for an entry without a value.\<close>

type_synonym policy_file = "(string \<times> (string \<times> YamlValue) list option) list"

fun flatten_policies :: "policy_file \<Rightarrow> goerr + (string \<times> (string \<rightharpoonup> string)) list" where
  "flatten_policies [] = Inr []"
| "flatten_policies ((name, raw) # rest) =
     (if TrimSpace name = [] then Inl (ErrText ''network policy key cannot be empty'')
      else
        (case raw of
           None \<Rightarrow> Inl (ErrText (''network policy '' @ go_quote name @ '' config cannot be empty''))
         | Some kvs \<Rightarrow>
             bind_result (flatten_policy name kvs Map.empty) (\<lambda>cfg.
             bind_result (flatten_policies rest) (\<lambda>ps. Inr ((name, cfg) # ps)))))"

definition loadNetworkPolicies ::
  "('w \<Rightarrow> string \<Rightarrow> (goerr + string) \<times> 'w) \<Rightarrow> (string \<Rightarrow> goerr + policy_file) \<Rightarrow> 'w \<Rightarrow> string \<Rightarrow>
     (goerr + (string \<times> (string \<rightharpoonup> string)) list) \<times> 'w" where
  "loadNetworkPolicies readFile yaml w configPath =
     (if configPath = [] then (Inl (ErrText ''networkPolicyConfig path is empty''), w)
      else
        (case readFile w configPath of
           (Inl e, w1) \<Rightarrow> (Inl (errorf_w (''error reading network policy config file at '' @ configPath @ '': '') e), w1)
         | (Inr data, w1) \<Rightarrow>
             ((case yaml data of
                Inl e \<Rightarrow> Inl (errorf_w ''error parsing network policy config YAML: '' e)
              | Inr file \<Rightarrow>
                  if file = [] then Inl (ErrText ''networkPolicies must contain at least one entry'') else flatten_policies file), w1)))"

definition mergeRuntimeConfig :: "(string \<rightharpoonup> string) \<Rightarrow> (string \<rightharpoonup> string) \<Rightarrow> (string \<rightharpoonup> string)" where
  "mergeRuntimeConfig base override = base ++ override"

end
