(* ===== verification/Opa_Evaluator.thy ===== *)
theory Opa_Evaluator
  imports Opa_Config
begin

text \<open>
  Loading and evaluation of policies (\<open>opapolicychecker/evaluator.go\<close>): modules from files, directories, URLs and
  bundles, their verification, and the reading of the engine's answer. The file system, HTTP, the check of
  detached signatures, the bundle reader and the engine are the fields of \<open>OpaEnv\<close>. A prepared query is a function
  of the world, because Rego can call out; its result set is a list of results, each with the values of its
  expressions.
\<close>

subsection \<open>The environment\<close>

type_synonym 'w PreparedQuery = "'w \<Rightarrow> json \<Rightarrow> (goerr + json list list) \<times> 'w"

datatype VerifyingKey = RsaKey string | EcdsaKey string | Ed25519Key string | ForeignKey string

type_synonym modules = "(string \<times> string) list"

record 'w OpaEnv =
  OeReadFile :: "'w \<Rightarrow> string \<Rightarrow> (goerr + string) \<times> 'w"
  OeIsDir :: "'w \<Rightarrow> string \<Rightarrow> bool \<times> 'w"
  OeReadDir :: "'w \<Rightarrow> string \<Rightarrow> (goerr + (string \<times> bool) list) \<times> 'w"
  OeParseURL :: "string \<Rightarrow> goerr + URL"
  OeGet :: "int \<Rightarrow> 'w \<Rightarrow> string \<Rightarrow> (goerr + HttpResponse) \<times> 'w"
  OeVerifyDetached :: "string \<Rightarrow> string \<Rightarrow> string \<Rightarrow> goerr option"
  OeParsePublicKey :: "string \<Rightarrow> goerr + VerifyingKey"
  OeMarshalPKIX :: "VerifyingKey \<Rightarrow> goerr + string"
  OePem :: "string \<Rightarrow> string"
  OeKeyConfig :: "string \<Rightarrow> string \<Rightarrow> goerr + string"
  OeReadBundle :: "string \<Rightarrow> (string \<times> string) option \<Rightarrow> goerr + modules \<times> (string \<times> json) list"
  OeCompile :: "modules \<Rightarrow> goerr option"
  OePrepare :: "modules \<Rightarrow> (string \<times> json) list \<Rightarrow> string \<Rightarrow> goerr + 'w PreparedQuery"
  OeYaml :: "string \<Rightarrow> goerr + policy_file"
  OeManifestYaml :: "string \<Rightarrow> goerr + NetworkManifest"
  OeClock :: "'w clock"
  OeTimes :: Rfc3339
  OeFloat :: Float64
  OeOrder :: "(string \<rightharpoonup> string) \<Rightarrow> (string \<times> json) list"

record 'w Evaluator =
  EvQuery :: "'w PreparedQuery"
  EvText :: string
  EvRuntimeConfig :: "string \<rightharpoonup> string"
  EvModuleNames :: "string list"
  EvFailOnUndefined :: bool

definition maxPolicySize :: nat where "maxPolicySize = 2 ^ 20"
definition maxBundleSize :: nat where "maxBundleSize = 10 * 2 ^ 20"

subsection \<open>Sources\<close>

definition isURL :: "string \<Rightarrow> bool" where
  "isURL s \<longleftrightarrow> HasPrefix s ''http://'' \<or> HasPrefix s ''https://''"

text \<open>\<open>path.Base\<close>.\<close>

definition path_Base :: "string \<Rightarrow> string" where
  "path_Base p =
     (if p = [] then ''.''
      else
        (let q = rev (dropWhile (\<lambda>c. c = CHR ''/'') (rev p)) in
         if q = [] then ''/'' else rev (takeWhile (\<lambda>c. c \<noteq> CHR ''/'') (rev q))))"

text \<open>A GET of an http(s) URL with a limit on the body; \<open>what\<close> names it in the error for a large one.\<close>

definition fetch_limited ::
  "'w OpaEnv \<Rightarrow> int \<Rightarrow> 'w \<Rightarrow> string \<Rightarrow> nat \<Rightarrow> string \<Rightarrow> (goerr + URL \<times> string) \<times> 'w" where
  "fetch_limited env fetchTimeout w rawURL maxSize what =
     (case OeParseURL env rawURL of
        Inl e \<Rightarrow> (Inl (errorf_w ''invalid URL: '' e), w)
      | Inr parsed \<Rightarrow>
          if UScheme parsed \<noteq> ''http'' \<and> UScheme parsed \<noteq> ''https'' then
            (Inl (ErrText (''unsupported URL scheme '' @ go_quote (UScheme parsed) @ '' (only http and https are supported)'')), w)
          else
            (case OeGet env fetchTimeout w rawURL of
               (Inl e, w1) \<Rightarrow> (Inl (errorf_w ''HTTP request failed: '' e), w1)
             | (Inr resp, w1) \<Rightarrow>
                 (if HrStatus resp \<noteq> 200 then
                    Inl (ErrText (''HTTP '' @ int_dec (HrStatus resp) @ '' from '' @ rawURL))
                  else
                    (case read_limited (maxSize + 1) resp of
                       Inl e \<Rightarrow> Inl (errorf_w ''failed to read response body: '' e)
                     | Inr body \<Rightarrow>
                         if length body > maxSize then
                           Inl (ErrText (what @ '' exceeds maximum size of '' @ nat_dec maxSize @ '' bytes''))
                         else Inr (parsed, body)), w1)))"

definition fetchRemoteArtifact :: "'w OpaEnv \<Rightarrow> int \<Rightarrow> 'w \<Rightarrow> string \<Rightarrow> nat \<Rightarrow> (goerr + string) \<times> 'w" where
  "fetchRemoteArtifact env fetchTimeout w rawURL maxSize =
     (case fetch_limited env fetchTimeout w rawURL maxSize ''artifact'' of
        (Inl e, w1) \<Rightarrow> (Inl e, w1)
      | (Inr (parsed, body), w1) \<Rightarrow> (Inr body, w1))"

definition rego_name :: "URL \<Rightarrow> string" where
  "rego_name parsed =
     (let base = path_Base (UPath parsed);
          name = (if base = [] \<or> base = ''.'' \<or> base = ''/'' then ''policy.rego'' else base)
      in if HasSuffix name ''.rego'' then name else name @ ''.rego'')"

definition fetchPolicy :: "'w OpaEnv \<Rightarrow> int \<Rightarrow> 'w \<Rightarrow> string \<Rightarrow> (goerr + string \<times> string) \<times> 'w" where
  "fetchPolicy env fetchTimeout w rawURL =
     (case fetch_limited env fetchTimeout w rawURL maxPolicySize ''policy file'' of
        (Inl e, w1) \<Rightarrow> (Inl e, w1)
      | (Inr (parsed, body), w1) \<Rightarrow> (Inr (rego_name parsed, body), w1))"

definition readArtifact :: "'w OpaEnv \<Rightarrow> int \<Rightarrow> 'w \<Rightarrow> string \<Rightarrow> nat \<Rightarrow> (goerr + string) \<times> 'w" where
  "readArtifact env fetchTimeout w source maxSize =
     (if isURL source then fetchRemoteArtifact env fetchTimeout w source maxSize
      else
        (case OeReadFile env w source of
           (Inl e, w1) \<Rightarrow> (Inl e, w1)
         | (Inr data, w1) \<Rightarrow>
             (if length data > maxSize then
                Inl (ErrText (''artifact exceeds maximum size of '' @ nat_dec maxSize @ '' bytes''))
              else Inr data, w1)))"

definition loadSinglePolicy :: "'w OpaEnv \<Rightarrow> int \<Rightarrow> 'w \<Rightarrow> string \<Rightarrow> (goerr + string \<times> string) \<times> 'w" where
  "loadSinglePolicy env fetchTimeout w source =
     (if isURL source then fetchPolicy env fetchTimeout w source
      else
        (case OeReadFile env w source of
           (Inl e, w1) \<Rightarrow> (Inl (errorf_w (''failed to read policy file '' @ source @ '': '') e), w1)
         | (Inr data, w1) \<Rightarrow>
             (if length data > maxPolicySize then
                Inl (ErrText (''policy file exceeds maximum size of '' @ nat_dec maxPolicySize @ '' bytes''))
              else Inr (path_Base source, data), w1)))"

subsection \<open>Preparation\<close>

text \<open>The store is the data of the bundle with the settings under \<open>config\<close>.\<close>

definition compileAndPrepare ::
  "'w OpaEnv \<Rightarrow> modules \<Rightarrow> (string \<times> json) list \<Rightarrow> string \<Rightarrow> (string \<rightharpoonup> string) \<Rightarrow> bool \<Rightarrow> goerr + 'w Evaluator" where
  "compileAndPrepare env ms bundleData query runtimeConfig failOnUndefined =
     (case OeCompile env ms of
        Some e \<Rightarrow> Inl (errorf_w ''failed to compile rego modules: '' e)
      | None \<Rightarrow>
          (case OePrepare env ms (go_set bundleData ''config'' (JObj (OeOrder env runtimeConfig))) query of
             Inl e \<Rightarrow> Inl (errorf_w (''failed to prepare rego query '' @ go_quote query @ '': '') e)
           | Inr pq \<Rightarrow> Inr \<lparr>EvQuery = pq, EvText = query, EvRuntimeConfig = runtimeConfig, EvModuleNames = map fst ms,
                EvFailOnUndefined = failOnUndefined\<rparr>))"

definition publicKeyToPEM :: "'w OpaEnv \<Rightarrow> VerifyingKey \<Rightarrow> goerr + string" where
  "publicKeyToPEM env key =
     (case key of
        ForeignKey t \<Rightarrow> Inl (ErrText (''unsupported public key type '' @ t))
      | _ \<Rightarrow> (case OeMarshalPKIX env key of Inl e \<Rightarrow> Inl e | Inr der \<Rightarrow> Inr (OePem env der)))"

definition wrap_err :: "string \<Rightarrow> goerr + 'a \<Rightarrow> goerr + 'a" where
  "wrap_err p r = (case r of Inl e \<Rightarrow> Inl (errorf_w p e) | Inr x \<Rightarrow> Inr x)"

text \<open>The key that a bundle is verified with, from the text of a key response.\<close>

definition bundle_key :: "'w OpaEnv \<Rightarrow> ArtifactVerificationConfig \<Rightarrow> string \<Rightarrow> goerr + string" where
  "bundle_key env v publicKeyBody =
     bind_result (wrap_err (''failed to parse bundle verification public key from '' @ AvPublicKeyLookupURL v @ '': '')
       (OeParsePublicKey env publicKeyBody)) (\<lambda>key.
     bind_result (wrap_err ''failed to encode bundle verification key: '' (publicKeyToPEM env key)) (\<lambda>pemKey.
     wrap_err ''failed to parse bundle verification key: ''
       (OeKeyConfig env pemKey (if AvAlgorithm v = [] then defaultBundleVerificationAlgorithm else AvAlgorithm v))))"

definition wants_verification :: "ArtifactVerificationConfig option \<Rightarrow> bool" where
  "wants_verification v = (case v of None \<Rightarrow> False | Some c \<Rightarrow> AvEnabled c)"

definition parseBundleArchive ::
  "'w OpaEnv \<Rightarrow> int \<Rightarrow> 'w \<Rightarrow> string \<Rightarrow> ArtifactVerificationConfig option \<Rightarrow> (goerr + modules \<times> (string \<times> json) list) \<times> 'w" where
  "parseBundleArchive env fetchTimeout w data verification =
     (let read = (\<lambda>key. wrap_err ''failed to read bundle: '' (OeReadBundle env data key)) in
      if \<not> wants_verification verification then (read None, w)
      else
        (let v = the verification in
         case readArtifact env fetchTimeout w (AvPublicKeyLookupURL v) maxPolicySize of
           (Inl e, w1) \<Rightarrow> (Inl (errorf_w (''failed to load bundle verification public key from '' @ AvPublicKeyLookupURL v @ '': '') e), w1)
         | (Inr publicKeyBody, w1) \<Rightarrow>
             (bind_result (bundle_key env v publicKeyBody) (\<lambda>keyConfig. read (Some (defaultBundleVerificationKeyID, keyConfig))), w1)))"

definition loadBundle ::
  "'w OpaEnv \<Rightarrow> int \<Rightarrow> 'w \<Rightarrow> string \<Rightarrow> ArtifactVerificationConfig option \<Rightarrow> (goerr + modules \<times> (string \<times> json) list) \<times> 'w" where
  "loadBundle env fetchTimeout w bundleSource verification =
     (case readArtifact env fetchTimeout w bundleSource maxBundleSize of
        (Inl e, w1) \<Rightarrow> (Inl e, w1)
      | (Inr data, w1) \<Rightarrow> parseBundleArchive env fetchTimeout w1 data verification)"

text \<open>The modules of a bundle are keyed by their path, so that a path that occurs twice keeps the later text.\<close>

definition module_map :: "modules \<Rightarrow> modules" where
  "module_map ms = foldl (\<lambda>acc p. go_set acc (fst p) (snd p)) [] ms"

definition newBundleEvaluator ::
  "'w OpaEnv \<Rightarrow> 'w \<Rightarrow> string list \<Rightarrow> string \<Rightarrow> (string \<rightharpoonup> string) \<Rightarrow> int \<Rightarrow> ArtifactVerificationConfig option \<Rightarrow>
     (goerr + 'w Evaluator) \<times> 'w" where
  "newBundleEvaluator env w policyPaths query runtimeConfig fetchTimeout verification =
     (case policyPaths of
        [] \<Rightarrow> (Inl (ErrText ''bundle source is required''), w)
      | bundleSource # _ \<Rightarrow>
          (case loadBundle env fetchTimeout w bundleSource verification of
             (Inl e, w1) \<Rightarrow> (Inl (errorf_w (''failed to load bundle from '' @ bundleSource @ '': '') e), w1)
           | (Inr (ms, bundleData), w1) \<Rightarrow>
               (if module_map ms = [] then
                  Inl (ErrText (''no .rego policy modules found in bundle from '' @ bundleSource))
                else compileAndPrepare env (module_map ms) bundleData query runtimeConfig True, w1)))"

definition rego_entry :: "string \<times> bool \<Rightarrow> bool" where
  "rego_entry e \<longleftrightarrow> \<not> snd e \<and> HasSuffix (fst e) ''.rego'' \<and> \<not> HasSuffix (fst e) ''_test.rego''"

fun load_dir :: "'w OpaEnv \<Rightarrow> 'w \<Rightarrow> string \<Rightarrow> (string \<times> bool) list \<Rightarrow> modules \<Rightarrow> (goerr + modules) \<times> 'w" where
  "load_dir env w source [] ms = (Inr ms, w)"
| "load_dir env w source (entry # entries) ms =
     (if \<not> rego_entry entry then load_dir env w source entries ms
      else
        (let fpath = path_Join source (fst entry) in
         case OeReadFile env w fpath of
           (Inl e, w1) \<Rightarrow> (Inl (errorf_w (''failed to read policy file '' @ fpath @ '': '') e), w1)
         | (Inr data, w1) \<Rightarrow> load_dir env w1 source entries (go_set ms (fst entry) data)))"

definition load_source :: "'w OpaEnv \<Rightarrow> int \<Rightarrow> 'w \<Rightarrow> string \<Rightarrow> modules \<Rightarrow> (goerr + modules) \<times> 'w" where
  "load_source env fetchTimeout w source ms =
     (if isURL source then
        (case fetchPolicy env fetchTimeout w source of
           (Inl e, w1) \<Rightarrow> (Inl (errorf_w (''failed to fetch policy from '' @ source @ '': '') e), w1)
         | (Inr (name, content), w1) \<Rightarrow> (Inr (go_set ms name content), w1))
      else
        (let (dir, w1) = OeIsDir env w source in
         if dir then
           (case OeReadDir env w1 source of
              (Inl e, w2) \<Rightarrow> (Inl (errorf_w (''failed to read policy directory '' @ source @ '': '') e), w2)
            | (Inr entries, w2) \<Rightarrow> load_dir env w2 source entries ms)
         else
           (case OeReadFile env w1 source of
              (Inl e, w2) \<Rightarrow> (Inl (errorf_w (''failed to read policy file '' @ source @ '': '') e), w2)
            | (Inr data, w2) \<Rightarrow> (Inr (go_set ms (path_Base source) data), w2))))"

fun load_sources :: "'w OpaEnv \<Rightarrow> int \<Rightarrow> 'w \<Rightarrow> string list \<Rightarrow> modules \<Rightarrow> (goerr + modules) \<times> 'w" where
  "load_sources env fetchTimeout w [] ms = (Inr ms, w)"
| "load_sources env fetchTimeout w (source # sources) ms =
     (case load_source env fetchTimeout w source ms of
        (Inl e, w1) \<Rightarrow> (Inl e, w1)
      | (Inr ms1, w1) \<Rightarrow> load_sources env fetchTimeout w1 sources ms1)"

text \<open>A policy file with a detached signature.\<close>

definition load_signed ::
  "'w OpaEnv \<Rightarrow> int \<Rightarrow> 'w \<Rightarrow> string \<Rightarrow> ArtifactVerificationConfig \<Rightarrow> (goerr + modules) \<times> 'w" where
  "load_signed env fetchTimeout w source v =
     (case loadSinglePolicy env fetchTimeout w source of
        (Inl e, w1) \<Rightarrow> (Inl (errorf_w (''failed to load policy from '' @ source @ '': '') e), w1)
      | (Inr (name, policyBytes), w1) \<Rightarrow>
          (case readArtifact env fetchTimeout w1 (AvSignatureLocation v) maxPolicySize of
             (Inl e, w2) \<Rightarrow> (Inl (errorf_w (''failed to load detached signature from '' @ AvSignatureLocation v @ '': '') e), w2)
           | (Inr signatureBytes, w2) \<Rightarrow>
               (case readArtifact env fetchTimeout w2 (AvPublicKeyLookupURL v) maxPolicySize of
                  (Inl e, w3) \<Rightarrow> (Inl (errorf_w (''failed to load verification public key from '' @ AvPublicKeyLookupURL v @ '': '') e), w3)
                | (Inr publicKeyBody, w3) \<Rightarrow>
                    ((case OeVerifyDetached env policyBytes signatureBytes publicKeyBody of
                       Some e \<Rightarrow> Inl (errorf_w ''policy signature verification failed: '' e)
                     | None \<Rightarrow> Inr [(name, policyBytes)]), w3))))"

definition newRegoEvaluator ::
  "'w OpaEnv \<Rightarrow> 'w \<Rightarrow> string list \<Rightarrow> string \<Rightarrow> (string \<rightharpoonup> string) \<Rightarrow> int \<Rightarrow> ArtifactVerificationConfig option \<Rightarrow>
     (goerr + 'w Evaluator) \<times> 'w" where
  "newRegoEvaluator env w policyPaths query runtimeConfig fetchTimeout verification =
     (if wants_verification verification then
        (if length policyPaths \<noteq> 1 then (Inl (ErrText ''artifact verification requires exactly one policy source''), w)
         else
           (let (r, w1) = load_signed env fetchTimeout w (policyPaths ! 0) (the verification) in
            (bind_result r (\<lambda>ms. compileAndPrepare env ms [] query runtimeConfig True), w1)))
      else
        (let (r, w1) = load_sources env fetchTimeout w policyPaths [] in
         (bind_result r (\<lambda>ms. if ms = [] then Inl (ErrText ''no .rego policy files found from any configured source'')
            else compileAndPrepare env ms [] query runtimeConfig True), w1)))"

definition NewEvaluator ::
  "'w OpaEnv \<Rightarrow> 'w \<Rightarrow> string list \<Rightarrow> string \<Rightarrow> (string \<rightharpoonup> string) \<Rightarrow> bool \<Rightarrow> int \<Rightarrow> ArtifactVerificationConfig option \<Rightarrow>
     (goerr + 'w Evaluator) \<times> 'w" where
  "NewEvaluator env w policyPaths query runtimeConfig isBundle fetchTimeout verification =
     (let t = (if fetchTimeout \<le> 0 then defaultPolicyFetchTimeout else fetchTimeout) in
      if isBundle then newBundleEvaluator env w policyPaths query runtimeConfig t verification
      else newRegoEvaluator env w policyPaths query runtimeConfig t verification)"

subsection \<open>Evaluation\<close>

definition genericDenialMessage :: string where "genericDenialMessage = ''policy denied the request''"

definition violation :: "string \<Rightarrow> string \<Rightarrow> Error" where
  "violation code msg = Error code msg None None"

definition parseViolationItem :: "json \<Rightarrow> Error option" where
  "parseViolationItem item =
     (case item of
        JStr s \<Rightarrow> if s = [] then None else Some (violation [] s)
      | JObj m \<Rightarrow>
          (let message = jstring m ''message''; code = jstring m ''code'' in
           if message = [] \<and> code = [] then None else Some (violation code (if message = [] then code else message)))
      | _ \<Rightarrow> None)"

text \<open>\<^term>\<open>None\<close> for Go's nil slice.\<close>

definition extractStructuredViolations :: "(string \<times> json) list \<Rightarrow> Error list option" where
  "extractStructuredViolations m =
     (if jget m ''valid'' = None \<and> jget m ''violations'' = None then None
      else
        (case (jget m ''valid'', jget m ''violations'') of
           (Some (JBool valid), Some (JArr items)) \<Rightarrow>
             if valid \<and> items = [] then Some []
             else
               (let vs = List.map_filter parseViolationItem items in
                if \<not> valid \<and> vs = [] then Some [violation [] genericDenialMessage]
                else if vs = [] then None else Some vs)
         | _ \<Rightarrow> Some [violation [] genericDenialMessage]))"

definition expression_violations :: "json \<Rightarrow> Error list" where
  "expression_violations v =
     (case v of
        JBool b \<Rightarrow> if b then [] else [violation [] genericDenialMessage]
      | JStr s \<Rightarrow> (case parseViolationItem (JStr s) of None \<Rightarrow> [] | Some e \<Rightarrow> [e])
      | JArr items \<Rightarrow>
          (let vs = List.map_filter parseViolationItem items in
           if items \<noteq> [] \<and> vs = [] then [violation [] genericDenialMessage] else vs)
      | JObj m \<Rightarrow> (case extractStructuredViolations m of None \<Rightarrow> [] | Some vs \<Rightarrow> vs)
      | _ \<Rightarrow> [violation [] genericDenialMessage])"

definition extractViolations :: "json list list \<Rightarrow> Error list" where
  "extractViolations rs = concat (map (\<lambda>result. concat (map expression_violations result)) rs)"

definition Evaluate :: "Float64 \<Rightarrow> 'w Evaluator \<Rightarrow> 'w \<Rightarrow> string \<Rightarrow> (goerr + Error list) \<times> 'w" where
  "Evaluate F ev w body =
     (case unmarshal_any F body of
        None \<Rightarrow> (Inl (errorf_w ''failed to parse message body as JSON: '' (ErrText ''json.Unmarshal'')), w)
      | Some input \<Rightarrow>
          (case EvQuery ev w input of
             (Inl e, w1) \<Rightarrow> (Inl (errorf_w ''rego evaluation failed: '' e), w1)
           | (Inr rs, w1) \<Rightarrow>
               (Inr (if EvFailOnUndefined ev \<and> rs = [] then
                       [violation [] (''policy query '' @ go_quote (EvText ev) @ '' returned no result (undefined)'')]
                     else extractViolations rs), w1)))"

end
