(* ===== verification/Opa_Enforcer.thy ===== *)
theory Opa_Enforcer
  imports Opa_Evaluator Handler
begin

text \<open>
  The policy enforcer (\<open>opapolicychecker/enforcer.go\<close>): policies that a network's manifest defines, loading,
  construction, the refresh loop and the step \<open>CheckPolicy\<close>. Log lines are left out. The enforcer's lock makes the
  two fields that a reload writes change together, so that a reload is one step.
\<close>

subsection \<open>Records\<close>

record 'w LoadedPolicy =
  LpName :: string
  LpConfig :: PolicyConfig
  LpEvaluator :: "'w Evaluator option"
  LpSourceType :: string
  LpDeclaredSigned :: "bool option"
  LpVerified :: bool

record ResolvedManifestPolicy =
  RmConfig :: PolicyConfig
  RmDeclaredSigned :: "bool option"
  RmVerified :: bool

record 'w PolicyEnforcer =
  PeConfig :: OpaConfig
  PeLoader :: "'w ManifestLoaderMethods option"
  PePolicies :: "string \<rightharpoonup> 'w LoadedPolicy"
  PeDefault :: "'w LoadedPolicy option"

definition opa_nil_panic :: goerr where
  "opa_nil_panic = GoPanic ''runtime error: invalid memory address or nil pointer dereference''"

subsection \<open>Policies from manifests\<close>

text \<open>The settings of a policy with the source, query and verification that the manifest gives.\<close>

definition manifest_config :: "string \<Rightarrow> PolicyConfig \<Rightarrow> NetworkManifestPolicies \<Rightarrow> goerr + PolicyConfig" where
  "manifest_config policyName base p =
     (let cleared = base\<lparr>PcRuntimeConfig := mergeRuntimeConfig Map.empty (PcRuntimeConfig base), PcType := PoSource p,
            PcIsBundle := (PoSource p = PolicySourceBundle), PcPolicyPaths := [], PcLocation := [], PcQuery := [],
            PcVerification := None\<rparr> in
      if PoSource p = PolicySourceBundle then
        (case PoBundle p of
           None \<Rightarrow> Inl opa_nil_panic
         | Some b \<Rightarrow> Inr (cleared\<lparr>PcLocation := BnURL b, PcPolicyPaths := [BnURL b], PcQuery := BnPolicyQueryPath b,
             PcVerification := (if BnSigned b then
                 Some \<lparr>AvEnabled = True, AvPublicKeyLookupURL = BnSigningPublicKeyLookupURL b, AvSignatureLocation = [],
                   AvAlgorithm = defaultBundleVerificationAlgorithm\<rparr>
               else None)\<rparr>))
      else if PoSource p = PolicySourceFile then
        (case PoFile p of
           None \<Rightarrow> Inl opa_nil_panic
         | Some f \<Rightarrow> Inr (cleared\<lparr>PcLocation := FlURL f, PcPolicyPaths := [FlURL f], PcQuery := FlPolicyQueryPath f,
             PcVerification := (if FlSigned f then
                 Some \<lparr>AvEnabled = True, AvPublicKeyLookupURL = FlSigningPublicKeyLookupURL f,
                   AvSignatureLocation = FlSignatureURL f, AvAlgorithm = []\<rparr>
               else None)\<rparr>))
      else Inl (ErrText (''manifest for network '' @ go_quote policyName @ '' uses unsupported policies.source '' @ go_quote (PoSource p))))"

definition resolve_document ::
  "'w OpaEnv \<Rightarrow> 'w \<Rightarrow> string \<Rightarrow> PolicyConfig \<Rightarrow> ManifestDocument \<Rightarrow> (goerr + ResolvedManifestPolicy) \<times> 'w" where
  "resolve_document env w policyName base doc =
     (case OeManifestYaml env (MdContent doc) of
        Inl e \<Rightarrow> (Inl (errorf_w (''failed to parse manifest YAML for network '' @ go_quote policyName @ '': '') e), w)
      | Inr m \<Rightarrow>
          (let (now, w1) = OeClock env w in
           (case NetworkManifest_Validate (OeTimes env) (Some m) policyName now of
              Some e \<Rightarrow> Inl e
            | None \<Rightarrow>
                (case NwPolicies m of
                   None \<Rightarrow> Inl opa_nil_panic
                 | Some p \<Rightarrow> bind_result (manifest_config policyName base p) (\<lambda>c.
                     Inr \<lparr>RmConfig = c, RmDeclaredSigned = GvSigned (NwGovernance m), RmVerified = MdVerified doc\<rparr>)), w1)))"

definition resolveManifestPolicyConfig ::
  "'w OpaEnv \<Rightarrow> 'w \<Rightarrow> string \<Rightarrow> PolicyConfig \<Rightarrow> 'w ManifestLoaderMethods option \<Rightarrow> (goerr + ResolvedManifestPolicy) \<times> 'w" where
  "resolveManifestPolicyConfig env w policyName baseConfig manifestLoader =
     (if policyName = ''default'' then (Inl (ErrText (''default policy cannot use type='' @ policyTypeManifest)), w)
      else
        (case manifestLoader of
           None \<Rightarrow> (Inl (ErrText (''type='' @ policyTypeManifest @ '' requires ManifestLoader plugin to be configured'')), w)
         | Some ld \<Rightarrow>
             (case GetByNetworkID ld w policyName of
                (Inl e, w1) \<Rightarrow> (Inl (errorf_w (''failed to load manifest for network '' @ go_quote policyName @ '': '') e), w1)
              | (Inr None, w1) \<Rightarrow> (Inl opa_nil_panic, w1)
              | (Inr (Some doc), w1) \<Rightarrow> resolve_document env w1 policyName baseConfig doc)))"

subsection \<open>Loading\<close>

definition prepare_policy :: "'w OpaEnv \<Rightarrow> 'w \<Rightarrow> 'w LoadedPolicy \<Rightarrow> (goerr + 'w LoadedPolicy) \<times> 'w" where
  "prepare_policy env w p =
     (let c = LpConfig p in
      case NewEvaluator env w (PcPolicyPaths c) (PcQuery c) (PcRuntimeConfig c) (PcIsBundle c) (PcFetchTimeout c) (PcVerification c) of
        (Inl e, w1) \<Rightarrow> (Inl e, w1)
      | (Inr ev, w1) \<Rightarrow> (Inr (p\<lparr>LpEvaluator := Some ev\<rparr>), w1))"

definition loadPolicy ::
  "'w OpaEnv \<Rightarrow> 'w \<Rightarrow> 'w ManifestLoaderMethods option \<Rightarrow> string \<Rightarrow> PolicyConfig \<Rightarrow> (string \<rightharpoonup> string) \<Rightarrow> (goerr + 'w LoadedPolicy) \<times> 'w" where
  "loadPolicy env w manifestLoader policyName config shared =
     (let c = config\<lparr>PcRuntimeConfig := mergeRuntimeConfig shared (PcRuntimeConfig config)\<rparr>;
          loaded = \<lparr>LpName = policyName, LpConfig = c, LpEvaluator = None, LpSourceType = PcType config,
            LpDeclaredSigned = None, LpVerified = False\<rparr> in
      if \<not> PcEnabled c then (Inr loaded, w)
      else if PcType c = policyTypeManifest then
        (case resolveManifestPolicyConfig env w policyName c manifestLoader of
           (Inl e, w1) \<Rightarrow> (Inl e, w1)
         | (Inr r, w1) \<Rightarrow>
             prepare_policy env w1 (loaded\<lparr>
               LpConfig := (RmConfig r)\<lparr>PcRuntimeConfig := mergeRuntimeConfig shared (PcRuntimeConfig (RmConfig r))\<rparr>,
               LpDeclaredSigned := RmDeclaredSigned r, LpVerified := RmVerified r\<rparr>))
      else prepare_policy env w loaded)"

text \<open>The loop over the entries of the file; an entry named \<open>default\<close> is the default policy.\<close>

fun load_entries ::
  "'w OpaEnv \<Rightarrow> 'w \<Rightarrow> 'w ManifestLoaderMethods option \<Rightarrow> (string \<rightharpoonup> string) \<Rightarrow> (string \<times> (string \<rightharpoonup> string)) list \<Rightarrow>
     (string \<rightharpoonup> 'w LoadedPolicy) \<Rightarrow> 'w LoadedPolicy option \<Rightarrow>
     (goerr + (string \<rightharpoonup> 'w LoadedPolicy) \<times> 'w LoadedPolicy option) \<times> 'w" where
  "load_entries env w ld shared [] policies dflt = (Inr (policies, dflt), w)"
| "load_entries env w ld shared ((name, raw) # rest) policies dflt =
     (case parsePolicyConfig raw of
        Inl e \<Rightarrow> (Inl (errorf_w (''invalid network policy '' @ go_quote name @ '': '') e), w)
      | Inr cfg \<Rightarrow>
          (case loadPolicy env w ld name cfg shared of
             (Inl e, w1) \<Rightarrow> (Inl (errorf_w (''failed to initialize network policy '' @ go_quote name @ '': '') e), w1)
           | (Inr p, w1) \<Rightarrow>
               if name = ''default'' then load_entries env w1 ld shared rest policies (Some p)
               else load_entries env w1 ld shared rest (policies(name \<mapsto> p)) dflt))"

definition loadNetworkPoliciesForEnforcer ::
  "'w OpaEnv \<Rightarrow> 'w \<Rightarrow> 'w ManifestLoaderMethods option \<Rightarrow> OpaConfig \<Rightarrow>
     (goerr + (string \<rightharpoonup> 'w LoadedPolicy) \<times> 'w LoadedPolicy option) \<times> 'w" where
  "loadNetworkPoliciesForEnforcer env w manifestLoader config =
     (case loadNetworkPolicies (OeReadFile env) (OeYaml env) w (OpNetworkPolicyConfig config) of
        (Inl e, w1) \<Rightarrow> (Inl e, w1)
      | (Inr raws, w1) \<Rightarrow> load_entries env w1 manifestLoader (OpRuntimeConfig config) raws Map.empty None)"

subsection \<open>Construction and refresh\<close>

definition NewWithManifestLoader ::
  "'w OpaEnv \<Rightarrow> (string \<Rightarrow> int option) \<Rightarrow> 'w \<Rightarrow> 'w ManifestLoaderMethods option \<Rightarrow> (string \<rightharpoonup> string) \<Rightarrow>
     (goerr + 'w PolicyEnforcer) \<times> 'w" where
  "NewWithManifestLoader env ParseDuration w manifestLoader cfg =
     (case opa_ParseConfig ParseDuration cfg of
        Inl e \<Rightarrow> (Inl (errorf_w ''opapolicychecker: config error: '' e), w)
      | Inr config \<Rightarrow>
          (let enforcer = \<lparr>PeConfig = config, PeLoader = manifestLoader, PePolicies = Map.empty, PeDefault = None\<rparr> in
           if \<not> OpEnabled config then (Inr enforcer, w)
           else
             (case loadNetworkPoliciesForEnforcer env w manifestLoader config of
                (Inl e, w1) \<Rightarrow> (Inl (errorf_w ''opapolicychecker: failed to initialize network policies: '' e), w1)
              | (Inr (policies, dflt), w1) \<Rightarrow> (Inr (enforcer\<lparr>PePolicies := policies, PeDefault := dflt\<rparr>), w1))))"

definition opa_New :: "'w OpaEnv \<Rightarrow> (string \<Rightarrow> int option) \<Rightarrow> 'w \<Rightarrow> (string \<rightharpoonup> string) \<Rightarrow> (goerr + 'w PolicyEnforcer) \<times> 'w" where
  "opa_New env ParseDuration w cfg = NewWithManifestLoader env ParseDuration w None cfg"

text \<open>A reload that fails keeps the policies; a panic in it ends the process and is the first component.\<close>

definition reloadNetworkPolicies :: "'w OpaEnv \<Rightarrow> 'w PolicyEnforcer \<Rightarrow> 'w \<Rightarrow> goerr option \<times> 'w PolicyEnforcer \<times> 'w" where
  "reloadNetworkPolicies env e w =
     (case loadNetworkPoliciesForEnforcer env w (PeLoader e) (PeConfig e) of
        (Inl err, w1) \<Rightarrow> (if is_panic err then Some err else None, e, w1)
      | (Inr (policies, dflt), w1) \<Rightarrow> (None, e\<lparr>PePolicies := policies, PeDefault := dflt\<rparr>, w1))"

definition reloadPolicies :: "'w OpaEnv \<Rightarrow> 'w PolicyEnforcer \<Rightarrow> 'w \<Rightarrow> goerr option \<times> 'w PolicyEnforcer \<times> 'w" where
  "reloadPolicies env e w = reloadNetworkPolicies env e w"

subsection \<open>The step\<close>

definition selectedPolicy :: "'w PolicyEnforcer \<Rightarrow> string \<Rightarrow> 'w LoadedPolicy option" where
  "selectedPolicy e networkID =
     (case (if networkID \<noteq> [] then PePolicies e networkID else None) of
        Some p \<Rightarrow> Some p
      | None \<Rightarrow> PeDefault e)"

definition violationMessages :: "Error list \<Rightarrow> string list" where
  "violationMessages vs = map ErrMessage vs"

record ParsedRequestContext =
  PrNetworkID :: string
  PrBAPID :: string
  PrBPPID :: string
  PrMessageID :: string
  PrTransactionID :: string
  PrAction :: string
  PrTimestamp :: string

definition empty_request_context :: ParsedRequestContext where
  "empty_request_context = \<lparr>PrNetworkID = [], PrBAPID = [], PrBPPID = [], PrMessageID = [], PrTransactionID = [],
     PrAction = [], PrTimestamp = []\<rparr>"

definition parseRequestContext :: "Float64 \<Rightarrow> string \<Rightarrow> ParsedRequestContext" where
  "parseRequestContext F body =
     (case context_map_field body of
        Some (Some c) \<Rightarrow>
          if \<not> context_numbers_ok F body then empty_request_context
          else
            \<lparr>PrNetworkID = first_string c [''network_id'', ''networkId''],
             PrBAPID = first_string c [''bap_id'', ''bapId'', ''senderId''],
             PrBPPID = first_string c [''bpp_id'', ''bppId'', ''receiverId''],
             PrMessageID = first_string c [''message_id'', ''messageId''],
             PrTransactionID = first_string c [''transaction_id'', ''transactionId''],
             PrAction = first_string c [''action'', ''action''],
             PrTimestamp = first_string c [''timestamp'', ''timestamp'']\<rparr>
      | _ \<Rightarrow> empty_request_context)"

text \<open>The error for the violations that a policy reported.\<close>

definition violation_error :: "Error list \<Rightarrow> goerr" where
  "violation_error vs =
     NewBadReqErr (FirstNonEmptyCode vs ''POL_GENERIC_ERROR'') (ErrText (''policy violation(s): '' @ Join (violationMessages vs) ''; ''))"

definition CheckPolicy :: "'w OpaEnv \<Rightarrow> 'w PolicyEnforcer \<Rightarrow> 'w Step" where
  "CheckPolicy env e w ctx =
     (if \<not> OpEnabled (PeConfig e) then (None, ctx, w)
      else
        (case selectedPolicy e (PrNetworkID (parseRequestContext (OeFloat env) (Body ctx))) of
           None \<Rightarrow> (None, ctx, w)
         | Some p \<Rightarrow>
             if \<not> PcEnabled (LpConfig p) then (None, ctx, w)
             else
               (case LpEvaluator p of
                  None \<Rightarrow> (Some (NewBadReqErr ''POL_GENERIC_ERROR'' (ErrText ''policy evaluator is not initialized'')), ctx, w)
                | Some ev \<Rightarrow>
                    (case Evaluate (OeFloat env) ev w (Body ctx) of
                       (Inl err, w1) \<Rightarrow>
                         (Some (if is_panic err then err
                                else NewBadReqErr ''POL_GENERIC_ERROR'' (errorf_w ''policy evaluation error: '' err)), ctx, w1)
                     | (Inr vs, w1) \<Rightarrow> (if vs = [] then None else Some (violation_error vs), ctx, w1)))))"

subsection \<open>The running plugin\<close>

text \<open>
  The enforcer with its refresh loop: \<open>LsDone\<close> is the channel that \<open>Close\<close> closes once, \<open>LsCancelled\<close> the end of the
  context, \<open>LsRunning\<close> whether the loop's goroutine is alive.
\<close>

record 'w LoopState =
  LsEnforcer :: "'w PolicyEnforcer"
  LsDone :: bool
  LsCancelled :: bool
  LsRunning :: bool
  LsWorld :: 'w

definition opa_Close :: "'w LoopState \<Rightarrow> 'w LoopState" where
  "opa_Close s = s\<lparr>LsDone := True\<rparr>"

definition opa_provider_New ::
  "'w OpaEnv \<Rightarrow> (string \<Rightarrow> int option) \<Rightarrow> 'w \<Rightarrow> 'w ManifestLoaderMethods option \<Rightarrow> (string \<rightharpoonup> string) \<Rightarrow> (goerr + 'w LoopState) \<times> 'w" where
  "opa_provider_New env ParseDuration w manifestLoader cfg =
     (case NewWithManifestLoader env ParseDuration w manifestLoader cfg of
        (Inl e, w1) \<Rightarrow> (Inl e, w1)
      | (Inr e, w1) \<Rightarrow>
          (Inr \<lparr>LsEnforcer = e, LsDone = False, LsCancelled = False,
            LsRunning = (OpEnabled (PeConfig e) \<and> OpRefreshInterval (PeConfig e) > 0), LsWorld = w1\<rparr>, w1))"

text \<open>
  What can happen: a tick of the loop, its end, \<open>Close\<close>, the end of the context, a request, and a step \<open>outside\<close> of the
  rest of the program on the world. When several cases of the loop's \<open>select\<close> are possible, any of them is taken.
\<close>

inductive refreshLoop :: "'w OpaEnv \<Rightarrow> ('w \<Rightarrow> 'w \<Rightarrow> bool) \<Rightarrow> 'w LoopState \<Rightarrow> 'w LoopState \<Rightarrow> bool" for env outside where
  tick: "LsRunning s \<Longrightarrow> reloadPolicies env (LsEnforcer s) (LsWorld s) = (None, e, w) \<Longrightarrow>
    refreshLoop env outside s (s\<lparr>LsEnforcer := e, LsWorld := w\<rparr>)"
| stop: "LsRunning s \<Longrightarrow> LsDone s \<or> LsCancelled s \<Longrightarrow> refreshLoop env outside s (s\<lparr>LsRunning := False\<rparr>)"
| close: "refreshLoop env outside s (opa_Close s)"
| cancel: "refreshLoop env outside s (s\<lparr>LsCancelled := True\<rparr>)"
| request: "CheckPolicy env (LsEnforcer s) (LsWorld s) ctx = (r, ctx', w) \<Longrightarrow> refreshLoop env outside s (s\<lparr>LsWorld := w\<rparr>)"
| other: "outside (LsWorld s) w \<Longrightarrow> refreshLoop env outside s (s\<lparr>LsWorld := w\<rparr>)"

inductive_cases refreshLoop_E: "refreshLoop env outside s s'"

interpretation check_policy_step: framed_step "CheckPolicy env e" for env e
  by unfold_locales (auto simp: CheckPolicy_def frame_def split: option.splits prod.splits sum.splits)

end
