(* ===== verification/Opa_Trust.thy ===== *)
theory Opa_Trust
  imports Opa_Enforcer Manifest_Trust
begin

text \<open>
  What the policy checker guarantees: the exact condition under which a request passes, where the code of every
  active policy comes from, the errors of the step, and the requests whose network is not recognised. The locale
  \<open>policy_world\<close> states what the checker relies on; it is interpreted for any world and for a manifest loader over the
  Redis cache.
\<close>

subsection \<open>Answers of the engine\<close>

text \<open>An item of a list of violations that carries no text.\<close>

fun says_nothing :: "json \<Rightarrow> bool" where
  "says_nothing (JStr s) \<longleftrightarrow> s = []"
| "says_nothing (JObj m) \<longleftrightarrow> jstring m ''message'' = [] \<and> jstring m ''code'' = []"
| "says_nothing _ \<longleftrightarrow> True"

text \<open>The values that let a request pass.\<close>

fun permits :: "json \<Rightarrow> bool" where
  "permits (JBool b) \<longleftrightarrow> b"
| "permits (JStr s) \<longleftrightarrow> s = []"
| "permits (JArr items) \<longleftrightarrow> items = []"
| "permits (JObj m) \<longleftrightarrow> (jget m ''valid'' = None \<and> jget m ''violations'' = None) \<or>
     (jget m ''valid'' = Some (JBool True) \<and> (\<exists>items. jget m ''violations'' = Some (JArr items) \<and> list_all says_nothing items))"
| "permits _ \<longleftrightarrow> False"

lemma parse_nothing: "parseViolationItem item = None \<longleftrightarrow> says_nothing item"
  by (cases item) (auto simp: parseViolationItem_def Let_def)

lemma map_filter_nil: "List.map_filter f xs = [] \<longleftrightarrow> (\<forall>x \<in> set xs. f x = None)"
  by (induction xs) (auto simp: List.map_filter_def split: option.splits)

lemma structured_permits:
  "extractStructuredViolations m = None \<or> extractStructuredViolations m = Some [] \<longleftrightarrow> permits (JObj m)"
proof (cases "jget m ''valid''")
  case None
  then show ?thesis by (auto simp: extractStructuredViolations_def split: option.splits)
next
  case (Some v)
  then show ?thesis
    by (cases v; cases "jget m ''violations''")
      (auto simp: extractStructuredViolations_def map_filter_nil parse_nothing list_all_iff Let_def split: json.splits bool.splits)
qed

lemma expression_permits: "expression_violations v = [] \<longleftrightarrow> permits v"
proof (cases v)
  case (JObj m)
  then show ?thesis using structured_permits [of m] by (auto simp: expression_violations_def split: option.splits)
qed (auto simp: expression_violations_def parse_nothing Let_def parseViolationItem_def map_filter_nil)

lemma extract_permits: "extractViolations rs = [] \<longleftrightarrow> (\<forall>r \<in> set rs. \<forall>v \<in> set r. permits v)"
  by (auto simp: extractViolations_def expression_permits)

subsection \<open>Where an evaluator comes from\<close>

definition compiled_from :: "'w OpaEnv \<Rightarrow> PolicyConfig \<Rightarrow> modules \<Rightarrow> (string \<times> json) list \<Rightarrow> 'w Evaluator \<Rightarrow> bool" where
  "compiled_from env c ms data ev \<longleftrightarrow> ms \<noteq> [] \<and> OeCompile env ms = None \<and>
     OePrepare env ms (go_set data ''config'' (JObj (OeOrder env (PcRuntimeConfig c)))) (PcQuery c) = Inr (EvQuery ev) \<and>
     EvText ev = PcQuery c \<and> EvFailOnUndefined ev"

text \<open>What can be read from a location, and modules that were checked against a signature.\<close>

definition readable_at :: "'w OpaEnv \<Rightarrow> string \<Rightarrow> string \<Rightarrow> bool" where
  "readable_at env src body \<longleftrightarrow> (\<exists>w. fst (OeReadFile env w src) = Inr body) \<or>
     (\<exists>t w resp. fst (OeGet env t w src) = Inr resp \<and> HrStatus resp = 200 \<and> HrBodyErr resp = None \<and> HrBody resp = body)"

definition bundle_verified ::
  "'w OpaEnv \<Rightarrow> ArtifactVerificationConfig \<Rightarrow> string \<Rightarrow> modules \<Rightarrow> (string \<times> json) list \<Rightarrow> bool" where
  "bundle_verified env v src ms data \<longleftrightarrow>
     (\<exists>raw body key files. readable_at env src raw \<and> readable_at env (AvPublicKeyLookupURL v) body \<and> bundle_key env v body = Inr key \<and>
        OeReadBundle env raw (Some (defaultBundleVerificationKeyID, key)) = Inr (files, data) \<and> ms = module_map files)"

definition file_verified :: "'w OpaEnv \<Rightarrow> ArtifactVerificationConfig \<Rightarrow> string \<Rightarrow> modules \<Rightarrow> bool" where
  "file_verified env v src ms \<longleftrightarrow>
     (\<exists>name body sig key. ms = [(name, body)] \<and> readable_at env src body \<and> readable_at env (AvSignatureLocation v) sig \<and>
        readable_at env (AvPublicKeyLookupURL v) key \<and> OeVerifyDetached env body sig key = None)"

definition verified_modules :: "'w OpaEnv \<Rightarrow> PolicyConfig \<Rightarrow> modules \<Rightarrow> (string \<times> json) list \<Rightarrow> bool" where
  "verified_modules env c ms data \<longleftrightarrow>
     (\<forall>v. PcVerification c = Some v \<longrightarrow> AvEnabled v \<longrightarrow>
        (\<exists>src rest. PcPolicyPaths c = src # rest \<and>
           (if PcIsBundle c then bundle_verified env v src ms data else rest = [] \<and> data = [] \<and> file_verified env v src ms)))"

lemma read_limited_whole:
  "read_limited (Suc n) resp = Inr body \<Longrightarrow> length body \<le> n \<Longrightarrow> HrBodyErr resp = None \<and> HrBody resp = body"
  by (auto simp: read_limited_def split: if_splits option.splits)

lemma readable_file: "OeReadFile env w src = (Inr body, w') \<Longrightarrow> readable_at env src body"
  unfolding readable_at_def by (rule disjI1) (metis fst_conv)

lemma readable_get:
  "OeGet env t w src = (Inr resp, w') \<Longrightarrow> HrStatus resp = 200 \<Longrightarrow> read_limited (Suc n) resp = Inr body \<Longrightarrow> \<not> n < length body \<Longrightarrow>
     readable_at env src body"
  unfolding readable_at_def using read_limited_whole [of n resp body] by (intro disjI2) (metis fst_conv not_less)

lemma fetch_limited_readable:
  assumes "fetch_limited env t w url n what = (Inr (u, body), w')"
  shows "readable_at env url body"
proof -
  obtain parsed where "OeParseURL env url = Inr parsed"
    using assms by (cases "OeParseURL env url") (simp_all add: fetch_limited_def)
  moreover obtain r w1 where "OeGet env t w url = (r, w1)" by fastforce
  ultimately obtain resp where "r = Inr resp" "HrStatus resp = 200" "read_limited (Suc n) resp = Inr body" "\<not> n < length body"
    using assms by (cases r) (simp_all add: fetch_limited_def split: if_splits sum.splits)
  with \<open>OeGet env t w url = (r, w1)\<close> show ?thesis by (auto intro: readable_get)
qed

lemma readArtifact_readable: "readArtifact env t w src n = (Inr body, w') \<Longrightarrow> readable_at env src body"
  unfolding readArtifact_def fetchRemoteArtifact_def
  by (auto intro: readable_file fetch_limited_readable split: if_splits sum.splits prod.splits)

lemma loadSinglePolicy_readable: "loadSinglePolicy env t w src = (Inr (name, body), w') \<Longrightarrow> readable_at env src body"
  unfolding loadSinglePolicy_def fetchPolicy_def
  by (auto intro: readable_file fetch_limited_readable split: if_splits sum.splits prod.splits)

text \<open>An evaluator that was built is compiled from modules that were verified when that was asked for.\<close>

lemma compileAndPrepare_compiled:
  "compileAndPrepare env ms data (PcQuery c) (PcRuntimeConfig c) True = Inr ev \<Longrightarrow> ms \<noteq> [] \<Longrightarrow> compiled_from env c ms data ev"
  by (auto simp: compileAndPrepare_def compiled_from_def split: option.splits sum.splits)

lemma wrap_err_Inr [simp]: "wrap_err p r = Inr x \<longleftrightarrow> r = Inr x"
  by (cases r) (simp_all add: wrap_err_def)

lemma bind_result_Inr [simp]: "bind_result r f = Inr y \<longleftrightarrow> (\<exists>x. r = Inr x \<and> f x = Inr y)"
  by (cases r) (simp_all add: bind_result_def)

lemma load_signed_verified:
  assumes "load_signed env t w src v = (Inr ms, w')"
  shows "file_verified env v src ms"
proof -
  obtain r1 w1 where p: "loadSinglePolicy env t w src = (r1, w1)" by fastforce
  then obtain name body where r1: "r1 = Inr (name, body)" using assms by (cases r1) (auto simp: load_signed_def)
  obtain r2 w2 where s: "readArtifact env t w1 (AvSignatureLocation v) maxPolicySize = (r2, w2)" by fastforce
  then obtain sig where r2: "r2 = Inr sig" using assms p r1 by (cases r2) (auto simp: load_signed_def)
  obtain r3 w3 where k: "readArtifact env t w2 (AvPublicKeyLookupURL v) maxPolicySize = (r3, w3)" by fastforce
  then obtain key where r3: "r3 = Inr key" using assms p r1 s r2 by (cases r3) (auto simp: load_signed_def)
  have "OeVerifyDetached env body sig key = None \<and> ms = [(name, body)]"
    using assms p r1 s r2 k r3 by (auto simp: load_signed_def split: option.splits)
  with p r1 s r2 k r3 show ?thesis
    unfolding file_verified_def by (metis loadSinglePolicy_readable readArtifact_readable)
qed

lemma loadBundle_verified:
  assumes "loadBundle env t w src (Some v) = (Inr (files, data), w')" "AvEnabled v"
  shows "bundle_verified env v src (module_map files) data"
proof -
  obtain r1 w1 where b: "readArtifact env t w src maxBundleSize = (r1, w1)" by fastforce
  then obtain raw where r1: "r1 = Inr raw" using assms by (cases r1) (auto simp: loadBundle_def)
  obtain r2 w2 where k: "readArtifact env t w1 (AvPublicKeyLookupURL v) maxPolicySize = (r2, w2)" by fastforce
  then obtain body where r2: "r2 = Inr body"
    using assms b r1 by (cases r2) (auto simp: loadBundle_def parseBundleArchive_def wants_verification_def Let_def)
  then show ?thesis
    using assms b r1 k unfolding bundle_verified_def
    by (auto simp: loadBundle_def parseBundleArchive_def wants_verification_def Let_def dest!: readArtifact_readable)
qed

lemma NewEvaluator_sound:
  assumes "NewEvaluator env w (PcPolicyPaths c) (PcQuery c) (PcRuntimeConfig c) (PcIsBundle c) t (PcVerification c) = (Inr ev, w')"
  shows "\<exists>ms data. compiled_from env c ms data ev \<and> verified_modules env c ms data"
proof -
  obtain t' where new: "(if PcIsBundle c then newBundleEvaluator env w (PcPolicyPaths c) (PcQuery c) (PcRuntimeConfig c) t' (PcVerification c)
      else newRegoEvaluator env w (PcPolicyPaths c) (PcQuery c) (PcRuntimeConfig c) t' (PcVerification c)) = (Inr ev, w')"
    using assms unfolding NewEvaluator_def Let_def by blast
  show ?thesis
  proof (cases "PcIsBundle c")
    case True
    obtain src rest where paths: "PcPolicyPaths c = src # rest"
      using new True by (cases "PcPolicyPaths c") (auto simp: newBundleEvaluator_def)
    obtain r w1 where load: "loadBundle env t' w src (PcVerification c) = (r, w1)" by fastforce
    then obtain files data where r: "r = Inr (files, data)"
      using new True paths by (cases r) (auto simp: newBundleEvaluator_def)
    have "module_map files \<noteq> []" "compileAndPrepare env (module_map files) data (PcQuery c) (PcRuntimeConfig c) True = Inr ev"
      using new True paths load r by (auto simp: newBundleEvaluator_def split: if_splits)
    then have "compiled_from env c (module_map files) data ev" by (intro compileAndPrepare_compiled)
    moreover have "verified_modules env c (module_map files) data"
      using loadBundle_verified load r True paths by (auto simp: verified_modules_def)
    ultimately show ?thesis by blast
  next
    case False
    show ?thesis
    proof (cases "wants_verification (PcVerification c)")
      case True
      then obtain v where v: "PcVerification c = Some v" "AvEnabled v" by (auto simp: wants_verification_def split: option.splits)
      obtain src where paths: "PcPolicyPaths c = [src]"
        using new False True by (auto simp: newRegoEvaluator_def length_Suc_conv split: if_splits)
      obtain r w1 where load: "load_signed env t' w src v = (r, w1)" by fastforce
      then obtain ms where ms: "r = Inr ms" "compileAndPrepare env ms [] (PcQuery c) (PcRuntimeConfig c) True = Inr ev"
        using new False True paths v by (auto simp: newRegoEvaluator_def)
      then have checked: "file_verified env v src ms" using load by (auto intro: load_signed_verified)
      then have "ms \<noteq> []" by (auto simp: file_verified_def)
      with ms compileAndPrepare_compiled have "compiled_from env c ms [] ev" by blast
      with checked v paths False show ?thesis by (auto simp: verified_modules_def)
    next
      case plain: False
      then obtain ms where "ms \<noteq> []" "compileAndPrepare env ms [] (PcQuery c) (PcRuntimeConfig c) True = Inr ev"
        using new False by (auto simp: newRegoEvaluator_def split: prod.splits if_splits)
      then have "compiled_from env c ms [] ev" by (intro compileAndPrepare_compiled)
      moreover have "verified_modules env c ms []"
        using plain by (auto simp: verified_modules_def wants_verification_def)
      ultimately show ?thesis by blast
    qed
  qed
qed

subsection \<open>What the checker relies on\<close>

text \<open>What a manifest document says about the policy of a network, and that a loaded policy follows it.\<close>

definition follows_manifest :: "'w OpaEnv \<Rightarrow> string \<Rightarrow> ManifestDocument \<Rightarrow> PolicyConfig \<Rightarrow> bool" where
  "follows_manifest env name doc c \<longleftrightarrow>
     (\<exists>m now p. OeManifestYaml env (MdContent doc) = Inr m \<and> NetworkManifest_Validate (OeTimes env) (Some m) name now = None \<and>
        NwPolicies m = Some p \<and>
        ((\<exists>b. PoBundle p = Some b \<and> PcIsBundle c \<and> PcPolicyPaths c = [BnURL b] \<and> PcQuery c = BnPolicyQueryPath b \<and>
            (BnSigned b \<longrightarrow> (\<exists>v. PcVerification c = Some v \<and> AvEnabled v \<and> AvPublicKeyLookupURL v = BnSigningPublicKeyLookupURL b))) \<or>
         (\<exists>f. PoFile p = Some f \<and> \<not> PcIsBundle c \<and> PcPolicyPaths c = [FlURL f] \<and> PcQuery c = FlPolicyQueryPath f \<and>
            (FlSigned f \<longrightarrow> (\<exists>v. PcVerification c = Some v \<and> AvEnabled v \<and> AvPublicKeyLookupURL v = FlSigningPublicKeyLookupURL f \<and>
               AvSignatureLocation v = FlSignatureURL f)))))"

text \<open>A policy that may be active; \<open>D n\<close> holds of the documents that the manifest loader hands out for the network \<open>n\<close>.\<close>

definition sound_policy :: "'w OpaEnv \<Rightarrow> (string \<Rightarrow> ManifestDocument \<Rightarrow> bool) \<Rightarrow> 'w LoadedPolicy \<Rightarrow> bool" where
  "sound_policy env D p \<longleftrightarrow> (PcEnabled (LpConfig p) \<longrightarrow>
     (\<exists>ev ms data. LpEvaluator p = Some ev \<and> compiled_from env (LpConfig p) ms data ev \<and> verified_modules env (LpConfig p) ms data) \<and>
     (LpSourceType p = policyTypeManifest \<longrightarrow> LpName p \<noteq> ''default'' \<and>
        (\<exists>doc. D (LpName p) doc \<and> LpVerified p = MdVerified doc \<and> follows_manifest env (LpName p) doc (LpConfig p))))"

lemma manifest_config_follows:
  assumes "manifest_config name base p = Inr c" "OeManifestYaml env (MdContent doc) = Inr m"
    "NetworkManifest_Validate (OeTimes env) (Some m) name now = None" "NwPolicies m = Some p"
  shows "follows_manifest env name doc (c\<lparr>PcRuntimeConfig := rc\<rparr>)"
proof -
  have "PolicySourceBundle \<noteq> PolicySourceFile" by (simp add: PolicySourceBundle_def PolicySourceFile_def)
  with assms show ?thesis
    unfolding follows_manifest_def by (auto simp: manifest_config_def Let_def split: if_splits option.splits)
qed

lemma manifest_config_enabled: "manifest_config name base p = Inr c \<Longrightarrow> PcEnabled c = PcEnabled base"
  by (auto simp: manifest_config_def Let_def split: if_splits option.splits)

lemma prepare_policy_sound:
  assumes "prepare_policy env w p = (Inr q, w')"
    and "LpSourceType p = policyTypeManifest \<Longrightarrow> LpName p \<noteq> ''default'' \<and>
      (\<exists>doc. D (LpName p) doc \<and> LpVerified p = MdVerified doc \<and> follows_manifest env (LpName p) doc (LpConfig p))"
  shows "sound_policy env D q"
proof -
  let ?c = "LpConfig p"
  obtain ev where "q = p\<lparr>LpEvaluator := Some ev\<rparr>"
    "NewEvaluator env w (PcPolicyPaths ?c) (PcQuery ?c) (PcRuntimeConfig ?c) (PcIsBundle ?c) (PcFetchTimeout ?c) (PcVerification ?c) = (Inr ev, w')"
    using assms(1) by (auto simp: prepare_policy_def Let_def split: prod.splits sum.splits)
  with NewEvaluator_sound [OF this(2)] assms(2) show ?thesis by (auto simp: sound_policy_def)
qed

text \<open>A table of policies, each sound and under its name.\<close>

definition sound_table ::
  "'w OpaEnv \<Rightarrow> (string \<Rightarrow> ManifestDocument \<Rightarrow> bool) \<Rightarrow> (string \<rightharpoonup> 'w LoadedPolicy) \<Rightarrow> 'w LoadedPolicy option \<Rightarrow> bool" where
  "sound_table env D ps d \<longleftrightarrow> (\<forall>n p. ps n = Some p \<longrightarrow> sound_policy env D p \<and> LpName p = n) \<and>
     (\<forall>p. d = Some p \<longrightarrow> sound_policy env D p \<and> LpName p = ''default'')"

lemma sound_table_selected:
  "sound_table env D (PePolicies e) (PeDefault e) \<Longrightarrow> selectedPolicy e n = Some p \<Longrightarrow>
     sound_policy env D p \<and> (LpName p = n \<or> LpName p = ''default'')"
  by (auto simp: sound_table_def selectedPolicy_def split: option.splits if_splits)

definition loop_inv ::
  "'w OpaEnv \<Rightarrow> 'w ManifestLoaderMethods option \<Rightarrow> ('w \<Rightarrow> bool) \<Rightarrow> (string \<Rightarrow> ManifestDocument \<Rightarrow> bool) \<Rightarrow> 'w LoopState \<Rightarrow> bool" where
  "loop_inv env ld good D s \<longleftrightarrow> good (LsWorld s) \<and> PeLoader (LsEnforcer s) = ld \<and>
     sound_table env D (PePolicies (LsEnforcer s)) (PeDefault (LsEnforcer s))"

locale policy_world =
  fixes env :: "'w OpaEnv" and ld :: "'w ManifestLoaderMethods option" and good :: "'w \<Rightarrow> bool" and D :: "string \<Rightarrow> ManifestDocument \<Rightarrow> bool"
  assumes file_keeps: "good w \<Longrightarrow> OeReadFile env w p = (rf, w') \<Longrightarrow> good w'"
    and isdir_keeps: "good w \<Longrightarrow> OeIsDir env w p = (b, w') \<Longrightarrow> good w'"
    and readdir_keeps: "good w \<Longrightarrow> OeReadDir env w p = (rd, w') \<Longrightarrow> good w'"
    and get_keeps: "good w \<Longrightarrow> OeGet env t w p = (rg, w') \<Longrightarrow> good w'"
    and clock_keeps: "good w \<Longrightarrow> OeClock env w = (now, w') \<Longrightarrow> good w'"
    and query_keeps: "good w \<Longrightarrow> OePrepare env ms data q = Inr pq \<Longrightarrow> pq w input = (rq, w') \<Longrightarrow> good w'"
    and loader_keeps: "good w \<Longrightarrow> ld = Some methods \<Longrightarrow> GetByNetworkID methods w n = (rl, w') \<Longrightarrow>
      good w' \<and> (\<forall>doc. rl = Inr (Some doc) \<longrightarrow> D n doc)"
begin

lemma fetch_limited_keeps: "good w \<Longrightarrow> fetch_limited env t w url n what = (r, w') \<Longrightarrow> good w'"
  unfolding fetch_limited_def by (auto intro: get_keeps split: sum.splits if_splits prod.splits)

lemma readArtifact_keeps: "good w \<Longrightarrow> readArtifact env t w src n = (r, w') \<Longrightarrow> good w'"
  unfolding readArtifact_def fetchRemoteArtifact_def
  by (auto intro: file_keeps fetch_limited_keeps split: if_splits sum.splits prod.splits)

lemma fetchPolicy_keeps: "good w \<Longrightarrow> fetchPolicy env t w src = (r, w') \<Longrightarrow> good w'"
  unfolding fetchPolicy_def by (auto intro: fetch_limited_keeps split: sum.splits prod.splits)

lemma loadSinglePolicy_keeps: "good w \<Longrightarrow> loadSinglePolicy env t w src = (r, w') \<Longrightarrow> good w'"
  unfolding loadSinglePolicy_def by (auto intro: file_keeps fetchPolicy_keeps split: if_splits sum.splits prod.splits)

lemma parseBundleArchive_keeps: "good w \<Longrightarrow> parseBundleArchive env t w raw v = (r, w') \<Longrightarrow> good w'"
  unfolding parseBundleArchive_def Let_def by (auto intro: readArtifact_keeps split: if_splits sum.splits prod.splits)

lemma loadBundle_keeps: "good w \<Longrightarrow> loadBundle env t w src v = (r, w') \<Longrightarrow> good w'"
  unfolding loadBundle_def
  by (auto intro: readArtifact_keeps parseBundleArchive_keeps split: sum.splits prod.splits)

lemma load_signed_keeps: "good w \<Longrightarrow> load_signed env t w src v = (r, w') \<Longrightarrow> good w'"
  unfolding load_signed_def
  by (auto split: sum.splits prod.splits) (blast intro: readArtifact_keeps loadSinglePolicy_keeps)+

lemma load_dir_keeps: "good w \<Longrightarrow> load_dir env w src es ms = (r, w') \<Longrightarrow> good w'"
proof (induction es arbitrary: w ms)
  case (Cons e es)
  then show ?case by (auto simp: Let_def dest: file_keeps split: if_splits sum.splits prod.splits)
qed simp

lemma load_source_keeps:
  assumes "good w" "load_source env t w src ms = (r, w')"
  shows "good w'"
proof (cases "isURL src")
  case True
  with assms show ?thesis by (auto simp: load_source_def dest: fetchPolicy_keeps split: sum.splits prod.splits)
next
  case False
  obtain b w1 where dir: "OeIsDir env w src = (b, w1)" by fastforce
  then have "good w1" using assms(1) isdir_keeps by blast
  from assms(2) False dir consider rd es where "OeReadDir env w1 src = (rd, w')" | rd es w2 where "OeReadDir env w1 src = (rd, w2)"
      "load_dir env w2 src es ms = (r, w')" | rf where "OeReadFile env w1 src = (rf, w')"
    by (auto simp: load_source_def split: if_splits sum.splits prod.splits)
  then show ?thesis using \<open>good w1\<close> by cases (blast dest: readdir_keeps load_dir_keeps file_keeps)+
qed

lemma load_sources_keeps: "good w \<Longrightarrow> load_sources env t w srcs ms = (r, w') \<Longrightarrow> good w'"
proof (induction srcs arbitrary: w ms)
  case (Cons src srcs)
  then show ?case by (auto dest: load_source_keeps split: sum.splits prod.splits)
qed simp

lemma NewEvaluator_keeps: "good w \<Longrightarrow> NewEvaluator env w paths q rc b t v = (r, w') \<Longrightarrow> good w'"
  unfolding NewEvaluator_def newBundleEvaluator_def newRegoEvaluator_def Let_def
  by (auto dest: loadBundle_keeps load_signed_keeps load_sources_keeps split: if_splits sum.splits prod.splits list.splits)

lemma prepare_policy_keeps: "good w \<Longrightarrow> prepare_policy env w p = (r, w') \<Longrightarrow> good w'"
  unfolding prepare_policy_def Let_def by (auto dest: NewEvaluator_keeps split: sum.splits prod.splits)

lemma resolve_document_keeps:
  assumes "good w" "resolve_document env w name base doc = (r, w')"
  shows "good w' \<and> (\<forall>res. r = Inr res \<longrightarrow> RmVerified res = MdVerified doc \<and>
    follows_manifest env name doc ((RmConfig res)\<lparr>PcRuntimeConfig := rc\<rparr>))"
  using assms unfolding resolve_document_def
  by (auto dest: clock_keeps split: sum.splits prod.splits option.splits) (rule manifest_config_follows; assumption)

lemma resolve_keeps:
  assumes "good w" "resolveManifestPolicyConfig env w name base ld = (r, w')"
  shows "good w' \<and> (\<forall>res. r = Inr res \<longrightarrow> name \<noteq> ''default'' \<and> (\<exists>doc. D name doc \<and> RmVerified res = MdVerified doc \<and>
    follows_manifest env name doc ((RmConfig res)\<lparr>PcRuntimeConfig := rc\<rparr>)))"
proof -
  from assms(2) consider "w' = w" "\<exists>e. r = Inl e" | methods where "ld = Some methods" "name \<noteq> ''default''"
    by (cases ld) (auto simp: resolveManifestPolicyConfig_def split: if_splits)
  then show ?thesis
  proof cases
    case (2 methods)
    note named = 2(2)
    obtain rl w1 where get: "GetByNetworkID methods w name = (rl, w1)" by fastforce
    from loader_keeps [OF assms(1) 2(1) get] have w1: "good w1" "rl = Inr (Some doc) \<Longrightarrow> D name doc" for doc by auto
    from assms(2) 2 get consider "w' = w1" "\<exists>e. r = Inl e" | doc where "rl = Inr (Some doc)" "resolve_document env w1 name base doc = (r, w')"
      by (auto simp: resolveManifestPolicyConfig_def split: sum.splits option.splits)
    then show ?thesis
    proof cases
      case (2 doc)
      then show ?thesis using resolve_document_keeps [OF w1(1) 2(2)] w1(2) named by blast
    qed (use w1 in auto)
  qed (use assms(1) in auto)
qed

lemma loadPolicy_keeps:
  assumes "good w" "loadPolicy env w ld name cfg shared = (r, w')"
  shows "good w' \<and> (\<forall>p. r = Inr p \<longrightarrow> sound_policy env D p)"
proof -
  let ?c = "cfg\<lparr>PcRuntimeConfig := mergeRuntimeConfig shared (PcRuntimeConfig cfg)\<rparr>"
  let ?p = "\<lparr>LpName = name, LpConfig = ?c, LpEvaluator = (None :: 'w Evaluator option), LpSourceType = PcType cfg, LpDeclaredSigned = None, LpVerified = False\<rparr>"
  show ?thesis
  proof (cases "PcEnabled cfg \<and> PcType cfg = policyTypeManifest")
    case True
    obtain rr w1 where res: "resolveManifestPolicyConfig env w name ?c ld = (rr, w1)" by fastforce
    note kept = resolve_keeps [OF assms(1) res]
    show ?thesis
    proof (cases rr)
      case (Inr m)
      let ?q = "?p\<lparr>LpConfig := (RmConfig m)\<lparr>PcRuntimeConfig := mergeRuntimeConfig shared (PcRuntimeConfig (RmConfig m))\<rparr>,
          LpDeclaredSigned := RmDeclaredSigned m, LpVerified := RmVerified m\<rparr>"
      have "prepare_policy env w1 ?q = (r, w')"
        using assms(2) True res Inr by (simp add: loadPolicy_def Let_def)
      moreover have "LpName ?q \<noteq> ''default'' \<and> (\<exists>doc. D (LpName ?q) doc \<and> LpVerified ?q = MdVerified doc \<and>
          follows_manifest env (LpName ?q) doc (LpConfig ?q))"
        using kept Inr by simp
      ultimately show ?thesis using prepare_policy_sound [of env w1 ?q _ w' D] prepare_policy_keeps [of w1] kept by blast
    qed (use assms(2) True res kept in \<open>auto simp: loadPolicy_def Let_def\<close>)
  next
    case False
    then consider "\<not> PcEnabled cfg" "r = Inr ?p" "w' = w" | "LpSourceType ?p \<noteq> policyTypeManifest" "prepare_policy env w ?p = (r, w')"
      using assms(2) by (auto simp: loadPolicy_def Let_def split: if_splits)
    then show ?thesis
    proof cases
      case 2
      then show ?thesis using prepare_policy_sound [of env w ?p _ w' D] prepare_policy_keeps [OF assms(1) 2(2)] by blast
    qed (use assms(1) in \<open>auto simp: sound_policy_def\<close>)
  qed
qed

lemma loadPolicy_name: "loadPolicy env w ld name cfg shared = (Inr p, w') \<Longrightarrow> LpName p = name"
  by (auto simp: loadPolicy_def prepare_policy_def Let_def split: if_splits sum.splits prod.splits)

lemma load_entries_keeps:
  assumes "good w" "load_entries env w ld shared raws ps d = (r, w')" "sound_table env D ps d"
  shows "good w' \<and> (\<forall>ps' d'. r = Inr (ps', d') \<longrightarrow> sound_table env D ps' d')"
  using assms
proof (induction raws arbitrary: w ps d)
  case (Cons x raws)
  obtain name raw where x: "x = (name, raw)" by (cases x)
  define rp where "rp cfg = fst (loadPolicy env w ld name cfg shared)" for cfg
  define w1 where "w1 cfg = snd (loadPolicy env w ld name cfg shared)" for cfg
  have load: "loadPolicy env w ld name cfg shared = (rp cfg, w1 cfg)" for cfg by (simp add: rp_def w1_def)
  have sound: "good (w1 cfg) \<and> (\<forall>p. rp cfg = Inr p \<longrightarrow> sound_policy env D p \<and> LpName p = name)" for cfg
    using loadPolicy_keeps [OF Cons.prems(1) load] loadPolicy_name [of w name cfg shared _ "w1 cfg"] load by auto
  from Cons.prems(2) x load consider "\<exists>e. r = Inl e" "w' = w" | cfg where "parsePolicyConfig raw = Inr cfg" "\<exists>e. r = Inl e" "w' = w1 cfg"
    | cfg p where "parsePolicyConfig raw = Inr cfg" "rp cfg = Inr p" "name = ''default''"
        "load_entries env (w1 cfg) ld shared raws ps (Some p) = (r, w')"
    | cfg p where "parsePolicyConfig raw = Inr cfg" "rp cfg = Inr p" "name \<noteq> ''default''"
        "load_entries env (w1 cfg) ld shared raws (ps(name \<mapsto> p)) d = (r, w')"
    by (auto split: sum.splits if_splits)
  then show ?case
  proof cases
    case (3 cfg p)
    with sound [of cfg] Cons.prems(3) have "good (w1 cfg)" "sound_table env D ps (Some p)" by (auto simp: sound_table_def)
    from Cons.IH [OF this(1) 3(4) this(2)] show ?thesis .
  next
    case (4 cfg p)
    with sound [of cfg] Cons.prems(3) have "good (w1 cfg)" "sound_table env D (ps(name \<mapsto> p)) d" by (auto simp: sound_table_def)
    from Cons.IH [OF this(1) 4(4) this(2)] show ?thesis .
  qed (use Cons.prems(1) sound in auto)
qed auto

lemma load_all_keeps:
  assumes "good w" "loadNetworkPoliciesForEnforcer env w ld config = (r, w')"
  shows "good w' \<and> (\<forall>ps d. r = Inr (ps, d) \<longrightarrow> sound_table env D ps d)"
proof -
  obtain rf w1 where load: "loadNetworkPolicies (OeReadFile env) (OeYaml env) w (OpNetworkPolicyConfig config) = (rf, w1)" by fastforce
  have "good w1"
    using load assms(1) by (auto simp: loadNetworkPolicies_def intro: file_keeps split: if_splits sum.splits prod.splits)
  moreover have "sound_table env D Map.empty None" by (simp add: sound_table_def)
  ultimately show ?thesis
    using assms(2) load load_entries_keeps [of w1 "OpRuntimeConfig config" _ Map.empty None r w']
    by (auto simp: loadNetworkPoliciesForEnforcer_def split: sum.splits)
qed

lemma new_loop_inv: "good w \<Longrightarrow> opa_provider_New env pd w ld cfg = (Inr s, w') \<Longrightarrow> loop_inv env ld good D s"
  using load_all_keeps [of w]
  by (auto simp: opa_provider_New_def NewWithManifestLoader_def loop_inv_def sound_table_def Let_def
      split: sum.splits prod.splits if_splits)

lemma check_keeps:
  assumes "good w" "sound_table env D (PePolicies e) (PeDefault e)" "CheckPolicy env e w ctx = (r, ctx', w')"
  shows "good w'"
proof -
  from assms(3) consider "w' = w" | p ev input rq where "selectedPolicy e (PrNetworkID (parseRequestContext (OeFloat env) (Body ctx))) = Some p"
      "PcEnabled (LpConfig p)" "LpEvaluator p = Some ev" "EvQuery ev w input = (rq, w')"
    by (auto simp: CheckPolicy_def Evaluate_def split: if_splits option.splits sum.splits prod.splits)
  then show ?thesis
  proof cases
    case 2
    then have "sound_policy env D p" using assms(2) sound_table_selected by blast
    with 2 show ?thesis using query_keeps [OF assms(1)] by (auto simp: sound_policy_def compiled_from_def)
  qed (use assms(1) in simp)
qed

lemma loop_inv_step:
  assumes "refreshLoop env outside s s'" "loop_inv env ld good D s" "\<And>w w'. outside w w' \<Longrightarrow> good w \<Longrightarrow> good w'"
  shows "loop_inv env ld good D s'"
  using assms(1)
proof cases
  case (tick e w)
  then show ?thesis
    using assms(2) load_all_keeps [of "LsWorld s" "PeConfig (LsEnforcer s)"]
    by (auto simp: loop_inv_def reloadPolicies_def reloadNetworkPolicies_def split: sum.splits prod.splits)
next
  case (request ctx r ctx' w)
  then show ?thesis using assms(2) check_keeps by (auto simp: loop_inv_def)
qed (use assms(2,3) in \<open>auto simp: loop_inv_def opa_Close_def\<close>)

lemma reachable_loop_inv:
  assumes "good w" "opa_provider_New env pd w ld cfg = (Inr s0, w')" "(refreshLoop env outside)\<^sup>*\<^sup>* s0 s"
    "\<And>w w'. outside w w' \<Longrightarrow> good w \<Longrightarrow> good w'"
  shows "loop_inv env ld good D s"
  using assms(3)
proof induction
  case base
  from new_loop_inv [OF assms(1,2)] show ?case .
next
  case (step y z)
  then show ?case using loop_inv_step assms(4) by blast
qed

lemma reachable_sound:
  assumes "good w" "opa_provider_New env pd w ld cfg = (Inr s0, w')" "(refreshLoop env outside)\<^sup>*\<^sup>* s0 s"
    "\<And>w w'. outside w w' \<Longrightarrow> good w \<Longrightarrow> good w'" "selectedPolicy (LsEnforcer s) n = Some p"
  shows "sound_policy env D p \<and> (LpName p = n \<or> LpName p = ''default'')"
proof -
  have "loop_inv env ld good D s" by (rule reachable_loop_inv [OF assms(1-3)]) (rule assms(4))
  then show ?thesis using sound_table_selected [of env D, OF _ assms(5)] by (simp add: loop_inv_def)
qed

end

subsection \<open>Worlds\<close>

text \<open>Any world: a document is one that the loader handed out for the network.\<close>

definition handed_out :: "'w ManifestLoaderMethods option \<Rightarrow> string \<Rightarrow> ManifestDocument \<Rightarrow> bool" where
  "handed_out ld n doc \<longleftrightarrow> (\<exists>methods w w'. ld = Some methods \<and> GetByNetworkID methods w n = (Inr (Some doc), w'))"

interpretation any_world: policy_world env ld "\<lambda>w. True" "handed_out ld" for env ld
  by unfold_locales (auto simp: handed_out_def)

text \<open>A manifest loader over the Redis cache, and an engine, a file system and a clock that leave the cache alone.\<close>

definition leaves_cache :: "'v ld_state OpaEnv \<Rightarrow> ('v \<Rightarrow> string \<rightharpoonup> string) \<Rightarrow> bool" where
  "leaves_cache env live \<longleftrightarrow>
     (\<forall>w p. live (fst (snd (OeReadFile env w p))) = live (fst w)) \<and> (\<forall>w p. live (fst (snd (OeIsDir env w p))) = live (fst w)) \<and>
     (\<forall>w p. live (fst (snd (OeReadDir env w p))) = live (fst w)) \<and> (\<forall>t w p. live (fst (snd (OeGet env t w p))) = live (fst w)) \<and>
     (\<forall>w. live (fst (snd (OeClock env w))) = live (fst w)) \<and>
     (\<forall>ms data q pq w input. OePrepare env ms data q = Inr pq \<longrightarrow> live (fst (snd (pq w input))) = live (fst w))"

text \<open>What the rest of the program does to the cache: entries expire, and other plugins look up manifests.\<close>

definition shares_cache :: "'v Loader \<Rightarrow> ('v \<Rightarrow> string \<rightharpoonup> string) \<Rightarrow> 'v ld_state \<Rightarrow> 'v ld_state \<Rightarrow> bool" where
  "shares_cache l live w w' \<longleftrightarrow> live (fst w') \<subseteq>\<^sub>m live (fst w) \<or>
     (\<exists>n r. loader_GetByNetworkID l w n = (r, w')) \<or> (\<exists>n r. loader_GetBySubscriberID l w n = (r, w')) \<or>
     (\<exists>m r. loader_GetByMetadata l w m = (r, w'))"

definition cache_trusted :: "'v ld_state OpaEnv \<Rightarrow> 'v Loader \<Rightarrow> 'v RedisClient \<Rightarrow> ('v \<Rightarrow> string \<rightharpoonup> string) \<Rightarrow> 'v ld_state \<Rightarrow> bool" where
  "cache_trusted env l R live w \<longleftrightarrow> loader_over l R live \<and> leaves_cache env live \<and>
     all_held (\<lambda>w. loader_over l R live) live (trusted_text l) (fst w)"

lemma cache_trusted_less: "cache_trusted env l R live w \<Longrightarrow> live (fst w') \<subseteq>\<^sub>m live (fst w) \<Longrightarrow> cache_trusted env l R live w'"
  by (auto simp: cache_trusted_def all_held_def map_le_def dom_def)

lemma cache_trusted_same: "cache_trusted env l R live w \<Longrightarrow> live (fst w') = live (fst w) \<Longrightarrow> cache_trusted env l R live w'"
  using cache_trusted_less by (metis map_le_refl)

lemma cache_trusted_lookup:
  assumes "cache_trusted env l R live w"
    and "loader_GetByNetworkID l w n = (r, w') \<or> loader_GetBySubscriberID l w n = (r, w') \<or> loader_GetByMetadata l w m = (r, w')"
  shows "cache_trusted env l R live w' \<and> (\<forall>doc. r = Inr (Some doc) \<longrightarrow> vouched l doc)"
  using assms redis_loader.lookups_keep [of l R live w n r w' m] unfolding cache_trusted_def by blast

lemma shares_cache_trusted: "shares_cache l live w w' \<Longrightarrow> cache_trusted env l R live w \<Longrightarrow> cache_trusted env l R live w'"
  unfolding shares_cache_def using cache_trusted_less cache_trusted_lookup by metis

lemma leaves_cacheD:
  assumes "leaves_cache env live"
  shows "OeReadFile env w p = (rf, w') \<Longrightarrow> live (fst w') = live (fst w)" and "OeIsDir env w p = (b, w') \<Longrightarrow> live (fst w') = live (fst w)"
    and "OeReadDir env w p = (rd, w') \<Longrightarrow> live (fst w') = live (fst w)" and "OeGet env t w p = (rg, w') \<Longrightarrow> live (fst w') = live (fst w)"
    and "OeClock env w = (now, w') \<Longrightarrow> live (fst w') = live (fst w)"
    and "OePrepare env ms data q = Inr pq \<Longrightarrow> pq w input = (rq, w') \<Longrightarrow> live (fst w') = live (fst w)"
  using assms unfolding leaves_cache_def by (metis snd_conv)+

interpretation redis_world: policy_world env "Some (loader_methods l)" "cache_trusted env l R live" "\<lambda>n doc. vouched l doc" for env l R live
proof (unfold_locales, goal_cases)
  case (1 w p rf w')
  then show ?case using leaves_cacheD(1) cache_trusted_same by (metis cache_trusted_def)
next
  case (2 w p b w')
  then show ?case using leaves_cacheD(2) cache_trusted_same by (metis cache_trusted_def)
next
  case (3 w p rd w')
  then show ?case using leaves_cacheD(3) cache_trusted_same by (metis cache_trusted_def)
next
  case (4 w t p rg w')
  then show ?case using leaves_cacheD(4) cache_trusted_same by (metis cache_trusted_def)
next
  case (5 w now w')
  then show ?case using leaves_cacheD(5) cache_trusted_same by (metis cache_trusted_def)
next
  case (6 w ms data q pq input rq w')
  then show ?case using leaves_cacheD(6) cache_trusted_same by (metis cache_trusted_def)
next
  case (7 w methods n rl w')
  then have "loader_GetByNetworkID l w n = (rl, w')" by (auto simp: loader_methods_def)
  with 7(1) show ?case using cache_trusted_lookup [of env l R live w n rl w'] by blast
qed

subsection \<open>Guarantees\<close>

lemma Evaluate_passes:
  "fst (Evaluate F ev w body) = Inr [] \<longleftrightarrow>
     (\<exists>input rs w'. unmarshal_any F body = Some input \<and> EvQuery ev w input = (Inr rs, w') \<and>
        (rs = [] \<longrightarrow> \<not> EvFailOnUndefined ev) \<and> (\<forall>r \<in> set rs. \<forall>v \<in> set r. permits v))"
proof (cases "unmarshal_any F body")
  case (Some input)
  obtain rq w' where "EvQuery ev w input = (rq, w')" by fastforce
  with Some show ?thesis by (cases rq) (auto simp: Evaluate_def extract_permits [symmetric])
qed (simp add: Evaluate_def)

text \<open>The exact condition under which a request passes a policy.\<close>

definition complies :: "'w OpaEnv \<Rightarrow> 'w LoadedPolicy \<Rightarrow> 'w \<Rightarrow> string \<Rightarrow> bool" where
  "complies env p w body \<longleftrightarrow>
     (\<exists>ev input rs w'. LpEvaluator p = Some ev \<and> unmarshal_any (OeFloat env) body = Some input \<and>
        EvQuery ev w input = (Inr rs, w') \<and> rs \<noteq> [] \<and> (\<forall>r \<in> set rs. \<forall>v \<in> set r. permits v))"

text \<open>C22: Whatever reloads have happened since the plugin was built, CheckPolicy lets a request pass exactly if the
  plugin or the selected policy is disabled, no policy is selected, or the engine evaluated the decoded body to a
  non-empty result set all of whose values permit: true, the empty text, the empty list, or an object that has
  neither valid nor violations, or has valid = true and violations without text.\<close>

theorem check_policy_exact:
  assumes "opa_provider_New env pd w0 ld cfg = (Inr s0, w1)" and "(refreshLoop env outside)\<^sup>*\<^sup>* s0 s"
  shows "fst (CheckPolicy env (LsEnforcer s) w ctx) = None \<longleftrightarrow>
    \<not> OpEnabled (PeConfig (LsEnforcer s)) \<or>
    (\<forall>p. selectedPolicy (LsEnforcer s) (PrNetworkID (parseRequestContext (OeFloat env) (Body ctx))) = Some p \<longrightarrow>
       PcEnabled (LpConfig p) \<longrightarrow> complies env p w (Body ctx))"
proof (cases "OpEnabled (PeConfig (LsEnforcer s))")
  case True
  let ?sel = "selectedPolicy (LsEnforcer s) (PrNetworkID (parseRequestContext (OeFloat env) (Body ctx)))"
  show ?thesis
  proof (cases ?sel)
    case (Some p)
    have sound: "sound_policy env (handed_out ld) p"
      using any_world.reachable_sound [OF _ assms _ Some] by simp
    show ?thesis
    proof (cases "PcEnabled (LpConfig p)")
      case enabled: True
      then obtain ev where ev: "LpEvaluator p = Some ev" "EvFailOnUndefined ev"
        using sound by (auto simp: sound_policy_def compiled_from_def)
      obtain re w' where "Evaluate (OeFloat env) ev w (Body ctx) = (re, w')" by fastforce
      then have "fst (CheckPolicy env (LsEnforcer s) w ctx) = None \<longleftrightarrow> fst (Evaluate (OeFloat env) ev w (Body ctx)) = Inr []"
        using True Some enabled ev by (cases re) (auto simp: CheckPolicy_def)
      with True Some enabled ev show ?thesis by (auto simp: Evaluate_passes complies_def)
    qed (use True Some in \<open>simp add: CheckPolicy_def\<close>)
  qed (use True in \<open>simp add: CheckPolicy_def\<close>)
qed (simp add: CheckPolicy_def)

text \<open>C23: Whatever reloads have happened, also failed ones, an enabled policy that is selected for a network has an
  evaluator whose query is the configured one and is prepared from modules that compile; where verification is
  configured, these modules are the single policy file whose detached signature verified under the configured key, or
  those of the bundle that was read with the configured key. The policy is the one of that network or the default one.\<close>

theorem active_policies_verified:
  assumes "opa_provider_New env pd w0 ld cfg = (Inr s0, w1)" and "(refreshLoop env outside)\<^sup>*\<^sup>* s0 s"
    and "selectedPolicy (LsEnforcer s) n = Some p" and "PcEnabled (LpConfig p)"
  shows "(LpName p = n \<or> LpName p = ''default'') \<and>
    (\<exists>ev ms data. LpEvaluator p = Some ev \<and> compiled_from env (LpConfig p) ms data ev \<and> verified_modules env (LpConfig p) ms data)"
  using any_world.reachable_sound [OF _ assms(1,2) _ assms(3)] assms(4) by (auto simp: sound_policy_def)

text \<open>C24: The policies of manifests are authentic. Let the plugin use a manifest loader that does not skip the
  verification, over a Redis cache that holds no manifest at first and that the engine, the file system and the
  clock leave alone, while other plugins look up manifests and entries expire in between. Then an enabled policy of
  type manifest that is selected for a network takes its location, its query and, if the manifest declares it
  signed, its key from a manifest that validated for that network, and the manifest was fetched and verified.\<close>

theorem manifest_policies_authentic:
  assumes "loader_over l R live" and "leaves_cache env live" and "\<forall>k. HasPrefix k ''manifest:'' \<longrightarrow> live (fst w0) k = None"
    and "\<not> SkipSignatureVerification (LdConfig l)"
    and "opa_provider_New env pd w0 (Some (loader_methods l)) cfg = (Inr s0, w1)"
    and "(refreshLoop env (shares_cache l live))\<^sup>*\<^sup>* s0 s"
    and "selectedPolicy (LsEnforcer s) n = Some p" and "PcEnabled (LpConfig p)" and "LpSourceType p = policyTypeManifest"
  shows "LpVerified p \<and> (\<exists>doc. MdVerified doc \<and> authentic l doc \<and> follows_manifest env n doc (LpConfig p))"
proof -
  have "cache_trusted env l R live w0"
    using assms(1-3) by (auto simp: cache_trusted_def all_held_def trusted_text_def)
  from redis_world.reachable_sound [OF this assms(5,6) _ assms(7)] shares_cache_trusted
  have "sound_policy env (\<lambda>n doc. vouched l doc) p \<and> (LpName p = n \<or> LpName p = ''default'')" by blast
  with assms(4,8,9) show ?thesis by (auto simp: sound_policy_def vouched_def)
qed

text \<open>Every failure of CheckPolicy leaves the request unchanged and is a coded error of status 400, whose code is
  the first non-empty code of the violations and POL_GENERIC_ERROR otherwise, unless the engine panics.\<close>

theorem check_policy_errors:
  assumes "CheckPolicy env e w ctx = (Some err, ctx', w')"
  shows "ctx' = ctx \<and> (is_panic err \<or>
    (\<exists>code b. as_coded err = Some (b, 400) \<and> Code b = code \<and> (code = ''POL_GENERIC_ERROR'' \<or>
       (\<exists>p ev vs v. selectedPolicy e (PrNetworkID (parseRequestContext (OeFloat env) (Body ctx))) = Some p \<and> LpEvaluator p = Some ev \<and>
          Evaluate (OeFloat env) ev w (Body ctx) = (Inr vs, w') \<and> v \<in> set vs \<and> code = Code v \<and> code \<noteq> []))))"
proof -
  have coded: "\<exists>b. as_coded (NewBadReqErr c x) = Some (b, 400) \<and> Code b = c" if "c \<noteq> []" for c x
    using that by (simp add: NewBadReqErr_def as_coded_def CodedErr_BecknError_def resolveCode_def HTTPStatus_def)
  note generic = coded [of "''POL_GENERIC_ERROR''"]
  from assms consider x where "ctx' = ctx" "err = NewBadReqErr ''POL_GENERIC_ERROR'' x" | "ctx' = ctx" "is_panic err"
    | p ev vs where "ctx' = ctx" "selectedPolicy e (PrNetworkID (parseRequestContext (OeFloat env) (Body ctx))) = Some p" "LpEvaluator p = Some ev"
      "Evaluate (OeFloat env) ev w (Body ctx) = (Inr vs, w')" "err = violation_error vs"
    unfolding CheckPolicy_def by (auto split: if_splits option.splits prod.splits sum.splits)
  then show ?thesis
  proof cases
    case (1 x)
    with generic [of x] show ?thesis by blast
  next
    case (3 p ev vs)
    let ?code = "FirstNonEmptyCode vs ''POL_GENERIC_ERROR''"
    have origin: "?code = ''POL_GENERIC_ERROR'' \<or> (\<exists>v \<in> set vs. ?code = Code v \<and> Code v \<noteq> [])" by (rule FirstNonEmptyCode_cases)
    then have "?code \<noteq> []" by auto
    then obtain b where "as_coded err = Some (b, 400)" "Code b = ?code" using coded 3(5) unfolding violation_error_def by blast
    with 3 origin show ?thesis by auto
  qed simp
qed

text \<open>A request whose context cannot be decoded is not checked against the policy of its network. If a number in the
  context does not fit a float64, or the context is no object, the step finds no network and, without a default policy,
  lets the request pass unevaluated, whatever the policies of the networks say.\<close>

theorem unreadable_context_unchecked:
  assumes "\<not> context_numbers_ok (OeFloat env) (Body ctx) \<or> context_map_field (Body ctx) = None" and "PeDefault e = None"
  shows "CheckPolicy env e w ctx = (None, ctx, w)"
proof -
  have "PrNetworkID (parseRequestContext (OeFloat env) (Body ctx)) = []"
    using assms(1) by (auto simp: parseRequestContext_def empty_request_context_def split: option.splits)
  with assms(2) show ?thesis by (simp add: CheckPolicy_def selectedPolicy_def)
qed

subsection \<open>Examples\<close>

text \<open>
  A file system in which every file holds its own name, an engine that denies everything, and a number that does not
  fit. One policy is a signed file, the other one comes from a manifest.
\<close>

definition small_float :: Float64 where
  "small_float = \<lparr>InRange = (\<lambda>s. s \<noteq> ''1e999''), FloatText = (\<lambda>s. s)\<rparr>"

definition sample_network :: string where "sample_network = ''ns/reg''"

definition sample_network_manifest :: NetworkManifest where
  "sample_network_manifest = \<lparr>NwVersion = ''1'', NwType = NetworkManifestType, NwNetworkID = sample_network, NwReleaseID = Some ''r1'',
     NwPublisher = \<lparr>PRole = ''nfo'', PDomain = ''d''\<rparr>,
     NwPolicies = Some \<lparr>PoType = PolicyTypeRego, PoSource = PolicySourceFile, PoBundle = None,
       PoFile = Some \<lparr>FlID = ''f'', FlURL = ''p.rego'', FlPolicyQueryPath = ''q'', FlSigned = True, FlSignatureURL = ''sig'',
         FlSigningPublicKeyLookupURL = ''key''\<rparr>\<rparr>,
     NwGovernance = \<lparr>GvEffectiveFrom = ''0'', GvEffectiveUntil = [], GvSigned = Some True\<rparr>\<rparr>"

definition signed_file :: policy_file where
  "signed_file = [(sample_network, Some [(''type'', YStr ''file''), (''location'', YStr ''p.rego''), (''query'', YStr ''q''),
     (''verification'', YMap [(''enabled'', YBool True), (''publicKeyLookupUrl'', YStr ''key''), (''signatureLocation'', YStr ''sig'')])])]"

definition manifest_file :: policy_file where
  "manifest_file = [(sample_network, Some [(''type'', YStr ''manifest'')])]"

definition sample_opa :: "policy_file \<Rightarrow> 'w OpaEnv" where
  "sample_opa file =
     \<lparr>OeReadFile = (\<lambda>w p. (Inr p, w)), OeIsDir = (\<lambda>w p. (False, w)), OeReadDir = (\<lambda>w p. (Inr [], w)),
      OeParseURL = (\<lambda>u. Inl (ErrText ''url'')), OeGet = (\<lambda>t w u. (Inl (ErrText ''offline''), w)),
      OeVerifyDetached = (\<lambda>b s k. if s = ''sig'' \<and> k = ''key'' then None else Some (ErrText ''bad'')),
      OeParsePublicKey = (\<lambda>b. Inl (ErrText ''key'')), OeMarshalPKIX = (\<lambda>k. Inl (ErrText ''key'')), OePem = (\<lambda>d. d),
      OeKeyConfig = (\<lambda>k a. Inl (ErrText ''key'')), OeReadBundle = (\<lambda>d k. Inl (ErrText ''bundle'')), OeCompile = (\<lambda>ms. None),
      OePrepare = (\<lambda>ms d q. Inr (\<lambda>w input. (Inr [[JBool False]], w))), OeYaml = (\<lambda>d. Inr file),
      OeManifestYaml = (\<lambda>d. Inr sample_network_manifest), OeClock = (\<lambda>w. (0, w)),
      OeTimes = \<lparr>ParseTime = (\<lambda>s. Some 0), FormatTime = (\<lambda>t. [])\<rparr>, OeFloat = small_float, OeOrder = (\<lambda>m. [])\<rparr>"

definition sample_opa_settings :: "string \<rightharpoonup> string" where
  "sample_opa_settings = [''networkPolicyConfig'' \<mapsto> ''policies.yaml'']"

definition sample_policy_config :: PolicyConfig where
  "sample_policy_config = \<lparr>PcType = ''file'', PcLocation = ''p.rego'', PcPolicyPaths = [''p.rego''], PcQuery = ''q'', PcEnabled = True,
     PcFetchTimeout = defaultPolicyFetchTimeout, PcIsBundle = False,
     PcVerification = Some \<lparr>AvEnabled = True, AvPublicKeyLookupURL = ''key'', AvSignatureLocation = ''sig'',
       AvAlgorithm = defaultBundleVerificationAlgorithm\<rparr>,
     PcRuntimeConfig = Map.empty\<rparr>"

lemma sample_trims:
  "TrimSpace ''policies.yaml'' = ''policies.yaml''" "TrimSpace ''key'' = ''key''" "TrimSpace ''sig'' = ''sig''" "TrimSpace [] = []"
  "TrimSpace ''ns/reg'' = ''ns/reg''"
  by code_simp+

lemma sample_config:
  "opa_ParseConfig pd sample_opa_settings = Inr (opa_DefaultConfig\<lparr>OpNetworkPolicyConfig := ''policies.yaml''\<rparr>)"
proof -
  have "other_settings knownKeys sample_opa_settings = Map.empty"
    by (auto simp: other_settings_def knownKeys_def sample_opa_settings_def)
  then show ?thesis by (simp add: opa_ParseConfig_def sample_opa_settings_def sample_trims opa_DefaultConfig_def Let_def)
qed

definition signed_entry :: "string \<rightharpoonup> string" where
  "signed_entry = [''type'' \<mapsto> ''file'', ''location'' \<mapsto> ''p.rego'', ''query'' \<mapsto> ''q'', ''verification.enabled'' \<mapsto> ''true'',
     ''verification.publicKeyLookupUrl'' \<mapsto> ''key'', ''verification.signatureLocation'' \<mapsto> ''sig'']"

lemma signed_flat: "flatten_policies signed_file = Inr [(sample_network, signed_entry)]"
  by (simp add: signed_file_def sample_network_def sample_trims scalar_text_def signed_entry_def bind_result_def)

lemma manifest_flat: "flatten_policies manifest_file = Inr [(sample_network, [''type'' \<mapsto> ''manifest''])]"
  by (simp add: manifest_file_def sample_network_def sample_trims scalar_text_def bind_result_def)

lemma signed_parse: "parsePolicyConfig signed_entry = Inr sample_policy_config"
proof -
  have rest: "other_settings policyEntryKnownKeys signed_entry = Map.empty"
    by (auto simp: other_settings_def policyEntryKnownKeys_def signed_entry_def)
  have gets: "setting signed_entry ''type'' = ''file''" "setting signed_entry ''location'' = ''p.rego''" "setting signed_entry ''query'' = ''q''"
    "setting signed_entry ''fetchTimeoutSeconds'' = []" "setting signed_entry ''verification.enabled'' = ''true''"
    "setting signed_entry ''verification.publicKeyLookupUrl'' = ''key''" "setting signed_entry ''verification.signatureLocation'' = ''sig''"
    "setting signed_entry ''verification.algorithm'' = []" "signed_entry ''enabled'' = None"
    by (simp_all add: setting_def signed_entry_def)
  have "verification_of signed_entry = the (PcVerification sample_policy_config)"
    by (simp add: verification_of_def gets sample_trims sample_policy_config_def Let_def)
  then show ?thesis
    by (simp add: parsePolicyConfig_def gets rest pc_source_def pc_query_def pc_timeout_def pc_verification_def bind_result_def
        ParseBool_def policyTypeFile_def policyTypeDir_def policyTypeBundle_def policyTypeManifest_def defaultPolicyConfig_def
        sample_policy_config_def Let_def)
qed

definition sample_evaluator :: "'w Evaluator" where
  "sample_evaluator = \<lparr>EvQuery = (\<lambda>w input. (Inr [[JBool False]], w)), EvText = ''q'', EvRuntimeConfig = Map.empty,
     EvModuleNames = [''p.rego''], EvFailOnUndefined = True\<rparr>"

lemma sample_base: "path_Base ''p.rego'' = ''p.rego''" by code_simp

lemma sample_evaluator_built:
  assumes "AvPublicKeyLookupURL v = ''key''" "AvSignatureLocation v = ''sig''" "AvEnabled v"
  shows "NewEvaluator (sample_opa f) w [''p.rego''] ''q'' Map.empty False t (Some v) = (Inr sample_evaluator, w)"
proof -
  have read: "readArtifact (sample_opa f) t w ''sig'' maxPolicySize = (Inr ''sig'', w)"
    "readArtifact (sample_opa f) t w ''key'' maxPolicySize = (Inr ''key'', w)"
    "loadSinglePolicy (sample_opa f) t w ''p.rego'' = (Inr (''p.rego'', ''p.rego''), w)" for t w
    by (simp_all add: readArtifact_def loadSinglePolicy_def isURL_def HasPrefix_def sample_opa_def maxPolicySize_def sample_base)
  have check: "OeVerifyDetached (sample_opa f) b ''sig'' ''key'' = None" "OeCompile (sample_opa f) ms = None"
    "OePrepare (sample_opa f) ms d q = Inr (\<lambda>w input. (Inr [[JBool False]], w))" for b ms d q
    by (simp_all add: sample_opa_def)
  show ?thesis
    by (simp add: NewEvaluator_def newRegoEvaluator_def wants_verification_def assms load_signed_def read check bind_result_def
        compileAndPrepare_def sample_evaluator_def Let_def)
qed

definition signed_policy :: "'w LoadedPolicy" where
  "signed_policy = \<lparr>LpName = sample_network, LpConfig = sample_policy_config, LpEvaluator = Some sample_evaluator,
     LpSourceType = ''file'', LpDeclaredSigned = None, LpVerified = False\<rparr>"

definition sample_loop :: "'w ManifestLoaderMethods option \<Rightarrow> 'w LoadedPolicy \<Rightarrow> 'w \<Rightarrow> 'w LoopState" where
  "sample_loop ld p w =
     \<lparr>LsEnforcer = \<lparr>PeConfig = opa_DefaultConfig\<lparr>OpNetworkPolicyConfig := ''policies.yaml''\<rparr>, PeLoader = ld,
        PePolicies = [sample_network \<mapsto> p], PeDefault = None\<rparr>,
      LsDone = False, LsCancelled = False, LsRunning = False, LsWorld = w\<rparr>"

lemma sample_New:
  fixes w :: 'w
  assumes "flatten_policies f = Inr [(sample_network, raw)]" "f \<noteq> []" "parsePolicyConfig raw = Inr pc"
    "loadPolicy (sample_opa f) w ld sample_network pc Map.empty = (Inr p, w')"
  shows "opa_provider_New (sample_opa f) pd w ld sample_opa_settings = (Inr (sample_loop ld p w'), w')"
proof -
  have "loadNetworkPolicies (OeReadFile (sample_opa f)) (OeYaml (sample_opa f :: 'w OpaEnv)) w ''policies.yaml'' = (Inr [(sample_network, raw)], w)"
    using assms(1,2) by (simp add: loadNetworkPolicies_def sample_opa_def)
  moreover have "sample_network \<noteq> ''default''" by (simp add: sample_network_def)
  ultimately have "loadNetworkPoliciesForEnforcer (sample_opa f) w ld (opa_DefaultConfig\<lparr>OpNetworkPolicyConfig := ''policies.yaml''\<rparr>) =
      (Inr ([sample_network \<mapsto> p], None), w')"
    using assms(3,4) by (simp add: loadNetworkPoliciesForEnforcer_def opa_DefaultConfig_def)
  then show ?thesis
    by (simp add: opa_provider_New_def NewWithManifestLoader_def sample_config sample_loop_def opa_DefaultConfig_def Let_def)
qed

lemma signed_New:
  "opa_provider_New (sample_opa signed_file) pd w ld sample_opa_settings = (Inr (sample_loop ld signed_policy w), w)"
proof (rule sample_New [OF signed_flat _ signed_parse])
  show "loadPolicy (sample_opa signed_file) w ld sample_network sample_policy_config Map.empty = (Inr signed_policy, w)"
    by (simp add: loadPolicy_def prepare_policy_def sample_policy_config_def mergeRuntimeConfig_def policyTypeManifest_def
        sample_evaluator_built signed_policy_def Let_def)
qed (simp add: signed_file_def)

definition network_request :: "string \<Rightarrow> StepContext" where
  "network_request extra = sample_ctx\<lparr>Body := ''{'' @ [CHR 0x22] @ ''context'' @ [CHR 0x22] @ '':{'' @ [CHR 0x22] @ ''network_id'' @ [CHR 0x22] @
     '':'' @ [CHR 0x22] @ ''ns/reg'' @ [CHR 0x22] @ extra @ ''}}''\<rparr>"

definition huge_number :: string where
  "huge_number = '','' @ [CHR 0x22] @ ''x'' @ [CHR 0x22] @ '':1e999''"

lemma sample_requests:
  "PrNetworkID (parseRequestContext small_float (Body (network_request []))) = sample_network"
  "\<not> context_numbers_ok small_float (Body (network_request huge_number))"
  "unmarshal_any small_float (Body (network_request [])) \<noteq> None"
  by code_simp+

lemma sample_float: "OeFloat (sample_opa f) = small_float" by (simp add: sample_opa_def)

lemma sample_selected: "selectedPolicy (LsEnforcer (sample_loop ld p w)) sample_network = Some p"
  by (simp add: selectedPolicy_def sample_loop_def sample_network_def)

theorem check_policy_exact_witness:
  "fst (CheckPolicy (sample_opa signed_file) (LsEnforcer (sample_loop None signed_policy ())) () (network_request [])) \<noteq> None"
proof -
  have "\<not> complies (sample_opa signed_file) signed_policy () (Body (network_request []))"
    by (simp add: complies_def signed_policy_def sample_evaluator_def)
  moreover have "OpEnabled (PeConfig (LsEnforcer (sample_loop None signed_policy ())))" "PcEnabled (LpConfig signed_policy)"
    by (simp_all add: sample_loop_def opa_DefaultConfig_def signed_policy_def sample_policy_config_def)
  ultimately show ?thesis
    using check_policy_exact [OF signed_New [of "\<lambda>s. None" "()" None] rtranclp.rtrancl_refl, of "()" "network_request []"]
    by (simp add: sample_float sample_requests sample_selected)
qed

theorem active_policies_verified_witness:
  "\<exists>ms. file_verified (sample_opa signed_file :: unit OpaEnv) (the (PcVerification sample_policy_config)) ''p.rego'' ms \<and> ms \<noteq> []"
proof -
  have "PcEnabled (LpConfig (signed_policy :: unit LoadedPolicy))" "LpConfig (signed_policy :: unit LoadedPolicy) = sample_policy_config"
    by (simp_all add: signed_policy_def sample_policy_config_def)
  with active_policies_verified [OF signed_New [of "\<lambda>s. None" "()" None] rtranclp.rtrancl_refl sample_selected]
  obtain ev ms data where "compiled_from (sample_opa signed_file :: unit OpaEnv) sample_policy_config ms data ev"
    "verified_modules (sample_opa signed_file :: unit OpaEnv) sample_policy_config ms data" by auto
  then show ?thesis by (auto simp: compiled_from_def verified_modules_def sample_policy_config_def)
qed

theorem unreadable_context_unchecked_witness:
  "CheckPolicy (sample_opa signed_file) (LsEnforcer (sample_loop None signed_policy ())) () (network_request huge_number) =
     (None, network_request huge_number, ())"
  by (rule unreadable_context_unchecked) (simp_all add: sample_float sample_requests sample_loop_def)

text \<open>A manifest loader that finds the manifest of the network.\<close>

definition network_loader :: "(string \<rightharpoonup> string) Loader" where
  "network_loader = sample_loader\<lparr>LdRegistry :=
     \<lparr>LookupRegistry = (\<lambda>w a b. (Inr (Some \<lparr>NamespaceIdentifier = a, RegistryName = b, RawMeta =
          [''manifestUrl'' \<mapsto> ''man'', ''manifestSignatureUrl'' \<mapsto> ''sig'', ''signingPublicKeyLookupUrl'' \<mapsto> ''key'']\<rparr>), w)),
      LookupNode = (\<lambda>w n. (Inr None, w)), QueryByNetwork = (\<lambda>w n. (Inr [], w))\<rparr>\<rparr>"

lemma network_loader_over: "loader_over network_loader memory_redis (\<lambda>w. w)"
  using sample_loader_over by (simp add: loader_over_def network_loader_def)

lemma network_loader_fields:
  "LdVerify network_loader c ''sig'' ''key'' = None" "LdSha256 network_loader c = []" "LdClock network_loader w = (7, w)"
  "LdCodec network_loader = decimal_codec" "\<not> DisableCache (LdConfig network_loader)" "\<not> ForceRefreshOnStart (LdConfig network_loader)"
  "\<not> SkipSignatureVerification (LdConfig network_loader)" "LdCache network_loader = cache_plugin memory_redis"
  "fetchURL network_loader w ''man'' = (Inr (''man'', []), w)" "fetchURL network_loader w ''sig'' = (Inr (''sig'', []), w)"
  "fetchURL network_loader w ''key'' = (Inr (''key'', []), w)"
  by (simp_all add: network_loader_def sample_loader_def fetchURL_def read_limited_def maxManifestArtifactSize_def header_Get_def)

lemma network_metadata:
  "LookupRegistry (LdRegistry network_loader) w a b = (rm, w') \<Longrightarrow>
     w' = w \<and> (\<exists>m. rm = Inr m \<and> metadataFromRegistry m False = Inr sample_metadata)"
proof -
  have "\<not> blank ''man''" "\<not> blank ''sig''" "\<not> blank ''key''" by code_simp+
  then show "LookupRegistry (LdRegistry network_loader) w a b = (rm, w') \<Longrightarrow> ?thesis"
    by (auto simp: network_loader_def metadataFromRegistry_def validateMetadata_def meta_urls_def cfg_get_def sample_metadata_def)
qed

lemma network_getByMetadata: "\<exists>w'. loader_getByMetadata network_loader Map.empty sample_metadata False = (Inr sample_document, w')"
proof -
  have "\<not> blank ''man''" "\<not> blank ''sig''" "\<not> blank ''key''" by code_simp+
  moreover have "time_text decimal_codec 7 \<noteq> None" by (simp add: decimal_codec_def int64_def)
  ultimately show ?thesis
    by (auto simp: loader_getByMetadata_def sample_metadata_def validateMetadata_def network_loader_fields
        loadFromCache_def cache_plugin_def cache_Get_def cache_Set_def memory_redis_def fetch_manifest_def verify_manifest_def
        loader_store_def marshal_document_def sample_document_def hex_encode_def Let_def)
qed

lemma network_loads:
  "\<exists>s'. GetByNetworkID (loader_methods network_loader) (Map.empty, {}) sample_network =
     (Inr (Some (sample_document\<lparr>MdNetworkID := sample_network\<rparr>)), s')"
proof -
  have split: "splitNetworkID sample_network = Inr (''ns'', ''reg'')" "\<not> blank sample_network" by code_simp+
  obtain rm w1 where look: "LookupRegistry (LdRegistry network_loader) Map.empty ''ns'' ''reg'' = (rm, w1)" by fastforce
  then obtain m where m: "rm = Inr m" "w1 = Map.empty" "metadataFromRegistry m False = Inr sample_metadata"
    using network_metadata by blast
  obtain w2 where got: "loader_getByMetadata network_loader Map.empty sample_metadata False = (Inr sample_document, w2)"
    using network_getByMetadata by blast
  have "time_text decimal_codec 7 \<noteq> None" by (simp add: decimal_codec_def int64_def)
  then obtain w3 where "loader_store network_loader w2 (networkCacheKey sample_network) (sample_document\<lparr>MdNetworkID := sample_network\<rparr>) = (None, w3)"
    by (auto simp: loader_store_def marshal_document_def network_loader_fields cache_plugin_def cache_Set_def memory_redis_def sample_document_def)
  with got look m split have "\<exists>w3. lookup_network network_loader Map.empty sample_network False =
      (Inr (Some (sample_document\<lparr>MdNetworkID := sample_network\<rparr>)), w3)"
    by (simp add: lookup_network_def fetch_for_id_def network_loader_fields)
  moreover have "loadFromCache network_loader Map.empty k = (Inr None, Map.empty)" for k
    by (simp add: loadFromCache_def network_loader_fields cache_plugin_def cache_Get_def memory_redis_def)
  ultimately show ?thesis
    using split by (auto simp: loader_methods_def loader_GetByNetworkID_def lookup_by_key_def shouldBypassCache_def network_loader_fields Let_def)
qed

lemma manifest_parse:
  "parsePolicyConfig [''type'' \<mapsto> ''manifest''] = Inr (defaultPolicyConfig\<lparr>PcType := ''manifest''\<rparr>)"
proof -
  have "other_settings policyEntryKnownKeys [''type'' \<mapsto> ''manifest''] = Map.empty"
    by (auto simp: other_settings_def policyEntryKnownKeys_def)
  moreover have "setting [''type'' \<mapsto> ''manifest''] k = (if k = ''type'' then ''manifest'' else [])" for k by (simp add: setting_def)
  ultimately show ?thesis
    by (simp add: parsePolicyConfig_def pc_source_def pc_query_def pc_timeout_def pc_verification_def bind_result_def sample_trims
        policyTypeFile_def policyTypeDir_def policyTypeBundle_def policyTypeManifest_def defaultPolicyConfig_def Let_def)
qed

lemma sample_manifest_valid: "NetworkManifest_Validate (OeTimes (sample_opa f)) (Some sample_network_manifest) sample_network 0 = None"
proof -
  have "\<not> blank ''1''" "\<not> blank ''r1''" "\<not> blank ''nfo''" "\<not> blank ''d''" "\<not> blank ''f''" "\<not> blank ''p.rego''" "\<not> blank ''q''"
    "\<not> blank ''sig''" "\<not> blank ''key''" by code_simp+
  moreover have "sample_network \<noteq> []" by (simp add: sample_network_def)
  ultimately show ?thesis
    by (simp add: NetworkManifest_Validate_def sample_network_manifest_def check_period_def check_policies_def sample_opa_def
        PolicySourceBundle_def PolicySourceFile_def Let_def)
qed

lemma sample_manifest_config:
  assumes "NwPolicies sample_network_manifest = Some pol"
  shows "\<exists>c v. manifest_config n base pol = Inr c \<and> PcEnabled c = PcEnabled base \<and> PcPolicyPaths c = [''p.rego''] \<and> PcQuery c = ''q'' \<and>
    \<not> PcIsBundle c \<and> PcVerification c = Some v \<and> AvEnabled v \<and> AvPublicKeyLookupURL v = ''key'' \<and> AvSignatureLocation v = ''sig'' \<and>
    PcRuntimeConfig c = PcRuntimeConfig base"
  using assms
  by (auto simp: sample_network_manifest_def manifest_config_def PolicySourceBundle_def PolicySourceFile_def mergeRuntimeConfig_def Let_def)

lemma manifest_loaded:
  assumes "GetByNetworkID methods w sample_network = (Inr (Some doc), w')"
  shows "\<exists>p. loadPolicy (sample_opa f) w (Some methods) sample_network (defaultPolicyConfig\<lparr>PcType := ''manifest''\<rparr>) Map.empty = (Inr p, w') \<and>
    PcEnabled (LpConfig p) \<and> LpSourceType p = policyTypeManifest"
proof -
  define base where "base = defaultPolicyConfig\<lparr>PcType := ''manifest''\<rparr>"
  obtain pol where pol: "NwPolicies sample_network_manifest = Some pol" by (simp add: sample_network_manifest_def)
  obtain c v where c: "manifest_config sample_network base pol = Inr c" "PcEnabled c = PcEnabled base" "PcPolicyPaths c = [''p.rego'']"
    "PcQuery c = ''q''" "\<not> PcIsBundle c" "PcVerification c = Some v" "AvEnabled v" "AvPublicKeyLookupURL v = ''key''"
    "AvSignatureLocation v = ''sig''" "PcRuntimeConfig c = PcRuntimeConfig base"
    using sample_manifest_config [OF pol, of sample_network base] by auto
  have name: "sample_network \<noteq> ''default''" by (simp add: sample_network_def)
  have env: "OeManifestYaml (sample_opa f) d = Inr sample_network_manifest" "OeClock (sample_opa f) w = (0, w)" for d w
    by (simp_all add: sample_opa_def)
  have base: "base\<lparr>PcRuntimeConfig := Map.empty\<rparr> = base" "PcEnabled base" "PcRuntimeConfig base = Map.empty" "PcType base = policyTypeManifest"
    by (simp_all add: base_def defaultPolicyConfig_def policyTypeManifest_def)
  have "resolveManifestPolicyConfig (sample_opa f) w sample_network base (Some methods) =
      (Inr \<lparr>RmConfig = c, RmDeclaredSigned = GvSigned (NwGovernance sample_network_manifest), RmVerified = MdVerified doc\<rparr>, w')"
    by (simp add: resolveManifestPolicyConfig_def name assms resolve_document_def env sample_manifest_valid pol c(1) bind_result_def)
  then show ?thesis
    unfolding base_def [symmetric]
    by (simp add: loadPolicy_def prepare_policy_def c base sample_evaluator_built mergeRuntimeConfig_def Let_def)
qed

theorem manifest_policies_authentic_witness:
  "\<exists>doc c. authentic network_loader doc \<and> follows_manifest (sample_opa manifest_file :: (string \<rightharpoonup> string) ld_state OpaEnv) sample_network doc c"
proof -
  let ?ld = "Some (loader_methods network_loader)"
  obtain s' where "GetByNetworkID (loader_methods network_loader) (Map.empty, {}) sample_network =
      (Inr (Some (sample_document\<lparr>MdNetworkID := sample_network\<rparr>)), s')" using network_loads by blast
  from manifest_loaded [OF this, of manifest_file] obtain p where p: "PcEnabled (LpConfig p)" "LpSourceType p = policyTypeManifest"
    "loadPolicy (sample_opa manifest_file) (Map.empty, {}) ?ld sample_network (defaultPolicyConfig\<lparr>PcType := ''manifest''\<rparr>) Map.empty = (Inr p, s')"
    by blast
  have new: "opa_provider_New (sample_opa manifest_file) (\<lambda>s. None) (Map.empty, {}) ?ld sample_opa_settings = (Inr (sample_loop ?ld p s'), s')"
    by (rule sample_New [OF manifest_flat _ manifest_parse p(3)]) (simp add: manifest_file_def)
  have "leaves_cache (sample_opa manifest_file) (\<lambda>w. w)" by (auto simp: leaves_cache_def sample_opa_def)
  with manifest_policies_authentic [OF network_loader_over this _ network_loader_fields(7) new rtranclp.rtrancl_refl sample_selected p(1,2)]
  show ?thesis by auto
qed

definition denied_request :: "goerr option" where
  "denied_request = fst (CheckPolicy (sample_opa signed_file) (LsEnforcer (sample_loop None signed_policy ())) () (network_request []))"

theorem check_policy_errors_witness:
  "\<exists>err b. denied_request = Some err \<and> as_coded err = Some (b, 400)"
proof -
  let ?e = "LsEnforcer (sample_loop None signed_policy ())"
  have e: "OpEnabled (PeConfig ?e)" "PcEnabled (LpConfig (signed_policy :: unit LoadedPolicy))" "LpEvaluator signed_policy = Some sample_evaluator"
    by (simp_all add: sample_loop_def opa_DefaultConfig_def signed_policy_def sample_policy_config_def)
  obtain input where "unmarshal_any small_float (Body (network_request [])) = Some input" using sample_requests(3) by blast
  then have run: "CheckPolicy (sample_opa signed_file) ?e () (network_request []) =
      (Some (violation_error [violation [] genericDenialMessage]), network_request [], ())"
    by (simp add: CheckPolicy_def e sample_float sample_requests sample_selected Evaluate_def sample_evaluator_def extractViolations_def
        expression_violations_def)
  then have "\<not> is_panic (violation_error [violation [] genericDenialMessage])" by (simp add: violation_error_def)
  with check_policy_errors [OF run] run show ?thesis by (auto simp: denied_request_def)
qed

end
