(* ===== verification/Encryption.thy ===== *)
theory Encryption
  imports Beckn_Model Go_Base64
begin

text \<open>
  The encrypter and decrypter plugins (\<open>encrypter.go\<close>, \<open>decrypter.go\<close>). X25519, AES and the PKCS#7 padding of
  the package \<open>pkcs7pad\<close> are the fields of \<open>BoxLib\<close>. The loops over the blocks advance by \<open>BlockSize()\<close>, so that they
  are partial functions, with \<^term>\<open>None\<close> for a loop that does not end; that they end is proved.
\<close>

subsection \<open>The libraries\<close>

record BlockCipher =
  BlockSize :: nat
  BlEncrypt :: "string \<Rightarrow> string"
  BlDecrypt :: "string \<Rightarrow> string"

record BoxLib =
  XNewPrivateKey :: "string \<Rightarrow> goerr option"
  XNewPublicKey :: "string \<Rightarrow> goerr option"
  XSharedSecret :: "string \<Rightarrow> string \<Rightarrow> goerr + string"
  AesNewCipher :: "string \<Rightarrow> goerr + BlockCipher"
  Pkcs7Pad :: "string \<Rightarrow> nat \<Rightarrow> string"
  Pkcs7Unpad :: "string \<Rightarrow> goerr + string"

subsection \<open>Both plugins\<close>

definition box_code :: string where "box_code = ''AUT_SIGNATURE_INVALID''"

definition decode_key :: "string \<Rightarrow> string \<Rightarrow> goerr + string" where
  "decode_key what s =
     (case b64_decode s of
        None \<Rightarrow> Inl (NewBadReqErr box_code (ErrWrap what (ErrText ''illegal base64 data'')))
      | Some b \<Rightarrow> Inr b)"

definition createAESCipher :: "BoxLib \<Rightarrow> string \<Rightarrow> string \<Rightarrow> goerr + BlockCipher" where
  "createAESCipher L privateKey publicKey =
     (case XNewPrivateKey L privateKey of
        Some e \<Rightarrow> Inl (NewBadReqErr box_code (errorf_w ''failed to create private key: '' e))
      | None \<Rightarrow>
          (case XNewPublicKey L publicKey of
             Some e \<Rightarrow> Inl (NewBadReqErr box_code (errorf_w ''failed to create public key: '' e))
           | None \<Rightarrow>
               (case XSharedSecret L privateKey publicKey of
                  Inl e \<Rightarrow> Inl (errorf_w ''failed to derive shared secret: '' e)
                | Inr sharedSecret \<Rightarrow>
                    (case AesNewCipher L sharedSecret of
                       Inl e \<Rightarrow> Inl (errorf_w ''failed to create AES cipher: '' e)
                     | Inr b \<Rightarrow> Inr b))))"

text \<open>The loop over the blocks, in place; \<open>f\<close> is the operation on a block.\<close>

partial_function (option) crypt_loop :: "(string \<Rightarrow> string) \<Rightarrow> nat \<Rightarrow> string \<Rightarrow> nat \<Rightarrow> (goerr + string) option" where
  "crypt_loop f bs data i =
     (if i < length data then
        (if i + bs > length data then Some (Inl (GoPanic ''runtime error: slice bounds out of range''))
         else crypt_loop f bs (take i data @ f (take bs (drop i data)) @ drop (i + bs) data) (i + bs))
      else Some (Inr data))"

definition Encrypt :: "BoxLib \<Rightarrow> string \<Rightarrow> string \<Rightarrow> string \<Rightarrow> (goerr + string) option" where
  "Encrypt L data privateKeyBase64 publicKeyBase64 =
     (case decode_key ''invalid private key: '' privateKeyBase64 of
        Inl e \<Rightarrow> Some (Inl e)
      | Inr privateKey \<Rightarrow>
          (case decode_key ''invalid public key: '' publicKeyBase64 of
             Inl e \<Rightarrow> Some (Inl e)
           | Inr publicKey \<Rightarrow>
               (case createAESCipher L privateKey publicKey of
                  Inl e \<Rightarrow> Some (Inl (errorf_w ''failed to create AES cipher: '' e))
                | Inr b \<Rightarrow>
                    map_option (map_sum id b64_encode) (crypt_loop (BlEncrypt b) (BlockSize b) (Pkcs7Pad L data (BlockSize b)) 0))))"

definition unpadded :: "BoxLib \<Rightarrow> goerr + string \<Rightarrow> goerr + string" where
  "unpadded L r =
     (case r of
        Inl e \<Rightarrow> Inl e
      | Inr message \<Rightarrow> (case Pkcs7Unpad L message of Inl e \<Rightarrow> Inl (errorf_w ''failed to unpad data: '' e) | Inr m \<Rightarrow> Inr m))"

definition Decrypt :: "BoxLib \<Rightarrow> string \<Rightarrow> string \<Rightarrow> string \<Rightarrow> (goerr + string) option" where
  "Decrypt L encryptedData privateKeyBase64 publicKeyBase64 =
     (case decode_key ''invalid private key: '' privateKeyBase64 of
        Inl e \<Rightarrow> Some (Inl e)
      | Inr privateKey \<Rightarrow>
          (case decode_key ''invalid public key: '' publicKeyBase64 of
             Inl e \<Rightarrow> Some (Inl e)
           | Inr publicKey \<Rightarrow>
               (case decode_key ''failed to decode encrypted data: '' encryptedData of
                  Inl e \<Rightarrow> Some (Inl e)
                | Inr message \<Rightarrow>
                    (case createAESCipher L privateKey publicKey of
                       Inl e \<Rightarrow> Some (Inl (errorf_w ''failed to create AES cipher: '' e))
                     | Inr b \<Rightarrow>
                         if length message mod BlockSize b \<noteq> 0 then
                           Some (Inl (NewBadReqErr box_code (ErrText ''ciphertext is not a multiple of the blocksize'')))
                         else map_option (unpadded L) (crypt_loop (BlDecrypt b) (BlockSize b) message 0)))))"

subsection \<open>Blocks\<close>

fun blocks_of :: "nat \<Rightarrow> string \<Rightarrow> string list" where
  "blocks_of n s = (if n = 0 \<or> s = [] then [] else take n s # blocks_of n (drop n s))"

declare blocks_of.simps [simp del]

lemma blocks_of_Nil [simp]: "blocks_of n [] = []"
  by (simp add: blocks_of.simps)

lemma crypt_loop_step:
  "length b = bs \<Longrightarrow> 0 < bs \<Longrightarrow> crypt_loop f bs (pre @ b @ rest) (length pre) = crypt_loop f bs (pre @ f b @ rest) (length pre + bs)"
  by (subst crypt_loop.simps) auto

lemma crypt_loop_end: "length data \<le> i \<Longrightarrow> crypt_loop f bs data i = Some (Inr data)"
  by (subst crypt_loop.simps) simp

text \<open>On whole blocks the loop maps the operation over the blocks.\<close>

lemma crypt_loop_blocks:
  assumes "0 < bs" and "bs dvd length rest" and "\<And>x. length x = bs \<Longrightarrow> length (f x) = bs"
  shows "crypt_loop f bs (pre @ rest) (length pre) = Some (Inr (pre @ concat (map f (blocks_of bs rest))))"
  using assms(2)
proof (induction "length rest" arbitrary: pre rest rule: less_induct)
  case less
  show ?case
  proof (cases "rest = []")
    case False
    with less.prems assms(1) have len: "bs \<le> length rest" by (simp add: dvd_imp_le)
    let ?b = "take bs rest" and ?r = "drop bs rest"
    have b: "length ?b = bs" using len by simp
    have dvd: "bs dvd length ?r" using less.prems by simp
    have small: "length ?r < length rest" using len assms(1) False by simp
    have "crypt_loop f bs (pre @ rest) (length pre) = crypt_loop f bs (pre @ ?b @ ?r) (length pre)" by simp
    also have "\<dots> = crypt_loop f bs ((pre @ f ?b) @ ?r) (length (pre @ f ?b))"
      unfolding crypt_loop_step [OF b assms(1)] using assms(3) [OF b] by simp
    also have "\<dots> = Some (Inr ((pre @ f ?b) @ concat (map f (blocks_of bs ?r))))"
      by (rule less.hyps [OF small dvd])
    also have "\<dots> = Some (Inr (pre @ concat (map f (blocks_of bs rest))))"
      using False assms(1) by (simp add: blocks_of.simps [of bs rest])
    finally show ?thesis .
  qed (simp add: crypt_loop_end)
qed

lemma blocks_of_concat:
  assumes "0 < bs" and "bs dvd length s"
  shows "concat (blocks_of bs s) = s \<and> (\<forall>b \<in> set (blocks_of bs s). length b = bs)"
  using assms(2)
proof (induction "length s" arbitrary: s rule: less_induct)
  case less
  show ?case
  proof (cases "s = []")
    case False
    with less.prems assms(1) have len: "bs \<le> length s" by (simp add: dvd_imp_le)
    then have "length (drop bs s) < length s" "bs dvd length (drop bs s)" using assms(1) False less.prems by simp_all
    note rest = less.hyps [OF this]
    have unf: "blocks_of bs s = take bs s # blocks_of bs (drop bs s)" using False assms(1) by (subst blocks_of.simps) simp
    show ?thesis
    proof
      show "concat (blocks_of bs s) = s"
        unfolding unf using conjunct1 [OF rest] by (simp only: concat.simps append_take_drop_id)
      show "\<forall>b \<in> set (blocks_of bs s). length b = bs"
        unfolding unf list.set using conjunct2 [OF rest] len by (metis insert_iff length_take min.absorb2)
    qed
  qed simp
qed

lemma blocks_of_blocks:
  "0 < bs \<Longrightarrow> \<forall>b \<in> set bl. length b = bs \<Longrightarrow> blocks_of bs (concat bl) = bl"
proof (induction bl)
  case (Cons b bl)
  then show ?case by (auto simp: blocks_of.simps [of bs "b @ concat bl"])
qed simp

subsection \<open>Laws of the libraries\<close>

text \<open>AES has blocks of 16 bytes, which it permutes.\<close>

definition aes_behaves :: "BoxLib \<Rightarrow> bool" where
  "aes_behaves L \<longleftrightarrow>
     (\<forall>k b. AesNewCipher L k = Inr b \<longrightarrow> BlockSize b = 16 \<and>
        (\<forall>x. length x = 16 \<longrightarrow> length (BlEncrypt b x) = 16 \<and> length (BlDecrypt b x) = 16 \<and> BlDecrypt b (BlEncrypt b x) = x))"

definition padding_behaves :: "BoxLib \<Rightarrow> bool" where
  "padding_behaves L \<longleftrightarrow> (\<forall>s. 16 dvd length (Pkcs7Pad L s 16) \<and> Pkcs7Unpad L (Pkcs7Pad L s 16) = Inr s)"

text \<open>Two X25519 key pairs derive the same secret.\<close>

definition agree :: "BoxLib \<Rightarrow> string \<Rightarrow> string \<Rightarrow> string \<Rightarrow> string \<Rightarrow> bool" where
  "agree L priv1 pub1 priv2 pub2 \<longleftrightarrow>
     XNewPrivateKey L priv2 = None \<and> XNewPublicKey L pub1 = None \<and> XSharedSecret L priv2 pub1 = XSharedSecret L priv1 pub2"

definition no_panic :: "goerr + 'a \<Rightarrow> bool" where
  "no_panic r = (case r of Inl e \<Rightarrow> \<not> is_panic e | Inr x \<Rightarrow> True)"

definition box_calm :: "BoxLib \<Rightarrow> bool" where
  "box_calm L \<longleftrightarrow> (\<forall>a b. no_panic (XSharedSecret L a b)) \<and> (\<forall>k. no_panic (AesNewCipher L k)) \<and> (\<forall>s. no_panic (Pkcs7Unpad L s))"

lemma createAESCipher_cases:
  assumes "aes_behaves L" "createAESCipher L a b = Inr c"
  shows "BlockSize c = 16 \<and> (\<forall>x. length x = 16 \<longrightarrow> length (BlEncrypt c x) = 16 \<and> length (BlDecrypt c x) = 16 \<and> BlDecrypt c (BlEncrypt c x) = x)"
  using assms by (auto simp: createAESCipher_def aes_behaves_def split: option.splits sum.splits)

lemma no_panicD: "no_panic (Inl e) \<Longrightarrow> \<not> is_panic e"
  by (simp add: no_panic_def)

lemma createAESCipher_calm:
  assumes "box_calm L" "createAESCipher L a b = Inl e"
  shows "\<not> is_panic e"
proof -
  have "no_panic (XSharedSecret L a b)" "no_panic (AesNewCipher L k)" for k using assms(1) by (simp_all add: box_calm_def)
  with assms(2) show ?thesis
    by (auto simp: createAESCipher_def dest!: no_panicD split: option.splits sum.splits) (metis no_panicD)
qed

lemma decode_key_calm: "no_panic (decode_key what s)"
  by (simp add: decode_key_def no_panic_def split: option.splits)

lemma Encrypt_blocks:
  assumes "aes_behaves L" "padding_behaves L" "createAESCipher L a p = Inr b" "decode_key ''invalid private key: '' ka = Inr a"
    "decode_key ''invalid public key: '' kp = Inr p"
  shows "Encrypt L data ka kp = Some (Inr (b64_encode (concat (map (BlEncrypt b) (blocks_of 16 (Pkcs7Pad L data 16))))))"
proof -
  note b = createAESCipher_cases [OF assms(1,3)]
  have "crypt_loop (BlEncrypt b) 16 (Pkcs7Pad L data 16) 0 = Some (Inr (concat (map (BlEncrypt b) (blocks_of 16 (Pkcs7Pad L data 16)))))"
    using crypt_loop_blocks [of 16 "Pkcs7Pad L data 16" "BlEncrypt b" "[]"] b assms(2) by (simp add: padding_behaves_def)
  with assms b show ?thesis by (simp add: Encrypt_def)
qed

lemma Decrypt_blocks:
  assumes "aes_behaves L" "createAESCipher L a p = Inr b" "16 dvd length message"
  shows "crypt_loop (BlDecrypt b) (BlockSize b) message 0 = Some (Inr (concat (map (BlDecrypt b) (blocks_of 16 message))))"
proof -
  note b = createAESCipher_cases [OF assms(1,2)]
  have "crypt_loop (BlDecrypt b) 16 message 0 = Some (Inr (concat (map (BlDecrypt b) (blocks_of 16 message))))"
    using crypt_loop_blocks [of 16 message "BlDecrypt b" "[]"] b assms(3) by simp
  with b show ?thesis by simp
qed

subsection \<open>Properties\<close>

text \<open>C28: Encrypt and Decrypt end without a panic on every input. With a cipher of 16-byte blocks, padding to whole
  blocks and libraries that do not panic, the loops over the blocks reach the end of the data, whatever the keys and
  the data are.\<close>

theorem encryption_returns:
  assumes "aes_behaves L" and "padding_behaves L" and "box_calm L"
  shows "(\<exists>r. Encrypt L data priv pub = Some r \<and> no_panic r) \<and> (\<exists>r. Decrypt L data priv pub = Some r \<and> no_panic r)"
proof -
  obtain a p d where keys: "decode_key ''invalid private key: '' priv = a" "decode_key ''invalid public key: '' pub = p"
    "decode_key ''failed to decode encrypted data: '' data = d" by blast
  have calm: "no_panic a" "no_panic p" "no_panic d" using decode_key_calm keys by blast+
  have E: "\<exists>r. Encrypt L data priv pub = Some r \<and> no_panic r"
  proof (cases "\<exists>x y b. a = Inr x \<and> p = Inr y \<and> createAESCipher L x y = Inr b")
    case True
    then show ?thesis using Encrypt_blocks [OF assms(1,2)] keys by (auto simp: no_panic_def)
  next
    case False
    with keys calm createAESCipher_calm [OF assms(3)] show ?thesis
      by (auto simp: Encrypt_def no_panic_def split: sum.split)
  qed
  have D: "\<exists>r. Decrypt L data priv pub = Some r \<and> no_panic r"
  proof (cases "\<exists>x y m b. a = Inr x \<and> p = Inr y \<and> d = Inr m \<and> createAESCipher L x y = Inr b \<and> length m mod 16 = 0")
    case True
    then obtain x y m b where ok: "a = Inr x" "p = Inr y" "d = Inr m" "createAESCipher L x y = Inr b" "16 dvd length m" by auto
    then have "Decrypt L data priv pub = Some (unpadded L (Inr (concat (map (BlDecrypt b) (blocks_of 16 m)))))"
      using keys Decrypt_blocks [OF assms(1) ok(4,5)] createAESCipher_cases [OF assms(1) ok(4)] by (simp add: Decrypt_def)
    moreover have "no_panic (unpadded L (Inr s))" for s
      using assms(3) by (auto simp: unpadded_def box_calm_def no_panic_def split: sum.splits)
    ultimately show ?thesis by blast
  next
    case False
    with keys calm createAESCipher_calm [OF assms(3)] createAESCipher_cases [OF assms(1)] show ?thesis
      by (auto simp: Decrypt_def no_panic_def split: sum.split)
  qed
  from E D show ?thesis ..
qed

text \<open>C27: Round trip. Whatever text one side encrypts with its private key and the other side's public key, the other
  side decrypts to that text with its private key and the first side's public key.\<close>

theorem encryption_roundtrip:
  assumes "aes_behaves L" and "padding_behaves L" and "agree L priv1 pub1 priv2 pub2"
    and "Encrypt L text (b64_encode priv1) (b64_encode pub2) = Some (Inr c)"
  shows "Decrypt L c (b64_encode priv2) (b64_encode pub1) = Some (Inr text)"
proof -
  have keys: "decode_key what (b64_encode k) = Inr k" for what k by (simp add: decode_key_def)
  obtain b where b: "createAESCipher L priv1 pub2 = Inr b"
    using assms(4) by (cases "createAESCipher L priv1 pub2") (auto simp: Encrypt_def keys)
  have b2: "createAESCipher L priv2 pub1 = Inr b"
    using b assms(3) by (auto simp: createAESCipher_def agree_def split: option.splits sum.splits)
  note cipher = createAESCipher_cases [OF assms(1) b]
  let ?m = "Pkcs7Pad L text 16"
  let ?bl = "blocks_of 16 ?m"
  have pad: "16 dvd length ?m" "Pkcs7Unpad L ?m = Inr text" using assms(2) by (simp_all add: padding_behaves_def)
  note bl = blocks_of_concat [of 16 ?m, OF _ pad(1), simplified]
  let ?e = "concat (map (BlEncrypt b) ?bl)"
  have c: "c = b64_encode ?e" using Encrypt_blocks [OF assms(1,2) b keys keys] assms(4) by simp
  have enc: "blocks_of 16 ?e = map (BlEncrypt b) ?bl" by (rule blocks_of_blocks) (use bl cipher in auto)
  have "length ?e = 16 * length ?bl"
    using bl cipher by (simp add: length_concat comp_def sum_list_triv cong: map_cong)
  then have dvd: "16 dvd length ?e" by simp
  have "map (BlDecrypt b) (map (BlEncrypt b) ?bl) = ?bl" using bl cipher by (simp add: map_idI)
  then have "concat (map (BlDecrypt b) (blocks_of 16 ?e)) = ?m" using bl by (simp add: enc)
  with Decrypt_blocks [OF assms(1) b2 dvd] have "crypt_loop (BlDecrypt b) (BlockSize b) ?e 0 = Some (Inr ?m)" by simp
  with cipher b2 dvd pad show ?thesis by (simp add: Decrypt_def keys c unpadded_def)
qed

subsection \<open>An example\<close>

definition swap_block :: "string \<Rightarrow> string" where
  "swap_block s = rev s"

definition sample_pad :: "string \<Rightarrow> nat \<Rightarrow> string" where
  "sample_pad s n = (let k = n - length s mod n in s @ replicate k (char_of k))"

definition sample_unpad :: "string \<Rightarrow> goerr + string" where
  "sample_unpad s = (if s = [] then Inl (ErrText ''pkcs7pad: bad padding'') else Inr (take (length s - of_char (last s)) s))"

definition sample_box :: BoxLib where
  "sample_box = \<lparr>XNewPrivateKey = (\<lambda>k. None), XNewPublicKey = (\<lambda>k. None), XSharedSecret = (\<lambda>a b. Inr (map2 (\<lambda>x y. x) a b)),
     AesNewCipher = (\<lambda>k. Inr \<lparr>BlockSize = 16, BlEncrypt = swap_block, BlDecrypt = swap_block\<rparr>), Pkcs7Pad = sample_pad,
     Pkcs7Unpad = sample_unpad\<rparr>"

lemma sample_box_laws: "aes_behaves sample_box" "padding_behaves sample_box" "box_calm sample_box"
proof -
  show "aes_behaves sample_box" by (simp add: aes_behaves_def sample_box_def swap_block_def)
  show "box_calm sample_box" by (simp add: box_calm_def sample_box_def no_panic_def sample_unpad_def)
  show "padding_behaves sample_box"
    unfolding padding_behaves_def
  proof (intro allI conjI)
    fix s :: string
    let ?k = "16 - length s mod 16"
    have k: "0 < ?k" "?k \<le> 16" by simp_all
    have "16 dvd length s + ?k" by presburger
    then show "16 dvd length (Pkcs7Pad sample_box s 16)" by (simp add: sample_box_def sample_pad_def Let_def)
    have "replicate ?k (char_of ?k) \<noteq> []" using k by (simp only: replicate_empty)
    then have "last (s @ replicate ?k (char_of ?k)) = char_of ?k" using k by (simp only: last_append last_replicate if_False)
    then show "Pkcs7Unpad sample_box (Pkcs7Pad sample_box s 16) = Inr s"
      using k by (simp add: sample_box_def sample_pad_def sample_unpad_def Let_def of_char_of)
  qed
qed

theorem encryption_returns_witness: "\<exists>r. Encrypt sample_box ''hello'' ''aaaa'' ''bbbb'' = Some r \<and> no_panic r"
  using encryption_returns [OF sample_box_laws, of "''hello''" "''aaaa''" "''bbbb''"] by blast

theorem encryption_roundtrip_witness:
  "\<exists>c. Encrypt sample_box ''hello'' (b64_encode ''kk'') (b64_encode ''kk'') = Some (Inr c) \<and>
     Decrypt sample_box c (b64_encode ''kk'') (b64_encode ''kk'') = Some (Inr ''hello'')"
proof -
  have "\<exists>b. createAESCipher sample_box ''kk'' ''kk'' = Inr b" by (simp add: createAESCipher_def sample_box_def)
  then obtain b where "createAESCipher sample_box ''kk'' ''kk'' = Inr b" ..
  moreover have key: "decode_key what (b64_encode ''kk'') = Inr ''kk''" for what unfolding decode_key_def b64_decode_encode by simp
  ultimately obtain c where c: "Encrypt sample_box ''hello'' (b64_encode ''kk'') (b64_encode ''kk'') = Some (Inr c)"
    using Encrypt_blocks [OF sample_box_laws(1,2) _ key key] by blast
  moreover have "agree sample_box ''kk'' ''kk'' ''kk'' ''kk''" by (simp add: agree_def sample_box_def)
  ultimately show ?thesis using encryption_roundtrip [OF sample_box_laws(1,2)] by blast
qed

end
