(* ===== verification/Audit_Fields.thy ===== *)
theory Audit_Fields
  imports Artifact_Cache Beckn_Model
begin

text \<open>
  Selection and masking of audit log payloads (\<open>pkg/telemetry/audit_fields.go\<close>, \<open>pii_mask.go\<close>). The YAML decoder,
  \<open>strings.ToLower\<close>, \<open>url.Parse\<close>, the file system, the HTTP client and the verb \<open>%v\<close> are arguments. The compiled
  configuration is a variable of the package, \<^term>\<open>None\<close> before the first load.
\<close>

subsection \<open>Records\<close>

record PatternDef =
  PdMaskType :: string
  PdMask :: string

record MaskRule =
  MrKeys :: "string list"
  MrPattern :: string

record PathOverrideDef =
  PvPath :: string
  PvPattern :: string

record AuditConfig =
  AcMode :: string
  AcPatterns :: "(string \<times> PatternDef) list"
  AcMaskRules :: "MaskRule list"
  AcPathOverrides :: "PathOverrideDef list"
  AcSelectedFields :: "(string \<times> string list) list"
  AcCaptureSignatureHeaders :: bool

record CompiledPattern =
  CpMaskType :: string
  CpMask :: string

text \<open>The keep set of an action is the list of its paths.\<close>

record CompiledConfig =
  CcMode :: string
  CcKeyToPattern :: "string \<rightharpoonup> CompiledPattern"
  CcPathOverrides :: "string \<rightharpoonup> CompiledPattern"
  CcKeepPaths :: "string \<rightharpoonup> string list"
  CcCaptureSignatureHeaders :: bool

definition signatureHeaders :: "string list" where "signatureHeaders = [''Authorization'', ''X-Request-Id'']"

subsection \<open>Compilation\<close>

fun prefixes_of :: "string list \<Rightarrow> string list \<Rightarrow> string list" where
  "prefixes_of done [] = []"
| "prefixes_of done [p] = []"
| "prefixes_of done (p # q # ps) = Join (done @ [p]) ''.'' # prefixes_of (done @ [p]) (q # ps)"

definition buildKeepSet :: "string list \<Rightarrow> string list" where
  "buildKeepSet paths = concat (map (\<lambda>f. f # prefixes_of [] (Split (CHR ''.'') f)) paths)"

definition compile_pattern :: "PatternDef \<Rightarrow> CompiledPattern" where
  "compile_pattern d = \<lparr>CpMaskType = (if PdMaskType d = [] then ''replace'' else PdMaskType d), CpMask = PdMask d\<rparr>"

fun compile_rules :: "(string \<rightharpoonup> CompiledPattern) \<Rightarrow> MaskRule list \<Rightarrow> (string \<rightharpoonup> CompiledPattern) \<Rightarrow> goerr + (string \<rightharpoonup> CompiledPattern)" where
  "compile_rules patterns [] acc = Inr acc"
| "compile_rules patterns (r # rs) acc =
     (case patterns (MrPattern r) of
        None \<Rightarrow> Inl (ErrText (''maskRule references unknown pattern '' @ go_quote (MrPattern r)))
      | Some p \<Rightarrow> compile_rules patterns rs (foldl (\<lambda>m k. m(k \<mapsto> p)) acc (MrKeys r)))"

fun compile_overrides ::
  "(string \<rightharpoonup> CompiledPattern) \<Rightarrow> PathOverrideDef list \<Rightarrow> (string \<rightharpoonup> CompiledPattern) \<Rightarrow> goerr + (string \<rightharpoonup> CompiledPattern)" where
  "compile_overrides patterns [] acc = Inr acc"
| "compile_overrides patterns (r # rs) acc =
     (case patterns (PvPattern r) of
        None \<Rightarrow> Inl (ErrText (''pathOverride '' @ go_quote (PvPath r) @ '' references unknown pattern '' @ go_quote (PvPattern r)))
      | Some p \<Rightarrow> compile_overrides patterns rs (acc(PvPath r \<mapsto> p)))"

definition compile :: "(string \<Rightarrow> string) \<Rightarrow> AuditConfig \<Rightarrow> goerr + CompiledConfig" where
  "compile ToLower cfg =
     (let patterns = map_of (map (\<lambda>p. (fst p, compile_pattern (snd p))) (AcPatterns cfg)) in
      case compile_rules patterns (AcMaskRules cfg) Map.empty of
        Inl e \<Rightarrow> Inl e
      | Inr keyToPattern \<Rightarrow>
          (case compile_overrides patterns (AcPathOverrides cfg) Map.empty of
             Inl e \<Rightarrow> Inl e
           | Inr pathOverrides \<Rightarrow>
               (let m = ToLower (TrimSpace (AcMode cfg)); mode = (if m = [] then ''full'' else m) in
                if mode \<noteq> ''full'' \<and> mode \<noteq> ''selective'' then
                  Inl (ErrText (''unknown audit mode '' @ go_quote mode @ [CHR '' '', CHR 0xE2, CHR 0x80, CHR 0x94] @ '' must be '' @
                    CHR 0x27 # ''full'' @ CHR 0x27 # '' or '' @ CHR 0x27 # ''selective'' @ [CHR 0x27]))
                else
                  Inr \<lparr>CcMode = mode, CcKeyToPattern = keyToPattern, CcPathOverrides = pathOverrides,
                    CcKeepPaths = (if mode = ''selective'' then map_of (map (\<lambda>p. (fst p, buildKeepSet (snd p))) (AcSelectedFields cfg))
                                   else Map.empty),
                    CcCaptureSignatureHeaders = AcCaptureSignatureHeaders cfg\<rparr>)))"

subsection \<open>Loading\<close>

record 'w AuditEnv =
  AeParseURL :: "string \<Rightarrow> goerr + URL"
  AeNewRequest :: "string \<Rightarrow> goerr option"
  AeDo :: "'w \<Rightarrow> string \<Rightarrow> (goerr + HttpResponse) \<times> 'w"
  AeReadFile :: "'w \<Rightarrow> string \<Rightarrow> (goerr + string) \<times> 'w"
  AeYaml :: "string \<Rightarrow> goerr + AuditConfig"
  AeToLower :: "string \<Rightarrow> string"

definition is_http :: "goerr + URL \<Rightarrow> bool" where
  "is_http u = (case u of Inl e \<Rightarrow> False | Inr p \<Rightarrow> UScheme p = ''http'' \<or> UScheme p = ''https'')"

definition fetchSource :: "'w AuditEnv \<Rightarrow> 'w \<Rightarrow> string \<Rightarrow> (goerr + string) \<times> 'w" where
  "fetchSource env w src =
     (if is_http (AeParseURL env src) then
        (case AeNewRequest env src of
           Some e \<Rightarrow> (Inl e, w)
         | None \<Rightarrow>
             (case AeDo env w src of
                (Inl e, w1) \<Rightarrow> (Inl e, w1)
              | (Inr resp, w1) \<Rightarrow>
                  (if HrStatus resp \<noteq> 200 then
                     Inl (ErrText (''unexpected HTTP status '' @ int_dec (HrStatus resp) @ '' fetching audit config from '' @ src))
                   else (case HrBodyErr resp of None \<Rightarrow> Inr (HrBody resp) | Some e \<Rightarrow> Inl e), w1)))
      else AeReadFile env w src)"

definition loadAuditConfig :: "'w AuditEnv \<Rightarrow> CompiledConfig option \<Rightarrow> 'w \<Rightarrow> string \<Rightarrow> goerr option \<times> CompiledConfig option \<times> 'w" where
  "loadAuditConfig env cur w source =
     (let src = TrimSpace source in
      if src = [] then (Some (ErrText ''auditFieldsConfig source is empty''), cur, w)
      else
        (case fetchSource env w src of
           (Inl e, w1) \<Rightarrow> (Some e, cur, w1)
         | (Inr data, w1) \<Rightarrow>
             (case AeYaml env data of
                Inl e \<Rightarrow> (Some e, cur, w1)
              | Inr cfg \<Rightarrow>
                  (case compile (AeToLower env) cfg of
                     Inl e \<Rightarrow> (Some e, cur, w1)
                   | Inr compiled \<Rightarrow> (None, Some compiled, w1)))))"

text \<open>
  The first load of \<open>StartAuditFieldsRefresh\<close> and the check of the ticker's interval, which panics when it is not
  positive; then the steps of its goroutine, which reloads until it is stopped, beside changes of the world by others.
\<close>

record 'w AuditState =
  AtConfig :: "CompiledConfig option"
  AtWorld :: 'w
  AtRunning :: bool

definition StartAuditFieldsRefresh :: "'w AuditEnv \<Rightarrow> CompiledConfig option \<Rightarrow> 'w \<Rightarrow> string \<Rightarrow> int \<Rightarrow> goerr + 'w AuditState" where
  "StartAuditFieldsRefresh env cur w source intervalSec =
     (let secs = (if intervalSec \<le> 0 then 3600 else intervalSec);
          (err, cur1, w1) = loadAuditConfig env cur w source
      in if wrap64 (secs * second) \<le> 0 then Inl (GoPanic ''non-positive interval for NewTicker'')
         else Inr \<lparr>AtConfig = cur1, AtWorld = w1, AtRunning = True\<rparr>)"

inductive audit_refresh :: "'w AuditEnv \<Rightarrow> string \<Rightarrow> ('w \<Rightarrow> 'w \<Rightarrow> bool) \<Rightarrow> 'w AuditState \<Rightarrow> 'w AuditState \<Rightarrow> bool"
  for env source outside where
  tick: "AtRunning s \<Longrightarrow> loadAuditConfig env (AtConfig s) (AtWorld s) source = (err, cur, w) \<Longrightarrow>
    audit_refresh env source outside s (s\<lparr>AtConfig := cur, AtWorld := w\<rparr>)"
| stop: "audit_refresh env source outside s (s\<lparr>AtRunning := False\<rparr>)"
| other: "outside (AtWorld s) w \<Longrightarrow> audit_refresh env source outside s (s\<lparr>AtWorld := w\<rparr>)"

text \<open>A configuration in use was compiled from decoded YAML, and a reload that fails leaves the one before it.\<close>

definition compiled_yaml :: "'w AuditEnv \<Rightarrow> CompiledConfig option \<Rightarrow> bool" where
  "compiled_yaml env cur \<longleftrightarrow> (\<forall>c. cur = Some c \<longrightarrow> (\<exists>data cfg. AeYaml env data = Inr cfg \<and> compile (AeToLower env) cfg = Inr c))"

lemma loadAuditConfig_compiled:
  assumes "loadAuditConfig env cur w source = (err, cur', w')" "compiled_yaml env cur"
  shows "compiled_yaml env cur'" "err \<noteq> None \<Longrightarrow> cur' = cur" "cur \<noteq> None \<Longrightarrow> cur' \<noteq> None"
  using assms by (auto simp: loadAuditConfig_def compiled_yaml_def Let_def split: if_splits sum.splits prod.splits)

lemma refresh_compiled:
  assumes "StartAuditFieldsRefresh env cur w source n = Inr s0" "compiled_yaml env cur" "(audit_refresh env source outside)\<^sup>*\<^sup>* s0 s"
  shows "compiled_yaml env (AtConfig s) \<and> (AtConfig s0 \<noteq> None \<longrightarrow> AtConfig s \<noteq> None)"
  using assms(3)
proof induction
  case base
  from assms(1,2) show ?case
    by (auto simp: StartAuditFieldsRefresh_def Let_def split: prod.splits if_splits dest: loadAuditConfig_compiled)
next
  case (step s s')
  from step(2) show ?case
  proof cases
    case (tick err cur w)
    with step(3) loadAuditConfig_compiled [OF tick(3)] show ?thesis by auto
  qed (use step(3) in auto)
qed

subsection \<open>Masks\<close>

definition defaultMask :: string where "defaultMask = ''[MASKED]''"

text \<open>The runes of a string, each as its bytes; a byte that starts no valid sequence is U+FFFD.\<close>

function runes :: "string \<Rightarrow> string list" where
  "runes [] = []"
| "runes (c # s) =
     (let n = utf8_len (c # s)
      in if n = 0 then replacement_char # runes s else take n (c # s) # runes (drop (n - 1) s))"
  by pat_completeness auto
termination by (relation "measure length") auto

definition maskLast4 :: "string \<Rightarrow> string" where
  "maskLast4 s =
     (let rs = runes s; n = length rs in
      if n \<le> 4 then replicate n (CHR ''*'') else replicate (n - 4) (CHR ''*'') @ concat (drop (n - 4) rs))"

definition applyMask :: "(json \<Rightarrow> string) \<Rightarrow> json \<Rightarrow> CompiledPattern option \<Rightarrow> json" where
  "applyMask fmt v pattern =
     (case pattern of
        None \<Rightarrow> JStr defaultMask
      | Some p \<Rightarrow>
          (let s = (case v of JStr s \<Rightarrow> s | _ \<Rightarrow> fmt v) in
           if CpMaskType p = ''last4'' then JStr (maskLast4 s)
           else if CpMask p \<noteq> [] then JStr (CpMask p) else JStr defaultMask))"

subsection \<open>Payloads\<close>

definition audit_action :: "(string \<times> json) list \<Rightarrow> string" where
  "audit_action root =
     (case jget root ''context'' of
        Some (JObj c) \<Rightarrow> (case jget c ''action'' of Some (JStr a) \<Rightarrow> TrimSpace a | _ \<Rightarrow> [])
      | _ \<Rightarrow> [])"

text \<open>\<open>walkMap\<close> on the members of an object and \<open>walkSlice\<close>, which calls itself on the elements of an array.\<close>

fun walkMap :: "(json \<Rightarrow> string) \<Rightarrow> CompiledConfig \<Rightarrow> string list option \<Rightarrow> string \<Rightarrow> (string \<times> json) list \<Rightarrow> (string \<times> json) list"
and walk_child :: "(json \<Rightarrow> string) \<Rightarrow> CompiledConfig \<Rightarrow> string list option \<Rightarrow> string \<Rightarrow> json \<Rightarrow> json"
and walkSlice :: "(json \<Rightarrow> string) \<Rightarrow> CompiledConfig \<Rightarrow> string list option \<Rightarrow> string \<Rightarrow> json list \<Rightarrow> json list" where
  "walkMap fmt cfg keep pre [] = []"
| "walkMap fmt cfg keep pre ((k, v) # rest) =
     (let fullPath = pre @ k; others = walkMap fmt cfg keep pre rest in
      case CcKeyToPattern cfg k of
        Some p \<Rightarrow> (k, applyMask fmt v (Some p)) # others
      | None \<Rightarrow>
          (case CcPathOverrides cfg fullPath of
             Some p \<Rightarrow> (k, applyMask fmt v (Some p)) # others
           | None \<Rightarrow>
               if keep \<noteq> None \<and> fullPath \<notin> set (the keep) then others
               else (k, walk_child fmt cfg keep (fullPath @ ''.'') v) # others))"
| "walk_child fmt cfg keep pre (JObj m) = JObj (walkMap fmt cfg keep pre m)"
| "walk_child fmt cfg keep pre (JArr xs) = JArr (walkSlice fmt cfg keep pre xs)"
| "walk_child fmt cfg keep pre v = v"
| "walkSlice fmt cfg keep pre [] = []"
| "walkSlice fmt cfg keep pre (x # xs) = walk_child fmt cfg keep pre x # walkSlice fmt cfg keep pre xs"

definition keep_set :: "CompiledConfig \<Rightarrow> (string \<times> json) list \<Rightarrow> string list option" where
  "keep_set cfg root =
     (if CcMode cfg = ''selective'' then
        (case CcKeepPaths cfg (audit_action root) of
           Some k \<Rightarrow> Some k
         | None \<Rightarrow> CcKeepPaths cfg ''default'')
      else None)"

definition ProcessAuditPayload :: "Float64 \<Rightarrow> (json \<Rightarrow> string) \<Rightarrow> CompiledConfig option \<Rightarrow> string \<Rightarrow> string" where
  "ProcessAuditPayload F fmt cur body =
     (if body = [] then body
      else
        (case cur of
           None \<Rightarrow> body
         | Some cfg \<Rightarrow>
             (case unmarshal_map F body None of
                None \<Rightarrow> body
              | Some None \<Rightarrow> marshal_map None
              | Some (Some root) \<Rightarrow> marshal_map (Some (walkMap fmt cfg (keep_set cfg root) [] root)))))"

subsection \<open>Properties\<close>

text \<open>A member whose value does not reach the log: it is replaced as a whole, or it is dropped.\<close>

definition hidden :: "CompiledConfig \<Rightarrow> string list option \<Rightarrow> string \<Rightarrow> string \<Rightarrow> bool" where
  "hidden cfg keep path k =
     (case CcKeyToPattern cfg k of
        Some p \<Rightarrow> CpMaskType p \<noteq> ''last4''
      | None \<Rightarrow>
          (case CcPathOverrides cfg path of
             Some p \<Rightarrow> CpMaskType p \<noteq> ''last4''
           | None \<Rightarrow> (case keep of None \<Rightarrow> False | Some ps \<Rightarrow> path \<notin> set ps)))"

text \<open>Values that agree except under hidden members.\<close>

inductive alike :: "CompiledConfig \<Rightarrow> string list option \<Rightarrow> string \<Rightarrow> json \<Rightarrow> json \<Rightarrow> bool"
and alike_members :: "CompiledConfig \<Rightarrow> string list option \<Rightarrow> string \<Rightarrow> (string \<times> json) list \<Rightarrow> (string \<times> json) list \<Rightarrow> bool"
and alike_elements :: "CompiledConfig \<Rightarrow> string list option \<Rightarrow> string \<Rightarrow> json list \<Rightarrow> json list \<Rightarrow> bool" for cfg keep where
  same: "alike cfg keep pre v v"
| object: "alike_members cfg keep pre m m' \<Longrightarrow> alike cfg keep pre (JObj m) (JObj m')"
| array: "alike_elements cfg keep pre xs ys \<Longrightarrow> alike cfg keep pre (JArr xs) (JArr ys)"
| no_member: "alike_members cfg keep pre [] []"
| hidden_member: "hidden cfg keep (pre @ k) k \<Longrightarrow> alike_members cfg keep pre m m' \<Longrightarrow> alike_members cfg keep pre ((k, v) # m) ((k, v') # m')"
| equal_member: "alike_members cfg keep pre m m' \<Longrightarrow> alike_members cfg keep pre ((k, v) # m) ((k, v) # m')"
| like_member: "CcKeyToPattern cfg k = None \<Longrightarrow> CcPathOverrides cfg (pre @ k) = None \<Longrightarrow> alike cfg keep (pre @ k @ ''.'') v v' \<Longrightarrow>
    alike_members cfg keep pre m m' \<Longrightarrow> alike_members cfg keep pre ((k, v) # m) ((k, v') # m')"
| no_element: "alike_elements cfg keep pre [] []"
| element: "alike cfg keep pre x y \<Longrightarrow> alike_elements cfg keep pre xs ys \<Longrightarrow> alike_elements cfg keep pre (x # xs) (y # ys)"

lemma applyMask_hides: "CpMaskType p \<noteq> ''last4'' \<Longrightarrow> applyMask fmt v (Some p) = applyMask fmt v' (Some p)"
  by (simp add: applyMask_def)

lemma walk_alike:
  "alike cfg keep pre v v' \<Longrightarrow> walk_child fmt cfg keep pre v = walk_child fmt cfg keep pre v'"
  "alike_members cfg keep pre m m' \<Longrightarrow> walkMap fmt cfg keep pre m = walkMap fmt cfg keep pre m'"
  "alike_elements cfg keep pre xs ys \<Longrightarrow> walkSlice fmt cfg keep pre xs = walkSlice fmt cfg keep pre ys"
proof (induction rule: alike_alike_members_alike_elements.inducts)
  case (hidden_member pre k m m' v v')
  then show ?case
    by (auto simp: hidden_def Let_def split: option.splits intro: applyMask_hides)
qed (auto simp: Let_def split: option.split)


text \<open>The selective mode logs everything for an action that has no list of fields when there is no list for
  \<open>default\<close> either: the payload is the one of the mode \<open>full\<close>.\<close>

theorem selective_mode_fails_open:
  assumes "unmarshal_map F body None = Some (Some root)"
    and "CcKeepPaths cfg (audit_action root) = None" and "CcKeepPaths cfg ''default'' = None"
  shows "ProcessAuditPayload F fmt (Some cfg) body = ProcessAuditPayload F fmt (Some (cfg\<lparr>CcMode := ''full''\<rparr>)) body"
proof -
  have "walkMap fmt (cfg\<lparr>CcMode := m\<rparr>) keep pre kvs = walkMap fmt cfg keep pre kvs"
    "walk_child fmt (cfg\<lparr>CcMode := m\<rparr>) keep pre v = walk_child fmt cfg keep pre v"
    "walkSlice fmt (cfg\<lparr>CcMode := m\<rparr>) keep pre xs = walkSlice fmt cfg keep pre xs" for m keep pre kvs v xs
    by (induction fmt cfg keep pre kvs and fmt cfg keep pre v and fmt cfg keep pre xs rule: walkMap_walk_child_walkSlice.induct)
      (auto simp: Let_def split: option.split)
  with assms show ?thesis by (simp add: ProcessAuditPayload_def keep_set_def)
qed

subsection \<open>Examples\<close>

definition audit_float :: Float64 where "audit_float = \<lparr>InRange = (\<lambda>s. True), FloatText = (\<lambda>s. s)\<rparr>"

definition sample_audit :: CompiledConfig where
  "sample_audit = \<lparr>CcMode = ''selective'', CcKeyToPattern = [''phone'' \<mapsto> \<lparr>CpMaskType = ''replace'', CpMask = []\<rparr>],
     CcPathOverrides = Map.empty, CcKeepPaths = Map.empty, CcCaptureSignatureHeaders = False\<rparr>"

definition audit_sample :: "string \<Rightarrow> json" where
  "audit_sample n = JObj [(''context'', JObj [(''action'', JStr ''search'')]), (''items'', JArr [JObj [(''phone'', JStr n)]])]"

lemma audit_sample_read:
  "unmarshal_map audit_float (json_encode (audit_sample ''12'')) None =
     Some (Some [(''context'', JObj [(''action'', JStr ''search'')]), (''items'', JArr [JObj [(''phone'', JStr ''12'')]])])"
  "unmarshal_map audit_float (json_encode (audit_sample ''34'')) None =
     Some (Some [(''context'', JObj [(''action'', JStr ''search'')]), (''items'', JArr [JObj [(''phone'', JStr ''34'')]])])"
proof -
  have "json_decode (json_encode (audit_sample ''12'')) = Some (audit_sample ''12'')"
    "json_decode (json_encode (audit_sample ''34'')) = Some (audit_sample ''34'')" by code_simp+
  then show
    "unmarshal_map audit_float (json_encode (audit_sample ''12'')) None =
       Some (Some [(''context'', JObj [(''action'', JStr ''search'')]), (''items'', JArr [JObj [(''phone'', JStr ''12'')]])])"
    "unmarshal_map audit_float (json_encode (audit_sample ''34'')) None =
       Some (Some [(''context'', JObj [(''action'', JStr ''search'')]), (''items'', JArr [JObj [(''phone'', JStr ''34'')]])])"
    by (simp_all add: unmarshal_map_def unmarshal_any_def audit_sample_def audit_float_def go_entries_def go_set_def)
qed


theorem selective_mode_fails_open_witness:
  "ProcessAuditPayload audit_float (\<lambda>v. []) (Some sample_audit) (json_encode (audit_sample ''12'')) =
   ProcessAuditPayload audit_float (\<lambda>v. []) (Some (sample_audit\<lparr>CcMode := ''full''\<rparr>)) (json_encode (audit_sample ''12''))"
  by (rule selective_mode_fails_open [OF audit_sample_read(1)]) (simp_all add: sample_audit_def)

end
