(* ===== verification/Extended_Schema.thy ===== *)
theory Extended_Schema
  imports Manifest_Loader
begin

text \<open>
  Validation of JSON-LD objects against the schema of their type (\<open>schemav2validator/extended_schema.go\<close>), with the
  errors of \<open>schemav2validator.go\<close>. The OpenAPI library, HTTP, the file system and SHA-256 are the fields of
  \<open>OpenApi\<close>. Of a schema of that library the model has the parts that the code reads and, in \<open>OsRest\<close>, the others,
  which only the library's validation looks at. A loader takes the function that reads the documents it refers to.
  Panics of the library are outside the model.
\<close>

subsection \<open>Documents of the library\<close>

text \<open>A schema without a value is \<^term>\<open>None\<close>.\<close>

datatype OSchema =
  OSchema (OsRest: string) (OsProperties: "(string \<times> OSchema option) list") (OsAllOf: "OSchema option list")
    (OsConst: "json option") (OsExtensions: "(string \<times> json) list") (OsEnum: "json list")

text \<open>The request body of an operation: \<^term>\<open>Some None\<close> for one without a schema for \<open>application/json\<close>.\<close>

record Operation =
  OpRequestBody :: "OSchema option option"

record PathItem =
  PiPost :: "Operation option"
  PiGet :: "Operation option"
  PiPut :: "Operation option"
  PiPatch :: "Operation option"
  PiDelete :: "Operation option"

record SchemaDoc =
  SdPaths :: "(string \<times> PathItem option) list"
  SdComponents :: "(string \<times> OSchema option) list option"

text \<open>Errors of the validation; the origin of a schema error is its text.\<close>

datatype openerr =
    SchemaError "string list" string string "string option"
  | MultiError "openerr list"
  | BecknError Error
  | PlainError string

type_synonym 'w uri_reader = "'w \<Rightarrow> URL \<Rightarrow> (goerr + string) \<times> 'w"

record 'w OpenApi =
  OaParseURL :: "string \<Rightarrow> goerr + URL"
  OaURLString :: "URL \<Rightarrow> string"
  OaNewRequest :: "string \<Rightarrow> goerr option"
  OaDo :: "'w \<Rightarrow> string \<Rightarrow> (goerr + HttpResponse) \<times> 'w"
  OaReadFile :: "'w \<Rightarrow> string \<Rightarrow> (goerr + string) \<times> 'w"
  OaReadDir :: "'w \<Rightarrow> string \<Rightarrow> (goerr + (string \<times> bool) list) \<times> 'w"
  OaWalkDir :: "'w \<Rightarrow> string \<Rightarrow> (goerr option \<times> string \<times> bool) list \<times> 'w"
  OaRel :: "string \<Rightarrow> string \<Rightarrow> goerr + string"
  OaLoadFromURI :: "int option \<Rightarrow> 'w uri_reader \<Rightarrow> 'w \<Rightarrow> URL \<Rightarrow> (goerr + SchemaDoc) \<times> 'w"
  OaLoadFromFile :: "'w uri_reader \<Rightarrow> 'w \<Rightarrow> string \<Rightarrow> (goerr + SchemaDoc) \<times> 'w"
  OaLoadFromData :: "'w uri_reader \<Rightarrow> 'w \<Rightarrow> string \<Rightarrow> (goerr + SchemaDoc) \<times> 'w"
  OaVisitJSON :: "OSchema option \<Rightarrow> json \<Rightarrow> openerr option"
  OaSha256 :: "string \<Rightarrow> string"
  OaClock :: "'w clock"
  OaFloat :: Float64

subsection \<open>Reading\<close>

definition maxSpecBodyBytes :: nat where "maxSpecBodyBytes = 32 * 1024 * 1024"

definition freshReadFromURI :: "'w OpenApi \<Rightarrow> 'w uri_reader" where
  "freshReadFromURI env w u =
     (if UScheme u = ''http'' \<or> UScheme u = ''https'' then
        (case OaNewRequest env (OaURLString env u) of
           Some e \<Rightarrow> (Inl e, w)
         | None \<Rightarrow>
             (case OaDo env w (OaURLString env u) of
                (Inl e, w1) \<Rightarrow> (Inl e, w1)
              | (Inr resp, w1) \<Rightarrow>
                  (if HrStatus resp < 200 \<or> HrStatus resp \<ge> 300 then
                     Inl (ErrText (''HTTP '' @ int_dec (HrStatus resp) @ '' fetching '' @ OaURLString env u))
                   else
                     (case read_limited (maxSpecBodyBytes + 1) resp of
                        Inl e \<Rightarrow> Inl e
                      | Inr data \<Rightarrow>
                          if length data > maxSpecBodyBytes then
                            Inl (ErrText (''spec response exceeds '' @ nat_dec (maxSpecBodyBytes div (1024 * 1024)) @ '' MB limit''))
                          else Inr data), w1)))
      else OaReadFile env w (UPath u))"

subsection \<open>Errors\<close>

definition schemaFieldCodes :: "(string \<times> string) list" where
  "schemaFieldCodes =
     [(''required'', ''SCH_REQUIRED_FIELD_MISSING''), (''properties'', ''SCH_FIELD_NOT_ALLOWED''), (''enum'', ''SCH_INVALID_ENUM''),
      (''const'', ''SCH_INVALID_ENUM''), (''format'', ''SCH_INVALID_FORMAT''), (''type'', ''SCH_TYPE_NOT_SUPPORTED'')]"

definition schemaFieldToCode :: "string \<Rightarrow> string" where
  "schemaFieldToCode schemaField =
     (case map_of schemaFieldCodes schemaField of Some c \<Rightarrow> c | None \<Rightarrow> ''SCH_SCHEMA_VALIDATION_FAILED'')"

text \<open>\<open>Error at "\<close>, and the part of a text after its last occurrence.\<close>

definition error_at :: string where "error_at = ''Error at '' @ [CHR 0x22]"

text \<open>The last element of \<open>strings.Split(s, sep)\<close>; \<open>n\<close> counts down the bytes that are left.\<close>

fun last_part :: "nat \<Rightarrow> string \<Rightarrow> string \<Rightarrow> string" where
  "last_part 0 s sep = s"
| "last_part (Suc n) s sep = (case Index s sep of None \<Rightarrow> s | Some i \<Rightarrow> last_part n (drop (i + length sep) s) sep)"

definition origin_details :: "string \<Rightarrow> string \<times> string \<Rightarrow> string \<times> string" where
  "origin_details originMsg pm =
     (if Contains originMsg (error_at @ ''/'') then
        (let lastPart = last_part (length originMsg) originMsg error_at in
         case Index lastPart (CHR 0x22 # '':'') of
           None \<Rightarrow> pm
         | Some idx \<Rightarrow>
             if idx > 0 then (TrimPrefix (take idx lastPart) ''/'', TrimSpace (drop (idx + 2) lastPart)) else pm)
      else (fst pm, originMsg))"

fun extractSchemaErrors :: "openerr \<Rightarrow> Error list" where
  "extractSchemaErrors (BecknError b) = [b]"
| "extractSchemaErrors (SchemaError ptr schemaField reason orig) =
     (let joined = Join ptr ''/'';
          pm0 = (if joined = [] then schemaField else joined, reason);
          (p, m) = (case orig of None \<Rightarrow> pm0 | Some t \<Rightarrow> origin_details t pm0)
      in [Error (schemaFieldToCode schemaField) m (if p \<noteq> [] then Some (ErrorDetails p None) else None) None])"
| "extractSchemaErrors (MultiError es) = concat (map extractSchemaErrors es)"
| "extractSchemaErrors (PlainError t) = [NewCodedError ''SCH_SCHEMA_VALIDATION_FAILED'' t]"

definition formatValidationError :: "openerr \<Rightarrow> goerr" where
  "formatValidationError err = ErrSchema (extractSchemaErrors err)"

definition prefix_error :: "string \<Rightarrow> Error \<Rightarrow> Error" where
  "prefix_error objPath e =
     (let prefixed = (if error_path e \<noteq> [] then objPath @ ''.'' @ error_path e else objPath) in
      case e of Error c m d k \<Rightarrow>
        Error c m (Some (ErrorDetails prefixed (case d of None \<Rightarrow> None | Some x \<Rightarrow> DCause x))) k)"

definition prefixSchemaErrorPaths :: "Error list \<Rightarrow> string \<Rightarrow> Error list" where
  "prefixSchemaErrorPaths schemaErrors objPath = map (prefix_error objPath) schemaErrors"

subsection \<open>Paths of schemas\<close>

definition isSchemaVersionSegment :: "string \<Rightarrow> bool" where
  "isSchemaVersionSegment s =
     (if s = [] then False
      else
        (let check = (if s ! 0 = CHR ''v'' \<or> s ! 0 = CHR ''V'' then tl s else s) in
         check \<noteq> [] \<and> list_all (\<lambda>c. c = CHR ''.'' \<or> is_digit c) check))"

text \<open>\<open>strings.LastIndex\<close> and \<open>filepath.Ext\<close>.\<close>

fun LastIndex :: "string \<Rightarrow> string \<Rightarrow> nat option" where
  "LastIndex [] p = (if p = [] then Some 0 else None)"
| "LastIndex (c # s) p =
     (case LastIndex s p of Some i \<Rightarrow> Some (Suc i) | None \<Rightarrow> if HasPrefix (c # s) p then Some 0 else None)"

definition path_Ext :: "string \<Rightarrow> string" where
  "path_Ext p =
     (let r = takeWhile (\<lambda>c. c \<noteq> CHR ''/'') (rev p) in
      if CHR ''.'' \<in> set r then CHR ''.'' # rev (takeWhile (\<lambda>c. c \<noteq> CHR ''.'') r) else [])"

definition skip_segment :: "string \<Rightarrow> bool" where
  "skip_segment seg \<longleftrightarrow> seg = [] \<or> path_Ext seg \<in> set [''.yaml'', ''.yml'', ''.json'', ''.jsonld''] \<or> isSchemaVersionSegment seg"

definition extractRelativeSchemaPath :: "URL \<Rightarrow> string" where
  "extractRelativeSchemaPath u =
     (let pathPart = (case LastIndex (UPath u) ''/schema/'' of Some idx \<Rightarrow> drop (idx + 8) (UPath u) | None \<Rightarrow> TrimPrefix (UPath u) ''/'');
          typeName = foldl (\<lambda>t seg. if skip_segment seg then t else seg) [] (Split (CHR ''/'') pathPart)
      in typeName @ ''/attributes.yaml'')"

definition rawSchemaKey :: "string \<Rightarrow> string" where
  "rawSchemaKey rel =
     (case Split (CHR ''/'') rel of
        a # b # c # rest \<Rightarrow> a @ ''/'' @ Join (c # rest) ''/''
      | _ \<Rightarrow> rel)"

definition isValidSchemaPath :: "'w OpenApi \<Rightarrow> string \<Rightarrow> bool" where
  "isValidSchemaPath env schemaPath =
     (case OaParseURL env schemaPath of
        Inl e \<Rightarrow> schemaPath \<noteq> []
      | Inr u \<Rightarrow> UScheme u \<in> set [''http'', ''https'', ''file'', []])"

definition transformContextToSchemaURL :: "string \<Rightarrow> string" where
  "transformContextToSchemaURL contextURL =
     (case Index contextURL ''context.jsonld'' of
        None \<Rightarrow> contextURL
      | Some i \<Rightarrow> take i contextURL @ ''attributes.yaml'' @ drop (i + 14) contextURL)"

definition isAllowedDomain :: "URL \<Rightarrow> string list \<Rightarrow> bool" where
  "isAllowedDomain u allowedDomains \<longleftrightarrow>
     allowedDomains = [] \<or>
     list_ex (\<lambda>d. let domain = TrimSpace d in domain \<noteq> [] \<and> (UHost u = domain \<or> HasSuffix (UHost u) (CHR ''.'' # domain))) allowedDomains"

subsection \<open>The cache\<close>

record CachedDomainSchema =
  CsDoc :: SchemaDoc
  CsLoadedAt :: int
  CsExpiresAt :: int
  CsLastAccessed :: int
  CsAccessCount :: int

record SchemaCache =
  ScSchemas :: "(string \<times> CachedDomainSchema) list"
  ScRawSchemas :: "(string \<times> string) list"
  ScMaxSize :: int

definition newSchemaCache :: "int \<Rightarrow> SchemaCache" where
  "newSchemaCache maxSize = \<lparr>ScSchemas = [], ScRawSchemas = [], ScMaxSize = maxSize\<rparr>"

definition hashURL :: "'w OpenApi \<Rightarrow> string \<Rightarrow> string" where
  "hashURL env urlStr = hex_encode (OaSha256 env urlStr)"

definition schemaCache_get :: "'w OpenApi \<Rightarrow> SchemaCache \<Rightarrow> 'w \<Rightarrow> string \<Rightarrow> SchemaDoc option \<times> SchemaCache \<times> 'w" where
  "schemaCache_get env c w urlHash =
     (case map_of (ScSchemas c) urlHash of
        None \<Rightarrow> (None, c, w)
      | Some cached \<Rightarrow>
          (let (now, w1) = OaClock env w in
           if now > CsExpiresAt cached then (None, c, w1)
           else
             (let (t, w2) = OaClock env w1;
                  touched = cached\<lparr>CsLastAccessed := t, CsAccessCount := CsAccessCount cached + 1\<rparr>
              in (Some (CsDoc cached), c\<lparr>ScSchemas := go_set (ScSchemas c) urlHash touched\<rparr>, w2))))"

fun oldest_key :: "(string \<times> CachedDomainSchema) list \<Rightarrow> string \<times> int \<Rightarrow> string" where
  "oldest_key [] acc = fst acc"
| "oldest_key ((k, v) # rest) (oldest, oldestTime) =
     (if oldest = [] \<or> CsLastAccessed v < oldestTime then oldest_key rest (k, CsLastAccessed v)
      else oldest_key rest (oldest, oldestTime))"

definition evict :: "SchemaCache \<Rightarrow> SchemaCache" where
  "evict c =
     (if int (length (ScSchemas c)) \<ge> ScMaxSize c then
        (let oldest = oldest_key (ScSchemas c) ([], 0) in
         if oldest \<noteq> [] then c\<lparr>ScSchemas := filter (\<lambda>p. fst p \<noteq> oldest) (ScSchemas c)\<rparr> else c)
      else c)"

definition schemaCache_set :: "'w OpenApi \<Rightarrow> SchemaCache \<Rightarrow> 'w \<Rightarrow> string \<Rightarrow> SchemaDoc \<Rightarrow> int \<Rightarrow> SchemaCache \<times> 'w" where
  "schemaCache_set env c w urlHash doc ttl =
     (let c1 = evict c; (t1, w1) = OaClock env w; (t2, w2) = OaClock env w1; (t3, w3) = OaClock env w2 in
      (c1\<lparr>ScSchemas := go_set (ScSchemas c1) urlHash
         \<lparr>CsDoc = doc, CsLoadedAt = t1, CsExpiresAt = t2 + ttl, CsLastAccessed = t3, CsAccessCount = 1\<rparr>\<rparr>, w3))"

definition cleanupExpired :: "'w OpenApi \<Rightarrow> SchemaCache \<Rightarrow> 'w \<Rightarrow> nat \<times> SchemaCache \<times> 'w" where
  "cleanupExpired env c w =
     (let (now, w1) = OaClock env w;
          expired = filter (\<lambda>p. now > CsExpiresAt (snd p)) (ScSchemas c)
      in (length expired, c\<lparr>ScSchemas := filter (\<lambda>p. fst p \<notin> fst ` set expired) (ScSchemas c)\<rparr>, w1))"

subsection \<open>Preloading\<close>

text \<open>The callback of \<open>WalkDir\<close> on the entries in the order of the walk.\<close>

fun preload_entries ::
  "'w OpenApi \<Rightarrow> string \<Rightarrow> 'w \<Rightarrow> (goerr option \<times> string \<times> bool) list \<Rightarrow> SchemaCache \<Rightarrow> (goerr + SchemaCache) \<times> 'w" where
  "preload_entries env baseDir w [] c = (Inr c, w)"
| "preload_entries env baseDir w ((err, path, isDir) # rest) c =
     (case err of
        Some e \<Rightarrow> (Inl e, w)
      | None \<Rightarrow>
          if isDir \<or> \<not> HasSuffix path ''.yaml'' then preload_entries env baseDir w rest c
          else
            (case OaReadFile env w path of
               (Inl e, w1) \<Rightarrow> (Inl (errorf_w (''failed to read '' @ path @ '': '') e), w1)
             | (Inr data, w1) \<Rightarrow>
                 (case OaRel env baseDir path of
                    Inl e \<Rightarrow> (Inl (errorf_w (''failed to compute relative path for '' @ path @ '': '') e), w1)
                  | Inr rel \<Rightarrow>
                      preload_entries env baseDir w1 rest (c\<lparr>ScRawSchemas := go_set (ScRawSchemas c) (rawSchemaKey rel) data\<rparr>))))"

definition preloadSchemasToCache :: "'w OpenApi \<Rightarrow> SchemaCache \<Rightarrow> 'w \<Rightarrow> string \<Rightarrow> (goerr + SchemaCache) \<times> 'w" where
  "preloadSchemasToCache env c w baseDir =
     (let (entries, w1) = OaWalkDir env w baseDir in
      case preload_entries env baseDir w1 entries c of
        (Inl e, w2) \<Rightarrow> (Inl (errorf_w ''schema preload failed: '' e), w2)
      | (Inr c1, w2) \<Rightarrow> (Inr c1, w2))"

subsection \<open>Loading\<close>

definition memory_reader :: "'w OpenApi \<Rightarrow> SchemaCache \<Rightarrow> 'w uri_reader" where
  "memory_reader env c w refURL =
     (case map_of (ScRawSchemas c) (extractRelativeSchemaPath refURL) of
        Some data \<Rightarrow> (Inr data, w)
      | None \<Rightarrow> freshReadFromURI env w refURL)"

definition load_failed :: "string \<Rightarrow> goerr \<Rightarrow> goerr" where
  "load_failed schemaPath e = errorf_w (''failed to load schema from '' @ schemaPath @ '': '') e"

definition cache_loaded ::
  "'w OpenApi \<Rightarrow> SchemaCache \<Rightarrow> string \<Rightarrow> int \<Rightarrow> (goerr + SchemaDoc) \<times> 'w \<Rightarrow> (goerr + SchemaDoc) \<times> SchemaCache \<times> 'w" where
  "cache_loaded env c schemaPath ttl r =
     (case r of
        (Inl e, w1) \<Rightarrow> (Inl (load_failed schemaPath e), c, w1)
      | (Inr doc, w1) \<Rightarrow> (let (c1, w2) = schemaCache_set env c w1 (hashURL env schemaPath) doc ttl in (Inr doc, c1, w2)))"

text \<open>The document behind a path, from the network or the file system.\<close>

definition load_remote :: "'w OpenApi \<Rightarrow> 'w \<Rightarrow> string \<Rightarrow> URL \<Rightarrow> int \<Rightarrow> (goerr + SchemaDoc) \<times> 'w" where
  "load_remote env w schemaPath u timeout =
     (if UScheme u = ''http'' \<or> UScheme u = ''https'' then OaLoadFromURI env (Some timeout) (freshReadFromURI env) w u
      else OaLoadFromFile env (freshReadFromURI env) w (if UScheme u = ''file'' then UPath u else schemaPath))"

definition loadSchemaFromPath ::
  "'w OpenApi \<Rightarrow> SchemaCache \<Rightarrow> 'w \<Rightarrow> string \<Rightarrow> int \<Rightarrow> int \<Rightarrow> bool \<Rightarrow> (goerr + SchemaDoc) \<times> SchemaCache \<times> 'w" where
  "loadSchemaFromPath env c w schemaPath ttl timeout localSchema =
     (case OaParseURL env schemaPath of
        Inl e \<Rightarrow> (Inl (errorf_w (''failed to parse schema URL '' @ schemaPath @ '': '') e), c, w)
      | Inr u \<Rightarrow>
          (case (if localSchema then map_of (ScRawSchemas c) (extractRelativeSchemaPath u) else None) of
             Some schemaBytes \<Rightarrow> cache_loaded env c schemaPath ttl (OaLoadFromData env (memory_reader env c) w schemaBytes)
           | None \<Rightarrow>
               (case schemaCache_get env c w (hashURL env schemaPath) of
                  (Some doc, c1, w1) \<Rightarrow> (Inr doc, c1, w1)
                | (None, c1, w1) \<Rightarrow>
                    if \<not> isValidSchemaPath env schemaPath then (Inl (ErrText (''invalid schema path: '' @ schemaPath)), c1, w1)
                    else cache_loaded env c1 schemaPath ttl (load_remote env w1 schemaPath u timeout))))"

definition x_jsonld_type :: "OSchema \<Rightarrow> string option" where
  "x_jsonld_type s =
     (case map_of (OsExtensions s) ''x-jsonld'' of
        Some (JObj m) \<Rightarrow> (case jget m ''@type'' of Some (JStr t) \<Rightarrow> Some t | _ \<Rightarrow> None)
      | _ \<Rightarrow> None)"

definition findSchemaByType :: "SchemaDoc \<Rightarrow> string \<Rightarrow> goerr + OSchema option" where
  "findSchemaByType doc typeName =
     (case SdComponents doc of
        None \<Rightarrow> Inl (ErrText ''no schemas found in document'')
      | Some schemas \<Rightarrow>
          (case map_of schemas typeName of
             Some schema \<Rightarrow> Inr schema
           | None \<Rightarrow>
               (case find (\<lambda>p. case snd p of None \<Rightarrow> False | Some s \<Rightarrow> x_jsonld_type s = Some typeName) schemas of
                  Some p \<Rightarrow> Inr (snd p)
                | None \<Rightarrow> Inl (ErrText (''no schema found for @type: '' @ typeName)))))"

subsection \<open>Objects\<close>

record ReferencedObject =
  RoPath :: string
  RoContext :: string
  RoType :: string
  RoData :: "(string \<times> json) list"

definition self_object :: "(string \<times> json) list \<Rightarrow> string \<Rightarrow> ReferencedObject list" where
  "self_object v path =
     (case (jget v ''@context'', jget v ''@type'') of
        (Some (JStr c), Some (JStr t)) \<Rightarrow> [\<lparr>RoPath = path, RoContext = c, RoType = t, RoData = v\<rparr>]
      | _ \<Rightarrow> [])"

definition member_path :: "string \<Rightarrow> string \<Rightarrow> string" where
  "member_path path key = (if path \<noteq> [] then path @ ''.'' @ key else key)"

fun findReferencedObjects :: "json \<Rightarrow> string \<Rightarrow> ReferencedObject list"
and find_in_members :: "(string \<times> json) list \<Rightarrow> string \<Rightarrow> ReferencedObject list"
and find_in_items :: "json list \<Rightarrow> nat \<Rightarrow> string \<Rightarrow> ReferencedObject list" where
  "findReferencedObjects (JObj v) path = self_object v path @ find_in_members v path"
| "findReferencedObjects (JArr v) path = find_in_items v 0 path"
| "findReferencedObjects _ path = []"
| "find_in_members [] path = []"
| "find_in_members ((key, val) # rest) path = findReferencedObjects val (member_path path key) @ find_in_members rest path"
| "find_in_items [] i path = []"
| "find_in_items (item # rest) i path =
     findReferencedObjects item (path @ ''['' @ nat_dec i @ '']'') @ find_in_items rest (Suc i) path"

definition local_type :: "string \<Rightarrow> string" where
  "local_type t = (case LastIndex t '':'' of Some idx \<Rightarrow> drop (idx + 1) t | None \<Rightarrow> t)"

text \<open>The look-up by type in local mode; a failure only has the document looked up by context.\<close>

definition local_document ::
  "'w OpenApi \<Rightarrow> SchemaCache \<Rightarrow> 'w \<Rightarrow> ReferencedObject \<Rightarrow> int \<Rightarrow> int \<Rightarrow> bool \<Rightarrow> SchemaDoc option \<times> SchemaCache \<times> 'w" where
  "local_document env c w obj ttl timeout localSchema =
     (let typeName = local_type (RoType obj) in
      if localSchema \<and> typeName \<noteq> [] \<and> CHR ''/'' \<notin> set typeName \<and> CHR 0x5C \<notin> set typeName then
        (case loadSchemaFromPath env c w (typeName @ ''/attributes.yaml'') ttl timeout localSchema of
           (Inl e, c1, w1) \<Rightarrow> (None, c1, w1)
         | (Inr doc, c1, w1) \<Rightarrow> (Some doc, c1, w1))
      else (None, c, w))"

definition context_refused :: "'w OpenApi \<Rightarrow> string list \<Rightarrow> string \<Rightarrow> openerr option" where
  "context_refused env allowedDomains ctx =
     (let bad = (\<lambda>msg. Some (BecknError (NewCodedError ''SCH_INVALID_JSONLD_CONTEXT'' (msg @ ctx)))) in
      if allowedDomains = [] then None
      else
        (case OaParseURL env ctx of
           Inl e \<Rightarrow> bad ''invalid scheme in @context: ''
         | Inr u \<Rightarrow>
             if UScheme u \<noteq> ''http'' \<and> UScheme u \<noteq> ''https'' then bad ''invalid scheme in @context: ''
             else if \<not> isAllowedDomain u allowedDomains then bad ''domain not allowed: ''
             else None))"

definition domain_data :: "(string \<times> json) list \<Rightarrow> (string \<times> json) list" where
  "domain_data data = filter (\<lambda>p. fst p \<noteq> ''@context'' \<and> fst p \<noteq> ''@type'') data"

definition check_object :: "'w OpenApi \<Rightarrow> SchemaDoc \<Rightarrow> ReferencedObject \<Rightarrow> openerr option" where
  "check_object env doc obj =
     (case findSchemaByType doc (RoType obj) of
        Inl e \<Rightarrow> Some (BecknError (NewCodedErrorWithCause ''SCH_INVALID_ENTITY_TYPE'' (error_text e) (RoPath obj) (Some e)))
      | Inr schema \<Rightarrow> OaVisitJSON env schema (JObj (domain_data (RoData obj))))"

definition validateReferencedObject ::
  "'w OpenApi \<Rightarrow> SchemaCache \<Rightarrow> 'w \<Rightarrow> ReferencedObject \<Rightarrow> int \<Rightarrow> int \<Rightarrow> string list \<Rightarrow> bool \<Rightarrow> openerr option \<times> SchemaCache \<times> 'w" where
  "validateReferencedObject env c w obj ttl timeout allowedDomains localSchema =
     (case local_document env c w obj ttl timeout localSchema of
        (Some doc, c1, w1) \<Rightarrow> (check_object env doc obj, c1, w1)
      | (None, c1, w1) \<Rightarrow>
          (case context_refused env allowedDomains (RoContext obj) of
             Some e \<Rightarrow> (Some e, c1, w1)
           | None \<Rightarrow>
               (case loadSchemaFromPath env c1 w1 (transformContextToSchemaURL (RoContext obj)) ttl timeout False of
                  (Inl e, c2, w2) \<Rightarrow>
                    (Some (BecknError (NewCodedErrorWithCause ''SCH_SCHEMA_ADAPTATION_FAILED'' (error_text e) (RoPath obj) (Some e))), c2, w2)
                | (Inr doc, c2, w2) \<Rightarrow> (check_object env doc obj, c2, w2))))"

subsection \<open>Messages\<close>

record ExtendedSchemaConfig =
  EsCacheTTL :: int
  EsMaxCacheSize :: int
  EsDownloadTimeout :: int
  EsAllowedDomains :: "string list"
  EsLocalSchemaPath :: string

definition es_ttl :: "ExtendedSchemaConfig \<Rightarrow> int" where
  "es_ttl cfg = (if EsCacheTTL cfg > 0 then wrap64 (EsCacheTTL cfg * second) else 86400 * second)"

definition es_timeout :: "ExtendedSchemaConfig \<Rightarrow> int" where
  "es_timeout cfg = (if EsDownloadTimeout cfg > 0 then wrap64 (EsDownloadTimeout cfg * second) else 30 * second)"

fun validate_referenced ::
  "'w OpenApi \<Rightarrow> ExtendedSchemaConfig \<Rightarrow> SchemaCache \<Rightarrow> 'w \<Rightarrow> ReferencedObject list \<Rightarrow> goerr option \<times> SchemaCache \<times> 'w" where
  "validate_referenced env cfg c w [] = (None, c, w)"
| "validate_referenced env cfg c w (obj # objs) =
     (case validateReferencedObject env c w obj (es_ttl cfg) (es_timeout cfg) (EsAllowedDomains cfg) (EsLocalSchemaPath cfg \<noteq> []) of
        (Some err, c1, w1) \<Rightarrow> (Some (ErrSchema (prefixSchemaErrorPaths (extractSchemaErrors err) (RoPath obj))), c1, w1)
      | (None, c1, w1) \<Rightarrow> validate_referenced env cfg c1 w1 objs)"

definition validateExtendedSchemas ::
  "'w OpenApi \<Rightarrow> ExtendedSchemaConfig \<Rightarrow> SchemaCache \<Rightarrow> 'w \<Rightarrow> json \<Rightarrow> goerr option \<times> SchemaCache \<times> 'w" where
  "validateExtendedSchemas env cfg c w body =
     (case body of
        JObj bodyMap \<Rightarrow>
          (case jget bodyMap ''message'' of
             None \<Rightarrow> (Some (ErrText (''missing '' @ CHR 0x27 # ''message'' @ CHR 0x27 # '' field in request body'')), c, w)
           | Some message \<Rightarrow> validate_referenced env cfg c w (findReferencedObjects message ''message''))
      | _ \<Rightarrow> (Some (ErrText ''body is not a valid JSON object''), c, w))"

end
