(* ===== verification/Openapi_Validator.thy ===== *)
theory Openapi_Validator
  imports Extended_Schema Opa_Config
begin

text \<open>
  The schema validator of version 2 (\<open>schemav2validator/schemav2validator.go\<close> and \<open>cmd/plugin.go\<close>): it indexes the
  actions of a primary and of auxiliary OpenAPI documents, validates a request against the schema of its action and,
  where this is enabled, the JSON-LD objects of its message, and reloads the documents at a regular interval.

  The index is an association list; where \<open>range\<close> visits a map, the list is in the order of the visit. Schemas are
  finite, so a context schema whose \<open>allOf\<close> leads back to itself, on which \<open>getActionValue\<close> does not return, is outside
  the model. Log output is left out.
\<close>

subsection \<open>Records\<close>

record AuxSpec =
  AxType :: string
  AxLocation :: string

record SvConfig =
  SvType :: string
  SvLocation :: string
  SvCacheTTL :: int
  SvAuxiliary :: "AuxSpec list"
  SvEnableExtendedSchema :: bool
  SvExtendedSchemaConfig :: ExtendedSchemaConfig

type_synonym action_schemas = "(string \<times> OSchema) list"
type_synonym bodyless_actions = "(string \<times> unit) list"

record cachedSpec =
  CpDoc :: "SchemaDoc option"
  CpActionSchemas :: action_schemas
  CpBodylessActions :: bodyless_actions
  CpLoadedAt :: int

record schemav2Validator =
  VaConfig :: SvConfig
  VaSpecsLoaded :: bool
  VaActionSchemas :: action_schemas
  VaBodylessActions :: bodyless_actions
  VaSchemaCache :: "SchemaCache option"

subsection \<open>The index of a document\<close>

text \<open>The value of the property \<open>action\<close>; \<^term>\<open>None\<close> where the search goes on in \<open>allOf\<close>.\<close>

definition action_property :: "OSchema \<Rightarrow> string option" where
  "action_property s =
     (case OsConst s of
        Some (JStr a) \<Rightarrow> if a \<noteq> [] then Some a else None
      | _ \<Rightarrow> None)"

definition action_fallback :: "OSchema \<Rightarrow> string option" where
  "action_fallback s =
     (case map_of (OsExtensions s) ''const'' of
        Some (JStr a) \<Rightarrow> Some a
      | _ \<Rightarrow> (case OsEnum s of JStr a # _ \<Rightarrow> Some a | _ \<Rightarrow> None))"

definition own_action :: "(string \<times> OSchema option) list \<Rightarrow> string option" where
  "own_action properties =
     (case map_of properties ''action'' of
        Some (Some s) \<Rightarrow> (case action_property s of Some a \<Rightarrow> Some a | None \<Rightarrow> action_fallback s)
      | _ \<Rightarrow> None)"

fun getActionValue :: "OSchema \<Rightarrow> string" and action_of_all :: "OSchema option list \<Rightarrow> string" where
  "getActionValue (OSchema rest properties allOf const extensions enum) =
     (case own_action properties of Some a \<Rightarrow> a | None \<Rightarrow> action_of_all allOf)"
| "action_of_all [] = []"
| "action_of_all (None # schemas) = action_of_all schemas"
| "action_of_all (Some s # schemas) = (let action = getActionValue s in if action \<noteq> [] then action else action_of_all schemas)"

definition context_action :: "OSchema \<Rightarrow> string" where
  "context_action s = (case map_of (OsProperties s) ''context'' of Some (Some c) \<Rightarrow> getActionValue c | _ \<Rightarrow> [])"

definition extractActionFromSchema :: "OSchema \<Rightarrow> string" where
  "extractActionFromSchema schema =
     (case find (\<lambda>s. case s of None \<Rightarrow> False | Some x \<Rightarrow> context_action x \<noteq> []) (Some schema # OsAllOf schema) of
        Some (Some s) \<Rightarrow> context_action s
      | _ \<Rightarrow> [])"

definition index_body :: "action_schemas \<Rightarrow> Operation option \<Rightarrow> action_schemas" where
  "index_body m op =
     (case op of
        Some op \<Rightarrow>
          (case OpRequestBody op of
             Some (Some s) \<Rightarrow> (let action = extractActionFromSchema s in if action \<noteq> [] then go_set m action s else m)
           | _ \<Rightarrow> m)
      | None \<Rightarrow> m)"

definition index_bodyless :: "string \<Rightarrow> bodyless_actions \<Rightarrow> Operation option \<Rightarrow> bodyless_actions" where
  "index_bodyless specPath m op =
     (case op of
        Some op \<Rightarrow> if OpRequestBody op \<noteq> None then m else go_set m (TrimPrefix specPath ''/'') ()
      | None \<Rightarrow> m)"

definition index_path ::
  "action_schemas \<times> bodyless_actions \<Rightarrow> string \<times> PathItem option \<Rightarrow> action_schemas \<times> bodyless_actions" where
  "index_path acc entry =
     (case snd entry of
        None \<Rightarrow> acc
      | Some item \<Rightarrow>
          (foldl index_body (fst acc) [PiPost item, PiGet item, PiPut item, PiPatch item, PiDelete item],
           foldl (index_bodyless (fst entry)) (snd acc) [PiGet item, PiDelete item]))"

definition buildActionIndex :: "SchemaDoc \<Rightarrow> action_schemas \<times> bodyless_actions" where
  "buildActionIndex doc = foldl index_path ([], []) (SdPaths doc)"

subsection \<open>Loading documents\<close>

text \<open>The types \<open>url\<close> and \<open>file\<close> of \<open>loadSingleSpec\<close>.\<close>

definition read_document :: "'w OpenApi \<Rightarrow> 'w \<Rightarrow> string \<Rightarrow> string \<Rightarrow> (goerr + SchemaDoc) \<times> 'w" where
  "read_document env w specType location =
     (let failed = (\<lambda>r. case r of
            (Inl e, w1) \<Rightarrow> (Inl (ErrText (''failed to load OpenAPI document: '' @ error_text e)), w1)
          | (Inr doc, w1) \<Rightarrow> (Inr doc, w1))
      in if specType = ''url'' then
           (case OaParseURL env location of
              Inl e \<Rightarrow> (Inl (ErrText (''failed to parse URL: '' @ error_text e)), w)
            | Inr u \<Rightarrow> failed (OaLoadFromURI env None (freshReadFromURI env) w u))
         else if specType = ''file'' then failed (OaLoadFromFile env (freshReadFromURI env) w location)
         else (Inl (ErrText (''unsupported type: '' @ specType)), w))"

definition load_document :: "'w OpenApi \<Rightarrow> 'w \<Rightarrow> string \<Rightarrow> string \<Rightarrow> (goerr + cachedSpec) \<times> 'w" where
  "load_document env w specType location =
     (case read_document env w specType location of
        (Inl e, w1) \<Rightarrow> (Inl e, w1)
      | (Inr doc, w1) \<Rightarrow>
          (let (actions, bodyless) = buildActionIndex doc; (now, w2) = OaClock env w1
           in (Inr \<lparr>CpDoc = Some doc, CpActionSchemas = actions, CpBodylessActions = bodyless, CpLoadedAt = now\<rparr>, w2)))"

text \<open>Merging an index into another one, with the error for an action that is there already.\<close>

fun add_new :: "(string \<Rightarrow> goerr) \<Rightarrow> (string \<times> 'a) list \<Rightarrow> (string \<times> 'a) list \<Rightarrow> goerr + (string \<times> 'a) list" where
  "add_new clash [] m = Inr m"
| "add_new clash ((action, x) # rest) m = (if map_of m action \<noteq> None then Inl (clash action) else add_new clash rest (go_set m action x))"

definition dash_between :: string where "dash_between = [CHR '' '', CHR 0xE2, CHR 0x80, CHR 0x94, CHR '' '']"

definition dir_clash :: "string \<Rightarrow> string \<Rightarrow> string \<Rightarrow> string \<Rightarrow> goerr" where
  "dir_clash kind dir filePath action =
     ErrText (''dir spec '' @ go_quote dir @ '': '' @ kind @ '' '' @ go_quote action @ '' defined in multiple files'' @ dash_between @
       ''last seen in '' @ filePath @ ''; remove the duplicate'')"

definition spec_file :: "string \<Rightarrow> bool" where
  "spec_file name \<longleftrightarrow> HasSuffix name ''.yaml'' \<or> HasSuffix name ''.yml'' \<or> HasSuffix name ''.json''"

text \<open>Both maps of a document merged into those of another one.\<close>

definition merge_spec :: "(string \<Rightarrow> string \<Rightarrow> goerr) \<Rightarrow> cachedSpec \<Rightarrow> action_schemas \<times> bodyless_actions \<Rightarrow>
    goerr + action_schemas \<times> bodyless_actions" where
  "merge_spec clash spec m =
     bind_result (add_new (clash ''action'') (CpActionSchemas spec) (fst m)) (\<lambda>actions.
     bind_result (add_new (clash ''bodyless action'') (CpBodylessActions spec) (snd m)) (\<lambda>bodyless.
     Inr (actions, bodyless)))"

fun load_dir_entries ::
  "'w OpenApi \<Rightarrow> string \<Rightarrow> 'w \<Rightarrow> (string \<times> bool) list \<Rightarrow> action_schemas \<times> bodyless_actions \<Rightarrow>
    (goerr + action_schemas \<times> bodyless_actions) \<times> 'w" where
  "load_dir_entries env dir w [] m = (Inr m, w)"
| "load_dir_entries env dir w ((name, isDir) # rest) m =
     (if isDir \<or> \<not> spec_file name then load_dir_entries env dir w rest m
      else
        (let filePath = path_Join dir name in
         case load_document env w ''file'' filePath of
           (Inl e, w1) \<Rightarrow> load_dir_entries env dir w1 rest m
         | (Inr spec, w1) \<Rightarrow>
             (case merge_spec (\<lambda>kind. dir_clash kind dir filePath) spec m of
                Inl e \<Rightarrow> (Inl e, w1)
              | Inr m1 \<Rightarrow> load_dir_entries env dir w1 rest m1)))"

definition loadSpecFromDir :: "'w OpenApi \<Rightarrow> 'w \<Rightarrow> string \<Rightarrow> (goerr + cachedSpec) \<times> 'w" where
  "loadSpecFromDir env w dir =
     (case OaReadDir env w dir of
        (Inl e, w1) \<Rightarrow> (Inl (errorf_w (''failed to read directory '' @ dir @ '': '') e), w1)
      | (Inr entries, w1) \<Rightarrow>
          (let (now, w2) = OaClock env w1 in
           case load_dir_entries env dir w2 entries ([], []) of
             (Inl e, w3) \<Rightarrow> (Inl e, w3)
           | (Inr (actions, bodyless), w3) \<Rightarrow>
               (Inr \<lparr>CpDoc = None, CpActionSchemas = actions, CpBodylessActions = bodyless, CpLoadedAt = now\<rparr>, w3)))"

definition loadSingleSpec :: "'w OpenApi \<Rightarrow> 'w \<Rightarrow> string \<Rightarrow> string \<Rightarrow> (goerr + cachedSpec) \<times> 'w" where
  "loadSingleSpec env w specType location =
     (if specType = ''dir'' then loadSpecFromDir env w location else load_document env w specType location)"

definition aux_clash :: "nat \<Rightarrow> string \<Rightarrow> string \<Rightarrow> string \<Rightarrow> goerr" where
  "aux_clash i location kind action =
     ErrText (''auxiliary spec['' @ nat_dec i @ ''] ('' @ location @ '') defines '' @ kind @ '' '' @ go_quote action @
       '' which is already defined in a previously loaded spec'' @ dash_between @ ''auxiliary specs may only add new actions'')"

definition aux_failed :: "nat \<Rightarrow> AuxSpec \<Rightarrow> goerr \<Rightarrow> goerr" where
  "aux_failed i aux e =
     errorf_w (''auxiliary spec['' @ nat_dec i @ ''] ('' @ AxType aux @ '': '' @ AxLocation aux @ '') failed to reload'' @ dash_between @
       ''retaining previous index: '') e"

fun load_auxiliary ::
  "'w OpenApi \<Rightarrow> bool \<Rightarrow> nat \<Rightarrow> 'w \<Rightarrow> AuxSpec list \<Rightarrow> action_schemas \<times> bodyless_actions \<Rightarrow>
    (goerr + action_schemas \<times> bodyless_actions) \<times> 'w" where
  "load_auxiliary env failOnAuxError i w [] m = (Inr m, w)"
| "load_auxiliary env failOnAuxError i w (aux # rest) m =
     (case loadSingleSpec env w (AxType aux) (AxLocation aux) of
        (Inl e, w1) \<Rightarrow>
          if failOnAuxError then (Inl (aux_failed i aux e), w1) else load_auxiliary env failOnAuxError (Suc i) w1 rest m
      | (Inr spec, w1) \<Rightarrow>
          (case merge_spec (aux_clash i (AxLocation aux)) spec m of
             Inl e \<Rightarrow> (Inl e, w1)
           | Inr m1 \<Rightarrow> load_auxiliary env failOnAuxError (Suc i) w1 rest m1))"

definition hasPrimary :: "SvConfig \<Rightarrow> bool" where
  "hasPrimary cfg \<longleftrightarrow> SvType cfg \<noteq> [] \<and> SvLocation cfg \<noteq> []"

definition load_primary :: "'w OpenApi \<Rightarrow> SvConfig \<Rightarrow> 'w \<Rightarrow> (goerr + action_schemas \<times> bodyless_actions) \<times> 'w" where
  "load_primary env cfg w =
     (if hasPrimary cfg then
        (case loadSingleSpec env w (SvType cfg) (SvLocation cfg) of
           (Inl e, w1) \<Rightarrow> (Inl (errorf_w ''failed to load primary spec: '' e), w1)
         | (Inr spec, w1) \<Rightarrow>
             (Inr (foldl (\<lambda>m p. go_set m (fst p) (snd p)) [] (CpActionSchemas spec),
                   foldl (\<lambda>m p. go_set m (fst p) (snd p)) [] (CpBodylessActions spec)), w1))
      else (Inr ([], []), w))"

definition loadAllSpecs :: "'w OpenApi \<Rightarrow> schemav2Validator \<Rightarrow> 'w \<Rightarrow> bool \<Rightarrow> goerr option \<times> schemav2Validator \<times> 'w" where
  "loadAllSpecs env v w failOnAuxError =
     (case load_primary env (VaConfig v) w of
        (Inl e, w1) \<Rightarrow> (Some e, v, w1)
      | (Inr m, w1) \<Rightarrow>
          (case load_auxiliary env failOnAuxError 0 w1 (SvAuxiliary (VaConfig v)) m of
             (Inl e, w2) \<Rightarrow> (Some e, v, w2)
           | (Inr (actions, bodyless), w2) \<Rightarrow>
               if actions = [] \<and> bodyless = [] then
                 (Some (ErrText (''schemav2validator: no actions indexed after loading all specs'' @ dash_between @
                    ''configure at least one valid primary or auxiliary spec'')), v, w2)
               else
                 (None, v\<lparr>VaSpecsLoaded := True, VaActionSchemas := actions, VaBodylessActions := bodyless\<rparr>, w2)))"

definition initialise :: "'w OpenApi \<Rightarrow> schemav2Validator \<Rightarrow> 'w \<Rightarrow> goerr option \<times> schemav2Validator \<times> 'w" where
  "initialise env v w = loadAllSpecs env v w False"

definition reloadAllSpecs :: "'w OpenApi \<Rightarrow> schemav2Validator \<Rightarrow> 'w \<Rightarrow> schemav2Validator \<times> 'w" where
  "reloadAllSpecs env v w = snd (loadAllSpecs env v w True)"

subsection \<open>Validation\<close>

definition invalid_json :: "string \<Rightarrow> goerr" where
  "invalid_json what = ErrSchema [NewCodedError ''SCH_INVALID_JSON'' (what @ ''json.Unmarshal'')]"

definition bad_request :: "string \<Rightarrow> goerr" where
  "bad_request what = NewBadReqErr [] (ErrText what)"

definition Validate_bodyless :: "schemav2Validator \<Rightarrow> URL option \<Rightarrow> goerr option" where
  "Validate_bodyless v reqURL =
     (case reqURL of
        None \<Rightarrow> Some (bad_request ''request URL is required for bodyless validation'')
      | Some u \<Rightarrow>
          if \<not> VaSpecsLoaded v then Some (bad_request ''no OpenAPI spec loaded'')
          else if map_of (VaBodylessActions v) (UPath u) = None then
            Some (bad_request (''unsupported bodyless request for endpoint: '' @ UPath u))
          else None)"

text \<open>Decoding the body into \<open>payload\<close>: the action, or \<^term>\<open>None\<close> for an error.\<close>

definition payload_action :: "string \<Rightarrow> string option" where
  "payload_action body =
     (case json_decode body of
        Some (JObj kvs) \<Rightarrow>
          (let (err, action) = foldl (decode_context_member ''action'') (False, []) kvs in if err then None else Some action)
      | Some JNull \<Rightarrow> Some []
      | _ \<Rightarrow> None)"

definition Validate_extended ::
  "'w OpenApi \<Rightarrow> schemav2Validator \<Rightarrow> 'w \<Rightarrow> json \<Rightarrow> goerr option \<times> schemav2Validator \<times> 'w" where
  "Validate_extended env v w jsonData =
     (case VaSchemaCache v of
        Some c \<Rightarrow>
          if SvEnableExtendedSchema (VaConfig v) then
            (let (err, c1, w1) = validateExtendedSchemas env (SvExtendedSchemaConfig (VaConfig v)) c w jsonData
             in (err, v\<lparr>VaSchemaCache := Some c1\<rparr>, w1))
          else (None, v, w)
      | None \<Rightarrow> (None, v, w))"

definition schemav2_Validate ::
  "'w OpenApi \<Rightarrow> schemav2Validator \<Rightarrow> 'w \<Rightarrow> URL option \<Rightarrow> string \<Rightarrow> goerr option \<times> schemav2Validator \<times> 'w" where
  "schemav2_Validate env v w reqURL data =
     (if data = [] then (Validate_bodyless v reqURL, v, w)
      else
        (case payload_action data of
           None \<Rightarrow> (Some (invalid_json ''failed to parse JSON payload: ''), v, w)
         | Some action \<Rightarrow>
             if action = [] then (Some (bad_request ''missing field Action in context''), v, w)
             else if \<not> VaSpecsLoaded v then (Some (bad_request ''no OpenAPI spec loaded''), v, w)
             else
               (case map_of (VaActionSchemas v) action of
                  None \<Rightarrow> (Some (bad_request (''unsupported action: '' @ action)), v, w)
                | Some schema \<Rightarrow>
                    (case unmarshal_any (OaFloat env) data of
                       None \<Rightarrow> (Some (invalid_json ''invalid JSON: ''), v, w)
                     | Some jsonData \<Rightarrow>
                         (case OaVisitJSON env (Some schema) jsonData of
                            Some err \<Rightarrow> (Some (formatValidationError err), v, w)
                          | None \<Rightarrow> Validate_extended env v w jsonData)))))"

text \<open>The validator as the plugin that a handler calls, with its state beside the world.\<close>

definition schemav2_plugin :: "'w OpenApi \<Rightarrow> (schemav2Validator \<times> 'w) SchemaValidator" where
  "schemav2_plugin env =
     \<lparr>SchemaValidate = (\<lambda>s ctx reqURL data. let (err, v, w) = schemav2_Validate env (fst s) (snd s) reqURL data in (err, (v, w)))\<rparr>"

subsection \<open>Construction\<close>

definition schemav2_config_error :: "SvConfig \<Rightarrow> goerr option" where
  "schemav2_config_error cfg =
     (if SvType cfg \<noteq> [] \<or> SvLocation cfg \<noteq> [] then
        (if SvType cfg = [] then Some (ErrText ''config type cannot be empty when location is set'')
         else if SvLocation cfg = [] then Some (ErrText ''config location cannot be empty when type is set'')
         else if SvType cfg \<notin> set [''url'', ''file'', ''dir''] then
           Some (ErrText (''config type must be '' @ sq ''url'' @ '', '' @ sq ''file'' @ '', or '' @ sq ''dir''))
         else None)
      else None)"

definition new_extended_cache :: "'w OpenApi \<Rightarrow> SvConfig \<Rightarrow> 'w \<Rightarrow> (goerr + SchemaCache option) \<times> 'w" where
  "new_extended_cache env cfg w =
     (let ext = SvExtendedSchemaConfig cfg in
      if SvEnableExtendedSchema cfg then
        (let c = newSchemaCache (if EsMaxCacheSize ext > 0 then EsMaxCacheSize ext else 100) in
         if EsLocalSchemaPath ext \<noteq> [] then
           (case preloadSchemasToCache env c w (EsLocalSchemaPath ext) of
              (Inl e, w1) \<Rightarrow> (Inl (errorf_w ''failed to preload schemas: '' e), w1)
            | (Inr c1, w1) \<Rightarrow> (Inr (Some c1), w1))
         else (Inr (Some c), w))
      else (Inr None, w))"

definition schemav2_New :: "'w OpenApi \<Rightarrow> 'w \<Rightarrow> SvConfig option \<Rightarrow> (goerr + schemav2Validator) \<times> 'w" where
  "schemav2_New env w config =
     (case config of
        None \<Rightarrow> (Inl (ErrText ''config cannot be nil''), w)
      | Some cfg \<Rightarrow>
          (case schemav2_config_error cfg of
             Some e \<Rightarrow> (Inl e, w)
           | None \<Rightarrow>
               (let cfg1 = cfg\<lparr>SvCacheTTL := (if SvCacheTTL cfg = 0 then 3600 else SvCacheTTL cfg)\<rparr> in
                case new_extended_cache env cfg1 w of
                  (Inl e, w1) \<Rightarrow> (Inl e, w1)
                | (Inr cache, w1) \<Rightarrow>
                    (case initialise env \<lparr>VaConfig = cfg1, VaSpecsLoaded = False, VaActionSchemas = [], VaBodylessActions = [],
                         VaSchemaCache = cache\<rparr> w1 of
                       (Some e, _, w2) \<Rightarrow> (Inl (ErrText (''failed to initialise schemav2Validator: '' @ error_text e)), w2)
                     | (None, v, w2) \<Rightarrow> (Inr v, w2)))))"

text \<open>The settings of the plugin's entry point; a setting that is not a positive number is ignored.\<close>

definition positive_setting :: "(string \<rightharpoonup> string) \<Rightarrow> string \<Rightarrow> int \<Rightarrow> int" where
  "positive_setting config key preset =
     (case config key of
        None \<Rightarrow> preset
      | Some s \<Rightarrow> (case Atoi s of Some n \<Rightarrow> if n > 0 then n else preset | None \<Rightarrow> preset))"

fun aux_entries :: "string list \<Rightarrow> string list \<Rightarrow> goerr + AuxSpec list" where
  "aux_entries (t # types) (l # locations) =
     (if TrimSpace t = [] \<or> TrimSpace l = [] then
        Inl (ErrText ''auxiliaryTypes and auxiliaryLocations entries must not be empty'')
      else bind_result (aux_entries types locations) (\<lambda>rest. Inr (\<lparr>AxType = TrimSpace t, AxLocation = TrimSpace l\<rparr> # rest)))"
| "aux_entries types locations = Inr []"

definition aux_settings :: "string \<Rightarrow> string \<Rightarrow> goerr + AuxSpec list" where
  "aux_settings auxTypes auxLocations =
     (if auxTypes = [] \<and> auxLocations = [] then Inr []
      else if auxTypes = [] then Inl (ErrText ''auxiliaryLocations is set but auxiliaryTypes is missing'')
      else if auxLocations = [] then Inl (ErrText ''auxiliaryTypes is set but auxiliaryLocations is missing'')
      else
        (let types = Split (CHR '','') auxTypes; locations = Split (CHR '','') auxLocations in
         if length types \<noteq> length locations then
           Inl (ErrText ''auxiliaryTypes and auxiliaryLocations must have the same number of comma-separated entries'')
         else aux_entries types locations))"

definition extended_settings :: "(string \<rightharpoonup> string) \<Rightarrow> ExtendedSchemaConfig" where
  "extended_settings config =
     (if setting config ''extendedSchema_enabled'' = ''true'' then
        \<lparr>EsCacheTTL = positive_setting config ''extendedSchema_cacheTTL'' 0,
         EsMaxCacheSize = positive_setting config ''extendedSchema_maxCacheSize'' 0,
         EsDownloadTimeout = positive_setting config ''extendedSchema_downloadTimeout'' 0,
         EsAllowedDomains =
           (let v = setting config ''extendedSchema_allowedDomains'' in if v = [] then [] else Split (CHR '','') v),
         EsLocalSchemaPath = setting config ''extendedSchema_localSchemaPath''\<rparr>
      else \<lparr>EsCacheTTL = 0, EsMaxCacheSize = 0, EsDownloadTimeout = 0, EsAllowedDomains = [], EsLocalSchemaPath = []\<rparr>)"

definition schemav2_provider_New :: "'w OpenApi \<Rightarrow> 'w \<Rightarrow> (string \<rightharpoonup> string) \<Rightarrow> (goerr + schemav2Validator) \<times> 'w" where
  "schemav2_provider_New env w config =
     (let typeVal = setting config ''type''; locVal = setting config ''location'' in
      if typeVal \<noteq> [] \<and> locVal = [] then (Inl (ErrText ''location not configured''), w)
      else if locVal \<noteq> [] \<and> typeVal = [] then (Inl (ErrText ''type not configured''), w)
      else
        (case aux_settings (setting config ''auxiliaryTypes'') (setting config ''auxiliaryLocations'') of
           Inl e \<Rightarrow> (Inl e, w)
         | Inr auxiliary \<Rightarrow>
             schemav2_New env w (Some
               \<lparr>SvType = typeVal, SvLocation = locVal, SvCacheTTL = positive_setting config ''cacheTTL'' 3600,
                SvAuxiliary = auxiliary,
                SvEnableExtendedSchema = (setting config ''extendedSchema_enabled'' = ''true''),
                SvExtendedSchemaConfig = extended_settings config\<rparr>)))"

subsection \<open>The background loop\<close>

text \<open>
  The intervals of the tickers; \<open>time.NewTicker\<close> panics when an interval is not positive, and nothing recovers it.
\<close>

definition refresh_intervals :: "SvConfig \<Rightarrow> goerr + int \<times> int option" where
  "refresh_intervals cfg =
     (let core = wrap64 (SvCacheTTL cfg * second);
          ttl = EsCacheTTL (SvExtendedSchemaConfig cfg);
          ref = wrap64 ((if ttl \<le> 0 then 86400 else ttl) * second);
          stopped = Inl (GoPanic ''non-positive interval for NewTicker'')
      in if core \<le> 0 then stopped
         else if SvEnableExtendedSchema cfg then (if ref \<le> 0 then stopped else Inr (core, Some ref))
         else Inr (core, None))"

record 'w ValidatorState =
  VsValidator :: schemav2Validator
  VsWorld :: 'w
  VsRunning :: bool

text \<open>
  The steps of the validator after its construction: the two tickers of \<open>refreshLoop\<close> and its end, requests, and changes
  of the world by others.
\<close>

inductive validator_step :: "'w OpenApi \<Rightarrow> ('w \<Rightarrow> 'w \<Rightarrow> bool) \<Rightarrow> 'w ValidatorState \<Rightarrow> 'w ValidatorState \<Rightarrow> bool" for env outside where
  reload: "VsRunning s \<Longrightarrow> reloadAllSpecs env (VsValidator s) (VsWorld s) = (v, w) \<Longrightarrow>
    validator_step env outside s (s\<lparr>VsValidator := v, VsWorld := w\<rparr>)"
| cleanup: "VsRunning s \<Longrightarrow> VaSchemaCache (VsValidator s) = Some c \<Longrightarrow> cleanupExpired env c (VsWorld s) = (n, c', w) \<Longrightarrow>
    validator_step env outside s (s\<lparr>VsValidator := (VsValidator s)\<lparr>VaSchemaCache := Some c'\<rparr>, VsWorld := w\<rparr>)"
| cancel: "validator_step env outside s (s\<lparr>VsRunning := False\<rparr>)"
| request: "schemav2_Validate env (VsValidator s) (VsWorld s) reqURL body = (err, v, w) \<Longrightarrow>
    validator_step env outside s (s\<lparr>VsValidator := v, VsWorld := w\<rparr>)"
| other: "outside (VsWorld s) w \<Longrightarrow> validator_step env outside s (s\<lparr>VsWorld := w\<rparr>)"

inductive_cases validator_step_E: "validator_step env outside s s'"

end
