(* ===== verification/Schema_Trust.thy ===== *)
theory Schema_Trust
  imports Openapi_Validator
begin

text \<open>
  What the schema validator promises: which schemas its index serves after any sequence of reloads, that a request it
  accepts passed the schema of its action and, for every JSON-LD object in its message, a schema for the object's type
  from a permitted place, how large its cache gets, and which paths its errors name.

  \<open>schema_cache_law\<close> is the contract between the cache and the validator: a property of the cache that look-ups, entries
  for loaded documents and the clean-up keep holds in every state the validator reaches.
\<close>

subsection \<open>Places of documents\<close>

text \<open>A document that the library loaded for a path, from the network or a file, or from the preloaded files.\<close>

definition fetched :: "'w OpenApi \<Rightarrow> string \<Rightarrow> SchemaDoc \<Rightarrow> bool" where
  "fetched env path doc \<longleftrightarrow>
     (\<exists>u w timeout w'. OaParseURL env path = Inr u \<and> isValidSchemaPath env path \<and> load_remote env w path u timeout = (Inr doc, w'))"

definition preloaded :: "'w OpenApi \<Rightarrow> SchemaCache \<Rightarrow> string \<Rightarrow> SchemaDoc \<Rightarrow> bool" where
  "preloaded env c path doc \<longleftrightarrow>
     (\<exists>u raw w w'. OaParseURL env path = Inr u \<and> map_of (ScRawSchemas c) (extractRelativeSchemaPath u) = Some raw \<and>
       OaLoadFromData env (memory_reader env c) w raw = (Inr doc, w'))"

definition doc_at :: "'w OpenApi \<Rightarrow> SchemaCache \<Rightarrow> string \<Rightarrow> SchemaDoc \<Rightarrow> bool" where
  "doc_at env c path doc \<longleftrightarrow> fetched env path doc \<or> preloaded env c path doc"

lemma memory_reader_raw: "ScRawSchemas c = ScRawSchemas c' \<Longrightarrow> memory_reader env c = memory_reader env c'"
  by (intro ext) (simp add: memory_reader_def)

lemma doc_at_raw: "ScRawSchemas c = ScRawSchemas c' \<Longrightarrow> doc_at env c path doc = doc_at env c' path doc"
  by (simp add: doc_at_def preloaded_def memory_reader_raw [of c c' env])

lemma doc_at_schemas [simp]: "doc_at env (c\<lparr>ScSchemas := m\<rparr>) = doc_at env c"
  by (intro ext) (rule doc_at_raw, simp)

subsection \<open>Properties of the cache\<close>

text \<open>A property of the cache, of the validator that has it.\<close>

definition cache_holds :: "(SchemaCache \<Rightarrow> bool) \<Rightarrow> schemav2Validator \<Rightarrow> bool" where
  "cache_holds keeps v \<longleftrightarrow> (\<forall>c. VaSchemaCache v = Some c \<longrightarrow> keeps c)"

lemma loadAll_cache: "loadAllSpecs env v w b = (r, v', w') \<Longrightarrow> VaSchemaCache v' = VaSchemaCache v"
  by (auto simp: loadAllSpecs_def split: if_splits sum.splits prod.splits)

locale schema_cache_law =
  fixes env :: "'w OpenApi" and keeps :: "SchemaCache \<Rightarrow> bool"
  assumes get_law: "keeps c \<Longrightarrow> schemaCache_get env c w h = (d, c', w') \<Longrightarrow> keeps c'"
    and set_law: "keeps c \<Longrightarrow> doc_at env c path doc \<Longrightarrow> schemaCache_set env c w (hashURL env path) doc ttl = (c', w') \<Longrightarrow> keeps c'"
    and cleanup_law: "keeps c \<Longrightarrow> cleanupExpired env c w = (n, c', w') \<Longrightarrow> keeps c'"
begin

lemma cache_loaded_law:
  assumes "keeps c" "cache_loaded env c path ttl r = (res, c', w')" "\<And>doc. fst r = Inr doc \<Longrightarrow> doc_at env c path doc"
  shows "keeps c'"
  using assms by (cases r) (auto simp: cache_loaded_def split: sum.splits prod.splits intro: set_law)

lemma load_law:
  assumes "keeps c" "loadSchemaFromPath env c w path ttl timeout loc = (r, c', w')"
  shows "keeps c'"
proof (cases "OaParseURL env path")
  case (Inr u)
  show ?thesis
  proof (cases "if loc then map_of (ScRawSchemas c) (extractRelativeSchemaPath u) else None")
    case None
    obtain d c1 w1 where get: "schemaCache_get env c w (hashURL env path) = (d, c1, w1)" by (metis prod_cases3)
    have c1: "keeps c1" using assms(1) get by (rule get_law)
    show ?thesis
    proof (cases "d = None \<and> isValidSchemaPath env path")
      case True
      with None Inr get assms(2) have "cache_loaded env c1 path ttl (load_remote env w1 path u timeout) = (r, c', w')"
        by (simp add: loadSchemaFromPath_def)
      then show ?thesis
        by (rule cache_loaded_law [OF c1]) (use Inr True in \<open>auto simp: doc_at_def fetched_def prod_eq_iff\<close>)
    next
      case False
      with None Inr get assms(2) c1 show ?thesis by (auto simp: loadSchemaFromPath_def split: option.splits if_splits)
    qed
  next
    case (Some raw)
    with Inr assms(2) have "cache_loaded env c path ttl (OaLoadFromData env (memory_reader env c) w raw) = (r, c', w')"
      by (simp add: loadSchemaFromPath_def)
    then show ?thesis
      by (rule cache_loaded_law [OF assms(1)])
        (use Inr Some in \<open>auto simp: doc_at_def preloaded_def prod_eq_iff split: if_splits\<close>)
  qed
qed (use assms in \<open>simp add: loadSchemaFromPath_def\<close>)

lemma local_document_law:
  "keeps c \<Longrightarrow> local_document env c w obj ttl timeout loc = (d, c', w') \<Longrightarrow> keeps c'"
  by (auto simp: local_document_def Let_def split: if_splits sum.splits prod.splits dest: load_law)

lemma object_law:
  assumes "keeps c" "validateReferencedObject env c w obj ttl timeout domains loc = (r, c', w')"
  shows "keeps c'"
proof -
  obtain d c1 w1 where l: "local_document env c w obj ttl timeout loc = (d, c1, w1)" by (metis prod_cases3)
  have c1: "keeps c1" using assms(1) l by (rule local_document_law)
  show ?thesis
    using assms(2) l c1 load_law [OF c1]
    by (auto simp: validateReferencedObject_def split: option.splits sum.splits prod.splits)
qed

lemma objects_law: "keeps c \<Longrightarrow> validate_referenced env cfg c w objs = (r, c', w') \<Longrightarrow> keeps c'"
proof (induction objs arbitrary: c w)
  case (Cons obj objs)
  then show ?case using object_law by (fastforce split: option.splits prod.splits)
qed simp

lemma extended_law: "keeps c \<Longrightarrow> validateExtendedSchemas env cfg c w body = (r, c', w') \<Longrightarrow> keeps c'"
  by (auto simp: validateExtendedSchemas_def split: json.splits option.splits intro: objects_law)

lemma validate_law: "cache_holds keeps v \<Longrightarrow> schemav2_Validate env v w reqURL body = (r, v', w') \<Longrightarrow> cache_holds keeps v'"
  by (auto simp: cache_holds_def schemav2_Validate_def Validate_extended_def split: if_splits option.splits prod.splits dest: extended_law)

lemma step_law: "validator_step env outside s s' \<Longrightarrow> cache_holds keeps (VsValidator s) \<Longrightarrow> cache_holds keeps (VsValidator s')"
proof (induction rule: validator_step.induct)
  case (reload s v w)
  then show ?case using loadAll_cache by (fastforce simp: cache_holds_def reloadAllSpecs_def snd_def split: prod.splits)
qed (auto simp: cache_holds_def dest: cleanup_law validate_law [unfolded cache_holds_def])

lemma reachable_law: "(validator_step env outside)\<^sup>*\<^sup>* s s' \<Longrightarrow> cache_holds keeps (VsValidator s) \<Longrightarrow> cache_holds keeps (VsValidator s')"
  by (induction rule: rtranclp_induct) (auto intro: step_law)

end

subsection \<open>Entries of the cache\<close>

lemma schemaCache_get_cases:
  assumes "schemaCache_get env c w h = (d, c', w')"
  obtains "c' = c" "d = None"
  | e t where "map_of (ScSchemas c) h = Some e" "d = Some (CsDoc e)"
      "c' = c\<lparr>ScSchemas := go_set (ScSchemas c) h (e\<lparr>CsLastAccessed := t, CsAccessCount := CsAccessCount e + 1\<rparr>)\<rparr>"
  using assms by (auto simp: schemaCache_get_def Let_def split: option.splits prod.splits if_splits)

lemma schemaCache_set_form:
  assumes "schemaCache_set env c w h doc ttl = (c', w')"
  obtains e where "c' = (evict c)\<lparr>ScSchemas := go_set (ScSchemas (evict c)) h e\<rparr>" "CsDoc e = doc"
  using assms by (auto simp: schemaCache_set_def Let_def split: prod.splits)

lemma evict_subset: "set (ScSchemas (evict c)) \<subseteq> set (ScSchemas c)"
  by (auto simp: evict_def Let_def)

lemma evict_rest [simp]: "ScRawSchemas (evict c) = ScRawSchemas c" "ScMaxSize (evict c) = ScMaxSize c"
  by (simp_all add: evict_def Let_def)

lemma cleanupExpired_form:
  assumes "cleanupExpired env c w = (n, c', w')"
  obtains keep where "c' = c\<lparr>ScSchemas := filter keep (ScSchemas c)\<rparr>"
  using assms by (auto simp: cleanupExpired_def Let_def split: prod.splits)

interpretation raw_schemas: schema_cache_law env "\<lambda>c. ScRawSchemas c = raw" for env raw
  by unfold_locales
    (auto elim!: schemaCache_get_cases schemaCache_set_form cleanupExpired_form)

text \<open>Every entry is a document of a path whose hash is the key of the entry.\<close>

definition cache_sound :: "'w OpenApi \<Rightarrow> SchemaCache \<Rightarrow> bool" where
  "cache_sound env c \<longleftrightarrow> (\<forall>(h, e) \<in> set (ScSchemas c). \<exists>path. h = hashURL env path \<and> doc_at env c path (CsDoc e))"

lemma cache_soundD:
  "cache_sound env c \<Longrightarrow> map_of (ScSchemas c) h = Some e \<Longrightarrow> \<exists>path. h = hashURL env path \<and> doc_at env c path (CsDoc e)"
  by (auto simp: cache_sound_def dest!: map_of_SomeD)

lemma cache_sound_less:
  assumes "cache_sound env c" "set (ScSchemas c') \<subseteq> set (ScSchemas c)" "ScRawSchemas c' = ScRawSchemas c"
  shows "cache_sound env c'"
  using assms doc_at_raw [OF assms(3)] by (fastforce simp: cache_sound_def)

lemma go_set_in: "p \<in> set (go_set m k v) \<Longrightarrow> p = (k, v) \<or> p \<in> set m"
  by (auto simp: go_set_def split: if_splits)

lemma cache_sound_set:
  assumes "cache_sound env c" "h = hashURL env path" "doc_at env c path (CsDoc e)"
  shows "cache_sound env (c\<lparr>ScSchemas := go_set (ScSchemas c) h e\<rparr>)"
  using assms unfolding cache_sound_def by (fastforce dest!: go_set_in)

interpretation sound_entries: schema_cache_law env "cache_sound env" for env
proof unfold_locales
  fix c w h d c' w'
  assume "cache_sound env c" "schemaCache_get env c w h = (d, c', w')"
  then show "cache_sound env c'"
    using cache_soundD [of env c h] by (elim schemaCache_get_cases) (auto intro!: cache_sound_set)
next
  fix c path doc w ttl c' w'
  assume c: "cache_sound env c" "doc_at env c path doc" "schemaCache_set env c w (hashURL env path) doc ttl = (c', w')"
  have "cache_sound env (evict c)" by (rule cache_sound_less [OF c(1) evict_subset]) simp
  moreover have "doc_at env (evict c) path doc" using c(2) doc_at_raw [of "evict c" c env path doc] by simp
  ultimately show "cache_sound env c'" using c(3) by (elim schemaCache_set_form) (simp add: cache_sound_set)
next
  fix c w n c' w'
  assume "cache_sound env c" "cleanupExpired env c w = (n, c', w')"
  then show "cache_sound env c'" by (elim cleanupExpired_form) (auto intro: cache_sound_less)
qed

text \<open>The size of the cache and its keys, for hashes that are not empty.\<close>

definition cache_within :: "'w OpenApi \<Rightarrow> int \<Rightarrow> SchemaCache \<Rightarrow> bool" where
  "cache_within env n c \<longleftrightarrow>
     ((\<forall>s. OaSha256 env s \<noteq> []) \<longrightarrow> 
        ScMaxSize c = n \<and> n > 0 \<and> int (length (ScSchemas c)) \<le> n \<and> (\<forall>p \<in> set (ScSchemas c). fst p \<noteq> []))"

lemma oldest_key_in:
  "(fst acc \<noteq> [] \<Longrightarrow> fst acc \<in> K) \<Longrightarrow> m \<noteq> [] \<or> fst acc \<noteq> [] \<Longrightarrow> \<forall>p \<in> set m. fst p \<noteq> [] \<and> fst p \<in> K \<Longrightarrow>
    oldest_key m acc \<in> K \<and> oldest_key m acc \<noteq> []"
  by (induction m acc rule: oldest_key.induct) auto

lemma go_set_length: "length (go_set m k v) = (if k \<in> fst ` set m then length m else Suc (length m))"
  by (simp add: go_set_def)

lemma evict_room:
  assumes "int (length (ScSchemas c)) \<le> ScMaxSize c" "ScMaxSize c > 0" "\<forall>p \<in> set (ScSchemas c). fst p \<noteq> []"
  shows "int (length (ScSchemas (evict c))) < ScMaxSize c"
proof (cases "int (length (ScSchemas c)) \<ge> ScMaxSize c")
  case True
  with assms(2) have "ScSchemas c \<noteq> []" by auto
  let ?o = "oldest_key (ScSchemas c) ([], 0)"
  have o: "?o \<in> fst ` set (ScSchemas c)" "?o \<noteq> []"
    using oldest_key_in [of "([], 0)" "fst ` set (ScSchemas c)" "ScSchemas c"] assms(3) \<open>ScSchemas c \<noteq> []\<close> by auto
  then obtain p where "p \<in> set (ScSchemas c)" "fst p = ?o" by auto
  then have "length (filter (\<lambda>p. fst p \<noteq> ?o) (ScSchemas c)) < length (ScSchemas c)" by (auto intro: length_filter_less)
  with True o(2) assms(1) show ?thesis by (simp add: evict_def)
qed (simp add: evict_def)

lemma hashURL_nonempty: "OaSha256 env s \<noteq> [] \<Longrightarrow> hashURL env s \<noteq> []"
  by (cases "OaSha256 env s") (simp_all add: hashURL_def hex_encode_def)

interpretation bounded_entries: schema_cache_law env "cache_within env n" for env n
proof unfold_locales
  fix c w h d c' w'
  assume "cache_within env n c" "schemaCache_get env c w h = (d, c', w')"
  then show "cache_within env n c'"
    by (elim schemaCache_get_cases)
      (force simp: cache_within_def go_set_length image_iff dest!: go_set_in map_of_SomeD)+
next
  fix c path doc w ttl c' w'
  assume c: "cache_within env n c" "schemaCache_set env c w (hashURL env path) doc ttl = (c', w')"
  from c(2) obtain e where c': "c' = (evict c)\<lparr>ScSchemas := go_set (ScSchemas (evict c)) (hashURL env path) e\<rparr>"
    by (rule schemaCache_set_form)
  show "cache_within env n c'"
    using c(1) evict_room [of c] evict_subset [of c] hashURL_nonempty [of env path]
    by (auto simp: cache_within_def c' go_set_length dest!: go_set_in)
next
  fix c w m c' w'
  assume c: "cache_within env n c" "cleanupExpired env c w = (m, c', w')"
  from c(2) obtain keep where "c' = c\<lparr>ScSchemas := filter keep (ScSchemas c)\<rparr>" by (rule cleanupExpired_form)
  with c(1) order_trans [of "int (length (filter keep (ScSchemas c)))" "int (length (ScSchemas c))" n]
  show "cache_within env n c'" by (auto simp: cache_within_def)
qed

subsection \<open>The validator from its settings\<close>

lemma preload_entries_rest:
  "preload_entries env dir w es c = (Inr c', w') \<Longrightarrow> ScSchemas c' = ScSchemas c \<and> ScMaxSize c' = ScMaxSize c"
  by (induction env dir w es c rule: preload_entries.induct) (auto split: option.splits if_splits sum.splits prod.splits)

lemma new_extended_cache_form:
  assumes "new_extended_cache env cfg w = (Inr x, w')"
  shows "if SvEnableExtendedSchema cfg
         then \<exists>c. x = Some c \<and> ScSchemas c = [] \<and>
           ScMaxSize c = (let n = EsMaxCacheSize (SvExtendedSchemaConfig cfg) in if n > 0 then n else 100)
         else x = None"
  using assms
  by (auto simp: new_extended_cache_def preloadSchemasToCache_def newSchemaCache_def Let_def
      split: if_splits sum.splits prod.splits dest!: preload_entries_rest)

lemma loadAll_config: "loadAllSpecs env v w b = (r, v', w') \<Longrightarrow> VaConfig v' = VaConfig v"
  by (auto simp: loadAllSpecs_def split: if_splits sum.splits prod.splits)

lemma New_form:
  assumes "schemav2_New env w (Some cfg) = (Inr v, w')"
  obtains cfg1 w1 x where "cfg1 = cfg\<lparr>SvCacheTTL := (if SvCacheTTL cfg = 0 then 3600 else SvCacheTTL cfg)\<rparr>"
    "new_extended_cache env cfg1 w = (Inr x, w1)"
    "loadAllSpecs env \<lparr>VaConfig = cfg1, VaSpecsLoaded = False, VaActionSchemas = [], VaBodylessActions = [], VaSchemaCache = x\<rparr> w1 False
       = (None, v, w')"
  using assms by (auto simp: schemav2_New_def initialise_def Let_def split: option.splits sum.splits prod.splits)

lemma New_result:
  assumes "schemav2_New env w (Some cfg) = (Inr v, w')"
  shows "VaConfig v = cfg\<lparr>SvCacheTTL := (if SvCacheTTL cfg = 0 then 3600 else SvCacheTTL cfg)\<rparr>"
    "if SvEnableExtendedSchema cfg
     then \<exists>c. VaSchemaCache v = Some c \<and> ScSchemas c = [] \<and>
       ScMaxSize c = (let n = EsMaxCacheSize (SvExtendedSchemaConfig cfg) in if n > 0 then n else 100)
     else VaSchemaCache v = None"
proof -
  from assms obtain cfg1 w1 x where
    new: "cfg1 = cfg\<lparr>SvCacheTTL := (if SvCacheTTL cfg = 0 then 3600 else SvCacheTTL cfg)\<rparr>"
      "new_extended_cache env cfg1 w = (Inr x, w1)"
      "loadAllSpecs env \<lparr>VaConfig = cfg1, VaSpecsLoaded = False, VaActionSchemas = [], VaBodylessActions = [], VaSchemaCache = x\<rparr> w1 False
        = (None, v, w')"
    by (rule New_form)
  from new(1) loadAll_config [OF new(3)]
  show "VaConfig v = cfg\<lparr>SvCacheTTL := (if SvCacheTTL cfg = 0 then 3600 else SvCacheTTL cfg)\<rparr>" by simp
  from loadAll_cache [OF new(3)] have x: "VaSchemaCache v = x" by simp
  have ext: "SvEnableExtendedSchema cfg1 = SvEnableExtendedSchema cfg" "SvExtendedSchemaConfig cfg1 = SvExtendedSchemaConfig cfg"
    using new(1) by simp_all
  from new_extended_cache_form [OF new(2)] show "if SvEnableExtendedSchema cfg
     then \<exists>c. VaSchemaCache v = Some c \<and> ScSchemas c = [] \<and>
       ScMaxSize c = (let n = EsMaxCacheSize (SvExtendedSchemaConfig cfg) in if n > 0 then n else 100)
     else VaSchemaCache v = None"
    unfolding x ext .
qed

lemma validate_frame:
  assumes "schemav2_Validate env v w reqURL body = (r, v', w')"
  shows "VaConfig v' = VaConfig v \<and> VaSpecsLoaded v' = VaSpecsLoaded v \<and> VaActionSchemas v' = VaActionSchemas v \<and>
    VaBodylessActions v' = VaBodylessActions v \<and> (VaSchemaCache v' = None \<longleftrightarrow> VaSchemaCache v = None)"
  using assms by (auto simp: schemav2_Validate_def Validate_extended_def Let_def split: if_splits option.splits prod.splits)

lemma step_config:
  "validator_step env outside s s' \<Longrightarrow> VaConfig (VsValidator s') = VaConfig (VsValidator s) \<and>
    (VaSchemaCache (VsValidator s') = None \<longleftrightarrow> VaSchemaCache (VsValidator s) = None)"
proof (induction rule: validator_step.induct)
  case (reload s v w)
  then show ?case using loadAll_config loadAll_cache by (fastforce simp: reloadAllSpecs_def snd_def split: prod.splits)
qed (auto dest!: validate_frame)

lemma reachable_config:
  "(validator_step env outside)\<^sup>*\<^sup>* s s' \<Longrightarrow> VaConfig (VsValidator s') = VaConfig (VsValidator s) \<and>
    (VaSchemaCache (VsValidator s') = None \<longleftrightarrow> VaSchemaCache (VsValidator s) = None)"
  by (induction rule: rtranclp_induct) (auto dest!: step_config)

text \<open>The settings of the entry point as a configuration.\<close>

definition settings_of :: "(string \<rightharpoonup> string) \<Rightarrow> AuxSpec list \<Rightarrow> SvConfig" where
  "settings_of config auxiliary =
     \<lparr>SvType = setting config ''type'', SvLocation = setting config ''location'',
      SvCacheTTL = positive_setting config ''cacheTTL'' 3600, SvAuxiliary = auxiliary,
      SvEnableExtendedSchema = (setting config ''extendedSchema_enabled'' = ''true''),
      SvExtendedSchemaConfig = extended_settings config\<rparr>"

lemma provider_New_form:
  assumes "schemav2_provider_New env w config = (Inr v, w')"
  obtains auxiliary where "aux_settings (setting config ''auxiliaryTypes'') (setting config ''auxiliaryLocations'') = Inr auxiliary"
    "schemav2_New env w (Some (settings_of config auxiliary)) = (Inr v, w')"
  using assms by (auto simp: schemav2_provider_New_def settings_of_def Let_def split: if_splits sum.splits)

text \<open>The states of a validator after its construction.\<close>

definition validator_reach ::
  "'w OpenApi \<Rightarrow> ('w \<Rightarrow> 'w \<Rightarrow> bool) \<Rightarrow> 'w \<Rightarrow> (string \<rightharpoonup> string) \<Rightarrow> 'w ValidatorState \<Rightarrow> bool" where
  "validator_reach env outside w0 config s \<longleftrightarrow>
     (\<exists>v w. schemav2_provider_New env w0 config = (Inr v, w) \<and>
       (validator_step env outside)\<^sup>*\<^sup>* \<lparr>VsValidator = v, VsWorld = w, VsRunning = True\<rparr> s)"

lemma reach_config:
  assumes "validator_reach env outside w0 config s"
  shows "SvExtendedSchemaConfig (VaConfig (VsValidator s)) = extended_settings config"
    "SvEnableExtendedSchema (VaConfig (VsValidator s)) \<longleftrightarrow> setting config ''extendedSchema_enabled'' = ''true''"
    "VaSchemaCache (VsValidator s) = None \<longleftrightarrow> setting config ''extendedSchema_enabled'' \<noteq> ''true''"
proof -
  from assms obtain v w where new: "schemav2_provider_New env w0 config = (Inr v, w)"
    and run: "(validator_step env outside)\<^sup>*\<^sup>* \<lparr>VsValidator = v, VsWorld = w, VsRunning = True\<rparr> s"
    by (auto simp: validator_reach_def)
  from new obtain auxiliary where new': "schemav2_New env w0 (Some (settings_of config auxiliary)) = (Inr v, w)"
    by (rule provider_New_form)
  note reachable_config [OF run] New_result [OF new']
  then show "SvExtendedSchemaConfig (VaConfig (VsValidator s)) = extended_settings config"
    "SvEnableExtendedSchema (VaConfig (VsValidator s)) \<longleftrightarrow> setting config ''extendedSchema_enabled'' = ''true''"
    "VaSchemaCache (VsValidator s) = None \<longleftrightarrow> setting config ''extendedSchema_enabled'' \<noteq> ''true''"
    by (auto simp: settings_of_def split: if_splits)
qed

lemma reach_start:
  assumes "validator_reach env outside w0 config s"
  obtains v w where "(validator_step env outside)\<^sup>*\<^sup>* \<lparr>VsValidator = v, VsWorld = w, VsRunning = True\<rparr> s"
    "\<And>c. VaSchemaCache v = Some c \<Longrightarrow> ScSchemas c = [] \<and>
       ScMaxSize c = (let n = EsMaxCacheSize (extended_settings config) in if n > 0 then n else 100)"
proof -
  from assms obtain v w where new: "schemav2_provider_New env w0 config = (Inr v, w)"
    and run: "(validator_step env outside)\<^sup>*\<^sup>* \<lparr>VsValidator = v, VsWorld = w, VsRunning = True\<rparr> s"
    by (auto simp: validator_reach_def)
  from new obtain auxiliary where new': "schemav2_New env w0 (Some (settings_of config auxiliary)) = (Inr v, w)"
    by (rule provider_New_form)
  have ext: "SvExtendedSchemaConfig (settings_of config auxiliary) = extended_settings config" by (simp add: settings_of_def)
  from New_result(2) [OF new', unfolded ext]
  have "\<And>c. VaSchemaCache v = Some c \<Longrightarrow> ScSchemas c = [] \<and>
       ScMaxSize c = (let n = EsMaxCacheSize (extended_settings config) in if n > 0 then n else 100)"
    by (auto split: if_splits)
  with run show thesis by (rule that)
qed

text \<open>C30: Whatever requests, reloads and clean-ups happen after the plugin's entry point built a validator, its cache
  of extended schemas never has more entries than the configured maximum, or 100 where none is configured, provided
  that SHA-256 gives no empty hash.\<close>

theorem schema_cache_bounded:
  assumes "validator_reach env outside w0 config s" "VaSchemaCache (VsValidator s) = Some c" "\<forall>x. OaSha256 env x \<noteq> []"
  shows "int (length (ScSchemas c)) \<le> positive_setting config ''extendedSchema_maxCacheSize'' 100"
proof -
  let ?n = "let n = EsMaxCacheSize (extended_settings config) in if n > 0 then n else 100"
  from assms(1) obtain v w where run: "(validator_step env outside)\<^sup>*\<^sup>* \<lparr>VsValidator = v, VsWorld = w, VsRunning = True\<rparr> s"
    and start: "\<And>c. VaSchemaCache v = Some c \<Longrightarrow> ScSchemas c = [] \<and> ScMaxSize c = ?n"
    by (rule reach_start) blast
  have "?n > 0" by (simp add: Let_def)
  with start have "cache_holds (cache_within env ?n) v" by (simp add: cache_holds_def cache_within_def)
  then have "cache_within env ?n c"
    using bounded_entries.reachable_law [OF run, of ?n] assms(2) by (simp add: cache_holds_def)
  moreover have "setting config ''extendedSchema_enabled'' = ''true''" using reach_config(3) [OF assms(1)] assms(2) by simp
  then have "?n = positive_setting config ''extendedSchema_maxCacheSize'' 100"
    by (simp add: extended_settings_def positive_setting_def split: option.splits)
  ultimately show ?thesis using assms(3) by (simp add: cache_within_def)
qed

subsection \<open>Accepted requests\<close>

text \<open>The objects anywhere in a value.\<close>

inductive object_in :: "json \<Rightarrow> (string \<times> json) list \<Rightarrow> bool" where
  self: "object_in (JObj v) v"
| in_member: "(k, x) \<in> set v \<Longrightarrow> object_in x n \<Longrightarrow> object_in (JObj v) n"
| in_item: "x \<in> set v \<Longrightarrow> object_in x n \<Longrightarrow> object_in (JArr v) n"

lemma find_in_members_in: "(k, x) \<in> set v \<Longrightarrow> \<exists>p'. set (findReferencedObjects x p') \<subseteq> set (find_in_members v p)"
  by (induction v) (auto, blast)

lemma find_in_items_in: "x \<in> set v \<Longrightarrow> \<exists>p'. set (findReferencedObjects x p') \<subseteq> set (find_in_items v i p)"
  by (induction v arbitrary: i) (auto, blast)

lemma find_complete:
  assumes "object_in v n" "jget n ''@context'' = Some (JStr ctx)" "jget n ''@type'' = Some (JStr t)"
  shows "\<exists>path. \<lparr>RoPath = path, RoContext = ctx, RoType = t, RoData = n\<rparr> \<in> set (findReferencedObjects v p)"
  using assms
proof (induction arbitrary: p rule: object_in.induct)
  case (in_member k x v n)
  then obtain p' where "set (findReferencedObjects x p') \<subseteq> set (find_in_members v p)" using find_in_members_in by blast
  with in_member show ?case by fastforce
next
  case (in_item x v n)
  then obtain p' where "set (findReferencedObjects x p') \<subseteq> set (find_in_items v 0 p)" using find_in_items_in by blast
  with in_item show ?case by fastforce
qed (auto simp: self_object_def)

text \<open>A context that the list of domains lets through, and the place of the document for an object.\<close>

definition context_permitted :: "'w OpenApi \<Rightarrow> string list \<Rightarrow> string \<Rightarrow> bool" where
  "context_permitted env domains ctx \<longleftrightarrow>
     domains = [] \<or>
     (\<exists>u. OaParseURL env ctx = Inr u \<and> (UScheme u = ''http'' \<or> UScheme u = ''https'') \<and>
       (\<exists>d \<in> set domains. TrimSpace d \<noteq> [] \<and> (UHost u = TrimSpace d \<or> HasSuffix (UHost u) (CHR ''.'' # TrimSpace d))))"

lemma context_refused_permitted: "context_refused env domains ctx = None \<longleftrightarrow> context_permitted env domains ctx"
  by (auto simp: context_refused_def context_permitted_def isAllowedDomain_def Let_def list_ex_iff split: sum.splits)

definition schema_place :: "'w OpenApi \<Rightarrow> ExtendedSchemaConfig \<Rightarrow> string \<Rightarrow> string \<Rightarrow> string \<Rightarrow> bool" where
  "schema_place env cfg ctx t path \<longleftrightarrow>
     context_permitted env (EsAllowedDomains cfg) ctx \<and> path = transformContextToSchemaURL ctx \<or>
     EsLocalSchemaPath cfg \<noteq> [] \<and> path = local_type t @ ''/attributes.yaml'' \<and> CHR ''/'' \<notin> set (local_type t)"

text \<open>
  An object that passed a schema for its type, of a document from such a place. A cached document is found by its hash,
  so it is the document of a path with the same hash.
\<close>

definition object_valid ::
  "'w OpenApi \<Rightarrow> ExtendedSchemaConfig \<Rightarrow> SchemaCache \<Rightarrow> string \<Rightarrow> string \<Rightarrow> (string \<times> json) list \<Rightarrow> bool" where
  "object_valid env cfg c ctx t n \<longleftrightarrow>
     (\<exists>path source doc schema. schema_place env cfg ctx t path \<and> hashURL env source = hashURL env path \<and> doc_at env c source doc \<and>
       findSchemaByType doc t = Inr schema \<and> OaVisitJSON env schema (JObj (domain_data n)) = None)"

lemma load_sound:
  assumes "cache_sound env c" "loadSchemaFromPath env c w path ttl timeout loc = (Inr doc, c', w')"
  shows "\<exists>source. hashURL env source = hashURL env path \<and> doc_at env c source doc"
proof (cases "OaParseURL env path")
  case (Inr u)
  show ?thesis
  proof (cases "if loc then map_of (ScRawSchemas c) (extractRelativeSchemaPath u) else None")
    case None
    obtain d c1 w1 where get: "schemaCache_get env c w (hashURL env path) = (d, c1, w1)" by (metis prod_cases3)
    show ?thesis
    proof (cases d)
      case (Some x)
      with None Inr get assms(2) have "x = doc" by (simp add: loadSchemaFromPath_def)
      with get Some assms(1) show ?thesis by (elim schemaCache_get_cases) (auto dest!: cache_soundD)
    next
      case d: None
      with None Inr get assms(2) have "fetched env path doc"
        by (auto simp: loadSchemaFromPath_def cache_loaded_def fetched_def split: if_splits sum.splits prod.splits)
      then show ?thesis by (auto simp: doc_at_def)
    qed
  next
    case (Some raw)
    with Inr assms(2) have "preloaded env c path doc"
      by (auto simp: loadSchemaFromPath_def cache_loaded_def preloaded_def split: if_splits sum.splits prod.splits)
    then show ?thesis by (auto simp: doc_at_def)
  qed
qed (use assms in \<open>simp add: loadSchemaFromPath_def\<close>)

lemma check_object_None:
  "check_object env doc obj = None \<longleftrightarrow>
    (\<exists>schema. findSchemaByType doc (RoType obj) = Inr schema \<and> OaVisitJSON env schema (JObj (domain_data (RoData obj))) = None)"
  by (auto simp: check_object_def split: sum.splits)

lemma object_accepted:
  assumes "cache_sound env c"
    "validateReferencedObject env c w obj ttl timeout (EsAllowedDomains cfg) (EsLocalSchemaPath cfg \<noteq> []) = (None, c', w')"
  shows "object_valid env cfg c (RoContext obj) (RoType obj) (RoData obj)"
proof -
  obtain d c1 w1 where l: "local_document env c w obj ttl timeout (EsLocalSchemaPath cfg \<noteq> []) = (d, c1, w1)" by (metis prod_cases3)
  have c1: "cache_sound env c1" "ScRawSchemas c1 = ScRawSchemas c"
    using sound_entries.local_document_law [OF assms(1) l] raw_schemas.local_document_law [OF refl l] by simp_all
  show ?thesis
  proof (cases d)
    case (Some doc)
    with l have loc: "EsLocalSchemaPath cfg \<noteq> []" "CHR ''/'' \<notin> set (local_type (RoType obj))"
      "loadSchemaFromPath env c w (local_type (RoType obj) @ ''/attributes.yaml'') ttl timeout True = (Inr doc, c1, w1)"
      by (auto simp: local_document_def Let_def split: if_splits sum.splits prod.splits)
    have "check_object env doc obj = None" using assms(2) l Some by (simp add: validateReferencedObject_def)
    then show ?thesis using load_sound [OF assms(1) loc(3)] loc(1,2) unfolding object_valid_def schema_place_def check_object_None by blast
  next
    case None
    have ctx: "context_permitted env (EsAllowedDomains cfg) (RoContext obj)"
      using assms(2) l None by (auto simp: validateReferencedObject_def context_refused_permitted [symmetric] split: option.splits)
    then obtain doc c2 w2 where load:
      "loadSchemaFromPath env c1 w1 (transformContextToSchemaURL (RoContext obj)) ttl timeout False = (Inr doc, c2, w2)"
      "check_object env doc obj = None"
      using assms(2) l None by (auto simp: validateReferencedObject_def context_refused_permitted [symmetric] split: sum.splits prod.splits)
    from load_sound [OF c1(1) load(1)] have "\<exists>source. hashURL env source = hashURL env (transformContextToSchemaURL (RoContext obj)) \<and>
      doc_at env c source doc"
      using doc_at_raw [OF c1(2)] by blast
    then show ?thesis using ctx load(2) unfolding object_valid_def schema_place_def check_object_None by blast
  qed
qed

lemma object_valid_raw: "ScRawSchemas c = ScRawSchemas c' \<Longrightarrow> object_valid env cfg c = object_valid env cfg c'"
  by (intro ext) (simp add: object_valid_def doc_at_raw [of c c'])

lemma objects_accepted:
  assumes "cache_sound env c" "validate_referenced env cfg c w objs = (None, c', w')" "obj \<in> set objs"
  shows "object_valid env cfg c (RoContext obj) (RoType obj) (RoData obj)"
  using assms
proof (induction objs arbitrary: c w)
  case (Cons x objs)
  obtain c1 w1 where x: "validateReferencedObject env c w x (es_ttl cfg) (es_timeout cfg) (EsAllowedDomains cfg)
      (EsLocalSchemaPath cfg \<noteq> []) = (None, c1, w1)"
    and rest: "validate_referenced env cfg c1 w1 objs = (None, c', w')"
    using Cons.prems(2) by (auto split: option.splits prod.splits)
  have "cache_sound env c1" "ScRawSchemas c1 = ScRawSchemas c"
    using sound_entries.object_law [OF Cons.prems(1) x] raw_schemas.object_law [OF refl x] by simp_all
  with Cons.IH [of c1 w1] Cons.prems rest object_accepted [OF Cons.prems(1) x] object_valid_raw [of c1 c env cfg]
  show ?case by auto
qed simp

text \<open>C25: When a validator in any state it reaches accepts a request with a body, the body is JSON whose action has a
  schema in the index that the body passes, and, where the extended validation is enabled, the body is an object with a
  message in which every object with a JSON-LD context and type, at any depth, passes, without these two members, a
  schema for its type. The document of that schema was loaded for the context of the object, which is a URL of HTTP or
  HTTPS on an allowed domain where domains are configured, or, in local mode, for the type of the object, up to paths
  with the same SHA-256.\<close>

theorem accepted_objects_checked:
  assumes "validator_reach env outside w0 config s" "body \<noteq> []"
    "schemav2_Validate env (VsValidator s) (VsWorld s) reqURL body = (None, v', w')"
  shows "\<exists>action schema jsonData. payload_action body = Some action \<and> map_of (VaActionSchemas (VsValidator s)) action = Some schema \<and>
      unmarshal_any (OaFloat env) body = Some jsonData \<and> OaVisitJSON env (Some schema) jsonData = None \<and>
      (setting config ''extendedSchema_enabled'' = ''true'' \<longrightarrow>
        (\<exists>m message c. jsonData = JObj m \<and> jget m ''message'' = Some message \<and> VaSchemaCache (VsValidator s) = Some c \<and>
          (\<forall>n ctx t. object_in message n \<longrightarrow> jget n ''@context'' = Some (JStr ctx) \<longrightarrow> jget n ''@type'' = Some (JStr t) \<longrightarrow>
            object_valid env (extended_settings config) c ctx t n)))"
proof -
  let ?v = "VsValidator s"
  obtain action schema jsonData where base: "payload_action body = Some action" "map_of (VaActionSchemas ?v) action = Some schema"
    "unmarshal_any (OaFloat env) body = Some jsonData" "OaVisitJSON env (Some schema) jsonData = None"
    and ext: "Validate_extended env ?v (VsWorld s) jsonData = (None, v', w')"
    using assms(2,3) by (auto simp: schemav2_Validate_def split: option.splits if_splits)
  have "\<exists>m message c. jsonData = JObj m \<and> jget m ''message'' = Some message \<and> VaSchemaCache ?v = Some c \<and>
      (\<forall>n ctx t. object_in message n \<longrightarrow> jget n ''@context'' = Some (JStr ctx) \<longrightarrow> jget n ''@type'' = Some (JStr t) \<longrightarrow>
        object_valid env (extended_settings config) c ctx t n)"
    if on: "setting config ''extendedSchema_enabled'' = ''true''"
  proof -
    note cfg = reach_config [OF assms(1)]
    from cfg(3) on obtain c where c: "VaSchemaCache ?v = Some c" by auto
    with ext cfg(1,2) on obtain c' where "validateExtendedSchemas env (extended_settings config) c (VsWorld s) jsonData = (None, c', w')"
      by (auto simp: Validate_extended_def split: prod.splits)
    then obtain m message where m: "jsonData = JObj m" "jget m ''message'' = Some message"
      "validate_referenced env (extended_settings config) c (VsWorld s) (findReferencedObjects message ''message'') = (None, c', w')"
      by (auto simp: validateExtendedSchemas_def split: json.splits option.splits)
    from assms(1) obtain v w where run: "(validator_step env outside)\<^sup>*\<^sup>* \<lparr>VsValidator = v, VsWorld = w, VsRunning = True\<rparr> s"
      and start: "\<And>c. VaSchemaCache v = Some c \<Longrightarrow> ScSchemas c = []" by (rule reach_start) blast
    from start have "cache_holds (cache_sound env) v" by (simp add: cache_holds_def cache_sound_def)
    then have sound: "cache_sound env c" using sound_entries.reachable_law [OF run] c by (simp add: cache_holds_def)
    have "object_valid env (extended_settings config) c ctx t n"
      if "object_in message n" "jget n ''@context'' = Some (JStr ctx)" "jget n ''@type'' = Some (JStr t)" for n ctx t
      using find_complete [OF that, of "''message''"] objects_accepted [OF sound m(3)] by fastforce
    with m c show ?thesis by blast
  qed
  with base show ?thesis by blast
qed

subsection \<open>Paths of errors\<close>

text \<open>When the document for an object with a permitted context cannot be loaded, or has no schema for the type of the
  object, the error that the validation returns names the path of the object twice, joined by a dot, since the error
  that validateReferencedObject builds has the path already and prefixSchemaErrorPaths puts it in front again.\<close>

theorem missing_schema_path_doubled:
  assumes "EsLocalSchemaPath cfg = []" "context_permitted env (EsAllowedDomains cfg) (RoContext obj)" "RoPath obj \<noteq> []"
    "loadSchemaFromPath env c w (transformContextToSchemaURL (RoContext obj)) (es_ttl cfg) (es_timeout cfg) False = (r, c', w')"
    "\<And>doc. r = Inr doc \<Longrightarrow> \<exists>e. findSchemaByType doc (RoType obj) = Inl e"
  shows "\<exists>e. validate_referenced env cfg c w (obj # objs) = (Some (ErrSchema [e]), c', w') \<and>
    error_path e = RoPath obj @ ''.'' @ RoPath obj"
proof -
  have "local_document env c w obj (es_ttl cfg) (es_timeout cfg) False = (None, c, w)" by (simp add: local_document_def Let_def)
  moreover have "context_refused env (EsAllowedDomains cfg) (RoContext obj) = None" using assms(2) by (simp add: context_refused_permitted)
  ultimately obtain code msg e where
    "validateReferencedObject env c w obj (es_ttl cfg) (es_timeout cfg) (EsAllowedDomains cfg) False =
      (Some (BecknError (NewCodedErrorWithCause code msg (RoPath obj) (Some e))), c', w')"
    using assms(4,5) by (cases r) (auto simp: validateReferencedObject_def check_object_def split: sum.splits)
  then show ?thesis
    using assms(1,3)
    by (simp add: prefixSchemaErrorPaths_def prefix_error_def NewCodedErrorWithCause_def error_path_def)
qed

subsection \<open>The index\<close>

text \<open>A document of a source of the configuration, and the sources in the order in which they are loaded.\<close>

definition spec_at :: "'w OpenApi \<Rightarrow> string \<times> string \<Rightarrow> cachedSpec \<Rightarrow> bool" where
  "spec_at env src spec \<longleftrightarrow> (\<exists>w w'. loadSingleSpec env w (fst src) (snd src) = (Inr spec, w'))"

definition primary_source :: "SvConfig \<Rightarrow> (string \<times> string) list" where
  "primary_source cfg = (if hasPrimary cfg then [(SvType cfg, SvLocation cfg)] else [])"

definition aux_sources :: "AuxSpec list \<Rightarrow> (string \<times> string) list" where
  "aux_sources auxs = map (\<lambda>a. (AxType a, AxLocation a)) auxs"

text \<open>Documents whose actions are disjoint and are exactly those of an index, with their schemas.\<close>

definition disjoint_specs :: "cachedSpec \<Rightarrow> cachedSpec \<Rightarrow> bool" where
  "disjoint_specs p q \<longleftrightarrow>
     dom (map_of (CpActionSchemas p)) \<inter> dom (map_of (CpActionSchemas q)) = {} \<and>
     dom (map_of (CpBodylessActions p)) \<inter> dom (map_of (CpBodylessActions q)) = {}"

definition index_of :: "cachedSpec list \<Rightarrow> action_schemas \<times> bodyless_actions \<Rightarrow> bool" where
  "index_of specs m \<longleftrightarrow>
     sorted_wrt disjoint_specs specs \<and>
     (\<forall>a s. map_of (fst m) a = Some s \<longleftrightarrow> (\<exists>p \<in> set specs. map_of (CpActionSchemas p) a = Some s)) \<and>
     (\<forall>a. map_of (snd m) a = Some () \<longleftrightarrow> (\<exists>p \<in> set specs. map_of (CpBodylessActions p) a = Some ()))"

lemma map_of_go_set: "map_of (go_set m k v) = (map_of m)(k \<mapsto> v)"
proof (cases "k \<in> fst ` set m")
  case True
  have "map_of (map (\<lambda>p. if fst p = k then (k, v) else p) m) a = (if a = k then map_option (\<lambda>_. v) (map_of m k) else map_of m a)" for a
    by (induction m) auto
  moreover have "map_of m k \<noteq> None" using True by (simp add: map_of_eq_None_iff)
  ultimately show ?thesis using True by (auto simp: go_set_def fun_eq_iff)
next
  case False
  then have "map_of m k = None" by (simp add: map_of_eq_None_iff)
  with False show ?thesis by (auto simp: go_set_def map_add_def fun_eq_iff split: option.splits)
qed

lemma go_set_keys_distinct: "distinct (map fst m) \<Longrightarrow> distinct (map fst (go_set m k v))"
proof (cases "k \<in> fst ` set m")
  case True
  have "map fst (map (\<lambda>p. if fst p = k then (k, v) else p) m) = map fst m" by (induction m) auto
  then show "distinct (map fst m) \<Longrightarrow> ?thesis" using True by (simp only: go_set_def if_True)
qed (auto simp: go_set_def)

lemma go_set_fresh: "distinct (map fst (m @ xs)) \<Longrightarrow> foldl (\<lambda>m p. go_set m (fst p) (snd p)) m xs = m @ xs"
proof (induction xs arbitrary: m)
  case (Cons x xs)
  then have "go_set m (fst x) (snd x) = m @ [x]" by (auto simp: go_set_def)
  with Cons show ?case by simp
qed simp

lemma add_new_merge:
  "add_new clash xs m = Inr m' \<Longrightarrow>
    dom (map_of m) \<inter> dom (map_of xs) = {} \<and> map_of m' = map_of m ++ map_of xs \<and> (distinct (map fst m) \<longrightarrow> distinct (map fst m'))"
proof (induction clash xs m rule: add_new.induct)
  case (2 clash action x rest m)
  then have new: "map_of m action = None" "add_new clash rest (go_set m action x) = Inr m'" by (auto split: if_splits)
  with "2.IH" have IH: "dom ((map_of m)(action \<mapsto> x)) \<inter> dom (map_of rest) = {}" "map_of m' = (map_of m)(action \<mapsto> x) ++ map_of rest"
    "distinct (map fst (go_set m action x)) \<longrightarrow> distinct (map fst m')" unfolding map_of_go_set by blast+
  from IH(1) have "action \<notin> dom (map_of rest)" by auto
  then have "map_of m' = map_of m ++ map_of ((action, x) # rest)" using IH(2) by (auto simp: fun_eq_iff map_add_def split: option.splits)
  moreover have "dom (map_of m) \<inter> dom (map_of ((action, x) # rest)) = {}" using IH(1) new(1) by auto
  ultimately show ?case using IH(3) go_set_keys_distinct [of m action x] by blast
qed simp

lemma merge_spec_merge:
  assumes "merge_spec clash spec m = Inr m'"
  shows "dom (map_of (fst m)) \<inter> dom (map_of (CpActionSchemas spec)) = {}" "map_of (fst m') = map_of (fst m) ++ map_of (CpActionSchemas spec)"
    "dom (map_of (snd m)) \<inter> dom (map_of (CpBodylessActions spec)) = {}" "map_of (snd m') = map_of (snd m) ++ map_of (CpBodylessActions spec)"
    "distinct (map fst (fst m)) \<Longrightarrow> distinct (map fst (fst m'))" "distinct (map fst (snd m)) \<Longrightarrow> distinct (map fst (snd m'))"
  using assms by (auto simp: merge_spec_def bind_result_def split: sum.splits dest!: add_new_merge)

lemma index_of_merge:
  assumes "index_of specs m" "merge_spec clash spec m = Inr m'"
  shows "index_of (specs @ [spec]) m'"
proof -
  note merge = merge_spec_merge [OF assms(2)]
  have "disjoint_specs p spec" if "p \<in> set specs" for p
    using assms(1) that merge(1,3) unfolding index_of_def disjoint_specs_def by (fastforce simp: dom_def)
  moreover have "map_of (fst m') a = Some s \<longleftrightarrow> (\<exists>p \<in> set (specs @ [spec]). map_of (CpActionSchemas p) a = Some s)" for a s
    using assms(1) merge(1,2) unfolding index_of_def by (fastforce simp: map_add_Some_iff dom_def)
  moreover have "map_of (snd m') a = Some () \<longleftrightarrow> (\<exists>p \<in> set (specs @ [spec]). map_of (CpBodylessActions p) a = Some ())" for a
    using assms(1) merge(3,4) unfolding index_of_def by (fastforce simp: map_add_Some_iff dom_def)
  ultimately show ?thesis using assms(1) by (simp add: index_of_def sorted_wrt_append)
qed

lemma index_path_distinct:
  assumes "distinct (map fst (fst acc))" "distinct (map fst (snd acc))"
  shows "distinct (map fst (fst (index_path acc entry)))" "distinct (map fst (snd (index_path acc entry)))"
proof -
  have body: "distinct (map fst m) \<Longrightarrow> distinct (map fst (index_body m op))" for m op
    by (auto simp: index_body_def Let_def go_set_keys_distinct split: option.splits)
  have bodyless: "distinct (map fst m) \<Longrightarrow> distinct (map fst (index_bodyless path m op))" for path m op
    by (auto simp: index_bodyless_def go_set_keys_distinct split: option.splits)
  show "distinct (map fst (fst (index_path acc entry)))" "distinct (map fst (snd (index_path acc entry)))"
    using assms by (auto simp: index_path_def body bodyless split: option.splits)
qed

lemma index_paths_distinct:
  "distinct (map fst (fst acc)) \<Longrightarrow> distinct (map fst (snd acc)) \<Longrightarrow>
    distinct (map fst (fst (foldl index_path acc ps))) \<and> distinct (map fst (snd (foldl index_path acc ps)))"
  by (induction ps arbitrary: acc) (simp_all add: index_path_distinct)

definition distinct_spec :: "cachedSpec \<Rightarrow> bool" where
  "distinct_spec spec \<longleftrightarrow> distinct (map fst (CpActionSchemas spec)) \<and> distinct (map fst (CpBodylessActions spec))"

lemma load_document_distinct: "load_document env w t l = (Inr spec, w') \<Longrightarrow> distinct_spec spec"
  using index_paths_distinct [of "([], [])"]
  by (auto simp: load_document_def buildActionIndex_def distinct_spec_def split: sum.splits prod.splits)
    (metis fst_conv snd_conv)+

lemma load_dir_entries_distinct:
  "load_dir_entries env dir w es m = (Inr m', w') \<Longrightarrow> distinct (map fst (fst m)) \<Longrightarrow> distinct (map fst (snd m)) \<Longrightarrow>
    distinct (map fst (fst m')) \<and> distinct (map fst (snd m'))"
proof (induction es arbitrary: w m)
  case (Cons e es)
  obtain name isDir where e: "e = (name, isDir)" by fastforce
  obtain r w1 where load: "load_document env w ''file'' (path_Join dir name) = (r, w1)" by fastforce
  show ?case
  proof (cases "isDir \<or> \<not> spec_file name \<or> isl r")
    case True
    then show ?thesis using Cons load by (cases r) (auto simp: e Let_def split: if_splits)
  next
    case False
    then obtain spec where r: "r = Inr spec" by (cases r) auto
    with False Cons.prems(1) load obtain m1 where m1: "merge_spec (\<lambda>kind. dir_clash kind dir (path_Join dir name)) spec m = Inr m1"
      "load_dir_entries env dir w1 es m1 = (Inr m', w')"
      by (auto simp: e Let_def split: sum.splits)
    show ?thesis by (rule Cons.IH [OF m1(2) merge_spec_merge(5,6) [OF m1(1)]]) (rule Cons.prems)+
  qed
qed simp

lemma loadSingleSpec_distinct: "loadSingleSpec env w t l = (Inr spec, w') \<Longrightarrow> distinct_spec spec"
  by (auto simp: loadSingleSpec_def loadSpecFromDir_def distinct_spec_def split: if_splits sum.splits prod.splits
      dest!: load_document_distinct load_dir_entries_distinct)

lemma load_primary_index:
  assumes "load_primary env cfg w = (Inr m, w')"
  shows "\<exists>specs. list_all2 (spec_at env) (primary_source cfg) specs \<and> index_of specs m"
proof (cases "hasPrimary cfg")
  case True
  then obtain spec where load: "loadSingleSpec env w (SvType cfg) (SvLocation cfg) = (Inr spec, w')"
    and m: "m = (foldl (\<lambda>m p. go_set m (fst p) (snd p)) [] (CpActionSchemas spec),
                 foldl (\<lambda>m p. go_set m (fst p) (snd p)) [] (CpBodylessActions spec))"
    using assms by (auto simp: load_primary_def split: sum.splits prod.splits)
  from loadSingleSpec_distinct [OF load] have "m = (CpActionSchemas spec, CpBodylessActions spec)"
    unfolding m distinct_spec_def using go_set_fresh [of "[]" "CpActionSchemas spec"] go_set_fresh [of "[]" "CpBodylessActions spec"]
    by simp
  then have "index_of [spec] m" by (simp add: index_of_def)
  with True load show ?thesis by (auto simp: primary_source_def spec_at_def list_all2_Cons1 intro!: exI [of _ "[spec]"])
next
  case False
  with assms show ?thesis by (auto simp: load_primary_def primary_source_def index_of_def)
qed

lemma load_auxiliary_index:
  assumes "load_auxiliary env b i w auxs m = (Inr m', w')" "index_of specs m"
  shows "\<exists>srcs more. subseq srcs (aux_sources auxs) \<and> list_all2 (spec_at env) srcs more \<and> index_of (specs @ more) m'"
  using assms
proof (induction auxs arbitrary: i w m specs)
  case (Cons aux auxs)
  show ?case
  proof (cases "loadSingleSpec env w (AxType aux) (AxLocation aux)")
    case (Pair r w1)
    show ?thesis
    proof (cases r)
      case (Inl e)
      with Cons.prems Pair have "load_auxiliary env b (Suc i) w1 auxs m = (Inr m', w')" by (auto split: if_splits)
      from Cons.IH [OF this Cons.prems(2)] obtain srcs more where
        "subseq srcs (aux_sources auxs)" "list_all2 (spec_at env) srcs more" "index_of (specs @ more) m'" by blast
      then show ?thesis by (auto simp: aux_sources_def intro: subseq_Cons')
    next
      case (Inr spec)
      with Cons.prems Pair obtain m1 where m1: "merge_spec (aux_clash i (AxLocation aux)) spec m = Inr m1"
        and rest: "load_auxiliary env b (Suc i) w1 auxs m1 = (Inr m', w')" by (auto split: sum.splits)
      from Cons.IH [OF rest index_of_merge [OF Cons.prems(2) m1]] obtain srcs more where
        "subseq srcs (aux_sources auxs)" "list_all2 (spec_at env) srcs more" "index_of (specs @ spec # more) m'" by auto
      moreover have "spec_at env (AxType aux, AxLocation aux) spec" using Pair Inr by (auto simp: spec_at_def)
      ultimately show ?thesis
        by (intro exI [of _ "(AxType aux, AxLocation aux) # srcs"] exI [of _ "spec # more"]) (simp add: aux_sources_def)
    qed
  qed
qed (auto simp: aux_sources_def)

text \<open>The index is built of the primary document and of documents of some of the auxiliary sources.\<close>

definition index_built :: "'w OpenApi \<Rightarrow> SvConfig \<Rightarrow> schemav2Validator \<Rightarrow> bool" where
  "index_built env cfg v \<longleftrightarrow>
     (\<exists>primary srcs auxiliary. list_all2 (spec_at env) (primary_source cfg) primary \<and>
       subseq srcs (aux_sources (SvAuxiliary cfg)) \<and> list_all2 (spec_at env) srcs auxiliary \<and>
       index_of (primary @ auxiliary) (VaActionSchemas v, VaBodylessActions v))"

lemma loadAllSpecs_index:
  assumes "loadAllSpecs env v w b = (None, v', w')"
  shows "index_built env (VaConfig v) v' \<and> VaSpecsLoaded v'"
proof -
  obtain m w1 m' where load: "load_primary env (VaConfig v) w = (Inr m, w1)"
    "load_auxiliary env b 0 w1 (SvAuxiliary (VaConfig v)) m = (Inr m', w')"
    and v': "v' = v\<lparr>VaSpecsLoaded := True, VaActionSchemas := fst m', VaBodylessActions := snd m'\<rparr>"
    using assms by (auto simp: loadAllSpecs_def split: sum.splits prod.splits if_splits)
  from load_primary_index [OF load(1)] obtain primary where
    p: "list_all2 (spec_at env) (primary_source (VaConfig v)) primary" "index_of primary m" by blast
  from load_auxiliary_index [OF load(2) p(2)] p(1) show ?thesis unfolding index_built_def by (auto simp: v')
qed

lemma loadAllSpecs_failed: "loadAllSpecs env v w b = (Some e, v', w') \<Longrightarrow> v' = v"
  by (auto simp: loadAllSpecs_def split: sum.splits prod.splits if_splits)

lemma index_built_same:
  "VaActionSchemas v' = VaActionSchemas v \<Longrightarrow> VaBodylessActions v' = VaBodylessActions v \<Longrightarrow> index_built env cfg v' = index_built env cfg v"
  by (simp add: index_built_def)

lemma step_index:
  assumes "validator_step env outside s s'" "index_built env (VaConfig (VsValidator s)) (VsValidator s)" "VaSpecsLoaded (VsValidator s)"
  shows "index_built env (VaConfig (VsValidator s')) (VsValidator s') \<and> VaSpecsLoaded (VsValidator s')"
  using assms
proof (induction rule: validator_step.induct)
  case (reload s v w)
  then obtain r where r: "loadAllSpecs env (VsValidator s) (VsWorld s) True = (r, v, w)"
    by (cases "loadAllSpecs env (VsValidator s) (VsWorld s) True") (auto simp: reloadAllSpecs_def)
  show ?case
  proof (cases r)
    case None
    with r loadAllSpecs_index loadAll_config show ?thesis by fastforce
  next
    case (Some e)
    with r have "v = VsValidator s" by (auto dest: loadAllSpecs_failed)
    with reload show ?thesis by simp
  qed
next
  case (request s reqURL body err v w)
  from validate_frame [OF request(1)] request(2,3) index_built_same [of v "VsValidator s" env] show ?case by simp
qed (simp_all add: index_built_def)

lemma index_built_config: "index_built env (cfg\<lparr>SvCacheTTL := t\<rparr>) v = index_built env cfg v"
  by (simp add: index_built_def primary_source_def hasPrimary_def)

text \<open>C26: In every state that a validator reaches, through any number of reloads, failed ones included, its index consists
  of the actions of the primary document, if one is configured, and of documents of auxiliary sources, in the order of
  the settings: every action of these documents is in the index with the schema that its document gives it, nothing else
  is, and no two of the documents share an action. So no auxiliary document ever replaces the schema of a primary
  action, and a reload that fails leaves a complete index.\<close>

theorem auxiliary_never_overrides:
  assumes "validator_reach env outside w0 config s"
  shows "VaSpecsLoaded (VsValidator s) \<and>
    (\<exists>auxiliary. aux_settings (setting config ''auxiliaryTypes'') (setting config ''auxiliaryLocations'') = Inr auxiliary \<and>
       index_built env (settings_of config auxiliary) (VsValidator s))"
proof -
  from assms obtain v w where new: "schemav2_provider_New env w0 config = (Inr v, w)"
    and run: "(validator_step env outside)\<^sup>*\<^sup>* \<lparr>VsValidator = v, VsWorld = w, VsRunning = True\<rparr> s"
    by (auto simp: validator_reach_def)
  from new obtain auxiliary where aux: "aux_settings (setting config ''auxiliaryTypes'') (setting config ''auxiliaryLocations'') = Inr auxiliary"
    and new': "schemav2_New env w0 (Some (settings_of config auxiliary)) = (Inr v, w)"
    by (rule provider_New_form)
  from new' have start: "index_built env (VaConfig v) v \<and> VaSpecsLoaded v"
    using loadAllSpecs_index loadAll_config by (fastforce elim: New_form)
  from run have "index_built env (VaConfig (VsValidator s)) (VsValidator s) \<and> VaSpecsLoaded (VsValidator s)"
    by (induction rule: rtranclp_induct) (use start step_index in auto)
  moreover have "VaConfig (VsValidator s) = VaConfig v" using reachable_config [OF run] by simp
  ultimately show ?thesis using aux New_result(1) [OF new'] by (simp add: index_built_config)
qed

subsection \<open>Examples\<close>

text \<open>A validator with one document, which knows one action, and schemas that refuse what has a member \<open>bad\<close>.\<close>

definition leaf_schema :: "json option \<Rightarrow> OSchema" where
  "leaf_schema const = OSchema [] [] [] const [] []"

definition search_schema :: OSchema where
  "search_schema = OSchema []
     [(''context'', Some (OSchema [] [(''action'', Some (leaf_schema (Some (JStr ''search''))))] [] None [] []))] [] None [] []"

definition sample_spec :: SchemaDoc where
  "sample_spec = \<lparr>SdPaths = [(''/search'', Some \<lparr>PiPost = Some \<lparr>OpRequestBody = Some (Some search_schema)\<rparr>, PiGet = None, PiPut = None,
       PiPatch = None, PiDelete = None\<rparr>)],
     SdComponents = Some [(''T'', Some (leaf_schema None))]\<rparr>"

definition schema_float :: Float64 where "schema_float = \<lparr>InRange = (\<lambda>s. True), FloatText = (\<lambda>s. s)\<rparr>"

definition sample_openapi :: "unit OpenApi" where
  "sample_openapi =
     \<lparr>OaParseURL = (\<lambda>s. Inr \<lparr>UScheme = ''https'', UHost = ''s.org'', UPath = s, URawQuery = [], URest = []\<rparr>), OaURLString = (\<lambda>u. UPath u),
      OaNewRequest = (\<lambda>s. None), OaDo = (\<lambda>w u. (Inl (ErrText ''offline''), w)), OaReadFile = (\<lambda>w p. (Inr p, w)),
      OaReadDir = (\<lambda>w p. (Inr [], w)), OaWalkDir = (\<lambda>w p. ([], w)), OaRel = (\<lambda>a b. Inr b),
      OaLoadFromURI = (\<lambda>t r w u. (Inr sample_spec, w)), OaLoadFromFile = (\<lambda>r w p. (Inr sample_spec, w)),
      OaLoadFromData = (\<lambda>r w d. (Inr sample_spec, w)),
      OaVisitJSON = (\<lambda>s v. case v of JObj m \<Rightarrow> if jget m ''bad'' = None then None else Some (PlainError ''bad'') | _ \<Rightarrow> None),
      OaSha256 = (\<lambda>s. CHR ''h'' # s), OaClock = (\<lambda>w. (0, w)), OaFloat = schema_float\<rparr>"

definition sample_schema_settings :: "string \<rightharpoonup> string" where
  "sample_schema_settings = map_of [(''type'', ''file''), (''location'', ''spec.yaml''), (''extendedSchema_enabled'', ''true''),
     (''extendedSchema_allowedDomains'', ''s.org'')]"

definition sample_extended :: ExtendedSchemaConfig where
  "sample_extended = \<lparr>EsCacheTTL = 0, EsMaxCacheSize = 0, EsDownloadTimeout = 0, EsAllowedDomains = [''s.org''], EsLocalSchemaPath = []\<rparr>"

definition sample_validator :: schemav2Validator where
  "sample_validator =
     \<lparr>VaConfig = \<lparr>SvType = ''file'', SvLocation = ''spec.yaml'', SvCacheTTL = 3600, SvAuxiliary = [], SvEnableExtendedSchema = True,
        SvExtendedSchemaConfig = sample_extended\<rparr>,
      VaSpecsLoaded = True, VaActionSchemas = [(''search'', search_schema)], VaBodylessActions = [], VaSchemaCache = Some (newSchemaCache 100)\<rparr>"

definition sample_state :: "unit ValidatorState" where
  "sample_state = \<lparr>VsValidator = sample_validator, VsWorld = (), VsRunning = True\<rparr>"

lemma sample_schema_New: "schemav2_provider_New sample_openapi () sample_schema_settings = (Inr sample_validator, ())"
  by code_simp

lemma sample_state_reached: "validator_reach sample_openapi outside () sample_schema_settings sample_state"
  using sample_schema_New by (auto simp: validator_reach_def sample_state_def)

definition sample_object :: "(string \<times> json) list" where
  "sample_object = [(''@context'', JStr ''https://s.org/context.jsonld''), (''@type'', JStr ''T'')]"

definition schema_body :: string where
  "schema_body = json_encode (JObj [(''context'', JObj [(''action'', JStr ''search'')]), (''message'', JArr [JObj sample_object])])"

lemma schema_body_accepted: "fst (schemav2_Validate sample_openapi sample_validator () None schema_body) = None"
  by code_simp

lemma sample_settings:
  "setting sample_schema_settings ''extendedSchema_enabled'' = ''true''" "extended_settings sample_schema_settings = sample_extended"
  "positive_setting sample_schema_settings ''extendedSchema_maxCacheSize'' 100 = 100"
  by code_simp+

theorem schema_cache_bounded_witness:
  "int (length (ScSchemas (newSchemaCache 100))) \<le> 100"
  using schema_cache_bounded [OF sample_state_reached [of "\<lambda>_ _. True"], of "newSchemaCache 100"]
  by (simp add: sample_state_def sample_validator_def sample_openapi_def sample_settings)

theorem auxiliary_never_overrides_witness:
  "VaSpecsLoaded sample_validator \<and>
    (\<exists>auxiliary. aux_settings (setting sample_schema_settings ''auxiliaryTypes'') (setting sample_schema_settings ''auxiliaryLocations'') = Inr auxiliary \<and>
       index_built sample_openapi (settings_of sample_schema_settings auxiliary) sample_validator)"
  using auxiliary_never_overrides [OF sample_state_reached [of "\<lambda>_ _. True"]] by (simp add: sample_state_def)

lemma schema_body_read:
  "unmarshal_any schema_float schema_body =
     Some (JObj [(''context'', JObj [(''action'', JStr ''search'')]), (''message'', JArr [JObj sample_object])])"
  by code_simp

theorem accepted_objects_checked_witness:
  "object_valid sample_openapi sample_extended (newSchemaCache 100) ''https://s.org/context.jsonld'' ''T'' sample_object"
proof -
  obtain v' w' where "schemav2_Validate sample_openapi (VsValidator sample_state) (VsWorld sample_state) None schema_body = (None, v', w')"
    using schema_body_accepted by (cases "schemav2_Validate sample_openapi sample_validator () None schema_body") (simp add: sample_state_def)
  moreover have "schema_body \<noteq> []" using schema_body_read by (auto simp: unmarshal_any_def json_decode_def is_ws_def)
  moreover have "OaFloat sample_openapi = schema_float" by (simp add: sample_openapi_def)
  ultimately have "\<exists>m message c. JObj [(''context'', JObj [(''action'', JStr ''search'')]), (''message'', JArr [JObj sample_object])] = JObj m \<and>
      jget m ''message'' = Some message \<and> VaSchemaCache sample_validator = Some c \<and>
      (\<forall>n ctx t. object_in message n \<longrightarrow> jget n ''@context'' = Some (JStr ctx) \<longrightarrow> jget n ''@type'' = Some (JStr t) \<longrightarrow>
        object_valid sample_openapi sample_extended c ctx t n)"
    using accepted_objects_checked [OF sample_state_reached [of "\<lambda>_ _. True"], of schema_body None v' w'] schema_body_read
    by (auto simp: sample_settings sample_state_def)
  moreover have "object_in (JArr [JObj sample_object]) sample_object" by (rule in_item [of "JObj sample_object"]) (simp_all add: self)
  ultimately show ?thesis by (simp add: jget_def sample_validator_def sample_object_def)
qed

definition sample_referenced :: ReferencedObject where
  "sample_referenced = \<lparr>RoPath = ''message'', RoContext = ''https://s.org/context.jsonld'', RoType = ''U'', RoData = []\<rparr>"

theorem missing_schema_path_doubled_witness:
  "\<exists>e c. validate_referenced sample_openapi sample_extended (newSchemaCache 100) () [sample_referenced] = (Some (ErrSchema [e]), c, ()) \<and>
    error_path e = ''message.message''"
proof -
  have "fst (loadSchemaFromPath sample_openapi (newSchemaCache 100) () (transformContextToSchemaURL (RoContext sample_referenced))
      (es_ttl sample_extended) (es_timeout sample_extended) False) = Inr sample_spec"
    by code_simp
  then obtain c' where load: "loadSchemaFromPath sample_openapi (newSchemaCache 100) ()
      (transformContextToSchemaURL (RoContext sample_referenced)) (es_ttl sample_extended) (es_timeout sample_extended) False =
      (Inr sample_spec, c', ())"
    by (metis prod.collapse unit_eq)
  have "context_permitted sample_openapi (EsAllowedDomains sample_extended) (RoContext sample_referenced)"
    unfolding context_refused_permitted [symmetric] by code_simp
  then show ?thesis
    using missing_schema_path_doubled [OF _ _ _ load, of "[]"]
    by (auto simp: sample_extended_def sample_referenced_def findSchemaByType_def sample_spec_def leaf_schema_def x_jsonld_type_def)
qed

end
