(* ===== verification/Json_Schema.thy ===== *)
theory Json_Schema
  imports Openapi_Validator
begin

text \<open>
  The schema validator of version 1 (\<open>schemavalidator/schemavalidator.go\<close> and \<open>cmd/plugin.go\<close>): it compiles the JSON schemas of
  a directory and validates a request against the schema of its domain, version and endpoint. The JSON schema engine, with
  the type \<open>'s\<close> of compiled schemas, \<open>filepath.Rel\<close> and \<open>strings.ToLower\<close> are arguments. The directory is a tree, what \<open>ReadDir\<close>
  returns while the validator is built.
\<close>

subsection \<open>Arguments\<close>

datatype FsEntry = FsFile string | FsDir string "goerr option" "FsEntry list"

datatype StatResult = StatMissing | StatError goerr | StatFile | StatDir "goerr option" "FsEntry list"

datatype jserr = ValidationError "(string list \<times> string) list" | OtherError string

record 's JsonSchemas =
  JsStat :: "string \<Rightarrow> StatResult"
  JsCompile :: "string \<Rightarrow> goerr + 's"
  JsRel :: "string \<Rightarrow> string \<Rightarrow> goerr + string"
  JsValidate :: "'s \<Rightarrow> json \<Rightarrow> jserr option"
  JsToLower :: "string \<Rightarrow> string"
  JsFloat :: Float64

type_synonym 's schema_table = "string \<rightharpoonup> 's"

subsection \<open>Loading\<close>

definition TrimSuffix :: "string \<Rightarrow> string \<Rightarrow> string" where
  "TrimSuffix s p = (if HasSuffix s p then take (length s - length p) s else s)"

text \<open>The key of a file, from its path relative to the directory.\<close>

definition schema_key :: "string \<Rightarrow> goerr + string" where
  "schema_key relativePath =
     (case Split (CHR ''/'') relativePath of
        p0 # p1 # p2 # _ \<Rightarrow>
          (let domain = TrimSpace p0; version = TrimSpace p1; schemaFileName = TrimSuffix (TrimSpace p2) ''.json'' in
           if domain = [] \<or> version = [] \<or> schemaFileName = [] then
             Inl (ErrText (''invalid schema file structure, one or more components are empty. Relative path: '' @ relativePath))
           else Inr (domain @ ''_'' @ version @ ''_'' @ schemaFileName))
      | _ \<Rightarrow> Inl (ErrText (''invalid schema file structure, expected domain/version/schema.json but got: '' @ relativePath)))"

definition load_schema_file :: "'s JsonSchemas \<Rightarrow> string \<Rightarrow> string \<Rightarrow> string \<Rightarrow> 's schema_table \<Rightarrow> goerr + 's schema_table" where
  "load_schema_file env schemaDir name path table =
     (case JsCompile env path of
        Inl e \<Rightarrow> Inl (ErrText (''failed to compile JSON schema from file '' @ name @ '': '' @ error_text e))
      | Inr schema \<Rightarrow>
          (case JsRel env schemaDir path of
             Inl e \<Rightarrow> Inl (ErrText (''failed to get relative path for file '' @ name @ '': '' @ error_text e))
           | Inr relativePath \<Rightarrow>
               (case schema_key relativePath of Inl e \<Rightarrow> Inl e | Inr key \<Rightarrow> Inr (table(key \<mapsto> schema)))))"

fun processDir :: "'s JsonSchemas \<Rightarrow> string \<Rightarrow> string \<Rightarrow> FsEntry list \<Rightarrow> 's schema_table \<Rightarrow> goerr + 's schema_table"
and processEntry :: "'s JsonSchemas \<Rightarrow> string \<Rightarrow> string \<Rightarrow> FsEntry \<Rightarrow> 's schema_table \<Rightarrow> goerr + 's schema_table" where
  "processDir env schemaDir dir [] table = Inr table"
| "processDir env schemaDir dir (entry # entries) table =
     (case processEntry env schemaDir dir entry table of
        Inl e \<Rightarrow> Inl e
      | Inr table1 \<Rightarrow> processDir env schemaDir dir entries table1)"
| "processEntry env schemaDir dir (FsDir name readErr entries) table =
     (case readErr of
        Some e \<Rightarrow> Inl (ErrText (''failed to read directory: '' @ error_text e))
      | None \<Rightarrow> processDir env schemaDir (path_Join dir name) entries table)"
| "processEntry env schemaDir dir (FsFile name) table =
     (if path_Ext name = ''.json'' then load_schema_file env schemaDir name (path_Join dir name) table else Inr table)"

definition schema_initialise :: "'s JsonSchemas \<Rightarrow> string \<Rightarrow> goerr + 's schema_table" where
  "schema_initialise env schemaDir =
     (case JsStat env schemaDir of
        StatMissing \<Rightarrow> Inl (ErrText (''schema directory does not exist: '' @ schemaDir))
      | StatError e \<Rightarrow> Inl (ErrText (''failed to access schema directory: '' @ error_text e))
      | StatFile \<Rightarrow> Inl (ErrText (''provided schema path is not a directory: '' @ schemaDir))
      | StatDir readErr entries \<Rightarrow>
          (case (case readErr of
                   Some e \<Rightarrow> Inl (ErrText (''failed to read directory: '' @ error_text e))
                 | None \<Rightarrow> processDir env schemaDir schemaDir entries Map.empty) of
             Inl e \<Rightarrow> Inl (ErrText (''failed to read schema directory: '' @ error_text e))
           | Inr table \<Rightarrow> Inr table))"

definition schema_New :: "'s JsonSchemas \<Rightarrow> string option \<Rightarrow> goerr + 's schema_table" where
  "schema_New env config =
     (case config of
        None \<Rightarrow> Inl (ErrText ''config cannot be nil'')
      | Some schemaDir \<Rightarrow>
          (case schema_initialise env schemaDir of
             Inl e \<Rightarrow> Inl (ErrText (''failed to initialise schemaValidator: '' @ error_text e))
           | Inr table \<Rightarrow> Inr table))"

definition schema_provider_New :: "'s JsonSchemas \<Rightarrow> (string \<rightharpoonup> string) \<Rightarrow> goerr + 's schema_table" where
  "schema_provider_New env config =
     (let schemaDir = setting config ''schemaDir'' in
      if schemaDir = [] then Inl (ErrText (''config must contain '' @ sq ''schemaDir'')) else schema_New env (Some schemaDir))"

subsection \<open>Validation\<close>

text \<open>Decoding the body into \<open>payload\<close>: domain and version, or \<^term>\<open>None\<close> for an error.\<close>

definition payload_domain_version :: "string \<Rightarrow> (string \<times> string) option" where
  "payload_domain_version body =
     (case json_decode body of
        Some (JObj kvs) \<Rightarrow>
          (let (err1, domain) = foldl (decode_context_member ''domain'') (False, []) kvs;
               (err2, version) = foldl (decode_context_member ''version'') (False, []) kvs
           in if err1 \<or> err2 then None else Some (domain, version))
      | Some JNull \<Rightarrow> Some ([], [])
      | _ \<Rightarrow> None)"

definition request_key :: "(string \<Rightarrow> string) \<Rightarrow> string \<Rightarrow> string \<Rightarrow> string \<Rightarrow> string" where
  "request_key ToLower cxtDomain cxtVersion endpoint =
     map (\<lambda>c. if c = CHR '':'' then CHR ''_'' else c) (ToLower cxtDomain) @ ''_'' @ (CHR ''v'' # cxtVersion) @ ''_'' @ endpoint"

definition js_error :: "string list \<times> string \<Rightarrow> Error" where
  "js_error c = (let path = Join (fst c) ''.'' in
     Error [] (snd c) (if path \<noteq> [] then Some (ErrorDetails path None) else None) None)"

definition schema_Validate :: "'s JsonSchemas \<Rightarrow> 's schema_table \<Rightarrow> URL option \<Rightarrow> string \<Rightarrow> goerr option" where
  "schema_Validate env table reqURL data =
     (if data = [] then
        (case reqURL of None \<Rightarrow> Some (GoPanic ''invalid memory address or nil pointer dereference'') | Some u \<Rightarrow> None)
      else
        (case payload_domain_version data of
           None \<Rightarrow> Some (bad_request (''failed to parse JSON payload: '' @ ''json.Unmarshal''))
         | Some (cxtDomain, version) \<Rightarrow>
             if cxtDomain = [] then Some (bad_request ''missing field Domain in context'')
             else if version = [] then Some (bad_request ''missing field Version in context'')
             else
               (case reqURL of
                  None \<Rightarrow> Some (GoPanic ''invalid memory address or nil pointer dereference'')
                | Some u \<Rightarrow>
                    (case table (request_key (JsToLower env) cxtDomain version (UPath u)) of
                       None \<Rightarrow> Some (bad_request (''schema not found for domain: '' @
                         map (\<lambda>c. if c = CHR '':'' then CHR ''_'' else c) (JsToLower env cxtDomain)))
                     | Some schema \<Rightarrow>
                         (case unmarshal_any (JsFloat env) data of
                            None \<Rightarrow> Some (bad_request (''failed to parse JSON data: '' @ ''json.Unmarshal''))
                          | Some jsonData \<Rightarrow>
                              (case JsValidate env schema jsonData of
                                 None \<Rightarrow> None
                               | Some (ValidationError causes) \<Rightarrow> Some (ErrSchema (map js_error causes))
                               | Some (OtherError t) \<Rightarrow> Some (ErrText (''validation failed: '' @ t))))))))"

definition schema_plugin :: "'s JsonSchemas \<Rightarrow> 's schema_table \<Rightarrow> 'w SchemaValidator" where
  "schema_plugin env table = \<lparr>SchemaValidate = (\<lambda>w ctx reqURL data. (schema_Validate env table reqURL data, w))\<rparr>"

subsection \<open>Properties\<close>

text \<open>The files of a tree with the ending \<open>.json\<close>, by their paths.\<close>

inductive json_file :: "string \<Rightarrow> FsEntry list \<Rightarrow> string \<Rightarrow> bool" where
  here: "FsFile name \<in> set entries \<Longrightarrow> path_Ext name = ''.json'' \<Longrightarrow> json_file dir entries (path_Join dir name)"
| below: "FsDir name readErr sub \<in> set entries \<Longrightarrow> json_file (path_Join dir name) sub path \<Longrightarrow> json_file dir entries path"

text \<open>A table whose schemas are compiled from files with the given paths, under the keys of these files.\<close>

definition table_from :: "'s JsonSchemas \<Rightarrow> string \<Rightarrow> (string \<Rightarrow> bool) \<Rightarrow> 's schema_table \<Rightarrow> bool" where
  "table_from env schemaDir files table \<longleftrightarrow>
     (\<forall>key schema. table key = Some schema \<longrightarrow>
       (\<exists>path rel. files path \<and> JsCompile env path = Inr schema \<and> JsRel env schemaDir path = Inr rel \<and> schema_key rel = Inr key))"

lemma table_from_more: "table_from env d F table \<Longrightarrow> (\<And>p. F p \<Longrightarrow> G p) \<Longrightarrow> table_from env d G table"
  unfolding table_from_def by blast

lemma load_schema_file_from:
  assumes "load_schema_file env schemaDir name path table = Inr table'" "table_from env schemaDir F table" "F path"
  shows "table_from env schemaDir F table'"
  using assms by (auto simp: load_schema_file_def table_from_def split: sum.splits if_splits) blast

lemma json_file_more: "json_file dir entries p \<Longrightarrow> set entries \<subseteq> set entries' \<Longrightarrow> json_file dir entries' p"
  by (erule json_file.cases) (blast intro: json_file.intros)+

lemma processDir_from:
  "processDir env schemaDir dir entries table = Inr table' \<Longrightarrow> table_from env schemaDir F table \<Longrightarrow>
    (\<And>p. json_file dir entries p \<Longrightarrow> F p) \<Longrightarrow> table_from env schemaDir F table'"
  "processEntry env schemaDir dir entry table = Inr table' \<Longrightarrow> table_from env schemaDir F table \<Longrightarrow>
    (\<And>p. json_file dir [entry] p \<Longrightarrow> F p) \<Longrightarrow> table_from env schemaDir F table'"
proof (induction env schemaDir dir entries table and env schemaDir dir entry table
    arbitrary: table' and table' rule: processDir_processEntry.induct)
  case (2 env schemaDir dir entry entries table)
  then obtain table1 where step: "processEntry env schemaDir dir entry table = Inr table1"
    "processDir env schemaDir dir entries table1 = Inr table'" by (auto split: sum.splits)
  have sub: "json_file dir [entry] p \<Longrightarrow> F p" "json_file dir entries p \<Longrightarrow> F p" for p
    by (rule "2.prems"(3), erule json_file_more, auto)+
  from "2.IH"(1) [OF step(1) "2.prems"(2) sub(1)] have "table_from env schemaDir F table1" .
  from "2.IH"(2) [OF step(1) step(2) this sub(2)] show ?case .
next
  case (3 env schemaDir dir name readErr entries table)
  have "F p" if "json_file (path_Join dir name) entries p" for p
    using "3.prems"(3) [of p] json_file.below [of name readErr entries "[FsDir name readErr entries]" dir p] that by simp
  with 3 show ?case by (auto split: option.splits)
next
  case (4 env schemaDir dir name table)
  then show ?case using json_file.here [of name "[FsFile name]" dir] by (auto split: if_splits intro: load_schema_file_from)
qed auto

text \<open>C32: A request with a body that the validator accepts has a domain and a version, and its body passes a schema that was
  compiled from a file of the configured directory whose key is that of the request's domain, version and endpoint.\<close>

theorem json_schema_accepts_checked:
  assumes "schema_provider_New env config = Inr table" "data \<noteq> []" "schema_Validate env table reqURL data = None"
  shows "\<exists>entries domain version u schema jsonData path rel.
    JsStat env (setting config ''schemaDir'') = StatDir None entries \<and> json_file (setting config ''schemaDir'') entries path \<and>
    payload_domain_version data = Some (domain, version) \<and> domain \<noteq> [] \<and> version \<noteq> [] \<and> reqURL = Some u \<and>
    JsCompile env path = Inr schema \<and> JsRel env (setting config ''schemaDir'') path = Inr rel \<and>
    schema_key rel = Inr (request_key (JsToLower env) domain version (UPath u)) \<and>
    unmarshal_any (JsFloat env) data = Some jsonData \<and> JsValidate env schema jsonData = None"
proof -
  let ?dir = "setting config ''schemaDir''"
  obtain entries where dir: "JsStat env ?dir = StatDir None entries" "processDir env ?dir ?dir entries Map.empty = Inr table"
    using assms(1)
    by (auto simp: schema_provider_New_def schema_New_def schema_initialise_def Let_def
        split: if_splits sum.splits StatResult.splits option.splits)
  have table: "table_from env ?dir (json_file ?dir entries) table"
    by (rule processDir_from(1) [OF dir(2)]) (simp_all add: table_from_def)
  obtain domain version u schema jsonData where "payload_domain_version data = Some (domain, version)" "domain \<noteq> []" "version \<noteq> []"
    "reqURL = Some u" "table (request_key (JsToLower env) domain version (UPath u)) = Some schema"
    "unmarshal_any (JsFloat env) data = Some jsonData" "JsValidate env schema jsonData = None"
    using assms(2,3) by (auto simp: schema_Validate_def split: option.splits if_splits jserr.splits prod.splits)
  moreover from this(5) table obtain path rel where "json_file ?dir entries path" "JsCompile env path = Inr schema"
    "JsRel env ?dir path = Inr rel" "schema_key rel = Inr (request_key (JsToLower env) domain version (UPath u))"
    unfolding table_from_def by blast
  ultimately show ?thesis using dir(1) by blast
qed

subsection \<open>Examples\<close>

text \<open>A directory with one schema, which accepts everything.\<close>

definition sample_schemas :: "unit JsonSchemas" where
  "sample_schemas =
     \<lparr>JsStat = (\<lambda>p. StatDir None [FsDir ''d'' None [FsDir ''v1'' None [FsFile ''search.json'']]]), JsCompile = (\<lambda>p. Inr ()),
      JsRel = (\<lambda>b p. Inr ''d/v1/search.json''), JsValidate = (\<lambda>s v. None), JsToLower = (\<lambda>s. s),
      JsFloat = \<lparr>InRange = (\<lambda>s. True), FloatText = (\<lambda>s. s)\<rparr>\<rparr>"

definition sample_schema_dir :: "string \<rightharpoonup> string" where "sample_schema_dir = map_of [(''schemaDir'', ''schemas'')]"

definition versioned_body :: string where
  "versioned_body = json_encode (JObj [(''context'', JObj [(''domain'', JStr ''d''), (''version'', JStr ''1'')])])"

definition search_url :: URL where
  "search_url = \<lparr>UScheme = [], UHost = [], UPath = ''search'', URawQuery = [], URest = []\<rparr>"

lemma sample_schemas_New: "schema_provider_New sample_schemas sample_schema_dir = Inr (Map.empty(''d_v1_search'' \<mapsto> ()))"
proof -
  have "schema_key ''d/v1/search.json'' = Inr ''d_v1_search''" "path_Ext ''search.json'' = ''.json''"
    "setting sample_schema_dir ''schemaDir'' = ''schemas''" by code_simp+
  then show ?thesis
    by (simp add: schema_provider_New_def schema_New_def schema_initialise_def load_schema_file_def sample_schemas_def Let_def)
qed

lemma versioned_body_accepted:
  "schema_Validate sample_schemas (Map.empty(''d_v1_search'' \<mapsto> ())) (Some search_url) versioned_body = None"
  by code_simp

theorem json_schema_accepts_checked_witness:
  "\<exists>path rel. JsRel sample_schemas ''schemas'' path = Inr rel \<and> schema_key rel = Inr ''d_v1_search''"
proof -
  have body: "versioned_body \<noteq> []" "payload_domain_version versioned_body = Some (''d'', ''1'')"
    "setting sample_schema_dir ''schemaDir'' = ''schemas''" "request_key (\<lambda>s. s) ''d'' ''1'' ''search'' = ''d_v1_search''" by code_simp+
  have parts: "UPath search_url = ''search''" "JsToLower sample_schemas = (\<lambda>s. s)" by (simp_all add: search_url_def sample_schemas_def)
  show ?thesis
    using json_schema_accepts_checked [OF sample_schemas_New body(1) versioned_body_accepted] body(2-4) parts by auto
qed

end
