(* ===== verification/Vault_Keys.thy ===== *)
theory Vault_Keys
  imports Key_Manager
begin

text \<open>
  The key manager plugin over HashiCorp Vault (\<open>keymanager/keymanager.go\<close> and \<open>cmd/plugin.go\<close>). The Vault client, the
  environment, \<open>strings.ToLower\<close> and the generators of keys are arguments; what is assumed of Vault is \<open>vault_behaves\<close>.
  The cleanup function sets the client and the registry to nil, here \<^term>\<open>None\<close>; log output is left out.
\<close>

subsection \<open>Records\<close>

record VaultConfig =
  VgAddr :: string
  VgKVVersion :: string

record VaultClient =
  VtAddress :: string
  VtToken :: string

text \<open>
  The Vault API: \<open>NewClient\<close>, the AppRole login with the token it returns, if any, \<open>Logical().Write\<close>, \<open>Logical().Read\<close> with the
  data of the secret, if there is one, and \<open>KVv2(mount).Delete\<close>.
\<close>

record 'v VaultLib =
  VGetenv :: "string \<Rightarrow> string"
  VToLower :: "string \<Rightarrow> string"
  VNewClient :: "string \<Rightarrow> goerr option"
  VLogin :: "string \<Rightarrow> 'v \<Rightarrow> string \<Rightarrow> string \<Rightarrow> (goerr + string option) \<times> 'v"
  VWrite :: "VaultClient \<Rightarrow> 'v \<Rightarrow> string \<Rightarrow> (string \<times> json) list \<Rightarrow> goerr option \<times> 'v"
  VRead :: "VaultClient \<Rightarrow> 'v \<Rightarrow> string \<Rightarrow> (goerr + (string \<times> json) list option) \<times> 'v"
  VKv2Delete :: "VaultClient \<Rightarrow> 'v \<Rightarrow> string \<Rightarrow> string \<Rightarrow> goerr option \<times> 'v"

record 'v KeyMgr =
  KmVaultClient :: "VaultClient option"
  KmRegistry :: "'v RegistryLookup option"
  KmKvVersion :: string
  KmSecretPath :: string

definition nil_dereference :: goerr where "nil_dereference = GoPanic ''invalid memory address or nil pointer dereference''"

subsection \<open>Construction\<close>

definition vault_ValidateCfg :: "(string \<Rightarrow> string) \<Rightarrow> VaultConfig \<Rightarrow> goerr + VaultConfig" where
  "vault_ValidateCfg ToLower cfg =
     (if VgAddr cfg = [] then Inl (ErrText ''invalid config: VaultAddr cannot be empty'')
      else
        (let kvVersion = ToLower (VgKVVersion cfg) in
         if kvVersion = [] then Inr (cfg\<lparr>VgKVVersion := ''v1''\<rparr>)
         else if kvVersion \<noteq> ''v1'' \<and> kvVersion \<noteq> ''v2'' then
           Inl (ErrText (''invalid KVVersion: must be '' @ CHR 0x27 # ''v1'' @ CHR 0x27 # '' or '' @ CHR 0x27 # ''v2'' @ [CHR 0x27]))
         else Inr (cfg\<lparr>VgKVVersion := kvVersion\<rparr>)))"

definition GetVaultClient :: "'v VaultLib \<Rightarrow> 'v \<Rightarrow> string \<Rightarrow> (goerr + VaultClient) \<times> 'v" where
  "GetVaultClient lib v vaultAddr =
     (let roleID = VGetenv lib ''VAULT_ROLE_ID''; secretID = VGetenv lib ''VAULT_SECRET_ID'' in
      if roleID = [] \<or> secretID = [] then (Inl (ErrText ''VAULT_ROLE_ID or VAULT_SECRET_ID is not set''), v)
      else
        (case VNewClient lib vaultAddr of
           Some e \<Rightarrow> (Inl (errorf_w ''failed to create Vault client: '' e), v)
         | None \<Rightarrow>
             (case VLogin lib vaultAddr v roleID secretID of
                (Inl e, v1) \<Rightarrow> (Inl (errorf_w ''failed to login with AppRole: '' e), v1)
              | (Inr None, v1) \<Rightarrow> (Inl (ErrText ''AppRole login failed: no auth info returned''), v1)
              | (Inr (Some token), v1) \<Rightarrow> (Inr \<lparr>VtAddress = vaultAddr, VtToken = token\<rparr>, v1))))"

definition vault_New :: "'v VaultLib \<Rightarrow> 'v \<Rightarrow> 'v RegistryLookup option \<Rightarrow> VaultConfig \<Rightarrow> (goerr + 'v KeyMgr) \<times> 'v" where
  "vault_New lib v registryLookup cfg =
     (case vault_ValidateCfg (VToLower lib) cfg of
        Inl e \<Rightarrow> (Inl e, v)
      | Inr c \<Rightarrow>
          (case registryLookup of
             None \<Rightarrow> (Inl ErrNilRegistryLookup, v)
           | Some registry \<Rightarrow>
               (case GetVaultClient lib v (VgAddr c) of
                  (Inl e, v1) \<Rightarrow> (Inl (errorf_w ''failed to create vault client: '' e), v1)
                | (Inr client, v1) \<Rightarrow>
                    (Inr \<lparr>KmVaultClient = Some client, KmRegistry = Some registry, KmKvVersion = VgKVVersion c, KmSecretPath = []\<rparr>, v1))))"

definition vault_cleanup :: "'v KeyMgr \<Rightarrow> 'v KeyMgr" where
  "vault_cleanup km = km\<lparr>KmVaultClient := None, KmRegistry := None\<rparr>"

definition vault_provider_New ::
  "'v VaultLib \<Rightarrow> 'v \<Rightarrow> 'v RegistryLookup option \<Rightarrow> (string \<rightharpoonup> string) \<Rightarrow> (goerr + 'v KeyMgr) \<times> 'v" where
  "vault_provider_New lib v registry cfg =
     (let get = (\<lambda>k. case cfg k of None \<Rightarrow> [] | Some s \<Rightarrow> s) in
      vault_New lib v registry \<lparr>VgAddr = get ''vaultAddr'', VgKVVersion = get ''kvVersion''\<rparr>)"

subsection \<open>Operations\<close>

definition vault_GenerateKeyset :: "'v KeyGen \<Rightarrow> 'v \<Rightarrow> (goerr + Keyset) \<times> 'v" where
  "vault_GenerateKeyset g v =
     (case gen_ed25519 g v of
        (Inl e, v1) \<Rightarrow> (Inl (errorf_w ''failed to generate signing key pair: '' e), v1)
      | (Inr (signingPublic, seed), v1) \<Rightarrow>
          (case gen_x25519 g v1 of
             (Inl e, v2) \<Rightarrow> (Inl (errorf_w ''failed to generate encryption key pair: '' e), v2)
           | (Inr (encrPrivate, encrPublic), v2) \<Rightarrow>
               (case gen_uuid g v2 of
                  (Inl e, v3) \<Rightarrow> (Inl (errorf_w ''failed to generate unique key id uuid: '' e), v3)
                | (Inr uuid, v3) \<Rightarrow>
                    (Inr \<lparr>KSubscriberID = [], UniqueKeyID = uuid, SigningPrivate = b64_encode seed,
                          SigningPublic = b64_encode signingPublic, EncrPrivate = b64_encode encrPrivate,
                          EncrPublic = b64_encode encrPublic\<rparr>, v3))))"

definition getSecretPath :: "'v KeyMgr \<Rightarrow> string \<Rightarrow> string" where
  "getSecretPath km keyID = (if KmKvVersion km = ''v2'' then ''secret/data/keys/'' @ keyID else ''secret/keys/'' @ keyID)"

definition key_data :: "Keyset \<Rightarrow> (string \<times> json) list" where
  "key_data keys =
     [(''uniqueKeyID'', JStr (UniqueKeyID keys)), (''signingPublicKey'', JStr (SigningPublic keys)),
      (''signingPrivateKey'', JStr (SigningPrivate keys)), (''encrPublicKey'', JStr (EncrPublic keys)),
      (''encrPrivateKey'', JStr (EncrPrivate keys))]"

definition vault_InsertKeyset :: "'v VaultLib \<Rightarrow> 'v KeyMgr \<Rightarrow> 'v \<Rightarrow> string \<Rightarrow> Keyset option \<Rightarrow> goerr option \<times> 'v" where
  "vault_InsertKeyset lib km v keyID keys =
     (if keyID = [] then (Some ErrEmptyKeyID, v)
      else
        (case keys of
           None \<Rightarrow> (Some ErrNilKeySet, v)
         | Some ks \<Rightarrow>
             (let path = getSecretPath km keyID;
                  payload = (if KmKvVersion km = ''v2'' then [(''data'', JObj (key_data ks))] else key_data ks)
              in case KmVaultClient km of
                   None \<Rightarrow> (Some nil_dereference, v)
                 | Some client \<Rightarrow>
                     (case VWrite lib client v path payload of
                        (Some e, v1) \<Rightarrow> (Some (errorf_w (''failed to store secret in Vault at path '' @ path @ '': '') e), v1)
                      | (None, v1) \<Rightarrow> (None, v1)))))"

definition vault_DeleteKeyset :: "'v VaultLib \<Rightarrow> 'v KeyMgr \<Rightarrow> 'v \<Rightarrow> string \<Rightarrow> goerr option \<times> 'v" where
  "vault_DeleteKeyset lib km v keyID =
     (if keyID = [] then (Some ErrEmptyKeyID, v)
      else
        (case KmVaultClient km of
           None \<Rightarrow> (Some nil_dereference, v)
         | Some client \<Rightarrow> VKv2Delete lib client v (getSecretPath km keyID) keyID))"

text \<open>The type assertion \<open>data[k].(string)\<close>.\<close>

definition string_member :: "(string \<times> json) list \<Rightarrow> string \<Rightarrow> goerr + string" where
  "string_member m k = (case jget m k of Some (JStr s) \<Rightarrow> Inr s | _ \<Rightarrow> Inl (GoPanic ''interface conversion: interface {} is not string''))"

definition read_keyset :: "(string \<times> json) list \<Rightarrow> goerr + Keyset" where
  "read_keyset m =
     (case string_member m ''uniqueKeyID'' of Inl e \<Rightarrow> Inl e | Inr a \<Rightarrow>
     (case string_member m ''signingPublicKey'' of Inl e \<Rightarrow> Inl e | Inr b \<Rightarrow>
     (case string_member m ''signingPrivateKey'' of Inl e \<Rightarrow> Inl e | Inr c \<Rightarrow>
     (case string_member m ''encrPublicKey'' of Inl e \<Rightarrow> Inl e | Inr d \<Rightarrow>
     (case string_member m ''encrPrivateKey'' of Inl e \<Rightarrow> Inl e | Inr x \<Rightarrow>
        Inr \<lparr>KSubscriberID = [], UniqueKeyID = a, SigningPrivate = c, SigningPublic = b, EncrPrivate = x, EncrPublic = d\<rparr>)))))"

definition secret_data :: "'v KeyMgr \<Rightarrow> (string \<times> json) list \<Rightarrow> goerr + (string \<times> json) list" where
  "secret_data km secret =
     (if KmKvVersion km = ''v2'' then
        (case jget secret ''data'' of
           None \<Rightarrow> Inl (ErrText (''missing '' @ CHR 0x27 # ''data'' @ CHR 0x27 # '' in secret response''))
         | Some (JObj m) \<Rightarrow> Inr m
         | Some _ \<Rightarrow> Inl (ErrText (''invalid '' @ CHR 0x27 # ''data'' @ CHR 0x27 # '' format in Vault response'')))
      else Inr secret)"

definition vault_Keyset :: "'v VaultLib \<Rightarrow> 'v KeyMgr \<Rightarrow> 'v \<Rightarrow> string \<Rightarrow> (goerr + Keyset) \<times> 'v" where
  "vault_Keyset lib km v keyID =
     (if keyID = [] then (Inl ErrEmptyKeyID, v)
      else
        (case KmVaultClient km of
           None \<Rightarrow> (Inl nil_dereference, v)
         | Some client \<Rightarrow>
             (case VRead lib client v (getSecretPath km keyID) of
                (Inl e, v1) \<Rightarrow> (Inl (errorf_w ''failed to read secret from Vault: '' e), v1)
              | (Inr None, v1) \<Rightarrow> (Inl (ErrText ''failed to read secret from Vault: %!w(<nil>)''), v1)
              | (Inr (Some secret), v1) \<Rightarrow> ((case secret_data km secret of Inl e \<Rightarrow> Inl e | Inr m \<Rightarrow> read_keyset m), v1))))"

definition vault_LookupNPKeys ::
  "'v KeyMgr \<Rightarrow> 'v \<Rightarrow> StepContext \<Rightarrow> string \<Rightarrow> string \<Rightarrow> (goerr + string \<times> string) \<times> 'v" where
  "vault_LookupNPKeys km v ctx subscriberID uniqueKeyID =
     (case KmRegistry km of
        None \<Rightarrow> (Inl nil_dereference, v)
      | Some registry \<Rightarrow>
          (case Lookup registry v ctx (lookup_query subscriberID uniqueKeyID) of
             (Inl e, v1) \<Rightarrow> (Inl (errorf_w ''failed to lookup registry: '' e), v1)
           | (Inr [], v1) \<Rightarrow> (Inl (NewSignValidationErr codeSubscriberNotFound ErrSubscriberNotFound), v1)
           | (Inr (s # _), v1) \<Rightarrow>
               if \<not> IsKeyStatusUsable (SubStatus s) then
                 (Inl (NewSignValidationErr codeKeyExpiredOrRevoked ErrKeyExpiredOrRevoked), v1)
               else (Inr (SigningPublicKey s, EncrPublicKey s), v1)))"

definition vault_validateParams :: "string \<Rightarrow> string \<Rightarrow> goerr option" where
  "vault_validateParams subscriberID uniqueKeyID =
     (if subscriberID = [] then Some ErrEmptySubscriberID
      else if uniqueKeyID = [] then Some ErrEmptyUniqueKeyID else None)"

definition vault_plugin :: "'v VaultLib \<Rightarrow> 'v KeyGen \<Rightarrow> 'v KeyMgr \<Rightarrow> 'v KeyManager" where
  "vault_plugin lib g km =
     \<lparr>GenerateKeyset = vault_GenerateKeyset g, InsertKeyset = vault_InsertKeyset lib km, KeysetOf = vault_Keyset lib km,
      LookupNPKeys = vault_LookupNPKeys km, DeleteKeyset = vault_DeleteKeyset lib km\<rparr>"

subsection \<open>Properties\<close>

text \<open>
  What Vault documents, with \<open>held\<close> the data at every path: \<open>Write\<close> stores data whose texts are UTF-8, \<open>Read\<close> returns the
  stored members, perhaps with others beside them, and \<open>KVv2(mount).Delete(path)\<close> deletes what is at \<open>mount/data/path\<close>.
\<close>

definition vault_behaves :: "'v VaultLib \<Rightarrow> ('v \<Rightarrow> string \<rightharpoonup> (string \<times> json) list) \<Rightarrow> bool" where
  "vault_behaves lib held \<longleftrightarrow>
     (\<forall>client v path d. json_coerce (JObj d) = JObj d \<longrightarrow>
        fst (VWrite lib client v path d) = None \<and> held (snd (VWrite lib client v path d)) = (held v)(path \<mapsto> d)) \<and>
     (\<forall>client v path. case held v path of
        None \<Rightarrow> VRead lib client v path = (Inr None, v)
      | Some d \<Rightarrow> \<exists>m. VRead lib client v path = (Inr (Some m), v) \<and> (\<forall>k. jget d k \<noteq> None \<longrightarrow> jget m k = jget d k)) \<and>
     (\<forall>client v mount path. fst (VKv2Delete lib client v mount path) = None \<and>
        held (snd (VKv2Delete lib client v mount path)) = (held v)(mount @ ''/data/'' @ path := None))"

lemma vault_write:
  "vault_behaves lib held \<Longrightarrow> json_coerce (JObj d) = JObj d \<Longrightarrow> \<exists>v'. VWrite lib client v path d = (None, v') \<and> held v' = (held v)(path \<mapsto> d)"
  by (rule exI [of _ "snd (VWrite lib client v path d)"]) (simp add: vault_behaves_def prod_eq_iff)

lemma vault_delete:
  "vault_behaves lib held \<Longrightarrow>
    \<exists>v'. VKv2Delete lib client v mount path = (None, v') \<and> held v' = (held v)(mount @ ''/data/'' @ path := None)"
  by (rule exI [of _ "snd (VKv2Delete lib client v mount path)"]) (simp add: vault_behaves_def prod_eq_iff)

lemma vault_read:
  "vault_behaves lib held \<Longrightarrow> case held v path of
     None \<Rightarrow> VRead lib client v path = (Inr None, v)
   | Some d \<Rightarrow> \<exists>m. VRead lib client v path = (Inr (Some m), v) \<and> (\<forall>k. jget d k \<noteq> None \<longrightarrow> jget m k = jget d k)"
  unfolding vault_behaves_def by blast

definition utf8_keyset :: "Keyset \<Rightarrow> bool" where
  "utf8_keyset ks \<longleftrightarrow>
     (\<forall>s \<in> {UniqueKeyID ks, SigningPrivate ks, SigningPublic ks, EncrPrivate ks, EncrPublic ks}. utf8_coerce s = s)"

text \<open>The data that \<open>InsertKeyset\<close> writes.\<close>

definition keyset_payload :: "'v KeyMgr \<Rightarrow> Keyset \<Rightarrow> (string \<times> json) list" where
  "keyset_payload km ks = (if KmKvVersion km = ''v2'' then [(''data'', JObj (key_data ks))] else key_data ks)"

lemma keyset_payload_utf8: "utf8_keyset ks \<Longrightarrow> json_coerce (JObj (keyset_payload km ks)) = JObj (keyset_payload km ks)"
  by (simp add: keyset_payload_def key_data_def utf8_keyset_def)

lemma read_key_data:
  "(\<And>k. jget (key_data ks) k \<noteq> None \<Longrightarrow> jget m k = jget (key_data ks) k) \<Longrightarrow> read_keyset m = Inr (ks\<lparr>KSubscriberID := []\<rparr>)"
  by (simp add: read_keyset_def string_member_def key_data_def jget_def)

lemma vault_Keyset_held:
  assumes "vault_behaves lib held" "KmVaultClient km = Some client" "k \<noteq> []" "held v (getSecretPath km k) = Some (keyset_payload km ks)"
  shows "vault_Keyset lib km v k = (Inr (ks\<lparr>KSubscriberID := []\<rparr>), v)"
proof -
  obtain m where read: "VRead lib client v (getSecretPath km k) = (Inr (Some m), v)"
    and m: "\<And>x. jget (keyset_payload km ks) x \<noteq> None \<Longrightarrow> jget m x = jget (keyset_payload km ks) x"
    using vault_read [OF assms(1), where v = v and path = "getSecretPath km k" and client = client] assms(4) by auto
  have "\<exists>d. secret_data km m = Inr d \<and> (\<forall>x. jget (key_data ks) x \<noteq> None \<longrightarrow> jget d x = jget (key_data ks) x)"
    using m m [of "''data''"] by (auto simp: secret_data_def keyset_payload_def jget_def split: if_splits)
  with read assms(2,3) read_key_data [of ks] show ?thesis by (auto simp: vault_Keyset_def)
qed

lemma vault_Keyset_gone:
  assumes "vault_behaves lib held" "KmVaultClient km = Some client" "k \<noteq> []" "held v (getSecretPath km k) = None"
  shows "\<exists>e. fst (vault_Keyset lib km v k) = Inl e"
  using assms(2-4) vault_read [OF assms(1), where v = v and path = "getSecretPath km k" and client = client] by (auto simp: vault_Keyset_def)

lemma getSecretPath_append: "getSecretPath km (k @ x) = getSecretPath km k @ x"
  by (simp add: getSecretPath_def)

lemma getSecretPath_inj [simp]: "getSecretPath km k = getSecretPath km k' \<longleftrightarrow> k = k'"
  by (simp add: getSecretPath_def)

lemma vault_client: "vault_New lib v registry cfg = (Inr km, v') \<Longrightarrow> \<exists>client. KmVaultClient km = Some client"
  by (auto simp: vault_New_def split: sum.splits option.splits prod.splits)

lemma vault_insert:
  assumes "vault_behaves lib held" "KmVaultClient km = Some client" "k \<noteq> []" "utf8_keyset ks"
  shows "\<exists>v'. vault_InsertKeyset lib km v k (Some ks) = (None, v') \<and> held v' = (held v)(getSecretPath km k \<mapsto> keyset_payload km ks)"
proof -
  obtain v' where "VWrite lib client v (getSecretPath km k) (keyset_payload km ks) = (None, v')"
    "held v' = (held v)(getSecretPath km k \<mapsto> keyset_payload km ks)"
    using vault_write [OF assms(1) keyset_payload_utf8 [OF assms(4)]] by metis
  with assms(2,3) show ?thesis by (simp add: vault_InsertKeyset_def keyset_payload_def)
qed

text \<open>C31: Deletion of key sets from Vault. After a key set was stored under an id, the id yields it, without its
  subscriber id, and DeleteKeyset of the id reports success but leaves it there: the id still yields the key set.
  What it deletes, for both versions of the secrets engine, is the key set of the id k/data/k, whatever k is.\<close>

theorem vault_delete_misses:
  assumes "vault_behaves lib held" "vault_New lib v0 registry cfg = (Inr km, v1)" "k \<noteq> []" "utf8_keyset ks"
    and "vault_InsertKeyset lib km v k (Some ks) = (err, v2)" "vault_DeleteKeyset lib km v2 k = (err', v3)"
  shows "err = None \<and> err' = None \<and> vault_Keyset lib km v2 k = (Inr (ks\<lparr>KSubscriberID := []\<rparr>), v2) \<and>
    vault_Keyset lib km v3 k = (Inr (ks\<lparr>KSubscriberID := []\<rparr>), v3) \<and> (\<exists>e. fst (vault_Keyset lib km v3 (k @ ''/data/'' @ k)) = Inl e)"
proof -
  obtain client where client: "KmVaultClient km = Some client" using vault_client [OF assms(2)] by blast
  have ins: "err = None" "held v2 = (held v)(getSecretPath km k \<mapsto> keyset_payload km ks)"
    using vault_insert [OF assms(1) client assms(3,4), of v] assms(5) by auto
  have del: "err' = None" "held v3 = (held v2)(getSecretPath km (k @ ''/data/'' @ k) := None)"
    using vault_delete [OF assms(1), of client v2 "getSecretPath km k" k] assms(3,6) client
    by (auto simp: vault_DeleteKeyset_def getSecretPath_append)
  have "held v3 (getSecretPath km k) = Some (keyset_payload km ks)" using ins(2) del(2) by simp
  with vault_Keyset_held [OF assms(1) client assms(3)] ins(2) have
    "vault_Keyset lib km v2 k = (Inr (ks\<lparr>KSubscriberID := []\<rparr>), v2)" "vault_Keyset lib km v3 k = (Inr (ks\<lparr>KSubscriberID := []\<rparr>), v3)"
    by simp_all
  moreover have "\<exists>e. fst (vault_Keyset lib km v3 (k @ ''/data/'' @ k)) = Inl e"
    by (rule vault_Keyset_gone [OF assms(1) client]) (simp_all add: del(2))
  ultimately show ?thesis using ins(1) del(1) by blast
qed

subsection \<open>Examples\<close>

text \<open>A Vault that is a map.\<close>

definition sample_vault :: "(string \<rightharpoonup> (string \<times> json) list) VaultLib" where
  "sample_vault =
     \<lparr>VGetenv = (\<lambda>s. s), VToLower = (\<lambda>s. s), VNewClient = (\<lambda>a. None), VLogin = (\<lambda>a v r s. (Inr (Some ''token''), v)),
      VWrite = (\<lambda>c v p d. (None, v(p \<mapsto> d))), VRead = (\<lambda>c v p. (Inr (v p), v)),
      VKv2Delete = (\<lambda>c v m p. (None, v(m @ ''/data/'' @ p := None)))\<rparr>"

lemma sample_vault_behaves: "vault_behaves sample_vault (\<lambda>v. v)"
  by (auto simp: vault_behaves_def sample_vault_def split: option.splits)

definition vault_registry :: "'v RegistryLookup" where
  "vault_registry = \<lparr>Lookup = (\<lambda>w ctx q. (Inr [], w))\<rparr>"

definition sample_vault_km :: "(string \<rightharpoonup> (string \<times> json) list) KeyMgr" where
  "sample_vault_km = \<lparr>KmVaultClient = Some \<lparr>VtAddress = ''http://vault'', VtToken = ''token''\<rparr>, KmRegistry = Some vault_registry,
     KmKvVersion = ''v2'', KmSecretPath = []\<rparr>"

lemma sample_vault_New:
  "vault_New sample_vault v (Some vault_registry) \<lparr>VgAddr = ''http://vault'', VgKVVersion = ''v2''\<rparr> = (Inr sample_vault_km, v)"
  by (simp add: vault_New_def vault_ValidateCfg_def GetVaultClient_def sample_vault_def sample_vault_km_def Let_def)

definition vault_keyset :: Keyset where
  "vault_keyset = \<lparr>KSubscriberID = ''bap'', UniqueKeyID = ''k1'', SigningPrivate = ''s'', SigningPublic = ''p'', EncrPrivate = ''x'', EncrPublic = ''y''\<rparr>"

theorem vault_delete_misses_witness:
  "fst (vault_Keyset sample_vault sample_vault_km
     (snd (vault_DeleteKeyset sample_vault sample_vault_km (snd (vault_InsertKeyset sample_vault sample_vault_km Map.empty ''bap'' (Some vault_keyset))) ''bap''))
     ''bap'') = Inr (vault_keyset\<lparr>KSubscriberID := []\<rparr>)"
proof -
  have "utf8_keyset vault_keyset" unfolding utf8_keyset_def vault_keyset_def by code_simp
  then show ?thesis
    using vault_delete_misses [OF sample_vault_behaves sample_vault_New _ _ prod.collapse [symmetric] prod.collapse [symmetric],
        where k = "''bap''" and ks = vault_keyset and v = Map.empty]
    by simp
qed

end
