(* ===== verification/Spec2Isabelle.thy ===== *)
theory Spec2Isabelle
  imports Handler_Init Router_Rules Preprocessor Key_Manager Payload_Store Crawler_Queue Patched_Body Manifest_Trust Trusted_Keys Vc_Trust Opa_Trust Encryption Audit_Fields Schema_Trust Json_Schema Vault_Keys
begin

text \<open>
  Verification of the beckn-onix adapter, a Go gateway that signs, validates, routes and mediates the
  messages of a Beckn network.

  \<^bold>\<open>The program.\<close> A module of the adapter is an HTTP handler (\<open>core/module/handler\<close>) behind a chain of
  middleware. The handler turns a request into a step context, runs the configured steps in order
  (validate signature, check schema, mediate schema versions, add route, sign, store payload and so on),
  and then answers at once, proxies the request to a URL or publishes it. Everything else is a
  plugin (\<open>pkg/plugin/implementation\<close>) behind an interface of \<open>pkg/plugin/definition\<close>: the signer and
  the signature validator, the key manager on top of a registry client (the plain registry or DeDi), the
  router, the cache and the payload store on top of it, the schema version mediator on top of a
  manifest loader and a translator, the validator of verifiable credentials, the policy checker, the schema validator, the encrypter and decrypter, the catalog crawler with
  its Postgres work queue. Audit logs take their payloads from \<open>pkg/telemetry\<close>.

  \<^bold>\<open>Conventions.\<close> A Go string or byte slice is a \<open>string\<close> of bytes. The outside world is a type
  parameter \<open>'w\<close> that operations take and return; an interface value is a record of its methods over
  \<open>'w\<close>. An error is a value of \<open>goerr\<close>, the chain of wrapped errors of \<open>error.go\<close>; a fallible
  operation returns \<open>goerr + 'a\<close> or \<open>goerr option\<close>. A panic is the error \<open>GoPanic\<close>, which no modelled
  code catches. A struct is a record with the fields of the source, prefixed where names clash.
  64-bit arithmetic is written out where it can wrap (timestamps). Loops are
  recursion over their data or with a measure that is proved to decrease, so there is no fuel; only the loops over the
  blocks of a cipher, whose step comes from the cipher, are partial functions, and that they return is a theorem.

  \<^bold>\<open>Library layer.\<close> \<open>Go_Strings\<close> is the prelude (package \<open>strings\<close>, \<open>strconv\<close>, shared lemmas and
  the simp collections); \<open>Go_Base64\<close> and \<open>Go_Json\<close> model \<open>encoding/base64\<close> and \<open>encoding/json\<close>, with
  the round trip of the latter in \<open>Json_Roundtrip\<close>; \<open>Json_Values\<close> has the decoding into \<open>any\<close> and into
  raw messages, \<open>Raw_Json\<close> shows that raw messages are texts of the decoded members and survive
  compaction.

  \<^bold>\<open>Components.\<close>
  \<^item> \<open>Beckn_Model\<close> and \<open>Plugin_Interfaces\<close>: \<open>pkg/model/model.go\<close>, \<open>pkg/model/error.go\<close> and the
    interfaces.
  \<^item> \<open>Signing\<close>, \<open>Auth_Header\<close>, \<open>Steps\<close>, \<open>Sign_Protocol\<close>: \<open>signer.go\<close>, \<open>signvalidator.go\<close> and
    \<open>step.go\<close>. The locale \<open>signature_scheme\<close> is the contract between a signer and a validator,
    interpreted for the two plugins. The lemmas show that an accepted request is authentic, that
    what the signing step signs the validation step accepts, that signing strings bind their parts,
    and what the timestamp window admits, wrap-around included.
  \<^item> \<open>Response\<close>, \<open>Handler\<close>, \<open>Handler_Init\<close>: \<open>responsestep.go\<close>, \<open>stdHandler.go\<close>,
    \<open>step_instrumentor.go\<close>, \<open>config.go\<close>, \<open>module.go\<close>. \<open>ServeHTTP\<close> with its pipeline, proxy and
    answers, and the construction of handlers and modules. Every request is answered, signatures
    cover the bytes that are sent, the pipeline stops at the first error. The locale \<open>framed_step\<close>
    states what steps keep of a context, \<open>sound_router\<close> what routing relies on.
  \<^item> \<open>Router_Rules\<close>: \<open>router.go\<close>; the rule table refines the list of rules.
  \<^item> \<open>Preprocessor\<close>: \<open>reqpreprocessor.go\<close>. \<open>Key_Manager\<close>: \<open>simplekeymanager.go\<close>, with the locale
    \<open>keyset_store\<close>.
  \<^item> \<open>Payload_Store\<close>: \<open>cache.go\<close> and \<open>payloadstore.go\<close>; the store over Redis refines a map of entries and
    a map of indexes (locale \<open>message_store\<close>).
  \<^item> \<open>Crawler_Queue\<close>: \<open>catalogcrawler/internal/store\<close>, each SQL statement a function on the tables and
    the queue a step relation; its invariant, and the exclusiveness of claims through the locale
    \<open>lease_queue\<close>.
  \<^item> \<open>Node_Manifest\<close>: \<open>pkg/model/manifest.go\<close>, versions and the validation of manifests.
  \<^item> \<open>Json_Paths\<close>, \<open>Artifact_Cache\<close>, \<open>Schema_Mediator\<close>, \<open>Payload_Walk\<close>, \<open>Mediation\<close>:
    \<open>schemaversionmediator.go\<close>. Path access obeys the laws of a lens (locale \<open>value_paths\<close>), the
    artifact cache is bounded in every reachable state, the walk and the paths agree, and \<open>Mediate\<close>
    translates exactly the incompatible objects or leaves the request alone; in \<open>Patched_Body\<close>, the new body
    keeps the members of the envelope.
  \<^item> \<open>Cache_Contract\<close>: the locale \<open>string_cache\<close> of what the plugins below rely on in a cache,
    interpreted for the Redis cache.
  \<^item> \<open>Manifest_Loader\<close>, \<open>Manifest_Trust\<close>: \<open>manifestloader.go\<close> and its entry point; with a cache that meets the
    contract (locale \<open>manifest_cache\<close>) only verified manifests are ever returned.
  \<^item> \<open>Subscription_Json\<close>, \<open>Dedi_Registry\<close>, \<open>Dedi_Trust\<close>, \<open>Registry_Client\<close>, \<open>Trusted_Keys\<close>: \<open>dediregistry.go\<close>,
    \<open>registry.go\<close> and \<open>registrykey.go\<close> with their entry points. Key look-ups through the DeDi client and its cache
    (locales \<open>lasting_cache\<close> and \<open>dedi_client\<close>) return registered keys of admitted subscribers, and so a request that the validation
    step accepts is signed by one; the plain client confuses subscribers in its cache.
  \<^item> \<open>Vc_Config\<close>, \<open>Base58\<close>, \<open>Vc_Keys\<close>, \<open>Vc_Status\<close>, \<open>Vc_Validator\<close>, \<open>Vc_Trust\<close>: \<open>vcvalidator.go\<close> and \<open>verify.go\<close>:
    settings and dial guard, base58, DID resolution, revocation, and the validateVC step. The base58 decoder and the
    status bit agree with independent definitions, the guard refuses exactly a list of networks, a passing step has
    verified every embedded credential; the inputs that panic and the two ways around the proof are exact as well.
  \<^item> \<open>Opa_Config\<close>, \<open>Opa_Evaluator\<close>, \<open>Opa_Enforcer\<close>, \<open>Opa_Trust\<close>: \<open>opapolicychecker\<close>: settings and policy files, sources and
    their verification, the reading of the engine's answers, policies from manifests, the refresh loop as a step
    relation and the checkPolicy step. In every reachable state (locale \<open>policy_world\<close>) active policies are compiled from
    verified modules, those of manifests from authentic ones; the condition for passing is exact.
  \<^item> \<open>Extended_Schema\<close>, \<open>Openapi_Validator\<close>, \<open>Schema_Trust\<close>: \<open>schemav2validator\<close>: the index of actions over a primary and
    auxiliary documents, its reloading, \<open>Validate\<close>, and the validation of JSON-LD objects with its cache. The locale
    \<open>schema_cache_law\<close> is what the validator relies on in the cache; it is interpreted for the origin of the cached
    documents, for their number and for the preloaded files. Accepted objects passed a schema from a permitted place,
    the cache is bounded, and auxiliary documents never replace a primary action, in every reachable state.
  \<^item> \<open>Json_Schema\<close>: \<open>schemavalidator.go\<close>; accepted requests pass a schema of the configured directory with the key of the
    request.
  \<^item> \<open>Vault_Keys\<close>: \<open>keymanager.go\<close>; stored key sets are found again, and the deletion misses them.
  \<^item> \<open>Encryption\<close>: \<open>encrypter.go\<close> and \<open>decrypter.go\<close>; both return on every input, and decryption reverses encryption.
  \<^item> \<open>Audit_Fields\<close>: \<open>audit_fields.go\<close> and \<open>pii_mask.go\<close>; masked and dropped members leave no trace in the payload, while the
    selective mode lets everything through for an action without a list.
  \<^item> This theory: properties of the signing steps over the payload store and of signed answers.

  \<^bold>\<open>Arguments of the model.\<close> Ed25519 and BLAKE2b (record \<open>Crypto\<close>, with correctness as the hypothesis
  \<open>ed25519_correct\<close>), the clock, the Redis client (hypothesis \<open>redis_behaves\<close>), gzip and the text of
  times in the payload store (\<open>Codec\<close>), \<open>url.Parse\<close>, PEM and \<open>time.ParseDuration\<close>, RFC 3339 times,
  the text of \<open>float64\<close>, the order of map iteration, HTTP clients and transports, the translator, the
  YAML decoder, the plugin manager, the message broker, the check of detached signatures and SHA-256 in the manifest
  loader, \<open>strings.EqualFold\<close> and \<open>strings.ToLower\<close>, the \<open>Timeout\<close> methods of foreign errors, and the JWK, JWS, curve
  and IP address libraries of the VC validator, the Rego engine, the bundle reader and the file system of the policy
  checker (record \<open>OpaEnv\<close>), the OpenAPI library (record \<open>OpenApi\<close>, with schemas as far as the code reads them), and X25519,
  AES and PKCS#7 padding (record \<open>BoxLib\<close>), the JSON schema engine, and Vault (hypothesis \<open>vault_behaves\<close>). The semantics of the SQL statements is
  written out with \<open>now()\<close>, generated ids and database errors as arguments.

  \<^bold>\<open>Not modelled.\<close> Logging, metrics and tracing have no effect on requests. The plugin manager loads
  shared objects. The request mapper and the
  JSONata translator are built around a third-party engine; the RabbitMQ publisher and the catalog
  publisher are clients of other services. Concurrency is modelled where the code relies on it (the
  lease queue, the critical sections of the artifact cache), not in general.

  \<^bold>\<open>Plan.\<close> What is left are the plugin manager, the scheduler of the catalog crawler, the catalog publisher and the request
  mapper.
\<close>

section \<open>Properties that span components\<close>

subsection \<open>Signed callbacks\<close>

lemma lookupRequestSignature_held:
  assumes "store_over s R live" "store_inv s live w" and "find_entry s live w (MessageID ctx) = Some e"
    and "extractBecknAction (Body ctx) = ''on_'' @ EAction e"
  shows "lookupRequestSignature (Some (store_plugin s)) w ctx = (Inr (ESignature e), w)"
  using assms(3,4)
  by (simp add: lookupRequestSignature_def store_plugin_def get_refines [OF assms(1,2)] HasPrefix_def TrimPrefix_def Let_def)

text \<open>The key material of the examples, in a world that is a Redis server.\<close>

definition sample_redis_km :: "(string \<rightharpoonup> string) KeyManager" where
  "sample_redis_km =
     \<lparr>GenerateKeyset = (\<lambda>w. (Inr sample_keyset, w)), InsertKeyset = (\<lambda>w k ks. (None, w)),
      KeysetOf = (\<lambda>w k. (Inr sample_keyset, w)),
      LookupNPKeys = (\<lambda>w ctx s k. (Inr (b64_encode sample_seed, []), w)),
      DeleteKeyset = (\<lambda>w k. (None, w))\<rparr>"

lemma sample_redis_km_simps [simp]:
  "KeysetOf sample_redis_km w k = (Inr sample_keyset, w)"
  "LookupNPKeys sample_redis_km w ctx i k = (Inr (b64_encode sample_seed, []), w)"
  by (simp_all add: sample_redis_km_def)



text \<open>C4: Round trip of the signature on a synchronous answer. For a v2 request whose handler has taken the
  signature out of the caller's Authorization header, the answer step signs the ack body that
  the handler sends, and the caller's validator accepts the \<open>Signature\<close> header for that body against
  the signature in the Authorization header it sent itself.\<close>

theorem ack_signature_accepted:
  assumes crypto: "ed25519_correct C" "length seed = 32"
    and ctx: "IsAtLeastV2 (ProtocolVersion ctx)" "SubID ctx \<noteq> []" "InboundAuthSignature ctx = extractAuthSignature A"
    and keys: "KeysetOf km w (SubID ctx) = (Inr ks, w1)" "SigningPrivate ks = b64_encode seed"
    and times: "sclock w1 = (t1, w2)" "sclock w2 = (t2, w3)" "int64 (t1 div second)" "int64 ((t2 + five_minutes) div second)"
      "checkTimestampWindow [] (t1 div second) ((t2 + five_minutes) div second) tol (fst (cclock v)) = None"
    and ids: "clean_id (SubID ctx)" "clean_id (UniqueKeyID ks)"
  shows "\<exists>ctx' w'. ackSigner_RunOnResponse sclock \<lparr>AsSigner = signer_plugin C, AsKm = km\<rparr> w ctx None = (None, ctx', None, w') \<and>
    fst (ValidateAck (validator_plugin C tol cclock) v cctx (buildAckBody (ProtocolVersion ctx) (MessageID ctx))
      (header_Get (RespHeader ctx') ''Signature'') (extractAuthSignature A) (b64_encode (ed25519_public C seed)) False) = None"
proof -
  let ?c = "t1 div second" and ?e = "(t2 + five_minutes) div second" and ?pk = "b64_encode (ed25519_public C seed)"
  let ?body = "buildAckBody (ProtocolVersion ctx) (MessageID ctx)"
  have pair: "key_pair C (SigningPrivate ks) ?pk" using key_pair_seed [OF crypto] keys(2) by simp
  then obtain s where s: "SignAck (signer_plugin C) w3 ?body (extractAuthSignature A) (SigningPrivate ks) ?c ?e = (Inr s, w3)"
    using ed25519.sign_succeeds [OF pair, of w3 ?body "extractAuthSignature A" ?c ?e] by blast
  let ?h = "buildSignatureHeader (SubID ctx) (UniqueKeyID ks) ?c ?e s"
  have "ackSigner_RunOnResponse sclock \<lparr>AsSigner = signer_plugin C, AsKm = km\<rparr> w ctx None =
      (None, set_resp_header ''Signature'' ?h ctx, None, w3)"
    using ctx keys(1) times(1,2) s
    by (simp add: ackSigner_RunOnResponse_def signBodyAndSetHeader_def computeSigHeader_def Let_def)
  moreover have "fst (ValidateAck (validator_plugin C tol cclock) v cctx ?body ?h (extractAuthSignature A) ?pk False) = None"
    unfolding buildSignatureHeader_generate [of "''x''", simplified]
    by (rule ed25519.accept_signed [OF pair s ids times(3,4)]) (use times(5) in simp_all)
  ultimately show ?thesis by (auto simp: set_resp_header_def header_Get_def)
qed

theorem ack_signature_accepted_witness:
  "\<exists>ctx' w'. ackSigner_RunOnResponse (\<lambda>w. (0, w)) \<lparr>AsSigner = signer_plugin sample_crypto, AsKm = sample_km\<rparr> () sample_ctx None =
      (None, ctx', None, w') \<and>
    fst (ValidateAck (validator_plugin sample_crypto 0 (\<lambda>w. (0, w))) () sample_ctx
      (buildAckBody ''2.0.0'' ''m1'') (header_Get (RespHeader ctx') ''Signature'') [] (b64_encode sample_seed) False) = None"
proof -
  have v: "IsAtLeastV2 (ProtocolVersion sample_ctx)" "extractAuthSignature [] = []" "InboundAuthSignature sample_ctx = []"
    "ProtocolVersion sample_ctx = ''2.0.0''" "MessageID sample_ctx = ''m1''"
    by code_simp+
  show ?thesis
    using ack_signature_accepted [OF sample_crypto_correct sample_seed_length, of sample_ctx "[]" sample_km "()" sample_keyset "()"
        "\<lambda>w. (0, w)" 0 "()" 0 "()" 0 "\<lambda>w. (0, w)" "()" sample_ctx]
    using v(1) by (simp add: v sample_checks)
qed

end
